(* ===== verification/Prelude.thy ===== *)
theory Prelude
  imports Main "HOL-Library.AList" "HOL-Library.Sublist" "HOL-Library.Multiset"
begin

text \<open>
  What the components share: the JavaScript collections (\<open>Map\<close>, \<open>Set\<close>,
  \<open>Array.prototype.sort\<close>), the string methods the dashboard uses, results that
  may be a thrown error, and the collections of rewrite rules the component proofs use.

  Strings are HOL \<open>string\<close>s holding the UTF-8 bytes of the source's strings. Comparison,
  concatenation, \<open>split\<close> on an ASCII separator, \<open>startsWith\<close> and \<open>indexOf\<close> of an ASCII
  character commute with that encoding; \<open>trim\<close> strips the ASCII white space only (a
  non-ASCII space such as U+3000 stays), and \<open>length\<close> and \<open>slice\<close> count bytes, which are the
  code units of the source for ASCII text.
\<close>

named_theorems js_collections
named_theorems js_strings
named_theorems result_simps

section \<open>Thrown errors\<close>

text \<open>A computation that may \<open>throw new Error(message)\<close>: \<open>Inl\<close> carries the message.\<close>

type_synonym 'a result = "string + 'a"

definition throw :: "string \<Rightarrow> 'a result" where
  "throw msg = Inl msg"

definition return :: "'a \<Rightarrow> 'a result" where
  "return x = Inr x"

fun bind_result :: "'a result \<Rightarrow> ('a \<Rightarrow> 'b result) \<Rightarrow> 'b result" where
  "bind_result (Inl e) f = Inl e"
| "bind_result (Inr x) f = f x"

lemma bind_result_Inr_iff [result_simps]:
  "bind_result m f = Inr y \<longleftrightarrow> (\<exists>x. m = Inr x \<and> f x = Inr y)"
  by (cases m) auto

lemma bind_result_Inl_iff [result_simps]:
  "bind_result m f = Inl e \<longleftrightarrow> m = Inl e \<or> (\<exists>x. m = Inr x \<and> f x = Inl e)"
  by (cases m) auto

declare throw_def [result_simps] return_def [result_simps]

text \<open>\<open>xs.map(f)\<close> where \<open>f\<close> may throw: the first error wins.\<close>

fun map_result :: "('a \<Rightarrow> 'b result) \<Rightarrow> 'a list \<Rightarrow> 'b list result" where
  "map_result f [] = Inr []"
| "map_result f (x # xs) = bind_result (f x) (\<lambda>y. bind_result (map_result f xs) (\<lambda>ys. Inr (y # ys)))"

lemma map_result_Inr_iff:
  "map_result f xs = Inr ys \<longleftrightarrow> list_all2 (\<lambda>x y. f x = Inr y) xs ys"
  by (induction xs arbitrary: ys) (auto simp: result_simps list_all2_Cons1)

lemma map_result_Inr_length: "map_result f xs = Inr ys \<Longrightarrow> length ys = length xs"
  by (auto simp: map_result_Inr_iff dest: list_all2_lengthD)

lemma map_result_Inr_set:
  assumes "map_result f xs = Inr ys" and "y \<in> set ys"
  shows "\<exists>x \<in> set xs. f x = Inr y"
proof -
  from assms(1) have "list_all2 (\<lambda>x y. f x = Inr y) xs ys"
    by (simp add: map_result_Inr_iff)
  then show ?thesis using assms(2) by (induction rule: list_all2_induct) auto
qed

text \<open>\<open>xs.map((x, index) => f(x))\<close> ignores the index.\<close>

lemma map_snd_of_enumerate [simp]: "map (\<lambda>p. f (snd p)) (enumerate n xs) = map f xs"
  by (induction xs arbitrary: n) simp_all

lemma snd_set_enumerate: "p \<in> set (enumerate n xs) \<Longrightarrow> snd p \<in> set xs"
  by (metis image_eqI image_set map_snd_enumerate)

section \<open>Set: insertion order, no duplicates\<close>

definition set_add :: "'a \<Rightarrow> 'a list \<Rightarrow> 'a list" where
  "set_add x s = (if x \<in> set s then s else s @ [x])"

definition new_Set :: "'a list \<Rightarrow> 'a list" where
  "new_Set xs = fold set_add xs []"

lemma set_set_add [simp]: "set (set_add x s) = insert x (set s)"
  by (auto simp: set_add_def)

lemma distinct_set_add: "distinct s \<Longrightarrow> distinct (set_add x s)"
  by (auto simp: set_add_def)

lemma set_fold_set_add: "set (fold set_add xs s) = set xs \<union> set s"
  by (induction xs arbitrary: s) auto

lemma distinct_fold_set_add: "distinct s \<Longrightarrow> distinct (fold set_add xs s)"
  by (induction xs arbitrary: s) (auto simp: distinct_set_add)

lemma set_new_Set [simp, js_collections]: "set (new_Set xs) = set xs"
  by (simp add: new_Set_def set_fold_set_add)

lemma distinct_new_Set [simp, js_collections]: "distinct (new_Set xs)"
  by (simp add: new_Set_def distinct_fold_set_add)

lemma fold_set_add_distinct:
  "distinct xs \<Longrightarrow> set xs \<inter> set s = {} \<Longrightarrow> fold set_add xs s = s @ xs"
  by (induction xs arbitrary: s) (auto simp: set_add_def)

lemma new_Set_id: "distinct xs \<Longrightarrow> new_Set xs = xs"
  by (simp add: new_Set_def fold_set_add_distinct)

section \<open>Map: an association list in insertion order\<close>

text \<open>
  \<open>m.set(k, v)\<close> overwrites in place and appends a new key, which is \<open>AList.update\<close>;
  \<open>m.delete(k)\<close> is \<open>AList.delete\<close>, \<open>m.get(k)\<close> is \<open>map_of\<close>, and iteration is the list's order.
\<close>

type_synonym ('k, 'v) jsmap = "('k \<times> 'v) list"

abbreviation map_get :: "('k, 'v) jsmap \<Rightarrow> 'k \<Rightarrow> 'v option" where
  "map_get m k \<equiv> map_of m k"

abbreviation map_set :: "'k \<Rightarrow> 'v \<Rightarrow> ('k, 'v) jsmap \<Rightarrow> ('k, 'v) jsmap" where
  "map_set k v m \<equiv> AList.update k v m"

abbreviation map_delete :: "'k \<Rightarrow> ('k, 'v) jsmap \<Rightarrow> ('k, 'v) jsmap" where
  "map_delete k m \<equiv> AList.delete k m"

definition new_Map :: "('k \<times> 'v) list \<Rightarrow> ('k, 'v) jsmap" where
  "new_Map ps = fold (\<lambda>(k, v). map_set k v) ps []"

definition map_keys :: "('k, 'v) jsmap \<Rightarrow> 'k list" where
  "map_keys m = map fst m"

lemma map_get_set [js_collections]:
  "map_get (map_set k v m) k' = (if k' = k then Some v else map_get m k')"
  by (simp add: update_conv')

lemma map_get_delete [js_collections]:
  "map_get (map_delete k m) k' = (if k' = k then None else map_get m k')"
  by (simp add: delete_conv')

lemma distinct_map_set: "distinct (map fst m) \<Longrightarrow> distinct (map fst (map_set k v m))"
  by (rule distinct_update)

lemma keys_map_set: "fst ` set (map_set k v m) = insert k (fst ` set m)"
  by (simp add: dom_update)

lemma new_Map_gen:
  "map_get (fold (\<lambda>(k, v). map_set k v) ps m) k =
     (case map_of (rev ps) k of None \<Rightarrow> map_get m k | Some v \<Rightarrow> Some v)"
  by (induction ps arbitrary: m) (auto simp: js_collections split: option.splits)

lemma map_get_new_Map: "map_get (new_Map ps) k = map_of (rev ps) k"
  by (simp add: new_Map_def new_Map_gen split: option.splits)

lemma keys_fold_map_set:
  "fst ` set (fold (\<lambda>(k, v). map_set k v) ps m) = fst ` set ps \<union> fst ` set m"
  by (induction ps arbitrary: m) (force simp: dom_update)+

lemma distinct_fold_map_set:
  "distinct (map fst m) \<Longrightarrow> distinct (map fst (fold (\<lambda>(k, v). map_set k v) ps m))"
  by (induction ps arbitrary: m) (auto intro: distinct_update)

lemma distinct_new_Map [simp]: "distinct (map fst (new_Map ps))"
  by (simp add: new_Map_def distinct_fold_map_set)

lemma keys_new_Map [simp]: "fst ` set (new_Map ps) = fst ` set ps"
  by (simp add: new_Map_def keys_fold_map_set)

lemma map_set_fresh: "k \<notin> fst ` set m \<Longrightarrow> map_set k v m = m @ [(k, v)]"
  by (induction m) auto

lemma fold_map_set_distinct:
  "distinct (map fst ps) \<Longrightarrow> fst ` set ps \<inter> fst ` set m = {} \<Longrightarrow>
     fold (\<lambda>(k, v). map_set k v) ps m = m @ ps"
proof (induction ps arbitrary: m)
  case (Cons p ps)
  obtain k v where p: "p = (k, v)" by (cases p)
  with Cons.prems have "map_set k v m = m @ [(k, v)]" by (intro map_set_fresh) auto
  with Cons p show ?case by auto
qed simp

lemma new_Map_id: "distinct (map fst ps) \<Longrightarrow> new_Map ps = ps"
  by (simp add: new_Map_def fold_map_set_distinct)

section \<open>Array.prototype.sort: stable, by a comparator\<close>

text \<open>
  \<open>gt x y\<close> says that the comparator returned a positive number for \<open>(x, y)\<close> (a NaN result
  counts as equal). For a consistent comparator ECMAScript fixes the result: the stable sorted
  permutation, which insertion from the right computes.
\<close>

fun sort_insert :: "('a \<Rightarrow> 'a \<Rightarrow> bool) \<Rightarrow> 'a \<Rightarrow> 'a list \<Rightarrow> 'a list" where
  "sort_insert gt x [] = [x]"
| "sort_insert gt x (y # ys) = (if gt x y then y # sort_insert gt x ys else x # y # ys)"

definition js_sort :: "('a \<Rightarrow> 'a \<Rightarrow> bool) \<Rightarrow> 'a list \<Rightarrow> 'a list" where
  "js_sort gt xs = foldr (sort_insert gt) xs []"

lemma js_sort_Nil [simp]: "js_sort gt [] = []"
  by (simp add: js_sort_def)

lemma js_sort_Cons: "js_sort gt (x # xs) = sort_insert gt x (js_sort gt xs)"
  by (simp add: js_sort_def)

lemma mset_sort_insert [simp]: "mset (sort_insert gt x xs) = add_mset x (mset xs)"
  by (induction xs) auto

lemma mset_js_sort [simp, js_collections]: "mset (js_sort gt xs) = mset xs"
  by (induction xs) (auto simp: js_sort_Cons)

lemma set_js_sort [simp, js_collections]: "set (js_sort gt xs) = set xs"
  by (metis mset_js_sort set_mset_mset)

lemma length_js_sort [simp, js_collections]: "length (js_sort gt xs) = length xs"
  by (metis mset_js_sort size_mset)

lemma distinct_js_sort [simp]: "distinct (js_sort gt xs) = distinct xs"
  by (metis mset_js_sort mset_eq_imp_distinct_iff)

lemma sort_insert_cong:
  "(\<And>y. y \<in> set ys \<Longrightarrow> gt x y = gt' x y) \<Longrightarrow> sort_insert gt x ys = sort_insert gt' x ys"
  by (induction ys) auto

lemma js_sort_cong:
  "(\<And>x y. x \<in> set xs \<Longrightarrow> y \<in> set xs \<Longrightarrow> gt x y = gt' x y) \<Longrightarrow> js_sort gt xs = js_sort gt' xs"
  by (induction xs) (auto simp: js_sort_Cons intro!: sort_insert_cong)

text \<open>The contract of a consistent comparator: a strict weak order.\<close>

locale comparator =
  fixes gt :: "'a \<Rightarrow> 'a \<Rightarrow> bool"
  assumes gt_asym: "gt x y \<Longrightarrow> \<not> gt y x"
    and not_gt_trans: "\<not> gt x y \<Longrightarrow> \<not> gt y z \<Longrightarrow> \<not> gt x z"
begin

lemma sorted_sort_insert:
  "sorted_wrt (\<lambda>x y. \<not> gt x y) xs \<Longrightarrow> sorted_wrt (\<lambda>x y. \<not> gt x y) (sort_insert gt x xs)"
proof (induction xs)
  case (Cons y ys)
  have set_ins: "set (sort_insert gt x ys) = insert x (set ys)"
    by (metis mset_sort_insert set_mset_add_mset_insert set_mset_mset)
  show ?case
  proof (cases "gt x y")
    case True
    with Cons set_ins show ?thesis by (auto dest: gt_asym)
  next
    case False
    have "\<not> gt x z" if "z \<in> set ys" for z
      using not_gt_trans [OF False, of z] that Cons.prems by auto
    with False Cons.prems show ?thesis by auto
  qed
qed simp

lemma sorted_js_sort: "sorted_wrt (\<lambda>x y. \<not> gt x y) (js_sort gt xs)"
  by (induction xs) (auto simp: js_sort_Cons sorted_sort_insert)

text \<open>Stability: elements the comparator does not separate keep their order.\<close>

lemma filter_sort_insert:
  assumes "sorted_wrt (\<lambda>x y. \<not> gt x y) xs"
    and "\<And>y. y \<in> set xs \<Longrightarrow> P x \<Longrightarrow> P y \<Longrightarrow> \<not> gt x y"
  shows "filter P (sort_insert gt x xs) = (if P x then x # filter P xs else filter P xs)"
  using assms by (induction xs) auto

lemma stable_js_sort:
  assumes "\<And>x y. P x \<Longrightarrow> P y \<Longrightarrow> \<not> gt x y"
  shows "filter P (js_sort gt xs) = filter P xs"
  using assms by (induction xs) (auto simp: js_sort_Cons filter_sort_insert sorted_js_sort)

text \<open>A list that is already in order is left as it is.\<close>

lemma js_sort_sorted: "sorted_wrt (\<lambda>x y. \<not> gt x y) xs \<Longrightarrow> js_sort gt xs = xs"
proof (induction xs)
  case (Cons x xs)
  then have "js_sort gt xs = xs" by simp
  with Cons.prems show ?case by (cases xs) (auto simp: js_sort_Cons)
qed simp

lemma js_sort_idem: "js_sort gt (js_sort gt xs) = js_sort gt xs"
  by (rule js_sort_sorted) (rule sorted_js_sort)

end

text \<open>A comparator composed with a key is one again.\<close>

lemma comparator_key:
  assumes "comparator gt"
  shows "comparator (\<lambda>x y. gt (f x) (f y))"
  using assms unfolding comparator_def by blast

lemma comparator_flip:
  assumes "comparator gt"
  shows "comparator (\<lambda>x y. gt y x)"
  using assms unfolding comparator_def by blast

section \<open>String methods\<close>

text \<open>A string literal that is not ASCII, by its UTF-8 bytes.\<close>

definition utf8 :: "nat list \<Rightarrow> string" where
  "utf8 bytes = map char_of bytes"

definition is_space :: "char \<Rightarrow> bool" where
  "is_space c \<longleftrightarrow> c \<in> {CHR '' '', CHR 0x09, CHR 0x0A, CHR 0x0B, CHR 0x0C, CHR 0x0D}"

definition trim :: "string \<Rightarrow> string" where
  "trim s = rev (dropWhile is_space (rev (dropWhile is_space s)))"

lemma dropWhile_rev_dropWhile:
  "dropWhile P (rev (dropWhile P (rev (dropWhile P xs)))) = rev (dropWhile P (rev (dropWhile P xs)))"
proof -
  let ?ys = "dropWhile P xs"
  show ?thesis
  proof (cases ?ys)
    case (Cons y ys)
    then have y: "\<not> P y" by (simp add: dropWhile_eq_Cons_conv)
    then have "dropWhile P (rev ys @ [y]) = dropWhile P (rev ys) @ [y]"
      by (induction "rev ys" arbitrary: ys) (auto simp: dropWhile_append)
    with Cons y show ?thesis by simp
  next
    case Nil
    then show ?thesis by (simp only: Nil) simp
  qed
qed

lemma trim_idem [simp, js_strings]: "trim (trim s) = trim s"
  by (simp add: trim_def dropWhile_rev_dropWhile)

lemma trim_Nil [simp]: "trim [] = []"
  by (simp add: trim_def)

text \<open>\<open>s.split(sep)\<close> for a one-character separator: never empty, and the inverse of \<open>join\<close>.\<close>

fun split_on :: "(char \<Rightarrow> bool) \<Rightarrow> string \<Rightarrow> string list" where
  "split_on P [] = [[]]"
| "split_on P (c # cs) =
     (if P c then [] # split_on P cs
      else (case split_on P cs of [] \<Rightarrow> [[c]] | p # ps \<Rightarrow> (c # p) # ps))"

fun js_join :: "string \<Rightarrow> string list \<Rightarrow> string" where
  "js_join sep [] = []"
| "js_join sep [s] = s"
| "js_join sep (s # t # ss) = s @ sep @ js_join sep (t # ss)"

lemma split_on_nonempty [simp]: "split_on P s \<noteq> []"
  by (cases s) (auto split: list.splits)

lemma js_join_Cons: "ss \<noteq> [] \<Longrightarrow> js_join sep (s # ss) = s @ sep @ js_join sep ss"
  by (cases ss) auto

lemma js_join_Cons_Cons: "js_join sep ((c # s) # ss) = c # js_join sep (s # ss)"
  by (cases ss) auto

lemma js_join_split_on:
  "js_join [c] (split_on (\<lambda>x. x = c) s) = s"
  by (induction s) (auto simp: js_join_Cons js_join_Cons_Cons split: list.splits)

lemma split_on_no_sep: "(\<And>c. c \<in> set s \<Longrightarrow> \<not> P c) \<Longrightarrow> split_on P s = [s]"
  by (induction s) auto

lemma split_on_sep_free: "p \<in> set (split_on P s) \<Longrightarrow> c \<in> set p \<Longrightarrow> \<not> P c"
proof (induction s arbitrary: p)
  case (Cons x xs)
  obtain q qs where q: "split_on P xs = q # qs"
    by (cases "split_on P xs") auto
  with Cons.IH have ih: "\<And>r. r = q \<or> r \<in> set qs \<Longrightarrow> c \<in> set r \<Longrightarrow> \<not> P c" by auto
  from Cons.prems q ih [of q] ih [of p] show ?case by (auto split: if_splits)
qed simp

lemma split_on_append:
  "(\<And>x. x \<in> set s \<Longrightarrow> \<not> P x) \<Longrightarrow> P c \<Longrightarrow> split_on P (s @ c # t) = s # split_on P t"
  by (induction s) auto

lemma split_on_js_join:
  assumes "ss \<noteq> []" and "\<forall>s \<in> set ss. c \<notin> set s"
  shows "split_on (\<lambda>x. x = c) (js_join [c] ss) = ss"
  using assms
proof (induction ss)
  case (Cons s ss)
  have "split_on (\<lambda>x. x = c) s = [s]"
    using Cons.prems by (intro split_on_no_sep) auto
  moreover have "split_on (\<lambda>x. x = c) (s @ c # t) = s # split_on (\<lambda>x. x = c) t" for t
    using Cons.prems by (intro split_on_append) auto
  ultimately show ?case
    using Cons by (cases "ss = []") (auto simp: js_join_Cons)
qed simp

text \<open>\<open>s.indexOf(c)\<close> for one character; \<open>None\<close> is the source's \<open>-1\<close>.\<close>

fun index_of :: "char \<Rightarrow> string \<Rightarrow> nat option" where
  "index_of c [] = None"
| "index_of c (x # xs) = (if x = c then Some 0 else map_option Suc (index_of c xs))"

lemma index_of_append: "c \<notin> set s \<Longrightarrow> index_of c (s @ c # t) = Some (length s)"
  by (induction s) auto

lemma index_of_None_iff: "index_of c s = None \<longleftrightarrow> c \<notin> set s"
  by (induction s) auto

definition starts_with :: "string \<Rightarrow> string \<Rightarrow> bool" where
  "starts_with s p \<longleftrightarrow> take (length p) s = p"

lemma starts_with_append [simp]: "starts_with (p @ s) p"
  by (simp add: starts_with_def)

lemma starts_with_iff: "starts_with s p \<longleftrightarrow> (\<exists>t. s = p @ t)"
  unfolding starts_with_def by (metis append_eq_conv_conj append_take_drop_id)

text \<open>\<open>toLowerCase\<close>, where only the ASCII letters matter.\<close>

definition lower_ascii :: "string \<Rightarrow> string" where
  "lower_ascii =
     map (\<lambda>c. let n = of_char c :: nat in if 65 \<le> n \<and> n \<le> 90 then char_of (n + 32) else c)"

definition pad_start :: "nat \<Rightarrow> char \<Rightarrow> string \<Rightarrow> string" where
  "pad_start n c s = replicate (n - length s) c @ s"

lemma length_pad_start [simp]: "length (pad_start n c s) = max n (length s)"
  by (simp add: pad_start_def)

end
