(* ===== verification/JS_Number.thy ===== *)
theory JS_Number
  imports Complex_Main "HOL-Library.Log_Nat" Prelude
begin

text \<open>
  JavaScript numbers: IEEE-754 binary64 values as exact rationals with the three special
  values, and \<open>fl\<close>, the rounding to the nearest representable value (ties to even) that
  every arithmetic operation ends with. The sign of a zero is not kept: no operation the
  dashboard applies to a number tells the two zeros apart, except printing a negative zero
  with \<open>toLocaleString\<close>.
\<close>

datatype jsnum = NaN | PosInf | NegInf | Fin rat

section \<open>Rounding to binary64\<close>

text \<open>\<open>ilog2 x\<close> is the exponent of the binade of a positive \<open>x\<close>.\<close>

definition ilog2 :: "rat \<Rightarrow> int" where
  "ilog2 x =
     (let (p, q) = quotient_of x; e = int (floorlog 2 (nat p)) - int (floorlog 2 (nat q))
      in if 2 powi e \<le> x then e else e - 1)"

definition round_even :: "rat \<Rightarrow> int" where
  "round_even y =
     (let f = \<lfloor>y\<rfloor>; d = y - of_int f
      in if d < 1/2 then f else if 1/2 < d then f + 1 else if even f then f else f + 1)"

text \<open>The exponent of the unit in the last place: 53 significant bits, subnormals below.\<close>

definition ulp_exp :: "rat \<Rightarrow> int" where
  "ulp_exp x = max (- 1074) (ilog2 \<bar>x\<bar> - 52)"

definition fl_rat :: "rat \<Rightarrow> rat" where
  "fl_rat x = (if x = 0 then 0 else of_int (round_even (x / 2 powi ulp_exp x)) * 2 powi ulp_exp x)"

definition fl :: "rat \<Rightarrow> jsnum" where
  "fl x =
     (let r = fl_rat x
      in if 2 ^ 1024 \<le> r then PosInf else if r \<le> - (2 ^ 1024) then NegInf else Fin r)"

lemma ilog2_bounds:
  assumes "0 < x"
  shows "2 powi ilog2 x \<le> x" and "x < 2 powi (ilog2 x + 1)"
proof -
  obtain p q where pq: "quotient_of x = (p, q)" by (cases "quotient_of x")
  then have q: "0 < q" and x: "x = of_int p / of_int q"
    by (auto simp: quotient_of_denom_pos quotient_of_div)
  with assms have p: "0 < p" by (simp add: zero_less_divide_iff)
  let ?a = "floorlog 2 (nat p)" and ?b = "floorlog 2 (nat q)"
  have a: "2 ^ (?a - 1) \<le> nat p" "nat p < 2 ^ ?a" "0 < ?a"
    using floorlog_bounds [of "nat p" 2] p by (auto simp: floorlog_def)
  have b: "2 ^ (?b - 1) \<le> nat q" "nat q < 2 ^ ?b" "0 < ?b"
    using floorlog_bounds [of "nat q" 2] q by (auto simp: floorlog_def)
  have P: "2 powi (int ?a - 1) \<le> (of_int p :: rat)" "(of_int p :: rat) < 2 powi int ?a"
  proof -
    have "(2 :: rat) powi (int ?a - 1) = of_nat (2 ^ (?a - 1))"
      using a(3) by (simp add: power_int_def nat_diff_distrib)
    also have "\<dots> \<le> of_nat (nat p)" using a(1) by (simp only: of_nat_le_iff)
    finally show "2 powi (int ?a - 1) \<le> (of_int p :: rat)" using p by simp
    have "(of_int p :: rat) = of_nat (nat p)" using p by simp
    also have "\<dots> < of_nat (2 ^ ?a)" using a(2) by (simp only: of_nat_less_iff)
    finally show "(of_int p :: rat) < 2 powi int ?a" by simp
  qed
  have Q: "2 powi (int ?b - 1) \<le> (of_int q :: rat)" "(of_int q :: rat) < 2 powi int ?b"
  proof -
    have "(2 :: rat) powi (int ?b - 1) = of_nat (2 ^ (?b - 1))"
      using b(3) by (simp add: power_int_def nat_diff_distrib)
    also have "\<dots> \<le> of_nat (nat q)" using b(1) by (simp only: of_nat_le_iff)
    finally show "2 powi (int ?b - 1) \<le> (of_int q :: rat)" using q by simp
    have "(of_int q :: rat) = of_nat (nat q)" using q by simp
    also have "\<dots> < of_nat (2 ^ ?b)" using b(2) by (simp only: of_nat_less_iff)
    finally show "(of_int q :: rat) < 2 powi int ?b" by simp
  qed
  have q0: "(0 :: rat) < of_int q" using q by simp
  let ?e = "int ?a - int ?b"
  have up: "x < 2 powi (?e + 1)"
  proof -
    have "of_int p < (2 :: rat) powi int ?a" by (rule P(2))
    also have "\<dots> = 2 powi (?e + 1) * 2 powi (int ?b - 1)"
      by (simp flip: power_int_add)
    also have "\<dots> \<le> 2 powi (?e + 1) * of_int q"
      using Q(1) by (intro mult_left_mono) auto
    finally show ?thesis using q0 by (simp add: x field_simps)
  qed
  have lo: "2 powi (?e - 1) \<le> x"
  proof -
    have "2 powi (?e - 1) * of_int q \<le> (2 :: rat) powi (?e - 1) * 2 powi int ?b"
      using Q(2) by (intro mult_left_mono) auto
    also have "\<dots> = 2 powi (?e - 1 + int ?b)"
      by (rule power_int_add [symmetric]) simp
    also have "\<dots> = 2 powi (int ?a - 1)" by (simp add: algebra_simps)
    also have "\<dots> \<le> of_int p" by (rule P(1))
    finally show ?thesis using q0 by (simp add: x field_simps)
  qed
  show "2 powi ilog2 x \<le> x" and "x < 2 powi (ilog2 x + 1)"
    using up lo by (auto simp: ilog2_def pq Let_def)
qed

lemma powi_le_iff: "(2 :: rat) powi a \<le> 2 powi b \<longleftrightarrow> a \<le> b"
  using power_int_strict_increasing [of b a "2 :: rat"] power_int_increasing [of a b "2 :: rat"]
  by (cases "a \<le> b") (auto simp: not_le)

lemma ilog2_mono:
  assumes "0 < x" and "x \<le> y"
  shows "ilog2 x \<le> ilog2 y"
proof (rule ccontr)
  assume "\<not> ilog2 x \<le> ilog2 y"
  then have "(2 :: rat) powi (ilog2 y + 1) \<le> 2 powi ilog2 x"
    by (subst powi_le_iff) simp
  with ilog2_bounds(2) [of y] ilog2_bounds(1) [of x] assms show False by simp
qed

lemma ilog2_less:
  assumes "0 < x" and "x < 2 powi e"
  shows "ilog2 x < e"
proof (rule ccontr)
  assume "\<not> ilog2 x < e"
  then have "(2 :: rat) powi e \<le> 2 powi ilog2 x" by (subst powi_le_iff) simp
  with ilog2_bounds(1) [OF assms(1)] assms(2) show False by simp
qed

subsection \<open>Rounding to an integer, ties to even\<close>

lemma round_even_of_int [simp]: "round_even (of_int n) = n"
  by (simp add: round_even_def)

lemma round_even_0 [simp]: "round_even 0 = 0"
  using round_even_of_int [of 0] by simp

lemma round_even_floor: "\<lfloor>y\<rfloor> \<le> round_even y \<and> round_even y \<le> \<lfloor>y\<rfloor> + 1"
  by (simp add: round_even_def Let_def)

lemma round_even_mono:
  assumes "y \<le> z"
  shows "round_even y \<le> round_even z"
proof (cases "\<lfloor>y\<rfloor> = \<lfloor>z\<rfloor>")
  case True
  with assms show ?thesis by (simp add: round_even_def Let_def)
next
  case False
  with floor_mono [OF assms] have "\<lfloor>y\<rfloor> + 1 \<le> \<lfloor>z\<rfloor>" by simp
  with round_even_floor [of y] round_even_floor [of z] show ?thesis by simp
qed

lemma round_even_le_int: "y \<le> of_int n \<Longrightarrow> round_even y \<le> n"
  using round_even_mono [of y "of_int n"] by simp

lemma round_even_ge_int: "of_int n \<le> y \<Longrightarrow> n \<le> round_even y"
  using round_even_mono [of "of_int n" y] by simp

lemma round_even_minus: "round_even (- y) = - round_even y"
proof (cases "y = of_int \<lfloor>y\<rfloor>")
  case True
  then obtain n where "y = of_int n" by metis
  then have "- y = of_int (- n)" and "round_even y = n" by simp_all
  then show ?thesis by (simp only: round_even_of_int)
next
  case False
  then have fl: "\<lfloor>- y\<rfloor> = - \<lfloor>y\<rfloor> - 1"
    by (metis ceiling_def ceiling_altdef minus_diff_eq add.commute diff_minus_eq_add add_uminus_conv_diff minus_minus)
  then show ?thesis by (auto simp: round_even_def Let_def)
qed

subsection \<open>Exact values and monotonicity\<close>

lemma powi_pos [simp]: "0 < (2 :: rat) powi e"
  by simp

lemma powi_int_eq: "0 \<le> k \<Longrightarrow> (2 :: rat) powi k = of_int (2 ^ nat k)"
  by (simp add: power_int_def)

lemma powi_divide: "(2 :: rat) powi a / 2 powi b = 2 powi (a - b)"
  by (simp add: power_int_diff)

lemma fl_rat_0 [simp]: "fl_rat 0 = 0"
  by (simp add: fl_rat_def)

lemma fl_rat_minus: "fl_rat (- x) = - fl_rat x"
  by (simp add: fl_rat_def ulp_exp_def round_even_minus)

text \<open>A value with at most 53 significant bits is left alone.\<close>

lemma fl_rat_exact:
  assumes "x = of_int m * 2 powi e" and "\<bar>m\<bar> < 2 ^ 53" and "- 1074 \<le> e"
  shows "fl_rat x = x"
proof (cases "x = 0")
  case False
  have "\<bar>x\<bar> = of_int \<bar>m\<bar> * 2 powi e" by (simp add: assms(1) abs_mult)
  also have "\<dots> < of_int (2 ^ 53) * 2 powi e"
    using assms(2) by (intro mult_strict_right_mono) (simp_all only: of_int_less_iff powi_pos)
  also have "\<dots> = 2 powi (53 + e)" by (subst power_int_add) (simp_all add: power_int_def)
  finally have "ilog2 \<bar>x\<bar> < 53 + e" using False by (intro ilog2_less) auto
  then have u: "ulp_exp x \<le> e" using assms(3) by (auto simp: ulp_exp_def)
  then have "x / 2 powi ulp_exp x = of_int (m * 2 ^ nat (e - ulp_exp x))"
    by (simp add: assms(1) powi_int_eq powi_divide flip: times_divide_eq_right)
  then have "of_int (round_even (x / 2 powi ulp_exp x)) = x / 2 powi ulp_exp x"
    by (simp only: round_even_of_int)
  then show ?thesis by (simp add: fl_rat_def)
qed simp

lemma fl_rat_of_int: "\<bar>n\<bar> < 2 ^ 53 \<Longrightarrow> fl_rat (of_int n) = of_int n"
  by (rule fl_rat_exact [of _ n 0]) auto

lemma fl_of_int: 
  assumes "\<bar>n\<bar> < 2 ^ 53"
  shows "fl (of_int n) = Fin (of_int n)"
proof -
  have "(2 :: int) ^ 53 < 2 ^ 1024" by simp
  with assms have "\<bar>n\<bar> < 2 ^ 1024" by linarith
  then have "\<bar>of_int n :: rat\<bar> < of_int (2 ^ 1024)" by (simp only: of_int_abs [symmetric] of_int_less_iff)
  then show ?thesis using fl_rat_of_int [OF assms] by (auto simp: fl_def Let_def abs_less_iff)
qed

lemma fl_rat_mono_pos:
  assumes "0 < x" and "x \<le> y"
  shows "fl_rat x \<le> fl_rat y"
proof (cases "ulp_exp x = ulp_exp y")
  case True
  have "x / 2 powi ulp_exp x \<le> y / 2 powi ulp_exp y"
    using assms True by (simp add: divide_right_mono)
  then have "round_even (x / 2 powi ulp_exp x) \<le> round_even (y / 2 powi ulp_exp y)"
    by (rule round_even_mono)
  with assms True show ?thesis by (simp add: fl_rat_def mult_right_mono)
next
  case False
  let ?k = "ilog2 y"
  have lg: "ilog2 x \<le> ?k" using assms by (rule ilog2_mono)
  with assms False have lt: "ulp_exp x < ulp_exp y" and uy: "ulp_exp y = ?k - 52" and xk: "ilog2 x < ?k"
    by (auto simp: ulp_exp_def max_def split: if_splits)
  have "x < 2 powi (ilog2 x + 1)" using assms(1) by (rule ilog2_bounds)
  also have "\<dots> \<le> 2 powi ?k" using xk by (subst powi_le_iff) simp
  finally have "x / 2 powi ulp_exp x \<le> 2 powi ?k / 2 powi ulp_exp x"
    by (intro divide_right_mono) auto
  also have "\<dots> = of_int (2 ^ nat (?k - ulp_exp x))"
    using lt uy by (simp add: powi_divide powi_int_eq)
  finally have "round_even (x / 2 powi ulp_exp x) \<le> 2 ^ nat (?k - ulp_exp x)"
    by (rule round_even_le_int)
  then have "fl_rat x \<le> of_int (2 ^ nat (?k - ulp_exp x)) * 2 powi ulp_exp x"
    using assms(1) by (simp only: fl_rat_def) (simp del: of_int_power)
  also have "\<dots> = 2 powi ?k"
    using lt uy by (subst powi_int_eq [symmetric]) (simp_all flip: power_int_add)
  also have "\<dots> \<le> fl_rat y"
  proof -
    have "(2 :: rat) powi ?k / 2 powi ulp_exp y = 2 powi 52"
      by (subst powi_divide) (simp add: uy)
    then have "of_int (2 ^ 52) = (2 :: rat) powi ?k / 2 powi ulp_exp y" by simp
    also have "\<dots> \<le> y / 2 powi ulp_exp y"
      using ilog2_bounds(1) [of y] assms by (intro divide_right_mono) auto
    finally have "2 ^ 52 \<le> round_even (y / 2 powi ulp_exp y)"
      by (rule round_even_ge_int)
    then have "of_int (2 ^ 52) * 2 powi ulp_exp y \<le> fl_rat y"
      using assms by (simp only: fl_rat_def) (simp del: of_int_power)
    moreover have "of_int (2 ^ 52) * (2 :: rat) powi ulp_exp y = 2 powi ?k"
      using power_int_add [of "2 :: rat" 52 "ulp_exp y"] by (simp add: uy power_int_def)
    ultimately show ?thesis by simp
  qed
  finally show ?thesis .
qed

lemma fl_rat_nonneg: "0 \<le> x \<Longrightarrow> 0 \<le> fl_rat x"
  using round_even_ge_int [of 0 "x / 2 powi ulp_exp x"] by (auto simp: fl_rat_def)

lemma fl_rat_mono:
  assumes "x \<le> y"
  shows "fl_rat x \<le> fl_rat y"
proof (cases "0 < x")
  case True
  then show ?thesis using assms by (rule fl_rat_mono_pos)
next
  case x: False
  show ?thesis
  proof (cases "y < 0")
    case True
    then have "fl_rat (- y) \<le> fl_rat (- x)" using assms by (intro fl_rat_mono_pos) auto
    then show ?thesis by (simp add: fl_rat_minus)
  next
    case False
    have "0 \<le> fl_rat (- x)" using x by (intro fl_rat_nonneg) simp
    moreover have "0 \<le> fl_rat y" using False by (intro fl_rat_nonneg) simp
    ultimately show ?thesis by (simp add: fl_rat_minus)
  qed
qed

section \<open>Operators\<close>

definition js_nat :: "nat \<Rightarrow> jsnum" where
  "js_nat n = fl (of_nat n)"

definition js_int :: "int \<Rightarrow> jsnum" where
  "js_int n = fl (of_int n)"

fun is_finite :: "jsnum \<Rightarrow> bool" where
  "is_finite (Fin _) = True"
| "is_finite _ = False"

text \<open>A number in a Boolean position: \<open>0\<close> and \<open>NaN\<close> are falsy.\<close>

definition num_truthy :: "jsnum \<Rightarrow> bool" where
  "num_truthy v \<longleftrightarrow> v \<noteq> NaN \<and> v \<noteq> Fin 0"

text \<open>\<open>a < b\<close>; every comparison with \<open>NaN\<close> is false.\<close>

fun num_less :: "jsnum \<Rightarrow> jsnum \<Rightarrow> bool" where
  "num_less NaN _ = False"
| "num_less _ NaN = False"
| "num_less PosInf _ = False"
| "num_less _ NegInf = False"
| "num_less NegInf _ = True"
| "num_less _ PosInf = True"
| "num_less (Fin x) (Fin y) = (x < y)"

definition num_eq :: "jsnum \<Rightarrow> jsnum \<Rightarrow> bool" where
  "num_eq a b \<longleftrightarrow> a = b \<and> a \<noteq> NaN"

definition num_le :: "jsnum \<Rightarrow> jsnum \<Rightarrow> bool" where
  "num_le a b \<longleftrightarrow> num_less a b \<or> num_eq a b"

fun num_neg :: "jsnum \<Rightarrow> jsnum" where
  "num_neg NaN = NaN"
| "num_neg PosInf = NegInf"
| "num_neg NegInf = PosInf"
| "num_neg (Fin x) = Fin (- x)"

fun num_add :: "jsnum \<Rightarrow> jsnum \<Rightarrow> jsnum" where
  "num_add NaN _ = NaN"
| "num_add _ NaN = NaN"
| "num_add PosInf NegInf = NaN"
| "num_add NegInf PosInf = NaN"
| "num_add PosInf _ = PosInf"
| "num_add _ PosInf = PosInf"
| "num_add NegInf _ = NegInf"
| "num_add _ NegInf = NegInf"
| "num_add (Fin x) (Fin y) = fl (x + y)"

definition num_sub :: "jsnum \<Rightarrow> jsnum \<Rightarrow> jsnum" where
  "num_sub a b = num_add a (num_neg b)"

definition signed_inf :: "bool \<Rightarrow> jsnum" where
  "signed_inf pos = (if pos then PosInf else NegInf)"

fun num_mul :: "jsnum \<Rightarrow> jsnum \<Rightarrow> jsnum" where
  "num_mul NaN _ = NaN"
| "num_mul _ NaN = NaN"
| "num_mul (Fin x) (Fin y) = fl (x * y)"
| "num_mul (Fin x) b = (if x = 0 then NaN else signed_inf ((0 < x) = (b = PosInf)))"
| "num_mul a (Fin y) = (if y = 0 then NaN else signed_inf ((0 < y) = (a = PosInf)))"
| "num_mul a b = signed_inf (a = b)"

fun num_div :: "jsnum \<Rightarrow> jsnum \<Rightarrow> jsnum" where
  "num_div NaN _ = NaN"
| "num_div _ NaN = NaN"
| "num_div (Fin x) (Fin y) =
     (if y = 0 then (if x = 0 then NaN else signed_inf (0 < x)) else fl (x / y))"
| "num_div (Fin x) _ = Fin 0"
| "num_div a (Fin y) = signed_inf ((0 \<le> y) = (a = PosInf))"
| "num_div _ _ = NaN"

fun math_round :: "jsnum \<Rightarrow> jsnum" where
  "math_round (Fin x) = Fin (of_int \<lfloor>x + 1/2\<rfloor>)"
| "math_round v = v"

fun math_floor :: "jsnum \<Rightarrow> jsnum" where
  "math_floor (Fin x) = Fin (of_int \<lfloor>x\<rfloor>)"
| "math_floor v = v"

definition trunc_rat :: "rat \<Rightarrow> int" where
  "trunc_rat x = (if 0 \<le> x then \<lfloor>x\<rfloor> else - \<lfloor>- x\<rfloor>)"

fun math_trunc :: "jsnum \<Rightarrow> jsnum" where
  "math_trunc (Fin x) = Fin (of_int (trunc_rat x))"
| "math_trunc v = v"

fun is_integer :: "jsnum \<Rightarrow> bool" where
  "is_integer (Fin x) = (of_int \<lfloor>x\<rfloor> = x)"
| "is_integer _ = False"

definition math_max0 :: "jsnum \<Rightarrow> jsnum" where
  \<comment> \<open>\<open>Math.max(0, v)\<close>\<close>
  "math_max0 v = (if v = NaN then NaN else if num_less v (Fin 0) then Fin 0 else v)"

lemma js_int_exact: "\<bar>n\<bar> < 2 ^ 53 \<Longrightarrow> js_int n = Fin (of_int n)"
  by (simp add: js_int_def fl_of_int)

lemma js_nat_exact: "n < 2 ^ 53 \<Longrightarrow> js_nat n = Fin (of_nat n)"
  using fl_of_int [of "int n"] by (simp add: js_nat_def)

text \<open>Integer addition is exact while the sum stays below \<open>2 ^ 53\<close> (the safe integers).\<close>

lemma num_add_int:
  "\<bar>a + b\<bar> < 2 ^ 53 \<Longrightarrow> num_add (Fin (of_int a)) (Fin (of_int b)) = Fin (of_int (a + b))"
  using fl_of_int [of "a + b"] by simp

lemma fl_neq_NaN [simp]: "fl x \<noteq> NaN"
  by (simp add: fl_def Let_def)

lemma fl_Fin: "fl x = Fin r \<Longrightarrow> r = fl_rat x"
  by (auto simp: fl_def Let_def split: if_splits)

text \<open>A rounded value between two representable bounds stays between them.\<close>

lemma fl_between:
  assumes "of_int a \<le> x" and "x \<le> of_int b" and "\<bar>a\<bar> < 2 ^ 53" and "\<bar>b\<bar> < 2 ^ 53"
  shows "\<exists>r. fl x = Fin r \<and> of_int a \<le> r \<and> r \<le> of_int b"
proof -
  have lo: "of_int a \<le> fl_rat x" using fl_rat_mono [OF assms(1)] fl_rat_of_int [OF assms(3)] by simp
  have hi: "fl_rat x \<le> of_int b" using fl_rat_mono [OF assms(2)] fl_rat_of_int [OF assms(4)] by simp
  have big: "(2 :: int) ^ 53 < 2 ^ 1024" by simp
  have "b < 2 ^ 1024" "- (2 ^ 1024) < a" using assms(3,4) big by linarith+
  then have "of_int b < (of_int (2 ^ 1024) :: rat)" "of_int (- (2 ^ 1024)) < (of_int a :: rat)"
    by (simp_all only: of_int_less_iff)
  with lo hi have "fl_rat x < 2 ^ 1024" "- (2 ^ 1024) < fl_rat x" by auto
  then show ?thesis using lo hi by (auto simp: fl_def Let_def)
qed

lemma num_less_irrefl [simp]: "\<not> num_less v v"
  by (cases v) auto

lemma num_less_asym: "num_less a b \<Longrightarrow> \<not> num_less b a"
  by (cases "(a, b)" rule: num_less.cases) auto

lemma num_less_Fin [simp]: "num_less (Fin x) (Fin y) \<longleftrightarrow> x < y"
  by simp

lemma num_le_Fin [simp]: "num_le (Fin x) (Fin y) \<longleftrightarrow> x \<le> y"
  by (auto simp: num_le_def num_eq_def)

section \<open>Doubles, and the order of the numbers\<close>

text \<open>Every finite double is a multiple of the least subnormal.\<close>

definition is_double :: "jsnum \<Rightarrow> bool" where
  "is_double v \<longleftrightarrow> (\<forall>x. v = Fin x \<longrightarrow> (\<exists>k. x = of_int k * 2 powi (- 1074)))"

lemma powi_split: "a \<le> b \<Longrightarrow> (2 :: rat) powi b = of_int (2 ^ nat (b - a)) * 2 powi a"
  by (subst powi_int_eq [symmetric]) (simp_all flip: power_int_add)

lemma fl_rat_multiple: "\<exists>k. fl_rat x = of_int k * 2 powi (- 1074)"
proof -
  let ?e = "ulp_exp x"
  have e: "- 1074 \<le> ?e" by (simp add: ulp_exp_def)
  let ?r = "round_even (x / 2 powi ?e)"
  have "x \<noteq> 0 \<Longrightarrow> fl_rat x = of_int ?r * 2 powi ?e"
    by (simp add: fl_rat_def)
  then have "x \<noteq> 0 \<Longrightarrow> fl_rat x = of_int ?r * (of_int (2 ^ nat (?e - (- 1074))) * 2 powi (- 1074))"
    by (metis powi_split [OF e])
  then have "x \<noteq> 0 \<Longrightarrow> fl_rat x = of_int (?r * 2 ^ nat (?e - (- 1074))) * 2 powi (- 1074)"
    by (simp only: of_int_mult mult.assoc simp_thms)
  then show ?thesis by (metis fl_rat_0 mult_zero_left of_int_0)
qed

lemma is_double_fl [simp]: "is_double (fl x)"
  using fl_rat_multiple [of x] by (auto simp: is_double_def dest: fl_Fin)

lemma is_double_js_int [simp]: "is_double (js_int n)"
  by (simp add: js_int_def)

lemma is_double_num_add:
  assumes "is_double a" and "is_double b"
  shows "is_double (num_add a b)"
  using assms by (cases "(a, b)" rule: num_add.cases) (simp_all add: is_double_def [of NaN]
      is_double_def [of PosInf] is_double_def [of NegInf])

text \<open>Subtraction of doubles never rounds a difference to zero, so its sign compares them.\<close>

lemma fl_rat_least: "fl_rat (2 powi (- 1074)) = 2 powi (- 1074)"
  by (rule fl_rat_exact [of _ 1 "- 1074"]) auto

lemma fl_diff_pos:
  assumes "is_double (Fin x)" and "is_double (Fin y)" and "y < x"
  shows "0 < fl_rat (x - y)"
proof -
  obtain j k where jk: "x = of_int j * 2 powi (- 1074)" "y = of_int k * 2 powi (- 1074)"
    using assms(1,2) by (auto simp: is_double_def)
  with assms(3) have "k < j" by (simp add: mult_less_cancel_right)
  then have "(1 :: rat) \<le> of_int (j - k)" by simp
  then have "1 * 2 powi (- 1074) \<le> (of_int (j - k) :: rat) * 2 powi (- 1074)"
    by (intro mult_right_mono) auto
  also have "\<dots> = x - y" by (simp add: jk left_diff_distrib)
  finally have "fl_rat (2 powi (- 1074)) \<le> fl_rat (x - y)" by (intro fl_rat_mono) simp
  then have "2 powi (- 1074) \<le> fl_rat (x - y)" by (simp only: fl_rat_least)
  moreover have "(0 :: rat) < 2 powi (- 1074)" by (rule powi_pos)
  ultimately show ?thesis by (rule less_le_trans [rotated])
qed

lemma num_sub_pos_iff:
  assumes "is_double a" and "is_double b" and "a \<noteq> NaN" and "b \<noteq> NaN"
  shows "num_less (Fin 0) (num_sub a b) \<longleftrightarrow> num_less b a"
proof (cases "\<exists>x y. a = Fin x \<and> b = Fin y")
  case True
  then obtain x y where xy: "a = Fin x" "b = Fin y" by blast
  have "0 < fl_rat (x - y) \<longleftrightarrow> y < x"
    using fl_diff_pos [of x y] fl_rat_mono [of "x - y" 0] assms xy by (cases "y < x") auto
  moreover have "num_less (Fin 0) (fl r) \<longleftrightarrow> 0 < fl_rat r" for r
    by (auto simp: fl_def Let_def)
  ultimately show ?thesis by (simp add: xy num_sub_def)
next
  case False
  then show ?thesis using assms by (cases a; cases b) (auto simp: num_sub_def)
qed

lemma num_neg_pos_iff:
  assumes "is_double a" and "is_double b" and "a \<noteq> NaN" and "b \<noteq> NaN"
  shows "num_less (Fin 0) (num_neg (num_sub a b)) \<longleftrightarrow> num_less a b"
proof (cases "\<exists>x y. a = Fin x \<and> b = Fin y")
  case True
  then obtain x y where xy: "a = Fin x" "b = Fin y" by blast
  have "0 < fl_rat (y - x) \<longleftrightarrow> x < y"
    using fl_diff_pos [of y x] fl_rat_mono [of "y - x" 0] assms xy by (cases "x < y") auto
  moreover have "fl_rat (y - x) = - fl_rat (x - y)"
    using fl_rat_minus [of "x - y"] by simp
  moreover have "num_less (Fin 0) (num_neg (fl r)) \<longleftrightarrow> fl_rat r < 0" for r
    by (auto simp: fl_def Let_def)
  ultimately show ?thesis by (simp add: xy num_sub_def)
next
  case False
  then show ?thesis using assms by (cases a; cases b) (auto simp: num_sub_def)
qed

text \<open>The numbers in their order, with \<open>NaN\<close> put below them.\<close>

instantiation jsnum :: linorder
begin

definition less_jsnum :: "jsnum \<Rightarrow> jsnum \<Rightarrow> bool" where
  "less_jsnum a b \<longleftrightarrow> (a = NaN \<and> b \<noteq> NaN) \<or> num_less a b"

definition less_eq_jsnum :: "jsnum \<Rightarrow> jsnum \<Rightarrow> bool" where
  "less_eq_jsnum a b \<longleftrightarrow> a = b \<or> a < b"

instance
proof
  fix a b c :: jsnum
  show "(a < b) = (a \<le> b \<and> \<not> b \<le> a)"
    by (cases a; cases b) (auto simp: less_eq_jsnum_def less_jsnum_def)
  show "a \<le> a" by (simp add: less_eq_jsnum_def)
  show "a \<le> b \<Longrightarrow> b \<le> c \<Longrightarrow> a \<le> c"
    by (cases a; cases b; cases c) (auto simp: less_eq_jsnum_def less_jsnum_def)
  show "a \<le> b \<Longrightarrow> b \<le> a \<Longrightarrow> a = b"
    by (cases a; cases b) (auto simp: less_eq_jsnum_def less_jsnum_def)
  show "a \<le> b \<or> b \<le> a"
    by (cases a; cases b) (auto simp: less_eq_jsnum_def less_jsnum_def)
qed

end

lemma num_less_iff: "a \<noteq> NaN \<Longrightarrow> num_less a b \<longleftrightarrow> a < b"
  by (simp add: less_jsnum_def)

end
