(* ===== verification/JS_Text.thy ===== *)
theory JS_Text
  imports JS_Number
begin

text \<open>
  Numbers as text: \<open>Number(s)\<close> of a string, \<open>String(n)\<close>, \<open>toFixed\<close> and \<open>toLocaleString\<close>, with
  the round trip of the decimal integers through them.
\<close>

section \<open>Decimal digits\<close>

definition digit_char :: "nat \<Rightarrow> char" where
  "digit_char d = char_of (48 + d)"

definition is_digit :: "char \<Rightarrow> bool" where
  "is_digit c \<longleftrightarrow> 48 \<le> (of_char c :: nat) \<and> (of_char c :: nat) \<le> 57"

definition digit_val :: "char \<Rightarrow> nat" where
  "digit_val c = of_char c - 48"

fun nat_str :: "nat \<Rightarrow> string" where
  "nat_str n = (if n < 10 then [digit_char n] else nat_str (n div 10) @ [digit_char (n mod 10)])"

declare nat_str.simps [simp del]

definition int_str :: "int \<Rightarrow> string" where
  "int_str i = (if i < 0 then ''-'' @ nat_str (nat (- i)) else nat_str (nat i))"

definition nat_of_digits :: "string \<Rightarrow> nat" where
  "nat_of_digits s = foldl (\<lambda>n c. 10 * n + digit_val c) 0 s"

lemma of_char_digit: "d < 10 \<Longrightarrow> (of_char (digit_char d) :: nat) = 48 + d"
  by (simp add: digit_char_def of_char_of)

lemma is_digit_digit_char [simp]: "d < 10 \<Longrightarrow> is_digit (digit_char d)"
  by (simp add: is_digit_def of_char_digit)

lemma digit_val_digit_char [simp]: "d < 10 \<Longrightarrow> digit_val (digit_char d) = d"
  by (simp add: digit_val_def of_char_digit)

lemma is_digit_nat_str: "c \<in> set (nat_str n) \<Longrightarrow> is_digit c"
proof (induction n rule: nat_str.induct)
  case (1 n)
  then show ?case by (subst (asm) (2) nat_str.simps) (auto split: if_splits)
qed

lemma nat_str_nonempty [simp]: "nat_str n \<noteq> []"
  by (subst nat_str.simps) simp

lemma nat_of_digits_append: "nat_of_digits (s @ [c]) = 10 * nat_of_digits s + digit_val c"
  by (simp add: nat_of_digits_def)

lemma nat_of_digits_nat_str [simp]: "nat_of_digits (nat_str n) = n"
proof (induction n rule: nat_str.induct)
  case (1 n)
  show ?case
  proof (cases "n < 10")
    case True
    then show ?thesis by (subst nat_str.simps) (simp add: nat_of_digits_def)
  next
    case False
    with "1.IH" show ?thesis by (subst nat_str.simps) (simp add: nat_of_digits_append)
  qed
qed

lemma nat_str_inject [simp]: "nat_str m = nat_str n \<longleftrightarrow> m = n"
  by (metis nat_of_digits_nat_str)

lemma not_digit_space: "is_digit c \<Longrightarrow> \<not> is_space c"
  by (auto simp: is_digit_def is_space_def)

lemma trim_no_space: "(\<And>c. c \<in> set s \<Longrightarrow> \<not> is_space c) \<Longrightarrow> trim s = s"
  by (metis dropWhile_eq_self_iff hd_in_set hd_rev last_in_set list.set_sel(1) rev_rev_ident set_rev trim_def)

lemma trim_nat_str [simp]: "trim (nat_str n) = nat_str n"
  by (intro trim_no_space not_digit_space) (rule is_digit_nat_str)

section \<open>Number(s): parsing a numeric string\<close>

definition all_digits :: "string \<Rightarrow> bool" where
  "all_digits s \<longleftrightarrow> s \<noteq> [] \<and> list_all is_digit s"

fun parse_exponent :: "string \<Rightarrow> int option" where
  "parse_exponent (CHR ''+'' # s) = (if all_digits s then Some (int (nat_of_digits s)) else None)"
| "parse_exponent (CHR ''-'' # s) = (if all_digits s then Some (- int (nat_of_digits s)) else None)"
| "parse_exponent s = (if all_digits s then Some (int (nat_of_digits s)) else None)"

text \<open>StrUnsignedDecimalLiteral: digits, an optional fraction, an optional exponent.\<close>

definition parse_unsigned :: "string \<Rightarrow> rat option" where
  "parse_unsigned s =
     (let ip = takeWhile is_digit s; r = dropWhile is_digit s;
          (fp, r) = (case r of CHR ''.'' # r' \<Rightarrow> (takeWhile is_digit r', dropWhile is_digit r')
                             | _ \<Rightarrow> ([], r));
          m = of_nat (nat_of_digits (ip @ fp)) / 10 ^ length fp
      in if ip = [] \<and> fp = [] then None
         else (case r of [] \<Rightarrow> Some m
                 | c # r' \<Rightarrow> if c = CHR ''e'' \<or> c = CHR ''E''
                             then map_option (\<lambda>e. m * 10 powi e) (parse_exponent r')
                             else None))"

definition radix_digit :: "char \<Rightarrow> nat" where
  \<comment> \<open>the value of a hexadecimal digit, or 99\<close>
  "radix_digit c =
     (let n = of_char c :: nat
      in if is_digit c then digit_val c
         else if 97 \<le> n \<and> n \<le> 102 then n - 87
         else if 65 \<le> n \<and> n \<le> 70 then n - 55 else 99)"

definition parse_radix :: "nat \<Rightarrow> string \<Rightarrow> jsnum" where
  "parse_radix b s =
     (if s \<noteq> [] \<and> list_all (\<lambda>c. radix_digit c < b) s
      then js_nat (foldl (\<lambda>n c. b * n + radix_digit c) 0 s) else NaN)"

fun parse_signed :: "string \<Rightarrow> jsnum" where
  "parse_signed (CHR ''+'' # s) =
     (if s = ''Infinity'' then PosInf
      else case parse_unsigned s of Some x \<Rightarrow> fl x | None \<Rightarrow> NaN)"
| "parse_signed (CHR ''-'' # s) =
     (if s = ''Infinity'' then NegInf
      else case parse_unsigned s of Some x \<Rightarrow> fl (- x) | None \<Rightarrow> NaN)"
| "parse_signed s =
     (if s = ''Infinity'' then PosInf
      else case parse_unsigned s of Some x \<Rightarrow> fl x | None \<Rightarrow> NaN)"

definition string_to_number :: "string \<Rightarrow> jsnum" where
  "string_to_number str =
     (let s = trim str
      in if s = [] then Fin 0
         else if take 2 s = ''0x'' \<or> take 2 s = ''0X'' then parse_radix 16 (drop 2 s)
         else if take 2 s = ''0o'' \<or> take 2 s = ''0O'' then parse_radix 8 (drop 2 s)
         else if take 2 s = ''0b'' \<or> take 2 s = ''0B'' then parse_radix 2 (drop 2 s)
         else parse_signed s)"

section \<open>String(n): the shortest decimal that reads back\<close>

definition ilog10 :: "rat \<Rightarrow> int" where
  "ilog10 x =
     (let (p, q) = quotient_of x;
          e = int (length (nat_str (nat p))) - int (length (nat_str (nat q)))
      in if 10 powi e \<le> x then e else e - 1)"

definition decimal_candidate :: "rat \<Rightarrow> nat \<Rightarrow> nat" where
  "decimal_candidate x k = nat \<lfloor>x / 10 powi (ilog10 x + 1 - int k) + 1/2\<rfloor>"

definition decimal_ok :: "rat \<Rightarrow> nat \<Rightarrow> bool" where
  "decimal_ok x k \<longleftrightarrow>
     fl (of_nat (decimal_candidate x k) * 10 powi (ilog10 x + 1 - int k)) = Fin x"

text \<open>Significant digits and the position of the decimal point, with as few digits as possible.\<close>

definition shortest_digits :: "rat \<Rightarrow> string \<times> int" where
  "shortest_digits x =
     (let k = (case find (decimal_ok x) [1..<17] of Some k \<Rightarrow> k | None \<Rightarrow> 17);
          ds = nat_str (decimal_candidate x k); n = ilog10 x + 1
      in if k < length ds then (take k ds, n + 1) else (ds, n))"

definition format_digits :: "string \<Rightarrow> int \<Rightarrow> string" where
  "format_digits ds n =
     (let k = int (length ds)
      in if k \<le> n \<and> n \<le> 21 then ds @ replicate (nat (n - k)) CHR ''0''
         else if 0 < n \<and> n \<le> 21 then take (nat n) ds @ ''.'' @ drop (nat n) ds
         else if - 6 < n \<and> n \<le> 0 then ''0.'' @ replicate (nat (- n)) CHR ''0'' @ ds
         else
           (let e = n - 1;
                es = ''e'' @ (if e < 0 then ''-'' else ''+'') @ nat_str (nat \<bar>e\<bar>)
            in if k = 1 then ds @ es else take 1 ds @ ''.'' @ drop 1 ds @ es))"

text \<open>
  An integer below \<open>2 ^ 53\<close> prints its own digits: a shorter numeral is another integer, which
  reads back as itself.
\<close>

definition pos_to_string :: "rat \<Rightarrow> string" where
  "pos_to_string x =
     (if x = of_int \<lfloor>x\<rfloor> \<and> x < 2 ^ 53 then nat_str (nat \<lfloor>x\<rfloor>)
      else (let (ds, n) = shortest_digits x in format_digits ds n))"

fun number_to_string :: "jsnum \<Rightarrow> string" where
  "number_to_string NaN = ''NaN''"
| "number_to_string PosInf = ''Infinity''"
| "number_to_string NegInf = ''-Infinity''"
| "number_to_string (Fin x) = (if x < 0 then ''-'' @ pos_to_string (- x) else pos_to_string x)"

section \<open>toFixed and toLocaleString\<close>

definition fixed_digits :: "nat \<Rightarrow> nat \<Rightarrow> string" where
  "fixed_digits f n =
     (let m = pad_start (Suc f) CHR ''0'' (nat_str n); w = length m - f
      in if f = 0 then m else take w m @ ''.'' @ drop w m)"

definition rat_to_fixed :: "nat \<Rightarrow> rat \<Rightarrow> string" where
  "rat_to_fixed f x =
     (if x < 0 then ''-'' @ fixed_digits f (nat \<lfloor>- x * 10 ^ f + 1/2\<rfloor>)
      else fixed_digits f (nat \<lfloor>x * 10 ^ f + 1/2\<rfloor>))"

fun to_fixed :: "nat \<Rightarrow> jsnum \<Rightarrow> string" where
  "to_fixed f (Fin x) =
     (if 10 ^ 21 \<le> \<bar>x\<bar> then number_to_string (Fin x) else rat_to_fixed f x)"
| "to_fixed f v = number_to_string v"

fun group_rev :: "string \<Rightarrow> string" where
  "group_rev (a # b # c # d # s) = a # b # c # CHR '','' # group_rev (d # s)"
| "group_rev s = s"

text \<open>\<open>toLocaleString\<close> in \<open>zh-CN\<close> and \<open>en-US\<close>: thousands separators, at most three decimals.\<close>

definition locale_digits :: "nat \<Rightarrow> string" where
  "locale_digits n =
     (let frac = rev (dropWhile (\<lambda>c. c = CHR ''0'') (rev (pad_start 3 CHR ''0'' (nat_str (n mod 1000)))));
          ip = rev (group_rev (rev (nat_str (n div 1000))))
      in if frac = [] then ip else ip @ ''.'' @ frac)"

fun to_locale_string :: "jsnum \<Rightarrow> string" where
  "to_locale_string (Fin x) =
     (if x < 0 then ''-'' @ locale_digits (nat \<lfloor>- x * 1000 + 1/2\<rfloor>)
      else locale_digits (nat \<lfloor>x * 1000 + 1/2\<rfloor>))"
| "to_locale_string NaN = ''NaN''"
| "to_locale_string PosInf = utf8 [0xE2, 0x88, 0x9E]"
| "to_locale_string NegInf = ''-'' @ utf8 [0xE2, 0x88, 0x9E]"

section \<open>Round trips\<close>

lemma takeWhile_digits [simp]: "takeWhile is_digit (nat_str n) = nat_str n"
  by (auto simp: takeWhile_eq_all_conv dest: is_digit_nat_str)

lemma dropWhile_digits [simp]: "dropWhile is_digit (nat_str n) = []"
  by (auto simp: dropWhile_eq_Nil_conv dest: is_digit_nat_str)

lemma parse_unsigned_nat_str [simp]: "parse_unsigned (nat_str n) = Some (of_nat n)"
  by (simp add: parse_unsigned_def)

lemma nat_str_hd: "nat_str n = c # s \<Longrightarrow> is_digit c"
  using is_digit_nat_str [of c n] by simp

lemma parse_signed_nat_str [simp]: "parse_signed (nat_str n) = fl (of_nat n)"
proof -
  obtain c s where s: "nat_str n = c # s" by (cases "nat_str n") auto
  then have "is_digit c" by (rule nat_str_hd)
  then have "c \<noteq> CHR ''+''" "c \<noteq> CHR ''-''" "c \<noteq> CHR ''I''" by (auto simp: is_digit_def)
  then have "parse_signed (c # s) = (case parse_unsigned (c # s) of Some x \<Rightarrow> fl x | None \<Rightarrow> NaN)"
    by (cases "c # s" rule: parse_signed.cases) auto
  then show ?thesis by (simp flip: s)
qed

lemma nat_str_no_radix: "take 2 (nat_str n) = [a, b] \<Longrightarrow> is_digit b"
  using is_digit_nat_str [of b n] set_take_subset [of 2 "nat_str n"] by auto

lemma string_to_number_nat_str [simp]: "string_to_number (nat_str n) = js_nat n"
proof -
  have "take 2 (nat_str n) \<noteq> [CHR ''0'', b]" if "\<not> is_digit b" for b
    using nat_str_no_radix that by blast
  then show ?thesis
    by (simp add: string_to_number_def js_nat_def Let_def is_digit_def)
qed

lemma string_to_number_trim [simp]: "string_to_number (trim s) = string_to_number s"
  by (simp add: string_to_number_def)

lemma number_to_string_nat:
  assumes "n < 2 ^ 53"
  shows "number_to_string (Fin (of_nat n)) = nat_str n"
proof -
  have "(of_nat n :: rat) < of_nat (2 ^ 53)" using assms by (simp only: of_nat_less_iff)
  then show ?thesis by (simp add: pos_to_string_def)
qed

lemma number_string_roundtrip:
  assumes "n < 2 ^ 53"
  shows "string_to_number (number_to_string (Fin (of_nat n))) = Fin (of_nat n)"
  using assms by (simp only: number_to_string_nat string_to_number_nat_str js_nat_exact)

end
