(* ===== verification/JS_Value.thy ===== *)
theory JS_Value
  imports JS_Text
begin

text \<open>
  The values of type \<open>unknown\<close>, \<open>any\<close> and \<open>Record<string, unknown>\<close> that the dashboard
  inspects: optional chaining, truthiness, \<open>Number(v)\<close>, \<open>String(v)\<close>, \<open>JSON.stringify\<close> and
  \<open>JSON.parse\<close>, and the round trip of a JSON value through its text. An object is its list of
  own properties in insertion order (integer-like keys are not moved to the front).
\<close>

datatype jsval =
    JUndef
  | JNull
  | JBool bool
  | JNum jsnum
  | JStr string
  | JArr "jsval list"
  | JObj "(string \<times> jsval) list"

text \<open>The translator \<open>t\<close> of a page: the text of a key, given the values it asks for.\<close>

type_synonym translator = "string \<Rightarrow> (string \<times> jsval) list \<Rightarrow> string"

section \<open>Access and conversion\<close>

text \<open>\<open>v?.key\<close>, for the own properties of plain objects.\<close>

fun js_get :: "jsval \<Rightarrow> string \<Rightarrow> jsval" where
  "js_get (JObj ps) k = (case map_of ps k of Some v \<Rightarrow> v | None \<Rightarrow> JUndef)"
| "js_get _ _ = JUndef"

fun truthy :: "jsval \<Rightarrow> bool" where
  "truthy JUndef = False"
| "truthy JNull = False"
| "truthy (JBool b) = b"
| "truthy (JNum n) = num_truthy n"
| "truthy (JStr s) = (s \<noteq> [])"
| "truthy (JArr _) = True"
| "truthy (JObj _) = True"

text \<open>\<open>a || b\<close> and \<open>a ?? b\<close>.\<close>

definition js_or :: "jsval \<Rightarrow> jsval \<Rightarrow> jsval" where
  "js_or a b = (if truthy a then a else b)"

definition nullish :: "jsval \<Rightarrow> bool" where
  "nullish v \<longleftrightarrow> v = JUndef \<or> v = JNull"

definition coalesce :: "jsval \<Rightarrow> jsval \<Rightarrow> jsval" where
  "coalesce a b = (if nullish a then b else a)"

fun js_to_string :: "jsval \<Rightarrow> string" where
  "js_to_string JUndef = ''undefined''"
| "js_to_string JNull = ''null''"
| "js_to_string (JBool b) = (if b then ''true'' else ''false'')"
| "js_to_string (JNum n) = number_to_string n"
| "js_to_string (JStr s) = s"
| "js_to_string (JArr vs) =
     js_join '','' (map (\<lambda>v. if nullish v then [] else js_to_string v) vs)"
| "js_to_string (JObj _) = ''[object Object]''"

fun js_to_number :: "jsval \<Rightarrow> jsnum" where
  "js_to_number JUndef = NaN"
| "js_to_number JNull = Fin 0"
| "js_to_number (JBool b) = Fin (if b then 1 else 0)"
| "js_to_number (JNum n) = n"
| "js_to_number (JStr s) = string_to_number s"
| "js_to_number (JArr vs) = string_to_number (js_to_string (JArr vs))"
| "js_to_number (JObj _) = NaN"

fun is_string :: "jsval \<Rightarrow> bool" where
  "is_string (JStr _) = True"
| "is_string _ = False"

fun is_array :: "jsval \<Rightarrow> bool" where
  "is_array (JArr _) = True"
| "is_array _ = False"

text \<open>\<open>typeof v === "object"\<close>: null and arrays included.\<close>

fun is_object :: "jsval \<Rightarrow> bool" where
  "is_object JNull = True"
| "is_object (JArr _) = True"
| "is_object (JObj _) = True"
| "is_object _ = False"

lemma coalesce_simps [simp]:
  "coalesce JUndef b = b" "coalesce JNull b = b" "coalesce (JNum n) b = JNum n"
  "coalesce (JStr s) b = JStr s" "coalesce (JBool c) b = JBool c"
  by (simp_all add: coalesce_def nullish_def)

section \<open>JSON.stringify\<close>

definition hex_digit :: "nat \<Rightarrow> char" where
  "hex_digit d = char_of (if d < 10 then 48 + d else 87 + d)"

definition esc_char :: "char \<Rightarrow> string" where
  "esc_char c =
     (if c = CHR 0x22 then [CHR 0x5C, CHR 0x22]
      else if c = CHR 0x5C then [CHR 0x5C, CHR 0x5C]
      else if c = CHR 0x08 then [CHR 0x5C, CHR ''b'']
      else if c = CHR 0x0C then [CHR 0x5C, CHR ''f'']
      else if c = CHR 0x0A then [CHR 0x5C, CHR ''n'']
      else if c = CHR 0x0D then [CHR 0x5C, CHR ''r'']
      else if c = CHR 0x09 then [CHR 0x5C, CHR ''t'']
      else if (of_char c :: nat) < 32
      then [CHR 0x5C, CHR ''u'', CHR ''0'', CHR ''0'',
            hex_digit (of_char c div 16), hex_digit (of_char c mod 16)]
      else [c])"

definition quote :: "string \<Rightarrow> string" where
  "quote s = CHR 0x22 # concat (map esc_char s) @ [CHR 0x22]"

text \<open>
  \<open>json_text gap ind v\<close>: with an empty \<open>gap\<close> the compact form, otherwise one entry per line,
  each level indented by \<open>gap\<close>. Properties whose value is \<open>undefined\<close> are left out;
  \<open>undefined\<close> in an array and the non-finite numbers print as \<open>null\<close>.
\<close>

definition line_break :: "string \<Rightarrow> string \<Rightarrow> string" where
  "line_break gap ind = (if gap = [] then [] else CHR 0x0A # ind)"

fun json_text :: "string \<Rightarrow> string \<Rightarrow> jsval \<Rightarrow> string" where
  "json_text gap ind JUndef = ''null''"
| "json_text gap ind JNull = ''null''"
| "json_text gap ind (JBool b) = (if b then ''true'' else ''false'')"
| "json_text gap ind (JNum n) = (if is_finite n then number_to_string n else ''null'')"
| "json_text gap ind (JStr s) = quote s"
| "json_text gap ind (JArr vs) =
     (if vs = [] then ''[]''
      else ''['' @ line_break gap (ind @ gap)
           @ js_join ('','' @ line_break gap (ind @ gap)) (map (json_text gap (ind @ gap)) vs)
           @ line_break gap ind @ '']'')"
| "json_text gap ind (JObj ps) =
     (if filter (\<lambda>p. snd p \<noteq> JUndef) ps = [] then ''{}''
      else ''{'' @ line_break gap (ind @ gap)
           @ js_join ('','' @ line_break gap (ind @ gap))
               (map (\<lambda>(k, v). quote k @ '':'' @ (if gap = [] then [] else '' '')
                             @ json_text gap (ind @ gap) v)
                  (filter (\<lambda>p. snd p \<noteq> JUndef) ps))
           @ line_break gap ind @ ''}'')"

definition json_stringify :: "jsval \<Rightarrow> string" where
  "json_stringify v = json_text [] [] v"

definition json_stringify2 :: "jsval \<Rightarrow> string" where
  \<comment> \<open>\<open>JSON.stringify(v, null, 2)\<close>\<close>
  "json_stringify2 v = json_text ''  '' [] v"

section \<open>JSON.parse\<close>

definition is_json_ws :: "char \<Rightarrow> bool" where
  "is_json_ws c \<longleftrightarrow> c \<in> {CHR '' '', CHR 0x09, CHR 0x0A, CHR 0x0D}"

definition skip_ws :: "string \<Rightarrow> string" where
  "skip_ws s = dropWhile is_json_ws s"

definition expect :: "char \<Rightarrow> string \<Rightarrow> string option" where
  "expect c s = (case skip_ws s of [] \<Rightarrow> None | x # r \<Rightarrow> if x = c then Some r else None)"

definition hex4 :: "string \<Rightarrow> nat option" where
  "hex4 s = (if length s = 4 \<and> list_all (\<lambda>c. radix_digit c < 16) s
             then Some (foldl (\<lambda>n c. 16 * n + radix_digit c) 0 s) else None)"

text \<open>The UTF-8 bytes of a code point.\<close>

definition utf8_encode :: "nat \<Rightarrow> string" where
  "utf8_encode u =
     (if u < 0x80 then utf8 [u]
      else if u < 0x800 then utf8 [0xC0 + u div 64, 0x80 + u mod 64]
      else if u < 0x10000 then utf8 [0xE0 + u div 4096, 0x80 + u div 64 mod 64, 0x80 + u mod 64]
      else utf8 [0xF0 + u div 262144, 0x80 + u div 4096 mod 64, 0x80 + u div 64 mod 64, 0x80 + u mod 64])"

definition unescape_char :: "char \<Rightarrow> char option" where
  "unescape_char c =
     (if c = CHR 0x22 \<or> c = CHR 0x5C \<or> c = CHR ''/'' then Some c
      else if c = CHR ''b'' then Some (CHR 0x08)
      else if c = CHR ''f'' then Some (CHR 0x0C)
      else if c = CHR ''n'' then Some (CHR 0x0A)
      else if c = CHR ''r'' then Some (CHR 0x0D)
      else if c = CHR ''t'' then Some (CHR 0x09)
      else None)"

text \<open>A \<open>\u\<close> escape, with the low surrogate that completes a high one: code point and characters read.\<close>

definition scan_unicode :: "string \<Rightarrow> (nat \<times> nat) option" where
  "scan_unicode s =
     (case hex4 (take 4 s) of
        None \<Rightarrow> None
      | Some u \<Rightarrow>
          (case hex4 (take 4 (drop 6 s)) of
             Some l \<Rightarrow>
               if 0xD800 \<le> u \<and> u < 0xDC00 \<and> take 2 (drop 4 s) = [CHR 0x5C, CHR ''u'']
                  \<and> 0xDC00 \<le> l \<and> l < 0xE000
               then Some (0x10000 + (u - 0xD800) * 0x400 + (l - 0xDC00), 10)
               else Some (u, 4)
           | None \<Rightarrow> Some (u, 4)))"

text \<open>The characters of a string literal up to its closing quote, and the rest.\<close>

function scan_string :: "string \<Rightarrow> (string \<times> string) option" where
  "scan_string [] = None"
| "scan_string (c # s) =
     (if c = CHR 0x22 then Some ([], s)
      else if c = CHR 0x5C then
        (case s of
           [] \<Rightarrow> None
         | e # s' \<Rightarrow>
             if e = CHR ''u'' then
               (case scan_unicode s' of
                  None \<Rightarrow> None
                | Some (u, k) \<Rightarrow>
                    map_option (\<lambda>(t, r). (utf8_encode u @ t, r)) (scan_string (drop k s')))
             else
               (case unescape_char e of
                  None \<Rightarrow> None
                | Some x \<Rightarrow> map_option (\<lambda>(t, r). (x # t, r)) (scan_string s')))
      else if (of_char c :: nat) < 32 then None
      else map_option (\<lambda>(t, r). (c # t, r)) (scan_string s))"
  by pat_completeness auto
termination
  by (relation "measure length") auto

text \<open>The JSON number grammar; the value is the rounded decimal.\<close>

definition scan_fraction :: "string \<Rightarrow> (string \<times> string) option" where
  "scan_fraction s =
     (case s of
        c # r \<Rightarrow>
          if c = CHR ''.'' then
            (if takeWhile is_digit r = [] then None
             else Some (takeWhile is_digit r, dropWhile is_digit r))
          else Some ([], s)
      | [] \<Rightarrow> Some ([], s))"

definition scan_exponent :: "string \<Rightarrow> (int \<times> string) option" where
  "scan_exponent s =
     (case s of
        c # r \<Rightarrow>
          if c = CHR ''e'' \<or> c = CHR ''E'' then
            (let sgn = take 1 r;
                 ds = (if sgn = ''+'' \<or> sgn = ''-'' then drop 1 r else r);
                 e = takeWhile is_digit ds
             in if e = [] then None
                else Some ((if sgn = ''-'' then - int (nat_of_digits e) else int (nat_of_digits e)),
                           dropWhile is_digit ds))
          else Some (0, s)
      | [] \<Rightarrow> Some (0, s))"

definition scan_unsigned_number :: "string \<Rightarrow> (rat \<times> string) option" where
  "scan_unsigned_number s =
     (let ip = takeWhile is_digit s
      in if ip = [] \<or> (hd ip = CHR ''0'' \<and> 1 < length ip) then None
         else (case scan_fraction (dropWhile is_digit s) of
                 None \<Rightarrow> None
               | Some (fp, r) \<Rightarrow>
                   (case scan_exponent r of
                      None \<Rightarrow> None
                    | Some (e, r') \<Rightarrow>
                        Some (of_nat (nat_of_digits (ip @ fp)) / 10 ^ length fp * 10 powi e, r'))))"

definition scan_number :: "string \<Rightarrow> (jsval \<times> string) option" where
  "scan_number s =
     (case s of
        [] \<Rightarrow> None
      | c # r \<Rightarrow>
          if c = CHR ''-''
          then map_option (\<lambda>(x, r'). (JNum (fl (- x)), r')) (scan_unsigned_number r)
          else map_option (\<lambda>(x, r'). (JNum (fl x), r')) (scan_unsigned_number s))"

text \<open>
  Recursive descent; every call uses one unit of fuel. \<open>parse_elements\<close> and \<open>parse_members\<close>
  read a non-empty list up to its closing bracket.
\<close>

fun parse_value :: "nat \<Rightarrow> string \<Rightarrow> (jsval \<times> string) option"
  and parse_elements :: "nat \<Rightarrow> string \<Rightarrow> (jsval list \<times> string) option"
  and parse_members :: "nat \<Rightarrow> string \<Rightarrow> ((string \<times> jsval) list \<times> string) option"
where
  "parse_value 0 str = None"
| "parse_value (Suc n) str =
     (case skip_ws str of
        [] \<Rightarrow> None
      | c # r \<Rightarrow>
          if c = CHR ''{'' then
            (case expect CHR ''}'' r of
               Some r' \<Rightarrow> Some (JObj [], r')
             | None \<Rightarrow> map_option (\<lambda>(ms, r'). (JObj (new_Map ms), r')) (parse_members n r))
          else if c = CHR ''['' then
            (case expect CHR '']'' r of
               Some r' \<Rightarrow> Some (JArr [], r')
             | None \<Rightarrow> map_option (\<lambda>(vs, r'). (JArr vs, r')) (parse_elements n r))
          else if c = CHR 0x22 then map_option (\<lambda>(t, r'). (JStr t, r')) (scan_string r)
          else if starts_with (c # r) ''true'' then Some (JBool True, drop 4 (c # r))
          else if starts_with (c # r) ''false'' then Some (JBool False, drop 5 (c # r))
          else if starts_with (c # r) ''null'' then Some (JNull, drop 4 (c # r))
          else scan_number (c # r))"
| "parse_elements 0 str = None"
| "parse_elements (Suc n) str =
     (case parse_value n str of
        None \<Rightarrow> None
      | Some (v, r) \<Rightarrow>
          (case expect CHR '']'' r of
             Some r' \<Rightarrow> Some ([v], r')
           | None \<Rightarrow>
               (case expect CHR '','' r of
                  None \<Rightarrow> None
                | Some r' \<Rightarrow> map_option (\<lambda>(vs, r''). (v # vs, r'')) (parse_elements n r'))))"
| "parse_members 0 str = None"
| "parse_members (Suc n) str =
     (case expect CHR 0x22 str of
        None \<Rightarrow> None
      | Some r \<Rightarrow>
          (case scan_string r of
             None \<Rightarrow> None
           | Some (k, r1) \<Rightarrow>
               (case expect CHR '':'' r1 of
                  None \<Rightarrow> None
                | Some r2 \<Rightarrow>
                    (case parse_value n r2 of
                       None \<Rightarrow> None
                     | Some (v, r3) \<Rightarrow>
                         (case expect CHR ''}'' r3 of
                            Some r4 \<Rightarrow> Some ([(k, v)], r4)
                          | None \<Rightarrow>
                              (case expect CHR '','' r3 of
                                 None \<Rightarrow> None
                               | Some r4 \<Rightarrow>
                                   map_option (\<lambda>(ms, r5). ((k, v) # ms, r5)) (parse_members n r4)))))))"

text \<open>\<open>JSON.parse\<close>: \<open>None\<close> is the thrown \<open>SyntaxError\<close>.\<close>

definition json_parse :: "string \<Rightarrow> jsval option" where
  "json_parse s =
     (case parse_value (2 * length s + 2) s of
        Some (v, r) \<Rightarrow> if skip_ws r = [] then Some v else None
      | None \<Rightarrow> None)"

end
