(* ===== verification/Types.thy ===== *)
theory Types
  imports JS_Value
begin

text \<open>
  The data model of the console API, \<open>features/dashboard/types.ts\<close>: one record per object type,
  one datatype per union of string literals. A field \<open>f?: T\<close> or \<open>f: T | null\<close> is an
  \<open>option\<close>, an absent field and a \<open>null\<close> are both \<open>None\<close> unless the code tells them apart.
  Identifiers, timestamps, status codes, counts, limits and priorities are \<open>int\<close>; prices, costs
  and rates are JavaScript numbers. Fields declared \<open>any\<close> or \<open>unknown\<close> are \<open>jsval\<close>.
\<close>

section \<open>Session and requests\<close>

record ConsoleSession =
  cs_authenticated :: bool
  cs_enabled :: bool

record ConsoleSummary =
  sm_model :: "string option"
  sm_metadata_user_id :: "string option"
  sm_system_len :: "int option"
  sm_first_user_len :: "int option"
  sm_message_roles :: "string list option"

record ConsoleResponseTiming =
  rt_first_chunk_latency_ms :: "int option"
  rt_first_token_latency_ms :: "int option"
  rt_duration_ms :: "int option"
  rt_generation_duration_ms :: "int option"
  rt_response_body_bytes :: "int option"
  rt_has_streaming_content :: "bool option"

record ConsoleModelPricing =
  pr_input :: jsnum
  pr_output :: jsnum
  pr_cache_read :: "jsnum option"
  pr_cache_write :: "jsnum option"

record ModelMetadataOverride =
  ov_context :: "int option"
  ov_pricing :: "ConsoleModelPricing option"
  ov_updatedAt :: int

text \<open>\<open>Partial<ConsoleModelPricing>\<close>, and the payload in which \<open>null\<close> differs from an absent field.\<close>

record PartialPricing =
  pp_input :: "jsnum option"
  pp_output :: "jsnum option"
  pp_cache_read :: "jsnum option"
  pp_cache_write :: "jsnum option"

record UpdateModelMetadataPayload =
  um_context :: "jsnum option option"
  um_pricing :: "PartialPricing option option"

datatype provider_type = Anthropic | OpenAI

record ConsoleCostBreakdown =
  cb_upstream_type :: provider_type
  cb_uncached_input_tokens :: int
  cb_cache_read_tokens :: int
  cb_cache_write_tokens :: int
  cb_input_cost :: jsnum
  cb_output_cost :: jsnum
  cb_cache_read_cost :: jsnum
  cb_cache_write_cost :: jsnum
  cb_total_cost :: jsnum

record ConsoleResponseUsage =
  us_model :: "string option"
  us_stop_reason :: "string option"
  us_input_tokens :: "int option"
  us_uncached_input_tokens :: "int option"
  us_output_tokens :: "int option"
  us_total_tokens :: "int option"
  us_cache_creation_input_tokens :: "int option"
  us_cache_read_input_tokens :: "int option"
  us_cached_input_tokens :: "int option"
  us_reasoning_output_tokens :: "int option"
  us_total_input_tokens :: "int option"
  us_total_output_tokens :: "int option"
  us_total_cache_creation_tokens :: "int option"
  us_total_cache_read_tokens :: "int option"
  us_cost :: "jsnum option"
  us_cost_breakdown :: "ConsoleCostBreakdown option"
  us_cost_pricing :: "ConsoleModelPricing option"
  us_estimated :: "bool option"

record ConsoleAnalysis =
  an_cache_state :: string
  an_summary :: string

record ConsoleRequestListItem =
  rq_request_id :: string
  rq_created_at :: int
  rq_route_prefix :: string
  rq_upstream_type :: string
  rq_source_request_type :: "string option"
  rq_client_label :: "string option"
  rq_api_key_id :: "string option"
  rq_api_key_name :: "string option"
  rq_path :: string
  rq_target_url :: string
  rq_request_model :: string
  rq_response_status :: "int option"
  rq_response_status_text :: string
  rq_response_payload_truncated :: bool
  rq_response_payload_truncation_reason :: "string option"
  rq_response_timing :: ConsoleResponseTiming
  rq_response_usage :: ConsoleResponseUsage
  rq_forwarded_summary :: "ConsoleSummary option"
  rq_analysis :: ConsoleAnalysis
  rq_failover_from :: "string option"
  rq_failover_chain :: "string list"
  rq_original_route_prefix :: "string option"
  rq_original_request_model :: "string option"
  rq_failover_reason :: "string option"
  rq_retry_attempt :: int

record ConsoleRequestDetail =
  rd_record :: jsval
  rd_previous :: jsval
  rd_analysis :: ConsoleAnalysis
  rd_source_request_type :: "string option"
  rd_client_label :: "string option"
  rd_api_key_id :: "string option"
  rd_api_key_name :: "string option"

section \<open>Statistics\<close>

record ConsoleStatsBucket =
  sb_key :: string
  sb_label :: string
  sb_requests :: int
  sb_errors :: int
  sb_cache_hits :: int
  sb_cache_creates :: int
  sb_total_input_tokens :: "int option"
  sb_total_output_tokens :: "int option"
  sb_total_cache_creation_tokens :: "int option"
  sb_total_cache_read_tokens :: "int option"
  sb_total_cached_input_tokens :: "int option"
  sb_total_reasoning_output_tokens :: "int option"
  sb_total_tokens :: int
  sb_total_cost :: jsnum
  sb_avg_first_chunk_ms :: "jsnum option"
  sb_avg_first_token_ms :: "jsnum option"
  sb_avg_duration_ms :: "jsnum option"
  sb_last_seen_at :: int

record ConsoleStats =
  st_routes :: "ConsoleStatsBucket list"
  st_models :: "ConsoleStatsBucket list"
  st_clients :: "ConsoleStatsBucket list"

record ConsoleUsageFilterOption =
  fo_value :: string
  fo_label :: string

record ConsoleUsageFilters =
  uf_routes :: "ConsoleUsageFilterOption list"
  uf_models :: "ConsoleUsageFilterOption list"
  uf_clients :: "ConsoleUsageFilterOption list"

datatype storage_backend = Postgresql

record ConsoleUsageOverview =
  uo_total :: int
  uo_cache_hits :: int
  uo_cache_creates :: int
  uo_cache_misses :: int
  uo_errors :: int
  uo_failovers :: int
  uo_hit_rate :: jsnum
  uo_total_input_tokens :: int
  uo_total_output_tokens :: int
  uo_total_cache_creation_tokens :: int
  uo_total_cache_read_tokens :: int
  uo_total_cached_input_tokens :: int
  uo_total_reasoning_output_tokens :: int
  uo_total_tokens :: int
  uo_total_cost :: jsnum
  uo_total_input_cost :: jsnum
  uo_total_output_cost :: jsnum
  uo_total_cache_read_cost :: jsnum
  uo_total_cache_write_cost :: jsnum
  uo_avg_first_chunk_ms :: "jsnum option"
  uo_avg_first_token_ms :: "jsnum option"
  uo_avg_duration_ms :: "jsnum option"
  uo_avg_generation_ms :: "jsnum option"
  uo_storage_backend :: storage_backend
  uo_retention_max_records :: int

record ConsoleUsageTimeSeriesPoint =
  ts_bucket_start :: int
  ts_bucket_label :: string
  ts_requests :: int
  ts_total_tokens :: int
  ts_total_cost :: jsnum
  ts_errors :: int

text \<open>
  The payloads whose fields the hooks guard with \<open>??\<close> have optional fields: the server may omit
  them although \<open>types.ts\<close> declares them present.
\<close>

record ConsoleUsageStatsPayload =
  usp_overview :: "ConsoleUsageOverview option"
  usp_stats :: "ConsoleStats option"
  usp_filters :: "ConsoleUsageFilters option"
  usp_timeseries :: "ConsoleUsageTimeSeriesPoint list option"

record ConsoleRequestListPayload =
  rl_requests :: "ConsoleRequestListItem list option"
  rl_total :: "int option"
  rl_offset :: "int option"

datatype RequestSortKey = Created_at | Response_status | Tokens

datatype SortDirection = Asc | Desc

section \<open>Providers\<close>

record ProviderModelInfo =
  pm_model :: string
  pm_context :: "int option"
  pm_rest :: "(string \<times> jsval) list"

datatype auth_header = X_api_key | Authorization

record ProviderAuthInfo =
  pa_header :: auth_header
  pa_configured :: bool
  pa_value :: "string option"

datatype OpenAiResponsesMode = Native | Chat_compat | Responses_disabled

datatype RoutingVisibility = Direct | Explicit_only

datatype HealthStatus = Healthy | Degraded | Down | No_data

record ProviderInfo =
  pv_channelName :: string
  pv_type :: provider_type
  pv_targetBaseUrl :: string
  pv_systemPrompt :: "string option"
  pv_priority :: int
  pv_enabled :: bool
  pv_routingVisibility :: RoutingVisibility
  pv_models :: "ProviderModelInfo list"
  pv_auth :: "ProviderAuthInfo option"
  pv_responsesMode :: "OpenAiResponsesMode option"
  pv_extraFields :: "(string \<times> jsval) list option"
  pv_providerUuid :: string
  pv_healthStatus :: "HealthStatus option"

text \<open>The \<open>auth\<close> field of a mutation is absent, \<open>null\<close> or an object with optional fields.\<close>

record AuthPayload =
  ap_header :: "auth_header option"
  ap_value :: "string option"

record ProviderMutationPayload =
  mp_channelName :: string
  mp_type :: provider_type
  mp_targetBaseUrl :: string
  mp_systemPrompt :: "string option"
  mp_models :: "ProviderModelInfo list"
  mp_priority :: jsnum
  mp_routingVisibility :: RoutingVisibility
  mp_auth :: "AuthPayload option option"
  mp_responsesMode :: "OpenAiResponsesMode option"
  mp_extraFields :: "(string \<times> jsval) list option"

datatype test_status = Ok | Error

record TestProviderResult =
  tr_status :: test_status
  tr_statusCode :: int
  tr_message :: string
  tr_latencyMs :: "int option"
  tr_model :: "string option"
  tr_rawResponse :: jsval

section \<open>Keys, models, aliases, settings\<close>

record ManagedApiKey =
  ak_id :: string
  ak_name :: string
  ak_prefix :: string
  ak_created_at :: int
  ak_last_used_at :: "int option"
  ak_allowed_models :: "string list"
  ak_cost_quota :: "jsnum option"
  ak_cost_used :: jsnum
  ak_cost_remaining :: "jsnum option"
  ak_quota_exhausted :: bool

record ConsoleCreateKeyPayload =
  ck_key :: string
  ck_record :: ManagedApiKey

record ManagedApiKeyDetail = ManagedApiKey +
  akd_key :: string

record GatewayModel =
  gm_id :: string
  gm_channelName :: string
  gm_type :: provider_type
  gm_context :: "int option"
  gm_pricing :: "ConsoleModelPricing option"
  gm_override :: "ModelMetadataOverride option"

record ConsoleModelsPayload =
  cm_openai :: "GatewayModel list"
  cm_anthropic :: "GatewayModel list"

record RouteTarget =
  tg_provider :: string
  tg_model :: string

record ModelAlias =
  al_id :: int
  al_alias :: string
  al_provider :: string
  al_model :: string
  al_targets :: "RouteTarget list"
  al_description :: "string option"
  al_visible :: bool
  al_enabled :: bool
  al_createdAt :: int
  al_updatedAt :: int

text \<open>A field that the answer lacks reads as \<open>undefined\<close>, which is \<open>NaN\<close> wherever these numbers are used.\<close>

record TimeoutLimit =
  tl_minMs :: jsnum
  tl_maxMs :: jsnum
  tl_allowZero :: "bool option"

record GatewayTimeoutSettings =
  gt_defaultFirstByteTimeoutMs :: jsnum
  gt_streamFirstByteTimeoutMs :: jsnum
  gt_imageFirstByteTimeoutMs :: jsnum
  gt_responseIdleTimeoutMs :: jsnum

record GatewayTimeoutSettingsPayload = GatewayTimeoutSettings +
  gtp_ok :: bool
  gtp_defaults :: GatewayTimeoutSettings
  gtp_firstByte :: TimeoutLimit
  gtp_responseIdle :: TimeoutLimit
  gtp_updatedAt :: "int option"

datatype ModelFallbackMode = Fallback_disabled | Same_model | Any_model

record CustomModelFallbackRule =
  cf_model :: string
  cf_fallbacks :: "string list"

datatype status_range = Range_5xx

record GatewayFailoverPolicy =
  fp_enabled :: bool
  fp_retryAttempts :: int
  fp_modelFallbackMode :: ModelFallbackMode
  fp_maxFallbackAttempts :: int
  fp_customModelFallbacks :: "CustomModelFallbackRule list"
  fp_retryOnTimeout :: bool
  fp_retryOnNetworkError :: bool
  fp_retryOnStatusCodes :: "int list"
  fp_retryOnStatusRanges :: "status_range list"

record IntLimit =
  lim_min :: int
  lim_max :: int

record FailoverLimits =
  fl_retryAttempts :: IntLimit
  fl_maxFallbackAttempts :: IntLimit
  fl_customModelFallbackRules :: IntLimit
  fl_customModelFallbacksPerRule :: IntLimit

record GatewayFailoverPolicyPayload = GatewayFailoverPolicy +
  fpp_ok :: bool
  fpp_defaults :: GatewayFailoverPolicy
  fpp_limits :: FailoverLimits
  fpp_updatedAt :: "int option"

section \<open>A typed value seen as \<open>any\<close>\<close>

text \<open>
  The formatting helpers of \<open>utils.ts\<close> take their argument as \<open>any\<close>; a record reaches them as
  the object with the fields that are present.
\<close>

definition opt_field :: "string \<Rightarrow> ('a \<Rightarrow> jsval) \<Rightarrow> 'a option \<Rightarrow> (string \<times> jsval) list" where
  "opt_field k f v = (case v of None \<Rightarrow> [] | Some x \<Rightarrow> [(k, f x)])"

definition int_val :: "int \<Rightarrow> jsval" where
  "int_val n = JNum (js_int n)"

definition pricing_any :: "ConsoleModelPricing \<Rightarrow> jsval" where
  "pricing_any p = JObj (
     [(''input'', JNum (pr_input p)), (''output'', JNum (pr_output p))] @
     opt_field ''cache_read'' JNum (pr_cache_read p) @
     opt_field ''cache_write'' JNum (pr_cache_write p))"

definition breakdown_any :: "ConsoleCostBreakdown \<Rightarrow> jsval" where
  "breakdown_any b = JObj
     [(''upstream_type'', JStr (case cb_upstream_type b of Anthropic \<Rightarrow> ''anthropic'' | OpenAI \<Rightarrow> ''openai'')),
      (''uncached_input_tokens'', int_val (cb_uncached_input_tokens b)),
      (''cache_read_tokens'', int_val (cb_cache_read_tokens b)),
      (''cache_write_tokens'', int_val (cb_cache_write_tokens b)),
      (''input_cost'', JNum (cb_input_cost b)),
      (''output_cost'', JNum (cb_output_cost b)),
      (''cache_read_cost'', JNum (cb_cache_read_cost b)),
      (''cache_write_cost'', JNum (cb_cache_write_cost b)),
      (''total_cost'', JNum (cb_total_cost b))]"

definition usage_any :: "ConsoleResponseUsage \<Rightarrow> jsval" where
  "usage_any u = JObj (
     opt_field ''model'' JStr (us_model u) @
     opt_field ''stop_reason'' JStr (us_stop_reason u) @
     opt_field ''input_tokens'' int_val (us_input_tokens u) @
     opt_field ''uncached_input_tokens'' int_val (us_uncached_input_tokens u) @
     opt_field ''output_tokens'' int_val (us_output_tokens u) @
     opt_field ''total_tokens'' int_val (us_total_tokens u) @
     opt_field ''cache_creation_input_tokens'' int_val (us_cache_creation_input_tokens u) @
     opt_field ''cache_read_input_tokens'' int_val (us_cache_read_input_tokens u) @
     opt_field ''cached_input_tokens'' int_val (us_cached_input_tokens u) @
     opt_field ''reasoning_output_tokens'' int_val (us_reasoning_output_tokens u) @
     opt_field ''total_input_tokens'' int_val (us_total_input_tokens u) @
     opt_field ''total_output_tokens'' int_val (us_total_output_tokens u) @
     opt_field ''total_cache_creation_tokens'' int_val (us_total_cache_creation_tokens u) @
     opt_field ''total_cache_read_tokens'' int_val (us_total_cache_read_tokens u) @
     opt_field ''cost'' JNum (us_cost u) @
     opt_field ''cost_breakdown'' breakdown_any (us_cost_breakdown u) @
     opt_field ''cost_pricing'' pricing_any (us_cost_pricing u) @
     opt_field ''estimated'' JBool (us_estimated u))"

definition timing_any :: "ConsoleResponseTiming \<Rightarrow> jsval" where
  "timing_any t = JObj (
     opt_field ''first_chunk_latency_ms'' int_val (rt_first_chunk_latency_ms t) @
     opt_field ''first_token_latency_ms'' int_val (rt_first_token_latency_ms t) @
     opt_field ''duration_ms'' int_val (rt_duration_ms t) @
     opt_field ''generation_duration_ms'' int_val (rt_generation_duration_ms t) @
     opt_field ''response_body_bytes'' int_val (rt_response_body_bytes t) @
     opt_field ''has_streaming_content'' JBool (rt_has_streaming_content t))"

section \<open>Library type classes for the model's types\<close>

text \<open>
  The protocols are ordered by their names, which is how the route map sorts two entries for one
  model (\<open>a.type.localeCompare(b.type)\<close>).
\<close>

instantiation provider_type :: linorder
begin

definition less_eq_provider_type :: "provider_type \<Rightarrow> provider_type \<Rightarrow> bool" where
  "less_eq_provider_type a b \<longleftrightarrow> a = Anthropic \<or> b = OpenAI"

definition less_provider_type :: "provider_type \<Rightarrow> provider_type \<Rightarrow> bool" where
  "less_provider_type a b \<longleftrightarrow> a = Anthropic \<and> b = OpenAI"

instance
proof
  fix x y z :: provider_type
  show "(x < y) = (x \<le> y \<and> \<not> y \<le> x)"
    by (cases x; cases y) (simp_all add: less_eq_provider_type_def less_provider_type_def)
  show "x \<le> x" by (cases x) (simp_all add: less_eq_provider_type_def)
  show "x \<le> y \<Longrightarrow> y \<le> z \<Longrightarrow> x \<le> z"
    by (cases x; cases y) (simp_all add: less_eq_provider_type_def)
  show "x \<le> y \<Longrightarrow> y \<le> x \<Longrightarrow> x = y"
    by (cases x; cases y) (simp_all add: less_eq_provider_type_def)
  show "x \<le> y \<or> y \<le> x" by (cases x; cases y) (simp_all add: less_eq_provider_type_def)
qed

end

fun type_name :: "provider_type \<Rightarrow> string" where
  "type_name Anthropic = ''anthropic''"
| "type_name OpenAI = ''openai''"

lemma type_name_inject [simp]: "type_name a = type_name b \<longleftrightarrow> a = b"
  by (cases a; cases b) simp_all

end
