(* ===== verification/Format.thy ===== *)
theory Format
  imports Types
begin

text \<open>
  The display helpers of \<open>features/dashboard/utils.ts\<close>: numbers, durations, costs, token counts,
  the usage and cost tables of a request, and the badges of cache states and HTTP statuses.
  \<open>date_text\<close> stands for \<open>new Date(ts).toLocaleString("zh-CN", { hour12: false })\<close>, whose result
  depends on the time zone of the browser.
\<close>

section \<open>Labels that are not ASCII (UTF-8)\<close>

definition label_output_speed :: string where
  "label_output_speed = utf8 [0xE8, 0xBE, 0x93, 0xE5, 0x87, 0xBA, 0xE9, 0x80, 0x9F, 0xE5, 0xBA, 0xA6]"

definition label_total_cost :: string where
  "label_total_cost = utf8 [0xE6, 0x80, 0xBB, 0xE6, 0x88, 0x90, 0xE6, 0x9C, 0xAC]"

definition label_model :: string where
  "label_model = utf8 [0xE6, 0xA8, 0xA1, 0xE5, 0x9E, 0x8B]"

definition label_formula :: string where
  "label_formula = utf8 [0xE8, 0xAE, 0xA1, 0xE7, 0xAE, 0x97, 0xE5, 0x85, 0xAC, 0xE5, 0xBC, 0x8F]"

definition label_no_pricing :: string where
  "label_no_pricing = utf8 [0xE7, 0xBC, 0xBA, 0xE5, 0xB0, 0x91, 0xE8, 0xAF, 0xA5, 0xE6, 0xA8, 0xA1, 0xE5, 0x9E, 0x8B, 0xE7, 0x9A, 0x84, 0xE5, 0xAE, 0x9A, 0xE4, 0xBB, 0xB7, 0xE6, 0x95, 0xB0, 0xE6, 0x8D, 0xAE, 0xEF, 0xBC, 0x8C, 0xE6, 0x9A, 0x82, 0xE6, 0x97, 0xB6, 0xE6, 0x97, 0xA0, 0xE6, 0xB3, 0x95, 0xE5, 0xB1, 0x95, 0xE5, 0xBC, 0x80, 0xE8, 0xAE, 0xA1, 0xE7, 0xAE, 0x97, 0xE5, 0x85, 0xAC, 0xE5, 0xBC, 0x8F, 0xE3, 0x80, 0x82]"

definition label_unit_price :: string where
  "label_unit_price = utf8 [0xE6, 0xA8, 0xA1, 0xE5, 0x9E, 0x8B, 0xE5, 0x8D, 0x95, 0xE4, 0xBB, 0xB7]"

definition label_in :: string where
  "label_in = utf8 [0xE8, 0xBE, 0x93, 0xE5, 0x85, 0xA5, 0x20]"

definition label_dot_out :: string where
  "label_dot_out = utf8 [0x20, 0xC2, 0xB7, 0x20, 0xE8, 0xBE, 0x93, 0xE5, 0x87, 0xBA, 0x20]"

definition label_dot :: string where
  "label_dot = utf8 [0x20, 0xC2, 0xB7, 0x20]"

definition label_cache_read_price :: string where
  "label_cache_read_price = utf8 [0x20, 0xC2, 0xB7, 0x20, 0xE7, 0xBC, 0x93, 0xE5, 0xAD, 0x98, 0xE8, 0xAF, 0xBB, 0x20]"

definition label_cache_write_price :: string where
  "label_cache_write_price = utf8 [0x20, 0xC2, 0xB7, 0x20, 0xE7, 0xBC, 0x93, 0xE5, 0xAD, 0x98, 0xE5, 0x86, 0x99, 0x20]"

definition label_input_formula :: string where
  "label_input_formula = utf8 [0xE8, 0xBE, 0x93, 0xE5, 0x85, 0xA5, 0xE5, 0x85, 0xAC, 0xE5, 0xBC, 0x8F]"

definition label_output_formula :: string where
  "label_output_formula = utf8 [0xE8, 0xBE, 0x93, 0xE5, 0x87, 0xBA, 0xE5, 0x85, 0xAC, 0xE5, 0xBC, 0x8F]"

definition label_cached_prompt_formula :: string where
  "label_cached_prompt_formula = utf8 [0xE5, 0x85, 0xAC, 0xE5, 0xBC, 0x8F]"

definition label_cache_read_formula :: string where
  "label_cache_read_formula = utf8 [0xE7, 0xBC, 0x93, 0xE5, 0xAD, 0x98, 0xE8, 0xAF, 0xBB, 0xE5, 0x85, 0xAC, 0xE5, 0xBC, 0x8F]"

definition label_cache_write_formula :: string where
  "label_cache_write_formula = utf8 [0xE7, 0xBC, 0x93, 0xE5, 0xAD, 0x98, 0xE5, 0x86, 0x99, 0xE5, 0x85, 0xAC, 0xE5, 0xBC, 0x8F]"

definition label_sum_formula :: string where
  "label_sum_formula = utf8 [0xE6, 0xB1, 0x87, 0xE6, 0x80, 0xBB, 0xE5, 0x85, 0xAC, 0xE5, 0xBC, 0x8F]"

definition label_times :: string where
  "label_times = utf8 [0x20, 0xC3, 0x97, 0x20]"

definition label_pending :: string where
  "label_pending = utf8 [0xE8, 0xAF, 0xB7, 0xE6, 0xB1, 0x82, 0xE4, 0xB8, 0xAD]"

definition label_timeout :: string where
  "label_timeout = utf8 [0x20, 0xE8, 0xB6, 0x85, 0xE6, 0x97, 0xB6]"

definition label_success :: string where
  "label_success = utf8 [0x20, 0xE6, 0x88, 0x90, 0xE5, 0x8A, 0x9F]"

definition label_failure :: string where
  "label_failure = utf8 [0x20, 0xE5, 0xA4, 0xB1, 0xE8, 0xB4, 0xA5]"

definition label_login_failed :: string where
  "label_login_failed = utf8 [0xE7, 0x99, 0xBB, 0xE5, 0xBD, 0x95, 0xE5, 0xA4, 0xB1, 0xE8, 0xB4, 0xA5]"

section \<open>Scalars\<close>

definition formatTime :: "(int \<Rightarrow> string) \<Rightarrow> int option \<Rightarrow> string" where
  "formatTime date_text timestamp =
     (case timestamp of
        None \<Rightarrow> ''--''
      | Some ts \<Rightarrow> if ts = 0 then ''--'' else date_text ts)"

definition formatBytes :: "jsnum option \<Rightarrow> string" where
  "formatBytes bytes =
     (let value = (case bytes of Some v \<Rightarrow> if num_truthy v then v else Fin 0 | None \<Rightarrow> Fin 0)
      in if \<not> is_finite value \<or> num_le value (Fin 0) then ''0 B''
         else if num_less value (Fin 1024) then number_to_string value @ '' B''
         else if num_less value (Fin (1024 * 1024))
         then to_fixed 1 (num_div value (Fin 1024)) @ '' KB''
         else to_fixed 1 (num_div value (Fin (1024 * 1024))) @ '' MB'')"

definition or_zero :: "jsval \<Rightarrow> jsnum" where
  \<comment> \<open>\<open>Number(value || 0)\<close>\<close>
  "or_zero v = js_to_number (js_or v (JNum (Fin 0)))"

definition formatCount :: "jsval \<Rightarrow> string" where
  "formatCount value =
     (let numeric = or_zero value
      in if \<not> is_finite numeric then ''--'' else to_locale_string numeric)"

definition formatDuration :: "jsval \<Rightarrow> string" where
  "formatDuration value =
     (let numeric = js_to_number value
      in if \<not> is_finite numeric \<or> num_less numeric (Fin 0) then ''--''
         else if num_less numeric (Fin 1000) then number_to_string (math_round numeric) @ '' ms''
         else if num_less numeric (Fin (60 * 1000))
         then to_fixed (if num_le (Fin (10 * 1000)) numeric then 1 else 2)
                (num_div numeric (Fin 1000)) @ '' s''
         else to_fixed 1 (num_div numeric (Fin (60 * 1000))) @ '' min'')"

definition formatPercent :: "jsval \<Rightarrow> string" where
  "formatPercent value =
     (let numeric = js_to_number value
      in if \<not> is_finite numeric then ''--'' else to_fixed 1 numeric @ ''%'')"

definition formatCost :: "jsval \<Rightarrow> string" where
  "formatCost value =
     (let numeric = or_zero value
      in if \<not> is_finite numeric \<or> num_less numeric (Fin 0) then ''--''
         else if numeric = Fin 0 then ''$0.00''
         else if num_less numeric (fl (1 / 100)) then ''$'' @ to_fixed 4 numeric
         else ''$'' @ to_fixed 2 numeric)"

definition formatPricePerMillion :: "jsval \<Rightarrow> string" where
  "formatPricePerMillion value =
     (let numeric = or_zero value
      in if \<not> is_finite numeric \<or> num_less numeric (Fin 0) then ''--''
         else if numeric = Fin 0 then ''$0.00 / 1M''
         else if num_less numeric (fl (1 / 100)) then ''$'' @ to_fixed 4 numeric @ '' / 1M''
         else ''$'' @ to_fixed 2 numeric @ '' / 1M'')"

definition calculateOutputTokensPerSecond :: "jsval \<Rightarrow> jsval \<Rightarrow> jsnum option" where
  "calculateOutputTokensPerSecond usageLike timingLike =
     (let outputTokens = js_to_number (coalesce (js_get usageLike ''output_tokens'')
                                                (js_get usageLike ''total_output_tokens''));
          generationDurationMs = js_to_number (js_get timingLike ''generation_duration_ms'')
      in if \<not> is_finite outputTokens \<or> num_le outputTokens (Fin 0) then None
         else if \<not> is_finite generationDurationMs \<or> num_le generationDurationMs (Fin 0) then None
         else Some (num_div outputTokens (num_div generationDurationMs (Fin 1000))))"

text \<open>\<open>Number(null)\<close> is 0: a missing rate prints as a rate that is not positive.\<close>

definition formatTokensPerSecond :: "jsval \<Rightarrow> string" where
  "formatTokensPerSecond value =
     (let numeric = js_to_number value
      in if \<not> is_finite numeric \<or> num_le numeric (Fin 0) then ''--''
         else if num_le (Fin 100) numeric then to_fixed 0 numeric @ '' tok/s''
         else if num_le (Fin 10) numeric then to_fixed 1 numeric @ '' tok/s''
         else to_fixed 2 numeric @ '' tok/s'')"

definition shortText :: "jsval \<Rightarrow> nat \<Rightarrow> string" where
  "shortText text limit =
     (let value = js_to_string (coalesce text (JStr []))
      in if value = [] then ''--''
         else if length value \<le> limit then value
         else take limit value @ ''...'')"

definition calculateHitRate :: "jsval \<Rightarrow> jsval \<Rightarrow> jsnum" where
  "calculateHitRate hits requests =
     (let hitValue = or_zero hits; requestValue = or_zero requests
      in if \<not> num_truthy requestValue then Fin 0
         else num_mul (num_div hitValue requestValue) (Fin 100))"

section \<open>Token totals\<close>

definition token_field :: "jsval \<Rightarrow> string \<Rightarrow> string \<Rightarrow> jsnum" where
  \<comment> \<open>\<open>Number(usageLike?.a ?? usageLike?.b ?? 0)\<close>\<close>
  "token_field usageLike a b =
     js_to_number (coalesce (js_get usageLike a) (coalesce (js_get usageLike b) (JNum (Fin 0))))"

definition getTotalTokens :: "jsval \<Rightarrow> string \<Rightarrow> jsnum" where
  "getTotalTokens usageLike upstreamType =
     (let explicitTotal = js_to_number (coalesce (js_get usageLike ''total_tokens'') (JNum (Fin 0)))
      in if is_finite explicitTotal \<and> num_less (Fin 0) explicitTotal then explicitTotal
         else
           (let input = token_field usageLike ''input_tokens'' ''total_input_tokens'';
                output = token_field usageLike ''output_tokens'' ''total_output_tokens''
            in if upstreamType = ''openai'' then num_add input output
               else
                 (let cacheCreation = token_field usageLike
                        ''cache_creation_input_tokens'' ''total_cache_creation_tokens'';
                      cacheRead = token_field usageLike
                        ''cache_read_input_tokens'' ''total_cache_read_tokens''
                  in num_add (num_add (num_add input output) cacheCreation) cacheRead)))"

section \<open>The usage and cost tables of a request\<close>

record MetricRow =
  row_label :: string
  row_value :: string

abbreviation row :: "string \<Rightarrow> string \<Rightarrow> MetricRow" where
  "row l v \<equiv> \<lparr>row_label = l, row_value = v\<rparr>"

definition speed_val :: "jsnum option \<Rightarrow> jsval" where
  "speed_val r = (case r of None \<Rightarrow> JNull | Some n \<Rightarrow> JNum n)"

definition text_or_dashes :: "jsval \<Rightarrow> string" where
  \<comment> \<open>\<open>v || "--"\<close>, shown as text\<close>
  "text_or_dashes v = (if truthy v then js_to_string v else ''--'')"

definition getUsageMetricRows :: "jsval \<Rightarrow> jsval \<Rightarrow> string \<Rightarrow> MetricRow list" where
  "getUsageMetricRows usageLike timingLike upstreamType =
     (let outputSpeed = formatTokensPerSecond
            (speed_val (calculateOutputTokensPerSecond usageLike timingLike));
          suffix = (if truthy (js_get usageLike ''estimated'') then '' (estimated)'' else [])
      in if upstreamType = ''openai'' then
           [row (''prompt'' @ suffix) (formatCount (js_get usageLike ''input_tokens'')),
            row (''uncached prompt'' @ suffix)
                (formatCount (coalesce (js_get usageLike ''uncached_input_tokens'')
                                       (js_get usageLike ''input_tokens''))),
            row (''completion'' @ suffix) (formatCount (js_get usageLike ''output_tokens'')),
            row (''total'' @ suffix) (formatCount (JNum (getTotalTokens usageLike upstreamType))),
            row label_output_speed outputSpeed,
            row ''cached prompt'' (formatCount (js_get usageLike ''cached_input_tokens'')),
            row ''reasoning'' (formatCount (js_get usageLike ''reasoning_output_tokens'')),
            row ''stop reason'' (text_or_dashes (js_get usageLike ''stop_reason''))]
         else
           [row (''input'' @ suffix) (formatCount (js_get usageLike ''input_tokens'')),
            row (''output'' @ suffix) (formatCount (js_get usageLike ''output_tokens'')),
            row (''total'' @ suffix) (formatCount (JNum (getTotalTokens usageLike upstreamType))),
            row label_output_speed outputSpeed,
            row ''cache create'' (formatCount (js_get usageLike ''cache_creation_input_tokens'')),
            row ''cache read'' (formatCount (js_get usageLike ''cache_read_input_tokens'')),
            row ''stop reason'' (text_or_dashes (js_get usageLike ''stop_reason''))])"

definition formatCostFormula :: "jsval \<Rightarrow> jsval \<Rightarrow> jsval \<Rightarrow> string" where
  "formatCostFormula tokens unitPrice cost =
     formatCount tokens @ label_times @ formatCost unitPrice @ '' / 1,000,000 = '' @ formatCost cost"

definition getCostMetricRows :: "jsval \<Rightarrow> string \<Rightarrow> string \<Rightarrow> MetricRow list" where
  "getCostMetricRows usageLike fallbackModel upstreamType =
     (let pricing = js_get usageLike ''cost_pricing'';
          breakdown = js_get usageLike ''cost_breakdown'';
          openai = (upstreamType = ''openai'');
          zero = JNum (Fin 0);
          model = (if truthy (js_get usageLike ''model'') then js_to_string (js_get usageLike ''model'')
                   else if fallbackModel \<noteq> [] then fallbackModel else ''--'');
          uncachedInputTokens = coalesce (js_get breakdown ''uncached_input_tokens'')
            (coalesce (js_get usageLike ''uncached_input_tokens'')
              (coalesce (js_get usageLike ''input_tokens'') zero));
          cacheReadTokens = coalesce (js_get breakdown ''cache_read_tokens'')
            (coalesce (if openai then js_get usageLike ''cached_input_tokens''
                       else js_get usageLike ''cache_read_input_tokens'') zero);
          cacheWriteTokens = coalesce (js_get breakdown ''cache_write_tokens'')
            (coalesce (if openai then zero
                       else js_get usageLike ''cache_creation_input_tokens'') zero);
          price = (\<lambda>k. js_get pricing k);
          readPrice = coalesce (price ''cache_read'') zero;
          writePrice = coalesce (price ''cache_write'') zero;
          cost = (\<lambda>k. js_get breakdown k);
          rows = [row label_total_cost (formatCost (js_get usageLike ''cost'')),
                  row label_model model]
      in if \<not> truthy pricing \<or> \<not> truthy breakdown then
           rows @ [row label_formula label_no_pricing]
         else
           rows @
           [row label_unit_price
              (if openai then
                 label_in @ formatPricePerMillion (price ''input'') @ label_dot_out
                 @ formatPricePerMillion (price ''output'') @ label_dot @ ''cached prompt ''
                 @ formatPricePerMillion readPrice
               else
                 label_in @ formatPricePerMillion (price ''input'') @ label_dot_out
                 @ formatPricePerMillion (price ''output'') @ label_cache_read_price
                 @ formatPricePerMillion readPrice @ label_cache_write_price
                 @ formatPricePerMillion writePrice)] @
           [row label_input_formula
              (formatCostFormula uncachedInputTokens (price ''input'') (cost ''input_cost'')),
            row label_output_formula
              (formatCostFormula (js_get usageLike ''output_tokens'') (price ''output'')
                 (cost ''output_cost'')),
            row (if openai then ''cached prompt'' @ label_cached_prompt_formula
                 else label_cache_read_formula)
              (formatCostFormula cacheReadTokens readPrice (cost ''cache_read_cost''))] @
           (if openai then []
            else [row label_cache_write_formula
                    (formatCostFormula cacheWriteTokens writePrice (cost ''cache_write_cost''))]) @
           [row label_sum_formula
              (if openai then
                 formatCost (cost ''input_cost'') @ '' + '' @ formatCost (cost ''output_cost'')
                 @ '' + '' @ formatCost (cost ''cache_read_cost'')
                 @ '' = '' @ formatCost (cost ''total_cost'')
               else
                 formatCost (cost ''input_cost'') @ '' + '' @ formatCost (cost ''output_cost'')
                 @ '' + '' @ formatCost (cost ''cache_read_cost'')
                 @ '' + '' @ formatCost (cost ''cache_write_cost'')
                 @ '' = '' @ formatCost (cost ''total_cost''))])"

section \<open>Badges and status labels\<close>

datatype badge_variant = Default_badge | Secondary | Outline | Destructive

definition getStatusBadgeVariant :: "string \<Rightarrow> badge_variant" where
  "getStatusBadgeVariant cacheState =
     (if cacheState = ''hit'' then Secondary
      else if cacheState = ''miss'' then Destructive else Outline)"

definition getComparisonBadgeVariant :: "string \<Rightarrow> badge_variant" where
  "getComparisonBadgeVariant status =
     (if status = ''expected_hit_confirmed'' then Secondary
      else if status = ''expected_hit_missed'' then Destructive else Outline)"

definition getHttpStatusLabel :: "int option \<Rightarrow> string" where
  "getHttpStatusLabel status =
     (case status of
        None \<Rightarrow> label_pending
      | Some s \<Rightarrow>
          if s = 408 \<or> s = 504 then int_str s @ label_timeout
          else if 200 \<le> s \<and> s < 400 then int_str s @ label_success
          else int_str s @ label_failure)"

definition getHttpStatusBadgeVariant :: "int option \<Rightarrow> badge_variant" where
  "getHttpStatusBadgeVariant status =
     (case status of
        None \<Rightarrow> Outline
      | Some s \<Rightarrow> if 200 \<le> s \<and> s < 400 then Secondary else Destructive)"

section \<open>Payload text\<close>

definition getPayloadText :: "string option \<Rightarrow> string" where
  "getPayloadText payload =
     (let text = (case payload of Some s \<Rightarrow> s | None \<Rightarrow> [])
      in if text = [] then []
         else (case json_parse text of Some v \<Rightarrow> json_stringify2 v | None \<Rightarrow> text))"

definition getPayloadBytes :: "string option \<Rightarrow> nat" where
  "getPayloadBytes payload = length (case payload of Some s \<Rightarrow> s | None \<Rightarrow> [])"

section \<open>Helper lemmas\<close>

named_theorems usage_simps

lemma map_of_opt_field [usage_simps]:
  "map_of (opt_field k f v @ r) k' =
     (if k = k' then (case v of Some x \<Rightarrow> Some (f x) | None \<Rightarrow> map_of r k') else map_of r k')"
  by (simp add: opt_field_def split: option.splits)

lemma map_of_opt_field_last [usage_simps]:
  "map_of (opt_field k f v) k' = (if k = k' then map_option f v else None)"
  by (simp add: opt_field_def split: option.splits)

declare map_of_append [simp del]

text \<open>The token fields of a typed usage, read through \<open>any\<close>.\<close>

definition opt_int :: "int option \<Rightarrow> jsval" where
  "opt_int v = (case v of None \<Rightarrow> JUndef | Some x \<Rightarrow> int_val x)"

lemma usage_any_get:
  "js_get (usage_any u) ''total_tokens'' = opt_int (us_total_tokens u)"
  "js_get (usage_any u) ''input_tokens'' = opt_int (us_input_tokens u)"
  "js_get (usage_any u) ''output_tokens'' = opt_int (us_output_tokens u)"
  "js_get (usage_any u) ''total_input_tokens'' = opt_int (us_total_input_tokens u)"
  "js_get (usage_any u) ''total_output_tokens'' = opt_int (us_total_output_tokens u)"
  "js_get (usage_any u) ''cache_creation_input_tokens'' = opt_int (us_cache_creation_input_tokens u)"
  "js_get (usage_any u) ''cache_read_input_tokens'' = opt_int (us_cache_read_input_tokens u)"
  "js_get (usage_any u) ''total_cache_creation_tokens'' = opt_int (us_total_cache_creation_tokens u)"
  "js_get (usage_any u) ''total_cache_read_tokens'' = opt_int (us_total_cache_read_tokens u)"
  by (simp_all add: usage_any_def opt_int_def usage_simps split: option.splits)

lemma usage_any_stop_reason:
  "js_get (usage_any u) ''stop_reason'' = (case us_stop_reason u of None \<Rightarrow> JUndef | Some s \<Rightarrow> JStr s)"
  by (simp add: usage_any_def usage_simps split: option.splits)

definition no_usage :: ConsoleResponseUsage where
  "no_usage =
     \<lparr>us_model = None, us_stop_reason = None, us_input_tokens = None,
      us_uncached_input_tokens = None, us_output_tokens = None, us_total_tokens = None,
      us_cache_creation_input_tokens = None, us_cache_read_input_tokens = None,
      us_cached_input_tokens = None, us_reasoning_output_tokens = None,
      us_total_input_tokens = None, us_total_output_tokens = None,
      us_total_cache_creation_tokens = None, us_total_cache_read_tokens = None,
      us_cost = None, us_cost_breakdown = None, us_cost_pricing = None, us_estimated = None\<rparr>"

definition first_of :: "int option \<Rightarrow> int option \<Rightarrow> int" where
  "first_of a b = (case a of Some x \<Rightarrow> x | None \<Rightarrow> (case b of Some y \<Rightarrow> y | None \<Rightarrow> 0))"

lemma js_to_number_opt:
  "js_to_number (coalesce (opt_int a) (JNum (Fin 0))) = js_int (first_of a None)"
  "js_to_number (coalesce (opt_int a) (coalesce (opt_int b) (JNum (Fin 0)))) = js_int (first_of a b)"
  by (auto simp: opt_int_def int_val_def first_of_def js_int_def fl_def split: option.splits)

lemma token_field_usage:
  "token_field (usage_any u) ''input_tokens'' ''total_input_tokens'' =
     js_int (first_of (us_input_tokens u) (us_total_input_tokens u))"
  "token_field (usage_any u) ''output_tokens'' ''total_output_tokens'' =
     js_int (first_of (us_output_tokens u) (us_total_output_tokens u))"
  "token_field (usage_any u) ''cache_creation_input_tokens'' ''total_cache_creation_tokens'' =
     js_int (first_of (us_cache_creation_input_tokens u) (us_total_cache_creation_tokens u))"
  "token_field (usage_any u) ''cache_read_input_tokens'' ''total_cache_read_tokens'' =
     js_int (first_of (us_cache_read_input_tokens u) (us_total_cache_read_tokens u))"
  by (simp_all add: token_field_def usage_any_get js_to_number_opt)

lemma or_zero_int_val: "\<bar>n\<bar> < 2 ^ 53 \<Longrightarrow> or_zero (int_val n) = Fin (of_int n)"
  by (auto simp: or_zero_def js_or_def int_val_def js_int_exact num_truthy_def)

lemma to_fixed_nonempty [simp]: "rat_to_fixed f x \<noteq> []"
proof -
  have "fixed_digits f n \<noteq> []" for n
    by (auto simp: fixed_digits_def Let_def pad_start_def)
  then show ?thesis by (simp add: rat_to_fixed_def)
qed

lemma group_rev_eq_Nil [simp]: "group_rev s = [] \<longleftrightarrow> s = []"
  by (cases s rule: group_rev.cases) auto

lemma locale_digits_nonempty [simp]: "locale_digits n \<noteq> []"
  by (simp add: locale_digits_def Let_def)

lemma formatCount_nonempty [simp]: "formatCount v \<noteq> []"
  by (cases "or_zero v") (simp_all add: formatCount_def Let_def)

lemma formatTokensPerSecond_nonempty [simp]: "formatTokensPerSecond v \<noteq> []"
  by (simp add: formatTokensPerSecond_def Let_def)

section \<open>Properties\<close>

text \<open>
  The cache hit rate shown for \<open>h\<close> hits among \<open>r\<close> requests is a finite percentage
  between 0 and 100, whatever the two double roundings do, and is 0 when there is no request.
\<close>
theorem calculateHitRate_bounds:
  assumes "0 \<le> h" and "h \<le> r" and "r < 2 ^ 53"
  shows "\<exists>x. calculateHitRate (int_val h) (int_val r) = Fin x \<and> 0 \<le> x \<and> x \<le> 100"
proof (cases "r = 0")
  case True
  with assms show ?thesis
    by (simp add: calculateHitRate_def or_zero_int_val num_truthy_def)
next
  case False
  with assms have r: "0 < r" by simp
  have "of_int 0 \<le> (of_int h / of_int r :: rat)" "(of_int h / of_int r :: rat) \<le> of_int 1"
    using assms r by simp_all
  then obtain q where q: "fl (of_int h / of_int r) = Fin q" "0 \<le> q" "q \<le> 1"
    using fl_between [of 0 "of_int h / of_int r" 1] by auto
  then obtain x where "fl (q * 100) = Fin x" "0 \<le> x" "x \<le> 100"
    using fl_between [of 0 "q * 100" 100] by auto
  with q assms r show ?thesis
    by (simp add: calculateHitRate_def or_zero_int_val num_truthy_def)
qed

text \<open>A witness: one hit among three requests.\<close>
theorem calculateHitRate_bounds_witness:
  "\<exists>x. calculateHitRate (int_val 1) (int_val 3) = Fin x \<and> 0 \<le> x \<and> x \<le> 100"
  by (rule calculateHitRate_bounds) simp_all

text \<open>
  The token total of a request that reports no positive total of its own: the
  prompt and completion tokens, plus both kinds of cache tokens unless the upstream speaks the
  OpenAI protocol (whose prompt count already holds the cached ones); each count falls back to
  its \<open>total_\<close> field and then to 0, and the sum of safe integers is exact.
\<close>
theorem getTotalTokens_sum:
  assumes "first_of (us_total_tokens u) None = 0"
    and "i = first_of (us_input_tokens u) (us_total_input_tokens u)"
    and "out = first_of (us_output_tokens u) (us_total_output_tokens u)"
    and "cc = first_of (us_cache_creation_input_tokens u) (us_total_cache_creation_tokens u)"
    and "cr = first_of (us_cache_read_input_tokens u) (us_total_cache_read_tokens u)"
    and "0 \<le> i" and "0 \<le> out" and "0 \<le> cc" and "0 \<le> cr" and "i + out + cc + cr < 2 ^ 53"
  shows "getTotalTokens (usage_any u) upstream =
           Fin (of_int (if upstream = ''openai'' then i + out else i + out + cc + cr))"
proof -
  note fields = token_field_usage [of u, folded assms(2-5)] usage_any_get(1) [of u] js_to_number_opt(1) assms(1)
  have e: "js_int i = Fin (of_int i)" "js_int out = Fin (of_int out)"
    "js_int cc = Fin (of_int cc)" "js_int cr = Fin (of_int cr)" "js_int 0 = Fin 0"
    using assms(6-10) by (simp_all add: js_int_exact)
  have s1: "num_add (Fin (of_int i)) (Fin (of_int out)) = Fin (of_int (i + out))"
    using assms(6-10) by (intro num_add_int) simp
  have s2: "num_add (Fin (of_int (i + out))) (Fin (of_int cc)) = Fin (of_int (i + out + cc))"
    using assms(6-10) by (intro num_add_int) simp
  have s3: "num_add (Fin (of_int (i + out + cc))) (Fin (of_int cr)) = Fin (of_int (i + out + cc + cr))"
    using assms(6-10) by (intro num_add_int) simp
  show ?thesis
    by (cases "upstream = ''openai''")
       (simp_all only: getTotalTokens_def Let_def fields e s1 s2 s3 is_finite.simps num_less.simps
        order_less_irrefl if_False if_True simp_thms)
qed

text \<open>A witness with a fallback field and a cache read.\<close>
theorem getTotalTokens_sum_witness:
  "getTotalTokens (usage_any (no_usage\<lparr>us_input_tokens := Some 10, us_total_output_tokens := Some 7,
     us_cache_read_input_tokens := Some 5\<rparr>)) ''anthropic'' = Fin (of_int 22)"
proof -
  let ?u = "no_usage\<lparr>us_input_tokens := Some 10, us_total_output_tokens := Some 7,
     us_cache_read_input_tokens := Some 5\<rparr>"
  have "getTotalTokens (usage_any ?u) ''anthropic'' =
          Fin (of_int (if ''anthropic'' = ''openai'' then 10 + 7 else 10 + 7 + 0 + 5))"
    by (rule getTotalTokens_sum) (simp_all add: no_usage_def first_of_def)
  then show ?thesis by simp
qed

text \<open>
  The usage table of a request never shows a blank cell: every row of either
  protocol has a label and a value, a missing stop reason and a missing count included.
\<close>
theorem getUsageMetricRows_no_blank_cell:
  "r \<in> set (getUsageMetricRows (usage_any u) timing upstream) \<Longrightarrow>
     row_label r \<noteq> [] \<and> row_value r \<noteq> []"
proof -
  have stop: "text_or_dashes (js_get (usage_any u) ''stop_reason'') \<noteq> []"
    by (simp add: text_or_dashes_def usage_any_stop_reason split: option.splits)
  have label: "label_output_speed \<noteq> []" by (simp add: label_output_speed_def utf8_def)
  assume "r \<in> set (getUsageMetricRows (usage_any u) timing upstream)"
  then show ?thesis
    using stop label by (auto simp: getUsageMetricRows_def Let_def simp del: js_get.simps split: if_splits)
qed

text \<open>A witness: the first row of the table.\<close>
theorem getUsageMetricRows_no_blank_cell_witness:
  "row_value (getUsageMetricRows (usage_any no_usage) JUndef ''openai'' ! 0) \<noteq> []"
proof -
  have "getUsageMetricRows (usage_any no_usage) JUndef ''openai'' ! 0
          \<in> set (getUsageMetricRows (usage_any no_usage) JUndef ''openai'')"
    by (rule nth_mem) (simp add: getUsageMetricRows_def Let_def)
  from getUsageMetricRows_no_blank_cell [OF this] show ?thesis by blast
qed

text \<open>
  The badge and the label of an HTTP status never disagree: the badge is the
  success one exactly when the label says success, and an answered request is otherwise
  labelled a timeout (408 and 504 only) or a failure.
\<close>
theorem http_badge_matches_label:
  "getHttpStatusBadgeVariant st =
     (if st = None then Outline
      else if getHttpStatusLabel st = int_str (the st) @ label_success then Secondary
      else Destructive) \<and>
   (getHttpStatusBadgeVariant st = Destructive \<longrightarrow>
      getHttpStatusLabel st = int_str (the st) @
        (if st = Some 408 \<or> st = Some 504 then label_timeout else label_failure))"
  by (cases st)
     (auto simp: getHttpStatusBadgeVariant_def getHttpStatusLabel_def
        label_success_def label_timeout_def label_failure_def utf8_def)

text \<open>A witness for the failing half: a gateway timeout.\<close>
theorem http_badge_matches_label_witness:
  "getHttpStatusLabel (Some 504) = int_str 504 @ label_timeout"
  using http_badge_matches_label [of "Some 504"]
  by (simp add: getHttpStatusBadgeVariant_def)

end
