(* ===== verification/Json_Roundtrip.thy ===== *)
theory Json_Roundtrip
  imports JS_Value
begin

text \<open>
  \<open>JSON.parse\<close> inverts \<open>JSON.stringify\<close>, compact or indented, on the JSON values whose numbers
  are safe integers and whose objects have distinct keys; the fuel of the parser suffices.
\<close>

section \<open>String literals\<close>

lemma radix_digit_hex_digit: "d < 16 \<Longrightarrow> radix_digit (hex_digit d) = d"
  by (cases "d < 10")
     (simp_all add: radix_digit_def hex_digit_def is_digit_def digit_val_def of_char_of Let_def)

lemma scan_unicode_control:
  assumes "u < 32"
  shows "scan_unicode (CHR ''0'' # CHR ''0'' # hex_digit (u div 16) # hex_digit (u mod 16) # r) = Some (u, 4)"
proof -
  have z: "radix_digit (CHR ''0'') = 0" by (simp add: radix_digit_def is_digit_def digit_val_def)
  have "hex4 [CHR ''0'', CHR ''0'', hex_digit (u div 16), hex_digit (u mod 16)] = Some u"
    using assms by (simp add: hex4_def z radix_digit_hex_digit)
  then show ?thesis using assms by (simp add: scan_unicode_def split: option.splits)
qed

lemma utf8_encode_control: "u < 32 \<Longrightarrow> utf8_encode u = [char_of u]"
  by (simp add: utf8_encode_def utf8_def)

lemma scan_string_esc_char:
  "scan_string (esc_char c @ s) = map_option (\<lambda>(t, r). (c # t, r)) (scan_string s)"
proof (cases "(of_char c :: nat) < 32 \<and> c \<notin> {CHR 0x08, CHR 0x09, CHR 0x0A, CHR 0x0C, CHR 0x0D}")
  case True
  let ?u = "of_char c :: nat"
  have u: "?u < 32" using True by simp
  then have "c \<noteq> CHR 0x22" "c \<noteq> CHR 0x5C" by auto
  with True u have "esc_char c = [CHR 0x5C, CHR ''u'', CHR ''0'', CHR ''0'', hex_digit (?u div 16), hex_digit (?u mod 16)]"
    by (simp add: esc_char_def)
  then show ?thesis
    using u by (simp add: scan_unicode_control utf8_encode_control del: of_char_eq_iff)
next
  case False
  then show ?thesis
    by (auto simp: esc_char_def unescape_char_def)
qed

lemma scan_string_quote:
  "scan_string (concat (map esc_char s) @ CHR 0x22 # r) = Some (s, r)"
  by (induction s) (simp_all add: scan_string_esc_char)

section \<open>Integers\<close>

definition number_end :: "string \<Rightarrow> bool" where
  "number_end r \<longleftrightarrow> (r = [] \<or> (\<not> is_digit (hd r) \<and> hd r \<notin> {CHR ''.'', CHR ''e'', CHR ''E''}))"

lemma hd_nat_str: "0 < n \<Longrightarrow> hd (nat_str n) \<noteq> CHR ''0''"
proof (induction n rule: nat_str.induct)
  case (1 n)
  show ?case
  proof (cases "n < 10")
    case True
    have "digit_char n \<noteq> CHR ''0''"
    proof
      assume "digit_char n = CHR ''0''"
      then have "digit_val (digit_char n) = digit_val (CHR ''0'')" by simp
      with True "1.prems" show False by (simp add: digit_val_def of_char_digit)
    qed
    with True show ?thesis by (subst nat_str.simps) simp
  next
    case False
    then have "hd (nat_str (n div 10)) \<noteq> CHR ''0''" by (intro "1.IH") auto
    with False show ?thesis by (subst nat_str.simps) simp
  qed
qed

lemma nat_str_0: "nat_str 0 = ''0''"
  by code_simp

lemma takeWhile_nat_str_append:
  "number_end r \<Longrightarrow> takeWhile is_digit (nat_str n @ r) = nat_str n \<and>
                     dropWhile is_digit (nat_str n @ r) = r"
  by (cases r) (auto simp: number_end_def takeWhile_append dropWhile_append dest: is_digit_nat_str)

lemma scan_unsigned_nat_str:
  assumes "number_end r"
  shows "scan_unsigned_number (nat_str n @ r) = Some (of_nat n, r)"
proof -
  have "\<not> (hd (nat_str n) = CHR ''0'' \<and> 1 < length (nat_str n))"
    by (cases "n = 0") (auto simp: nat_str_0 hd_nat_str)
  moreover have "scan_fraction r = Some ([], r)" "scan_exponent r = Some (0, r)"
    using assms by (auto simp: number_end_def scan_fraction_def scan_exponent_def split: list.splits)
  ultimately show ?thesis
    using takeWhile_nat_str_append [OF assms, of n] by (simp add: scan_unsigned_number_def Let_def)
qed

lemma number_to_string_int:
  assumes "\<bar>i\<bar> < 2 ^ 53"
  shows "number_to_string (Fin (of_int i)) = int_str i"
proof (cases "i < 0")
  case True
  then have "number_to_string (Fin (of_int i)) = ''-'' @ number_to_string (Fin (of_nat (nat (- i))))"
    by simp
  moreover have "nat (- i) < 2 ^ 53" using assms by auto
  ultimately show ?thesis using True by (simp only: number_to_string_nat int_str_def if_True)
next
  case False
  then have "number_to_string (Fin (of_int i)) = number_to_string (Fin (of_nat (nat i)))" by simp
  moreover have "nat i < 2 ^ 53" using assms by auto
  ultimately show ?thesis using False by (simp only: number_to_string_nat int_str_def if_False)
qed

lemma scan_number_int_str:
  assumes "\<bar>i\<bar> < 2 ^ 53" and "number_end r"
  shows "scan_number (int_str i @ r) = Some (JNum (Fin (of_int i)), r)"
proof (cases "i < 0")
  case True
  then have "fl (- of_nat (nat (- i))) = Fin (of_int i)" using fl_of_int [OF assms(1)] by simp
  with True show ?thesis
    by (simp add: int_str_def scan_number_def scan_unsigned_nat_str [OF assms(2)])
next
  case False
  obtain c s where s: "nat_str (nat i) = c # s" by (cases "nat_str (nat i)") auto
  then have c: "c \<noteq> CHR ''-''" using nat_str_hd [OF s] by (auto simp: is_digit_def)
  have "fl (of_nat (nat i)) = Fin (of_int i)" using False fl_of_int [OF assms(1)] by simp
  moreover have "scan_number ((c # s) @ r) =
      map_option (\<lambda>(x, r'). (JNum (fl x), r')) (scan_unsigned_number ((c # s) @ r))"
    using c by (simp add: scan_number_def)
  ultimately show ?thesis
    using False by (simp add: int_str_def s [symmetric] scan_unsigned_nat_str [OF assms(2)])
qed

lemma int_str_hd: "\<exists>c s. int_str i = c # s \<and> (c = CHR ''-'' \<or> is_digit c)"
proof (cases "i < 0")
  case False
  obtain c s where "nat_str (nat i) = c # s" by (cases "nat_str (nat i)") auto
  with False nat_str_hd show ?thesis by (auto simp: int_str_def)
qed (simp add: int_str_def)

section \<open>Values\<close>

text \<open>The values \<open>JSON.stringify\<close> keeps: no \<open>undefined\<close>, distinct keys, safe integers.\<close>

definition safe_integer :: "jsnum \<Rightarrow> bool" where
  "safe_integer n = (case n of Fin x \<Rightarrow> x = of_int \<lfloor>x\<rfloor> \<and> \<bar>\<lfloor>x\<rfloor>\<bar> < 2 ^ 53 | _ \<Rightarrow> False)"

fun json_clean :: "jsval \<Rightarrow> bool" where
  "json_clean JUndef = False"
| "json_clean (JNum n) = safe_integer n"
| "json_clean (JArr vs) = (\<forall>v \<in> set vs. json_clean v)"
| "json_clean (JObj ps) = (distinct (map fst ps) \<and> (\<forall>p \<in> set ps. json_clean (snd p)))"
| "json_clean _ = True"

lemma json_clean_not_undef: "json_clean v \<Longrightarrow> v \<noteq> JUndef"
  by auto

definition all_ws :: "string \<Rightarrow> bool" where
  "all_ws s \<longleftrightarrow> (\<forall>c \<in> set s. is_json_ws c)"

lemma all_ws_append [simp]: "all_ws (s @ t) \<longleftrightarrow> all_ws s \<and> all_ws t"
  by (auto simp: all_ws_def)

lemma all_ws_Nil [simp]: "all_ws []"
  by (simp add: all_ws_def)

lemma all_ws_line_break [simp]: "all_ws gap \<Longrightarrow> all_ws ind \<Longrightarrow> all_ws (line_break gap ind)"
  by (auto simp: line_break_def all_ws_def is_json_ws_def)

lemma skip_ws_append [simp]: "all_ws w \<Longrightarrow> skip_ws (w @ s) = skip_ws s"
  by (simp add: skip_ws_def all_ws_def dropWhile_append2)

lemma skip_ws_Cons [simp]: "\<not> is_json_ws c \<Longrightarrow> skip_ws (c # s) = c # s"
  by (simp add: skip_ws_def)

lemma is_json_ws_simps [simp]:
  "\<not> is_json_ws (CHR ''{'')" "\<not> is_json_ws (CHR ''['')" "\<not> is_json_ws (CHR 0x22)"
  "\<not> is_json_ws (CHR ''}'')" "\<not> is_json_ws (CHR '']'')" "\<not> is_json_ws (CHR '','')"
  "\<not> is_json_ws (CHR '':'')" "\<not> is_json_ws (CHR ''t'')" "\<not> is_json_ws (CHR ''f'')"
  "\<not> is_json_ws (CHR ''n'')" "\<not> is_json_ws (CHR ''-'')"
  by (simp_all add: is_json_ws_def)

lemma digit_not_ws: "is_digit c \<Longrightarrow> \<not> is_json_ws c"
  by (auto simp: is_digit_def is_json_ws_def)

lemma expect_append [simp]: "all_ws w \<Longrightarrow> expect c (w @ s) = expect c s"
  by (simp add: expect_def)

lemma expect_Cons [simp]: "\<not> is_json_ws x \<Longrightarrow> expect c (x # s) = (if x = c then Some s else None)"
  by (simp add: expect_def)

text \<open>The first character of a value's text tells the parser what follows.\<close>

definition value_start :: "char \<Rightarrow> bool" where
  "value_start c \<longleftrightarrow> c \<in> set ''{[ntf-'' \<or> c = CHR 0x22 \<or> is_digit c"

lemma value_start_not_ws: "value_start c \<Longrightarrow> \<not> is_json_ws c"
  by (auto simp: value_start_def digit_not_ws)

lemma value_start_not_close: "value_start c \<Longrightarrow> c \<noteq> CHR '']'' \<and> c \<noteq> CHR ''}''"
  by (auto simp: value_start_def is_digit_def)

lemma json_text_hd:
  assumes "json_clean v"
  shows "\<exists>c s. json_text gap ind v = c # s \<and> value_start c"
proof (cases v)
  case (JNum n)
  with assms obtain i where "n = Fin (of_int i)" "\<bar>i\<bar> < 2 ^ 53"
    by (auto simp: safe_integer_def split: jsnum.splits)
  with JNum int_str_hd [of i] number_to_string_int [of i] show ?thesis
    by (auto simp: value_start_def)
qed (use assms in \<open>auto simp: value_start_def quote_def\<close>)

lemma ws_not_number:
  "is_json_ws c \<Longrightarrow> \<not> is_digit c \<and> c \<noteq> CHR ''.'' \<and> c \<noteq> CHR ''e'' \<and> c \<noteq> CHR ''E''"
  by (auto simp: is_json_ws_def is_digit_def)

lemma number_end_sep:
  assumes "all_ws w" and "\<not> is_digit c" and "c \<notin> {CHR ''.'', CHR ''e'', CHR ''E''}"
  shows "number_end (w @ c # s)"
  using assms ws_not_number by (cases w) (auto simp: number_end_def all_ws_def)

lemma number_end_seps:
  assumes "all_ws w"
  shows "number_end (w @ CHR '','' # s)" "number_end (w @ CHR '']'' # s)" "number_end (w @ CHR ''}'' # s)"
  by (rule number_end_sep [OF assms]; simp add: is_digit_def)+

lemma scan_number_start:
  assumes "is_digit c \<or> c = CHR ''-''"
  shows "parse_value (Suc n) (c # s) = scan_number (c # s)"
proof -
  have c: "c \<noteq> CHR ''{''" "c \<noteq> CHR ''[''" "c \<noteq> CHR 0x22" "c \<noteq> CHR ''t''" "c \<noteq> CHR ''f''" "c \<noteq> CHR ''n''"
    using assms by (auto simp: is_digit_def)
  have "\<not> is_json_ws c" using assms by (auto simp: digit_not_ws)
  with c show ?thesis by (simp add: starts_with_def)
qed

subsection \<open>Lists of values and of members\<close>

lemma parse_elements_texts:
  assumes "vs \<noteq> []" and "size_list size vs < n"
    and "\<And>v m w r. v \<in> set vs \<Longrightarrow> size v < m \<Longrightarrow> all_ws w \<Longrightarrow> number_end r \<Longrightarrow>
           parse_value m (w @ txt v @ r) = Some (v, r)"
    and "all_ws w" and "all_ws sep" and "all_ws w'"
  shows "parse_elements n (w @ js_join ('','' @ sep) (map txt vs) @ w' @ '']'' @ r) = Some (vs, r)"
  using assms
proof (induction vs arbitrary: n w)
  case (Cons v vs)
  then obtain m where n: "n = Suc m" by (cases n) auto
  show ?case
  proof (cases "vs = []")
    case True
    have "parse_value m (w @ txt v @ (w' @ '']'' @ r)) = Some (v, w' @ '']'' @ r)"
      using Cons.prems n number_end_seps(2) [of w' r] by (intro Cons.prems(3)) auto
    with True n Cons.prems show ?thesis by simp
  next
    case False
    let ?rest = "sep @ js_join ('','' @ sep) (map txt vs) @ w' @ '']'' @ r"
    have "parse_value m (w @ txt v @ ('','' @ ?rest)) = Some (v, '','' @ ?rest)"
      using Cons.prems n number_end_seps(1) [of "[]" ?rest] by (intro Cons.prems(3)) auto
    moreover have "parse_elements m ?rest = Some (vs, r)"
      using Cons.prems n False by (intro Cons.IH) auto
    ultimately show ?thesis using n False by (simp add: js_join_Cons)
  qed
qed simp

lemma parse_members_texts:
  assumes "ps \<noteq> []" and "size_list (size_prod (\<lambda>_. 0) size) ps < n"
    and "\<And>p m w r. p \<in> set ps \<Longrightarrow> size (snd p) < m \<Longrightarrow> all_ws w \<Longrightarrow> number_end r \<Longrightarrow>
           parse_value m (w @ txt (snd p) @ r) = Some (snd p, r)"
    and "all_ws w" and "all_ws sep" and "all_ws w'" and "all_ws sp"
  shows "parse_members n (w @ js_join ('','' @ sep)
             (map (\<lambda>(k, v). quote k @ '':'' @ sp @ txt v) ps) @ w' @ ''}'' @ r) = Some (ps, r)"
  using assms
proof (induction ps arbitrary: n w)
  case (Cons p ps)
  obtain k v where p: "p = (k, v)" by (cases p)
  from Cons.prems obtain m where n: "n = Suc m" by (cases n) auto
  show ?case
  proof (cases "ps = []")
    case True
    have "parse_value m (sp @ txt (snd p) @ (w' @ ''}'' @ r)) = Some (snd p, w' @ ''}'' @ r)"
      using Cons.prems n p number_end_seps(3) [of w' r] by (intro Cons.prems(3)) auto
    with True n p Cons.prems show ?thesis by (simp add: quote_def scan_string_quote)
  next
    case False
    let ?rest = "sep @ js_join ('','' @ sep)
                   (map (\<lambda>(k, v). quote k @ '':'' @ sp @ txt v) ps) @ w' @ ''}'' @ r"
    have "parse_value m (sp @ txt (snd p) @ ('','' @ ?rest)) = Some (snd p, '','' @ ?rest)"
      using Cons.prems n p number_end_seps(1) [of "[]" ?rest] by (intro Cons.prems(3)) auto
    moreover have "parse_members m ?rest = Some (ps, r)"
      using Cons.prems n p False by (intro Cons.IH) auto
    ultimately show ?thesis using n p False Cons.prems(4)
      by (simp add: js_join_Cons quote_def scan_string_quote)
  qed
qed simp

subsection \<open>Any value\<close>

lemma parse_value_ws: "all_ws w \<Longrightarrow> parse_value (Suc n) (w @ s) = parse_value (Suc n) s"
  by simp

lemma clean_filter: "json_clean (JObj ps) \<Longrightarrow> filter (\<lambda>p. snd p \<noteq> JUndef) ps = ps"
  by (auto simp: filter_id_conv dest: json_clean_not_undef)

lemma expect_value_text:
  assumes "json_clean v" and "all_ws w" and "c \<in> {CHR '']'', CHR ''}''}"
  shows "expect c (w @ json_text gap ind v @ r) = None"
proof -
  obtain x s where x: "json_text gap ind v = x # s" "value_start x"
    using json_text_hd [OF assms(1)] by blast
  with value_start_not_ws value_start_not_close [OF x(2)] assms show ?thesis by auto
qed

lemma member_size: "p \<in> set ps \<Longrightarrow> size (snd p) < size (JObj ps)"
proof (induction ps)
  case (Cons q ps)
  then show ?case by (cases q) (auto simp: less_Suc_eq_le)
qed simp

lemma array_text_join:
  assumes "vs \<noteq> []"
  shows "\<exists>t. js_join sep (map txt vs) @ r = txt (hd vs) @ t"
  using assms by (cases vs) (cases "tl vs"; auto simp: js_join_Cons)+

lemma parse_value_text:
  assumes "json_clean v" and "size v < n" and "all_ws w" and "number_end r"
    and "all_ws gap" and "all_ws ind"
  shows "parse_value n (w @ json_text gap ind v @ r) = Some (v, r)"
  using assms
proof (induction v arbitrary: n w r ind rule: measure_induct_rule [of size])
  case (less v)
  obtain m where n: "n = Suc m" using less.prems(2) by (cases n) auto
  let ?ind = "ind @ gap"
  have IH: "parse_value k (u @ json_text gap ?ind y @ q) = Some (y, q)"
    if "size y < size v" "json_clean y" "size y < k" "all_ws u" "number_end q" for y k u q
    using that less.prems by (intro less.IH) auto
  have "parse_value (Suc m) (json_text gap ind v @ r) = Some (v, r)"
  proof (cases v)
    case (JNum x)
    with less.prems(1) obtain i where i: "x = Fin (of_int i)" "\<bar>i\<bar> < 2 ^ 53"
      by (auto simp: safe_integer_def split: jsnum.splits)
    obtain c s where c: "int_str i = c # s" "c = CHR ''-'' \<or> is_digit c"
      using int_str_hd [of i] by blast
    then have "parse_value (Suc m) ((c # s) @ r) = scan_number ((c # s) @ r)"
      using scan_number_start [of c m "s @ r"] by auto
    with c i JNum show ?thesis
      using scan_number_int_str [OF i(2) less.prems(4)] number_to_string_int [OF i(2)]
      by (simp del: number_to_string.simps parse_value.simps)
  next
    case (JStr s)
    then show ?thesis by (simp add: quote_def scan_string_quote)
  next
    case (JArr vs)
    show ?thesis
    proof (cases "vs = []")
      case False
      let ?br = "line_break gap ?ind"
      let ?body = "?br @ js_join ('','' @ ?br) (map (json_text gap ?ind) vs) @ line_break gap ind @ '']'' @ r"
      have clean: "json_clean y" if "y \<in> set vs" for y using that less.prems(1) JArr by simp
      have "parse_elements m ?body = Some (vs, r)"
      proof (rule parse_elements_texts)
        fix y k u q assume y: "y \<in> set vs" "size y < k" "all_ws u" "number_end q"
        have "size y < size v" using y(1) JArr by (simp add: size_list_estimation' less_Suc_eq_le)
        with y clean show "parse_value k (u @ json_text gap ?ind y @ q) = Some (y, q)"
          by (intro IH) auto
      qed (use False less.prems n JArr in auto)
      moreover obtain t where "?body = ?br @ json_text gap ?ind (hd vs) @ t"
        using array_text_join [OF False, of "'','' @ ?br" "json_text gap ?ind"] by (metis append.assoc)
      then have "expect CHR '']'' ?body = None"
        using False clean less.prems by (simp only:) (intro expect_value_text; simp)
      ultimately show ?thesis using False JArr by simp
    qed (simp add: JArr)
  next
    case (JObj ps)
    note clean = less.prems(1) [unfolded JObj]
    show ?thesis
    proof (cases "ps = []")
      case False
      let ?br = "line_break gap ?ind"
      let ?sp = "if gap = [] then [] else '' ''"
      let ?entry = "\<lambda>(k, v). quote k @ '':'' @ ?sp @ json_text gap ?ind v"
      let ?body = "?br @ js_join ('','' @ ?br) (map ?entry ps) @ line_break gap ind @ ''}'' @ r"
      have sp: "all_ws ?sp" by (simp add: all_ws_def is_json_ws_def)
      have "parse_members m ?body = Some (ps, r)"
      proof (rule parse_members_texts)
        fix p k u q assume y: "p \<in> set ps" "size (snd p) < k" "all_ws u" "number_end q"
        have "size (snd p) < size v" using member_size [OF y(1)] by (simp add: JObj)
        with y clean show "parse_value k (u @ json_text gap ?ind (snd p) @ q) = Some (snd p, q)"
          by (intro IH) auto
      qed (use False less.prems n JObj sp in auto)
      moreover obtain t where "?body = ?br @ ?entry (hd ps) @ t"
        using array_text_join [OF False, of "'','' @ ?br" ?entry] by (metis append.assoc)
      then have "expect CHR ''}'' ?body = None"
        using less.prems by (cases "hd ps") (simp only: prod.case, simp add: quote_def)
      ultimately show ?thesis
        using False JObj clean clean_filter [OF clean] by (simp add: new_Map_id)
    qed (simp add: JObj)
  qed (use less.prems in \<open>auto simp: starts_with_def\<close>)
  then show ?case using n less.prems(3) by (simp only: parse_value_ws)
qed

section \<open>JSON.parse after JSON.stringify\<close>

lemma length_js_join_ge:
  "(\<Sum>s \<leftarrow> ss. length s) + length ss \<le> length (js_join ('','' @ sep) ss) + 1"
proof (induction ss)
  case (Cons s ss)
  then show ?case by (cases "ss = []") (auto simp: js_join_Cons)
qed simp

lemma size_json_text:
  assumes "json_clean v"
  shows "size v \<le> 2 * length (json_text gap ind v)"
  using assms
proof (induction v arbitrary: ind rule: measure_induct_rule [of size])
  case (less v)
  show ?case
  proof (cases v)
    case (JArr vs)
    have "size y \<le> 2 * length (json_text gap (ind @ gap) y)" if "y \<in> set vs" for y
      using that less.prems JArr
      by (intro less.IH) (simp_all add: size_list_estimation' less_Suc_eq_le)
    then have "size_list size vs \<le> 2 * (\<Sum>y \<leftarrow> vs. length (json_text gap (ind @ gap) y)) + length vs"
      by (induction vs) force+
    moreover have "(\<Sum>y \<leftarrow> vs. length (json_text gap (ind @ gap) y)) + length vs
        \<le> length (js_join ('','' @ line_break gap (ind @ gap)) (map (json_text gap (ind @ gap)) vs)) + 1"
      using length_js_join_ge [of "map (json_text gap (ind @ gap)) vs"] by (simp add: o_def)
    ultimately show ?thesis by (simp add: JArr)
  next
    case (JObj ps)
    let ?entry = "\<lambda>(k, v). quote k @ '':'' @ (if gap = [] then [] else '' '') @ json_text gap (ind @ gap) v"
    have "size (snd p) \<le> 2 * length (json_text gap (ind @ gap) (snd p))" if p: "p \<in> set ps" for p
    proof (rule less.IH)
      show "size (snd p) < size v" using member_size [OF p] by (simp add: JObj)
    qed (use p less.prems JObj in auto)
    then have "size_prod (\<lambda>_. 0) size p + 1 \<le> 2 * length (?entry p)" if "p \<in> set ps" for p
      using that by (cases p) (force simp: quote_def)
    then have "size_list (size_prod (\<lambda>_. 0) size) ps \<le> 2 * (\<Sum>p \<leftarrow> ps. length (?entry p))"
      by (induction ps) force+
    moreover have "(\<Sum>p \<leftarrow> ps. length (?entry p)) + length ps
        \<le> length (js_join ('','' @ line_break gap (ind @ gap)) (map ?entry ps)) + 1"
      using length_js_join_ge [of "map ?entry ps"] by (simp add: o_def)
    ultimately show ?thesis
      using clean_filter [OF less.prems [unfolded JObj]] by (simp add: JObj)
  qed auto
qed

lemma json_parse_text:
  assumes "json_clean v" and "all_ws gap" and "all_ws ind"
  shows "json_parse (json_text gap ind v) = Some v"
proof -
  have "parse_value (2 * length (json_text gap ind v) + 2) ([] @ json_text gap ind v @ []) = Some (v, [])"
    using assms size_json_text [OF assms(1), of gap ind]
    by (intro parse_value_text) (auto simp: number_end_def)
  then show ?thesis by (simp add: json_parse_def skip_ws_def)
qed

lemma json_parse_stringify: "json_clean v \<Longrightarrow> json_parse (json_stringify v) = Some v"
  by (simp add: json_stringify_def json_parse_text)

lemma json_parse_stringify2: "json_clean v \<Longrightarrow> json_parse (json_stringify2 v) = Some v"
  by (simp add: json_stringify2_def json_parse_text all_ws_def is_json_ws_def)

end
