(* ===== verification/Sse.thy ===== *)
theory Sse
  imports Format Json_Roundtrip
begin

text \<open>
  The reader of a recorded event stream (\<open>features/dashboard/utils.ts\<close>): the JSON objects of its
  \<open>data:\<close> lines, and the text an operator sees, collected from Anthropic and OpenAI events.
\<close>

section \<open>Blocks and data lines\<close>

text \<open>
  \<open>payloadText.split(/\n\n+/)\<close>: the separator is a maximal run of at least two line feeds.
\<close>

abbreviation LF :: char where "LF \<equiv> CHR 0x0A"

function split_blocks :: "string \<Rightarrow> string list" where
  "split_blocks [] = [[]]"
| "split_blocks (c # cs) =
     (if c = LF \<and> take 1 cs = [LF] then [] # split_blocks (dropWhile (\<lambda>x. x = LF) cs)
      else (case split_blocks cs of [] \<Rightarrow> [[c]] | b # bs \<Rightarrow> (c # b) # bs))"
  by pat_completeness auto
termination
  by (relation "measure length") (auto simp: le_imp_less_Suc length_dropWhile_le)

definition data_lines :: "string \<Rightarrow> string list" where
  "data_lines block =
     map (\<lambda>line. trim (drop 5 line))
       (filter (\<lambda>line. starts_with line ''data:'') (split_on (\<lambda>c. c = LF) block))"

fun as_record :: "jsval \<Rightarrow> jsval list" where
  \<comment> \<open>\<open>parsed && typeof parsed === "object" && !Array.isArray(parsed)\<close>\<close>
  "as_record (JObj ps) = [JObj ps]"
| "as_record _ = []"

definition block_objects :: "string \<Rightarrow> jsval list" where
  "block_objects block =
     (let dataLines = data_lines block; rawData = js_join [LF] dataLines
      in if dataLines = [] then []
         else if rawData = [] \<or> rawData = ''[DONE]'' then []
         else (case json_parse rawData of Some parsed \<Rightarrow> as_record parsed | None \<Rightarrow> []))"

definition extractJsonObjectsFromSse :: "string \<Rightarrow> jsval list" where
  "extractJsonObjectsFromSse payloadText =
     concat (map block_objects
       (filter (\<lambda>b. b \<noteq> []) (map trim (split_blocks payloadText))))"

section \<open>The text inside a value\<close>

text \<open>
  \<open>string_prop\<close> is the property when \<open>typeof record.k === "string"\<close>, \<open>array_prop\<close> its elements when
  it is an array.
\<close>

definition string_prop :: "(string \<times> jsval) list \<Rightarrow> string \<Rightarrow> string option" where
  "string_prop ps k = (case map_of ps k of Some (JStr s) \<Rightarrow> Some s | _ \<Rightarrow> None)"

definition array_prop :: "(string \<times> jsval) list \<Rightarrow> string \<Rightarrow> jsval list" where
  "array_prop ps k = (case map_of ps k of Some (JArr vs) \<Rightarrow> vs | _ \<Rightarrow> [])"

lemma array_prop_size:
  "v \<in> set (array_prop ps k) \<Longrightarrow> size v < Suc (size_list (size_prod (\<lambda>_. 0) size) ps)"
proof (induction ps)
  case (Cons p ps)
  show ?case
  proof (cases "fst p = k \<and> (\<exists>vs. snd p = JArr vs)")
    case True
    then obtain vs where vs: "snd p = JArr vs" by blast
    with True Cons.prems have "size v \<le> size_list size vs"
      by (intro size_list_estimation' [of v vs]) (auto simp: array_prop_def)
    with vs show ?thesis by (cases p) auto
  next
    case False
    with Cons show ?thesis
      by (cases p) (auto simp: array_prop_def split: if_splits jsval.splits)
  qed
qed (simp add: array_prop_def)

function collectTextFromUnknown :: "jsval \<Rightarrow> string" where
  "collectTextFromUnknown (JStr s) = s"
| "collectTextFromUnknown (JArr vs) = concat (map collectTextFromUnknown vs)"
| "collectTextFromUnknown (JObj ps) =
     (case string_prop ps ''text'' of
        Some s \<Rightarrow> s
      | None \<Rightarrow>
        (case string_prop ps ''output_text'' of
           Some s \<Rightarrow> s
         | None \<Rightarrow>
           (case string_prop ps ''content'' of
              Some s \<Rightarrow> s
            | None \<Rightarrow> concat (map collectTextFromUnknown (array_prop ps ''content'')))))"
| "collectTextFromUnknown JUndef = []"
| "collectTextFromUnknown JNull = []"
| "collectTextFromUnknown (JBool b) = []"
| "collectTextFromUnknown (JNum n) = []"
  by pat_completeness auto
termination
  by (relation "measure size")
     (auto simp: array_prop_size [unfolded less_Suc_eq_le] size_list_estimation' less_Suc_eq_le)

section \<open>The text of one event\<close>

fun js_elements :: "jsval \<Rightarrow> jsval list" where
  "js_elements (JArr vs) = vs"
| "js_elements _ = []"

definition str_segment :: "jsval \<Rightarrow> string list" where
  \<comment> \<open>\<open>if (typeof v === "string" && v) segments.push(v)\<close>\<close>
  "str_segment v = (case v of JStr s \<Rightarrow> if s = [] then [] else [s] | _ \<Rightarrow> [])"

definition text_segment :: "string \<Rightarrow> string list" where
  "text_segment s = (if s = [] then [] else [s])"

definition tool_call_segments :: "jsval \<Rightarrow> string list" where
  "tool_call_segments tc =
     (if \<not> truthy tc \<or> \<not> is_object tc then []
      else
        (let func = js_get tc ''function''
         in if truthy func \<and> is_object func then
              (case js_get func ''name'' of
                 JStr name \<Rightarrow> if name = [] then [] else [LF # ''[Tool: '' @ name @ '']'' @ [LF]]
               | _ \<Rightarrow> []) @
              (case js_get func ''arguments'' of JStr s \<Rightarrow> [s] | _ \<Rightarrow> [])
            else []))"

definition choice_segments :: "jsval \<Rightarrow> string list" where
  "choice_segments choice =
     (let choiceDelta = js_get choice ''delta''
      in case choiceDelta of
           JStr s \<Rightarrow> [s]
         | _ \<Rightarrow>
             if truthy choiceDelta \<and> is_object choiceDelta then
               (let content = js_get choiceDelta ''content'';
                    toolCalls = js_get choiceDelta ''tool_calls''
                in str_segment (js_get choiceDelta ''reasoning_content'') @
                   str_segment content @
                   (if is_array content
                    then text_segment (concat (map collectTextFromUnknown (js_elements content)))
                    else []) @
                   concat (map tool_call_segments (js_elements toolCalls)))
             else [])"

definition event_segments :: "jsval \<Rightarrow> string list" where
  "event_segments event =
     (let eventType = (case js_get event ''type'' of JStr s \<Rightarrow> s | _ \<Rightarrow> []);
          delta = js_get event ''delta'';
          message = js_get event ''message''
      in if eventType = ''content_block_start'' then
           (let contentBlock = coalesce (js_get event ''content_block'') JNull
            in if \<not> truthy contentBlock then []
               else if js_get contentBlock ''type'' = JStr ''text''
               then text_segment (collectTextFromUnknown contentBlock) else [])
         else if eventType = ''content_block_delta'' \<and> truthy delta \<and> is_object delta then
           (if js_get delta ''type'' = JStr ''text_delta''
            then (case js_get delta ''text'' of JStr s \<Rightarrow> [s] | _ \<Rightarrow> []) else [])
         else if eventType = ''message_start'' \<and> truthy message \<and> is_object message then
           text_segment (collectTextFromUnknown (js_get message ''content''))
         else if is_array (js_get event ''choices'') then
           concat (map choice_segments (js_elements (js_get event ''choices'')))
         else
           (let t1 = collectTextFromUnknown (js_get event ''output'');
                t2 = collectTextFromUnknown (js_get event ''content'')
            in text_segment (if t1 \<noteq> [] then t1 else if t2 \<noteq> [] then t2
                             else collectTextFromUnknown delta)))"

definition extractReadableSseText :: "string option \<Rightarrow> string" where
  "extractReadableSseText payload =
     (let payloadText = trim (case payload of Some s \<Rightarrow> s | None \<Rightarrow> [])
      in if payloadText = [] then []
         else
           (let jsonObjects = extractJsonObjectsFromSse payloadText
            in if jsonObjects = [] then []
               else trim (concat (concat (map event_segments jsonObjects)))))"

section \<open>A well-formed stream\<close>

text \<open>
  What a relay records for a list of events: one \<open>data:\<close> line with the compact JSON per block,
  and the closing \<open>[DONE]\<close> block.
\<close>

definition sse_text :: "jsval list \<Rightarrow> string" where
  "sse_text evs = js_join [LF, LF] (map (\<lambda>e. ''data: '' @ json_stringify e) evs @ [''data: [DONE]''])"

definition chat_event :: "string \<Rightarrow> jsval" where
  "chat_event s = JObj [(''choices'', JArr [JObj [(''delta'', JObj [(''content'', JStr s)])]])]"

definition anthropic_event :: "string \<Rightarrow> jsval" where
  "anthropic_event s = JObj [(''type'', JStr ''content_block_delta''),
     (''delta'', JObj [(''type'', JStr ''text_delta''), (''text'', JStr s)])]"

subsection \<open>Compact JSON has no control character\<close>

definition printable :: "string \<Rightarrow> bool" where
  "printable s \<longleftrightarrow> (\<forall>c \<in> set s. 32 \<le> (of_char c :: nat))"

lemma printable_append [simp]: "printable (s @ t) \<longleftrightarrow> printable s \<and> printable t"
  by (auto simp: printable_def)

lemma printable_Cons [simp]: "printable (c # s) \<longleftrightarrow> 32 \<le> (of_char c :: nat) \<and> printable s"
  by (auto simp: printable_def)

lemma printable_Nil [simp]: "printable []"
  by (simp add: printable_def)

lemma printable_js_join: "printable sep \<Longrightarrow> (\<forall>s \<in> set ss. printable s) \<Longrightarrow> printable (js_join sep ss)"
  by (induction sep ss rule: js_join.induct) auto

lemma printable_esc_char: "printable (esc_char c)"
  by (auto simp: esc_char_def hex_digit_def of_char_of)

lemma printable_quote [simp]: "printable (quote s)"
proof -
  have "printable (concat (map esc_char s))"
    by (induction s) (auto simp: printable_esc_char)
  then show ?thesis by (simp add: quote_def)
qed

lemma printable_nat_str [simp]: "printable (nat_str n)"
proof -
  have "32 \<le> (of_char c :: nat)" if "c \<in> set (nat_str n)" for c
    using is_digit_nat_str [OF that] by (simp add: is_digit_def)
  then show ?thesis by (auto simp: printable_def)
qed

lemma printable_json_text: "json_clean v \<Longrightarrow> printable (json_text [] ind v)"
proof (induction v arbitrary: ind rule: measure_induct_rule [of size])
  case (less v)
  show ?case
  proof (cases v)
    case (JNum x)
    with less.prems obtain i where "x = Fin (of_int i)" "\<bar>i\<bar> < 2 ^ 53"
      by (auto simp: safe_integer_def split: jsnum.splits)
    with JNum show ?thesis using number_to_string_int [of i] by (simp add: int_str_def)
  next
    case (JArr vs)
    have "printable (json_text [] ind y)" if "y \<in> set vs" for y
      using that less.prems JArr by (intro less.IH) (simp_all add: size_list_estimation' less_Suc_eq_le)
    then show ?thesis by (simp add: JArr line_break_def printable_js_join)
  next
    case (JObj ps)
    have "printable (json_text [] ind (snd p))" if "p \<in> set ps" for p
      using that less.prems JObj member_size [OF that] by (intro less.IH) auto
    then have "\<forall>s \<in> set (map (\<lambda>(k, v). quote k @ '':'' @ json_text [] ind v) ps). printable s" by auto
    then show ?thesis
      using clean_filter [OF less.prems [unfolded JObj]] by (simp add: JObj line_break_def printable_js_join)
  qed auto
qed

lemma printable_no_LF: "printable s \<Longrightarrow> LF \<notin> set s"
  by (auto simp: printable_def)

lemma trim_inner:
  assumes "\<not> is_space a" and "\<not> is_space b"
  shows "trim (a # s @ [b]) = a # s @ [b]"
  using assms by (simp add: trim_def)

lemma trim_space: "trim (CHR '' '' # s) = trim s"
  by (simp add: trim_def is_space_def)

subsection \<open>Splitting the stream\<close>

lemma split_blocks_line: "LF \<notin> set b \<Longrightarrow> split_blocks b = [b]"
  by (induction b) auto

lemma split_blocks_append:
  "LF \<notin> set b \<Longrightarrow> hd t \<noteq> LF \<Longrightarrow> t \<noteq> [] \<Longrightarrow> split_blocks (b @ LF # LF # t) = b # split_blocks t"
proof (induction b)
  case Nil
  then show ?case by (cases t) auto
qed auto

lemma split_blocks_join:
  assumes "bs \<noteq> []" and "\<forall>b \<in> set bs. LF \<notin> set b \<and> b \<noteq> []"
  shows "split_blocks (js_join [LF, LF] bs) = bs"
  using assms
proof (induction bs)
  case (Cons b bs)
  show ?case
  proof (cases "bs = []")
    case False
    then have "hd (js_join [LF, LF] bs) = hd (hd bs)" "js_join [LF, LF] bs \<noteq> []"
      using Cons.prems by (cases bs; cases "tl bs"; auto simp: js_join_Cons)+
    moreover have "hd (hd bs) \<noteq> LF" using False Cons.prems by (cases bs) (auto, metis hd_in_set)
    ultimately show ?thesis using Cons False by (simp add: js_join_Cons split_blocks_append)
  qed (use Cons.prems in \<open>simp add: split_blocks_line\<close>)
qed simp

text \<open>An event object prints as \<open>{...}\<close>, so its line survives trimming and reads back.\<close>

lemma json_object_shape: "\<exists>s. json_stringify (JObj ps) = CHR ''{'' # s @ [CHR ''}'']"
  by (simp add: json_stringify_def)

lemma block_objects_event:
  assumes "json_clean (JObj ps)"
  shows "trim (''data: '' @ json_stringify (JObj ps)) = ''data: '' @ json_stringify (JObj ps)"
    and "block_objects (''data: '' @ json_stringify (JObj ps)) = [JObj ps]"
proof -
  obtain s where s: "json_stringify (JObj ps) = CHR ''{'' # s @ [CHR ''}'']"
    using json_object_shape by blast
  have t: "trim (CHR ''{'' # s @ [CHR ''}'']) = CHR ''{'' # s @ [CHR ''}'']"
    by (rule trim_inner) (simp_all add: is_space_def)
  have d: "trim (CHR ''d'' # (''ata: '' @ CHR ''{'' # s) @ [CHR ''}'']) = CHR ''d'' # (''ata: '' @ CHR ''{'' # s) @ [CHR ''}'']"
    by (rule trim_inner) (simp_all add: is_space_def)
  show "trim (''data: '' @ json_stringify (JObj ps)) = ''data: '' @ json_stringify (JObj ps)"
    using d by (simp add: s)
  have "printable (json_stringify (JObj ps))"
    using assms by (simp only: json_stringify_def printable_json_text)
  then have "split_on (\<lambda>c. c = LF) (''data: '' @ json_stringify (JObj ps)) = [''data: '' @ json_stringify (JObj ps)]"
    using printable_no_LF by (intro split_on_no_sep) auto
  then have "data_lines (''data: '' @ json_stringify (JObj ps)) = [json_stringify (JObj ps)]"
    using t by (simp add: data_lines_def starts_with_def trim_space s)
  moreover have "json_stringify (JObj ps) \<noteq> ''[DONE]''" by (simp add: s)
  ultimately show "block_objects (''data: '' @ json_stringify (JObj ps)) = [JObj ps]"
    using json_parse_stringify [OF assms] by (simp add: block_objects_def s)
qed

lemma block_objects_done:
  "trim ''data: [DONE]'' = ''data: [DONE]''" "block_objects ''data: [DONE]'' = []"
  by (simp_all add: trim_def is_space_def block_objects_def data_lines_def starts_with_def)

lemma extract_sse_text:
  assumes "\<forall>e \<in> set evs. json_clean e \<and> (\<exists>ps. e = JObj ps)"
  shows "extractJsonObjectsFromSse (sse_text evs) = evs"
proof -
  let ?bs = "map (\<lambda>e. ''data: '' @ json_stringify e) evs @ [''data: [DONE]'']"
  have "LF \<notin> set (''data: '' @ json_stringify e)" if "e \<in> set evs" for e
    using printable_no_LF [OF printable_json_text [of e "[]"]] that assms
    by (simp add: json_stringify_def)
  then have "split_blocks (sse_text evs) = ?bs"
    unfolding sse_text_def by (intro split_blocks_join) auto
  moreover have "filter (\<lambda>b. b \<noteq> []) (map trim ?bs) = ?bs"
  proof -
    have "map trim ?bs = ?bs" using assms block_objects_event(1) block_objects_done by (auto cong: map_cong)
    then show ?thesis by (simp add: filter_id_conv)
  qed
  moreover have "concat (map (\<lambda>e. block_objects (''data: '' @ json_stringify e)) evs) = evs"
    using assms block_objects_event(2) by (induction evs) auto
  ultimately show ?thesis
    by (simp only: extractJsonObjectsFromSse_def map_append concat_append map_map o_def list.map
        concat.simps block_objects_done append_Nil2)
qed

lemma sse_text_trim: "trim (sse_text evs) = sse_text evs \<and> sse_text evs \<noteq> []"
proof -
  have hd: "\<exists>s. sse_text evs = CHR ''d'' # s"
    by (cases evs) (auto simp: sse_text_def js_join_Cons)
  have "\<exists>s. js_join [LF, LF] (bs @ [''data: [DONE]'']) = s @ [CHR '']'']" for bs
    by (induction bs) (auto simp: js_join_Cons)
  then have "\<exists>s. sse_text evs = s @ [CHR '']'']" by (simp add: sse_text_def)
  with hd obtain s t where st: "sse_text evs = CHR ''d'' # s" "sse_text evs = t @ [CHR '']'']" by blast
  then obtain u where "sse_text evs = CHR ''d'' # u @ [CHR '']'']" by (cases t) auto
  moreover have "\<not> is_space (CHR ''d'')" "\<not> is_space (CHR '']'')" by (simp_all add: is_space_def)
  ultimately show ?thesis using trim_inner by simp
qed

section \<open>Properties\<close>



text \<open>
  The text an operator reads is the concatenation of the streamed pieces, and it does
  not depend on the upstream's protocol: OpenAI content deltas and Anthropic text deltas of the
  same pieces read the same.
\<close>
theorem extractReadableSseText_pieces:
  "extractReadableSseText (Some (sse_text (map chat_event ss))) = trim (concat ss) \<and>
   extractReadableSseText (Some (sse_text (map anthropic_event ss))) = trim (concat ss)"
proof -
  have seg: "event_segments (chat_event s) = text_segment s"
    "concat (event_segments (anthropic_event s)) = s" for s
    by (simp_all add: event_segments_def chat_event_def anthropic_event_def choice_segments_def
        str_segment_def text_segment_def)
  then have c1: "concat (event_segments (chat_event s)) = s" for s
    by (simp add: text_segment_def)
  have "concat (concat (map event_segments (map f ss))) = concat ss"
    if "\<And>s. concat (event_segments (f s)) = s" for f
    using that by (induction ss) auto
  note c = this [OF c1] this [OF seg(2)]
  have "\<forall>e \<in> set (map chat_event ss). json_clean e \<and> (\<exists>ps. e = JObj ps)"
    "\<forall>e \<in> set (map anthropic_event ss). json_clean e \<and> (\<exists>ps. e = JObj ps)"
    by (auto simp: chat_event_def anthropic_event_def)
  then show ?thesis
    using c by (simp add: extractReadableSseText_def sse_text_trim extract_sse_text
        del: map_map trim_Nil) auto
qed

end
