(* ===== verification/Requests.thy ===== *)
theory Requests
  imports Format
begin

text \<open>
  The request list of the console: sorting by a column (\<open>utils.ts\<close>) and the hourly health of the
  channels (\<open>utils/channel-health.ts\<close>, \<open>components/channel-health.tsx\<close>).
\<close>

section \<open>Sorting\<close>

definition getSortableValue :: "ConsoleRequestListItem \<Rightarrow> RequestSortKey \<Rightarrow> jsnum" where
  "getSortableValue item sortKey =
     (if sortKey = Created_at then js_int (rq_created_at item)
      else if sortKey = Response_status
      then (case rq_response_status item of Some s \<Rightarrow> js_int s | None \<Rightarrow> js_int (- 1))
      else getTotalTokens (usage_any (rq_response_usage item)) (rq_upstream_type item))"

text \<open>
  The comparator returned a positive number. Every sort key is a number, so the branch that
  compares two strings with \<open>localeCompare\<close> is never taken.
\<close>

definition request_gt ::
    "RequestSortKey \<Rightarrow> SortDirection \<Rightarrow> ConsoleRequestListItem \<Rightarrow> ConsoleRequestListItem \<Rightarrow> bool" where
  "request_gt sortKey sortDirection left right =
     (let result = num_sub (getSortableValue left sortKey) (getSortableValue right sortKey)
      in num_less (Fin 0) (if sortDirection = Asc then result else num_neg result))"

definition sortRequests ::
    "ConsoleRequestListItem list \<Rightarrow> RequestSortKey \<Rightarrow> SortDirection \<Rightarrow> ConsoleRequestListItem list" where
  "sortRequests requests sortKey sortDirection = js_sort (request_gt sortKey sortDirection) requests"

subsection \<open>The comparator is consistent\<close>

text \<open>The order the comparator means: by the sort key, reversed for \<open>desc\<close>.\<close>

definition key_gt ::
    "RequestSortKey \<Rightarrow> SortDirection \<Rightarrow> ConsoleRequestListItem \<Rightarrow> ConsoleRequestListItem \<Rightarrow> bool" where
  "key_gt k d x y =
     (if d = Asc then getSortableValue y k < getSortableValue x k
      else getSortableValue x k < getSortableValue y k)"

interpretation request_order: comparator "key_gt k d" for k d
  by unfold_locales (auto simp: key_gt_def)

lemma is_double_token_field [simp]: "is_double (token_field (usage_any u) a b)"
  if "(a, b) \<in> {(''input_tokens'', ''total_input_tokens''), (''output_tokens'', ''total_output_tokens''),
       (''cache_creation_input_tokens'', ''total_cache_creation_tokens''),
       (''cache_read_input_tokens'', ''total_cache_read_tokens'')}"
  using that token_field_usage [of u] by auto

lemma is_double_getTotalTokens: "is_double (getTotalTokens (usage_any u) t)"
  by (simp add: getTotalTokens_def Let_def usage_any_get(1) js_to_number_opt(1) token_field_usage
      is_double_num_add)

lemma is_double_getSortableValue: "is_double (getSortableValue r k)"
  by (auto simp: getSortableValue_def is_double_getTotalTokens split: option.splits)

lemma request_gt_key_gt:
  assumes "getSortableValue x k \<noteq> NaN" and "getSortableValue y k \<noteq> NaN"
  shows "request_gt k d x y = key_gt k d x y"
  using num_sub_pos_iff [OF is_double_getSortableValue is_double_getSortableValue assms]
    num_neg_pos_iff [OF is_double_getSortableValue is_double_getSortableValue assms]
    num_less_iff [OF assms(1)] num_less_iff [OF assms(2)]
  by (simp add: request_gt_def key_gt_def)

lemma sortRequests_key_gt:
  assumes "\<forall>r \<in> set rs. getSortableValue r k \<noteq> NaN"
  shows "sortRequests rs k d = js_sort (key_gt k d) rs"
  unfolding sortRequests_def using assms by (intro js_sort_cong request_gt_key_gt) auto

section \<open>Hourly health of the channels\<close>

text \<open>
  \<open>hour_key\<close> renders a timestamp as \<open>YYYY-MM-DD HH:00\<close> in the browser's time zone; the calendar
  is a parameter of the model.
\<close>

record HourStats =
  hs_total :: nat
  hs_success :: nat

record ChannelHealthData =
  ch_route :: string
  ch_hourlyStatus :: "(string, HealthStatus) jsmap"

definition success_status :: "int option \<Rightarrow> bool" where
  "success_status status = (case status of None \<Rightarrow> False | Some s \<Rightarrow> 200 \<le> s \<and> s < 400)"

definition bump_hour :: "int option \<Rightarrow> HourStats \<Rightarrow> HourStats" where
  "bump_hour status st =
     st\<lparr>hs_total := hs_total st + 1,
        hs_success := (if success_status status then hs_success st + 1 else hs_success st)\<rparr>"

definition or_new_hour :: "HourStats option \<Rightarrow> HourStats" where
  "or_new_hour st = (case st of None \<Rightarrow> \<lparr>hs_total = 0, hs_success = 0\<rparr> | Some x \<Rightarrow> x)"

definition or_new_map :: "('k, 'v) jsmap option \<Rightarrow> ('k, 'v) jsmap" where
  "or_new_map st = (case st of None \<Rightarrow> [] | Some x \<Rightarrow> x)"

definition route_of :: "ConsoleRequestListItem \<Rightarrow> string" where
  "route_of req = (if rq_route_prefix req = [] then ''unknown'' else rq_route_prefix req)"

definition count_request ::
    "(int \<Rightarrow> string) \<Rightarrow> ConsoleRequestListItem \<Rightarrow>
     (string, (string, HourStats) jsmap) jsmap \<Rightarrow> (string, (string, HourStats) jsmap) jsmap" where
  "count_request hour_key req routeHourMap =
     (let route = route_of req;
          hourKey = hour_key (rq_created_at req);
          hourMap = or_new_map (map_get routeHourMap route);
          stats = bump_hour (rq_response_status req) (or_new_hour (map_get hourMap hourKey))
      in map_set route (map_set hourKey stats hourMap) routeHourMap)"

definition hour_status :: "HourStats \<Rightarrow> HealthStatus" where
  "hour_status stats =
     (if hs_total stats = 0 then No_data
      else if hs_success stats = hs_total stats then Healthy
      else if hs_success stats > 0 then Degraded else Down)"

definition calculateChannelHealth ::
    "(int \<Rightarrow> string) \<Rightarrow> ConsoleRequestListItem list \<Rightarrow> ChannelHealthData list" where
  "calculateChannelHealth hour_key requests =
     map (\<lambda>(route, hourMap). \<lparr>ch_route = route,
            ch_hourlyStatus = map (\<lambda>(h, stats). (h, hour_status stats)) hourMap\<rparr>)
       (fold (count_request hour_key) requests [])"

text \<open>
  \<open>components/channel-health.tsx\<close>: the hours of the table's columns, latest first, at most 24,
  and the status of a cell. \<open>Array.prototype.sort\<close> without a comparator orders the hour keys by
  their code units.
\<close>

definition string_less :: "string \<Rightarrow> string \<Rightarrow> bool" where
  "string_less s t \<longleftrightarrow> (s, t) \<in> lexord {(a, b). (of_char a :: nat) < of_char b}"

definition allHours :: "ChannelHealthData list \<Rightarrow> string list" where
  "allHours healthData =
     take 24 (rev (js_sort (\<lambda>a b. string_less b a)
       (new_Set (concat (map (\<lambda>d. map fst (ch_hourlyStatus d)) healthData)))))"

definition cell_status :: "ChannelHealthData \<Rightarrow> string \<Rightarrow> HealthStatus" where
  "cell_status data hour = (case map_get (ch_hourlyStatus data) hour of Some s \<Rightarrow> s | None \<Rightarrow> No_data)"

text \<open>The rows of the table; \<open>None\<close> when there is nothing to show.\<close>

definition ChannelHealth ::
    "(int \<Rightarrow> string) \<Rightarrow> ConsoleRequestListItem list \<Rightarrow>
     (string list \<times> (string \<times> HealthStatus list) list) option" where
  "ChannelHealth hour_key requests =
     (let healthData = calculateChannelHealth hour_key requests; hours = allHours healthData
      in if healthData = [] then None
         else Some (hours, map (\<lambda>d. (ch_route d, map (cell_status d) hours)) healthData))"

subsection \<open>The counters of one channel and hour\<close>

definition in_cell :: "(int \<Rightarrow> string) \<Rightarrow> string \<Rightarrow> string \<Rightarrow> ConsoleRequestListItem \<Rightarrow> bool" where
  "in_cell hour_key route hour req \<longleftrightarrow> route_of req = route \<and> hour_key (rq_created_at req) = hour"

text \<open>The counters the map must hold for a list of requests: \<open>None\<close> without a request.\<close>

definition cell_counts ::
    "(int \<Rightarrow> string) \<Rightarrow> ConsoleRequestListItem list \<Rightarrow> string \<Rightarrow> string \<Rightarrow> HourStats option" where
  "cell_counts hour_key rs route hour =
     (let cell = filter (in_cell hour_key route hour) rs
      in if cell = [] then None
         else Some \<lparr>hs_total = length cell,
                    hs_success = length (filter (\<lambda>r. success_status (rq_response_status r)) cell)\<rparr>)"

definition map_cell :: "(string, (string, HourStats) jsmap) jsmap \<Rightarrow> string \<Rightarrow> string \<Rightarrow> HourStats option" where
  "map_cell m route hour = (case map_get m route of None \<Rightarrow> None | Some hm \<Rightarrow> map_get hm hour)"

lemma map_cell_count_request:
  "map_cell (count_request hk req m) route hour =
     (if in_cell hk route hour req
      then Some (bump_hour (rq_response_status req) (or_new_hour (map_cell m route hour)))
      else map_cell m route hour)"
  by (auto simp: map_cell_def count_request_def Let_def in_cell_def or_new_map_def or_new_hour_def
      js_collections split: option.splits)

lemma cell_counts_snoc:
  "cell_counts hk (rs @ [req]) route hour =
     (if in_cell hk route hour req
      then Some (bump_hour (rq_response_status req) (or_new_hour (cell_counts hk rs route hour)))
      else cell_counts hk rs route hour)"
  by (auto simp: cell_counts_def bump_hour_def or_new_hour_def Let_def filter_empty_conv)

text \<open>Refinement: the nested maps hold exactly the counters of the specification.\<close>

lemma map_cell_fold:
  "map_cell (fold (count_request hk) rs []) route hour = cell_counts hk rs route hour"
proof (induction rs rule: rev_induct)
  case Nil
  then show ?case by (simp add: map_cell_def cell_counts_def)
next
  case (snoc r rs)
  then show ?case by (simp add: map_cell_count_request cell_counts_snoc)
qed

lemma distinct_fold_count: "distinct (map fst (fold (count_request hk) rs []))"
  by (induction rs rule: rev_induct) (auto simp: count_request_def Let_def intro: distinct_update)

lemma keys_fold_count: "fst ` set (fold (count_request hk) rs []) = route_of ` set rs"
  by (induction rs rule: rev_induct) (auto simp: count_request_def Let_def dom_update)

lemma map_of_map_value: "map_of (map (\<lambda>(k, v). (k, f v)) m) k = map_option f (map_of m k)"
  by (induction m) auto

lemma calculateChannelHealth_find:
  assumes "d \<in> set (calculateChannelHealth hk rs)"
  shows "map_get (ch_hourlyStatus d) hour =
           map_option hour_status (cell_counts hk rs (ch_route d) hour)"
proof -
  let ?m = "fold (count_request hk) rs []"
  obtain route hm where p: "(route, hm) \<in> set ?m"
    and d: "d = \<lparr>ch_route = route, ch_hourlyStatus = map (\<lambda>(h, stats). (h, hour_status stats)) hm\<rparr>"
    using assms by (auto simp: calculateChannelHealth_def)
  have "map_get ?m route = Some hm"
    using p distinct_fold_count by (intro map_of_is_SomeI)
  then have "map_cell ?m route hour = map_get hm hour" by (simp add: map_cell_def)
  then show ?thesis by (simp add: d map_cell_fold map_of_map_value)
qed

lemma in_cell_route: "in_cell hk route hour r \<Longrightarrow> route_of r = route"
  by (simp add: in_cell_def)

lemma hour_status_filter:
  "xs \<noteq> [] \<Longrightarrow> hour_status \<lparr>hs_total = length xs, hs_success = length (filter P xs)\<rparr> =
     (if filter P xs = xs then Healthy else if filter P xs = [] then Down else Degraded)"
proof -
  have "length (filter P xs) = length xs \<longleftrightarrow> filter P xs = xs"
    by (metis filter_id_conv length_filter_less order_less_irrefl)
  then show "xs \<noteq> [] \<Longrightarrow> ?thesis" by (simp add: hour_status_def)
qed

definition sample_request :: "string \<Rightarrow> int \<Rightarrow> int option \<Rightarrow> ConsoleRequestListItem" where
  "sample_request route time status =
     \<lparr>rq_request_id = ''r'', rq_created_at = time, rq_route_prefix = route, rq_upstream_type = ''openai'',
      rq_source_request_type = None, rq_client_label = None, rq_api_key_id = None,
      rq_api_key_name = None, rq_path = ''/v1'', rq_target_url = ''u'', rq_request_model = ''m'',
      rq_response_status = status, rq_response_status_text = [], rq_response_payload_truncated = False,
      rq_response_payload_truncation_reason = None,
      rq_response_timing = \<lparr>rt_first_chunk_latency_ms = None, rt_first_token_latency_ms = None,
        rt_duration_ms = None, rt_generation_duration_ms = None, rt_response_body_bytes = None,
        rt_has_streaming_content = None\<rparr>,
      rq_response_usage = no_usage, rq_forwarded_summary = None,
      rq_analysis = \<lparr>an_cache_state = ''miss'', an_summary = []\<rparr>, rq_failover_from = None,
      rq_failover_chain = [], rq_original_route_prefix = None, rq_original_request_model = None,
      rq_failover_reason = None, rq_retry_attempt = 0\<rparr>"

lemma sample_request_simps [simp]:
  "rq_created_at (sample_request r t s) = t" "rq_route_prefix (sample_request r t s) = r"
  "rq_response_status (sample_request r t s) = s" "rq_response_usage (sample_request r t s) = no_usage"
  by (simp_all add: sample_request_def)

section \<open>Properties\<close>

text \<open>
  Property C21. Sorting the request table by any column, in either direction, permutes the
  requests, orders them by the column's number (time, status with pending requests as \<open>-1\<close>, or
  total tokens) and keeps the server's order among equal ones, although the comparator
  subtracts doubles; no request may have a \<open>NaN\<close> sort value.
\<close>
theorem sortRequests_correct:
  assumes "\<And>r. r \<in> set rs \<Longrightarrow> getSortableValue r k \<noteq> NaN"
  shows "mset (sortRequests rs k d) = mset rs \<and>
         sorted_wrt (\<lambda>x y. if d = Asc then getSortableValue x k \<le> getSortableValue y k
                           else getSortableValue y k \<le> getSortableValue x k) (sortRequests rs k d) \<and>
         (\<forall>v. filter (\<lambda>r. getSortableValue r k = v) (sortRequests rs k d) =
              filter (\<lambda>r. getSortableValue r k = v) rs)"
proof -
  have s: "sortRequests rs k d = js_sort (key_gt k d) rs"
    using assms by (intro sortRequests_key_gt) auto
  have "sorted_wrt (\<lambda>x y. \<not> key_gt k d x y) (js_sort (key_gt k d) rs)"
    by (rule request_order.sorted_js_sort)
  then have "sorted_wrt (\<lambda>x y. if d = Asc then getSortableValue x k \<le> getSortableValue y k
                           else getSortableValue y k \<le> getSortableValue x k) (js_sort (key_gt k d) rs)"
    by (rule sorted_wrt_mono_rel [rotated]) (auto simp: key_gt_def split: if_splits)
  moreover have "filter (\<lambda>r. getSortableValue r k = v) (js_sort (key_gt k d) rs) =
              filter (\<lambda>r. getSortableValue r k = v) rs" for v
    by (rule request_order.stable_js_sort) (auto simp: key_gt_def)
  ultimately show ?thesis by (simp add: s)
qed

text \<open>A witness: two requests by time, latest first.\<close>
theorem sortRequests_correct_witness:
  "mset (sortRequests [sample_request ''a'' 1 None, sample_request ''a'' 2 (Some 200)] Created_at Desc) =
     {#sample_request ''a'' 1 None, sample_request ''a'' 2 (Some 200)#}"
proof -
  let ?rs = "[sample_request ''a'' 1 None, sample_request ''a'' 2 (Some 200)]"
  have nn: "\<And>r. r \<in> set ?rs \<Longrightarrow> getSortableValue r Created_at \<noteq> NaN"
    by (simp add: getSortableValue_def js_int_def)
  show ?thesis using sortRequests_correct [of ?rs Created_at Desc, OF nn] by simp
qed

text \<open>
  Property C20. The health table is exact: a channel has a row exactly when it has a request, and
  its cell for an hour is empty, healthy, degraded or down by how many of the requests of that
  channel and hour exist and answered with a status in 200..399.
\<close>
theorem calculateChannelHealth_exact:
  "ch_route ` set (calculateChannelHealth hk rs) = route_of ` set rs \<and>
   (\<forall>d \<in> set (calculateChannelHealth hk rs).
      let cell = filter (in_cell hk (ch_route d) hour) rs;
          ok = filter (\<lambda>r. case rq_response_status r of None \<Rightarrow> False | Some s \<Rightarrow> 200 \<le> s \<and> s < 400) cell
      in cell_status d hour =
           (if cell = [] then No_data else if ok = cell then Healthy
            else if ok = [] then Down else Degraded))"
proof -
  have routes: "ch_route ` set (calculateChannelHealth hk rs) = route_of ` set rs"
    using keys_fold_count [of hk rs] by (simp add: calculateChannelHealth_def image_image case_prod_beta)
  have "cell_status d hour =
          (if cell = [] then No_data else if ok = cell then Healthy else if ok = [] then Down else Degraded)"
    if "d \<in> set (calculateChannelHealth hk rs)" and "cell = filter (in_cell hk (ch_route d) hour) rs"
      and "ok = filter (\<lambda>r. success_status (rq_response_status r)) cell" for d cell ok
  proof (cases "cell = []")
    case True
    then show ?thesis
      by (simp add: cell_status_def calculateChannelHealth_find [OF that(1)] cell_counts_def
          that(2) [symmetric])
  next
    case False
    then show ?thesis
      by (simp only: cell_status_def calculateChannelHealth_find [OF that(1)] cell_counts_def Let_def
          that(2) [symmetric] that(3) simp_thms if_False option.map option.case hour_status_filter)
  qed
  with routes show ?thesis by (simp only: Let_def success_status_def [symmetric]) blast
qed

text \<open>A witness: one success and one failure in the same hour.\<close>
theorem calculateChannelHealth_exact_witness:
  "\<exists>d. cell_status d ''h'' = Degraded \<and> ch_route d = ''a'' \<and> d \<in> set (calculateChannelHealth (\<lambda>_. ''h'')
     [sample_request ''a'' 1 (Some 200), sample_request ''a'' 2 (Some 500)])"
proof -
  let ?rs = "[sample_request ''a'' 1 (Some 200), sample_request ''a'' 2 (Some 500)]"
  note ex = calculateChannelHealth_exact [of "\<lambda>_. ''h''" ?rs "''h''"]
  have "''a'' \<in> route_of ` set ?rs" by (simp add: route_of_def)
  then have "''a'' \<in> ch_route ` set (calculateChannelHealth (\<lambda>_. ''h'') ?rs)"
    by (simp only: conjunct1 [OF ex])
  then obtain d where d: "d \<in> set (calculateChannelHealth (\<lambda>_. ''h'') ?rs)" "ch_route d = ''a''"
    by (elim imageE) simp
  let ?cell = "filter (in_cell (\<lambda>_. ''h'') (ch_route d) ''h'') ?rs"
  have cell: "?cell = ?rs" by (simp add: d(2) in_cell_def route_of_def)
  have "cell_status d ''h'' =
      (if ?cell = [] then No_data
       else if filter (\<lambda>r. success_status (rq_response_status r)) ?cell = ?cell then Healthy
       else if filter (\<lambda>r. success_status (rq_response_status r)) ?cell = [] then Down else Degraded)"
    using bspec [OF conjunct2 [OF ex] d(1)] by (simp only: Let_def success_status_def)
  then have "cell_status d ''h'' = Degraded" by (simp only: cell) (simp add: success_status_def)
  with d show ?thesis by blast
qed

end
