(* ===== verification/Url.thy ===== *)
theory Url
  imports JS_Text
begin

text \<open>
  Percent-encoding as the console uses it: \<open>encodeURIComponent\<close>, \<open>decodeURIComponent\<close> and
  \<open>URLSearchParams\<close>, on the UTF-8 bytes of a string, with their round trips.
\<close>

section \<open>Percent escapes\<close>

definition is_alnum :: "char \<Rightarrow> bool" where
  "is_alnum c =
     (let n = of_char c :: nat
      in (48 \<le> n \<and> n \<le> 57) \<or> (65 \<le> n \<and> n \<le> 90) \<or> (97 \<le> n \<and> n \<le> 122))"

definition upper_hex :: "nat \<Rightarrow> char" where
  "upper_hex d = char_of (if d < 10 then 48 + d else 55 + d)"

definition percent :: "char \<Rightarrow> string" where
  "percent c = [CHR ''%'', upper_hex (of_char c div 16), upper_hex (of_char c mod 16)]"

definition uri_unreserved :: "char \<Rightarrow> bool" where
  "uri_unreserved c \<longleftrightarrow> is_alnum c \<or> c \<in> set ''-_.!~*()'' \<or> c = CHR 0x27"

definition encodeURIComponent :: "string \<Rightarrow> string" where
  "encodeURIComponent s = concat (map (\<lambda>c. if uri_unreserved c then [c] else percent c) s)"

definition is_hex :: "char \<Rightarrow> bool" where
  "is_hex c \<longleftrightarrow> radix_digit c < 16"

definition hex_byte :: "char \<Rightarrow> char \<Rightarrow> char" where
  "hex_byte a b = char_of (16 * radix_digit a + radix_digit b)"

fun percent_decode :: "string \<Rightarrow> string option" where
  "percent_decode [] = Some []"
| "percent_decode (c # s) =
     (if c = CHR ''%'' then
        (case s of
           a # b # r \<Rightarrow>
             if is_hex a \<and> is_hex b then map_option (\<lambda>t. hex_byte a b # t) (percent_decode r) else None
         | _ \<Rightarrow> None)
      else map_option (\<lambda>t. c # t) (percent_decode s))"

text \<open>Well-formed UTF-8: lead byte ranges and continuation bytes.\<close>

definition byte_in :: "nat \<Rightarrow> nat \<Rightarrow> char \<Rightarrow> bool" where
  "byte_in lo hi c \<longleftrightarrow> lo \<le> (of_char c :: nat) \<and> (of_char c :: nat) \<le> hi"

definition is_cont :: "char \<Rightarrow> bool" where
  "is_cont c = byte_in 0x80 0xBF c"

fun valid_utf8 :: "string \<Rightarrow> bool" where
  "valid_utf8 [] = True"
| "valid_utf8 (c # s) =
     (if byte_in 0 0x7F c then valid_utf8 s
      else if byte_in 0xC2 0xDF c then (case s of a # r \<Rightarrow> is_cont a \<and> valid_utf8 r | _ \<Rightarrow> False)
      else if byte_in 0xE0 0xEF c then
        (case s of
           a # b # r \<Rightarrow>
             byte_in (if c = CHR 0xE0 then 0xA0 else 0x80) (if c = CHR 0xED then 0x9F else 0xBF) a
             \<and> is_cont b \<and> valid_utf8 r
         | _ \<Rightarrow> False)
      else if byte_in 0xF0 0xF4 c then
        (case s of
           a # b # d # r \<Rightarrow>
             byte_in (if c = CHR 0xF0 then 0x90 else 0x80) (if c = CHR 0xF4 then 0x8F else 0xBF) a
             \<and> is_cont b \<and> is_cont d \<and> valid_utf8 r
         | _ \<Rightarrow> False)
      else False)"

text \<open>\<open>None\<close> is the thrown \<open>URIError\<close>.\<close>

definition decodeURIComponent :: "string \<Rightarrow> string option" where
  "decodeURIComponent s =
     (case percent_decode s of
        None \<Rightarrow> None
      | Some t \<Rightarrow> if valid_utf8 t then Some t else None)"

lemma radix_upper_hex: "d < 16 \<Longrightarrow> radix_digit (upper_hex d) = d"
  by (cases "d < 10")
     (simp_all add: radix_digit_def upper_hex_def is_digit_def digit_val_def of_char_of Let_def)

lemma of_char_less_256: "(of_char (c :: char) :: nat) < 256"
  by simp

lemma hex_byte_percent:
  "is_hex (upper_hex (of_char c div 16))" "is_hex (upper_hex (of_char c mod 16))"
  "hex_byte (upper_hex (of_char c div 16)) (upper_hex (of_char c mod 16)) = c"
proof -
  have "(of_char c :: nat) < 16 * 16" using of_char_less_256 [of c] by simp
  then have d: "(of_char c :: nat) div 16 < 16" by (simp add: less_mult_imp_div_less)
  then show "is_hex (upper_hex (of_char c div 16))" "is_hex (upper_hex (of_char c mod 16))"
    by (simp_all add: is_hex_def radix_upper_hex)
  from d show "hex_byte (upper_hex (of_char c div 16)) (upper_hex (of_char c mod 16)) = c"
    by (simp add: hex_byte_def radix_upper_hex)
qed

lemma percent_decode_encode [simp]: "percent_decode (encodeURIComponent s) = Some s"
  by (induction s)
     (auto simp: encodeURIComponent_def percent_def hex_byte_percent uri_unreserved_def is_alnum_def)

lemma decode_encode_URIComponent: "valid_utf8 s \<Longrightarrow> decodeURIComponent (encodeURIComponent s) = Some s"
  by (simp add: decodeURIComponent_def)

text \<open>No separator of a path, a query or a fragment survives the encoding.\<close>

lemma upper_hex_alnum: "d < 16 \<Longrightarrow> is_alnum (upper_hex d)"
  by (auto simp: is_alnum_def upper_hex_def of_char_of Let_def)

lemma encodeURIComponent_chars:
  "c \<in> set (encodeURIComponent s) \<Longrightarrow> uri_unreserved c \<or> c = CHR ''%''"
proof (induction s)
  case (Cons x s)
  have "(of_char x :: nat) < 16 * 16" using of_char_less_256 [of x] by simp
  then have "is_alnum (upper_hex (of_char x div 16))" "is_alnum (upper_hex (of_char x mod 16))"
    by (simp_all add: upper_hex_alnum less_mult_imp_div_less)
  with Cons show ?case
    by (auto simp: encodeURIComponent_def percent_def uri_unreserved_def split: if_splits)
qed (simp add: encodeURIComponent_def)

lemma encodeURIComponent_safe:
  assumes "c \<in> set ''/?#&=+''"
  shows "c \<notin> set (encodeURIComponent s)"
proof -
  have "\<not> uri_unreserved c \<and> c \<noteq> CHR ''%''"
    using assms by (auto simp: uri_unreserved_def is_alnum_def)
  then show ?thesis using encodeURIComponent_chars by blast
qed

lemma encodeURIComponent_eq_Nil [simp]: "encodeURIComponent s = [] \<longleftrightarrow> s = []"
  by (cases s) (auto simp: encodeURIComponent_def percent_def)

lemma encodeURIComponent_inject [simp]: "encodeURIComponent s = encodeURIComponent t \<longleftrightarrow> s = t"
  by (metis option.inject percent_decode_encode)

section \<open>URLSearchParams\<close>

definition form_unreserved :: "char \<Rightarrow> bool" where
  "form_unreserved c \<longleftrightarrow> is_alnum c \<or> c \<in> set ''*-._''"

definition form_encode :: "string \<Rightarrow> string" where
  "form_encode s =
     concat (map (\<lambda>c. if c = CHR '' '' then ''+'' else if form_unreserved c then [c] else percent c) s)"

text \<open>The lenient decoding of a form component: a stray \<open>%\<close> stays.\<close>

fun form_decode :: "string \<Rightarrow> string" where
  "form_decode [] = []"
| "form_decode (c # s) =
     (if c = CHR ''+'' then CHR '' '' # form_decode s
      else if c = CHR ''%'' then
        (case s of
           a # b # r \<Rightarrow> if is_hex a \<and> is_hex b then hex_byte a b # form_decode r else c # form_decode s
         | _ \<Rightarrow> c # form_decode s)
      else c # form_decode s)"

type_synonym params = "(string \<times> string) list"

definition params_string :: "params \<Rightarrow> string" where
  "params_string ps = js_join ''&'' (map (\<lambda>(k, v). form_encode k @ ''='' @ form_encode v) ps)"

definition parse_pair :: "string \<Rightarrow> string \<times> string" where
  "parse_pair s =
     (case index_of CHR ''='' s of
        None \<Rightarrow> (form_decode s, [])
      | Some i \<Rightarrow> (form_decode (take i s), form_decode (drop (Suc i) s)))"

definition parse_params :: "string \<Rightarrow> params" where
  "parse_params s = map parse_pair (filter (\<lambda>p. p \<noteq> []) (split_on (\<lambda>c. c = CHR ''&'') s))"

text \<open>\<open>params.set(k, v)\<close> on keys that are set at most once, and \<open>params.get(k)\<close>: the first value.\<close>

definition params_set :: "string \<Rightarrow> string \<Rightarrow> params \<Rightarrow> params" where
  "params_set k v ps = map_set k v ps"

definition params_get :: "params \<Rightarrow> string \<Rightarrow> string option" where
  "params_get ps k = map_of ps k"

lemma form_decode_form_encode [simp]: "form_decode (form_encode s) = s"
  by (induction s)
     (auto simp: form_encode_def percent_def hex_byte_percent form_unreserved_def is_alnum_def)

lemma form_decode_encodeURIComponent [simp]: "form_decode (encodeURIComponent s) = s"
  by (induction s)
     (auto simp: encodeURIComponent_def percent_def hex_byte_percent uri_unreserved_def is_alnum_def)

lemma form_encode_safe:
  assumes "c \<in> set ''&=?#''"
  shows "c \<notin> set (form_encode s)"
proof -
  have x: "is_alnum (upper_hex (of_char x div 16))" "is_alnum (upper_hex (of_char x mod 16))" for x
  proof -
    have "(of_char x :: nat) < 16 * 16" using of_char_less_256 [of x] by simp
    then show "is_alnum (upper_hex (of_char x div 16))" "is_alnum (upper_hex (of_char x mod 16))"
      by (simp_all add: upper_hex_alnum less_mult_imp_div_less)
  qed
  have "\<not> is_alnum c" "c \<noteq> CHR ''%''" "c \<noteq> CHR ''+''" "\<not> form_unreserved c"
    using assms by (auto simp: is_alnum_def form_unreserved_def)
  then show ?thesis using x by (induction s) (auto simp: form_encode_def percent_def split: if_splits)
qed

lemma parse_pair_encode: "parse_pair (form_encode k @ ''='' @ form_encode v) = (k, v)"
  using form_encode_safe [of "CHR ''=''" k] by (simp add: parse_pair_def index_of_append)

text \<open>Parsing the serialised parameters gives them back.\<close>

lemma parse_params_string [simp]: "parse_params (params_string ps) = ps"
proof (cases "ps = []")
  case False
  let ?enc = "\<lambda>(k, v). form_encode k @ ''='' @ form_encode v"
  have "split_on (\<lambda>c. c = CHR ''&'') (js_join [CHR ''&''] (map ?enc ps)) = map ?enc ps"
    using False form_encode_safe [of "CHR ''&''"] by (intro split_on_js_join) auto
  moreover have "filter (\<lambda>p. p \<noteq> []) (map ?enc ps) = map ?enc ps"
    by (auto simp: filter_id_conv)
  moreover have "map (parse_pair \<circ> ?enc) ps = ps"
    using parse_pair_encode by (induction ps) auto
  ultimately show ?thesis by (simp add: parse_params_def params_string_def)
qed (simp add: parse_params_def params_string_def)

lemma params_string_eq_Nil [simp]: "params_string ps = [] \<longleftrightarrow> ps = []"
  by (cases ps; cases "tl ps") (auto simp: params_string_def js_join_Cons)

text \<open>A query whose single parameter was written with \<open>encodeURIComponent\<close>.\<close>

lemma parse_params_component:
  assumes "k \<noteq> []" and "\<forall>c \<in> set k. is_alnum c"
  shows "parse_params (k @ ''='' @ encodeURIComponent v) = [(k, v)]"
proof -
  have dec: "form_decode k = k" if "\<forall>c \<in> set k. is_alnum c" for k
    using that by (induction k) (auto simp: is_alnum_def)
  have "CHR ''='' \<notin> set k" "CHR ''&'' \<notin> set k" using assms(2) by (auto simp: is_alnum_def)
  moreover have "CHR ''&'' \<notin> set (encodeURIComponent v)" by (rule encodeURIComponent_safe) simp
  ultimately have "split_on (\<lambda>c. c = CHR ''&'') (k @ ''='' @ encodeURIComponent v) = [k @ ''='' @ encodeURIComponent v]"
    and "index_of CHR ''='' (k @ ''='' @ encodeURIComponent v) = Some (length k)"
    by (auto intro!: split_on_no_sep simp: index_of_append)
  then show ?thesis using assms by (simp add: parse_params_def parse_pair_def dec)
qed

end
