(* ===== verification/Api.thy ===== *)
theory Api
  imports Url Types Json_Roundtrip
begin

text \<open>
  The client of the console API, \<open>features/dashboard/api.ts\<close>: the request each function sends and
  what \<open>requestJson\<close> makes of the answer. The network is outside the model: \<open>fetch\<close> either rejects
  with a message or yields a response.
\<close>

section \<open>Requests\<close>

record RequestInit =
  in_method :: "string option"
  in_headers :: "(string, string) jsmap"
  in_body :: "string option"

record HttpRequest =
  hr_url :: string
  hr_method :: string
  hr_headers :: "(string, string) jsmap"
  hr_body :: "string option"

definition no_init :: RequestInit where
  "no_init = \<lparr>in_method = None, in_headers = [], in_body = None\<rparr>"

text \<open>The request \<open>requestJson(url, init)\<close> passes to \<open>fetch\<close>: the caller's headers override.\<close>

definition json_request :: "string \<Rightarrow> RequestInit \<Rightarrow> HttpRequest" where
  "json_request url init =
     \<lparr>hr_url = url,
      hr_method = (case in_method init of None \<Rightarrow> ''GET'' | Some m \<Rightarrow> m),
      hr_headers = new_Map ((''Accept'', ''application/json'') # in_headers init),
      hr_body = in_body init\<rparr>"

definition send_json :: "string \<Rightarrow> string \<Rightarrow> jsval \<Rightarrow> HttpRequest" where
  \<comment> \<open>\<open>{ method, headers: { "Content-Type": "application/json" }, body: JSON.stringify(payload) }\<close>\<close>
  "send_json http_method url payload =
     json_request url \<lparr>in_method = Some http_method,
        in_headers = [(''Content-Type'', ''application/json'')],
        in_body = Some (json_stringify payload)\<rparr>"

definition get_json :: "string \<Rightarrow> HttpRequest" where
  "get_json url = json_request url no_init"

definition without_body :: "string \<Rightarrow> string \<Rightarrow> HttpRequest" where
  "without_body http_method url = json_request url (no_init\<lparr>in_method := Some http_method\<rparr>)"

section \<open>Responses\<close>

text \<open>
  \<open>resp_json\<close> is what \<open>response.json()\<close> settles to, a rejection included; \<open>resp_text\<close> is the body.
\<close>

record HttpResponse =
  resp_status :: int
  resp_contentType :: "string option"
  resp_json :: "jsval result"
  resp_text :: string

definition resp_ok :: "HttpResponse \<Rightarrow> bool" where
  "resp_ok r \<longleftrightarrow> 200 \<le> resp_status r \<and> resp_status r \<le> 299"

definition contains_text :: "string \<Rightarrow> string \<Rightarrow> bool" where
  "contains_text s t \<longleftrightarrow> sublist t s"

definition null_error_read :: string where
  \<comment> \<open>the \<open>TypeError\<close> of reading \<open>.error\<close> of a \<open>null\<close> body\<close>
  "null_error_read = ''Cannot read properties of null (reading '' @ [CHR 0x27] @ ''error'' @ [CHR 0x27] @ '')''"

definition error_of_payload :: "jsval result \<Rightarrow> string \<Rightarrow> string" where
  "error_of_payload body fallback =
     (let payload = (case body of Inl _ \<Rightarrow> JObj [] | Inr v \<Rightarrow> v)
      in if payload = JNull then null_error_read
         else js_to_string (coalesce (js_get payload ''error'') (JStr fallback)))"

definition requestJson :: "HttpResponse result \<Rightarrow> jsval result" where
  "requestJson fetched =
     bind_result fetched (\<lambda>response.
       if resp_status response = 401 then throw ''unauthorized''
       else if \<not> resp_ok response then
         (let contentType = (case resp_contentType response of Some c \<Rightarrow> c | None \<Rightarrow> [])
          in if contains_text contentType ''application/json''
             then throw (error_of_payload (resp_json response) ''request failed'')
             else throw (if resp_text response \<noteq> [] then resp_text response else ''request failed''))
       else resp_json response)"

text \<open>\<open>login\<close> has its own error handling: a 401 reports the server's message.\<close>

definition login_failed :: string where
  "login_failed = utf8 [0xE7, 0x99, 0xBB, 0xE5, 0xBD, 0x95, 0xE5, 0xA4, 0xB1, 0xE8, 0xB4, 0xA5]"

definition login :: "HttpResponse result \<Rightarrow> unit result" where
  "login fetched =
     bind_result fetched (\<lambda>response.
       if \<not> resp_ok response then throw (error_of_payload (resp_json response) login_failed)
       else return ())"

definition login_request :: "string \<Rightarrow> HttpRequest" where
  "login_request password =
     \<lparr>hr_url = ''/__console/login'', hr_method = ''POST'',
      hr_headers = [(''Accept'', ''application/json''), (''Content-Type'', ''application/json'')],
      hr_body = Some (json_stringify (JObj [(''password'', JStr password)]))\<rparr>"

section \<open>Session, requests and statistics\<close>

definition fetchSession :: HttpRequest where
  "fetchSession = get_json ''/__console/api/session''"

definition logout :: HttpRequest where
  "logout = without_body ''POST'' ''/__console/logout''"

record RequestFilters =
  flt_route :: "string option"
  flt_model :: "string option"
  flt_api_key_name :: "string option"
  flt_search :: "string option"
  flt_status :: "string option"
  flt_cache :: "string option"

definition no_filters :: RequestFilters where
  "no_filters = \<lparr>flt_route = None, flt_model = None, flt_api_key_name = None, flt_search = None,
                 flt_status = None, flt_cache = None\<rparr>"

definition DEFAULT_REQUEST_LIMIT :: int where
  "DEFAULT_REQUEST_LIMIT = 50"

definition DEFAULT_REQUEST_OFFSET :: int where
  "DEFAULT_REQUEST_OFFSET = 0"

fun sort_key_name :: "RequestSortKey \<Rightarrow> string" where
  "sort_key_name Created_at = ''created_at''"
| "sort_key_name Response_status = ''response_status''"
| "sort_key_name Tokens = ''tokens''"

fun direction_name :: "SortDirection \<Rightarrow> string" where
  "direction_name Asc = ''asc''"
| "direction_name Desc = ''desc''"

definition set_filter :: "string \<Rightarrow> string option \<Rightarrow> params \<Rightarrow> params" where
  \<comment> \<open>\<open>if (v) params.set(k, v)\<close>\<close>
  "set_filter k v ps =
     (case v of None \<Rightarrow> ps | Some s \<Rightarrow> if s = [] then ps else params_set k s ps)"

definition request_params ::
    "int \<Rightarrow> int \<Rightarrow> RequestFilters \<Rightarrow> RequestSortKey option \<Rightarrow> SortDirection option \<Rightarrow> params" where
  "request_params limit offset filters sortBy sortOrder =
     set_filter ''sort_order'' (map_option direction_name sortOrder)
       (set_filter ''sort_by'' (map_option sort_key_name sortBy)
         (set_filter ''cache'' (flt_cache filters)
           (set_filter ''status'' (flt_status filters)
             (set_filter ''search'' (flt_search filters)
               (set_filter ''api_key_name'' (flt_api_key_name filters)
                 (set_filter ''model'' (flt_model filters)
                   (set_filter ''route'' (flt_route filters)
                     (params_set ''offset'' (int_str offset)
                       (params_set ''limit'' (int_str limit) [])))))))))"

definition fetchRequests ::
    "int \<Rightarrow> int \<Rightarrow> RequestFilters \<Rightarrow> RequestSortKey option \<Rightarrow> SortDirection option \<Rightarrow> HttpRequest" where
  "fetchRequests limit offset filters sortBy sortOrder =
     get_json (''/__console/api/requests?'' @
       params_string (request_params limit offset filters sortBy sortOrder))"

definition query_suffix :: "params \<Rightarrow> string" where
  \<comment> \<open>\<open>qs ? `?${qs}` : ""\<close>\<close>
  "query_suffix ps = (let qs = params_string ps in if qs = [] then [] else ''?'' @ qs)"

definition fetchUsageStats :: "params \<Rightarrow> HttpRequest" where
  "fetchUsageStats query = get_json (''/__console/api/stats'' @ query_suffix query)"

definition fetchRequestDetail :: "string \<Rightarrow> HttpRequest" where
  "fetchRequestDetail requestId =
     get_json (''/__console/api/requests/'' @ encodeURIComponent requestId)"

definition fetchFilterOptions :: HttpRequest where
  "fetchFilterOptions = get_json ''/__console/api/filters''"

section \<open>Providers\<close>

definition provider_url :: "string \<Rightarrow> string" where
  "provider_url channelName = ''/__console/api/providers/'' @ encodeURIComponent channelName"

fun header_name :: "auth_header \<Rightarrow> string" where
  "header_name X_api_key = ''x-api-key''"
| "header_name Authorization = ''authorization''"

fun mode_name :: "OpenAiResponsesMode \<Rightarrow> string" where
  "mode_name Native = ''native''"
| "mode_name Chat_compat = ''chat_compat''"
| "mode_name Responses_disabled = ''disabled''"

fun visibility_name :: "RoutingVisibility \<Rightarrow> string" where
  "visibility_name Direct = ''direct''"
| "visibility_name Explicit_only = ''explicit_only''"

definition or_null :: "('a \<Rightarrow> jsval) \<Rightarrow> 'a option \<Rightarrow> jsval" where
  "or_null f v = (case v of None \<Rightarrow> JNull | Some x \<Rightarrow> f x)"

definition model_json :: "ProviderModelInfo \<Rightarrow> jsval" where
  "model_json pm = JObj ((''model'', JStr (pm_model pm)) # opt_field ''context'' int_val (pm_context pm)
                         @ pm_rest pm)"

definition auth_payload_json :: "AuthPayload \<Rightarrow> jsval" where
  "auth_payload_json a = JObj (
     opt_field ''header'' (\<lambda>h. JStr (header_name h)) (ap_header a) @
     opt_field ''value'' JStr (ap_value a))"

text \<open>\<open>auth\<close> may be absent, \<open>null\<close> or an object.\<close>

definition provider_payload_json :: "ProviderMutationPayload \<Rightarrow> jsval" where
  "provider_payload_json p = JObj (
     [(''channelName'', JStr (mp_channelName p)),
      (''type'', JStr (type_name (mp_type p))),
      (''targetBaseUrl'', JStr (mp_targetBaseUrl p)),
      (''systemPrompt'', or_null JStr (mp_systemPrompt p)),
      (''models'', JArr (map model_json (mp_models p))),
      (''priority'', JNum (mp_priority p)),
      (''routingVisibility'', JStr (visibility_name (mp_routingVisibility p))),
      (''responsesMode'', or_null (\<lambda>r. JStr (mode_name r)) (mp_responsesMode p)),
      (''extraFields'', or_null JObj (mp_extraFields p))] @
     opt_field ''auth'' (or_null auth_payload_json) (mp_auth p))"

definition fetchProviders :: HttpRequest where
  "fetchProviders = get_json ''/__console/api/providers''"

definition fetchProvider :: "string \<Rightarrow> HttpRequest" where
  "fetchProvider channelName = get_json (provider_url channelName)"

definition createProvider :: "ProviderMutationPayload \<Rightarrow> HttpRequest" where
  "createProvider payload = send_json ''POST'' ''/__console/api/providers'' (provider_payload_json payload)"

definition updateProvider :: "string \<Rightarrow> ProviderMutationPayload \<Rightarrow> HttpRequest" where
  "updateProvider channelName payload =
     send_json ''PATCH'' (provider_url channelName) (provider_payload_json payload)"

definition deleteProvider :: "string \<Rightarrow> HttpRequest" where
  "deleteProvider channelName = without_body ''DELETE'' (provider_url channelName)"

definition toggleProvider :: "string \<Rightarrow> bool \<Rightarrow> HttpRequest" where
  "toggleProvider channelName on =
     send_json ''PATCH'' (provider_url channelName @ ''/enabled'') (JObj [(''enabled'', JBool on)])"

definition testProvider :: "string \<Rightarrow> string option \<Rightarrow> HttpRequest" where
  "testProvider channelName model =
     send_json ''POST'' (provider_url channelName @ ''/test'')
       (case model of
          None \<Rightarrow> JObj []
        | Some x \<Rightarrow> if x = [] then JObj [] else JObj [(''model'', JStr x)])"

definition fetchUpstreamModels :: "string \<Rightarrow> HttpRequest" where
  "fetchUpstreamModels channelName = get_json (provider_url channelName @ ''/upstream-models'')"

record PreviewParams =
  pvw_targetBaseUrl :: string
  pvw_type :: provider_type
  pvw_authHeader :: "string option"
  pvw_authValue :: "string option"

definition fetchUpstreamModelsPreview :: "PreviewParams \<Rightarrow> HttpRequest" where
  "fetchUpstreamModelsPreview p =
     send_json ''POST'' ''/__console/api/upstream-models-preview''
       (JObj ([(''targetBaseUrl'', JStr (pvw_targetBaseUrl p)), (''type'', JStr (type_name (pvw_type p)))] @
              opt_field ''authHeader'' JStr (pvw_authHeader p) @
              opt_field ''authValue'' JStr (pvw_authValue p)))"

section \<open>Keys\<close>

definition key_url :: "string \<Rightarrow> string" where
  "key_url keyId = ''/__console/api/keys/'' @ encodeURIComponent keyId"

definition fetchKeys :: HttpRequest where
  "fetchKeys = get_json ''/__console/api/keys''"

definition createKey :: "string \<Rightarrow> jsnum option \<Rightarrow> HttpRequest" where
  "createKey name costQuota =
     send_json ''POST'' ''/__console/api/keys''
       (JObj [(''name'', JStr name), (''cost_quota'', or_null JNum costQuota)])"

definition getKey :: "string \<Rightarrow> HttpRequest" where
  "getKey keyId = get_json (key_url keyId)"

definition renameKey :: "string \<Rightarrow> string \<Rightarrow> HttpRequest" where
  "renameKey keyId name = send_json ''PATCH'' (key_url keyId) (JObj [(''name'', JStr name)])"

definition deleteKey :: "string \<Rightarrow> HttpRequest" where
  "deleteKey keyId = without_body ''DELETE'' (key_url keyId)"

definition setKeyAllowedModels :: "string \<Rightarrow> string list \<Rightarrow> HttpRequest" where
  "setKeyAllowedModels keyId models =
     send_json ''PATCH'' (key_url keyId @ ''/allowed-models'') (JObj [(''models'', JArr (map JStr models))])"

definition setKeyCostQuota :: "string \<Rightarrow> jsnum option \<Rightarrow> HttpRequest" where
  "setKeyCostQuota keyId costQuota =
     send_json ''PATCH'' (key_url keyId @ ''/quota'') (JObj [(''cost_quota'', or_null JNum costQuota)])"

section \<open>Models, aliases and gateway settings\<close>

definition fetchModels :: HttpRequest where
  "fetchModels = get_json ''/__console/api/models''"

definition partial_pricing_json :: "PartialPricing \<Rightarrow> jsval" where
  "partial_pricing_json p = JObj (
     opt_field ''input'' JNum (pp_input p) @ opt_field ''output'' JNum (pp_output p) @
     opt_field ''cache_read'' JNum (pp_cache_read p) @ opt_field ''cache_write'' JNum (pp_cache_write p))"

definition updateModelMetadata :: "string \<Rightarrow> string \<Rightarrow> UpdateModelMetadataPayload \<Rightarrow> HttpRequest" where
  "updateModelMetadata channelName modelId payload =
     send_json ''PATCH''
       (''/__console/api/models/'' @ encodeURIComponent channelName @ ''/''
        @ encodeURIComponent modelId @ ''/metadata'')
       (JObj (opt_field ''context'' (or_null JNum) (um_context payload) @
              opt_field ''pricing'' (or_null partial_pricing_json) (um_pricing payload)))"

record AliasPayload =
  alp_alias :: string
  alp_targets :: "RouteTarget list"
  alp_description :: "string option"
  alp_visible :: bool

definition target_json :: "RouteTarget \<Rightarrow> jsval" where
  "target_json t = JObj [(''provider'', JStr (tg_provider t)), (''model'', JStr (tg_model t))]"

definition alias_payload_json :: "AliasPayload \<Rightarrow> jsval" where
  "alias_payload_json p = JObj
     [(''alias'', JStr (alp_alias p)),
      (''targets'', JArr (map target_json (alp_targets p))),
      (''description'', or_null JStr (alp_description p)),
      (''visible'', JBool (alp_visible p))]"

definition alias_url :: "int \<Rightarrow> string" where
  "alias_url aliasId = ''/__console/api/model-aliases/'' @ int_str aliasId"

definition fetchModelAliases :: HttpRequest where
  "fetchModelAliases = get_json ''/__console/api/model-aliases''"

definition createModelAlias :: "AliasPayload \<Rightarrow> HttpRequest" where
  "createModelAlias payload = send_json ''POST'' ''/__console/api/model-aliases'' (alias_payload_json payload)"

definition updateModelAlias :: "int \<Rightarrow> AliasPayload \<Rightarrow> HttpRequest" where
  "updateModelAlias aliasId payload = send_json ''PATCH'' (alias_url aliasId) (alias_payload_json payload)"

definition toggleModelAlias :: "int \<Rightarrow> bool \<Rightarrow> HttpRequest" where
  "toggleModelAlias aliasId on =
     send_json ''PATCH'' (alias_url aliasId @ ''/enabled'') (JObj [(''enabled'', JBool on)])"

definition deleteModelAlias :: "int \<Rightarrow> HttpRequest" where
  "deleteModelAlias aliasId = without_body ''DELETE'' (alias_url aliasId)"

definition timeouts_json :: "GatewayTimeoutSettings \<Rightarrow> jsval" where
  "timeouts_json s = JObj
     [(''defaultFirstByteTimeoutMs'', JNum (gt_defaultFirstByteTimeoutMs s)),
      (''streamFirstByteTimeoutMs'', JNum (gt_streamFirstByteTimeoutMs s)),
      (''imageFirstByteTimeoutMs'', JNum (gt_imageFirstByteTimeoutMs s)),
      (''responseIdleTimeoutMs'', JNum (gt_responseIdleTimeoutMs s))]"

definition fetchGatewayTimeoutSettings :: HttpRequest where
  "fetchGatewayTimeoutSettings = get_json ''/__console/api/settings/timeouts''"

definition updateGatewayTimeoutSettings :: "GatewayTimeoutSettings \<Rightarrow> HttpRequest" where
  "updateGatewayTimeoutSettings payload =
     send_json ''PATCH'' ''/__console/api/settings/timeouts'' (timeouts_json payload)"

fun fallback_mode_name :: "ModelFallbackMode \<Rightarrow> string" where
  "fallback_mode_name Fallback_disabled = ''disabled''"
| "fallback_mode_name Same_model = ''same_model''"
| "fallback_mode_name Any_model = ''any_model''"

definition policy_json :: "GatewayFailoverPolicy \<Rightarrow> jsval" where
  "policy_json p = JObj
     [(''enabled'', JBool (fp_enabled p)),
      (''retryAttempts'', int_val (fp_retryAttempts p)),
      (''modelFallbackMode'', JStr (fallback_mode_name (fp_modelFallbackMode p))),
      (''maxFallbackAttempts'', int_val (fp_maxFallbackAttempts p)),
      (''customModelFallbacks'', JArr (map (\<lambda>r. JObj [(''model'', JStr (cf_model r)),
          (''fallbacks'', JArr (map JStr (cf_fallbacks r)))]) (fp_customModelFallbacks p))),
      (''retryOnTimeout'', JBool (fp_retryOnTimeout p)),
      (''retryOnNetworkError'', JBool (fp_retryOnNetworkError p)),
      (''retryOnStatusCodes'', JArr (map int_val (fp_retryOnStatusCodes p))),
      (''retryOnStatusRanges'', JArr (map (\<lambda>r. JStr ''5xx'') (fp_retryOnStatusRanges p)))]"

definition fetchGatewayFailoverPolicy :: HttpRequest where
  "fetchGatewayFailoverPolicy = get_json ''/__console/api/settings/failover''"

definition updateGatewayFailoverPolicy :: "GatewayFailoverPolicy \<Rightarrow> HttpRequest" where
  "updateGatewayFailoverPolicy payload =
     send_json ''PATCH'' ''/__console/api/settings/failover'' (policy_json payload)"

section \<open>Properties\<close>

text \<open>
  What a caller learns from an answer: the body exactly for a 2xx status with a
  readable body; otherwise an error, which is the session-ending \<open>unauthorized\<close> for every 401 and
  for no other answer unless the server's own error text is that word.
\<close>
theorem requestJson_outcome:
  "((\<exists>v. requestJson (Inr r) = Inr v) \<longleftrightarrow> resp_ok r \<and> (\<exists>v. resp_json r = Inr v)) \<and>
   (resp_status r = 401 \<longrightarrow> requestJson (Inr r) = Inl ''unauthorized'') \<and>
   (requestJson (Inr r) = Inl ''unauthorized'' \<longrightarrow>
     resp_status r = 401 \<or> resp_text r = ''unauthorized'' \<or> resp_json r = Inl ''unauthorized'' \<or>
     (\<exists>p. resp_json r = Inr p \<and> js_to_string (js_get p ''error'') = ''unauthorized''))"
proof -
  have "(\<exists>v. requestJson (Inr r) = Inr v) \<longleftrightarrow> resp_ok r \<and> (\<exists>v. resp_json r = Inr v)"
    by (auto simp: requestJson_def result_simps resp_ok_def Let_def)
  moreover have "resp_status r = 401 \<Longrightarrow> requestJson (Inr r) = Inl ''unauthorized''"
    by (simp add: requestJson_def throw_def)
  moreover have "requestJson (Inr r) = Inl ''unauthorized'' \<Longrightarrow>
     resp_status r = 401 \<or> resp_text r = ''unauthorized'' \<or> resp_json r = Inl ''unauthorized'' \<or>
     (\<exists>p. resp_json r = Inr p \<and> js_to_string (js_get p ''error'') = ''unauthorized'')"
    by (auto simp: requestJson_def result_simps error_of_payload_def null_error_read_def coalesce_def
        nullish_def Let_def split: if_splits sum.splits)
  ultimately show ?thesis by blast
qed

theorem requestJson_outcome_witness:
  "requestJson (Inr \<lparr>resp_status = 401, resp_contentType = None, resp_json = Inr JNull, resp_text = []\<rparr>)
     = Inl ''unauthorized''"
  using requestJson_outcome [of "\<lparr>resp_status = 401, resp_contentType = None,
      resp_json = Inr JNull, resp_text = []\<rparr>"]
  by simp

text \<open>
  The query of a page of requests carries exactly the limit, the offset and the
  filters that are set and not empty: the server, decoding it, reads back each value unchanged and
  no parameter that was not asked for, whatever characters the values hold.
\<close>
theorem fetchRequests_query:
  "params_get (parse_params (drop (length ''/__console/api/requests?'')
      (hr_url (fetchRequests limit offset fs sortBy sortOrder)))) k =
     (if k = ''limit'' then Some (int_str limit)
      else if k = ''offset'' then Some (int_str offset)
      else case map_of [(''route'', flt_route fs), (''model'', flt_model fs),
                 (''api_key_name'', flt_api_key_name fs), (''search'', flt_search fs),
                 (''status'', flt_status fs), (''cache'', flt_cache fs),
                 (''sort_by'', map_option sort_key_name sortBy),
                 (''sort_order'', map_option direction_name sortOrder)] k of
             Some (Some v) \<Rightarrow> (if v = [] then None else Some v)
           | _ \<Rightarrow> None)"
proof -
  have set_filter: "params_get (set_filter key v ps) k =
      (if k = key \<and> (\<exists>s. v = Some s \<and> s \<noteq> []) then v else params_get ps k)" for key v ps
    by (auto simp: set_filter_def params_set_def params_get_def js_collections split: option.splits)
  have url: "drop (length ''/__console/api/requests?'')
      (hr_url (fetchRequests limit offset fs sortBy sortOrder)) =
      params_string (request_params limit offset fs sortBy sortOrder)"
    by (simp add: fetchRequests_def get_json_def json_request_def)
  show ?thesis
    unfolding url parse_params_string request_params_def set_filter
    by (auto simp: params_set_def params_get_def js_collections split: option.splits)
qed

text \<open>
  The path segment of a channel is reversible: whatever its name, no character of it
  can end the segment or start a query or fragment, decoding the segment gives the name back, and
  two channels never share a URL, so an update or delete reaches the channel it names.
\<close>
theorem provider_url_faithful:
  "hr_url (deleteProvider ch) = ''/__console/api/providers/'' @ encodeURIComponent ch \<and>
   set (encodeURIComponent ch) \<inter> set ''/?#'' = {} \<and>
   percent_decode (encodeURIComponent ch) = Some ch \<and>
   (hr_url (deleteProvider ch) = hr_url (deleteProvider ch') \<longleftrightarrow> ch = ch') \<and>
   hr_url (updateProvider ch p) = hr_url (deleteProvider ch) \<and>
   hr_url (toggleProvider ch on) = hr_url (deleteProvider ch) @ ''/enabled''"
proof -
  have "set (encodeURIComponent ch) \<inter> set ''/?#'' = {}"
    using encodeURIComponent_safe [of "CHR ''/''" ch] encodeURIComponent_safe [of "CHR ''?''" ch]
      encodeURIComponent_safe [of "CHR ''#''" ch] by auto
  then show ?thesis
    by (simp add: deleteProvider_def updateProvider_def toggleProvider_def without_body_def
        send_json_def json_request_def provider_url_def)
qed

end
