(* ===== verification/Loaders.thy ===== *)
theory Loaders
  imports Api
begin

text \<open>
  The data hooks of the console: \<open>hooks/use-dashboard-data.ts\<close>, \<open>hooks/use-dashboard-stats.ts\<close>,
  \<open>hooks/use-usage-stats.ts\<close>, and the loader of \<open>components/detail-page.tsx\<close>. Each is an asynchronous
  function cut at its \<open>await\<close>: the first half numbers the call and returns what the second half closes
  over, the second half receives the answer. Answers arrive in any order. The contract the four share
  is the locale \<open>latest_wins\<close>, proved once and interpreted on every hook.
\<close>

section \<open>Calls in flight\<close>

datatype ('opt, 'reply, 'upd) event = Start 'opt | Settle nat 'reply | Local 'upd

text \<open>The hook's state with the calls in flight, oldest first; \<open>Settle i r\<close> answers the \<open>i\<close>-th.\<close>

fun net_step :: "('opt \<Rightarrow> 's \<Rightarrow> 's \<times> 'c) \<Rightarrow> ('c \<Rightarrow> 'reply \<Rightarrow> 's \<Rightarrow> 's) \<Rightarrow> ('upd \<Rightarrow> 's \<Rightarrow> 's) \<Rightarrow>
    ('opt, 'reply, 'upd) event \<Rightarrow> 's \<times> 'c list \<Rightarrow> 's \<times> 'c list" where
  "net_step begin_call settle upd (Start opt) (s, P) = (let (s', c) = begin_call opt s in (s', P @ [c]))"
| "net_step begin_call settle upd (Settle i r) (s, P) =
     (if i < length P then (settle (P ! i) r s, take i P @ drop (Suc i) P) else (s, P))"
| "net_step begin_call settle upd (Local a) (s, P) = (upd a s, P)"

definition net_run :: "('opt \<Rightarrow> 's \<Rightarrow> 's \<times> 'c) \<Rightarrow> ('c \<Rightarrow> 'reply \<Rightarrow> 's \<Rightarrow> 's) \<Rightarrow> ('upd \<Rightarrow> 's \<Rightarrow> 's) \<Rightarrow>
    ('opt, 'reply, 'upd) event list \<Rightarrow> 's \<times> 'c list \<Rightarrow> 's \<times> 'c list" where
  "net_run begin_call settle upd es n = fold (net_step begin_call settle upd) es n"

definition settle_all :: "('c \<Rightarrow> 'reply \<Rightarrow> 's \<Rightarrow> 's) \<Rightarrow> ('c \<times> 'reply) list \<Rightarrow> 's \<Rightarrow> 's" where
  "settle_all settle answers s = fold (\<lambda>(c, r). settle c r) answers s"

lemma set_remove_nth: "i < length P \<Longrightarrow> insert (P ! i) (set (take i P @ drop (Suc i) P)) = set P"
  by (metis append_Cons id_take_nth_drop list.simps(15) set_append Un_insert_right)

lemma distinct_map_remove_nth:
  assumes "i < length P" and "distinct (map f P)"
  shows "distinct (map f (take i P @ drop (Suc i) P))"
    and "x \<in> set (take i P @ drop (Suc i) P) \<Longrightarrow> f x \<noteq> f (P ! i)"
proof -
  have P: "P = take i P @ P ! i # drop (Suc i) P"
    using assms(1) by (rule id_take_nth_drop)
  from assms(2) have d: "distinct (map f (take i P @ P ! i # drop (Suc i) P))"
    using P by simp
  then show "distinct (map f (take i P @ drop (Suc i) P))"
    by (simp add: image_iff)
  show "x \<in> set (take i P @ drop (Suc i) P) \<Longrightarrow> f x \<noteq> f (P ! i)"
    using d by (auto simp: image_iff)
qed

section \<open>The newest call wins\<close>

text \<open>
  \<open>cur\<close> is \<open>loadIdRef.current\<close>, \<open>view\<close> what a successful answer replaces, \<open>answer\<close> how an
  answer in turn changes it, \<open>busy\<close> whether a spinner shows.
\<close>

locale latest_wins =
  fixes cur :: "'s \<Rightarrow> nat"
    and begin_call :: "'opt \<Rightarrow> 's \<Rightarrow> 's \<times> 'c"
    and call_id :: "'c \<Rightarrow> nat"
    and settle :: "'c \<Rightarrow> 'reply \<Rightarrow> 's \<Rightarrow> 's"
    and upd :: "'upd \<Rightarrow> 's \<Rightarrow> 's"
    and view :: "'s \<Rightarrow> 'v"
    and answer :: "'c \<Rightarrow> 'reply \<Rightarrow> 'v \<Rightarrow> 'v"
    and busy :: "'s \<Rightarrow> bool"
  assumes begin_id: "call_id (snd (begin_call opt s)) = Suc (cur s)"
    and begin_cur: "cur (fst (begin_call opt s)) = Suc (cur s)"
    and begin_view: "view (fst (begin_call opt s)) = view s"
    and settle_cur: "cur (settle c r s) = cur s"
    and settle_stale: "call_id c \<noteq> cur s \<Longrightarrow> settle c r s = s"
    and settle_view: "call_id c = cur s \<Longrightarrow> view (settle c r s) = answer c r (view s)"
    and settle_idle: "call_id c = cur s \<Longrightarrow> \<not> busy (settle c r s)"
    and upd_cur: "cur (upd a s) = cur s"
    and upd_view: "view (upd a s) = view s"
    and upd_busy: "busy (upd a s) = busy s"
begin

definition sound_net :: "'s \<times> 'c list \<Rightarrow> bool" where
  "sound_net n \<longleftrightarrow>
     distinct (map call_id (snd n)) \<and> (\<forall>c \<in> set (snd n). call_id c \<le> cur (fst n)) \<and>
     (0 < cur (fst n) \<and> busy (fst n) \<longrightarrow> cur (fst n) \<in> call_id ` set (snd n))"

lemma sound_net_start:
  assumes "sound_net (s, P)"
  shows "sound_net (net_step begin_call settle upd (Start opt) (s, P))"
proof -
  obtain s' c where b: "begin_call opt s = (s', c)" by (cases "begin_call opt s")
  have "call_id c = Suc (cur s)" "cur s' = Suc (cur s)"
    using begin_id [of opt s] begin_cur [of opt s] b by simp_all
  then show ?thesis using assms b by (auto simp: sound_net_def)
qed

lemma sound_net_settle:
  assumes "sound_net (s, P)"
  shows "sound_net (net_step begin_call settle upd (Settle i r) (s, P))"
proof (cases "i < length P")
  case True
  let ?Q = "take i P @ drop (Suc i) P"
  have P: "set P = insert (P ! i) (set ?Q)" using set_remove_nth [OF True] by simp
  have d: "distinct (map call_id ?Q)"
    using distinct_map_remove_nth(1) [OF True] assms by (auto simp: sound_net_def)
  have le: "\<forall>c \<in> set ?Q. call_id c \<le> cur s"
    using assms P by (auto simp: sound_net_def)
  show ?thesis
  proof (cases "call_id (P ! i) = cur s")
    case True
    then show ?thesis using d le \<open>i < length P\<close>
      by (simp add: sound_net_def settle_cur settle_idle)
  next
    case False
    then have "0 < cur s \<and> busy s \<longrightarrow> cur s \<in> call_id ` set ?Q"
      using assms P by (auto simp: sound_net_def)
    then show ?thesis using d le False \<open>i < length P\<close>
      by (simp add: sound_net_def settle_stale)
  qed
qed (use assms in simp)

lemma sound_net_step: "sound_net n \<Longrightarrow> sound_net (net_step begin_call settle upd e n)"
  by (cases e; cases n)
    (simp_all only: sound_net_start sound_net_settle,
      simp add: sound_net_def upd_cur upd_busy)

lemma sound_net_run: "sound_net n \<Longrightarrow> sound_net (net_run begin_call settle upd es n)"
  unfolding net_run_def by (induction es arbitrary: n) (simp_all add: sound_net_step)

lemma sound_net_initial: "cur s = 0 \<Longrightarrow> sound_net (s, [])"
  by (simp add: sound_net_def)

text \<open>No spinner outlives the calls.\<close>

lemma idle_when_settled:
  assumes "cur s0 = 0" and "net_run begin_call settle upd es (s0, []) = (s, [])" and "0 < cur s"
  shows "\<not> busy s"
  using sound_net_run [OF sound_net_initial [OF assms(1)], of es] assms(2,3)
  by (simp add: sound_net_def)

lemma distinct_calls:
  assumes "cur s0 = 0" and "net_run begin_call settle upd es (s0, []) = (s, P)"
  shows "distinct (map call_id P)" and "c \<in> set P \<Longrightarrow> call_id c \<le> cur s"
  using sound_net_run [OF sound_net_initial [OF assms(1)], of es] assms(2)
  by (auto simp: sound_net_def)

text \<open>Of the answers to calls in flight only the newest call's counts.\<close>

lemma settle_all_stale:
  assumes "\<forall>(c, r) \<in> set xs. call_id c \<noteq> cur s"
  shows "settle_all settle xs s = s"
  using assms unfolding settle_all_def
  by (induction xs) (auto simp: settle_stale)

lemma settle_all_cur: "cur (settle_all settle xs s) = cur s"
  unfolding settle_all_def by (induction xs arbitrary: s) (auto simp: settle_cur)

lemma settle_all_current:
  assumes "distinct (map (\<lambda>(c, r). call_id c) xs)" and "(c, r) \<in> set xs" and "call_id c = cur s"
  shows "settle_all settle xs s = settle c r s"
proof -
  obtain ys zs where xs: "xs = ys @ (c, r) # zs"
    using split_list [OF assms(2)] by blast
  have "\<forall>(d, q) \<in> set ys. call_id d \<noteq> cur s" "\<forall>(d, q) \<in> set zs. call_id d \<noteq> cur (settle c r s)"
    using assms(1,3) by (auto simp: xs settle_cur image_iff split: prod.splits)
  then have "settle_all settle ys s = s" "settle_all settle zs (settle c r s) = settle c r s"
    by (simp_all add: settle_all_stale)
  then show ?thesis by (simp add: xs settle_all_def)
qed

lemma settle_order_irrelevant:
  assumes "mset xs = mset ys" and "distinct (map (\<lambda>(c, r). call_id c) xs)"
  shows "settle_all settle xs s = settle_all settle ys s"
proof -
  have set: "set xs = set ys" using assms(1) by (metis set_mset_mset)
  have dys: "distinct (map (\<lambda>(c, r). call_id c) ys)"
    using assms by (metis mset_map mset_eq_imp_distinct_iff)
  show ?thesis
  proof (cases "\<exists>(c, r) \<in> set xs. call_id c = cur s")
    case True
    then obtain c r where "(c, r) \<in> set xs" "call_id c = cur s" by auto
    then show ?thesis
      using settle_all_current [OF assms(2)] settle_all_current [OF dys] set by metis
  next
    case False
    then have "\<forall>(c, r) \<in> set xs. call_id c \<noteq> cur s" "\<forall>(c, r) \<in> set ys. call_id c \<noteq> cur s"
      using set by auto
    then show ?thesis by (simp add: settle_all_stale)
  qed
qed

lemma call_ids_of_answers:
  assumes "sound_net (s, P)" and "distinct (map fst xs)" and "fst ` set xs \<subseteq> set P"
  shows "distinct (map (\<lambda>(c, r). call_id c) xs)"
proof -
  have "inj_on call_id (fst ` set xs)"
    using assms(1,3) by (auto simp: sound_net_def distinct_map intro: inj_on_subset)
  then have "distinct (map call_id (map fst xs))"
    using assms(2) by (simp add: distinct_map comp_inj_on)
  then show ?thesis by (simp add: comp_def case_prod_unfold)
qed

lemma answers_in_flight:
  assumes "cur s0 = 0" and "net_run begin_call settle upd es (s0, []) = (s, P)"
    and "distinct (map fst xs)" and "fst ` set xs \<subseteq> set P" and "mset xs = mset ys"
  shows "settle_all settle xs s = settle_all settle ys s"
    and "(c, r) \<in> set xs \<Longrightarrow> call_id c = cur s \<Longrightarrow> settle_all settle ys s = settle c r s"
proof -
  have "sound_net (s, P)"
    using sound_net_run [OF sound_net_initial [OF assms(1)], of es] assms(2) by simp
  note d = call_ids_of_answers [OF this assms(3,4)]
  show eq: "settle_all settle xs s = settle_all settle ys s"
    by (rule settle_order_irrelevant [OF assms(5) d])
  show "(c, r) \<in> set xs \<Longrightarrow> call_id c = cur s \<Longrightarrow> settle_all settle ys s = settle c r s"
    using settle_all_current [OF d] eq by metis
qed

text \<open>
  A poll that starts before the previous call is answered makes that answer stale: if every answer
  arrives after the next poll, nothing is ever shown.
\<close>

lemma polling_starves_step:
  assumes "P \<noteq> []" and "call_id (hd P) \<le> cur s" and "length P = 1"
  shows "\<exists>s' c. net_run begin_call settle upd [Start opt, Settle 0 r] (s, P) = (s', [c]) \<and>
      view s' = view s \<and> call_id c = cur s'"
proof -
  obtain d where P: "P = [d]" using assms(3) by (cases P) auto
  obtain s1 c where b: "begin_call opt s = (s1, c)" by (cases "begin_call opt s")
  have "call_id d \<noteq> cur s1" using assms(2) P b begin_cur [of opt s] by simp
  then show ?thesis
    using b P begin_id [of opt s] begin_cur [of opt s] begin_view [of opt s]
    by (simp add: net_run_def settle_stale)
qed

lemma polling_starves:
  assumes "call_id c0 = cur s"
  shows "\<exists>s' c. net_run begin_call settle upd
      (concat (map (\<lambda>r. [Start opt, Settle 0 r]) rs)) (s, [c0]) = (s', [c]) \<and>
      view s' = view s \<and> call_id c = cur s'"
  using assms
proof (induction rs arbitrary: s c0)
  case Nil
  then show ?case by (simp add: net_run_def)
next
  case (Cons r rs)
  obtain s1 c1 where 1: "net_run begin_call settle upd [Start opt, Settle 0 r] (s, [c0]) = (s1, [c1])"
    "view s1 = view s" "call_id c1 = cur s1"
    using polling_starves_step [of "[c0]" s opt r] Cons.prems by auto
  then show ?case
    using Cons.IH [OF 1(3)] by (simp add: net_run_def)
qed

end

section \<open>useDashboardData: a page of the request log\<close>

record FilterOptions =
  fop_routes :: "string list option"
  fop_models :: "string list option"
  fop_clients :: "ConsoleUsageFilterOption list option"

text \<open>
  The hook's \<open>useState\<close> values, then its refs. \<open>dd_unauthorized\<close> counts the calls of
  \<open>onUnauthorized\<close> and \<open>dd_console\<close> is the output of \<open>console.error\<close>.
\<close>

record DashboardData =
  dd_requests :: "ConsoleRequestListItem list"
  dd_loading :: bool
  dd_refreshing :: bool
  dd_total :: int
  dd_limit :: int
  dd_offset :: int
  dd_sortBy :: RequestSortKey
  dd_sortOrder :: SortDirection
  dd_filterOptions :: FilterOptions
  dd_loadId :: nat
  dd_limitRef :: int
  dd_offsetRef :: int
  dd_sortByRef :: RequestSortKey
  dd_sortOrderRef :: SortDirection
  dd_latestFilters :: RequestFilters
  dd_unauthorized :: nat
  dd_console :: "string list"

definition dashboard_data_init :: DashboardData where
  "dashboard_data_init =
     \<lparr>dd_requests = [], dd_loading = True, dd_refreshing = False, dd_total = 0,
      dd_limit = DEFAULT_REQUEST_LIMIT, dd_offset = DEFAULT_REQUEST_OFFSET,
      dd_sortBy = Created_at, dd_sortOrder = Desc,
      dd_filterOptions = \<lparr>fop_routes = Some [], fop_models = Some [], fop_clients = Some []\<rparr>,
      dd_loadId = 0, dd_limitRef = DEFAULT_REQUEST_LIMIT, dd_offsetRef = DEFAULT_REQUEST_OFFSET,
      dd_sortByRef = Created_at, dd_sortOrderRef = Desc, dd_latestFilters = no_filters,
      dd_unauthorized = 0, dd_console = []\<rparr>"

text \<open>Rendering copies the state into the refs the stable callback reads.\<close>

definition dashboard_data_render :: "DashboardData \<Rightarrow> DashboardData" where
  "dashboard_data_render s =
     s\<lparr>dd_limitRef := dd_limit s, dd_offsetRef := dd_offset s,
       dd_sortByRef := dd_sortBy s, dd_sortOrderRef := dd_sortOrder s\<rparr>"

text \<open>
  The options of \<open>refreshDashboard\<close>. \<open>ro_filters\<close> is \<open>None\<close> when \<open>'filters' in options\<close> fails,
  \<open>Some None\<close> when the key is there with the value \<open>undefined\<close>.
\<close>

record RefreshOptions =
  ro_silent :: "bool option"
  ro_limit :: "int option"
  ro_offset :: "int option"
  ro_filters :: "RequestFilters option option"
  ro_sortBy :: "RequestSortKey option"
  ro_sortOrder :: "SortDirection option"

definition no_options :: RefreshOptions where
  "no_options = \<lparr>ro_silent = None, ro_limit = None, ro_offset = None, ro_filters = None,
                 ro_sortBy = None, ro_sortOrder = None\<rparr>"

definition coalesce_opt :: "'a option \<Rightarrow> 'a \<Rightarrow> 'a" where
  \<comment> \<open>\<open>x ?? d\<close>\<close>
  "coalesce_opt x d = (case x of None \<Rightarrow> d | Some y \<Rightarrow> y)"

lemma coalesce_opt_simps [simp]: "coalesce_opt None d = d" "coalesce_opt (Some y) d = y"
  by (simp_all add: coalesce_opt_def)

text \<open>What the second half of a call closes over.\<close>

record DashboardCall =
  dc_loadId :: nat
  dc_silent :: bool
  dc_limit :: int
  dc_offset :: int
  dc_filters :: RequestFilters
  dc_sortBy :: RequestSortKey
  dc_sortOrder :: SortDirection

definition refreshDashboard :: "RefreshOptions \<Rightarrow> DashboardData \<Rightarrow> DashboardData \<times> DashboardCall" where
  "refreshDashboard opt s =
     (let loadId = Suc (dd_loadId s);
          silent = coalesce_opt (ro_silent opt) False;
          c = \<lparr>dc_loadId = loadId, dc_silent = silent,
               dc_limit = coalesce_opt (ro_limit opt) (dd_limitRef s),
               dc_offset = coalesce_opt (ro_offset opt) (dd_offsetRef s),
               dc_filters = (case ro_filters opt of
                   Some fs \<Rightarrow> coalesce_opt fs no_filters | None \<Rightarrow> dd_latestFilters s),
               dc_sortBy = coalesce_opt (ro_sortBy opt) (dd_sortByRef s),
               dc_sortOrder = coalesce_opt (ro_sortOrder opt) (dd_sortOrderRef s)\<rparr>;
          s1 = s\<lparr>dd_loadId := loadId\<rparr>;
          s2 = (if silent then s1 else s1\<lparr>dd_refreshing := True\<rparr>)
      in (case ro_filters opt of
            Some fs \<Rightarrow> s2\<lparr>dd_latestFilters := coalesce_opt fs no_filters\<rparr>
          | None \<Rightarrow> s2, c))"

definition dashboard_call_request :: "DashboardCall \<Rightarrow> HttpRequest" where
  "dashboard_call_request c =
     fetchRequests (dc_limit c) (dc_offset c) (dc_filters c) (Some (dc_sortBy c)) (Some (dc_sortOrder c))"

definition dashboard_settled :: "DashboardCall \<Rightarrow> ConsoleRequestListPayload result \<Rightarrow> DashboardData \<Rightarrow> DashboardData" where
  "dashboard_settled c r s =
     (if dc_loadId c \<noteq> dd_loadId s then s
      else (case r of
          Inr d \<Rightarrow>
            s\<lparr>dd_requests := coalesce_opt (rl_requests d) [], dd_total := coalesce_opt (rl_total d) 0,
              dd_limit := dc_limit c, dd_offset := dc_offset c,
              dd_sortBy := dc_sortBy c, dd_sortOrder := dc_sortOrder c\<rparr>
        | Inl message \<Rightarrow>
            if message = ''unauthorized'' then s\<lparr>dd_unauthorized := dd_unauthorized s + 1\<rparr>
            else if \<not> dc_silent c then
              s\<lparr>dd_console := dd_console s @ [''Dashboard data error: '' @ message]\<rparr>
            else s)\<lparr>dd_loading := False, dd_refreshing := False\<rparr>)"

definition loadFilterOptions :: "FilterOptions result \<Rightarrow> DashboardData \<Rightarrow> DashboardData" where
  "loadFilterOptions r s =
     (case r of
        Inr d \<Rightarrow> s\<lparr>dd_filterOptions := \<lparr>fop_routes = Some (coalesce_opt (fop_routes d) []),
            fop_models = Some (coalesce_opt (fop_models d) []),
            fop_clients = Some (coalesce_opt (fop_clients d) [])\<rparr>\<rparr>
      | Inl message \<Rightarrow>
          if message = ''unauthorized'' then s\<lparr>dd_unauthorized := dd_unauthorized s + 1\<rparr> else s)"

datatype DashboardUpdate = Render | FilterOptionsLoaded "FilterOptions result"

fun dashboard_update :: "DashboardUpdate \<Rightarrow> DashboardData \<Rightarrow> DashboardData" where
  "dashboard_update Render s = dashboard_data_render s"
| "dashboard_update (FilterOptionsLoaded r) s = loadFilterOptions r s"

definition dashboard_run where
  "dashboard_run = net_run refreshDashboard dashboard_settled dashboard_update"

text \<open>The rows shown and the page they are: what one successful answer replaces as a whole.\<close>

definition shown_page ::
    "DashboardData \<Rightarrow> ConsoleRequestListItem list \<times> int \<times> int \<times> int \<times> RequestSortKey \<times> SortDirection" where
  "shown_page s = (dd_requests s, dd_total s, dd_limit s, dd_offset s, dd_sortBy s, dd_sortOrder s)"

definition answered_page where
  "answered_page c r v =
     (case r of
        Inr d \<Rightarrow> (coalesce_opt (rl_requests d) [], coalesce_opt (rl_total d) 0,
                 dc_limit c, dc_offset c, dc_sortBy c, dc_sortOrder c)
      | Inl _ \<Rightarrow> v)"

interpretation dd: latest_wins dd_loadId refreshDashboard dc_loadId dashboard_settled dashboard_update
    shown_page answered_page "\<lambda>s. dd_loading s \<or> dd_refreshing s"
proof unfold_locales
  fix upd s
  show "dd_loadId (dashboard_update upd s) = dd_loadId s"
    by (cases upd) (auto simp: dashboard_data_render_def loadFilterOptions_def split: sum.splits)
  show "shown_page (dashboard_update upd s) = shown_page s"
    by (cases upd) (auto simp: dashboard_data_render_def loadFilterOptions_def shown_page_def
        split: sum.splits)
  show "(dd_loading (dashboard_update upd s) \<or> dd_refreshing (dashboard_update upd s)) =
      (dd_loading s \<or> dd_refreshing s)"
    by (cases upd) (auto simp: dashboard_data_render_def loadFilterOptions_def split: sum.splits)
qed (auto simp: refreshDashboard_def dashboard_settled_def shown_page_def answered_page_def Let_def
    split: option.splits sum.splits)

text \<open>
  The spinners of the request log end: in every run of refreshes, answers in any order,
  failures and renders, once no request is in flight and at least one was made, neither \<open>loading\<close>
  nor \<open>refreshing\<close> is set.
\<close>
theorem dashboard_spinners_end:
  assumes "dashboard_run es (dashboard_data_init, []) = (s, [])" and "0 < dd_loadId s"
  shows "\<not> dd_loading s \<and> \<not> dd_refreshing s"
  using dd.idle_when_settled [of dashboard_data_init es s] assms
  by (simp add: dashboard_run_def dashboard_data_init_def)

theorem dashboard_spinners_end_witness:
  "let s = fst (dashboard_run [Start no_options, Start no_options, Settle 1 (Inl ''down''), Settle 0 (Inl ''down'')]
       (dashboard_data_init, []))
   in \<not> dd_loading s \<and> \<not> dd_refreshing s"
proof -
  define es :: "(RefreshOptions, ConsoleRequestListPayload result, DashboardUpdate) event list" where
    "es = [Start no_options, Start no_options, Settle 1 (Inl ''down''), Settle 0 (Inl ''down'')]"
  obtain s P where r: "dashboard_run es (dashboard_data_init, []) = (s, P)"
    by (cases "dashboard_run es (dashboard_data_init, [])")
  then have "P = []" and "dd_loadId s = 2"
    by (auto simp: es_def dashboard_run_def net_run_def refreshDashboard_def dashboard_settled_def
        no_options_def dashboard_data_init_def Let_def)
  then show ?thesis
    using dashboard_spinners_end [of es s] r by (simp add: es_def Let_def)
qed

text \<open>
  Property C9. The request log shows the page last asked for. Whatever the run so far and whatever
  the order in which the calls in flight are answered, the resulting state is the same; and when the
  newest call is among the answered ones and succeeded, the rows, the total and the page, sort column
  and direction displayed next to them are those of that call, never a mixture with an older answer.
\<close>
theorem dashboard_shows_newest:
  assumes "dashboard_run es (dashboard_data_init, []) = (s, P)"
    and "distinct (map fst xs)" and "fst ` set xs \<subseteq> set P" and "mset xs = mset ys"
    and "(c, Inr d) \<in> set xs" and "dc_loadId c = dd_loadId s"
  shows "settle_all dashboard_settled xs s = settle_all dashboard_settled ys s \<and>
    shown_page (settle_all dashboard_settled ys s) =
      (coalesce_opt (rl_requests d) [], coalesce_opt (rl_total d) 0,
       dc_limit c, dc_offset c, dc_sortBy c, dc_sortOrder c)"
proof -
  have init: "dd_loadId dashboard_data_init = 0" by (simp add: dashboard_data_init_def)
  have run: "net_run refreshDashboard dashboard_settled dashboard_update es (dashboard_data_init, []) = (s, P)"
    using assms(1) by (simp add: dashboard_run_def)
  note flight = dd.answers_in_flight [OF init run assms(2,3,4)]
  have "settle_all dashboard_settled ys s = dashboard_settled c (Inr d) s"
    by (rule flight(2) [OF assms(5,6)])
  then show ?thesis
    using flight(1) dd.settle_view [of c s "Inr d"] assms(6)
    by (simp add: answered_page_def)
qed

definition page_two :: RefreshOptions where
  "page_two = no_options\<lparr>ro_offset := Some 50\<rparr>"

definition two_rows :: ConsoleRequestListPayload where
  "two_rows = \<lparr>rl_requests = None, rl_total = Some 52, rl_offset = None\<rparr>"

theorem dashboard_shows_newest_witness:
  "\<exists>s c1 c2. dashboard_run [Start no_options, Start page_two] (dashboard_data_init, []) = (s, [c1, c2]) \<and>
     shown_page (settle_all dashboard_settled [(c2, Inr two_rows), (c1, Inl ''slow'')] s) =
       ([], 52, 50, 50, Created_at, Desc)"
proof -
  obtain s c1 c2 where r: "dashboard_run [Start no_options, Start page_two] (dashboard_data_init, []) = (s, [c1, c2])"
    and c: "dc_loadId c1 = 1" "dc_loadId c2 = 2" "dd_loadId s = 2"
      "dc_limit c2 = 50" "dc_offset c2 = 50" "dc_sortBy c2 = Created_at" "dc_sortOrder c2 = Desc"
    by (auto simp: dashboard_run_def net_run_def refreshDashboard_def no_options_def page_two_def
        dashboard_data_init_def DEFAULT_REQUEST_LIMIT_def Let_def)
  have "c1 \<noteq> c2" using c by auto
  then have "shown_page (settle_all dashboard_settled [(c2, Inr two_rows), (c1, Inl ''slow'')] s) =
      ([], 52, 50, 50, Created_at, Desc)"
    using dashboard_shows_newest [of "[Start no_options, Start page_two]" s "[c1, c2]"
        "[(c1, Inl ''slow''), (c2, Inr two_rows)]" "[(c2, Inr two_rows), (c1, Inl ''slow'')]" c2 two_rows] r c
    by (simp add: two_rows_def add_mset_commute)
  then show ?thesis using r by blast
qed

text \<open>The filters a refresh without \<open>filters\<close> reuses.\<close>

fun filters_after :: "RequestFilters \<Rightarrow> (RefreshOptions, 'r, 'u) event list \<Rightarrow> RequestFilters" where
  "filters_after fs [] = fs"
| "filters_after fs (Start opt # es) =
     filters_after (case ro_filters opt of None \<Rightarrow> fs | Some g \<Rightarrow> coalesce_opt g no_filters) es"
| "filters_after fs (e # es) = filters_after fs es"

lemma latest_filters_step:
  "dd_latestFilters (fst (net_step refreshDashboard dashboard_settled dashboard_update e (s, P))) =
     filters_after (dd_latestFilters s) [e]"
proof (cases e)
  case (Local u)
  then show ?thesis
    by (cases u) (auto simp: dashboard_data_render_def loadFilterOptions_def split: sum.splits)
qed (auto simp: refreshDashboard_def dashboard_settled_def Let_def split: option.splits sum.splits)

lemma filters_after_Cons: "filters_after fs (e # es) = filters_after (filters_after fs [e]) es"
  by (cases e) simp_all

lemma filters_after_append:
  "filters_after fs (es @ [Start opt]) =
     (case ro_filters opt of None \<Rightarrow> filters_after fs es | Some g \<Rightarrow> coalesce_opt g no_filters)"
  by (induction fs es rule: filters_after.induct) (simp_all split: option.split)

lemma latest_filters_run:
  "dd_latestFilters (fst (dashboard_run es n)) = filters_after (dd_latestFilters (fst n)) es"
proof (induction es arbitrary: n)
  case Nil
  then show ?case by (simp add: dashboard_run_def net_run_def)
next
  case (Cons e es)
  have "dashboard_run (e # es) n =
      dashboard_run es (net_step refreshDashboard dashboard_settled dashboard_update e n)"
    by (simp add: dashboard_run_def net_run_def)
  then show ?case
    using Cons.IH latest_filters_step [of e "fst n" "snd n"] filters_after_Cons [of _ e es] by simp
qed

text \<open>
  Filters stick: after any run, the request a refresh sends carries the filters this
  refresh names, or else those of the last refresh that named any (none at all, if none did),
  whether or not that earlier refresh was answered, superseded or failed.
\<close>
theorem dashboard_filters_stick:
  "dc_filters (snd (refreshDashboard opt (fst (dashboard_run es (dashboard_data_init, []))))) =
     filters_after no_filters (es @ [Start opt])"
proof -
  have "dd_latestFilters (fst (dashboard_run es (dashboard_data_init, []))) = filters_after no_filters es"
    by (simp add: latest_filters_run dashboard_data_init_def)
  then show ?thesis
    by (auto simp: filters_after_append refreshDashboard_def Let_def split: option.splits)
qed

section \<open>useUsageStats: filtered statistics with polling\<close>

datatype UsageRange = Range_1h | Range_24h | Range_72h | Range_7d | Range_30d | Range_all

fun range_name :: "UsageRange \<Rightarrow> string" where
  "range_name Range_1h = ''1h''"
| "range_name Range_24h = ''24h''"
| "range_name Range_72h = ''72h''"
| "range_name Range_7d = ''7d''"
| "range_name Range_30d = ''30d''"
| "range_name Range_all = ''all''"

definition no_stats :: ConsoleStats where
  "no_stats = \<lparr>st_routes = [], st_models = [], st_clients = []\<rparr>"

definition no_usage_filters :: ConsoleUsageFilters where
  "no_usage_filters = \<lparr>uf_routes = [], uf_models = [], uf_clients = []\<rparr>"

record UsageFilterState =
  uff_route :: string
  uff_model :: string
  uff_client :: string
  uff_range :: UsageRange

definition usage_query :: "UsageFilterState \<Rightarrow> params" where
  "usage_query f =
     (let q1 = set_filter ''route'' (Some (uff_route f)) [];
          q2 = set_filter ''model'' (Some (uff_model f)) q1;
          q3 = set_filter ''client'' (Some (uff_client f)) q2
      in if uff_range f \<noteq> Range_all then params_set ''range'' (range_name (uff_range f)) q3 else q3)"

record UsageShown =
  ush_overview :: "ConsoleUsageOverview option"
  ush_stats :: ConsoleStats
  ush_filters :: ConsoleUsageFilters
  ush_timeseries :: "ConsoleUsageTimeSeriesPoint list"
  ush_loading :: bool
  ush_unauthorized :: nat
  ush_console :: "string list"

record UsageStats =
  us_shown :: UsageShown
  us_filter :: UsageFilterState
  us_loadId :: nat

record UsageCall =
  uc_loadId :: nat
  uc_silent :: bool
  uc_query :: params

definition usage_stats_init :: "string option \<Rightarrow> UsageStats" where
  "usage_stats_init initialClientFilter =
     \<lparr>us_shown = \<lparr>ush_overview = None, ush_stats = no_stats, ush_filters = no_usage_filters,
        ush_timeseries = [], ush_loading = True, ush_unauthorized = 0, ush_console = []\<rparr>,
      us_filter = \<lparr>uff_route = [], uff_model = [],
        uff_client = coalesce_opt initialClientFilter [], uff_range = Range_24h\<rparr>,
      us_loadId = 0\<rparr>"

definition usage_refresh :: "bool option \<Rightarrow> UsageStats \<Rightarrow> UsageStats \<times> UsageCall" where
  "usage_refresh silent s =
     (let loadId = Suc (us_loadId s)
      in (s\<lparr>us_loadId := loadId\<rparr>,
          \<lparr>uc_loadId = loadId, uc_silent = coalesce_opt silent False, uc_query = usage_query (us_filter s)\<rparr>))"

definition usage_answer :: "UsageCall \<Rightarrow> ConsoleUsageStatsPayload result \<Rightarrow> UsageShown \<Rightarrow> UsageShown" where
  "usage_answer c r v =
     (case r of
        Inr d \<Rightarrow> v\<lparr>ush_overview := usp_overview d, ush_stats := coalesce_opt (usp_stats d) no_stats,
            ush_filters := coalesce_opt (usp_filters d) no_usage_filters,
            ush_timeseries := coalesce_opt (usp_timeseries d) []\<rparr>
      | Inl message \<Rightarrow>
          if message = ''unauthorized'' then v\<lparr>ush_unauthorized := ush_unauthorized v + 1\<rparr>
          else if \<not> uc_silent c then v\<lparr>ush_console := ush_console v @ [''Usage stats error: '' @ message]\<rparr>
          else v)\<lparr>ush_loading := False\<rparr>"

definition usage_settled :: "UsageCall \<Rightarrow> ConsoleUsageStatsPayload result \<Rightarrow> UsageStats \<Rightarrow> UsageStats" where
  "usage_settled c r s =
     (if uc_loadId c \<noteq> us_loadId s then s else s\<lparr>us_shown := usage_answer c r (us_shown s)\<rparr>)"

text \<open>The setters the hook returns, and the effect that follows \<open>options.initialClientFilter\<close>.\<close>

datatype UsageFilterChange =
  setRouteFilter string | setModelFilter string | setClientFilter string | setRangeFilter UsageRange

fun change_filter :: "UsageFilterChange \<Rightarrow> UsageFilterState \<Rightarrow> UsageFilterState" where
  "change_filter (setRouteFilter v) f = f\<lparr>uff_route := v\<rparr>"
| "change_filter (setModelFilter v) f = f\<lparr>uff_model := v\<rparr>"
| "change_filter (setClientFilter v) f = f\<lparr>uff_client := v\<rparr>"
| "change_filter (setRangeFilter v) f = f\<lparr>uff_range := v\<rparr>"

definition usage_update :: "UsageFilterChange \<Rightarrow> UsageStats \<Rightarrow> UsageStats" where
  "usage_update ch s = s\<lparr>us_filter := change_filter ch (us_filter s)\<rparr>"

definition usage_run where
  "usage_run = net_run usage_refresh usage_settled usage_update"

interpretation us: latest_wins us_loadId usage_refresh uc_loadId usage_settled usage_update
    us_shown usage_answer "\<lambda>s. ush_loading (us_shown s)"
  by unfold_locales
    (auto simp: usage_refresh_def usage_settled_def usage_update_def usage_answer_def Let_def
      split: sum.splits)

text \<open>
  What the hook does on an event of the page: the mount effect and the 5 s timer refresh; a filter that
  really changes makes a new \<open>refresh\<close>, whose effect calls it.
\<close>

datatype UsageAction =
    Mount
  | Poll
  | ChangeFilter UsageFilterChange
  | Answer nat "ConsoleUsageStatsPayload result"

definition usage_events ::
    "UsageAction \<Rightarrow> UsageStats \<Rightarrow> (bool option, ConsoleUsageStatsPayload result, UsageFilterChange) event list" where
  "usage_events a s =
     (case a of
        Mount \<Rightarrow> [Start None]
      | Poll \<Rightarrow> [Start (Some True)]
      | ChangeFilter ch \<Rightarrow>
          if change_filter ch (us_filter s) = us_filter s then [Local ch] else [Local ch, Start None]
      | Answer i r \<Rightarrow> [Settle i r])"

definition usage_action :: "UsageAction \<Rightarrow> UsageStats \<times> UsageCall list \<Rightarrow> UsageStats \<times> UsageCall list" where
  "usage_action a n = usage_run (usage_events a (fst n)) n"

definition usage_page :: "string option \<Rightarrow> UsageAction list \<Rightarrow> UsageStats \<times> UsageCall list" where
  "usage_page client as = fold usage_action as (usage_action Mount (usage_stats_init client, []))"

text \<open>The newest call asks for the filters selected now.\<close>

definition usage_current :: "UsageStats \<times> UsageCall list \<Rightarrow> bool" where
  "usage_current n \<longleftrightarrow> us.sound_net n \<and>
     (\<forall>c \<in> set (snd n). uc_loadId c = us_loadId (fst n) \<longrightarrow> uc_query c = usage_query (us_filter (fst n)))"

lemma usage_current_start:
  assumes "us.sound_net (s, P)"
  shows "usage_current (net_step usage_refresh usage_settled usage_update (Start opt) (s, P))"
  using us.sound_net_start [OF assms, of opt] assms
  by (auto simp: usage_current_def us.sound_net_def usage_refresh_def Let_def)

lemma usage_current_settle:
  assumes "usage_current (s, P)"
  shows "usage_current (net_step usage_refresh usage_settled usage_update (Settle i r) (s, P))"
  using us.sound_net_settle [of s P i r] assms set_remove_nth [of i P]
  by (auto simp: usage_current_def usage_settled_def)

lemma usage_current_action:
  assumes "usage_current n"
  shows "usage_current (usage_action a n)"
proof -
  obtain s P where n: "n = (s, P)" by (cases n)
  have sound: "us.sound_net (s, P)" using assms n by (simp add: usage_current_def)
  show ?thesis
  proof (cases a)
    case (ChangeFilter ch)
    have "us.sound_net (usage_update ch s, P)"
      using us.sound_net_step [OF sound, of "Local ch"] by simp
    then show ?thesis
      using usage_current_start [of "usage_update ch s" P None] assms n ChangeFilter
      by (auto simp: usage_action_def usage_events_def usage_run_def net_run_def usage_update_def)
  qed (use usage_current_start [OF sound] usage_current_settle [of s P] assms n in
      \<open>simp_all add: usage_action_def usage_events_def usage_run_def net_run_def\<close>)
qed

lemma usage_current_page: "usage_current (usage_page client as)"
proof -
  have "usage_current (usage_action Mount (usage_stats_init client, []))"
    by (rule usage_current_action)
      (simp add: usage_current_def us.sound_net_def usage_stats_init_def)
  moreover have "usage_current (fold usage_action as n)" if "usage_current n" for n
    using that by (induction as arbitrary: n) (simp_all add: usage_current_action)
  ultimately show ?thesis by (simp add: usage_page_def)
qed


definition empty_stats :: ConsoleUsageStatsPayload where
  "empty_stats = \<lparr>usp_overview = None, usp_stats = None, usp_filters = None, usp_timeseries = None\<rparr>"


text \<open>
  Property C10. Polling starves: when each answer takes longer than the poll interval, so that it
  arrives just after the next poll, the statistics page shows nothing for ever, however many
  answers, successful or not, have arrived: the spinner keeps turning and the figures stay empty.
\<close>
theorem usage_polling_starves:
  "us_shown (fst (usage_page client (concat (map (\<lambda>r. [Poll, Answer 0 r]) rs)))) =
     us_shown (usage_stats_init client) \<and>
   ush_loading (us_shown (fst (usage_page client (concat (map (\<lambda>r. [Poll, Answer 0 r]) rs)))))"
proof -
  obtain s c where m: "usage_refresh None (usage_stats_init client) = (s, c)"
    by (cases "usage_refresh None (usage_stats_init client)")
  then have c: "uc_loadId c = us_loadId s" and v: "us_shown s = us_shown (usage_stats_init client)"
    by (auto simp: usage_refresh_def Let_def)
  from m have mount: "usage_action Mount (usage_stats_init client, []) = (s, [c])"
    by (simp add: usage_action_def usage_events_def usage_run_def net_run_def)
  have run: "fold usage_action (concat (map (\<lambda>r. [Poll, Answer 0 r]) rs)) n =
      usage_run (concat (map (\<lambda>r. [Start (Some True), Settle 0 r]) rs)) n" for n
    by (induction rs arbitrary: n)
      (simp_all add: usage_action_def usage_events_def usage_run_def net_run_def)
  obtain s' c' where "usage_run (concat (map (\<lambda>r. [Start (Some True), Settle 0 r]) rs)) (s, [c]) = (s', [c'])"
    and "us_shown s' = us_shown s"
    using us.polling_starves [OF c, of "Some True" rs] by (auto simp: usage_run_def)
  then have "us_shown (fst (usage_page client (concat (map (\<lambda>r. [Poll, Answer 0 r]) rs)))) =
      us_shown (usage_stats_init client)"
    by (simp add: usage_page_def mount run v)
  then show ?thesis by (simp add: usage_stats_init_def)
qed

section \<open>useDashboardStats: the monitor's figures\<close>

record DashboardShown =
  dsh_overview :: "ConsoleUsageOverview option"
  dsh_stats :: ConsoleStats
  dsh_requests :: "ConsoleRequestListItem list"
  dsh_loading :: bool
  dsh_unauthorized :: nat
  dsh_console :: "string list"

record DashboardStats =
  ds_shown :: DashboardShown
  ds_routeFilter :: string
  ds_rangeFilter :: UsageRange
  ds_loadId :: nat

record DashboardStatsCall =
  dsc_loadId :: nat
  dsc_silent :: bool
  dsc_query :: params

definition dashboard_stats_init :: DashboardStats where
  "dashboard_stats_init =
     \<lparr>ds_shown = \<lparr>dsh_overview = None, dsh_stats = no_stats, dsh_requests = [], dsh_loading = True,
        dsh_unauthorized = 0, dsh_console = []\<rparr>,
      ds_routeFilter = [], ds_rangeFilter = Range_24h, ds_loadId = 0\<rparr>"

definition dashboard_query :: "string \<Rightarrow> UsageRange \<Rightarrow> params" where
  "dashboard_query routeFilter rangeFilter =
     (let query = set_filter ''route'' (Some routeFilter) []
      in if rangeFilter \<noteq> Range_all then params_set ''range'' (range_name rangeFilter) query else query)"

text \<open>The two requests of a refresh.\<close>

definition dashboard_requests :: "params \<Rightarrow> HttpRequest \<times> HttpRequest" where
  "dashboard_requests query =
     (let qs = params_string query
      in (get_json (''/__console/api/stats'' @ (if qs \<noteq> [] then ''?'' @ qs else [])),
          get_json (''/__console/api/requests'' @ (if qs \<noteq> [] then ''?'' @ qs @ ''&'' else ''?'') @ ''limit=500'')))"

definition dashboard_refresh :: "bool option \<Rightarrow> DashboardStats \<Rightarrow> DashboardStats \<times> DashboardStatsCall" where
  "dashboard_refresh silent s =
     (let loadId = Suc (ds_loadId s)
      in (s\<lparr>ds_loadId := loadId\<rparr>,
          \<lparr>dsc_loadId = loadId, dsc_silent = coalesce_opt silent False,
           dsc_query = dashboard_query (ds_routeFilter s) (ds_rangeFilter s)\<rparr>))"

text \<open>\<open>Promise.all\<close> settles with both answers, or with the rejection that came first.\<close>

type_synonym stats_answer = "(ConsoleUsageStatsPayload \<times> ConsoleRequestListPayload) result"

definition dashboard_answer :: "DashboardStatsCall \<Rightarrow> stats_answer \<Rightarrow> DashboardShown \<Rightarrow> DashboardShown" where
  "dashboard_answer c r v =
     (case r of
        Inr (statsData, requestsData) \<Rightarrow>
          v\<lparr>dsh_overview := usp_overview statsData,
            dsh_stats := coalesce_opt (usp_stats statsData) no_stats,
            dsh_requests := coalesce_opt (rl_requests requestsData) []\<rparr>
      | Inl message \<Rightarrow>
          if message = ''unauthorized'' then v\<lparr>dsh_unauthorized := dsh_unauthorized v + 1\<rparr>
          else if \<not> dsc_silent c then
            v\<lparr>dsh_console := dsh_console v @ [''Dashboard stats error: '' @ message]\<rparr>
          else v)\<lparr>dsh_loading := False\<rparr>"

definition dashboard_stats_settled :: "DashboardStatsCall \<Rightarrow> stats_answer \<Rightarrow> DashboardStats \<Rightarrow> DashboardStats" where
  "dashboard_stats_settled c r s =
     (if dsc_loadId c \<noteq> ds_loadId s then s else s\<lparr>ds_shown := dashboard_answer c r (ds_shown s)\<rparr>)"

datatype DashboardFilterChange = setRoute string | setRange UsageRange

fun dashboard_filter :: "DashboardFilterChange \<Rightarrow> DashboardStats \<Rightarrow> DashboardStats" where
  "dashboard_filter (setRoute v) s = s\<lparr>ds_routeFilter := v\<rparr>"
| "dashboard_filter (setRange v) s = s\<lparr>ds_rangeFilter := v\<rparr>"

definition dashboard_stats_run where
  "dashboard_stats_run = net_run dashboard_refresh dashboard_stats_settled dashboard_filter"

interpretation ds: latest_wins ds_loadId dashboard_refresh dsc_loadId dashboard_stats_settled dashboard_filter
    ds_shown dashboard_answer "\<lambda>s. dsh_loading (ds_shown s)"
proof unfold_locales
  fix upd s
  show "ds_loadId (dashboard_filter upd s) = ds_loadId s" by (cases upd) simp_all
  show "ds_shown (dashboard_filter upd s) = ds_shown s" by (cases upd) simp_all
  show "dsh_loading (ds_shown (dashboard_filter upd s)) = dsh_loading (ds_shown s)" by (cases upd) simp_all
qed (auto simp: dashboard_refresh_def dashboard_stats_settled_def dashboard_answer_def Let_def
    split: sum.splits)

section \<open>The detail page\<close>

record DetailShown =
  dts_detail :: "ConsoleRequestDetail option"
  dts_error :: string
  dts_loading :: bool
  dts_unauthorized :: nat

record DetailState =
  dt_shown :: DetailShown
  dt_loadId :: nat

record DetailCall =
  dtc_loadId :: nat
  dtc_requestId :: string

definition detail_init :: DetailState where
  "detail_init = \<lparr>dt_shown = \<lparr>dts_detail = None, dts_error = [], dts_loading = True, dts_unauthorized = 0\<rparr>,
                  dt_loadId = 0\<rparr>"

definition loadDetail :: "string \<Rightarrow> DetailState \<Rightarrow> DetailState \<times> DetailCall" where
  "loadDetail requestId s =
     (let loadId = Suc (dt_loadId s)
      in (s\<lparr>dt_loadId := loadId, dt_shown := (dt_shown s)\<lparr>dts_loading := True\<rparr>\<rparr>,
          \<lparr>dtc_loadId = loadId, dtc_requestId = requestId\<rparr>))"

definition detail_answer :: "ConsoleRequestDetail result \<Rightarrow> DetailShown \<Rightarrow> DetailShown" where
  "detail_answer r v =
     (case r of
        Inr data \<Rightarrow> v\<lparr>dts_detail := Some data, dts_error := []\<rparr>
      | Inl message \<Rightarrow>
          if message = ''unauthorized'' then v\<lparr>dts_unauthorized := dts_unauthorized v + 1\<rparr>
          else v\<lparr>dts_error := message\<rparr>)\<lparr>dts_loading := False\<rparr>"

definition detail_settled :: "DetailCall \<Rightarrow> ConsoleRequestDetail result \<Rightarrow> DetailState \<Rightarrow> DetailState" where
  "detail_settled c r s =
     (if dtc_loadId c \<noteq> dt_loadId s then s else s\<lparr>dt_shown := detail_answer r (dt_shown s)\<rparr>)"

definition detail_request :: "DetailCall \<Rightarrow> HttpRequest" where
  "detail_request c = fetchRequestDetail (dtc_requestId c)"

text \<open>
  The loading card is shown instead of the detail view while the first answer is awaited.
\<close>

definition detail_loading_card :: "DetailState \<Rightarrow> bool" where
  "detail_loading_card s \<longleftrightarrow> dts_loading (dt_shown s) \<and> dts_detail (dt_shown s) = None"

definition detail_run where
  "detail_run = net_run loadDetail detail_settled (\<lambda>(_ :: unit) s. s)"

definition detail_content :: "DetailState \<Rightarrow> ConsoleRequestDetail option \<times> string \<times> nat" where
  "detail_content s = (dts_detail (dt_shown s), dts_error (dt_shown s), dts_unauthorized (dt_shown s))"

definition detail_answered where
  "detail_answered c r v =
     (case v of (detail, error, unauthorized) \<Rightarrow>
        (case r of
           Inr data \<Rightarrow> (Some data, [], unauthorized)
         | Inl message \<Rightarrow>
             if message = ''unauthorized'' then (detail, error, unauthorized + 1)
             else (detail, message, unauthorized)))"

interpretation dt: latest_wins dt_loadId loadDetail dtc_loadId detail_settled "\<lambda>(_ :: unit) s. s"
    detail_content "\<lambda>c :: DetailCall. detail_answered c" "\<lambda>s. dts_loading (dt_shown s)"
  by unfold_locales
    (auto simp: loadDetail_def detail_settled_def detail_content_def detail_answered_def
      detail_answer_def Let_def split: sum.splits)

text \<open>
  The detail page shows the request it was last asked for: however the answers to its
  loads (a change of request id, a press of refresh) are ordered, once the newest load succeeds the
  page shows that request's record, no error and no spinner, whatever older loads return.
\<close>
theorem detail_shows_newest:
  assumes "detail_run es (detail_init, []) = (s, P)"
    and "distinct (map fst xs)" and "fst ` set xs \<subseteq> set P"
    and "(c, Inr data) \<in> set xs" and "dtc_loadId c = dt_loadId s"
  shows "let v = dt_shown (settle_all detail_settled xs s)
    in dts_detail v = Some data \<and> dts_error v = [] \<and> \<not> dts_loading v"
proof -
  have init: "dt_loadId detail_init = 0" by (simp add: detail_init_def)
  have run: "net_run loadDetail detail_settled (\<lambda>(_ :: unit) s. s) es (detail_init, []) = (s, P)"
    using assms(1) by (simp add: detail_run_def)
  have "settle_all detail_settled xs s = detail_settled c (Inr data) s"
    by (rule dt.answers_in_flight(2) [OF init run assms(2,3) refl assms(4,5)])
  then show ?thesis
    using assms(5) by (simp add: detail_settled_def detail_answer_def)
qed

definition sample_detail :: ConsoleRequestDetail where
  "sample_detail = \<lparr>rd_record = JObj [(''request_id'', JStr ''req_2'')], rd_previous = JNull,
     rd_analysis = \<lparr>an_cache_state = ''miss'', an_summary = ''first request''\<rparr>, rd_source_request_type = None,
     rd_client_label = None, rd_api_key_id = None, rd_api_key_name = None\<rparr>"

theorem detail_shows_newest_witness:
  "\<exists>s c1 c2. detail_run [Start ''req_1'', Start ''req_2''] (detail_init, []) = (s, [c1, c2]) \<and>
     dts_detail (dt_shown (settle_all detail_settled
       [(c2, Inr sample_detail), (c1, Inl ''not found'')] s)) = Some sample_detail"
proof -
  let ?es = "[Start ''req_1'', Start ''req_2'']"
  obtain s c1 c2 where r: "detail_run ?es (detail_init, []) = (s, [c1, c2])"
    and c: "dtc_loadId c1 = 1" "dtc_loadId c2 = 2" "dt_loadId s = 2"
    by (auto simp: detail_run_def net_run_def loadDetail_def detail_init_def Let_def)
  from c have "c2 \<noteq> c1" by auto
  then show ?thesis
    using detail_shows_newest [of ?es s "[c1, c2]" "[(c2, Inr sample_detail), (c1, Inl ''not found'')]"
        c2 sample_detail] r c by (auto simp: Let_def)
qed

text \<open>
  The monitor ends its spinner with its newest refresh, whatever happened to older ones,
  and then shows that refresh's overview, statistics and requests if it succeeded; the two requests
  it sent ask the server for the route and range selected when it started.
\<close>
theorem monitor_shows_newest:
  assumes "dashboard_stats_run es (dashboard_stats_init, []) = (s, P)"
    and "dashboard_refresh silent s = (s1, c)"
    and "distinct (map fst xs)" and "fst ` set xs \<subseteq> set (P @ [c])" and "(c, r) \<in> set xs"
  shows "ds_shown (settle_all dashboard_stats_settled xs s1) = dashboard_answer c r (ds_shown s) \<and>
    \<not> dsh_loading (ds_shown (settle_all dashboard_stats_settled xs s1)) \<and>
    params_get (dsc_query c) ''route'' = (if ds_routeFilter s = [] then None else Some (ds_routeFilter s)) \<and>
    params_get (dsc_query c) ''range'' =
      (if ds_rangeFilter s = Range_all then None else Some (range_name (ds_rangeFilter s)))"
proof -
  have init: "ds_loadId dashboard_stats_init = 0" by (simp add: dashboard_stats_init_def)
  have run: "net_run dashboard_refresh dashboard_stats_settled dashboard_filter (es @ [Start silent])
      (dashboard_stats_init, []) = (s1, P @ [c])"
    using assms(1,2) by (simp add: dashboard_stats_run_def net_run_def)
  have c: "dsc_loadId c = ds_loadId s1" "ds_shown s1 = ds_shown s"
    "dsc_query c = dashboard_query (ds_routeFilter s) (ds_rangeFilter s)"
    using assms(2) by (auto simp: dashboard_refresh_def Let_def)
  have "settle_all dashboard_stats_settled xs s1 = dashboard_stats_settled c r s1"
    by (rule ds.answers_in_flight(2) [OF init run assms(3,4) refl assms(5) c(1)])
  then show ?thesis
    using ds.settle_view [of c s1 r] ds.settle_idle [of c s1 r] c
    by (auto simp: dashboard_query_def set_filter_def params_set_def params_get_def Let_def
        split: if_splits)
qed

theorem monitor_shows_newest_witness:
  "\<exists>s1 c. dashboard_refresh None dashboard_stats_init = (s1, c) \<and>
     ds_shown (settle_all dashboard_stats_settled [(c, Inl ''down'')] s1) =
       dashboard_answer c (Inl ''down'') (ds_shown dashboard_stats_init)"
proof -
  obtain s1 c where r: "dashboard_refresh None dashboard_stats_init = (s1, c)"
    by (cases "dashboard_refresh None dashboard_stats_init")
  then show ?thesis
    using monitor_shows_newest [of "[]" dashboard_stats_init "[]" None s1 c "[(c, Inl ''down'')]" "Inl ''down''"]
    by (simp add: dashboard_stats_run_def net_run_def)
qed

end
