(* ===== verification/Pager.thy ===== *)
theory Pager
  imports Main
begin

text \<open>
  \<open>components/ui/pagination.tsx\<close>: the page numbers offered for a list and the offsets a click asks for. The
  counts are integers far below \<open>2^50\<close>, where \<open>Math.ceil(total / limit)\<close> and \<open>Math.floor(offset / limit)\<close> are
  whole division (theory \<open>Grouping\<close>, \<open>floor_div_exact\<close>).
\<close>

datatype PageItem = Page int | Ellipsis

definition PAGE_SIZE_OPTIONS :: "int list" where
  "PAGE_SIZE_OPTIONS = [10, 20, 50, 100]"

definition totalPages :: "int \<Rightarrow> int \<Rightarrow> int" where
  "totalPages tot limit = max 1 (- ((- tot) div limit))"

definition currentPage :: "int \<Rightarrow> int \<Rightarrow> int \<Rightarrow> int" where
  "currentPage tot limit offset = min (offset div limit + 1) (totalPages tot limit)"

definition goToPage :: "int \<Rightarrow> int \<Rightarrow> int \<Rightarrow> int" where
  \<comment> \<open>the offset handed to \<open>onPageChange\<close>\<close>
  "goToPage tot limit page = (max 1 (min page (totalPages tot limit)) - 1) * limit"

definition getPageNumbers :: "int \<Rightarrow> int \<Rightarrow> PageItem list" where
  "getPageNumbers pages cur =
     (if pages \<le> 7 then map Page [1..pages]
      else if cur \<le> 4 then [Page 1, Page 2, Page 3, Page 4, Page 5, Ellipsis, Page pages]
      else if pages - 3 \<le> cur
      then [Page 1, Ellipsis, Page (pages - 4), Page (pages - 3), Page (pages - 2), Page (pages - 1), Page pages]
      else [Page 1, Ellipsis, Page (cur - 1), Page cur, Page (cur + 1), Ellipsis, Page pages])"

record PaginationView =
  pn_start :: int
  pn_end :: int
  pn_total :: int
  pn_backDisabled :: bool
  pn_forwardDisabled :: bool
  pn_items :: "(PageItem \<times> bool) list"

definition Pagination :: "int \<Rightarrow> int \<Rightarrow> int \<Rightarrow> PaginationView option" where
  "Pagination tot limit offset =
     (if tot = 0 then None
      else let cur = currentPage tot limit offset; pages = totalPages tot limit
        in Some \<lparr>pn_start = offset + 1, pn_end = min (offset + limit) tot, pn_total = tot,
             pn_backDisabled = (cur \<le> 1), pn_forwardDisabled = (pages \<le> cur),
             pn_items = map (\<lambda>i. (i, i = Page cur)) (getPageNumbers pages cur)\<rparr>)"

section \<open>Whole division\<close>

lemma ceil_div:
  fixes tot limit :: int
  assumes "0 < limit" and "0 < tot"
  shows "(- ((- tot) div limit) - 1) * limit < tot" and "tot \<le> - ((- tot) div limit) * limit" and "1 \<le> - ((- tot) div limit)"
proof -
  have m: "- tot = (- tot) div limit * limit + (- tot) mod limit" by simp
  have b: "0 \<le> (- tot) mod limit" "(- tot) mod limit < limit" using assms(1) by simp_all
  show "(- ((- tot) div limit) - 1) * limit < tot" "tot \<le> - ((- tot) div limit) * limit"
    unfolding left_diff_distrib mult_minus_left mult_1 using m b by linarith+
  have "(- tot) div limit < 0" using assms by (intro div_neg_pos_less0) simp_all
  then show "1 \<le> - ((- tot) div limit)" by simp
qed

lemma totalPages_bounds:
  assumes "0 < limit" and "0 < tot"
  shows "1 \<le> totalPages tot limit" and "(totalPages tot limit - 1) * limit < tot" and "tot \<le> totalPages tot limit * limit"
proof -
  have "totalPages tot limit = - ((- tot) div limit)" using ceil_div(3)[OF assms] by (simp add: totalPages_def max_def)
  then show "1 \<le> totalPages tot limit" "(totalPages tot limit - 1) * limit < tot" "tot \<le> totalPages tot limit * limit"
    using ceil_div[OF assms] by simp_all
qed

section \<open>Properties\<close>

fun shown_pages :: "PageItem list \<Rightarrow> int list" where
  "shown_pages [] = []"
| "shown_pages (Page p # is) = p # shown_pages is"
| "shown_pages (Ellipsis # is) = shown_pages is"

text \<open>Neighbours are consecutive pages, or an ellipsis between them hides at least two.\<close>

fun honest :: "PageItem list \<Rightarrow> bool" where
  "honest (Page p # Page q # is) \<longleftrightarrow> q = p + 1 \<and> honest (Page q # is)"
| "honest (Page p # Ellipsis # Page q # is) \<longleftrightarrow> p + 2 < q \<and> honest (Page q # is)"
| "honest [Page p] \<longleftrightarrow> True"
| "honest _ \<longleftrightarrow> False"

lemma shown_pages_map [simp]: "shown_pages (map Page ps) = ps"
  by (induction ps) simp_all

lemma honest_upto: "p \<le> q \<Longrightarrow> honest (map Page [p..q])"
proof (induction "nat (q - p)" arbitrary: p)
  case 0
  then show ?case by simp
next
  case (Suc n)
  then have "p < q" by simp
  then have "map Page [p..q] = Page p # Page (p + 1) # map Page [p + 2..q]"
    by (simp add: upto_rec1 add.commute)
  moreover have "honest (map Page [p + 1..q])" using Suc \<open>p < q\<close> by simp
  ultimately show ?case using \<open>p < q\<close> by (simp add: upto_rec1)
qed

text \<open>
  The pager offers at most seven items: pages in ascending order from the first to the last with
  the current one among them, neighbours are consecutive, and an ellipsis always hides at least two pages.
\<close>

theorem page_numbers_honest:
  assumes "1 \<le> cur" and "cur \<le> pages"
  shows "honest (getPageNumbers pages cur) \<and> length (getPageNumbers pages cur) \<le> 7 \<and>
    hd (getPageNumbers pages cur) = Page 1 \<and> last (getPageNumbers pages cur) = Page pages \<and>
    Page cur \<in> set (getPageNumbers pages cur) \<and> sorted_wrt (<) (shown_pages (getPageNumbers pages cur))"
proof (cases "pages \<le> 7")
  case True
  have "1 \<le> pages" using assms by simp
  then have "[1..pages] \<noteq> []" "hd [1..pages] = 1" by (simp_all add: upto_rec1[of 1 pages])
  moreover have "last [1..pages] = pages" using \<open>1 \<le> pages\<close> by (subst upto_rec2) simp_all
  moreover have "sorted_wrt (<) [1..pages]" by (simp add: strict_sorted_iff)
  ultimately show ?thesis using True assms honest_upto[of 1 pages]
    by (simp add: getPageNumbers_def hd_map last_map)
next
  case False
  then show ?thesis using assms by (auto simp: getPageNumbers_def)
qed

text \<open>
  A click on an offered page asks for the offset of its first record: a multiple of the page size
  inside the list, after which that page is the current one; clicks beyond the ends are clamped.
\<close>

theorem go_to_page_roundtrip:
  assumes "0 < limit" and "0 < tot"
  shows "0 \<le> goToPage tot limit page \<and> goToPage tot limit page < tot \<and> limit dvd goToPage tot limit page \<and>
    currentPage tot limit (goToPage tot limit page) = max 1 (min page (totalPages tot limit))"
proof -
  let ?T = "totalPages tot limit" and ?p = "max 1 (min page (totalPages tot limit))"
  have T: "1 \<le> ?T" "(?T - 1) * limit < tot" using totalPages_bounds[OF assms] by simp_all
  have p: "1 \<le> ?p" "?p \<le> ?T" using T by simp_all
  have "(?p - 1) * limit \<le> (?T - 1) * limit" using p(2) assms(1) by (intro mult_right_mono) simp_all
  moreover have "0 \<le> (?p - 1) * limit" using p(1) assms(1) by simp
  moreover have "currentPage tot limit ((?p - 1) * limit) = ?p" using assms(1) p by (simp add: currentPage_def)
  ultimately show ?thesis using T(2) by (simp add: goToPage_def)
qed

theorem page_numbers_honest_witness: "honest (getPageNumbers 12 6)"
  using page_numbers_honest[of 6 12] by simp

theorem go_to_page_roundtrip_witness: "currentPage 45 10 (goToPage 45 10 9) = 5"
  using go_to_page_roundtrip[of 10 45 9] by (simp add: totalPages_def)

end
