(* ===== verification/Route_Map.thy ===== *)
theory Route_Map
  imports Types "HOL-Library.Char_ord" "HOL-Library.List_Lexorder"
begin

text \<open>
  The route map of \<open>components/routes-page.tsx\<close>: for every model name a client can ask for, the routes
  the console says the gateway takes, the fallbacks it says follow, and the routes an alias hides.
  \<open>String.prototype.localeCompare\<close> belongs to the host's collation and is the parameter \<open>lc\<close>, whose
  documented contract is \<open>consistent_collation\<close>.
\<close>

section \<open>Collation\<close>

type_synonym collation = "string \<Rightarrow> string \<Rightarrow> int"

definition consistent_collation :: "collation \<Rightarrow> bool" where
  "consistent_collation lc \<longleftrightarrow>
     (\<forall>a b. 0 < lc a b \<longleftrightarrow> lc b a < 0) \<and>
     (\<forall>a b c. lc a b \<le> 0 \<longrightarrow> lc b c \<le> 0 \<longrightarrow> lc a c \<le> 0)"

text \<open>An instance of the contract: the order of the code points, which is that of the UTF-8 bytes.\<close>

definition code_point_collation :: collation where
  "code_point_collation a b = (if a < b then - 1 else if b < a then 1 else 0)"

lemma consistent_code_point_collation: "consistent_collation code_point_collation"
  unfolding consistent_collation_def code_point_collation_def by auto

section \<open>Routes\<close>

datatype route_source = From_alias | From_model | From_custom | From_any_model

fun source_name :: "route_source \<Rightarrow> string" where
  "source_name From_alias = ''alias''"
| "source_name From_model = ''model''"
| "source_name From_custom = ''custom''"
| "source_name From_any_model = ''any_model''"

record RouteMapRoute =
  rr_key :: string
  rr_provider :: string
  rr_type :: provider_type
  rr_model :: string
  rr_source :: route_source
  rr_modelKnown :: bool

datatype entry_kind = Kind_alias | Kind_model | Kind_alias_override

record RouteMapEntry =
  re_requestModel :: string
  re_requestType :: provider_type
  re_kind :: entry_kind
  re_primaryRoutes :: "RouteMapRoute list"
  re_fallbackRoutes :: "RouteMapRoute list"
  re_hiddenRoutes :: "RouteMapRoute list"

definition getProviderRef :: "ProviderInfo \<Rightarrow> string" where
  "getProviderRef provider =
     (if pv_providerUuid provider \<noteq> [] then pv_providerUuid provider else pv_channelName provider)"

text \<open>The comparator returned a positive number for \<open>(a, b)\<close>: \<open>b\<close> goes first.\<close>

definition routes_later :: "collation \<Rightarrow> ProviderInfo \<Rightarrow> ProviderInfo \<Rightarrow> bool" where
  "routes_later lc a b \<longleftrightarrow>
     (if pv_priority b \<noteq> pv_priority a then 0 < pv_priority b - pv_priority a
      else 0 < lc (pv_channelName a) (pv_channelName b))"

definition sortProvidersByRoutingPriority :: "collation \<Rightarrow> ProviderInfo list \<Rightarrow> ProviderInfo list" where
  "sortProvidersByRoutingPriority lc providers = js_sort (routes_later lc) providers"

definition offers :: "ProviderInfo \<Rightarrow> string \<Rightarrow> bool" where
  \<comment> \<open>\<open>provider.models.some((candidate) => candidate.model === model)\<close>\<close>
  "offers provider model \<longleftrightarrow> list_ex (\<lambda>candidate. pm_model candidate = model) (pv_models provider)"

definition getModelRoutes ::
    "collation \<Rightarrow> ProviderInfo list \<Rightarrow> string \<Rightarrow> provider_type \<Rightarrow> route_source \<Rightarrow> RouteMapRoute list" where
  "getModelRoutes lc providers model expectedType source =
     map (\<lambda>provider. \<lparr>rr_key = source_name source @ '':'' @ pv_channelName provider @ '':'' @ model,
           rr_provider = pv_channelName provider, rr_type = pv_type provider, rr_model = model,
           rr_source = source, rr_modelKnown = True\<rparr>)
       (filter (\<lambda>provider. offers provider model)
         (filter (\<lambda>provider. pv_type provider = expectedType)
           (filter (\<lambda>provider. pv_routingVisibility provider = Direct)
             (filter pv_enabled (sortProvidersByRoutingPriority lc providers)))))"

section \<open>Aliases\<close>

definition getAliasTargets :: "ModelAlias \<Rightarrow> RouteTarget list" where
  "getAliasTargets alias =
     (if al_targets alias \<noteq> [] then al_targets alias
      else [\<lparr>tg_provider = al_provider alias, tg_model = al_model alias\<rparr>])"

definition find_provider :: "ProviderInfo list \<Rightarrow> string \<Rightarrow> ProviderInfo option" where
  "find_provider providers ref =
     find (\<lambda>candidate. getProviderRef candidate = ref \<or> pv_channelName candidate = ref) providers"

definition getAliasRoute ::
    "ModelAlias \<Rightarrow> ProviderInfo list \<Rightarrow> route_source \<Rightarrow> RouteTarget \<Rightarrow> RouteMapRoute" where
  "getAliasRoute alias providers source target =
     (let provider = find_provider providers (tg_provider target);
          name = (case provider of Some p \<Rightarrow> pv_channelName p | None \<Rightarrow> tg_provider target)
      in \<lparr>rr_key = source_name source @ '':'' @ al_alias alias @ '':'' @ name @ '':'' @ tg_model target,
          rr_provider = name,
          rr_type = (case provider of Some p \<Rightarrow> pv_type p | None \<Rightarrow> OpenAI),
          rr_model = tg_model target,
          rr_source = source,
          rr_modelKnown = (case provider of Some p \<Rightarrow> offers p (tg_model target) | None \<Rightarrow> False)\<rparr>)"

definition getAliasRoutes :: "ModelAlias \<Rightarrow> ProviderInfo list \<Rightarrow> route_source \<Rightarrow> RouteMapRoute list" where
  "getAliasRoutes alias providers source =
     map (getAliasRoute alias providers source) (getAliasTargets alias)"

definition isAliasRoutable :: "ModelAlias \<Rightarrow> ProviderInfo list \<Rightarrow> bool" where
  "isAliasRoutable alias providers \<longleftrightarrow>
     al_enabled alias \<and>
     list_ex (\<lambda>target. case find_provider providers (tg_provider target) of
         Some provider \<Rightarrow> pv_enabled provider | None \<Rightarrow> False) (getAliasTargets alias)"

definition getRouteIdentity :: "RouteMapRoute \<Rightarrow> string" where
  "getRouteIdentity route = rr_provider route @ '':'' @ type_name (rr_type route) @ '':'' @ rr_model route"

section \<open>Fallbacks\<close>

definition resolveFallbackTarget ::
    "string \<Rightarrow> ModelAlias list \<Rightarrow> ProviderInfo list \<Rightarrow> provider_type \<Rightarrow> RouteMapRoute list" where
  "resolveFallbackTarget target aliases providers expectedType =
     (case find (\<lambda>candidate. al_enabled candidate \<and> al_alias candidate = target) aliases of
        Some alias \<Rightarrow> filter (\<lambda>route. rr_type route = expectedType) (getAliasRoutes alias providers From_custom)
      | None \<Rightarrow>
          (case index_of (CHR '':'') target of
             None \<Rightarrow> []
           | Some separatorIndex \<Rightarrow>
               if separatorIndex = 0 \<or> separatorIndex = length target - 1 then []
               else
                 (let providerRef = trim (take separatorIndex target);
                      model = trim (drop (separatorIndex + 1) target)
                  in case find_provider providers providerRef of
                       None \<Rightarrow> []
                     | Some provider \<Rightarrow>
                         if \<not> pv_enabled provider \<or> pv_type provider \<noteq> expectedType \<or> \<not> offers provider model
                         then []
                         else [\<lparr>rr_key = ''custom:'' @ pv_channelName provider @ '':'' @ model,
                                rr_provider = pv_channelName provider, rr_type = pv_type provider,
                                rr_model = model, rr_source = From_custom, rr_modelKnown = True\<rparr>])))"

text \<open>
  The stateful filter over \<open>[...customRoutes, ...sitePolicyRoutes]\<close> with its set \<open>seenRoutes\<close>.
\<close>

fun fresh_routes :: "string list \<Rightarrow> RouteMapRoute list \<Rightarrow> RouteMapRoute list" where
  "fresh_routes seenRoutes [] = []"
| "fresh_routes seenRoutes (route # routes) =
     (if getRouteIdentity route \<in> set seenRoutes then fresh_routes seenRoutes routes
      else route # fresh_routes (set_add (getRouteIdentity route) seenRoutes) routes)"

text \<open>\<open>xs.slice(0, n)\<close>: a negative end counts from the back.\<close>

definition slice_to :: "int \<Rightarrow> 'a list \<Rightarrow> 'a list" where
  "slice_to n xs = (if 0 \<le> n then take (nat n) xs else take (length xs - nat (- n)) xs)"

section \<open>The map\<close>

definition request_key :: "provider_type \<Rightarrow> string \<Rightarrow> string" where
  "request_key type model = type_name type @ '':'' @ model"

definition direct_enabled :: "ProviderInfo list \<Rightarrow> ProviderInfo list" where
  "direct_enabled providers =
     filter (\<lambda>candidate. pv_routingVisibility candidate = Direct) (filter pv_enabled providers)"

definition routable_aliases :: "ModelAlias list \<Rightarrow> ProviderInfo list \<Rightarrow> ModelAlias list" where
  "routable_aliases aliases providers = filter (\<lambda>alias. isAliasRoutable alias providers) aliases"

text \<open>The two loops that fill \<open>allRequestModels\<close>, as the list of pairs they set in turn.\<close>

definition request_pairs :: "ModelAlias list \<Rightarrow> ProviderInfo list \<Rightarrow> (string \<times> string \<times> provider_type) list" where
  "request_pairs aliases providers =
     concat (map (\<lambda>provider. map (\<lambda>model. (request_key (pv_type provider) (pm_model model),
           pm_model model, pv_type provider)) (pv_models provider)) (direct_enabled providers)) @
     concat (map (\<lambda>alias. map (\<lambda>route. (request_key (rr_type route) (al_alias alias),
           al_alias alias, rr_type route)) (getAliasRoutes alias providers From_alias))
       (routable_aliases aliases providers))"

definition allRequestModels :: "ModelAlias list \<Rightarrow> ProviderInfo list \<Rightarrow> (string \<times> provider_type) list" where
  "allRequestModels aliases providers = map snd (new_Map (request_pairs aliases providers))"

definition anyModelRoutes :: "collation \<Rightarrow> ProviderInfo list \<Rightarrow> RouteMapRoute list" where
  "anyModelRoutes lc providers =
     concat (map (\<lambda>provider. map (\<lambda>model.
         \<lparr>rr_key = ''any_model:'' @ pv_channelName provider @ '':'' @ pm_model model,
          rr_provider = pv_channelName provider, rr_type = pv_type provider, rr_model = pm_model model,
          rr_source = From_any_model, rr_modelKnown = True\<rparr>) (pv_models provider))
       (sortProvidersByRoutingPriority lc (direct_enabled providers)))"

definition request_later :: "collation \<Rightarrow> string \<times> provider_type \<Rightarrow> string \<times> provider_type \<Rightarrow> bool" where
  "request_later lc a b \<longleftrightarrow>
     (let modelSort = lc (fst a) (fst b)
      in 0 < (if modelSort \<noteq> 0 then modelSort else lc (type_name (snd a)) (type_name (snd b))))"

text \<open>The parts of the final \<open>map\<close>'s body, for a request model and type.\<close>

definition alias_routes :: "ModelAlias list \<Rightarrow> ProviderInfo list \<Rightarrow> string \<times> provider_type \<Rightarrow> RouteMapRoute list" where
  "alias_routes routableAliases providers request =
     (case map_get (new_Map (map (\<lambda>a. (al_alias a, a)) routableAliases)) (fst request) of
        Some a \<Rightarrow> filter (\<lambda>route. rr_type route = snd request) (getAliasRoutes a providers From_alias)
      | None \<Rightarrow> [])"

definition policy_disabled :: "GatewayFailoverPolicyPayload option \<Rightarrow> bool" where
  \<comment> \<open>\<open>policy?.enabled === false\<close>\<close>
  "policy_disabled policy = (case policy of Some p \<Rightarrow> \<not> fp_enabled p | None \<Rightarrow> False)"

definition custom_routes ::
    "ModelAlias list \<Rightarrow> ProviderInfo list \<Rightarrow> GatewayFailoverPolicyPayload option \<Rightarrow>
     string \<times> provider_type \<Rightarrow> RouteMapRoute list" where
  "custom_routes routableAliases providers policy request =
     (if policy_disabled policy then []
      else
        (let customFallbacksByModel = new_Map (case policy of
               Some p \<Rightarrow> map (\<lambda>rule. (cf_model rule, cf_fallbacks rule)) (fp_customModelFallbacks p)
             | None \<Rightarrow> [])
         in concat (map (\<lambda>target. resolveFallbackTarget target routableAliases providers (snd request))
              (case map_get customFallbacksByModel (fst request) of Some fs \<Rightarrow> fs | None \<Rightarrow> []))))"

definition site_policy_routes ::
    "collation \<Rightarrow> ProviderInfo list \<Rightarrow> GatewayFailoverPolicyPayload option \<Rightarrow> RouteMapRoute list \<Rightarrow>
     RouteMapRoute list \<Rightarrow> provider_type \<Rightarrow> RouteMapRoute list" where
  "site_policy_routes lc providers policy aliasRoutes modelRoutes requestType =
     (if policy_disabled policy then []
      else case policy of
          None \<Rightarrow> []
        | Some p \<Rightarrow>
            (case fp_modelFallbackMode p of
               Any_model \<Rightarrow> filter (\<lambda>route. rr_type route = requestType) (anyModelRoutes lc providers)
             | Same_model \<Rightarrow> if aliasRoutes \<noteq> [] then aliasRoutes else modelRoutes
             | Fallback_disabled \<Rightarrow> []))"

definition fallback_routes ::
    "GatewayFailoverPolicyPayload option \<Rightarrow> RouteMapRoute list \<Rightarrow> RouteMapRoute list \<Rightarrow> RouteMapRoute list" where
  "fallback_routes policy primaryRoutes candidates =
     slice_to (case policy of Some p \<Rightarrow> fp_maxFallbackAttempts p | None \<Rightarrow> 0)
       (fresh_routes (new_Set (map getRouteIdentity primaryRoutes)) candidates)"

definition build_entry ::
    "collation \<Rightarrow> ModelAlias list \<Rightarrow> ProviderInfo list \<Rightarrow> GatewayFailoverPolicyPayload option \<Rightarrow>
     string \<times> provider_type \<Rightarrow> RouteMapEntry" where
  "build_entry lc routableAliases providers policy request =
     (let aliasRoutes = alias_routes routableAliases providers request;
          matchedAlias = aliasRoutes \<noteq> [];
          modelRoutes = getModelRoutes lc providers (fst request) (snd request) From_model;
          primaryRoutes = (if matchedAlias then aliasRoutes else take 1 modelRoutes)
      in \<lparr>re_requestModel = fst request, re_requestType = snd request,
          re_kind = (if matchedAlias \<and> modelRoutes \<noteq> [] then Kind_alias_override
                     else if matchedAlias then Kind_alias else Kind_model),
          re_primaryRoutes = primaryRoutes,
          re_fallbackRoutes = fallback_routes policy primaryRoutes
            (custom_routes routableAliases providers policy request @
             site_policy_routes lc providers policy aliasRoutes modelRoutes (snd request)),
          re_hiddenRoutes = (if matchedAlias then modelRoutes else [])\<rparr>)"

definition buildRouteMapEntries ::
    "collation \<Rightarrow> ModelAlias list \<Rightarrow> ProviderInfo list \<Rightarrow> GatewayFailoverPolicyPayload option \<Rightarrow>
     RouteMapEntry list" where
  "buildRouteMapEntries lc aliases providers policy =
     map (build_entry lc (routable_aliases aliases providers) providers policy)
       (js_sort (request_later lc) (allRequestModels aliases providers))"

section \<open>Ordering and the maps\<close>

lemma comparator_routes_later:
  assumes "consistent_collation lc"
  shows "comparator (routes_later lc)"
proof
  have asym: "0 < lc a b \<longleftrightarrow> lc b a < 0" and trans: "lc a b \<le> 0 \<Longrightarrow> lc b c \<le> 0 \<Longrightarrow> lc a c \<le> 0"
    for a b c using assms unfolding consistent_collation_def by blast+
  fix x y z
  show "routes_later lc x y \<Longrightarrow> \<not> routes_later lc y x"
    using asym [of "pv_channelName x" "pv_channelName y"] by (auto simp: routes_later_def split: if_splits)
  show "\<not> routes_later lc x y \<Longrightarrow> \<not> routes_later lc y z \<Longrightarrow> \<not> routes_later lc x z"
    using trans [of "pv_channelName x" "pv_channelName y" "pv_channelName z"]
    by (auto simp: routes_later_def not_less split: if_splits)
qed

lemma type_name_no_colon: "CHR '':'' \<notin> set (type_name t)"
  by (cases t) simp_all

lemma request_key_inject [simp]: "request_key t m = request_key t' m' \<longleftrightarrow> t = t' \<and> m = m'"
  by (cases t; cases t') (simp_all add: request_key_def)

lemma request_pairs_keys: "(k, m, t) \<in> set (request_pairs aliases providers) \<Longrightarrow> k = request_key t m"
  by (auto simp: request_pairs_def)

lemma new_Map_entries: "(k, v) \<in> set (new_Map ps) \<Longrightarrow> (k, v) \<in> set ps"
  by (metis distinct_new_Map map_get_new_Map map_of_SomeD map_of_eq_Some_iff set_rev)

lemma distinct_allRequestModels: "distinct (allRequestModels aliases providers)"
proof -
  let ?m = "new_Map (request_pairs aliases providers)"
  have key: "fst x = request_key (snd (snd x)) (fst (snd x))" if "x \<in> set ?m" for x
    using new_Map_entries [of "fst x" "snd x" "request_pairs aliases providers"] that
      request_pairs_keys [of "fst x" "fst (snd x)" "snd (snd x)" aliases providers] by simp
  have "map fst ?m = map (\<lambda>x. request_key (snd x) (fst x)) (map snd ?m)"
    using key by simp
  then have "distinct (map (\<lambda>x. request_key (snd x) (fst x)) (map snd ?m))"
    using distinct_new_Map by metis
  then show ?thesis unfolding allRequestModels_def by (simp only: distinct_map)
qed

lemma set_allRequestModels: "set (allRequestModels aliases providers) = snd ` set (request_pairs aliases providers)"
proof -
  let ?ps = "request_pairs aliases providers"
  have "x \<in> snd ` set (new_Map ?ps)" if "(k, x) \<in> set ?ps" for k x
  proof -
    have "k \<in> fst ` set (new_Map ?ps)" using that by force
    then obtain y where y: "(k, y) \<in> set (new_Map ?ps)" by force
    then have "(k, y) \<in> set ?ps" by (rule new_Map_entries)
    with that have "request_key (snd x) (fst x) = request_key (snd y) (fst y)"
      using request_pairs_keys [of k "fst x" "snd x"] request_pairs_keys [of k "fst y" "snd y"] by simp
    then have "x = y" by (simp add: prod_eq_iff)
    with y show ?thesis by force
  qed
  then show ?thesis
    by (force simp: allRequestModels_def dest: new_Map_entries)
qed

section \<open>What an entry holds\<close>

lemma offers_iff: "offers p m \<longleftrightarrow> (\<exists>x \<in> set (pv_models p). pm_model x = m)"
  by (auto simp: offers_def list_ex_iff)

definition eligible :: "ProviderInfo list \<Rightarrow> string \<Rightarrow> provider_type \<Rightarrow> ProviderInfo \<Rightarrow> bool" where
  "eligible providers m t p \<longleftrightarrow>
     p \<in> set providers \<and> pv_enabled p \<and> pv_routingVisibility p = Direct \<and> pv_type p = t \<and> offers p m"

lemma getModelRoutes_alt:
  "getModelRoutes lc providers m t src =
     map (\<lambda>p. \<lparr>rr_key = source_name src @ '':'' @ pv_channelName p @ '':'' @ m,
           rr_provider = pv_channelName p, rr_type = pv_type p, rr_model = m, rr_source = src,
           rr_modelKnown = True\<rparr>)
       (filter (eligible providers m t) (sortProvidersByRoutingPriority lc providers))"
proof -
  have "filter (\<lambda>p. offers p m) (filter (\<lambda>p. pv_type p = t) (filter (\<lambda>p. pv_routingVisibility p = Direct)
      (filter pv_enabled (sortProvidersByRoutingPriority lc providers)))) =
    filter (eligible providers m t) (sortProvidersByRoutingPriority lc providers)"
    unfolding filter_filter
    by (rule filter_cong) (auto simp: eligible_def sortProvidersByRoutingPriority_def)
  then show ?thesis by (simp add: getModelRoutes_def)
qed

lemma sorted_eligible:
  assumes "consistent_collation lc"
  shows "sorted_wrt (\<lambda>x y. \<not> routes_later lc x y)
     (filter P (sortProvidersByRoutingPriority lc providers))"
  using comparator.sorted_js_sort [OF comparator_routes_later [OF assms]]
  unfolding sortProvidersByRoutingPriority_def by (rule sorted_wrt_filter)

lemma set_eligible: "set (filter (eligible providers m t) (sortProvidersByRoutingPriority lc providers)) =
    {p. eligible providers m t p}"
  by (auto simp: sortProvidersByRoutingPriority_def eligible_def)

lemma fresh_routes_distinct:
  "distinct (map getRouteIdentity (fresh_routes seen rs)) \<and>
   set (map getRouteIdentity (fresh_routes seen rs)) \<inter> set seen = {} \<and>
   set (fresh_routes seen rs) \<subseteq> set rs"
  by (induction seen rs rule: fresh_routes.induct) auto

text \<open>Every route offered as a fallback is in one of the two lists, and none is lost.\<close>

lemma fresh_routes_complete:
  "r \<in> set rs \<Longrightarrow> getRouteIdentity r \<in> set seen \<union> getRouteIdentity ` set (fresh_routes seen rs)"
  by (induction seen rs rule: fresh_routes.induct) auto

lemma set_slice_to: "set (slice_to n xs) \<subseteq> set xs"
  by (simp add: slice_to_def set_take_subset)

lemma distinct_slice_to: "distinct (map f xs) \<Longrightarrow> distinct (map f (slice_to n xs))"
  by (simp add: slice_to_def distinct_take flip: take_map)

lemma resolve_type: "r \<in> set (resolveFallbackTarget target aliases providers t) \<Longrightarrow> rr_type r = t"
  by (auto simp: resolveFallbackTarget_def Let_def split: option.splits if_splits)

lemma model_route_type: "r \<in> set (getModelRoutes lc providers m t src) \<Longrightarrow> rr_type r = t"
  by (auto simp: getModelRoutes_alt eligible_def)

lemma alias_route_type: "r \<in> set (alias_routes routable providers request) \<Longrightarrow> rr_type r = snd request"
  by (auto simp: alias_routes_def split: option.splits)

lemma custom_route_type: "r \<in> set (custom_routes routable providers policy request) \<Longrightarrow> rr_type r = snd request"
  by (auto simp: custom_routes_def Let_def dest: resolve_type split: if_splits)

lemma site_route_type:
  assumes "r \<in> set (site_policy_routes lc providers policy aliasRs modelRs t)"
    and "\<And>q. q \<in> set aliasRs \<union> set modelRs \<Longrightarrow> rr_type q = t"
  shows "rr_type r = t"
proof (cases policy)
  case None
  then show ?thesis using assms(1) by (simp add: site_policy_routes_def policy_disabled_def)
next
  case (Some p)
  then show ?thesis
    using assms by (cases "fp_modelFallbackMode p") (auto simp: site_policy_routes_def split: if_splits)
qed

lemma fallback_routes_sound:
  "distinct (map getRouteIdentity (fallback_routes policy primary cands))"
  "set (fallback_routes policy primary cands) \<subseteq> set cands"
  "getRouteIdentity ` set (fallback_routes policy primary cands) \<inter> getRouteIdentity ` set primary = {}"
proof -
  let ?f = "fresh_routes (new_Set (map getRouteIdentity primary)) cands"
  have sub: "set (fallback_routes policy primary cands) \<subseteq> set ?f"
    by (simp add: fallback_routes_def set_slice_to)
  show "distinct (map getRouteIdentity (fallback_routes policy primary cands))"
    using fresh_routes_distinct by (simp add: fallback_routes_def distinct_slice_to)
  show "set (fallback_routes policy primary cands) \<subseteq> set cands"
    using sub fresh_routes_distinct by blast
  have "getRouteIdentity ` set ?f \<inter> set (map getRouteIdentity primary) = {}"
    using fresh_routes_distinct [of "new_Set (map getRouteIdentity primary)" cands] by simp
  then show "getRouteIdentity ` set (fallback_routes policy primary cands) \<inter> getRouteIdentity ` set primary = {}"
    using sub by auto
qed

lemma entry_fallbacks:
  "re_fallbackRoutes (build_entry lc routable providers policy request) =
     fallback_routes policy (re_primaryRoutes (build_entry lc routable providers policy request))
       (custom_routes routable providers policy request @
        site_policy_routes lc providers policy (alias_routes routable providers request)
          (getModelRoutes lc providers (fst request) (snd request) From_model) (snd request))"
  unfolding build_entry_def Let_def by simp

lemma entry_primaries:
  "re_primaryRoutes (build_entry lc routable providers policy request) =
     (if alias_routes routable providers request \<noteq> [] then alias_routes routable providers request
      else take 1 (getModelRoutes lc providers (fst request) (snd request) From_model))"
  unfolding build_entry_def Let_def by simp

lemma entry_hidden:
  "re_hiddenRoutes (build_entry lc routable providers policy request) =
     (if alias_routes routable providers request \<noteq> []
      then getModelRoutes lc providers (fst request) (snd request) From_model else [])"
  unfolding build_entry_def Let_def by simp

lemma entry_request:
  "re_requestModel (build_entry lc routable providers policy request) = fst request"
  "re_requestType (build_entry lc routable providers policy request) = snd request"
  unfolding build_entry_def Let_def by simp_all

lemma entry_kind:
  "re_kind (build_entry lc routable providers policy request) = Kind_model \<longleftrightarrow>
     alias_routes routable providers request = []"
  unfolding build_entry_def Let_def by simp

lemma entry_route_type:
  fixes lc routable providers policy request
  defines "e \<equiv> build_entry lc routable providers policy request"
  assumes "r \<in> set (re_primaryRoutes e) \<union> set (re_fallbackRoutes e) \<union> set (re_hiddenRoutes e)"
  shows "rr_type r = snd request"
proof -
  let ?a = "alias_routes routable providers request"
  let ?m = "getModelRoutes lc providers (fst request) (snd request) From_model"
  let ?s = "site_policy_routes lc providers policy ?a ?m (snd request)"
  have "set (re_primaryRoutes e) \<subseteq> set ?a \<union> set ?m"
    unfolding e_def entry_primaries by (cases ?m) auto
  moreover have "set (re_fallbackRoutes e) \<subseteq> set (custom_routes routable providers policy request) \<union> set ?s"
    unfolding e_def entry_fallbacks
    using fallback_routes_sound(2) [of policy _ "custom_routes routable providers policy request @ ?s"] by simp
  moreover have "set (re_hiddenRoutes e) \<subseteq> set ?m"
    unfolding e_def entry_hidden by auto
  ultimately consider "r \<in> set ?a" | "r \<in> set ?m" | "r \<in> set (custom_routes routable providers policy request)"
    | "r \<in> set ?s" using assms(2) by blast
  then show ?thesis
  proof cases
    case 4
    then show ?thesis by (rule site_route_type) (auto dest: alias_route_type model_route_type)
  qed (auto dest: alias_route_type model_route_type custom_route_type)
qed

lemma entries_iff:
  "e \<in> set (buildRouteMapEntries lc aliases providers policy) \<longleftrightarrow>
     (\<exists>request \<in> set (allRequestModels aliases providers).
        e = build_entry lc (routable_aliases aliases providers) providers policy request)"
  by (auto simp: buildRouteMapEntries_def)

lemma set_request_pairs:
  "snd ` set (request_pairs aliases providers) =
     {(m, t). (\<exists>p. eligible providers m t p) \<or>
       (\<exists>a \<in> set aliases. isAliasRoutable a providers \<and> al_alias a = m \<and>
          (\<exists>r \<in> set (getAliasRoutes a providers From_alias). rr_type r = t))}"
  (is "?L = ?R")
proof
  show "?L \<subseteq> ?R"
    by (auto simp: request_pairs_def direct_enabled_def routable_aliases_def eligible_def offers_iff) blast+
  show "?R \<subseteq> ?L"
  proof
    fix x
    assume "x \<in> ?R"
    then obtain m t where x: "x = (m, t)" and "(m, t) \<in> ?R" by (cases x) simp
    then consider p where "eligible providers m t p"
      | a r where "a \<in> set aliases" "isAliasRoutable a providers" "al_alias a = m"
          "r \<in> set (getAliasRoutes a providers From_alias)" "rr_type r = t" by auto
    then have "(request_key t m, m, t) \<in> set (request_pairs aliases providers)"
    proof cases
      case 1
      then show ?thesis
        by (auto simp: request_pairs_def direct_enabled_def eligible_def offers_iff intro!: bexI [of _ p])
    next
      case 2
      then show ?thesis
        by (force simp: request_pairs_def routable_aliases_def intro!: bexI [of _ a])
    qed
    then show "x \<in> ?L" using x by force
  qed
qed

section \<open>A small configuration\<close>

definition sample_provider :: "string \<Rightarrow> int \<Rightarrow> bool \<Rightarrow> string list \<Rightarrow> ProviderInfo" where
  "sample_provider name priority on models =
     \<lparr>pv_channelName = name, pv_type = OpenAI, pv_targetBaseUrl = ''https://x'', pv_systemPrompt = None,
      pv_priority = priority, pv_enabled = on, pv_routingVisibility = Direct,
      pv_models = map (\<lambda>m. \<lparr>pm_model = m, pm_context = None, pm_rest = []\<rparr>) models, pv_auth = None,
      pv_responsesMode = None, pv_extraFields = None, pv_providerUuid = [], pv_healthStatus = None\<rparr>"

definition sample_policy :: "ModelFallbackMode \<Rightarrow> int \<Rightarrow> GatewayFailoverPolicyPayload" where
  "sample_policy mode attempts =
     (let p = \<lparr>fp_enabled = True, fp_retryAttempts = 1, fp_modelFallbackMode = mode,
           fp_maxFallbackAttempts = attempts, fp_customModelFallbacks = [], fp_retryOnTimeout = True,
           fp_retryOnNetworkError = True, fp_retryOnStatusCodes = [429], fp_retryOnStatusRanges = [Range_5xx]\<rparr>;
          lim = \<lparr>lim_min = 0, lim_max = 10\<rparr>
      in \<lparr>fp_enabled = True, fp_retryAttempts = 1, fp_modelFallbackMode = mode,
          fp_maxFallbackAttempts = attempts, fp_customModelFallbacks = [], fp_retryOnTimeout = True,
          fp_retryOnNetworkError = True, fp_retryOnStatusCodes = [429], fp_retryOnStatusRanges = [Range_5xx],
          fpp_ok = True, fpp_defaults = p,
          fpp_limits = \<lparr>fl_retryAttempts = lim, fl_maxFallbackAttempts = lim, fl_customModelFallbackRules = lim,
            fl_customModelFallbacksPerRule = lim\<rparr>, fpp_updatedAt = None\<rparr>)"

definition two_providers :: "ProviderInfo list" where
  "two_providers = [sample_provider ''a'' 1 True [''m''], sample_provider ''b'' 2 True [''m'', ''n'']]"

lemmas sample_simps = two_providers_def sample_provider_def sample_policy_def Let_def

lemma two_providers_requests: "allRequestModels [] two_providers = [(''m'', OpenAI), (''n'', OpenAI)]"
  by (simp add: sample_simps allRequestModels_def request_pairs_def direct_enabled_def
      routable_aliases_def request_key_def new_Map_def)

lemma two_providers_entry:
  "build_entry lc [] two_providers policy (''m'', OpenAI) \<in> set (buildRouteMapEntries lc [] two_providers policy)"
  by (auto simp: entries_iff two_providers_requests routable_aliases_def)

lemma two_providers_eligible:
  "eligible two_providers ''m'' OpenAI (sample_provider ''b'' 2 True [''m'', ''n''])"
  "eligible two_providers ''n'' OpenAI (sample_provider ''b'' 2 True [''m'', ''n''])"
  by (simp_all add: eligible_def sample_simps offers_def)

lemma two_providers_routes:
  "map rr_provider (re_primaryRoutes (build_entry code_point_collation [] two_providers policy (''m'', OpenAI))) = [''b'']"
  "re_kind (build_entry code_point_collation [] two_providers policy (''m'', OpenAI)) = Kind_model"
  by (simp_all add: entry_primaries entry_kind alias_routes_def new_Map_def getModelRoutes_def sample_simps
      sortProvidersByRoutingPriority_def js_sort_def routes_later_def offers_def)

section \<open>Properties\<close>


text \<open>
  Property C1. The fallbacks of an entry are sound: no fallback repeats another or a primary route
  (by provider, protocol and model), every route of the entry speaks the protocol of the request, there
  are at most \<open>maxFallbackAttempts\<close> of them, and none when the policy is off or not loaded.
\<close>
theorem fallbacks_sound:
  assumes "e \<in> set (buildRouteMapEntries lc aliases providers policy)"
  shows "distinct (map getRouteIdentity (re_fallbackRoutes e)) \<and>
    getRouteIdentity ` set (re_fallbackRoutes e) \<inter> getRouteIdentity ` set (re_primaryRoutes e) = {} \<and>
    (\<forall>r \<in> set (re_primaryRoutes e) \<union> set (re_fallbackRoutes e) \<union> set (re_hiddenRoutes e).
       rr_type r = re_requestType e) \<and>
    (case policy of
       None \<Rightarrow> re_fallbackRoutes e = []
     | Some p \<Rightarrow>
         (\<not> fp_enabled p \<longrightarrow> re_fallbackRoutes e = []) \<and>
         (0 \<le> fp_maxFallbackAttempts p \<longrightarrow> int (length (re_fallbackRoutes e)) \<le> fp_maxFallbackAttempts p))"
proof -
  obtain request where e: "e = build_entry lc (routable_aliases aliases providers) providers policy request"
    using assms by (auto simp: entries_iff)
  have "case policy of
       None \<Rightarrow> re_fallbackRoutes e = []
     | Some p \<Rightarrow>
         (\<not> fp_enabled p \<longrightarrow> re_fallbackRoutes e = []) \<and>
         (0 \<le> fp_maxFallbackAttempts p \<longrightarrow> int (length (re_fallbackRoutes e)) \<le> fp_maxFallbackAttempts p)"
    unfolding e entry_fallbacks
    by (auto simp: fallback_routes_def slice_to_def custom_routes_def site_policy_routes_def
        policy_disabled_def split: option.split)
  then show ?thesis
    using fallback_routes_sound(1,3) entry_route_type
    unfolding e entry_request by (simp only: entry_fallbacks) blast
qed

theorem fallbacks_sound_witness:
  "int (length (re_fallbackRoutes (build_entry code_point_collation [] two_providers
     (Some (sample_policy Any_model 1)) (''m'', OpenAI)))) \<le> 1"
  using fallbacks_sound [OF two_providers_entry [of code_point_collation "Some (sample_policy Any_model 1)"]]
  by (simp add: sample_policy_def Let_def)

text \<open>
  Property C2. Without an alias the primary route is the best eligible provider: one of those enabled,
  directly routed, of the request's protocol and offering the model, none of which has a higher
  priority, ties going to the first name in the collation; there is one exactly when one is eligible.
\<close>
theorem primary_route_best:
  assumes "consistent_collation lc"
    and "e \<in> set (buildRouteMapEntries lc aliases providers policy)" and "re_kind e = Kind_model"
  shows "(re_primaryRoutes e = [] \<longleftrightarrow>
       \<not> (\<exists>p. eligible providers (re_requestModel e) (re_requestType e) p)) \<and>
    (\<forall>r \<in> set (re_primaryRoutes e). \<exists>p.
       eligible providers (re_requestModel e) (re_requestType e) p \<and> re_primaryRoutes e = [r] \<and>
       rr_provider r = pv_channelName p \<and> rr_model r = re_requestModel e \<and>
       (\<forall>q. eligible providers (re_requestModel e) (re_requestType e) q \<longrightarrow>
          pv_priority q < pv_priority p \<or>
          pv_priority q = pv_priority p \<and> lc (pv_channelName p) (pv_channelName q) \<le> 0))"
proof -
  obtain request where e: "e = build_entry lc (routable_aliases aliases providers) providers policy request"
    using assms(2) by (auto simp: entries_iff)
  define ps where "ps = filter (eligible providers (fst request) (snd request))
      (sortProvidersByRoutingPriority lc providers)"
  have set: "set ps = {p. eligible providers (fst request) (snd request) p}"
    unfolding ps_def by (rule set_eligible)
  have sorted: "sorted_wrt (\<lambda>x y. \<not> routes_later lc x y) ps"
    unfolding ps_def by (rule sorted_eligible [OF assms(1)])
  have primary: "re_primaryRoutes e = take 1 (getModelRoutes lc providers (fst request) (snd request) From_model)"
    using assms(3) by (simp add: e entry_primaries entry_kind)
  have routes: "re_primaryRoutes e = take 1 (map (\<lambda>p. \<lparr>rr_key = ''model:'' @ pv_channelName p @ '':'' @ fst request,
      rr_provider = pv_channelName p, rr_type = pv_type p, rr_model = fst request, rr_source = From_model,
      rr_modelKnown = True\<rparr>) ps)"
    by (simp only: primary getModelRoutes_alt ps_def source_name.simps) simp
  have req: "re_requestModel e = fst request" "re_requestType e = snd request"
    by (simp_all add: e entry_request)
  show ?thesis
  proof (cases ps)
    case Nil
    then show ?thesis
      using set by (simp add: routes req)
  next
    case (Cons p qs)
    have best: "pv_priority q < pv_priority p \<or>
        pv_priority q = pv_priority p \<and> lc (pv_channelName p) (pv_channelName q) \<le> 0"
      if "eligible providers (fst request) (snd request) q" for q
    proof (cases "q = p")
      case True
      have "lc x x \<le> 0" for x
        using assms(1) unfolding consistent_collation_def by (meson linorder_not_le less_asym)
      then show ?thesis using True by simp
    next
      case False
      with that set Cons have "q \<in> set qs" by auto
      with sorted Cons have "\<not> routes_later lc p q" by simp
      then show ?thesis by (auto simp: routes_later_def split: if_splits)
    qed
    have "eligible providers (fst request) (snd request) p" using set Cons by auto
    then show ?thesis
      using best by (auto simp: routes req Cons)
  qed
qed

theorem primary_route_best_witness:
  "\<exists>p. eligible two_providers ''m'' OpenAI p \<and> pv_channelName p = ''b'' \<and>
     pv_priority (sample_provider ''a'' 1 True [''m'']) < pv_priority p"
proof -
  let ?e = "build_entry code_point_collation [] two_providers None (''m'', OpenAI)"
  obtain r where r: "re_primaryRoutes ?e = [r]" "rr_provider r = ''b''"
    using two_providers_routes(1) [of None] by (auto simp: map_eq_Cons_conv)
  obtain p where p: "eligible two_providers ''m'' OpenAI p" "rr_provider r = pv_channelName p"
    and best: "\<And>q. eligible two_providers ''m'' OpenAI q \<Longrightarrow> pv_priority q < pv_priority p \<or>
      pv_priority q = pv_priority p \<and> code_point_collation (pv_channelName p) (pv_channelName q) \<le> 0"
    using primary_route_best [OF consistent_code_point_collation two_providers_entry two_providers_routes(2)
        [of None]] r(1) by (auto simp: entry_request)
  then show ?thesis
    using r(2) p best [OF two_providers_eligible(1)] by (auto simp: sample_provider_def)
qed

text \<open>
  Property C4. Under the \<open>any_model\<close> policy no candidate is forgotten: an entry with fewer fallbacks than
  allowed already holds, among its primary and fallback routes, every model of the request's protocol
  of every enabled and directly routed provider.
\<close>
theorem any_model_complete:
  assumes "e \<in> set (buildRouteMapEntries lc aliases providers (Some p))"
    and "fp_enabled p" and "fp_modelFallbackMode p = Any_model"
    and "int (length (re_fallbackRoutes e)) < fp_maxFallbackAttempts p"
    and "eligible providers m (re_requestType e) q"
  shows "pv_channelName q @ '':'' @ type_name (re_requestType e) @ '':'' @ m \<in>
    getRouteIdentity ` (set (re_primaryRoutes e) \<union> set (re_fallbackRoutes e))"
proof -
  obtain request where e: "e = build_entry lc (routable_aliases aliases providers) providers (Some p) request"
    using assms(1) by (auto simp: entries_iff)
  define cands where "cands = custom_routes (routable_aliases aliases providers) providers (Some p) request @
      site_policy_routes lc providers (Some p) (alias_routes (routable_aliases aliases providers) providers request)
        (getModelRoutes lc providers (fst request) (snd request) From_model) (snd request)"
  define fresh where "fresh = fresh_routes (new_Set (map getRouteIdentity (re_primaryRoutes e))) cands"
  have fb: "re_fallbackRoutes e = take (nat (fp_maxFallbackAttempts p)) fresh"
    using assms(4) unfolding fresh_def cands_def
    by (subst e, subst entry_fallbacks) (simp add: fallback_routes_def slice_to_def e)
  then have all: "re_fallbackRoutes e = fresh"
    using assms(4) by simp
  obtain x where x: "x \<in> set (pv_models q)" "pm_model x = m"
    using assms(5) by (auto simp: eligible_def offers_iff)
  define r where "r = \<lparr>rr_key = ''any_model:'' @ pv_channelName q @ '':'' @ pm_model x,
      rr_provider = pv_channelName q, rr_type = pv_type q, rr_model = pm_model x,
      rr_source = From_any_model, rr_modelKnown = True\<rparr>"
  have "r \<in> set (anyModelRoutes lc providers)"
    using assms(5) x(1)
    by (auto simp: anyModelRoutes_def sortProvidersByRoutingPriority_def direct_enabled_def eligible_def r_def)
  then have "r \<in> set cands"
    using assms(2,3,5) by (simp add: cands_def site_policy_routes_def policy_disabled_def eligible_def
        r_def e entry_request)
  then have "getRouteIdentity r \<in> getRouteIdentity ` (set (re_primaryRoutes e) \<union> set (re_fallbackRoutes e))"
    using fresh_routes_complete [of r cands "new_Set (map getRouteIdentity (re_primaryRoutes e))"]
    by (auto simp: all fresh_def)
  then show ?thesis
    using assms(5) x(2) by (simp add: getRouteIdentity_def r_def eligible_def)
qed

theorem any_model_complete_witness:
  "''b:openai:n'' \<in> getRouteIdentity `
     (set (re_primaryRoutes (build_entry code_point_collation [] two_providers (Some (sample_policy Any_model 9)) (''m'', OpenAI))) \<union>
      set (re_fallbackRoutes (build_entry code_point_collation [] two_providers (Some (sample_policy Any_model 9)) (''m'', OpenAI))))"
proof -
  let ?p = "sample_policy Any_model 9"
  let ?e = "build_entry code_point_collation [] two_providers (Some ?p) (''m'', OpenAI)"
  have "set (re_fallbackRoutes ?e) \<subseteq> set (anyModelRoutes code_point_collation two_providers)"
    unfolding entry_fallbacks
    by (rule subset_trans [OF fallback_routes_sound(2)])
      (auto simp: custom_routes_def site_policy_routes_def sample_policy_def Let_def policy_disabled_def new_Map_def)
  moreover have "distinct (re_fallbackRoutes ?e)"
    using fallback_routes_sound(1) unfolding entry_fallbacks by (simp only: distinct_map)
  ultimately have "length (re_fallbackRoutes ?e) \<le> card (set (anyModelRoutes code_point_collation two_providers))"
    by (metis List.finite_set card_mono distinct_card)
  also have "\<dots> \<le> length (anyModelRoutes code_point_collation two_providers)" by (rule card_length)
  also have "\<dots> = 3"
    by (simp add: anyModelRoutes_def sortProvidersByRoutingPriority_def js_sort_def direct_enabled_def
        routes_later_def sample_simps)
  finally show ?thesis
    using any_model_complete [OF two_providers_entry [of code_point_collation "Some ?p"], of "''n''"
        "sample_provider ''b'' 2 True [''m'', ''n'']"] two_providers_eligible(2)
    by (simp add: entry_request sample_simps)
qed

end
