(* ===== verification/Gateway_Routing.thy ===== *)
theory Gateway_Routing
  imports Route_Map
begin

text \<open>
  The routing of the gateway itself, \<open>internal/routing/\<close>, \<open>internal/configstore/convert.go\<close> and
  \<open>buildFailoverCandidates\<close> of \<open>internal/gateway/handler.go\<close>: the reference for the route map of the console
  (theory \<open>Route_Map\<close>). Of an entry and a route only what the choice of a route depends on is kept: credentials,
  system prompt and responses mode are copied along by the program. Go maps are association lists with
  distinct distinct keys; the order of their iteration does not matter because the program sorts. Rows the program leaves out (an
  empty key, targets that are no JSON) are no rows here.\<close>

section \<open>The snapshot\<close>

record ConfigEntry =
  ge_Type :: provider_type
  ge_TargetBaseURL :: string
  ge_Models :: "string list"
  ge_Priority :: int
  ge_Enabled :: bool
  ge_RoutingVisibility :: RoutingVisibility

record AliasEntry =
  ae_Provider :: string
  ae_Model :: string
  ae_Targets :: "RouteTarget list"

record Snapshot =
  sn_providers :: "(string \<times> ConfigEntry) list"
  sn_aliases :: "(string \<times> AliasEntry) list"
  sn_uuidIndex :: "(string \<times> string) list"

text \<open>
  The rows of the database as the console API lists them: the entry of a channel, an enabled alias.
\<close>

definition providerRowToEntry :: "ProviderInfo \<Rightarrow> ConfigEntry" where
  "providerRowToEntry row =
     \<lparr>ge_Type = pv_type row, ge_TargetBaseURL = pv_targetBaseUrl row,
      ge_Models = filter (\<lambda>m. m \<noteq> []) (map pm_model (pv_models row)),
      ge_Priority = pv_priority row, ge_Enabled = pv_enabled row, ge_RoutingVisibility = pv_routingVisibility row\<rparr>"

definition buildSnapshot :: "ProviderInfo list \<Rightarrow> ModelAlias list \<Rightarrow> Snapshot" where
  "buildSnapshot providerRows aliasRows =
     \<lparr>sn_providers = new_Map (map (\<lambda>row. (pv_channelName row, providerRowToEntry row)) providerRows),
      sn_aliases = new_Map (map (\<lambda>row. (al_alias row,
          \<lparr>ae_Provider = al_provider row, ae_Model = al_model row, ae_Targets = al_targets row\<rparr>))
        (filter al_enabled aliasRows)),
      sn_uuidIndex = new_Map (map (\<lambda>row. (pv_providerUuid row, pv_channelName row))
        (filter (\<lambda>row. pv_providerUuid row \<noteq> []) providerRows))\<rparr>"

definition ChannelForUUID :: "Snapshot \<Rightarrow> string \<Rightarrow> string" where
  "ChannelForUUID snap uuid = (case map_get (sn_uuidIndex snap) uuid of Some name \<Rightarrow> name | None \<Rightarrow> uuid)"

section \<open>Routes\<close>

record RouteResult =
  rt_ChannelName :: string
  rt_Type :: provider_type
  rt_TargetURL :: string
  rt_ResolvedModel :: string
  rt_VirtualModel :: string

definition IsModelRoutedPath :: "string \<Rightarrow> bool" where
  "IsModelRoutedPath pathname \<longleftrightarrow> pathname = ''/v1'' \<or> starts_with pathname ''/v1/''"

definition InferExpectedType :: "string \<Rightarrow> provider_type option" where
  "InferExpectedType pathname =
     (if pathname = ''/v1/messages'' \<or> starts_with pathname ''/v1/messages?'' then Some Anthropic
      else if IsModelRoutedPath pathname then Some OpenAI else None)"

definition expected_type :: "string \<Rightarrow> provider_type option \<Rightarrow> provider_type option" where
  "expected_type pathname forcedType = (case forcedType of Some t \<Rightarrow> Some t | None \<Rightarrow> InferExpectedType pathname)"

definition isDirectEntry :: "ConfigEntry \<Rightarrow> bool" where
  "isDirectEntry entry \<longleftrightarrow> ge_RoutingVisibility entry = Direct"

definition buildRouteResult :: "string \<Rightarrow> ConfigEntry \<Rightarrow> string \<Rightarrow> string \<Rightarrow> RouteResult" where
  "buildRouteResult channel entry path search =
     (let normalized = (if IsModelRoutedPath path \<and> ge_Type entry = OpenAI
          then (if drop 3 path = [] then ''/'' else drop 3 path) else path)
      in \<lparr>rt_ChannelName = channel, rt_Type = ge_Type entry, rt_TargetURL = ge_TargetBaseURL entry @ normalized @ search,
          rt_ResolvedModel = [], rt_VirtualModel = []\<rparr>)"

text \<open>Priority descending, then the name ascending, byte by byte: \<open>b\<close> goes before \<open>a\<close>.\<close>

definition go_later :: "string \<times> ConfigEntry \<Rightarrow> string \<times> ConfigEntry \<Rightarrow> bool" where
  "go_later a b \<longleftrightarrow>
     (if ge_Priority (snd a) \<noteq> ge_Priority (snd b) then ge_Priority (snd b) > ge_Priority (snd a) else fst b < fst a)"

definition sortedProviders :: "Snapshot \<Rightarrow> (string \<times> ConfigEntry) list" where
  "sortedProviders snap = js_sort go_later (sn_providers snap)"

definition findRoutesByModel :: "Snapshot \<Rightarrow> string \<Rightarrow> provider_type \<Rightarrow> bool \<Rightarrow> (string \<times> ConfigEntry) list" where
  "findRoutesByModel snap model expectedType includeExplicitOnly =
     filter (\<lambda>(ch, entry). ge_Enabled entry \<and> (includeExplicitOnly \<or> isDirectEntry entry) \<and>
         ge_Type entry = expectedType \<and> model \<in> set (ge_Models entry))
       (sortedProviders snap)"

definition resolveExplicitTarget ::
    "Snapshot \<Rightarrow> string \<Rightarrow> string \<Rightarrow> RouteTarget \<Rightarrow> provider_type \<Rightarrow> bool \<Rightarrow> RouteResult option" where
  "resolveExplicitTarget snap pathname search target expectedType requireListedModel =
     (let channel = ChannelForUUID snap (tg_provider target)
      in case map_get (sn_providers snap) channel of
           None \<Rightarrow> None
         | Some entry \<Rightarrow>
             if \<not> ge_Enabled entry \<or> ge_Type entry \<noteq> expectedType then None
             else if requireListedModel \<and> tg_model target \<notin> set (ge_Models entry) then None
             else Some ((buildRouteResult channel entry pathname search)\<lparr>rt_ResolvedModel := tg_model target\<rparr>))"

definition route_identity :: "RouteResult \<Rightarrow> string" where
  \<comment> \<open>\<open>rt.ChannelName + ":" + rt.ResolvedModel + ":" + rt.TargetURL\<close>\<close>
  "route_identity rt = rt_ChannelName rt @ '':'' @ rt_ResolvedModel rt @ '':'' @ rt_TargetURL rt"

fun dedupe_seen :: "string set \<Rightarrow> RouteResult list \<Rightarrow> RouteResult list" where
  "dedupe_seen seen [] = []"
| "dedupe_seen seen (rt # rts) =
     (if route_identity rt \<in> seen then dedupe_seen seen rts
      else rt # dedupe_seen (insert (route_identity rt) seen) rts)"

definition dedupe :: "RouteResult list \<Rightarrow> RouteResult list" where
  "dedupe routes = dedupe_seen {} routes"

definition alias_entry_targets :: "AliasEntry \<Rightarrow> RouteTarget list" where
  "alias_entry_targets alias =
     (if ae_Targets alias = [] then [\<lparr>tg_provider = ae_Provider alias, tg_model = ae_Model alias\<rparr>] else ae_Targets alias)"

text \<open>The loop over the targets of an alias, which both resolvers run.\<close>

definition resolveAliasFallback :: "Snapshot \<Rightarrow> string \<Rightarrow> string \<Rightarrow> string \<Rightarrow> provider_type \<Rightarrow> RouteResult list" where
  "resolveAliasFallback snap pathname search alias expectedType =
     (case map_get (sn_aliases snap) alias of
        None \<Rightarrow> []
      | Some a \<Rightarrow> map (\<lambda>rt. rt\<lparr>rt_VirtualModel := alias\<rparr>)
          (List.map_filter (\<lambda>t. resolveExplicitTarget snap pathname search t expectedType False) (alias_entry_targets a)))"

definition ResolveRoutesByModel ::
    "Snapshot \<Rightarrow> string \<Rightarrow> string \<Rightarrow> string \<Rightarrow> provider_type option \<Rightarrow> RouteResult list" where
  "ResolveRoutesByModel snap pathname search model forcedType =
     (if \<not> IsModelRoutedPath pathname then []
      else case expected_type pathname forcedType of
          None \<Rightarrow> []
        | Some expectedType \<Rightarrow>
            if map_get (sn_aliases snap) model \<noteq> None
            then dedupe (resolveAliasFallback snap pathname search model expectedType)
            else map (\<lambda>(ch, entry). buildRouteResult ch entry pathname search)
              (findRoutesByModel snap model expectedType False))"

section \<open>Failover\<close>

definition resolveChannelModelFallback ::
    "Snapshot \<Rightarrow> string \<Rightarrow> string \<Rightarrow> string \<Rightarrow> provider_type \<Rightarrow> RouteResult option" where
  "resolveChannelModelFallback snap pathname search spec expectedType =
     (case index_of (CHR '':'') spec of
        None \<Rightarrow> None
      | Some idx \<Rightarrow>
          if idx = 0 \<or> idx = length spec - 1 then None
          else
            (let channelOrUUID = trim (take idx spec); model = trim (drop (idx + 1) spec);
                 channel = ChannelForUUID snap channelOrUUID
             in if channelOrUUID = [] \<or> model = [] then None
                else case map_get (sn_providers snap) channel of
                    None \<Rightarrow> None
                  | Some entry \<Rightarrow>
                      if \<not> ge_Enabled entry \<or> ge_Type entry \<noteq> expectedType then None
                      else if model \<notin> set (ge_Models entry) then None
                      else resolveExplicitTarget snap pathname search \<lparr>tg_provider = channel, tg_model = model\<rparr> expectedType False))"

definition ResolveRoutesForFallbackModels ::
    "Snapshot \<Rightarrow> string \<Rightarrow> string \<Rightarrow> string list \<Rightarrow> provider_type option \<Rightarrow> RouteResult list" where
  "ResolveRoutesForFallbackModels snap pathname search fallbackModels forcedType =
     (if \<not> IsModelRoutedPath pathname then []
      else case expected_type pathname forcedType of
          None \<Rightarrow> []
        | Some expectedType \<Rightarrow>
            dedupe (concat (map (\<lambda>fb.
              if map_get (sn_aliases snap) fb \<noteq> None then resolveAliasFallback snap pathname search fb expectedType
              else (case resolveChannelModelFallback snap pathname search fb expectedType of None \<Rightarrow> [] | Some rt \<Rightarrow> [rt]))
            fallbackModels)))"

definition ResolveRoutesForAnyModelFallback ::
    "Snapshot \<Rightarrow> string \<Rightarrow> string \<Rightarrow> provider_type option \<Rightarrow> RouteResult list" where
  "ResolveRoutesForAnyModelFallback snap pathname search forcedType =
     (if \<not> IsModelRoutedPath pathname then []
      else case expected_type pathname forcedType of
          None \<Rightarrow> []
        | Some expectedType \<Rightarrow>
            concat (map (\<lambda>(ch, entry). map (\<lambda>model.
                (buildRouteResult ch entry pathname search)\<lparr>rt_ResolvedModel := model\<rparr>) (ge_Models entry))
              (filter (\<lambda>(ch, entry). ge_Enabled entry \<and> isDirectEntry entry \<and> ge_Type entry = expectedType)
                (sortedProviders snap))))"

definition CustomFallbackModels :: "GatewayFailoverPolicyPayload \<Rightarrow> string \<Rightarrow> string list" where
  "CustomFallbackModels p requestedModel =
     (let model = trim requestedModel
      in if model = [] then []
         else case find (\<lambda>rule. cf_model rule = model) (fp_customModelFallbacks p) of
             Some rule \<Rightarrow> cf_fallbacks rule | None \<Rightarrow> [])"

definition buildFailoverCandidates ::
    "Snapshot \<Rightarrow> RouteResult list \<Rightarrow> string \<Rightarrow> string \<Rightarrow> string \<Rightarrow> provider_type option \<Rightarrow>
     GatewayFailoverPolicyPayload \<Rightarrow> RouteResult list" where
  \<comment> \<open>for a request without an explicit channel\<close>
  "buildFailoverCandidates snap initial model pathname search forcedType policy =
     (if \<not> fp_enabled policy \<or> fp_maxFallbackAttempts policy \<le> 0 then initial
      else
        (let fbModels = CustomFallbackModels policy model;
             custom = (if fbModels \<noteq> [] then ResolveRoutesForFallbackModels snap pathname search fbModels forcedType else []);
             site = (case fp_modelFallbackMode policy of
                 Any_model \<Rightarrow> ResolveRoutesForAnyModelFallback snap pathname search forcedType
               | Same_model \<Rightarrow> initial
               | Fallback_disabled \<Rightarrow> [])
         in dedupe (initial @ custom @ site)))"

text \<open>The part of \<open>handleProxy\<close> that decides which routes are tried for a request, in order.\<close>

definition gateway_candidates ::
    "Snapshot \<Rightarrow> string \<Rightarrow> string \<Rightarrow> string \<Rightarrow> provider_type option \<Rightarrow>
     GatewayFailoverPolicyPayload \<Rightarrow> RouteResult list" where
  "gateway_candidates snap lookupPath search requestedModel typeForced policy =
     (let candidates = ResolveRoutesByModel snap lookupPath search requestedModel typeForced
      in if candidates = [] then []
         else buildFailoverCandidates snap candidates requestedModel lookupPath search typeForced policy)"

section \<open>The snapshot of the rows\<close>

lemma snapshot_providers:
  "distinct (map pv_channelName ps) \<Longrightarrow>
   sn_providers (buildSnapshot ps as) = map (\<lambda>row. (pv_channelName row, providerRowToEntry row)) ps"
  by (simp add: buildSnapshot_def new_Map_id comp_def)

lemma snapshot_alias:
  "map_get (sn_aliases (buildSnapshot ps as)) m =
     map_option (\<lambda>row. \<lparr>ae_Provider = al_provider row, ae_Model = al_model row, ae_Targets = al_targets row\<rparr>)
       (find (\<lambda>row. al_enabled row \<and> al_alias row = m) (rev as))"
proof -
  have "map_of (map (\<lambda>row. (al_alias row, f row)) (filter al_enabled xs)) m =
      map_option f (find (\<lambda>row. al_enabled row \<and> al_alias row = m) xs)" for f :: "ModelAlias \<Rightarrow> AliasEntry" and xs
    by (induction xs) auto
  then show ?thesis by (simp add: buildSnapshot_def map_get_new_Map rev_map rev_filter)
qed

lemma snapshot_no_alias:
  "(\<And>a. a \<in> set as \<Longrightarrow> al_enabled a \<Longrightarrow> al_alias a \<noteq> m) \<Longrightarrow> map_get (sn_aliases (buildSnapshot ps as)) m = None"
  by (auto simp: snapshot_alias find_None_iff)

lemma entry_fields [simp]:
  "ge_Type (providerRowToEntry row) = pv_type row" "ge_Priority (providerRowToEntry row) = pv_priority row"
  "ge_Enabled (providerRowToEntry row) = pv_enabled row"
  "isDirectEntry (providerRowToEntry row) \<longleftrightarrow> pv_routingVisibility row = Direct"
  "m \<in> set (ge_Models (providerRowToEntry row)) \<longleftrightarrow> m \<noteq> [] \<and> offers row m"
  by (auto simp: providerRowToEntry_def isDirectEntry_def offers_iff)

text \<open>The gateway's order is the console's under the collation of code points.\<close>

lemma go_later_rows:
  "go_later (pv_channelName a, providerRowToEntry a) (pv_channelName b, providerRowToEntry b) \<longleftrightarrow>
     routes_later code_point_collation a b"
  by (auto simp: go_later_def routes_later_def code_point_collation_def)

lemma sort_insert_map: "sort_insert gt (f x) (map f xs) = map f (sort_insert (\<lambda>a b. gt (f a) (f b)) x xs)"
  by (induction xs) auto

lemma js_sort_map: "js_sort gt (map f xs) = map f (js_sort (\<lambda>a b. gt (f a) (f b)) xs)"
  by (induction xs) (simp_all add: js_sort_Cons sort_insert_map)

lemma sortedProviders_rows:
  "distinct (map pv_channelName ps) \<Longrightarrow>
   sortedProviders (buildSnapshot ps as) =
     map (\<lambda>row. (pv_channelName row, providerRowToEntry row)) (sortProvidersByRoutingPriority code_point_collation ps)"
  by (simp add: sortedProviders_def snapshot_providers js_sort_map go_later_rows sortProvidersByRoutingPriority_def)

lemma findRoutesByModel_rows:
  assumes "distinct (map pv_channelName ps)" and "m \<noteq> []"
  shows "findRoutesByModel (buildSnapshot ps as) m t False =
    map (\<lambda>row. (pv_channelName row, providerRowToEntry row))
      (filter (eligible ps m t) (sortProvidersByRoutingPriority code_point_collation ps))"
  using assms(2)
  by (auto simp: findRoutesByModel_def sortedProviders_rows [OF assms(1)] filter_map comp_def eligible_def
      sortProvidersByRoutingPriority_def intro!: arg_cong [where f = "map _"] filter_cong)

section \<open>Routes without repetition\<close>

lemma dedupe_seen_id:
  "distinct (map route_identity rts) \<Longrightarrow> route_identity ` set rts \<inter> seen = {} \<Longrightarrow> dedupe_seen seen rts = rts"
  by (induction rts arbitrary: seen) auto

lemma dedupe_id: "distinct (map route_identity rts) \<Longrightarrow> dedupe rts = rts"
  by (simp add: dedupe_def dedupe_seen_id)

lemma dedupe_seen_absorb: "route_identity ` set ys \<subseteq> seen \<Longrightarrow> dedupe_seen seen ys = []"
  by (induction ys) auto

lemma dedupe_seen_append:
  "dedupe_seen seen (xs @ ys) = dedupe_seen seen xs @ dedupe_seen (seen \<union> route_identity ` set xs) ys"
  by (induction xs arbitrary: seen) (auto simp: insert_absorb)

lemma dedupe_twice: "dedupe (xs @ xs) = dedupe xs"
  by (simp add: dedupe_def dedupe_seen_append dedupe_seen_absorb)

lemma until_colon: "CHR '':'' \<notin> set a \<Longrightarrow> takeWhile (\<lambda>c. c \<noteq> CHR '':'') (a @ '':'' @ rest) = a"
  by (simp add: takeWhile_append)

lemma colon_inject:
  "CHR '':'' \<notin> set a \<Longrightarrow> CHR '':'' \<notin> set b \<Longrightarrow> a @ '':'' @ x = b @ '':'' @ y \<Longrightarrow> a = b"
  by (metis until_colon)

lemma fresh_routes_id:
  "distinct (map getRouteIdentity rs) \<Longrightarrow> getRouteIdentity ` set rs \<inter> set seen = {} \<Longrightarrow> fresh_routes seen rs = rs"
  by (induction seen rs rule: fresh_routes.induct) auto

section \<open>A model without an alias\<close>

definition eligible_rows :: "ProviderInfo list \<Rightarrow> string \<Rightarrow> provider_type \<Rightarrow> ProviderInfo list" where
  "eligible_rows ps m t = filter (eligible ps m t) (sortProvidersByRoutingPriority code_point_collation ps)"

lemma eligible_rows_distinct:
  assumes "distinct (map pv_channelName ps)"
  shows "distinct (map pv_channelName (eligible_rows ps m t))"
proof -
  have "mset (map pv_channelName (sortProvidersByRoutingPriority lc ps)) = mset (map pv_channelName ps)" for lc
    by (simp add: sortProvidersByRoutingPriority_def)
  then have "distinct (map pv_channelName (sortProvidersByRoutingPriority code_point_collation ps))"
    using assms mset_eq_imp_distinct_iff by blast
  then show ?thesis by (simp add: eligible_rows_def distinct_map_filter)
qed

lemma initial_routes:
  assumes "distinct (map pv_channelName ps)" and "m \<noteq> []" and "IsModelRoutedPath path"
    and "expected_type path forced = Some t"
    and "\<And>a. a \<in> set as \<Longrightarrow> al_enabled a \<Longrightarrow> al_alias a \<noteq> m"
  shows "ResolveRoutesByModel (buildSnapshot ps as) path search m forced =
    map (\<lambda>row. buildRouteResult (pv_channelName row) (providerRowToEntry row) path search) (eligible_rows ps m t)"
  using assms
  by (simp add: ResolveRoutesByModel_def snapshot_no_alias findRoutesByModel_rows eligible_rows_def)

lemma built_identity:
  "route_identity (buildRouteResult ch entry path search) =
     ch @ '':'' @ '':'' @ rt_TargetURL (buildRouteResult ch entry path search)"
  by (simp add: route_identity_def buildRouteResult_def Let_def)

lemma initial_distinct:
  assumes "distinct (map pv_channelName rows)" and "\<And>p. p \<in> set rows \<Longrightarrow> CHR '':'' \<notin> set (pv_channelName p)"
  shows "distinct (map route_identity
    (map (\<lambda>row. buildRouteResult (pv_channelName row) (providerRowToEntry row) path search) rows))"
  using assms
proof (induction rows)
  case (Cons p rows)
  have "pv_channelName q \<noteq> pv_channelName p" "CHR '':'' \<notin> set (pv_channelName q)" if "q \<in> set rows" for q
    using Cons.prems that by (auto simp: image_iff)
  moreover have "a = b" if "CHR '':'' \<notin> set a" "CHR '':'' \<notin> set b"
      "route_identity (buildRouteResult a e path search) = route_identity (buildRouteResult b f path search)" for a b e f
    using that unfolding built_identity by (rule colon_inject)
  ultimately have "route_identity (buildRouteResult (pv_channelName p) (providerRowToEntry p) path search) \<noteq>
      route_identity (buildRouteResult (pv_channelName q) (providerRowToEntry q) path search)" if "q \<in> set rows" for q
    using that Cons.prems(2) by (metis list.set_intros(1))
  with Cons show ?case by auto
qed simp

lemma candidates_of_initial:
  assumes "distinct (map route_identity initial)" and "fp_enabled policy" and "0 \<le> fp_maxFallbackAttempts policy"
    and "fp_modelFallbackMode policy \<noteq> Any_model" and "CustomFallbackModels policy m = []"
  shows "buildFailoverCandidates snap initial m path search forced policy = initial"
  using assms by (cases "fp_modelFallbackMode policy") (simp_all add: buildFailoverCandidates_def dedupe_id dedupe_twice)

lemma no_custom_models:
  assumes "trim m \<notin> cf_model ` set (fp_customModelFallbacks p)"
  shows "CustomFallbackModels p m = []"
proof -
  have "find (\<lambda>rule. cf_model rule = trim m) (fp_customModelFallbacks p) = None"
    using assms by (metis (mono_tags, lifting) find_None_iff image_eqI)
  then show ?thesis by (simp add: CustomFallbackModels_def Let_def)
qed

lemma map_has_no_alias:
  assumes "\<And>a. a \<in> set as \<Longrightarrow> al_enabled a \<Longrightarrow> al_alias a \<noteq> m"
  shows "alias_routes (routable_aliases as ps) ps (m, t) = []"
proof -
  have "m \<notin> al_alias ` set (routable_aliases as ps)"
    using assms by (auto simp: routable_aliases_def isAliasRoutable_def)
  then have "map_get (new_Map (map (\<lambda>a. (al_alias a, a)) (routable_aliases as ps))) m = None"
    by (auto simp: map_get_new_Map map_of_eq_None_iff image_image)
  then show ?thesis by (simp add: alias_routes_def)
qed

lemma map_has_no_custom:
  assumes "m \<notin> cf_model ` set (fp_customModelFallbacks p)"
  shows "custom_routes as ps (Some p) (m, t) = []"
proof -
  have "map_get (new_Map (map (\<lambda>rule. (cf_model rule, cf_fallbacks rule)) (fp_customModelFallbacks p))) m = None"
    using assms by (auto simp: map_get_new_Map map_of_eq_None_iff image_image)
  then show ?thesis by (simp add: custom_routes_def)
qed

text \<open>What the route map shows in the same case: the eligible channels in order, the first as the route.\<close>

lemma map_model_routes:
  fixes ps m t src
  defines "rs \<equiv> getModelRoutes code_point_collation ps m t src"
  shows "map rr_provider rs = map pv_channelName (eligible_rows ps m t)"
    and "distinct (map pv_channelName ps) \<Longrightarrow> distinct (map getRouteIdentity rs)"
proof -
  show eq: "map rr_provider rs = map pv_channelName (eligible_rows ps m t)"
    by (simp add: rs_def getModelRoutes_alt eligible_rows_def)
  have same: "rr_type r = t \<and> rr_model r = m" if "r \<in> set rs" for r
    using that by (auto simp: rs_def getModelRoutes_alt eligible_def)
  assume "distinct (map pv_channelName ps)"
  then have "distinct (map rr_provider rs)" unfolding eq by (rule eligible_rows_distinct)
  with same show "distinct (map getRouteIdentity rs)"
    by (auto simp: distinct_map inj_on_def getRouteIdentity_def)
qed

lemma same_model_fallbacks:
  assumes "distinct (map getRouteIdentity rs)" and "0 \<le> fp_maxFallbackAttempts p"
  shows "fallback_routes (Some p) (take 1 rs) rs = take (nat (fp_maxFallbackAttempts p)) (drop 1 rs)"
proof (cases rs)
  case (Cons r qs)
  then have "fresh_routes (new_Set [getRouteIdentity r]) qs = qs"
    using assms(1) by (intro fresh_routes_id) auto
  then show ?thesis
    using Cons assms(2) set_new_Set [of "[getRouteIdentity r]"]
    by (simp add: fallback_routes_def slice_to_def set_add_def)
qed (use assms in \<open>simp add: fallback_routes_def slice_to_def\<close>)

section \<open>Aliases\<close>

text \<open>
  The rows are well formed: the names of the channels are distinct and hold no colon, and the identifier of a
  channel is no other channel's identifier or name.
\<close>

definition rows_ok :: "ProviderInfo list \<Rightarrow> bool" where
  "rows_ok ps \<longleftrightarrow>
     distinct (map pv_channelName ps) \<and> (\<forall>p \<in> set ps. CHR '':'' \<notin> set (pv_channelName p)) \<and>
     (\<forall>p \<in> set ps. \<forall>q \<in> set ps. pv_providerUuid p \<noteq> [] \<longrightarrow>
        pv_providerUuid p = pv_providerUuid q \<or> pv_providerUuid p = pv_channelName q \<longrightarrow> p = q)"

lemma find_provider_SomeD:
  "find_provider ps ref = Some p \<Longrightarrow> p \<in> set ps \<and> (pv_providerUuid p \<noteq> [] \<and> pv_providerUuid p = ref \<or> pv_channelName p = ref)"
  by (auto simp: find_provider_def find_Some_iff getProviderRef_def split: if_splits)

lemma find_provider_NoneD:
  "find_provider ps ref = None \<Longrightarrow> p \<in> set ps \<Longrightarrow>
   pv_channelName p \<noteq> ref \<and> (pv_providerUuid p \<noteq> [] \<longrightarrow> pv_providerUuid p \<noteq> ref)"
  by (auto simp: find_provider_def find_None_iff getProviderRef_def)

lemma snapshot_uuid:
  assumes "rows_ok ps" and "p \<in> set ps" and "pv_providerUuid p \<noteq> []"
  shows "map_get (sn_uuidIndex (buildSnapshot ps as)) (pv_providerUuid p) = Some (pv_channelName p)"
proof -
  let ?qs = "map (\<lambda>row. (pv_providerUuid row, pv_channelName row)) (rev (filter (\<lambda>row. pv_providerUuid row \<noteq> []) ps))"
  have "(pv_providerUuid p, pv_channelName p) \<in> set ?qs" using assms by simp
  then have "pv_providerUuid p \<in> fst ` set ?qs" by (rule image_eqI [rotated]) simp
  then have "map_of ?qs (pv_providerUuid p) \<noteq> None" by (metis map_of_eq_None_iff)
  then obtain n where n: "map_of ?qs (pv_providerUuid p) = Some n" by blast
  then have "(pv_providerUuid p, n) \<in> set ?qs" by (rule map_of_SomeD)
  then have "n = pv_channelName p" using assms by (auto simp: rows_ok_def)
  with n show ?thesis by (simp add: buildSnapshot_def map_get_new_Map rev_map)
qed

lemma snapshot_no_uuid:
  assumes "\<And>p. p \<in> set ps \<Longrightarrow> pv_providerUuid p \<noteq> [] \<Longrightarrow> pv_providerUuid p \<noteq> ref"
  shows "ChannelForUUID (buildSnapshot ps as) ref = ref"
proof -
  have "map_get (sn_uuidIndex (buildSnapshot ps as)) ref = None"
    using assms by (auto simp: buildSnapshot_def map_get_new_Map map_of_eq_None_iff) blast
  then show ?thesis by (simp add: ChannelForUUID_def)
qed

lemma ChannelForUUID_found:
  assumes "rows_ok ps" and "find_provider ps ref = Some p"
  shows "ChannelForUUID (buildSnapshot ps as) ref = pv_channelName p"
proof (cases "pv_providerUuid p \<noteq> [] \<and> pv_providerUuid p = ref")
  case True
  then show ?thesis
    using snapshot_uuid [OF assms(1)] find_provider_SomeD [OF assms(2)] by (auto simp: ChannelForUUID_def)
next
  case False
  then have ref: "pv_channelName p = ref" "p \<in> set ps" using find_provider_SomeD [OF assms(2)] by auto
  have "pv_providerUuid q \<noteq> ref" if "q \<in> set ps" "pv_providerUuid q \<noteq> []" for q
    using that ref assms(1) False by (auto simp: rows_ok_def)
  then show ?thesis using ref snapshot_no_uuid by auto
qed

lemma snapshot_entry:
  assumes "rows_ok ps" and "p \<in> set ps"
  shows "map_get (sn_providers (buildSnapshot ps as)) (pv_channelName p) = Some (providerRowToEntry p)"
proof -
  have "distinct (map pv_channelName ps)" using assms(1) by (simp add: rows_ok_def)
  then show ?thesis
    using assms(2) by (auto simp: snapshot_providers comp_def intro!: map_of_is_SomeI)
qed

lemma provider_of_ref:
  assumes "rows_ok ps"
  shows "map_get (sn_providers (buildSnapshot ps as)) (ChannelForUUID (buildSnapshot ps as) ref) =
    map_option providerRowToEntry (find_provider ps ref)"
proof (cases "find_provider ps ref")
  case None
  have "ChannelForUUID (buildSnapshot ps as) ref = ref"
    using find_provider_NoneD [OF None] by (intro snapshot_no_uuid) blast
  moreover have "map_get (sn_providers (buildSnapshot ps as)) ref = None"
    using assms find_provider_NoneD [OF None]
    by (auto simp: rows_ok_def snapshot_providers map_of_eq_None_iff) blast
  ultimately show ?thesis using None by simp
next
  case (Some p)
  then show ?thesis
    using ChannelForUUID_found [OF assms] snapshot_entry [OF assms] find_provider_SomeD [OF Some] by simp
qed

text \<open>A target of an alias: alive in the map when its channel exists and is enabled.\<close>

definition live_route :: "ProviderInfo list \<Rightarrow> RouteMapRoute \<Rightarrow> bool" where
  "live_route ps r \<longleftrightarrow> (\<exists>p \<in> set ps. pv_channelName p = rr_provider r \<and> pv_enabled p)"

lemma alias_route_fields [simp]:
  "rr_provider (getAliasRoute a ps src target) =
     (case find_provider ps (tg_provider target) of Some p \<Rightarrow> pv_channelName p | None \<Rightarrow> tg_provider target)"
  "rr_type (getAliasRoute a ps src target) =
     (case find_provider ps (tg_provider target) of Some p \<Rightarrow> pv_type p | None \<Rightarrow> OpenAI)"
  "rr_model (getAliasRoute a ps src target) = tg_model target"
  by (simp_all add: getAliasRoute_def Let_def)

lemma live_target:
  assumes "rows_ok ps"
  shows "live_route ps (getAliasRoute a ps src target) \<longleftrightarrow>
    (case find_provider ps (tg_provider target) of Some p \<Rightarrow> pv_enabled p | None \<Rightarrow> False)"
proof (cases "find_provider ps (tg_provider target)")
  case None
  then show ?thesis using find_provider_NoneD [OF None] by (auto simp: live_route_def)
next
  case (Some p)
  have "p \<in> set ps" using find_provider_SomeD [OF Some] by blast
  moreover have "q = p" if "q \<in> set ps" "pv_channelName q = pv_channelName p" for q
    using that \<open>p \<in> set ps\<close> assms by (auto simp: rows_ok_def distinct_map inj_on_def)
  ultimately show ?thesis using Some by (auto simp: live_route_def)
qed

lemma resolve_target:
  assumes "rows_ok ps"
  shows "resolveExplicitTarget (buildSnapshot ps as) path search target t False =
    (case find_provider ps (tg_provider target) of
       None \<Rightarrow> None
     | Some p \<Rightarrow> if pv_enabled p \<and> pv_type p = t
         then Some ((buildRouteResult (pv_channelName p) (providerRowToEntry p) path search)\<lparr>rt_ResolvedModel := tg_model target\<rparr>)
         else None)"
  using ChannelForUUID_found [OF assms]
  by (simp add: resolveExplicitTarget_def Let_def provider_of_ref [OF assms] split: option.split)

lemma built_fields [simp]:
  "rt_ChannelName (buildRouteResult ch e path search) = ch"
  "rt_Type (buildRouteResult ch e path search) = ge_Type e"
  by (simp_all add: buildRouteResult_def Let_def)

lemma map_filter_agree:
  assumes "\<And>x. x \<in> set xs \<Longrightarrow> case g x of None \<Rightarrow> \<not> P (f x) | Some y \<Rightarrow> P (f x) \<and> h y = k (f x)"
  shows "map h (List.map_filter g xs) = map k (filter P (map f xs))"
  using assms
proof (induction xs)
  case (Cons x xs)
  then show ?case using Cons.prems [of x] by (cases "g x") (simp_all add: map_filter_simps)
qed (simp add: map_filter_simps)

lemma alias_targets_agree:
  assumes "rows_ok ps"
  shows "map (\<lambda>rt. (rt_ChannelName rt, rt_ResolvedModel rt))
      (List.map_filter (\<lambda>t'. resolveExplicitTarget (buildSnapshot ps as) path search t' t False) targets) =
    map (\<lambda>r. (rr_provider r, rr_model r))
      (filter (live_route ps) (filter (\<lambda>r. rr_type r = t) (map (getAliasRoute a ps src) targets)))"
  unfolding filter_filter
proof (rule map_filter_agree)
  fix target
  show "case resolveExplicitTarget (buildSnapshot ps as) path search target t False of
      None \<Rightarrow> \<not> (rr_type (getAliasRoute a ps src target) = t \<and> live_route ps (getAliasRoute a ps src target))
    | Some rt \<Rightarrow> (rr_type (getAliasRoute a ps src target) = t \<and> live_route ps (getAliasRoute a ps src target)) \<and>
        (rt_ChannelName rt, rt_ResolvedModel rt) =
          (rr_provider (getAliasRoute a ps src target), rr_model (getAliasRoute a ps src target))"
    by (cases "find_provider ps (tg_provider target)") (auto simp: live_target [OF assms] resolve_target [OF assms])
qed

lemma find_unique:
  assumes "a \<in> set xs" and "P a" and "\<And>b. b \<in> set xs \<Longrightarrow> P b \<Longrightarrow> b = a"
  shows "find P xs = Some a"
proof (cases "find P xs")
  case None
  with assms(1,2) show ?thesis unfolding find_None_iff by blast
next
  case (Some b)
  then have "b \<in> set xs" "P b" unfolding find_Some_iff by (metis nth_mem)+
  then have "b = a" by (rule assms(3))
  with Some show ?thesis by simp
qed

lemma alias_found:
  assumes "a \<in> set as" and "al_enabled a" and "distinct (map al_alias as)"
  shows "find (\<lambda>row. al_enabled row \<and> al_alias row = al_alias a) (rev as) = Some a"
  using assms by (intro find_unique) (auto simp: distinct_map dest: inj_onD)

lemma gateway_alias_routes:
  assumes "rows_ok ps" and "a \<in> set as" and "al_enabled a" and "distinct (map al_alias as)"
  shows "map (\<lambda>rt. (rt_ChannelName rt, rt_ResolvedModel rt))
      (resolveAliasFallback (buildSnapshot ps as) path search (al_alias a) t) =
    map (\<lambda>r. (rr_provider r, rr_model r))
      (filter (live_route ps) (filter (\<lambda>r. rr_type r = t) (getAliasRoutes a ps From_alias)))"
proof -
  have "alias_entry_targets \<lparr>ae_Provider = al_provider a, ae_Model = al_model a, ae_Targets = al_targets a\<rparr> =
      getAliasTargets a"
    by (simp add: alias_entry_targets_def getAliasTargets_def)
  then show ?thesis
    using alias_targets_agree [OF assms(1), where a = a and src = From_alias]
    by (simp add: resolveAliasFallback_def snapshot_alias alias_found [OF assms(2-4)] getAliasRoutes_def comp_def)
qed

lemma routable_alias_found:
  assumes "a \<in> set as" and "distinct (map al_alias as)" and "isAliasRoutable a ps"
  shows "alias_routes (routable_aliases as ps) ps (al_alias a, t) =
    filter (\<lambda>r. rr_type r = t) (getAliasRoutes a ps From_alias)"
proof -
  have dist: "distinct (map fst (map (\<lambda>a. (al_alias a, a)) (routable_aliases as ps)))"
    using assms(2) by (simp add: routable_aliases_def comp_def distinct_map_filter)
  have "(al_alias a, a) \<in> set (map (\<lambda>a. (al_alias a, a)) (routable_aliases as ps))"
    using assms(1,3) by (auto simp: routable_aliases_def)
  with dist have "map_get (new_Map (map (\<lambda>a. (al_alias a, a)) (routable_aliases as ps))) (al_alias a) = Some a"
    by (simp only: new_Map_id map_of_is_SomeI)
  then show ?thesis by (simp add: alias_routes_def)
qed

text \<open>The route map looks an alias up among the routable ones: what it finds has the same live routes.\<close>

lemma map_alias_routes:
  assumes "rows_ok ps" and "a \<in> set as" and "al_enabled a" and "distinct (map al_alias as)"
  shows "filter (live_route ps) (alias_routes (routable_aliases as ps) ps (al_alias a, t)) =
    filter (live_route ps) (filter (\<lambda>r. rr_type r = t) (getAliasRoutes a ps From_alias))"
proof (cases "isAliasRoutable a ps")
  case True
  then show ?thesis by (simp add: routable_alias_found [OF assms(2,4)])
next
  case False
  have "al_alias a \<notin> al_alias ` set (routable_aliases as ps)"
    using False assms(2,4) by (auto simp: routable_aliases_def distinct_map inj_on_def)
  then have "map_get (new_Map (map (\<lambda>a. (al_alias a, a)) (routable_aliases as ps))) (al_alias a) = None"
    by (auto simp: map_get_new_Map map_of_eq_None_iff image_image)
  moreover have "\<not> live_route ps r" if "r \<in> set (getAliasRoutes a ps From_alias)" for r
    using that False assms(3)
    by (auto simp: getAliasRoutes_def live_target [OF assms(1)] isAliasRoutable_def list_ex_iff split: option.splits)
  ultimately show ?thesis by (auto simp: alias_routes_def filter_empty_conv)
qed

section \<open>A configuration with an alias\<close>

definition spoken :: "provider_type \<Rightarrow> ProviderInfo \<Rightarrow> ProviderInfo" where
  "spoken t p = p\<lparr>pv_type := t\<rparr>"

definition sample_alias :: "string \<Rightarrow> RouteTarget list \<Rightarrow> ModelAlias" where
  "sample_alias name targets =
     \<lparr>al_id = 1, al_alias = name, al_provider = [], al_model = [], al_targets = targets, al_description = None,
      al_visible = True, al_enabled = True, al_createdAt = 0, al_updatedAt = 0\<rparr>"

text \<open>The alias \<open>m\<close> leads to an Anthropic channel; an OpenAI channel lists a model of that name as well.\<close>

definition shadowing_rows :: "ProviderInfo list" where
  "shadowing_rows = [sample_provider ''a'' 1 True [''m''], spoken Anthropic (sample_provider ''b'' 2 True [''n''])]"

definition shadowing_alias :: ModelAlias where
  "shadowing_alias = sample_alias ''m'' [\<lparr>tg_provider = ''b'', tg_model = ''n''\<rparr>]"

lemma rows_ok_samples: "rows_ok two_providers" "rows_ok shadowing_rows"
  by (simp_all add: rows_ok_def sample_simps shadowing_rows_def spoken_def)

lemma shadowing_alias_fields [simp]: "al_alias shadowing_alias = ''m''" "al_enabled shadowing_alias"
  by (simp_all add: shadowing_alias_def sample_alias_def)

lemma shadowing_routes:
  "getAliasRoutes shadowing_alias shadowing_rows From_alias =
     [getAliasRoute shadowing_alias shadowing_rows From_alias \<lparr>tg_provider = ''b'', tg_model = ''n''\<rparr>]"
  "find_provider shadowing_rows ''b'' = Some (spoken Anthropic (sample_provider ''b'' 2 True [''n'']))"
  "isAliasRoutable shadowing_alias shadowing_rows"
  by (simp_all add: getAliasRoutes_def getAliasTargets_def shadowing_alias_def sample_alias_def find_provider_def
      shadowing_rows_def spoken_def sample_provider_def getProviderRef_def isAliasRoutable_def)

lemma shadowing_requests: "(''m'', t) \<in> set (allRequestModels [shadowing_alias] shadowing_rows)"
proof (cases t)
  case OpenAI
  have "eligible shadowing_rows ''m'' OpenAI (sample_provider ''a'' 1 True [''m''])"
    by (simp add: eligible_def shadowing_rows_def sample_provider_def offers_def)
  then show ?thesis using OpenAI by (auto simp: set_allRequestModels set_request_pairs)
next
  case Anthropic
  then show ?thesis
    using shadowing_routes
    by (auto simp: set_allRequestModels set_request_pairs spoken_def)
qed

lemma shadowing_entries:
  "build_entry lc (routable_aliases [shadowing_alias] shadowing_rows) shadowing_rows policy (''m'', t) \<in>
     set (buildRouteMapEntries lc [shadowing_alias] shadowing_rows policy)"
  using shadowing_requests by (auto simp: entries_iff)

lemma shadowing_kind:
  "re_kind (build_entry lc (routable_aliases [shadowing_alias] shadowing_rows) shadowing_rows policy (''m'', t)) =
     Kind_model \<longleftrightarrow> t = OpenAI"
  using routable_alias_found [of shadowing_alias "[shadowing_alias]" shadowing_rows t] shadowing_routes
  by (cases t) (simp_all add: entry_kind spoken_def)

section \<open>Properties\<close>



text \<open>
  Property C6. A route that the gateway tries for an alias is one the map shows as primary, in the same order, but the
  map also shows the targets whose channel is disabled or gone: the gateway's list (before repetitions
  are dropped) is the map's list without those.
\<close>
theorem alias_routes_live:
  assumes "rows_ok ps" and "distinct (map al_alias as)" and "a \<in> set as" and "al_enabled a"
    and "e \<in> set (buildRouteMapEntries lc as ps policy)"
    and "re_requestModel e = al_alias a" and "re_kind e \<noteq> Kind_model" and "IsModelRoutedPath path"
    and "expected_type path forced = Some (re_requestType e)"
    and "routes = resolveAliasFallback (buildSnapshot ps as) path search (al_alias a) (re_requestType e)"
  shows "ResolveRoutesByModel (buildSnapshot ps as) path search (al_alias a) forced = dedupe routes \<and>
    map (\<lambda>rt. (rt_ChannelName rt, rt_ResolvedModel rt)) routes =
      map (\<lambda>r. (rr_provider r, rr_model r)) (filter (live_route ps) (re_primaryRoutes e))"
proof -
  have e: "e = build_entry lc (routable_aliases as ps) ps policy (al_alias a, re_requestType e)"
    using assms(5,6) by (auto simp: entries_iff entry_request)
  have "re_primaryRoutes e = alias_routes (routable_aliases as ps) ps (al_alias a, re_requestType e)"
    using assms(7) by (subst e, subst (asm) e) (simp add: entry_primaries entry_kind)
  then show ?thesis
    by (simp only: assms(10) gateway_alias_routes [OF assms(1,3,4,2)] map_alias_routes [OF assms(1,3,4,2)])
      (simp add: ResolveRoutesByModel_def assms(8,9) snapshot_alias alias_found [OF assms(3,4,2)])
qed

theorem alias_routes_live_witness:
  "ResolveRoutesByModel (buildSnapshot shadowing_rows [shadowing_alias]) ''/v1/messages'' [] ''m'' (Some Anthropic) =
     dedupe (resolveAliasFallback (buildSnapshot shadowing_rows [shadowing_alias]) ''/v1/messages'' [] ''m'' Anthropic)"
  using alias_routes_live [OF rows_ok_samples(2) _ _ _ shadowing_entries [of code_point_collation None Anthropic] _ _ _ _ refl,
      of shadowing_alias "''/v1/messages''" "Some Anthropic" "[]"]
  by (simp add: expected_type_def entry_request shadowing_kind IsModelRoutedPath_def starts_with_def)

text \<open>
  Property C7. The map shows routes that are never taken: when the targets of an enabled alias speak another protocol,
  an entry of a model of the same name has a primary route in the map, while the gateway, for which the alias
  takes precedence, finds no route and refuses the request.
\<close>
theorem shadowed_model_refused:
  assumes "rows_ok ps" and "distinct (map al_alias as)" and "a \<in> set as" and "al_enabled a"
    and "e \<in> set (buildRouteMapEntries lc as ps policy)"
    and "re_requestModel e = al_alias a" and "re_kind e = Kind_model"
    and "expected_type path forced = Some (re_requestType e)"
  shows "re_primaryRoutes e \<noteq> [] \<and>
    gateway_candidates (buildSnapshot ps as) path search (al_alias a) forced p = []"
proof -
  let ?req = "(al_alias a, re_requestType e)"
  have e: "e = build_entry lc (routable_aliases as ps) ps policy ?req"
    and req: "?req \<in> set (allRequestModels as ps)"
    using assms(5,6) by (auto simp: entries_iff entry_request)
  have none: "alias_routes (routable_aliases as ps) ps ?req = []"
    using assms(7) by (subst (asm) e) (simp add: entry_kind)
  have "map (\<lambda>rt. (rt_ChannelName rt, rt_ResolvedModel rt))
      (resolveAliasFallback (buildSnapshot ps as) path search (al_alias a) (re_requestType e)) = []"
    unfolding gateway_alias_routes [OF assms(1,3,4,2)] map_alias_routes [OF assms(1,3,4,2), symmetric] none by simp
  then have "resolveAliasFallback (buildSnapshot ps as) path search (al_alias a) (re_requestType e) = []"
    by simp
  then have "gateway_candidates (buildSnapshot ps as) path search (al_alias a) forced p = []"
    by (simp add: gateway_candidates_def ResolveRoutesByModel_def assms(8) dedupe_def)
      (simp add: snapshot_alias alias_found [OF assms(3,4,2)])
  moreover have "\<exists>q. eligible ps (al_alias a) (re_requestType e) q"
  proof (rule ccontr)
    assume "\<nexists>q. eligible ps (al_alias a) (re_requestType e) q"
    then obtain b r where b: "b \<in> set as" "isAliasRoutable b ps" "al_alias b = al_alias a"
      "r \<in> set (getAliasRoutes b ps From_alias)" "rr_type r = re_requestType e"
      using req by (auto simp: set_allRequestModels set_request_pairs)
    then have "b = a" using assms(2,3) by (auto simp: distinct_map dest: inj_onD)
    with b none show False
      by (auto simp: routable_alias_found [OF assms(3,2)] filter_empty_conv)
  qed
  then have "re_primaryRoutes e \<noteq> []"
    by (subst e) (auto simp: entry_primaries none getModelRoutes_alt filter_empty_conv
        sortProvidersByRoutingPriority_def eligible_def)
  ultimately show ?thesis by blast
qed

theorem shadowed_model_refused_witness:
  "gateway_candidates (buildSnapshot shadowing_rows [shadowing_alias]) ''/v1/responses'' [] ''m'' (Some OpenAI)
     (sample_policy Same_model 1) = []"
  using shadowed_model_refused [OF rows_ok_samples(2) _ _ _ shadowing_entries [of code_point_collation None OpenAI],
      of shadowing_alias "''/v1/responses''" "Some OpenAI"]
  by (simp add: expected_type_def entry_request shadowing_kind)

end
