(* ===== verification/Messages.thy ===== *)
theory Messages
  imports JS_Value
begin

text \<open>
  The shape of the text tables \<open>i18n/locales/*.ts\<close>: sections of named texts, a key being the names joined
  by dots, and the values \<open>{{name}}\<close> a text asks for.
\<close>

text \<open>Characters outside ASCII are given by their code points.\<close>

definition unicode :: "nat list \<Rightarrow> string" where
  "unicode points = concat (map utf8_encode points)"

datatype Messages = Text string | Section "(string \<times> Messages) list"

fun message_at :: "Messages \<Rightarrow> string list \<Rightarrow> string option" where
  "message_at (Text s) ks = (if ks = [] then Some s else None)"
| "message_at (Section ms) [] = None"
| "message_at (Section ms) (k # ks) = (case map_of ms k of Some m \<Rightarrow> message_at m ks | None \<Rightarrow> None)"

fun the_sections :: "Messages \<Rightarrow> (string \<times> Messages) list" where
  "the_sections (Section ms) = ms"
| "the_sections (Text s) = []"

definition key_path :: "string \<Rightarrow> string list" where
  "key_path = split_on (\<lambda>c. c = CHR ''.'')"

definition message :: "Messages \<Rightarrow> string \<Rightarrow> string option" where
  "message m key = message_at m (key_path key)"

function placeholders :: "string \<Rightarrow> string list" where
  "placeholders [] = []"
| "placeholders (c # cs) =
     (if c = CHR ''{'' \<and> take 1 cs = ''{''
      then trim (takeWhile (\<lambda>x. x \<noteq> CHR ''}'') (drop 1 cs)) # placeholders (dropWhile (\<lambda>x. x \<noteq> CHR ''}'') (drop 1 cs))
      else placeholders cs)"
  by pat_completeness auto
termination
  by (relation "measure length") (auto simp: le_imp_less_Suc le_trans[OF length_dropWhile_le])

text \<open>What a caller relies on: the names, and the values each text asks for.\<close>

datatype Signature = Values "string set" | Names "(string \<times> Signature) list"

fun signature :: "Messages \<Rightarrow> Signature" where
  "signature (Text s) = Values (set (placeholders s))"
| "signature (Section ms) = Names (map (\<lambda>m. (fst m, signature (snd m))) ms)"

fun values_at :: "Signature \<Rightarrow> string list \<Rightarrow> string set option" where
  "values_at (Values vs) ks = (if ks = [] then Some vs else None)"
| "values_at (Names ms) [] = None"
| "values_at (Names ms) (k # ks) = (case map_of ms k of Some m \<Rightarrow> values_at m ks | None \<Rightarrow> None)"

lemma values_at_signature: "values_at (signature m) ks = map_option (set \<circ> placeholders) (message_at m ks)"
proof (induction m ks rule: message_at.induct)
  case (3 ms k ks)
  have "map_of (map (\<lambda>m. (fst m, signature (snd m))) ms) k = map_option signature (map_of ms k)"
    by (induction ms) auto
  then show ?case using 3 by (auto split: option.splits)
qed auto

text \<open>
  Two tables provide a message for a list of named values if both have its text and every value that either
  text asks for is among them.
\<close>

definition provides :: "Messages \<Rightarrow> string \<Rightarrow> string list \<Rightarrow> bool" where
  "provides m key given = (case message m key of Some s \<Rightarrow> set (placeholders s) \<subseteq> set given | None \<Rightarrow> False)"

definition covers :: "Signature \<Rightarrow> string list \<Rightarrow> string list \<Rightarrow> bool" where
  "covers sig ks given = (case values_at sig ks of Some vs \<Rightarrow> vs \<subseteq> set given | None \<Rightarrow> False)"

lemma provides_covers: "provides m key given = covers (signature m) (key_path key) given"
  by (auto simp: provides_def covers_def message_def values_at_signature split: option.splits)

lemma covers_section: "map_of ms k = Some sig \<Longrightarrow> covers (Names ms) (k # ks) given = covers sig ks given"
  by (simp add: covers_def)

text \<open>Checking a list of uses against one section, so that the section is rewritten only once.\<close>

primrec covers_all :: "Signature \<Rightarrow> (string \<times> string list) list \<Rightarrow> bool" where
  "covers_all sig [] \<longleftrightarrow> True"
| "covers_all sig (p # ps) \<longleftrightarrow> covers sig [fst p] (snd p) \<and> covers_all sig ps"

fun covers_found :: "Signature option \<Rightarrow> string list \<Rightarrow> bool" where
  "covers_found (Some (Values vs)) given \<longleftrightarrow> vs \<subseteq> set given"
| "covers_found _ given \<longleftrightarrow> False"

lemma covers_name: "covers (Names ms) [k] given = covers_found (map_of ms k) given"
  by (cases "map_of ms k"; cases "the (map_of ms k)") (simp_all add: covers_def)

lemma covers_allD: "covers_all sig ps \<Longrightarrow> p \<in> set ps \<Longrightarrow> covers sig [fst p] (snd p)"
  by (induction ps) auto

lemma key_path_dot:
  assumes "CHR ''.'' \<notin> set s" and "CHR ''.'' \<notin> set k"
  shows "key_path (s @ CHR ''.'' # k) = [s, k]"
proof -
  have "split_on (\<lambda>c. c = CHR ''.'') (s @ CHR ''.'' # k) = s # split_on (\<lambda>c. c = CHR ''.'') k"
    by (rule split_on_append) (use assms(1) in auto)
  moreover have "split_on (\<lambda>c. c = CHR ''.'') k = [k]"
    by (rule split_on_no_sep) (use assms(2) in auto)
  ultimately show ?thesis by (simp add: key_path_def)
qed

text \<open>What a section covers, a table provides under the section's name.\<close>

lemma provides_section:
  assumes "covers_all (signature m) ps" and "map_of ms s = Some m" and "CHR ''.'' \<notin> set s"
  shows "list_all (\<lambda>p. CHR ''.'' \<in> set (fst p) \<or> provides (Section ms) (s @ CHR ''.'' # fst p) (snd p)) ps"
proof -
  have "map_of (map (\<lambda>m. (fst m, signature (snd m))) ms) s = Some (signature m)"
    using assms(2) by (induction ms) (auto split: if_splits)
  then have same: "covers (signature (Section ms)) [s, k] given = covers (signature m) [k] given" for k given
    by (simp add: covers_section)
  show ?thesis unfolding list_all_iff
  proof
    fix p assume "p \<in> set ps"
    then have "covers (signature m) [fst p] (snd p)" using assms(1) covers_allD by blast
    then show "CHR ''.'' \<in> set (fst p) \<or> provides (Section ms) (s @ CHR ''.'' # fst p) (snd p)"
      by (cases "CHR ''.'' \<in> set (fst p)")
        (simp_all only: provides_covers key_path_dot[OF assms(3)] same simp_thms)
  qed
qed

lemma lookup_here: "map_of ((k, v) # ps) k = Some v"
  by simp

lemma lookup_later: "k \<noteq> k' \<Longrightarrow> map_of ((k', v) # ps) k = map_of ps k"
  by simp

section \<open>Reading a text\<close>

text \<open>The bytes of a character outside ASCII are no braces, so they are skipped at once.\<close>

lemma placeholders_other: "c \<noteq> CHR ''{'' \<Longrightarrow> placeholders (c # cs) = placeholders cs"
  by simp

lemma placeholders_value:
  "placeholders (CHR ''{'' # CHR ''{'' # cs) =
     trim (takeWhile (\<lambda>x. x \<noteq> CHR ''}'') cs) # placeholders (dropWhile (\<lambda>x. x \<noteq> CHR ''}'') cs)"
  by simp

lemma placeholders_brace: "c \<noteq> CHR ''{'' \<Longrightarrow> placeholders (CHR ''{'' # c # cs) = placeholders cs"
  by simp

lemma placeholders_skip: "CHR ''{'' \<notin> set bs \<Longrightarrow> placeholders (bs @ s) = placeholders s"
  by (induction bs) auto

lemma no_brace_char: "n < 256 \<Longrightarrow> n \<noteq> 123 \<Longrightarrow> CHR ''{'' \<noteq> char_of (n :: nat)"
proof
  assume n: "n < 256" "n \<noteq> 123" and "CHR ''{'' = char_of n"
  then have "(of_char (CHR ''{'') :: nat) = of_char (char_of n :: char)" by simp
  with n show False by simp
qed

lemma no_brace_byte:
  fixes k n :: nat
  shows "128 \<le> k \<Longrightarrow> k + n < 256 \<Longrightarrow> CHR ''{'' \<noteq> char_of (k + n)"
  by (rule no_brace_char) simp_all

lemma no_brace_utf8_encode:
  assumes "n \<noteq> 123" and "n < 0x110000"
  shows "CHR ''{'' \<notin> set (utf8_encode n)"
proof -
  have last_byte: "CHR ''{'' \<noteq> char_of (0x80 + m mod 64)" for m :: nat
  proof (rule no_brace_byte)
    have "m mod 64 < 64" by simp
    then show "0x80 + m mod 64 < 256" by linarith
  qed simp
  have "CHR ''{'' \<noteq> char_of n" if "n < 0x80" using that assms(1) by (intro no_brace_char) simp_all
  moreover have "CHR ''{'' \<noteq> char_of (0xC0 + n div 64)" if "n < 0x800"
    using that by (intro no_brace_byte) (simp_all add: div_less_iff_less_mult)
  moreover have "CHR ''{'' \<noteq> char_of (0xE0 + n div 4096)" if "n < 0x10000"
    using that by (intro no_brace_byte) (simp_all add: div_less_iff_less_mult)
  moreover have "CHR ''{'' \<noteq> char_of (0xF0 + n div 262144)"
    using assms(2) by (intro no_brace_byte) (simp_all add: div_less_iff_less_mult)
  ultimately show ?thesis using last_byte[of n] last_byte[of "n div 64"] last_byte[of "n div 4096"]
    unfolding utf8_encode_def utf8_def by simp
qed

lemma placeholders_unicode [simp]:
  assumes "list_all (\<lambda>n. n \<noteq> 123 \<and> n < 0x110000) points"
  shows "placeholders (unicode points @ s) = placeholders s" and "placeholders (unicode points) = []"
proof -
  have no: "CHR ''{'' \<notin> set (unicode points)"
    using assms no_brace_utf8_encode by (auto simp: unicode_def list_all_iff)
  show "placeholders (unicode points @ s) = placeholders s" using placeholders_skip[OF no] .
  show "placeholders (unicode points) = []" using placeholders_skip[OF no, of "[]"] by simp
qed

lemma placeholders_brace_unicode:
  assumes "list_all (\<lambda>n. n \<noteq> 123 \<and> n < 0x110000) points"
  shows "placeholders (CHR ''{'' # unicode (10 # points) @ s) = placeholders s"
proof -
  have "unicode (10 # points) = char_of (10 :: nat) # unicode points"
    by (simp add: unicode_def utf8_encode_def utf8_def)
  moreover have "CHR ''{'' \<noteq> char_of (10 :: nat)" by (rule no_brace_char) simp_all
  ultimately show ?thesis using assms by simp
qed

lemma until_close: "c \<noteq> CHR ''}'' \<Longrightarrow> takeWhile (\<lambda>x. x \<noteq> CHR ''}'') (c # cs) = c # takeWhile (\<lambda>x. x \<noteq> CHR ''}'') cs"
  "takeWhile (\<lambda>x. x \<noteq> CHR ''}'') (CHR ''}'' # cs) = []"
  "c \<noteq> CHR ''}'' \<Longrightarrow> dropWhile (\<lambda>x. x \<noteq> CHR ''}'') (c # cs) = dropWhile (\<lambda>x. x \<noteq> CHR ''}'') cs"
  "dropWhile (\<lambda>x. x \<noteq> CHR ''}'') (CHR ''}'' # cs) = CHR ''}'' # cs"
  by simp_all

lemma trim_name: "list_all (\<lambda>c. \<not> is_space c) s \<Longrightarrow> trim s = s"
  by (intro trim_no_space) (auto simp: list_all_iff)

lemma same_head: "(c # s = c # t) = (s = t)"
  by simp

lemma other_head: "c \<noteq> d \<Longrightarrow> (c # s = d # t) = False"
  by simp

lemmas text_simps =
  trim_name is_space_def placeholders_other placeholders_value placeholders_brace placeholders_brace_unicode until_close

lemmas lookup_rules =
  covers_all.simps covers_name lookup_here lookup_later same_head other_head char.inject list.distinct simp_thms
  fst_conv snd_conv covers_found.simps empty_subsetI insert_subset list.set insert_iff

declare placeholders.simps(2) [simp del] covers_all.simps [simp del]

end
