(* ===== verification/Locale_En.thy ===== *)
theory Locale_En
  imports Messages
begin

text \<open>
  The English texts of the dashboard, \<open>i18n/locales/en.ts\<close>, one definition per section.
\<close>

definition en_common :: Messages where
  "en_common = Section [
    (''refresh'', Text ''Refresh''),
    (''refreshData'', Text ''Refresh Data''),
    (''save'', Text ''Save''),
    (''cancel'', Text ''Cancel''),
    (''close'', Text ''Close''),
    (''delete'', Text ''Delete''),
    (''edit'', Text ''Edit''),
    (''create'', Text ''Create''),
    (''test'', Text ''Test''),
    (''testing'', Text ''Testing''),
    (''saving'', Text ''Saving...''),
    (''deleting'', Text ''Deleting...''),
    (''loading'', Text ''Loading...''),
    (''copy'', Text ''Copy''),
    (''help'', Text ''Help''),
    (''viewLogs'', Text ''View Logs''),
    (''clearFilters'', Text ''Clear Filters''),
    (''clearAllFilters'', Text ''Clear All Filters''),
    (''noData'', Text ''No data''),
    (''enabled'', Text ''Enabled''),
    (''disabled'', Text ''Disabled''),
    (''all'', Text ''All''),
    (''selectAll'', Text ''Select All''),
    (''clear'', Text ''Clear''),
    (''back'', Text ''Back''),
    (''current'', Text ''Current''),
    (''alreadyExists'', Text ''Already exists''),
    (''success'', Text ''Success''),
    (''failed'', Text ''Failed''),
    (''errorOccurred'', Text ''Operation failed''),
    (''loadFailed'', Text ''Failed to load''),
    (''saveFailed'', Text ''Failed to save''),
    (''connectionFailed'', Text ''Connection failed''),
    (''done'', Text ''Done''),
    (''confirm'', Text ''Confirm''),
    (''searchRoute'', Text ''Search routes...''),
    (''searchModel'', Text ''Search models...''),
    (''searchTimeRange'', Text ''Search time range...''),
    (''export'', Text ''Export''),
    (''import'', Text ''Import'')]"

definition en_lang :: Messages where
  "en_lang = Section [
    (''zh'', Text (unicode [0x4E2D, 0x6587])),
    (''en'', Text ''English''),
    (''switch'', Text ''Language'')]"

definition en_nav :: Messages where
  "en_nav = Section [
    (''monitor'', Text ''Monitor''),
    (''usage'', Text ''Usage''),
    (''providers'', Text ''Providers''),
    (''models'', Text ''Models''),
    (''routes'', Text ''Routes''),
    (''keys'', Text ''Keys''),
    (''logs'', Text ''Logs''),
    (''settings'', Text ''Settings''),
    (''themeLabel'', Text ''Theme''),
    (''themeLight'', Text ''Light''),
    (''themeDark'', Text ''Dark''),
    (''themeSystem'', Text ''System''),
    (''loggingOut'', Text ''Logging out...''),
    (''logout'', Text ''Logout'')]"

definition en_session :: Messages where
  "en_session = Section [
    (''brandLabel'', Text ''LLMRelayService''),
    (''loginTitle'', Text ''Sign in to Observatory''),
    (''loginDescription'', Text ''After login you can view request tables, first-token latency, payload summaries, and full request/response data.''),
    (''loginFailed'', Text ''Login failed''),
    (''passwordLabel'', Text ''GATEWAY_API_KEY''),
    (''passwordPlaceholder'', Text ''Enter GATEWAY_API_KEY env var''),
    (''passwordHint'', Text ''Set the GATEWAY_API_KEY environment variable when starting the server. A debug cookie is saved on successful login.''),
    (''submitting'', Text ''Signing in...''),
    (''submitButton'', Text ''Sign In''),
    (''disabledTitle'', Text ''Observatory Disabled''),
    (''disabledDescription'', Text ''The GATEWAY_API_KEY environment variable is not set, so the debug interface is disabled. Start the server with GATEWAY_API_KEY=your-secret bun start or bun run dev.''),
    (''loadingTitle'', Text ''Connecting to Debug Service''),
    (''loadingDescription'', Text ''Verifying session, then loading request table and detail data.''),
    (''errorTitle'', Text ''Cannot Connect to Debug Service''),
    (''errorHint'', Text ''Make sure the Bun server is running and the frontend proxy can reach /__debug/api/session.'')]"

definition en_timeRange :: Messages where
  "en_timeRange = Section [
    (''1h'', Text ''Last 1 hour''),
    (''24h'', Text ''Last 24 hours''),
    (''72h'', Text ''Last 72 hours''),
    (''7d'', Text ''Last 7 days''),
    (''30d'', Text ''Last 30 days''),
    (''all'', Text ''All time''),
    (''placeholder'', Text ''Select time range'')]"

definition en_monitor :: Messages where
  "en_monitor = Section [
    (''title'', Text ''Monitor''),
    (''description'', Text ''Focus on runtime status, latency, stability, and channel health. Detailed token/cost/group stats are on the Usage page.''),
    (''filterLabel'', Text ''Metric Filters''),
    (''routeFilterLabel'', Text ''Channel (Route)''),
    (''allRoutes'', Text ''All Channels''),
    (''timeRangeLabel'', Text ''Time Range''),
    (''overviewTitle'', Text ''Request Overview''),
    (''overviewDescription'', Text ''See request volume, success rate, and failovers at a glance, then scroll down for system metrics and channel health.''),
    (''totalRequests'', Text ''Total Requests''),
    (''successRate'', Text ''Success Rate''),
    (''errorRequests'', Text ''Errors''),
    (''failovers'', Text ''Failovers''),
    (''successCount'', Text (''Success {{success}} '' @ unicode [0xB7] @ '' Errors {{errors}}'')),
    (''totalCount'', Text ''{{total}} requests total''),
    (''errorRate'', Text ''Error rate {{rate}}''),
    (''failoverRate'', Text ''Failover rate {{rate}}''),
    (''systemMetrics'', Text ''System Metrics''),
    (''storageBackend'', Text ''Storage Backend''),
    (''retentionDescription'', Text ''Retaining last {{count}} records''),
    (''channelHealthLabel'', Text ''Channel Health''),
    (''channelHealthHint'', Text ''Scroll down to see recent health status per channel.''),
    (''latencyTitle'', Text ''Latency & Stability''),
    (''latencyDescription'', Text ''Latency metrics, cache health, and stability in one place as an independent monitoring view.''),
    (''latencyMetrics'', Text ''Latency Metrics''),
    (''avgFirstChunk'', Text ''Avg First Chunk''),
    (''avgFirstChunkDesc'', Text ''Average latency for the first chunk to arrive''),
    (''avgFirstToken'', Text ''Avg First Token''),
    (''avgFirstTokenDesc'', Text ''Average latency for the first token to arrive''),
    (''avgDuration'', Text ''Avg Duration''),
    (''avgDurationDesc'', Text ''Average time to complete a request''),
    (''avgGeneration'', Text ''Avg Generation''),
    (''avgGenerationDesc'', Text ''Average time from first token to completion''),
    (''cacheHealth'', Text ''Cache Health''),
    (''cacheHitRate'', Text ''Cache Hit Rate''),
    (''cacheHitDesc'', Text (''Hits {{hits}} '' @ unicode [0xB7] @ '' Creates {{creates}}'')),
    (''cacheHits'', Text ''Cache Hits''),
    (''cacheHitsDesc'', Text ''Requests with cache_read_input_tokens > 0''),
    (''cacheCreates'', Text ''Cache Creates''),
    (''cacheCreatesDesc'', Text ''Requests with cache_creation_input_tokens > 0''),
    (''cacheMisses'', Text ''Cache Misses''),
    (''cacheMissesDesc'', Text ''Requests with no cache hit and no creation''),
    (''requestTrend'', Text ''Request Volume Trend''),
    (''recentRequests'', Text ''Recent Requests''),
    (''channelStatus'', Text ''Channel Status''),
    (''recentLogs'', Text ''Recent Logs''),
    (''viewAll'', Text ''View All''),
    (''tabRequests'', Text ''Requests''),
    (''tabSuccessRate'', Text ''Success Rate''),
    (''tabLatency'', Text ''Latency''),
    (''statusHealthy'', Text ''Healthy''),
    (''statusDegraded'', Text ''Degraded''),
    (''statusDown'', Text ''Down''),
    (''statusUnknown'', Text ''Unknown''),
    (''channelName'', Text ''Channel''),
    (''statusLabel'', Text ''Status''),
    (''trend'', Text ''Trend'')]"

definition en_settings :: Messages where
  "en_settings = Section [
    (''title'', Text ''Runtime Settings''),
    (''description'', Text ''Adjust runtime timeouts between the gateway and upstream providers. Saved changes apply to new requests.''),
    (''firstByteTitle'', Text ''First-byte timeout''),
    (''firstByteDesc'', Text ''Allow longer waits for normal and image requests while keeping a shorter first-byte window for streaming.''),
    (''defaultFirstByteLabel'', Text ''Normal request FTTB''),
    (''streamFirstByteLabel'', Text ''Streaming request FTTB''),
    (''imageFirstByteLabel'', Text ''Image request FTTB''),
    (''responseIdleTitle'', Text ''Response body idle timeout''),
    (''responseIdleDesc'', Text ''After upstream headers arrive, abort the response if no body chunk arrives for this duration.''),
    (''responseIdleLabel'', Text ''Body idle timeout''),
    (''secondsSuffix'', Text ''seconds''),
    (''currentPolicyTitle'', Text ''Current policy''),
    (''normalPolicy'', Text ''Normal requests''),
    (''streamPolicy'', Text ''Streaming requests''),
    (''imagePolicy'', Text ''Image requests''),
    (''bodyIdlePolicy'', Text ''Body idle''),
    (''disabledPolicy'', Text ''Disabled''),
    (''saved'', Text ''Settings saved''),
    (''updatedAt'', Text ''Last saved {{time}}''),
    (''defaultValue'', Text ''Default {{value}}s''),
    (''rangeHint'', Text ''Range {{min}} - {{max}}s''),
    (''loadFailed'', Text ''Failed to load settings''),
    (''validationNumber'', Text ''{{label}} must be a number''),
    (''validationRequired'', Text ''{{label}} is required''),
    (''validationRange'', Text ''{{label}} must be between {{min}} and {{max}} seconds'')]"

definition en_usage :: Messages where
  "en_usage = Section [
    (''title'', Text ''Usage Statistics''),
    (''description'', Text ''View request volume, token consumption, cost, and latency in one place. Slice by time range, model, key, and channel.''),
    (''filterLabel'', Text ''Usage Filters''),
    (''timeRangeLabel'', Text ''Time Range''),
    (''routeLabel'', Text ''Channel''),
    (''modelLabel'', Text ''Model''),
    (''clientLabel'', Text ''Key / Source''),
    (''allRoutes'', Text ''All Channels''),
    (''allModels'', Text ''All Models''),
    (''allClients'', Text ''All Keys / Sources''),
    (''searchClient'', Text ''Search key / source...''),
    (''coreDataTitle'', Text ''Core Usage Data''),
    (''coreDataDesc'', Text ''Quick overview of request scale, total tokens, and total cost.''),
    (''totalRequests'', Text ''Total Requests''),
    (''totalRequestsDesc'', Text ''{{count}} successful in period''),
    (''totalTokens'', Text ''Total Tokens''),
    (''totalTokensDesc'', Text (''Input {{input}} '' @ unicode [0xB7] @ '' Output {{output}}'')),
    (''totalCost'', Text ''Total Cost''),
    (''totalCostDesc'', Text (''Input {{input}} '' @ unicode [0xB7] @ '' Output {{output}}'')),
    (''avgCostPerReq'', Text ''Avg Cost per Request''),
    (''avgTokensPerReq'', Text ''Avg {{count}} tokens per request''),
    (''trendTitle'', Text ''Time Trends''),
    (''trendDesc'', Text ''Spot token and cost trends first, then drill down. Latency, stability and channel health are on the Monitor page.''),
    (''costCacheTitle'', Text ''Cost & Cache''),
    (''costCacheDesc'', Text (''Cost breakdown, cache hits and reasoning stay on the Usage view '' @ unicode [0x2014] @ '' organized around where you spend and why.'')),
    (''costBreakdown'', Text ''Cost Breakdown''),
    (''totalCostLabel'', Text ''Total Cost''),
    (''retentionDesc'', Text ''Retention {{count}} records''),
    (''inputCost'', Text ''Input Cost''),
    (''inputTokensDesc'', Text ''Input tokens {{count}}''),
    (''outputCost'', Text ''Output Cost''),
    (''outputTokensDesc'', Text ''Output tokens {{count}}''),
    (''cacheCost'', Text ''Cache Cost''),
    (''cacheCostDesc'', Text (''Cache read / cached prompt {{read}} '' @ unicode [0xB7] @ '' Cache write {{write}}'')),
    (''cacheAndReasoning'', Text ''Cache & Reasoning''),
    (''cacheHitRate'', Text ''Cache Hit Rate''),
    (''cacheHitDesc'', Text (''Hits {{hits}} '' @ unicode [0xB7] @ '' Creates {{creates}}'')),
    (''anthropicCacheRead'', Text ''Anthropic Cache Read''),
    (''anthropicCacheReadDesc'', Text ''Cumulative cache_read_input_tokens''),
    (''anthropicCacheWrite'', Text ''Anthropic Cache Write''),
    (''anthropicCacheWriteDesc'', Text ''Cumulative cache_creation_input_tokens''),
    (''openaiCachedPrompt'', Text ''OpenAI Cached Prompt''),
    (''openaiCachedPromptDesc'', Text ''Cumulative prompt_tokens_details.cached_tokens''),
    (''reasoning'', Text ''Reasoning''),
    (''reasoningDesc'', Text ''Cumulative reasoning output tokens''),
    (''groupDetail'', Text ''Group Breakdown''),
    (''groupDetailDesc'', Text ''Scroll down to view usage and cost by channel, model, and key / source. Click a row value to apply as a filter.''),
    (''routeBucket'', Text ''By Channel''),
    (''routeBucketDesc'', Text ''Aggregate request volume, total tokens, and cost by route_prefix.''),
    (''modelBucket'', Text ''By Model''),
    (''modelBucketDesc'', Text ''Aggregate request volume, total tokens, avg first token, and cost by model.''),
    (''clientBucket'', Text ''By Key / Source''),
    (''clientBucketDesc'', Text ''Aggregate request volume and cost by API key name; env-based keys show as default.'')]"

definition en_logs :: Messages where
  "en_logs = Section [
    (''title'', Text ''Request Logs & Debugging''),
    (''description'', Text ''Filter requests, sort by latency, inspect forwarding results, and deep-dive into request/response payloads.''),
    (''filterPanelLabel'', Text ''Log Filter Panel''),
    (''searchPlaceholder'', Text ''Search model / path / request_id ...''),
    (''routeFilter'', Text ''Route Filter''),
    (''allRoutes'', Text ''All Routes''),
    (''searchRoute'', Text ''Search routes...''),
    (''modelFilter'', Text ''Model Filter''),
    (''allModels'', Text ''All Models''),
    (''searchModel'', Text ''Search models...''),
    (''sourceFilter'', Text ''Source''),
    (''allTypes'', Text ''All Types''),
    (''searchType'', Text ''Search types...''),
    (''statusFilter'', Text ''Status Filter''),
    (''allStatus'', Text ''All Status''),
    (''searchStatus'', Text ''Search status...''),
    (''statusSuccess'', Text ''Success (2xx)''),
    (''statusError'', Text ''Error (4xx/5xx)''),
    (''cacheFilter'', Text ''Cache Filter''),
    (''allCache'', Text ''All Cache Status''),
    (''searchCache'', Text ''Search cache status...''),
    (''cacheHit'', Text ''Hit''),
    (''cacheCreate'', Text ''Create''),
    (''cacheMiss'', Text ''Miss''),
    (''cacheBypass'', Text ''Bypass''),
    (''cacheError'', Text ''Cache Error''),
    (''prevPage'', Text ''Prev''),
    (''nextPage'', Text ''Next'')]"

definition en_logTable :: Messages where
  "en_logTable = Section [
    (''title'', Text ''Request Log''),
    (''description'', Text (''Filter, sort, and inspect request details '' @ unicode [0x2014] @ '' read-only, built for debugging and analysis.'')),
    (''colTime'', Text ''Time''),
    (''colRequest'', Text ''Request''),
    (''colRoute'', Text ''Channel''),
    (''colModel'', Text ''Model''),
    (''colSource'', Text ''Source''),
    (''colStatus'', Text ''Status''),
    (''colLatency'', Text ''Latency''),
    (''colTokens'', Text ''Tokens''),
    (''colCacheHitRate'', Text ''Cache Hit Rate''),
    (''colOutputSpeed'', Text ''Output Speed''),
    (''colCost'', Text ''Cost''),
    (''colActions'', Text ''Actions''),
    (''truncatedStream'', Text ''Stream timeout''),
    (''truncatedSize'', Text ''Size truncated''),
    (''truncatedLog'', Text ''Log truncated''),
    (''failedOver'', Text ''Failed over''),
    (''retriedSameRoute'', Text ''Retried''),
    (''firstLabel'', Text ''1st''),
    (''totalLabel'', Text ''Tot''),
    (''inputLabel'', Text ''In''),
    (''outputLabel'', Text ''Out''),
    (''cacheLabel'', Text ''Cache''),
    (''estimated'', Text ''estimated''),
    (''responsesChatCompat'', Text ''Converted to Chat''),
    (''responsesChatCompatTip'', Text ''This request entered a Responses endpoint and the gateway converted it to an upstream Chat Completions request according to the provider setting.''),
    (''actionLabel'', Text ''Actions''),
    (''actionMenuTitle'', Text ''Log Actions''),
    (''viewDetail'', Text ''View Detail''),
    (''copyRequestId'', Text ''Copy request_id''),
    (''copyPath'', Text ''Copy path''),
    (''filterSameRoute'', Text ''Filter same route''),
    (''filterSameModel'', Text ''Filter same model''),
    (''filterSameSource'', Text ''Filter same source''),
    (''copied'', Text ''{{label}} copied''),
    (''copyFailed'', Text ''{{label}} copy failed''),
    (''emptyTitle'', Text ''No matching requests''),
    (''emptyDescription'', Text ''Clear filters or wait for new requests to be logged.''),
    (''requestModel'', Text ''Request model: {{model}}''),
    (''responseModel'', Text ''Response model: {{model}}''),
    (''anonymous'', Text ''Anonymous'')]"

definition en_detail :: Messages where
  "en_detail = Section [
    (''backToLogs'', Text (unicode [0x2190] @ '' Back to Logs'')),
    (''loadingTitle'', Text ''Loading...''),
    (''loadingDesc'', Text ''Fetching request details''),
    (''requestIdLabel'', Text ''Request ID: {{id}}''),
    (''detailTitle'', Text ''Request Detail''),
    (''detailDesc'', Text ''Select a request from the table on the left to view its full lifecycle.''),
    (''emptyTitle'', Text ''No request selected''),
    (''emptyDesc'', Text ''Click any row to view its request, response, timing, and payload here.''),
    (''refreshFailed'', Text ''Detail refresh failed''),
    (''tabSummary'', Text ''Summary''),
    (''tabRequest'', Text ''Request''),
    (''tabResponse'', Text ''Response''),
    (''overviewTitle'', Text ''Request Overview''),
    (''overviewDesc'', Text ''Core routing and response metadata''),
    (''timingTitle'', Text ''Timing & Size''),
    (''timingDesc'', Text ''First chunk, first token, and overall latency''),
    (''tokenTitle'', Text ''Token Stats''),
    (''tokenDesc'', Text ''Usage metrics split by upstream type''),
    (''costTitle'', Text ''Cost Breakdown''),
    (''costDesc'', Text ''Total cost, model pricing, and per-item calculation formula''),
    (''requestId'', Text ''request_id''),
    (''time'', Text ''Time''),
    (''path'', Text ''Path''),
    (''routePrefix'', Text ''Route Prefix''),
    (''keySource'', Text ''Key / Source''),
    (''requestModel'', Text ''Request Model''),
    (''responseModel'', Text ''Response Model''),
    (''targetUrl'', Text ''Target URL''),
    (''upstreamType'', Text ''Upstream Type''),
    (''httpStatus'', Text ''HTTP Status''),
    (''failoverReason'', Text ''Failover Reason''),
    (''retryAttempt'', Text ''Retry attempt''),
    (''firstChunk'', Text ''First Chunk''),
    (''firstToken'', Text ''First Token''),
    (''duration'', Text ''Duration''),
    (''generationDuration'', Text ''Generation Duration''),
    (''responseBodySize'', Text ''Response Body Size''),
    (''transferMode'', Text ''Transfer Mode''),
    (''streaming'', Text ''SSE / Streaming''),
    (''nonStreaming'', Text ''Non-streaming''),
    (''originalPayload'', Text ''Original Request Body''),
    (''forwardedPayload'', Text ''Forwarded Request Body''),
    (''originalHeaders'', Text ''Original Request Headers''),
    (''originalHeadersDesc'', Text ''Raw HTTP headers sent from client to gateway''),
    (''forwardedHeaders'', Text ''Forwarded Request Headers''),
    (''forwardedHeadersDesc'', Text ''Request header summary forwarded to upstream''),
    (''noOriginalHeaders'', Text ''No original headers''),
    (''noOriginalHeadersDesc'', Text ''This record does not contain client-to-gateway request headers.''),
    (''noForwardedHeaders'', Text ''No forwarded headers''),
    (''noForwardedHeadersDesc'', Text ''This record does not contain gateway-to-upstream request headers.''),
    (''sseConcat'', Text ''Concatenated Response''),
    (''sseConcatDesc'', Text ''Text content extracted and concatenated from SSE events for easy reading''),
    (''noSseConcat'', Text ''No concatenated text''),
    (''noSseConcatDesc'', Text ''No readable text extracted from the streaming response. Raw SSE events are preserved for debugging.''),
    (''responseBody'', Text ''Response Body''),
    (''responseHeaders'', Text ''Response Headers''),
    (''responseHeadersDesc'', Text ''Raw HTTP response headers returned from upstream''),
    (''noResponseHeaders'', Text ''No response headers''),
    (''noResponseHeadersDesc'', Text ''This record does not contain upstream response headers.'')]"

definition en_providers :: Messages where
  "en_providers = Section [
    (''title'', Text ''Channels''),
    (''description'', Text ''All channels are stored in the database. Add, edit, and test connectivity online.''),
    (''addChannel'', Text ''Add Channel''),
    (''testAll'', Text ''Test All''),
    (''loadFailed'', Text ''Failed to load''),
    (''emptyTitle'', Text ''No Channels''),
    (''emptyDescription'', Text ''No upstream channels configured yet. Create one to get started.''),
    (''createChannel'', Text ''Create Channel''),
    (''createDialogTitle'', Text ''Create Channel''),
    (''editDialogTitle'', Text ''Edit {{name}}''),
    (''createDialogDesc'', Text ''Create a channel stored in the database.''),
    (''editDialogDesc'', Text (''You can rename the Channel Name directly. The current API Key is shown '' @ unicode [0x2014] @ '' leave unchanged to keep it, clear and save to remove.'')),
    (''channelNameLabel'', Text ''Channel Name''),
    (''channelNameHint'', Text (''Explicit routing uses /providers/{{name}}/... as path prefix. Renaming changes the route prefix immediately '' @ unicode [0x2014] @ '' old prefix stops working.'')),
    (''typeLabel'', Text ''Type''),
    (''typeOpenaiHint'', Text ''OpenAI type supports /v1/chat/completions, /v1/responses passthrough; Anthropic type supports /v1/messages.''),
    (''typeAnthropicHint'', Text ''OpenAI type supports /v1/chat/completions, /v1/responses passthrough; Anthropic type supports /v1/messages.''),
    (''targetUrlLabel'', Text ''Target Base URL''),
    (''targetUrlOpenaiHint'', Text ''OpenAI type must include /v1 path. E.g. https://api.openai.com/v1''),
    (''targetUrlAnthropicHint'', Text ''Anthropic type does not need /v1. E.g. https://api.anthropic.com''),
    (''priorityLabel'', Text ''Priority''),
    (''priorityHint'', Text ''Higher number = higher priority for auto model routing.''),
    (''systemPromptLabel'', Text ''System Prompt''),
    (''systemPromptHint'', Text ''Enter the system prompt to inject. Leave empty to skip injection.''),
    (''authMethodLabel'', Text ''Auth Method''),
    (''authMethodAuto'', Text ''Auto (by type)''),
    (''authMethodHint'', Text ''Choose the auth header format for upstream. Auto uses x-api-key for Anthropic, Authorization: Bearer for OpenAI.''),
    (''credentialLabel'', Text ''Credential''),
    (''noApiKey'', Text ''No API Key configured''),
    (''hideApiKey'', Text ''Hide API Key''),
    (''showApiKey'', Text ''Show API Key''),
    (''responsesModeLabel'', Text ''Responses Handling''),
    (''responsesModeHint'', Text ''Native forwards to upstream /responses, compatibility converts /responses to /chat/completions, and disabled returns an error immediately.''),
    (''responsesModeNative'', Text ''Native passthrough''),
    (''responsesModeChatCompat'', Text ''Convert to Chat Completions''),
    (''responsesModeDisabled'', Text ''Disabled''),
    (''responsesModeBadge'', Section [
      (''native'', Text ''Responses native''),
      (''chat_compat'', Text (''Responses'' @ unicode [0x2192] @ ''Chat'')),
      (''disabled'', Text ''Responses disabled'')]),
    (''extraFieldsLabel'', Text ''Extra Fields''),
    (''extraFieldsHint'', Text ''Channel-level metadata in JSON object format. Leave empty to skip.''),
    (''extraFieldsInvalidJson'', Text ''Extra fields must be valid JSON object''),
    (''extraFieldsInvalidObj'', Text ''Extra fields must be a JSON object''),
    (''modelsLabel'', Text ''Models''),
    (''modelIdHeader'', Text ''Model ID''),
    (''noModels'', Text ''No models. Click Add to create one.''),
    (''clearAuth'', Text ''Clear Auth''),
    (''saveChanges'', Text ''Save Changes''),
    (''loadApiKeyFailed'', Text ''Failed to load API Key: {{error}}''),
    (''testDialogTitle'', Text ''Test Channel: {{name}}''),
    (''testDialogDesc'', Text ''Select a model to run a connectivity test and view the raw response.''),
    (''selectModel'', Text ''Select Model''),
    (''selectModelPlaceholder'', Text ''Select model to test''),
    (''noModelsConfigured'', Text ''No models configured for this channel''),
    (''testSuccess'', Text ''Test Passed''),
    (''testFailed'', Text ''Test Failed''),
    (''rawResponse'', Text ''Raw Response''),
    (''startTest'', Text ''Start Test''),
    (''deleteDialogTitle'', Text ''Delete Channel''),
    (''deleteDialogDesc'', Text ''Are you sure you want to delete channel \"{{name}}\"? This cannot be undone.''),
    (''syncDialogTitle'', Text ''Sync Upstream Models''),
    (''syncDialogDesc'', Text (''Fetch model list from upstream /v1/models API. Select models to add '' @ unicode [0x2014] @ '' duplicates are skipped automatically.'')),
    (''syncLoading'', Text ''Fetching upstream models...''),
    (''syncFailed'', Text ''Fetch failed''),
    (''syncEmpty'', Text ''No models returned from upstream.''),
    (''syncCount'', Text ''{{total}} models found, {{selected}} selected''),
    (''syncNeedUrl'', Text ''Please fill in Target Base URL first''),
    (''exportConfigButton'', Text ''Export Config''),
    (''importConfigButton'', Text ''Import Config''),
    (''importConfigTitle'', Text ''Import Channel Config''),
    (''importConfigDesc'', Text ''Paste the exported JSON below. Channels will be created one by one.''),
    (''configJsonLabel'', Text ''Config JSON''),
    (''importConfigPlaceholder'', Text (''{'' @ unicode [0xA] @ ''  \"version\": 1,'' @ unicode [0xA] @ ''  \"providers\": [...]'' @ unicode [0xA] @ ''}'')),
    (''importConfigEmpty'', Text ''Config JSON is empty''),
    (''importConfigVersionMismatch'', Text ''Unsupported config version: {{version}}. Expected version 1.''),
    (''importConfigInvalid'', Text ''Invalid config format: providers field must be an array''),
    (''importConfigConfirm'', Text ''Import Config''),
    (''exportConfigTitle'', Text ''Export Channel Config''),
    (''exportConfigDesc'', Text ''All channel configurations are exported below. Copy and save it.''),
    (''copyExportConfig'', Text ''Copy Config''),
    (''addSelectedModels'', Text ''Add Selected Models''),
    (''healthy'', Text ''Healthy''),
    (''degraded'', Text ''Degraded''),
    (''down'', Text ''Down''),
    (''noDataStatus'', Text ''No Data''),
    (''disableChannel'', Text ''Disable this channel''),
    (''enableChannel'', Text ''Enable this channel''),
    (''providerNotExist'', Text ''Provider missing''),
    (''providerDeletedHint'', Text (''Provider \"{{name}}\" has been deleted '' @ unicode [0x2014] @ '' this alias cannot route'')),
    (''modelRemoved'', Text ''Model removed''),
    (''modelRemovedHint'', Text ''Model \"{{model}}\" is no longer in \"{{provider}}\"'s model list''),
    (''providerDisabled'', Text ''Provider disabled''),
    (''providerDisabledHint'', Text ''Provider \"{{name}}\" is currently disabled''),
    (''showMore'', Text ''+{{count}} more''),
    (''showLess'', Text ''Show less'')]"

definition en_routes :: Messages where
  "en_routes = Section [
    (''title'', Text ''Model Routes''),
    (''description'', Text ''Configure routing targets for virtual model names. When a client sends model: \"Auto\", the gateway forwards to the bound provider and real model.''),
    (''newAlias'', Text ''New Alias''),
    (''emptyTitle'', Text ''No route aliases''),
    (''emptyDescription'', Text ''Click \"New Alias\" to create your first virtual model route''),
    (''colAlias'', Text ''Alias''),
    (''colProvider'', Text ''Provider''),
    (''colTargetModel'', Text ''Target Model''),
    (''colTargets'', Text ''Targets''),
    (''colNotes'', Text ''Notes''),
    (''colStatus'', Text ''Status''),
    (''colActions'', Text ''Actions''),
    (''aliasLabel'', Text ''Alias''),
    (''aliasHint'', Text ''The model name sent by the client, e.g. Auto, Best''),
    (''aliasPlaceholder'', Text ''Auto''),
    (''targetProvider'', Text ''Target Provider''),
    (''selectProvider'', Text ''Select Provider''),
    (''targetModel'', Text ''Target Model''),
    (''selectFirstProvider'', Text ''Select a provider first''),
    (''noProviderModels'', Text ''No models on this provider''),
    (''selectTargetModel'', Text ''Select target model''),
    (''notesLabel'', Text ''Notes (optional)''),
    (''notesPlaceholder'', Text ''Describe what this alias is for''),
    (''createDialogTitle'', Text ''New Route Alias''),
    (''createDialogDesc'', Text ''Configure a virtual model name and route it to a real model on an existing provider''),
    (''editDialogTitle'', Text ''Edit Route Alias''),
    (''editDialogDesc'', Text ''Change the routing target for this virtual model name''),
    (''requiredFieldsError'', Text ''Alias, Provider, and Model are all required''),
    (''routeTargetsLabel'', Text ''Route targets''),
    (''routeTargetsHint'', Text ''Targets are tried in order for this virtual model. They may point to direct or explicit-only providers.''),
    (''routeTargetAdd'', Text ''Add target''),
    (''routeTargetPrimary'', Text ''Primary''),
    (''visibleToClients'', Text ''Show in model list''),
    (''visibleToClientsHint'', Text ''When enabled, this virtual model appears in /v1/models and API key model selectors.''),
    (''providerDirect'', Text ''direct''),
    (''providerExplicitOnly'', Text ''explicit only''),
    (''routeMapTitle'', Text ''Route Map''),
    (''routeMapDesc'', Text ''Shows where each request model can be dispatched: the primary real route first, then real models that may be appended by the current failover policy. Disabled providers and aliases are hidden.''),
    (''routeMapEmptyTitle'', Text ''No available routes''),
    (''routeMapEmptyDesc'', Text ''Enable providers and configure models to see request-model to real-model mappings here.''),
    (''routeMapRequestModel'', Text ''Request model''),
    (''routeMapPrimaryRoute'', Text ''Primary real route''),
    (''routeMapFallbackRoutes'', Text ''May fallback to''),
    (''routeMapCoveredRoutes'', Text ''Same-name models covered by alias''),
    (''routeMapAliasOverride'', Text ''Alias override''),
    (''routeMapAlias'', Text ''Alias''),
    (''routeMapModel'', Text ''Real model''),
    (''routeMapNoRoute'', Text ''No route''),
    (''routeMapNoFallback'', Text ''No fallback''),
    (''routeMapNoCoveredRoute'', Text ''No override''),
    (''routeMapModelNotListed'', Text ''model not listed''),
    (''routeMapSourceAlias'', Text ''alias''),
    (''routeMapSourceCustom'', Text ''custom''),
    (''routeMapSourceAnyModel'', Text ''any model''),
    (''routeMapSourceModel'', Text ''model''),
    (''failoverTitle'', Text ''Site-wide failover policy''),
    (''failoverDesc'', Text ''Control retries and model fallback globally, without binding the policy to one model name or channel.''),
    (''failoverUpdatedAt'', Text ''Last saved {{time}}''),
    (''failoverReset'', Text ''Reset''),
    (''failoverSaved'', Text ''Failover policy saved''),
    (''failoverEnabled'', Text ''Enable failover''),
    (''failoverEnabledHint'', Text ''When disabled, failed requests return the upstream error directly without retry or model fallback.''),
    (''failoverMode'', Text ''Model fallback mode''),
    (''failoverModeHint'', Text ''Same-model fallback follows channel priority. Any-model fallback tries the site-wide channel/model order.''),
    (''failoverModeDisabled'', Text ''No model fallback''),
    (''failoverModeSameModel'', Text ''Same model, another channel''),
    (''failoverModeAnyModel'', Text ''Fallback to any model''),
    (''failoverRetryAttempts'', Text ''Retries per route''),
    (''failoverMaxFallbackAttempts'', Text ''Max model fallbacks''),
    (''failoverRangeHint'', Text ''Range {{min}} - {{max}}''),
    (''failoverTriggers'', Text ''Trigger conditions''),
    (''failoverTriggersHint'', Text ''When any condition matches, the gateway retries the current route first, then uses the selected fallback mode.''),
    (''failoverTriggerTimeout'', Text ''First-byte timeout''),
    (''failoverTriggerNetwork'', Text ''Network error''),
    (''failoverTrigger429'', Text ''HTTP 429''),
    (''failoverTrigger5xx'', Text ''HTTP 5xx''),
    (''failoverHelpTitle'', Text ''Failover configuration guide''),
    (''failoverHelpDesc'', Text ''Custom fallback rules run before the site-wide fallback mode and are useful for explicit backup chains on important models.''),
    (''failoverHelpCustomTitle'', Text ''How custom rules match''),
    (''failoverHelpCustomBody'', Text ''When the request model equals the Request model field, the gateway retries the current route first, then tries the fallback target array in order. Aliases match by their requested alias name and do not inherit rules from their real target model.''),
    (''failoverHelpAliasTitle'', Text ''Aliases are virtual models''),
    (''failoverHelpAliasBody'', Text ''Fallback targets can be existing route aliases from this page or channel:model entries. An alias resolves to its bound provider and real model for forwarding, but keeps independent model-level fallback configuration.''),
    (''failoverHelpOrderTitle'', Text ''Attempt order''),
    (''failoverHelpOrderBody'', Text ''Custom fallbacks are tried in the order you enter them. Each target must explicitly point to an alias or a channel model. Site-wide mode is used only when no custom rule matches.''),
    (''failoverHelpExampleRequest'', Text ''Request model''),
    (''failoverHelpExampleFallbacks'', Text ''Fallback target array''),
    (''failoverCurrentMode'', Text ''Current mode''),
    (''failoverCustomTitle'', Text ''Custom model fallback''),
    (''failoverCustomDesc'', Text ''Configure fallback arrays by the model name sent in the request. Aliases match as independent virtual models; fallbacks can be route aliases or channel:model entries.''),
    (''failoverCustomAdd'', Text ''Add rule''),
    (''failoverCustomEmpty'', Text ''No custom rules configured. Failed requests will use the site-wide fallback mode.''),
    (''failoverCustomRequestModel'', Text ''Request model''),
    (''failoverCustomFallbackModels'', Text ''Fallback target array''),
    (''failoverCustomFallbackPlaceholder'', Text (''mini'' @ unicode [0xA] @ ''backup:gpt-4o-mini'')),
    (''failoverCustomFallbackHint'', Text ''One alias or channel:model target per line, or separate entries with commas. The gateway tries them in this order.''),
    (''failoverCustomRuleCount'', Text ''Custom rules''),
    (''failoverCustomValidationRuleCount'', Text ''Custom rules cannot exceed {{max}} entries''),
    (''failoverCustomValidationModelRequired'', Text ''Custom rule {{index}} is missing a request model''),
    (''failoverCustomValidationFallbackRequired'', Text ''{{model}} needs at least one fallback model''),
    (''failoverCustomValidationFallbackCount'', Text ''{{model}} cannot have more than {{max}} fallback models''),
    (''failoverValidationRequired'', Text ''{{label}} is required''),
    (''failoverValidationNumber'', Text ''{{label}} must be a number''),
    (''failoverValidationRange'', Text ''{{label}} must be between {{min}} and {{max}}'')]"

definition en_models :: Messages where
  "en_models = Section [
    (''title'', Text ''Models''),
    (''totalCount'', Text ''{{count}} models''),
    (''endpointsTitle'', Text ''Explicit Type Endpoints''),
    (''endpointsDesc'', Text (''Besides automatic model routing (/v1/*), you can specify the protocol type in the path '' @ unicode [0x2014] @ '' the gateway will only look for models in matching channels.'')),
    (''openaiProtocol'', Text ''OpenAI Protocol''),
    (''anthropicProtocol'', Text ''Anthropic Protocol''),
    (''modelId'', Text ''Model ID''),
    (''contextLength'', Text ''Context Length''),
    (''inputPrice'', Text ''Input Price / 1M''),
    (''outputPrice'', Text ''Output Price / 1M''),
    (''cacheReadPrice'', Text ''Cache Read Price / 1M''),
    (''cacheWritePrice'', Text ''Cache Write Price / 1M''),
    (''channel'', Text ''Channel''),
    (''manualBadge'', Text ''Manual''),
    (''emptyMeansAuto'', Text ''Leave empty for automatic value''),
    (''editDialogTitle'', Text ''Edit Model Metadata''),
    (''editDialogDesc'', Text ''Set manual pricing and context for {{channel}} / {{model}}. Manual values take precedence over automatically fetched data; leave everything empty to clear the override.''),
    (''customPricingRequired'', Text ''Custom pricing requires both input and output prices''),
    (''validationNumber'', Text ''{{label}} must be a number''),
    (''validationInteger'', Text ''{{label}} must be an integer''),
    (''validationMin'', Text ''{{label}} must be at least {{min}}''),
    (''noModelsTitle'', Text ''No Models''),
    (''noModelsDesc'', Text ''No models configured for this type.''),
    (''anthropicDesc'', Text ''Models routed via Anthropic protocol''),
    (''openaiDesc'', Text ''Models routed via OpenAI-compatible protocol''),
    (''testDialogTitle'', Text ''Test Model''),
    (''testDialogDesc'', Text ''Test model {{model}} (channel: {{channel}})''),
    (''testSuccess'', Text ''Test Passed''),
    (''testFailed'', Text ''Test Failed''),
    (''rawResponse'', Text ''Raw Response''),
    (''retest'', Text ''Retest'')]"

definition en_keys :: Messages where
  "en_keys = Section [
    (''title'', Text ''API Keys Management''),
    (''description'', Text ''Use regular API keys to distinguish clients and sources. Admin keys from env vars are not shown here. Full keys can be viewed, copied, and renamed anytime.''),
    (''newKey'', Text ''New Key''),
    (''nameCol'', Text ''Name''),
    (''prefixCol'', Text ''Prefix''),
    (''createdCol'', Text ''Created At''),
    (''lastUsedCol'', Text ''Last Used''),
    (''actionsCol'', Text ''Actions''),
    (''viewUsage'', Text ''Usage''),
    (''rename'', Text ''Rename''),
    (''nameEmptyError'', Text ''Key name cannot be empty''),
    (''keyNameUpdated'', Text ''Key name updated''),
    (''keyCopied'', Text ''API key copied''),
    (''copyFailed'', Text ''Copy failed, please copy manually''),
    (''confirmDelete'', Text ''Delete API key \"{{name}}\"? It will be invalidated immediately.''),
    (''emptyTitle'', Text ''No API keys yet''),
    (''emptyDesc'', Text ''Create a regular key for clients. You can then distinguish sources by key name.''),
    (''createDialogTitle'', Text ''Create API Key''),
    (''createDialogDesc'', Text ''The full key is returned immediately after creation. You can also view it later on the Keys page.''),
    (''keyNameLabel'', Text ''Key Name''),
    (''keyNamePlaceholder'', Text ''e.g. iPhone / iPad / MacBook / 17Air''),
    (''creating'', Text ''Creating...''),
    (''createKey'', Text ''Create Key''),
    (''renameDialogTitle'', Text ''Rename Key''),
    (''renameDialogDesc'', Text ''Update the display name for this key. Logs and aggregations will use the new name going forward.''),
    (''saveNameBtn'', Text ''Save Name''),
    (''viewDialogTitle'', Text ''View Full API Key''),
    (''viewDialogDesc'', Text ''The full value for \"{{name}}\" is shown below. You can view and copy it anytime.''),
    (''copyKey'', Text ''Copy Key''),
    (''allowedModelsCol'', Text ''Model Restriction''),
    (''allowedModelsNone'', Text ''Unrestricted''),
    (''allowedModelsCount'', Text ''{{count}} model(s)''),
    (''costQuotaCol'', Text ''Cost Quota''),
    (''manageModels'', Text ''Models''),
    (''manageModelsDialogTitle'', Text ''Manage Allowed Models''),
    (''manageModelsDialogDesc'', Text ''Set the model allowlist for \"{{name}}\". Leave empty to allow all models. Supports * wildcard (e.g. claude-*).''),
    (''allowedModelsChannelLabel'', Text ''Channel Filter''),
    (''allowedModelsConfiguredLabel'', Text ''Configured Model''),
    (''allowedModelsAllChannels'', Text ''All Channels''),
    (''allowedModelsSelectPlaceholder'', Text ''Select a configured model''),
    (''allowedModelsNoConfigured'', Text ''No configured models''),
    (''allowedModelsInputPlaceholder'', Text ''Type a model name and press Enter''),
    (''allowedModelsEmptyHint'', Text (''No restriction '' @ unicode [0x2014] @ '' this key can use all models'')),
    (''allowedModelsSave'', Text ''Save''),
    (''allowedModelsSaving'', Text ''Saving...''),
    (''allowedModelsUpdated'', Text ''Model restrictions updated''),
    (''quotaUnlimited'', Text ''Unlimited''),
    (''quotaRemaining'', Text ''{{remaining}} left''),
    (''quotaExhausted'', Text ''Exhausted''),
    (''manageQuota'', Text ''Quota''),
    (''manageQuotaDialogTitle'', Text ''Set Cost Quota''),
    (''manageQuotaDialogDesc'', Text ''Set a cumulative cost limit for \"{{name}}\" in USD. Leave empty for unlimited usage.''),
    (''quotaInputLabel'', Text ''Cost Limit (USD)''),
    (''quotaInputPlaceholder'', Text ''Leave empty for unlimited''),
    (''quotaInputHint'', Text ''{{used}} used so far''),
    (''createQuotaHint'', Text ''Set a quota before distributing this key. Leave empty for unlimited usage.''),
    (''quotaValidation'', Text ''Cost quota must be a non-negative number, or empty for unlimited usage''),
    (''quotaSave'', Text ''Save Quota''),
    (''quotaSaving'', Text ''Saving...''),
    (''quotaUpdated'', Text ''Cost quota updated'')]"

definition en_bucket :: Messages where
  "en_bucket = Section [
    (''colDimension'', Text ''Dimension''),
    (''colRequests'', Text ''Requests''),
    (''colHitRate'', Text ''Hit Rate''),
    (''colAvgFirstToken'', Text ''Avg First Token''),
    (''colErrors'', Text ''Errors''),
    (''colTotalTokens'', Text ''Total Tokens''),
    (''colTotalCost'', Text ''Total Cost''),
    (''lastSeen'', Text ''Last seen {{time}}''),
    (''emptyTitle'', Text ''No aggregate data''),
    (''emptyDescription'', Text ''Send a few requests first, then come back to see route and model aggregations.'')]"

definition en_channelHealth :: Messages where
  "en_channelHealth = Section [
    (''title'', Text ''Channel Health''),
    (''description'', Text (''Hourly request status per channel '' @ unicode [0xB7] @ '' Green = all success '' @ unicode [0xB7] @ '' Yellow = partial '' @ unicode [0xB7] @ '' Red = all failed '' @ unicode [0xB7] @ '' Gray = no data'')),
    (''routeCol'', Text ''Channel'')]"

definition en_payload :: Messages where
  "en_payload = Section [
    (''supportCopyView'', Text ''Supports copy and full view''),
    (''noContent'', Text ''No content retained''),
    (''structured'', Text ''Structured''),
    (''raw'', Text ''Raw''),
    (''truncated'', Text ''Truncated''),
    (''fullRetained'', Text ''Full''),
    (''emptyTitle'', Text ''No content to display''),
    (''emptyDescription'', Text (''This segment has no saved payload '' @ unicode [0x2014] @ '' usually means the request hasn't been written or returned no body.''))]"

definition en_chart :: Messages where
  "en_chart = Section [
    (''tokenTrend'', Text ''Token Trend''),
    (''tokenTrendDesc'', Text ''Token consumption per time bucket.''),
    (''costTrend'', Text ''Cost Trend''),
    (''costTrendDesc'', Text (''Cost per time bucket '' @ unicode [0x2014] @ '' clearer when separated.'')),
    (''tokenConsumption'', Text ''Token Consumption''),
    (''costSpend'', Text ''Cost''),
    (''emptyTimeseries'', Text ''No time series data for current filters''),
    (''peakTokens'', Text ''Peak Tokens''),
    (''peakCost'', Text ''Peak Cost''),
    (''dataPoints'', Text ''Data Points'')]"

definition en :: Messages where
  "en = Section [
    (''common'', en_common),
    (''lang'', en_lang),
    (''nav'', en_nav),
    (''session'', en_session),
    (''timeRange'', en_timeRange),
    (''monitor'', en_monitor),
    (''settings'', en_settings),
    (''usage'', en_usage),
    (''logs'', en_logs),
    (''logTable'', en_logTable),
    (''detail'', en_detail),
    (''providers'', en_providers),
    (''routes'', en_routes),
    (''models'', en_models),
    (''keys'', en_keys),
    (''bucket'', en_bucket),
    (''channelHealth'', en_channelHealth),
    (''payload'', en_payload),
    (''chart'', en_chart)]"

end
