(* ===== verification/Locale_Zh.thy ===== *)
theory Locale_Zh
  imports Messages
begin

text \<open>
  The Chinese texts of the dashboard, \<open>i18n/locales/zh.ts\<close>, one definition per section.
\<close>

definition zh_common :: Messages where
  "zh_common = Section [
    (''refresh'', Text (unicode [0x5237, 0x65B0])),
    (''refreshData'', Text (unicode [0x5237, 0x65B0, 0x6570, 0x636E])),
    (''save'', Text (unicode [0x4FDD, 0x5B58])),
    (''cancel'', Text (unicode [0x53D6, 0x6D88])),
    (''close'', Text (unicode [0x5173, 0x95ED])),
    (''delete'', Text (unicode [0x5220, 0x9664])),
    (''edit'', Text (unicode [0x7F16, 0x8F91])),
    (''create'', Text (unicode [0x521B, 0x5EFA])),
    (''test'', Text (unicode [0x6D4B, 0x8BD5])),
    (''testing'', Text (unicode [0x6D4B, 0x8BD5, 0x4E2D])),
    (''saving'', Text (unicode [0x4FDD, 0x5B58, 0x4E2D, 0x2026])),
    (''deleting'', Text (unicode [0x5220, 0x9664, 0x4E2D] @ ''...'')),
    (''loading'', Text (unicode [0x52A0, 0x8F7D, 0x4E2D] @ ''...'')),
    (''copy'', Text (unicode [0x590D, 0x5236])),
    (''help'', Text (unicode [0x5E2E, 0x52A9])),
    (''viewLogs'', Text (unicode [0x67E5, 0x770B, 0x65E5, 0x5FD7])),
    (''clearFilters'', Text (unicode [0x6E05, 0x7A7A, 0x7B5B, 0x9009])),
    (''clearAllFilters'', Text (unicode [0x6E05, 0x7A7A, 0x5168, 0x90E8, 0x7B5B, 0x9009])),
    (''noData'', Text (unicode [0x6682, 0x65E0, 0x6570, 0x636E])),
    (''enabled'', Text (unicode [0x542F, 0x7528])),
    (''disabled'', Text (unicode [0x7981, 0x7528])),
    (''all'', Text (unicode [0x5168, 0x90E8])),
    (''selectAll'', Text (unicode [0x5168, 0x9009])),
    (''clear'', Text (unicode [0x6E05, 0x7A7A])),
    (''back'', Text (unicode [0x8FD4, 0x56DE])),
    (''current'', Text (unicode [0x5F53, 0x524D])),
    (''alreadyExists'', Text (unicode [0x5DF2, 0x5B58, 0x5728])),
    (''success'', Text (unicode [0x6210, 0x529F])),
    (''failed'', Text (unicode [0x5931, 0x8D25])),
    (''errorOccurred'', Text (unicode [0x64CD, 0x4F5C, 0x5931, 0x8D25])),
    (''loadFailed'', Text (unicode [0x52A0, 0x8F7D, 0x5931, 0x8D25])),
    (''saveFailed'', Text (unicode [0x4FDD, 0x5B58, 0x5931, 0x8D25])),
    (''connectionFailed'', Text (unicode [0x8FDE, 0x63A5, 0x5931, 0x8D25])),
    (''done'', Text (unicode [0x5DF2, 0x5B8C, 0x6210])),
    (''confirm'', Text (unicode [0x786E, 0x8BA4])),
    (''searchRoute'', Text (unicode [0x641C, 0x7D22, 0x6E20, 0x9053] @ ''...'')),
    (''searchModel'', Text (unicode [0x641C, 0x7D22, 0x6A21, 0x578B] @ ''...'')),
    (''searchTimeRange'', Text (unicode [0x641C, 0x7D22, 0x65F6, 0x95F4, 0x8303, 0x56F4] @ ''...'')),
    (''export'', Text (unicode [0x5BFC, 0x51FA])),
    (''import'', Text (unicode [0x5BFC, 0x5165]))]"

definition zh_lang :: Messages where
  "zh_lang = Section [
    (''zh'', Text (unicode [0x4E2D, 0x6587])),
    (''en'', Text ''English''),
    (''switch'', Text (unicode [0x8BED, 0x8A00]))]"

definition zh_nav :: Messages where
  "zh_nav = Section [
    (''monitor'', Text (unicode [0x76D1, 0x63A7])),
    (''usage'', Text (unicode [0x7528, 0x91CF])),
    (''providers'', Text (unicode [0x6E20, 0x9053])),
    (''models'', Text (unicode [0x6A21, 0x578B])),
    (''routes'', Text (unicode [0x8DEF, 0x7531])),
    (''keys'', Text (unicode [0x5BC6, 0x94A5])),
    (''logs'', Text (unicode [0x65E5, 0x5FD7])),
    (''settings'', Text (unicode [0x914D, 0x7F6E])),
    (''themeLabel'', Text (unicode [0x663E, 0x793A, 0x6A21, 0x5F0F])),
    (''themeLight'', Text (unicode [0x6D45, 0x8272])),
    (''themeDark'', Text (unicode [0x591C, 0x95F4])),
    (''themeSystem'', Text (unicode [0x8DDF, 0x968F, 0x7CFB, 0x7EDF])),
    (''loggingOut'', Text (unicode [0x9000, 0x51FA, 0x4E2D] @ ''...'')),
    (''logout'', Text (unicode [0x9000, 0x51FA]))]"

definition zh_session :: Messages where
  "zh_session = Section [
    (''brandLabel'', Text ''LLMRelayService''),
    (''loginTitle'', Text (unicode [0x8FDB, 0x5165, 0x672C, 0x5730, 0x89C2, 0x6D4B, 0x53F0])),
    (''loginDescription'', Text (unicode [0x767B, 0x5F55, 0x540E, 0x53EF, 0x4EE5, 0x67E5, 0x770B, 0x8BF7, 0x6C42, 0x8868, 0x683C, 0x3001, 0x9996] @ '' token '' @ unicode [0x65F6, 0x5EF6, 0x3001, 0x7ED3, 0x6784, 0x6458, 0x8981, 0xFF0C, 0x4EE5, 0x53CA, 0x6BCF, 0x6761, 0x8BB0, 0x5F55, 0x7684, 0x5B8C, 0x6574] @ '' payload'' @ unicode [0x3002])),
    (''loginFailed'', Text (unicode [0x767B, 0x5F55, 0x5931, 0x8D25])),
    (''passwordLabel'', Text (unicode [0x5BC6, 0x7801])),
    (''passwordPlaceholder'', Text (unicode [0x8F93, 0x5165] @ '' GATEWAY_API_KEY'')),
    (''passwordHint'', Text (unicode [0x670D, 0x52A1, 0x542F, 0x52A8, 0x65F6, 0x9700, 0x8981, 0x8BBE, 0x7F6E, 0x73AF, 0x5883, 0x53D8, 0x91CF] @ '' GATEWAY_API_KEY'' @ unicode [0xFF0C, 0x767B, 0x5F55, 0x6210, 0x529F, 0x540E, 0x4F1A, 0x5199, 0x5165, 0x8C03, 0x8BD5] @ '' cookie'' @ unicode [0x3002])),
    (''submitting'', Text (unicode [0x767B, 0x5F55, 0x4E2D] @ ''...'')),
    (''submitButton'', Text (unicode [0x8FDB, 0x5165, 0x8C03, 0x8BD5, 0x53F0])),
    (''disabledTitle'', Text (unicode [0x89C2, 0x6D4B, 0x53F0, 0x672A, 0x542F, 0x7528])),
    (''disabledDescription'', Text (unicode [0x5F53, 0x524D, 0x6CA1, 0x6709, 0x8BBE, 0x7F6E, 0x73AF, 0x5883, 0x53D8, 0x91CF] @ '' GATEWAY_API_KEY'' @ unicode [0xFF0C, 0x6240, 0x4EE5, 0x8C03, 0x8BD5, 0x63A5, 0x53E3, 0x4FDD, 0x6301, 0x5173, 0x95ED, 0x3002, 0x8BF7, 0x7528] @ '' GATEWAY_API_KEY=your-secret bun start '' @ unicode [0x6216] @ '' bun run dev '' @ unicode [0x7684, 0x65B9, 0x5F0F, 0x542F, 0x52A8, 0x670D, 0x52A1, 0x3002])),
    (''loadingTitle'', Text (unicode [0x6B63, 0x5728, 0x8FDE, 0x63A5, 0x8C03, 0x8BD5, 0x670D, 0x52A1])),
    (''loadingDescription'', Text (unicode [0x5148, 0x786E, 0x8BA4, 0x4F1A, 0x8BDD, 0xFF0C, 0x518D, 0x62C9, 0x53D6, 0x8BF7, 0x6C42, 0x8868, 0x683C, 0x548C, 0x8BE6, 0x60C5, 0x6570, 0x636E, 0x3002])),
    (''errorTitle'', Text (unicode [0x65E0, 0x6CD5, 0x8FDE, 0x63A5, 0x8C03, 0x8BD5, 0x670D, 0x52A1])),
    (''errorHint'', Text (unicode [0x8BF7, 0x786E, 0x8BA4] @ '' Bun '' @ unicode [0x670D, 0x52A1, 0x5DF2, 0x7ECF, 0x542F, 0x52A8, 0xFF0C, 0x5E76, 0x4E14, 0x524D, 0x7AEF, 0x4EE3, 0x7406, 0x53EF, 0x4EE5, 0x8BBF, 0x95EE] @ '' /__debug/api/session'' @ unicode [0x3002]))]"

definition zh_timeRange :: Messages where
  "zh_timeRange = Section [
    (''1h'', Text (unicode [0x8FC7, 0x53BB] @ '' 1 '' @ unicode [0x5C0F, 0x65F6])),
    (''24h'', Text (unicode [0x8FC7, 0x53BB] @ '' 24 '' @ unicode [0x5C0F, 0x65F6])),
    (''72h'', Text (unicode [0x8FC7, 0x53BB] @ '' 72 '' @ unicode [0x5C0F, 0x65F6])),
    (''7d'', Text (unicode [0x8FD1] @ '' 7 '' @ unicode [0x5929])),
    (''30d'', Text (unicode [0x8FD1] @ '' 30 '' @ unicode [0x5929])),
    (''all'', Text (unicode [0x6240, 0x6709, 0x65F6, 0x95F4])),
    (''placeholder'', Text (unicode [0x9009, 0x62E9, 0x65F6, 0x95F4, 0x8303, 0x56F4]))]"

definition zh_monitor :: Messages where
  "zh_monitor = Section [
    (''title'', Text (unicode [0x76D1, 0x63A7, 0x9762, 0x677F])),
    (''description'', Text (unicode [0x805A, 0x7126, 0x8FD0, 0x884C, 0x72B6, 0x6001, 0x3001, 0x65F6, 0x5EF6, 0x8868, 0x73B0, 0x3001, 0x7A33, 0x5B9A, 0x6027, 0x548C, 0x6E20, 0x9053, 0x5065, 0x5EB7, 0x3002, 0x8BE6, 0x7EC6, 0x7684] @ '' Token'' @ unicode [0x3001, 0x6210, 0x672C, 0x548C, 0x5206, 0x7EC4, 0x7EDF, 0x8BA1, 0x653E, 0x5728] @ '' Usage '' @ unicode [0x9875, 0x9762, 0x3002])),
    (''filterLabel'', Text (unicode [0x6307, 0x6807, 0x7B5B, 0x9009])),
    (''routeFilterLabel'', Text (unicode [0x6240, 0x5C5E, 0x6E20, 0x9053] @ '' (Route)'')),
    (''allRoutes'', Text (unicode [0x5168, 0x90E8, 0x6E20, 0x9053])),
    (''timeRangeLabel'', Text (unicode [0x65F6, 0x95F4, 0x8303, 0x56F4])),
    (''overviewTitle'', Text (unicode [0x8BF7, 0x6C42, 0x6982, 0x51B5])),
    (''overviewDescription'', Text (unicode [0x628A, 0x539F, 0x6765, 0x7684, 0x6982, 0x51B5] @ '' tab '' @ unicode [0x76F4, 0x63A5, 0x94FA, 0x5F00, 0xFF0C, 0x5148, 0x770B, 0x8BF7, 0x6C42, 0x4F53, 0x91CF, 0x3001, 0x6210, 0x529F, 0x7387, 0x548C, 0x6545, 0x969C, 0x8F6C, 0x79FB, 0xFF0C, 0x518D, 0x7EE7, 0x7EED, 0x5F80, 0x4E0B, 0x770B, 0x7CFB, 0x7EDF, 0x4E0E, 0x5065, 0x5EB7, 0x60C5, 0x51B5, 0x3002])),
    (''totalRequests'', Text (unicode [0x603B, 0x8BF7, 0x6C42, 0x6570])),
    (''successRate'', Text (unicode [0x8BF7, 0x6C42, 0x6210, 0x529F, 0x7387])),
    (''errorRequests'', Text (unicode [0x9519, 0x8BEF, 0x8BF7, 0x6C42])),
    (''failovers'', Text (unicode [0x6545, 0x969C, 0x8F6C, 0x79FB])),
    (''successCount'', Text (unicode [0x6210, 0x529F] @ '' {{success}} '' @ unicode [0xB7] @ '' '' @ unicode [0x5931, 0x8D25] @ '' {{errors}}'')),
    (''totalCount'', Text (unicode [0x5171] @ '' {{total}} '' @ unicode [0x4E2A, 0x8BF7, 0x6C42])),
    (''errorRate'', Text (unicode [0x9519, 0x8BEF, 0x7387] @ '' {{rate}}'')),
    (''failoverRate'', Text (unicode [0x56DE, 0x9000, 0x7387] @ '' {{rate}}'')),
    (''systemMetrics'', Text (unicode [0x7CFB, 0x7EDF, 0x6307, 0x6807])),
    (''storageBackend'', Text (unicode [0x5B58, 0x50A8, 0x540E, 0x7AEF])),
    (''retentionDescription'', Text (unicode [0x4FDD, 0x7559, 0x6700, 0x8FD1] @ '' {{count}} '' @ unicode [0x6761])),
    (''channelHealthLabel'', Text (unicode [0x6E20, 0x9053, 0x5065, 0x5EB7])),
    (''channelHealthHint'', Text (unicode [0x540C, 0x9875, 0x7EE7, 0x7EED, 0x4E0B, 0x6EDA, 0x67E5, 0x770B, 0x5404, 0x6E20, 0x9053, 0x8FD1, 0x671F, 0x72B6, 0x6001, 0xFF0C, 0x4E0D, 0x518D, 0x5207, 0x6362, 0x89C6, 0x56FE, 0x3002])),
    (''latencyTitle'', Text (unicode [0x65F6, 0x5EF6, 0x4E0E, 0x7A33, 0x5B9A, 0x6027])),
    (''latencyDescription'', Text (unicode [0x628A, 0x5EF6, 0x8FDF, 0x6307, 0x6807, 0x3001, 0x7F13, 0x5B58, 0x5065, 0x5EB7, 0x548C, 0x7A33, 0x5B9A, 0x6027, 0x96C6, 0x4E2D, 0x653E, 0x5728] @ '' Monitor '' @ unicode [0x9875, 0x9762, 0xFF0C, 0x4F5C, 0x4E3A, 0x72EC, 0x7ACB, 0x76D1, 0x63A7, 0x89C6, 0x89D2, 0x3002])),
    (''latencyMetrics'', Text (unicode [0x5EF6, 0x8FDF, 0x6307, 0x6807])),
    (''avgFirstChunk'', Text (unicode [0x5E73, 0x5747, 0x9996, 0x5305])),
    (''avgFirstChunkDesc'', Text (unicode [0x7B2C, 0x4E00, 0x4E2A] @ '' chunk '' @ unicode [0x5230, 0x8FBE, 0x7684, 0x5E73, 0x5747, 0x5EF6, 0x8FDF])),
    (''avgFirstToken'', Text (unicode [0x5E73, 0x5747, 0x9996] @ '' Token'')),
    (''avgFirstTokenDesc'', Text (unicode [0x7B2C, 0x4E00, 0x4E2A] @ '' token '' @ unicode [0x5230, 0x8FBE, 0x7684, 0x5E73, 0x5747, 0x5EF6, 0x8FDF])),
    (''avgDuration'', Text (unicode [0x5E73, 0x5747, 0x603B, 0x65F6, 0x957F])),
    (''avgDurationDesc'', Text (unicode [0x8BF7, 0x6C42, 0x5B8C, 0x6210, 0x7684, 0x5E73, 0x5747, 0x8017, 0x65F6])),
    (''avgGeneration'', Text (unicode [0x5E73, 0x5747, 0x751F, 0x6210, 0x65F6, 0x957F])),
    (''avgGenerationDesc'', Text (unicode [0x9996] @ '' Token '' @ unicode [0x5230, 0x5B8C, 0x6210, 0x7684, 0x5E73, 0x5747, 0x8017, 0x65F6])),
    (''cacheHealth'', Text (unicode [0x7F13, 0x5B58, 0x5065, 0x5EB7])),
    (''cacheHitRate'', Text (unicode [0x7F13, 0x5B58, 0x547D, 0x4E2D, 0x7387])),
    (''cacheHitDesc'', Text (unicode [0x547D, 0x4E2D] @ '' {{hits}} '' @ unicode [0xB7] @ '' '' @ unicode [0x521B, 0x5EFA] @ '' {{creates}}'')),
    (''cacheHits'', Text (unicode [0x7F13, 0x5B58, 0x547D, 0x4E2D])),
    (''cacheHitsDesc'', Text (''cache_read_input_tokens > 0 '' @ unicode [0x7684, 0x8BF7, 0x6C42])),
    (''cacheCreates'', Text (unicode [0x7F13, 0x5B58, 0x521B, 0x5EFA])),
    (''cacheCreatesDesc'', Text (''cache_creation_input_tokens > 0 '' @ unicode [0x7684, 0x8BF7, 0x6C42])),
    (''cacheMisses'', Text (unicode [0x7F13, 0x5B58] @ '' Miss'')),
    (''cacheMissesDesc'', Text (unicode [0x672A, 0x547D, 0x4E2D, 0x4E14, 0x672A, 0x521B, 0x5EFA, 0x7F13, 0x5B58, 0x7684, 0x8BF7, 0x6C42])),
    (''requestTrend'', Text (unicode [0x8BF7, 0x6C42, 0x91CF, 0x8D8B, 0x52BF])),
    (''recentRequests'', Text (unicode [0x6700, 0x8FD1, 0x8BF7, 0x6C42])),
    (''channelStatus'', Text (unicode [0x6E20, 0x9053, 0x72B6, 0x6001])),
    (''recentLogs'', Text (unicode [0x6700, 0x8FD1, 0x65E5, 0x5FD7])),
    (''viewAll'', Text (unicode [0x67E5, 0x770B, 0x5168, 0x90E8])),
    (''tabRequests'', Text (unicode [0x8BF7, 0x6C42, 0x91CF])),
    (''tabSuccessRate'', Text (unicode [0x6210, 0x529F, 0x7387])),
    (''tabLatency'', Text (unicode [0x5EF6, 0x8FDF])),
    (''statusHealthy'', Text (unicode [0x6B63, 0x5E38])),
    (''statusDegraded'', Text (unicode [0x544A, 0x8B66])),
    (''statusDown'', Text (unicode [0x6545, 0x969C])),
    (''statusUnknown'', Text (unicode [0x672A, 0x77E5])),
    (''channelName'', Text (unicode [0x6E20, 0x9053])),
    (''statusLabel'', Text (unicode [0x72B6, 0x6001])),
    (''trend'', Text (unicode [0x8D8B, 0x52BF]))]"

definition zh_settings :: Messages where
  "zh_settings = Section [
    (''title'', Text (unicode [0x8FD0, 0x884C, 0x914D, 0x7F6E])),
    (''description'', Text (unicode [0x8C03, 0x6574, 0x7F51, 0x5173, 0x4E0E, 0x4E0A, 0x6E38, 0x4EA4, 0x4E92, 0x7684, 0x8FD0, 0x884C, 0x65F6, 0x8D85, 0x65F6, 0xFF0C, 0x4FDD, 0x5B58, 0x540E, 0x7ACB, 0x5373, 0x4F5C, 0x7528, 0x4E8E, 0x65B0, 0x7684, 0x8BF7, 0x6C42, 0x3002])),
    (''firstByteTitle'', Text (unicode [0x9996, 0x5B57, 0x8282, 0x8D85, 0x65F6])),
    (''firstByteDesc'', Text (unicode [0x666E, 0x901A, 0x8BF7, 0x6C42, 0x548C, 0x56FE, 0x7247, 0x8BF7, 0x6C42, 0x5141, 0x8BB8, 0x66F4, 0x957F, 0x7B49, 0x5F85, 0xFF0C, 0x6D41, 0x5F0F, 0x8BF7, 0x6C42, 0x4FDD, 0x6301, 0x66F4, 0x77ED, 0x7684, 0x9996, 0x5B57, 0x8282, 0x7A97, 0x53E3, 0x3002])),
    (''defaultFirstByteLabel'', Text (unicode [0x666E, 0x901A, 0x8BF7, 0x6C42] @ '' FTTB'')),
    (''streamFirstByteLabel'', Text (unicode [0x6D41, 0x5F0F, 0x8BF7, 0x6C42] @ '' FTTB'')),
    (''imageFirstByteLabel'', Text (unicode [0x56FE, 0x7247, 0x8BF7, 0x6C42] @ '' FTTB'')),
    (''responseIdleTitle'', Text (unicode [0x54CD, 0x5E94, 0x4F53, 0x7A7A, 0x95F2, 0x8D85, 0x65F6])),
    (''responseIdleDesc'', Text (unicode [0x4E0A, 0x6E38, 0x5DF2, 0x7ECF, 0x8FD4, 0x56DE, 0x54CD, 0x5E94, 0x5934, 0x540E, 0xFF0C, 0x5982, 0x679C, 0x957F, 0x65F6, 0x95F4, 0x6CA1, 0x6709, 0x65B0, 0x7684] @ '' body chunk'' @ unicode [0xFF0C, 0x5C31, 0x4E2D, 0x65AD, 0x672C, 0x6B21, 0x54CD, 0x5E94, 0x3002])),
    (''responseIdleLabel'', Text (''Body '' @ unicode [0x7A7A, 0x95F2, 0x8D85, 0x65F6])),
    (''secondsSuffix'', Text (unicode [0x79D2])),
    (''currentPolicyTitle'', Text (unicode [0x5F53, 0x524D, 0x7B56, 0x7565])),
    (''normalPolicy'', Text (unicode [0x666E, 0x901A, 0x8BF7, 0x6C42])),
    (''streamPolicy'', Text (unicode [0x6D41, 0x5F0F, 0x8BF7, 0x6C42])),
    (''imagePolicy'', Text (unicode [0x56FE, 0x7247, 0x8BF7, 0x6C42])),
    (''bodyIdlePolicy'', Text (unicode [0x54CD, 0x5E94, 0x4F53, 0x7A7A, 0x95F2])),
    (''disabledPolicy'', Text (unicode [0x5173, 0x95ED])),
    (''saved'', Text (unicode [0x914D, 0x7F6E, 0x5DF2, 0x4FDD, 0x5B58])),
    (''updatedAt'', Text (unicode [0x6700, 0x540E, 0x4FDD, 0x5B58] @ '' {{time}}'')),
    (''defaultValue'', Text (unicode [0x9ED8, 0x8BA4] @ '' {{value}} '' @ unicode [0x79D2])),
    (''rangeHint'', Text (unicode [0x8303, 0x56F4] @ '' {{min}} - {{max}} '' @ unicode [0x79D2])),
    (''loadFailed'', Text (unicode [0x914D, 0x7F6E, 0x52A0, 0x8F7D, 0x5931, 0x8D25])),
    (''validationNumber'', Text (''{{label}} '' @ unicode [0x5FC5, 0x987B, 0x662F, 0x6570, 0x5B57])),
    (''validationRequired'', Text (''{{label}} '' @ unicode [0x4E0D, 0x80FD, 0x4E3A, 0x7A7A])),
    (''validationRange'', Text (''{{label}} '' @ unicode [0x5FC5, 0x987B, 0x5728] @ '' {{min}} - {{max}} '' @ unicode [0x79D2, 0x4E4B, 0x95F4]))]"

definition zh_usage :: Messages where
  "zh_usage = Section [
    (''title'', Text (unicode [0x7528, 0x91CF, 0x7EDF, 0x8BA1])),
    (''description'', Text (unicode [0x7EDF, 0x4E00, 0x67E5, 0x770B, 0x8BF7, 0x6C42, 0x91CF, 0x3001] @ ''Token '' @ unicode [0x6D88, 0x8017, 0x3001, 0x6210, 0x672C, 0x548C, 0x65F6, 0x5EF6, 0xFF0C, 0x652F, 0x6301, 0x6309, 0x65F6, 0x95F4, 0x6BB5, 0x3001, 0x6A21, 0x578B, 0x3001] @ ''Key '' @ unicode [0x548C, 0x6E20, 0x9053, 0x5207, 0x7247, 0x5206, 0x6790, 0x3002])),
    (''filterLabel'', Text (unicode [0x7528, 0x91CF, 0x7B5B, 0x9009])),
    (''timeRangeLabel'', Text (unicode [0x65F6, 0x95F4, 0x8303, 0x56F4])),
    (''routeLabel'', Text (unicode [0x6E20, 0x9053])),
    (''modelLabel'', Text (unicode [0x6A21, 0x578B])),
    (''clientLabel'', Text (''Key / '' @ unicode [0x6765, 0x6E90])),
    (''allRoutes'', Text (unicode [0x5168, 0x90E8, 0x6E20, 0x9053])),
    (''allModels'', Text (unicode [0x5168, 0x90E8, 0x6A21, 0x578B])),
    (''allClients'', Text (unicode [0x5168, 0x90E8] @ '' Key / '' @ unicode [0x6765, 0x6E90])),
    (''searchClient'', Text (unicode [0x641C, 0x7D22] @ '' Key / '' @ unicode [0x6765, 0x6E90] @ ''...'')),
    (''coreDataTitle'', Text (unicode [0x6838, 0x5FC3, 0x4F7F, 0x7528, 0x6570, 0x636E])),
    (''coreDataDesc'', Text (unicode [0x5148, 0x770B, 0x8BF7, 0x6C42, 0x89C4, 0x6A21, 0x3001, 0x603B] @ '' Tokens '' @ unicode [0x548C, 0x603B, 0x82B1, 0x8D39, 0xFF0C, 0x5FEB, 0x901F, 0x5224, 0x65AD, 0x5F53, 0x524D] @ '' usage '' @ unicode [0x4F53, 0x91CF, 0x3002])),
    (''totalRequests'', Text (unicode [0x603B, 0x8BF7, 0x6C42, 0x6570])),
    (''totalRequestsDesc'', Text (unicode [0x4F7F, 0x7528, 0x671F, 0x5185, 0x6210, 0x529F] @ '' {{count}} '' @ unicode [0x6B21])),
    (''totalTokens'', Text (unicode [0x603B] @ '' Tokens'')),
    (''totalTokensDesc'', Text (unicode [0x8F93, 0x5165] @ '' {{input}} '' @ unicode [0xB7] @ '' '' @ unicode [0x8F93, 0x51FA] @ '' {{output}}'')),
    (''totalCost'', Text (unicode [0x603B, 0x82B1, 0x8D39])),
    (''totalCostDesc'', Text (unicode [0x8F93, 0x5165] @ '' {{input}} '' @ unicode [0xB7] @ '' '' @ unicode [0x8F93, 0x51FA] @ '' {{output}}'')),
    (''avgCostPerReq'', Text (unicode [0x5355, 0x6B21, 0x5E73, 0x5747, 0x6210, 0x672C])),
    (''avgTokensPerReq'', Text (unicode [0x5355, 0x6B21, 0x5E73, 0x5747] @ '' Tokens {{count}}'')),
    (''trendTitle'', Text (unicode [0x65F6, 0x95F4, 0x8D8B, 0x52BF])),
    (''trendDesc'', Text (unicode [0x5148, 0x6293] @ '' token '' @ unicode [0x548C] @ '' cost '' @ unicode [0x7684, 0x4E3B, 0x8981, 0x8D8B, 0x52BF, 0xFF0C, 0x518D, 0x4E0B, 0x94BB, 0x5230, 0x5177, 0x4F53, 0x7EF4, 0x5EA6, 0x3002] @ ''Monitor '' @ unicode [0x9875, 0x9762, 0x8D1F, 0x8D23, 0x65F6, 0x5EF6, 0x3001, 0x7A33, 0x5B9A, 0x6027, 0x548C, 0x6E20, 0x9053, 0x5065, 0x5EB7, 0x3002])),
    (''costCacheTitle'', Text (unicode [0x6210, 0x672C, 0x4E0E, 0x7F13, 0x5B58])),
    (''costCacheDesc'', Text (unicode [0x6210, 0x672C, 0x62C6, 0x5206, 0x3001, 0x7F13, 0x5B58, 0x547D, 0x4E2D, 0x548C, 0x63A8, 0x7406, 0x91CF, 0x7EE7, 0x7EED, 0x4FDD, 0x7559, 0x5728] @ '' Usage '' @ unicode [0x4E3B, 0x89C6, 0x56FE, 0xFF0C, 0x56F4, 0x7ED5, 0x300C, 0x82B1, 0x5728, 0x54EA, 0x3001, 0x4E3A, 0x4EC0, 0x4E48, 0x82B1, 0x300D, 0x6765, 0x7EC4, 0x7EC7, 0x3002])),
    (''costBreakdown'', Text (unicode [0x6210, 0x672C, 0x62C6, 0x5206])),
    (''totalCostLabel'', Text (unicode [0x603B, 0x6210, 0x672C])),
    (''retentionDesc'', Text (unicode [0x4FDD, 0x7559, 0x8BB0, 0x5F55] @ '' {{count}}'')),
    (''inputCost'', Text (unicode [0x8F93, 0x5165, 0x6210, 0x672C])),
    (''inputTokensDesc'', Text (unicode [0x8F93, 0x5165] @ '' tokens {{count}}'')),
    (''outputCost'', Text (unicode [0x8F93, 0x51FA, 0x6210, 0x672C])),
    (''outputTokensDesc'', Text (unicode [0x8F93, 0x51FA] @ '' tokens {{count}}'')),
    (''cacheCost'', Text (unicode [0x7F13, 0x5B58, 0x6210, 0x672C])),
    (''cacheCostDesc'', Text (unicode [0x8BFB, 0x7F13, 0x5B58] @ '' / cached prompt {{read}} '' @ unicode [0xB7] @ '' '' @ unicode [0x5199, 0x7F13, 0x5B58] @ '' {{write}}'')),
    (''cacheAndReasoning'', Text (unicode [0x7F13, 0x5B58, 0x4E0E, 0x63A8, 0x7406])),
    (''cacheHitRate'', Text (unicode [0x7F13, 0x5B58, 0x547D, 0x4E2D, 0x7387])),
    (''cacheHitDesc'', Text (unicode [0x547D, 0x4E2D] @ '' {{hits}} '' @ unicode [0xB7] @ '' '' @ unicode [0x521B, 0x5EFA] @ '' {{creates}}'')),
    (''anthropicCacheRead'', Text (''Anthropic '' @ unicode [0x8BFB, 0x7F13, 0x5B58])),
    (''anthropicCacheReadDesc'', Text (''cache_read_input_tokens '' @ unicode [0x7D2F, 0x8BA1])),
    (''anthropicCacheWrite'', Text (''Anthropic '' @ unicode [0x5199, 0x7F13, 0x5B58])),
    (''anthropicCacheWriteDesc'', Text (''cache_creation_input_tokens '' @ unicode [0x7D2F, 0x8BA1])),
    (''openaiCachedPrompt'', Text (''OpenAI '' @ unicode [0x7F13, 0x5B58, 0x63D0, 0x793A])),
    (''openaiCachedPromptDesc'', Text (''prompt_tokens_details.cached_tokens '' @ unicode [0x7D2F, 0x8BA1])),
    (''reasoning'', Text (unicode [0x63A8, 0x7406])),
    (''reasoningDesc'', Text (unicode [0x63A8, 0x7406, 0x8F93, 0x51FA] @ '' token '' @ unicode [0x7D2F, 0x8BA1])),
    (''groupDetail'', Text (unicode [0x5206, 0x7EC4, 0x660E, 0x7EC6])),
    (''groupDetailDesc'', Text (unicode [0x7EE7, 0x7EED, 0x5411, 0x4E0B, 0x6EDA, 0x52A8, 0x67E5, 0x770B, 0x6E20, 0x9053, 0x3001, 0x6A21, 0x578B, 0x3001] @ ''Key / '' @ unicode [0x6765, 0x6E90, 0x4E09, 0x4E2A, 0x7EF4, 0x5EA6, 0x7684, 0x7528, 0x91CF, 0x4E0E, 0x82B1, 0x8D39, 0xFF0C, 0x70B9, 0x51FB, 0x884C, 0x5185, 0x7EF4, 0x5EA6, 0x53EF, 0x76F4, 0x63A5, 0x56DE, 0x586B, 0x7B5B, 0x9009, 0x3002])),
    (''routeBucket'', Text (unicode [0x6E20, 0x9053, 0x805A, 0x5408])),
    (''routeBucketDesc'', Text (unicode [0x6309] @ '' route_prefix '' @ unicode [0x6C47, 0x603B, 0x8BF7, 0x6C42, 0x91CF, 0x3001, 0x603B] @ '' tokens '' @ unicode [0x548C, 0x603B, 0x6210, 0x672C, 0x3002])),
    (''modelBucket'', Text (unicode [0x6A21, 0x578B, 0x805A, 0x5408])),
    (''modelBucketDesc'', Text (unicode [0x6309, 0x6A21, 0x578B, 0x6C47, 0x603B, 0x8BF7, 0x6C42, 0x91CF, 0x3001, 0x603B] @ '' tokens'' @ unicode [0x3001, 0x5E73, 0x5747, 0x9996] @ '' token '' @ unicode [0x548C, 0x6210, 0x672C, 0x3002])),
    (''clientBucket'', Text (''Key / '' @ unicode [0x6765, 0x6E90, 0x805A, 0x5408])),
    (''clientBucketDesc'', Text (unicode [0x6309] @ '' API key '' @ unicode [0x540D, 0x79F0, 0x805A, 0x5408, 0x8BF7, 0x6C42, 0x89C4, 0x6A21, 0x548C, 0x6210, 0x672C, 0xFF1B, 0x6765, 0x81EA, 0x73AF, 0x5883, 0x53D8, 0x91CF, 0x7684] @ '' key '' @ unicode [0x7EDF, 0x4E00, 0x663E, 0x793A, 0x4E3A] @ '' default'' @ unicode [0x3002]))]"

definition zh_logs :: Messages where
  "zh_logs = Section [
    (''title'', Text (unicode [0x8BF7, 0x6C42, 0x65E5, 0x5FD7, 0x4E0E, 0x6392, 0x67E5])),
    (''description'', Text (unicode [0x5FEB, 0x901F, 0x7B5B, 0x9009, 0x8BF7, 0x6C42, 0x3001, 0x6392, 0x5E8F, 0x65F6, 0x5EF6, 0x3001, 0x67E5, 0x770B, 0x8F6C, 0x53D1, 0x7ED3, 0x679C, 0xFF0C, 0x5E76, 0x6DF1, 0x5165, 0x6392, 0x67E5] @ '' request / response payload'' @ unicode [0x3002])),
    (''filterPanelLabel'', Text (unicode [0x65E5, 0x5FD7, 0x7B5B, 0x9009, 0x9762, 0x677F])),
    (''searchPlaceholder'', Text (unicode [0x641C, 0x7D22] @ '' model / path / request_id ...'')),
    (''routeFilter'', Text (unicode [0x8DEF, 0x7531, 0x7B5B, 0x9009])),
    (''allRoutes'', Text (unicode [0x5168, 0x90E8, 0x8DEF, 0x7531])),
    (''searchRoute'', Text (unicode [0x641C, 0x7D22, 0x8DEF, 0x7531] @ ''...'')),
    (''modelFilter'', Text (unicode [0x6A21, 0x578B, 0x7B5B, 0x9009])),
    (''allModels'', Text (unicode [0x5168, 0x90E8, 0x6A21, 0x578B])),
    (''searchModel'', Text (unicode [0x641C, 0x7D22, 0x6A21, 0x578B] @ ''...'')),
    (''sourceFilter'', Text (unicode [0x6765, 0x6E90])),
    (''allTypes'', Text (unicode [0x5168, 0x90E8, 0x7C7B, 0x578B])),
    (''searchType'', Text (unicode [0x641C, 0x7D22, 0x7C7B, 0x578B] @ ''...'')),
    (''statusFilter'', Text (unicode [0x72B6, 0x6001, 0x7B5B, 0x9009])),
    (''allStatus'', Text (unicode [0x5168, 0x90E8, 0x72B6, 0x6001])),
    (''searchStatus'', Text (unicode [0x641C, 0x7D22, 0x72B6, 0x6001] @ ''...'')),
    (''statusSuccess'', Text (unicode [0x6210, 0x529F] @ '' (2xx)'')),
    (''statusError'', Text (unicode [0x5931, 0x8D25] @ '' (4xx/5xx)'')),
    (''cacheFilter'', Text (unicode [0x7F13, 0x5B58, 0x7B5B, 0x9009])),
    (''allCache'', Text (unicode [0x5168, 0x90E8, 0x7F13, 0x5B58, 0x72B6, 0x6001])),
    (''searchCache'', Text (unicode [0x641C, 0x7D22, 0x7F13, 0x5B58, 0x72B6, 0x6001] @ ''...'')),
    (''cacheHit'', Text (unicode [0x547D, 0x4E2D] @ '' (Hit)'')),
    (''cacheCreate'', Text (unicode [0x521B, 0x5EFA] @ '' (Create)'')),
    (''cacheMiss'', Text (unicode [0x672A, 0x547D, 0x4E2D] @ '' (Miss)'')),
    (''cacheBypass'', Text (unicode [0x7ED5, 0x8FC7] @ '' (Bypass)'')),
    (''cacheError'', Text (unicode [0x7F13, 0x5B58, 0x9519, 0x8BEF] @ '' (Error)'')),
    (''prevPage'', Text (unicode [0x4E0A, 0x4E00, 0x9875])),
    (''nextPage'', Text (unicode [0x4E0B, 0x4E00, 0x9875]))]"

definition zh_logTable :: Messages where
  "zh_logTable = Section [
    (''title'', Text (unicode [0x8BF7, 0x6C42, 0x65E5, 0x5FD7])),
    (''description'', Text (unicode [0x50CF, 0x7B80, 0x5316, 0x7248, 0x65E5, 0x5FD7, 0x540E, 0x53F0, 0x4E00, 0x6837, 0x5148, 0x7B5B, 0x3001, 0x518D, 0x6392, 0x3001, 0x518D, 0x770B, 0x8BE6, 0x60C5, 0xFF0C, 0x4E0D, 0x652F, 0x6301, 0x7F16, 0x8F91, 0xFF0C, 0x53EA, 0x670D, 0x52A1, 0x4E8E, 0x6392, 0x67E5, 0x4E0E, 0x5206, 0x6790, 0x3002])),
    (''colTime'', Text (unicode [0x65F6, 0x95F4])),
    (''colRequest'', Text (unicode [0x8BF7, 0x6C42])),
    (''colRoute'', Text (unicode [0x6E20, 0x9053])),
    (''colModel'', Text (unicode [0x6A21, 0x578B])),
    (''colSource'', Text (unicode [0x6765, 0x6E90])),
    (''colStatus'', Text (unicode [0x72B6, 0x6001])),
    (''colLatency'', Text (unicode [0x8017, 0x65F6])),
    (''colTokens'', Text (''Token '' @ unicode [0x6570])),
    (''colCacheHitRate'', Text (unicode [0x7F13, 0x5B58, 0x547D, 0x4E2D, 0x7387])),
    (''colOutputSpeed'', Text (unicode [0x8F93, 0x51FA, 0x901F, 0x5EA6])),
    (''colCost'', Text (unicode [0x6210, 0x672C])),
    (''colActions'', Text (unicode [0x64CD, 0x4F5C])),
    (''truncatedStream'', Text (unicode [0x6D41, 0x8D85, 0x65F6, 0x622A, 0x65AD])),
    (''truncatedSize'', Text (unicode [0x5927, 0x5C0F, 0x622A, 0x65AD])),
    (''truncatedLog'', Text (unicode [0x65E5, 0x5FD7, 0x622A, 0x65AD])),
    (''failedOver'', Text (unicode [0x5DF2, 0x56DE, 0x9000])),
    (''retriedSameRoute'', Text (unicode [0x5DF2, 0x91CD, 0x8BD5])),
    (''firstLabel'', Text (unicode [0x9996])),
    (''totalLabel'', Text (unicode [0x603B])),
    (''inputLabel'', Text (unicode [0x5165])),
    (''outputLabel'', Text (unicode [0x51FA])),
    (''cacheLabel'', Text (unicode [0x7F13, 0x5B58])),
    (''estimated'', Text (unicode [0x4F30, 0x7B97])),
    (''responsesChatCompat'', Text (unicode [0x5DF2, 0x8F6C] @ '' Chat'')),
    (''responsesChatCompatTip'', Text (unicode [0x8BE5, 0x8BF7, 0x6C42, 0x539F, 0x59CB, 0x8FDB, 0x5165] @ '' Responses '' @ unicode [0x7AEF, 0x70B9, 0xFF0C, 0x7F51, 0x5173, 0x5DF2, 0x6309, 0x6E20, 0x9053, 0x914D, 0x7F6E, 0x8F6C, 0x6362, 0x4E3A, 0x4E0A, 0x6E38] @ '' Chat Completions '' @ unicode [0x8BF7, 0x6C42, 0x3002])),
    (''actionLabel'', Text (unicode [0x64CD, 0x4F5C])),
    (''actionMenuTitle'', Text (unicode [0x65E5, 0x5FD7, 0x52A8, 0x4F5C])),
    (''viewDetail'', Text (unicode [0x67E5, 0x770B, 0x8BE6, 0x60C5])),
    (''copyRequestId'', Text (unicode [0x590D, 0x5236] @ '' request_id'')),
    (''copyPath'', Text (unicode [0x590D, 0x5236, 0x8DEF, 0x5F84])),
    (''filterSameRoute'', Text (unicode [0x53EA, 0x770B, 0x540C, 0x8DEF, 0x7531])),
    (''filterSameModel'', Text (unicode [0x53EA, 0x770B, 0x540C, 0x6A21, 0x578B])),
    (''filterSameSource'', Text (unicode [0x53EA, 0x770B, 0x540C, 0x6765, 0x6E90])),
    (''copied'', Text (''{{label}} '' @ unicode [0x5DF2, 0x590D, 0x5236])),
    (''copyFailed'', Text (''{{label}} '' @ unicode [0x590D, 0x5236, 0x5931, 0x8D25])),
    (''emptyTitle'', Text (unicode [0x6CA1, 0x6709, 0x5339, 0x914D, 0x7684, 0x8BF7, 0x6C42, 0x8BB0, 0x5F55])),
    (''emptyDescription'', Text (unicode [0x5148, 0x6E05, 0x7A7A, 0x7B5B, 0x9009, 0x6761, 0x4EF6, 0xFF0C, 0x6216, 0x7B49, 0x5F85, 0x65B0, 0x7684, 0x8BF7, 0x6C42, 0x5199, 0x5165, 0x8C03, 0x8BD5, 0x6570, 0x636E, 0x5E93, 0x3002])),
    (''requestModel'', Text (unicode [0x8BF7, 0x6C42, 0x6A21, 0x578B] @ '': {{model}}'')),
    (''responseModel'', Text (unicode [0x5B9E, 0x9645, 0x54CD, 0x5E94, 0x6A21, 0x578B] @ '': {{model}}'')),
    (''anonymous'', Text (unicode [0x533F, 0x540D]))]"

definition zh_detail :: Messages where
  "zh_detail = Section [
    (''backToLogs'', Text (unicode [0x2190] @ '' '' @ unicode [0x8FD4, 0x56DE, 0x65E5, 0x5FD7])),
    (''loadingTitle'', Text (unicode [0x52A0, 0x8F7D, 0x4E2D] @ ''...'')),
    (''loadingDesc'', Text (unicode [0x6B63, 0x5728, 0x83B7, 0x53D6, 0x8BF7, 0x6C42, 0x8BE6, 0x60C5])),
    (''requestIdLabel'', Text (unicode [0x8BF7, 0x6C42] @ '' ID: {{id}}'')),
    (''detailTitle'', Text (unicode [0x8BF7, 0x6C42, 0x8BE6, 0x60C5])),
    (''detailDesc'', Text (unicode [0x4ECE, 0x5DE6, 0x4FA7, 0x8868, 0x683C, 0x9009, 0x62E9, 0x4E00, 0x6761, 0x8BF7, 0x6C42, 0xFF0C, 0x67E5, 0x770B, 0x5B8C, 0x6574, 0x751F, 0x547D, 0x5468, 0x671F, 0x3002])),
    (''emptyTitle'', Text (unicode [0x8FD8, 0x6CA1, 0x6709, 0x9009, 0x4E2D, 0x8BF7, 0x6C42])),
    (''emptyDesc'', Text (unicode [0x70B9, 0x51FB, 0x4EFB, 0x610F, 0x4E00, 0x884C, 0x540E, 0xFF0C, 0x8FD9, 0x91CC, 0x4F1A, 0x663E, 0x793A, 0x8BF7, 0x6C42, 0x3001, 0x54CD, 0x5E94, 0x3001, 0x65F6, 0x5E8F, 0x548C] @ '' payload'' @ unicode [0x3002])),
    (''refreshFailed'', Text (unicode [0x8BE6, 0x60C5, 0x5237, 0x65B0, 0x5931, 0x8D25])),
    (''tabSummary'', Text (unicode [0x6982, 0x51B5])),
    (''tabRequest'', Text (unicode [0x8BF7, 0x6C42])),
    (''tabResponse'', Text (unicode [0x54CD, 0x5E94])),
    (''overviewTitle'', Text (unicode [0x8BF7, 0x6C42, 0x6982, 0x51B5])),
    (''overviewDesc'', Text (unicode [0x6838, 0x5FC3, 0x8DEF, 0x7531, 0x4E0E, 0x54CD, 0x5E94, 0x5143, 0x4FE1, 0x606F])),
    (''timingTitle'', Text (unicode [0x65F6, 0x5E8F, 0x4E0E, 0x4F53, 0x79EF])),
    (''timingDesc'', Text (unicode [0x89C2, 0x5BDF, 0x9996, 0x5305, 0x3001, 0x9996] @ '' token '' @ unicode [0x4E0E, 0x6574, 0x4F53, 0x8017, 0x65F6])),
    (''tokenTitle'', Text (''Token '' @ unicode [0x7EDF, 0x8BA1])),
    (''tokenDesc'', Text (unicode [0x6309, 0x4E0A, 0x6E38, 0x7C7B, 0x578B, 0x62C6, 0x5206, 0x7684] @ '' usage '' @ unicode [0x6307, 0x6807])),
    (''costTitle'', Text (unicode [0x6210, 0x672C, 0x660E, 0x7EC6])),
    (''costDesc'', Text (unicode [0x5C55, 0x793A, 0x603B, 0x6210, 0x672C, 0x3001, 0x6A21, 0x578B, 0x5355, 0x4EF7, 0x4E0E, 0x9010, 0x9879, 0x8BA1, 0x7B97, 0x516C, 0x5F0F])),
    (''requestId'', Text ''request_id''),
    (''time'', Text (unicode [0x65F6, 0x95F4])),
    (''path'', Text (unicode [0x8DEF, 0x5F84])),
    (''routePrefix'', Text (unicode [0x8DEF, 0x7531, 0x524D, 0x7F00])),
    (''keySource'', Text (''Key / '' @ unicode [0x6765, 0x6E90])),
    (''requestModel'', Text (unicode [0x8BF7, 0x6C42, 0x6A21, 0x578B])),
    (''responseModel'', Text (unicode [0x54CD, 0x5E94, 0x6A21, 0x578B])),
    (''targetUrl'', Text (unicode [0x76EE, 0x6807, 0x5730, 0x5740])),
    (''upstreamType'', Text (unicode [0x4E0A, 0x6E38, 0x7C7B, 0x578B])),
    (''httpStatus'', Text (''HTTP '' @ unicode [0x72B6, 0x6001])),
    (''failoverReason'', Text (unicode [0x56DE, 0x9000, 0x539F, 0x56E0])),
    (''retryAttempt'', Text (unicode [0x91CD, 0x8BD5, 0x6B21, 0x6570])),
    (''firstChunk'', Text (unicode [0x9996, 0x5305])),
    (''firstToken'', Text (unicode [0x9996] @ '' token'')),
    (''duration'', Text (unicode [0x603B, 0x65F6, 0x957F])),
    (''generationDuration'', Text (unicode [0x751F, 0x6210, 0x65F6, 0x957F])),
    (''responseBodySize'', Text (unicode [0x54CD, 0x5E94, 0x4F53, 0x79EF])),
    (''transferMode'', Text (unicode [0x4F20, 0x8F93, 0x65B9, 0x5F0F])),
    (''streaming'', Text (''SSE / '' @ unicode [0x6D41, 0x5F0F])),
    (''nonStreaming'', Text (unicode [0x975E, 0x6D41, 0x5F0F])),
    (''originalPayload'', Text (unicode [0x539F, 0x59CB, 0x8BF7, 0x6C42] @ '' Body'')),
    (''forwardedPayload'', Text (unicode [0x8F6C, 0x53D1, 0x8BF7, 0x6C42] @ '' Body'')),
    (''originalHeaders'', Text (unicode [0x539F, 0x59CB, 0x8BF7, 0x6C42, 0x5934])),
    (''originalHeadersDesc'', Text (unicode [0x5BA2, 0x6237, 0x7AEF, 0x53D1, 0x9001, 0x5230, 0x7F51, 0x5173, 0x7684, 0x539F, 0x59CB] @ '' HTTP '' @ unicode [0x8BF7, 0x6C42, 0x5934])),
    (''forwardedHeaders'', Text (unicode [0x8F6C, 0x53D1, 0x8BF7, 0x6C42, 0x5934])),
    (''forwardedHeadersDesc'', Text (unicode [0x7F51, 0x5173, 0x8F6C, 0x53D1, 0x5230, 0x4E0A, 0x6E38, 0x670D, 0x52A1, 0x7684, 0x8BF7, 0x6C42, 0x5934, 0x6458, 0x8981])),
    (''noOriginalHeaders'', Text (unicode [0x6CA1, 0x6709, 0x539F, 0x59CB, 0x8BF7, 0x6C42, 0x5934])),
    (''noOriginalHeadersDesc'', Text (unicode [0x5F53, 0x524D, 0x8BB0, 0x5F55, 0x6CA1, 0x6709, 0x4FDD, 0x5B58, 0x5BA2, 0x6237, 0x7AEF, 0x5230, 0x7F51, 0x5173, 0x7684, 0x539F, 0x59CB, 0x8BF7, 0x6C42, 0x5934, 0x3002])),
    (''noForwardedHeaders'', Text (unicode [0x6CA1, 0x6709, 0x8F6C, 0x53D1, 0x8BF7, 0x6C42, 0x5934])),
    (''noForwardedHeadersDesc'', Text (unicode [0x5F53, 0x524D, 0x8BB0, 0x5F55, 0x6CA1, 0x6709, 0x4FDD, 0x5B58, 0x7F51, 0x5173, 0x8F6C, 0x53D1, 0x5230, 0x4E0A, 0x6E38, 0x65F6, 0x7684, 0x8BF7, 0x6C42, 0x5934, 0x6458, 0x8981, 0x3002])),
    (''sseConcat'', Text (unicode [0x62FC, 0x63A5, 0x540E, 0x7684, 0x56DE, 0x590D])),
    (''sseConcatDesc'', Text (unicode [0x4ECE] @ '' SSE '' @ unicode [0x4E8B, 0x4EF6, 0x4E2D, 0x63D0, 0x53D6, 0x5E76, 0x62FC, 0x63A5, 0x6587, 0x672C, 0x5185, 0x5BB9, 0xFF0C, 0x4FBF, 0x4E8E, 0x76F4, 0x63A5, 0x9605, 0x8BFB])),
    (''noSseConcat'', Text (unicode [0x6CA1, 0x6709, 0x53EF, 0x62FC, 0x63A5, 0x7684, 0x56DE, 0x590D])),
    (''noSseConcatDesc'', Text (unicode [0x5F53, 0x524D, 0x6D41, 0x5F0F, 0x54CD, 0x5E94, 0x6CA1, 0x6709, 0x63D0, 0x53D6, 0x5230, 0x53EF, 0x76F4, 0x63A5, 0x9605, 0x8BFB, 0x7684, 0x6587, 0x672C, 0xFF0C, 0x4FDD, 0x7559, 0x539F, 0x59CB] @ '' SSE '' @ unicode [0x4E8B, 0x4EF6, 0x7528, 0x4E8E, 0x6392, 0x67E5, 0x3002])),
    (''responseBody'', Text (unicode [0x54CD, 0x5E94] @ '' Body'')),
    (''responseHeaders'', Text (unicode [0x54CD, 0x5E94, 0x5934])),
    (''responseHeadersDesc'', Text (unicode [0x4E0A, 0x6E38, 0x670D, 0x52A1, 0x8FD4, 0x56DE, 0x7ED9, 0x7F51, 0x5173, 0x7684, 0x539F, 0x59CB] @ '' HTTP '' @ unicode [0x54CD, 0x5E94, 0x5934])),
    (''noResponseHeaders'', Text (unicode [0x6CA1, 0x6709, 0x54CD, 0x5E94, 0x5934])),
    (''noResponseHeadersDesc'', Text (unicode [0x5F53, 0x524D, 0x8BB0, 0x5F55, 0x6CA1, 0x6709, 0x4FDD, 0x5B58, 0x4E0A, 0x6E38, 0x8FD4, 0x56DE, 0x7684, 0x54CD, 0x5E94, 0x5934, 0x3002]))]"

definition zh_providers :: Messages where
  "zh_providers = Section [
    (''title'', Text (unicode [0x6E20, 0x9053, 0x7BA1, 0x7406])),
    (''description'', Text (unicode [0x6240, 0x6709, 0x6E20, 0x9053, 0x5747, 0x4ECE, 0x6570, 0x636E, 0x5E93, 0x8BFB, 0x53D6, 0xFF0C, 0x652F, 0x6301, 0x5728, 0x7EBF, 0x65B0, 0x589E, 0x3001, 0x4FEE, 0x6539, 0x548C, 0x8FDE, 0x901A, 0x6027, 0x6D4B, 0x8BD5, 0x3002])),
    (''addChannel'', Text (unicode [0x65B0, 0x5EFA, 0x6E20, 0x9053])),
    (''testAll'', Text (unicode [0x6D4B, 0x8BD5, 0x5168, 0x90E8])),
    (''loadFailed'', Text (unicode [0x52A0, 0x8F7D, 0x5931, 0x8D25])),
    (''emptyTitle'', Text (unicode [0x6682, 0x65E0, 0x6E20, 0x9053])),
    (''emptyDescription'', Text (unicode [0x5F53, 0x524D, 0x8FD8, 0x6CA1, 0x6709, 0x4EFB, 0x4F55, 0x4E0A, 0x6E38, 0x6E20, 0x9053, 0x914D, 0x7F6E, 0x3002, 0x4F60, 0x53EF, 0x4EE5, 0x5148, 0x5728, 0x63A7, 0x5236, 0x53F0, 0x521B, 0x5EFA, 0x4E00, 0x4E2A, 0x5728, 0x7EBF, 0x6E20, 0x9053, 0x3002])),
    (''createChannel'', Text (unicode [0x65B0, 0x5EFA, 0x6E20, 0x9053])),
    (''createDialogTitle'', Text (unicode [0x65B0, 0x5EFA, 0x6E20, 0x9053])),
    (''editDialogTitle'', Text (unicode [0x7F16, 0x8F91] @ '' {{name}}'')),
    (''createDialogDesc'', Text (unicode [0x521B, 0x5EFA, 0x4E00, 0x4E2A, 0x5B58, 0x50A8, 0x5728, 0x6570, 0x636E, 0x5E93, 0x4E2D, 0x7684, 0x6E20, 0x9053, 0x3002])),
    (''editDialogDesc'', Text (unicode [0x652F, 0x6301, 0x76F4, 0x63A5, 0x91CD, 0x547D, 0x540D] @ '' Channel Name'' @ unicode [0x3002, 0x5F53, 0x524D] @ '' API Key '' @ unicode [0x4F1A, 0x56DE, 0x663E, 0xFF0C, 0x4E0D, 0x6539, 0x52A8, 0x65F6, 0x4FDD, 0x6301, 0x539F, 0x503C, 0xFF0C, 0x6E05, 0x7A7A, 0x540E, 0x4FDD, 0x5B58, 0x4F1A, 0x79FB, 0x9664, 0x5F53, 0x524D, 0x914D, 0x7F6E, 0x3002])),
    (''channelNameLabel'', Text (unicode [0x6E20, 0x9053, 0x540D, 0x79F0])),
    (''channelNameHint'', Text (unicode [0x663E, 0x5F0F, 0x8DEF, 0x7531, 0x4F1A, 0x4F7F, 0x7528] @ '' /providers/{{name}}/... '' @ unicode [0x4F5C, 0x4E3A, 0x8DEF, 0x5F84, 0x524D, 0x7F00, 0x3002, 0x7F16, 0x8F91, 0x65F6, 0x4FEE, 0x6539, 0x6E20, 0x9053, 0x540D, 0x79F0, 0x4F1A, 0x540C, 0x6B65, 0x5207, 0x6362, 0x8DEF, 0x7531, 0x524D, 0x7F00, 0xFF0C, 0x65E7, 0x524D, 0x7F00, 0x4F1A, 0x7ACB, 0x5373, 0x5931, 0x6548, 0x3002])),
    (''typeLabel'', Text (unicode [0x7C7B, 0x578B])),
    (''typeOpenaiHint'', Text (''OpenAI '' @ unicode [0x7C7B, 0x578B, 0x652F, 0x6301] @ '' /v1/chat/completions'' @ unicode [0x3001] @ ''/v1/responses '' @ unicode [0x7B49, 0x7AEF, 0x70B9, 0x900F, 0x4F20, 0xFF1B] @ ''Anthropic '' @ unicode [0x7C7B, 0x578B, 0x652F, 0x6301] @ '' /v1/messages '' @ unicode [0x7AEF, 0x70B9, 0x3002])),
    (''typeAnthropicHint'', Text (''OpenAI '' @ unicode [0x7C7B, 0x578B, 0x652F, 0x6301] @ '' /v1/chat/completions'' @ unicode [0x3001] @ ''/v1/responses '' @ unicode [0x7B49, 0x7AEF, 0x70B9, 0x900F, 0x4F20, 0xFF1B] @ ''Anthropic '' @ unicode [0x7C7B, 0x578B, 0x652F, 0x6301] @ '' /v1/messages '' @ unicode [0x7AEF, 0x70B9, 0x3002])),
    (''targetUrlLabel'', Text (unicode [0x76EE, 0x6807, 0x5730, 0x5740])),
    (''targetUrlOpenaiHint'', Text (''OpenAI '' @ unicode [0x7C7B, 0x578B, 0x5FC5, 0x987B, 0x5305, 0x542B] @ '' /v1 '' @ unicode [0x8DEF, 0x5F84, 0x3002, 0x4F8B, 0x5982] @ '' https://api.openai.com/v1 '' @ unicode [0x6216] @ '' https://qianfan.baidubce.com/v2/coding'' @ unicode [0x3002])),
    (''targetUrlAnthropicHint'', Text (''Anthropic '' @ unicode [0x7C7B, 0x578B, 0x65E0, 0x9700, 0x5305, 0x542B] @ '' /v1'' @ unicode [0x3002, 0x4F8B, 0x5982] @ '' https://api.anthropic.com'' @ unicode [0x3002])),
    (''priorityLabel'', Text (unicode [0x4F18, 0x5148, 0x7EA7])),
    (''priorityHint'', Text (unicode [0x6309, 0x6A21, 0x578B, 0x81EA, 0x52A8, 0x9009, 0x8DEF, 0x65F6, 0xFF0C, 0x6570, 0x5B57, 0x8D8A, 0x5927, 0x4F18, 0x5148, 0x7EA7, 0x8D8A, 0x9AD8, 0x3002])),
    (''systemPromptLabel'', Text (unicode [0x7CFB, 0x7EDF, 0x63D0, 0x793A, 0x8BCD])),
    (''systemPromptHint'', Text (unicode [0x76F4, 0x63A5, 0x586B, 0x5199, 0x8981, 0x6CE8, 0x5165, 0x7684] @ '' system prompt'' @ unicode [0x3002, 0x7559, 0x7A7A, 0x8868, 0x793A, 0x4E0D, 0x6CE8, 0x5165, 0x3002])),
    (''authMethodLabel'', Text (unicode [0x8BA4, 0x8BC1, 0x65B9, 0x5F0F])),
    (''authMethodAuto'', Text (unicode [0x81EA, 0x52A8, 0xFF08, 0x6309, 0x7C7B, 0x578B, 0xFF09])),
    (''authMethodHint'', Text (unicode [0x9009, 0x62E9, 0x5411, 0x4E0A, 0x6E38, 0x4F20, 0x9012, 0x7684, 0x8BA4, 0x8BC1, 0x5934, 0x683C, 0x5F0F, 0x3002, 0x300C, 0x81EA, 0x52A8, 0x300D, 0x65F6] @ '' Anthropic '' @ unicode [0x7528] @ '' x-api-key'' @ unicode [0xFF0C] @ ''OpenAI '' @ unicode [0x7528] @ '' Authorization: Bearer'' @ unicode [0x3002])),
    (''credentialLabel'', Text (unicode [0x51ED, 0x8BC1])),
    (''noApiKey'', Text (unicode [0x672A, 0x914D, 0x7F6E] @ '' API Key'')),
    (''hideApiKey'', Text (unicode [0x9690, 0x85CF] @ '' API Key'')),
    (''showApiKey'', Text (unicode [0x663E, 0x793A] @ '' API Key'')),
    (''responsesModeLabel'', Text (''Responses '' @ unicode [0x5904, 0x7406, 0x65B9, 0x5F0F])),
    (''responsesModeHint'', Text (unicode [0x539F, 0x751F, 0x8F6C, 0x53D1, 0x4F1A, 0x76F4, 0x63A5, 0x8BF7, 0x6C42, 0x4E0A, 0x6E38] @ '' /responses'' @ unicode [0xFF1B, 0x517C, 0x5BB9, 0x8F6C, 0x6362, 0x4F1A, 0x628A] @ '' /responses '' @ unicode [0x8F6C, 0x4E3A] @ '' /chat/completions'' @ unicode [0xFF1B, 0x7981, 0x7528, 0x4F1A, 0x76F4, 0x63A5, 0x8FD4, 0x56DE, 0x9519, 0x8BEF, 0x3002])),
    (''responsesModeNative'', Text (unicode [0x539F, 0x751F, 0x8F6C, 0x53D1])),
    (''responsesModeChatCompat'', Text (unicode [0x8F6C] @ '' Chat Completions'')),
    (''responsesModeDisabled'', Text (unicode [0x7981, 0x7528])),
    (''responsesModeBadge'', Section [
      (''native'', Text (''Responses '' @ unicode [0x539F, 0x751F])),
      (''chat_compat'', Text (''Responses'' @ unicode [0x2192] @ ''Chat'')),
      (''disabled'', Text (''Responses '' @ unicode [0x7981, 0x7528]))]),
    (''extraFieldsLabel'', Text (unicode [0x989D, 0x5916, 0x5B57, 0x6BB5])),
    (''extraFieldsHint'', Text (unicode [0x6E20, 0x9053, 0x7EA7, 0x522B, 0x7684, 0x989D, 0x5916, 0x5143, 0x6570, 0x636E, 0xFF0C] @ ''JSON '' @ unicode [0x5BF9, 0x8C61, 0x683C, 0x5F0F, 0x3002, 0x7559, 0x7A7A, 0x8868, 0x793A, 0x4E0D, 0x8BBE, 0x7F6E, 0x3002])),
    (''extraFieldsInvalidJson'', Text (unicode [0x9AD8, 0x7EA7, 0x5B57, 0x6BB5, 0x5FC5, 0x987B, 0x662F, 0x5408, 0x6CD5] @ '' JSON '' @ unicode [0x5BF9, 0x8C61])),
    (''extraFieldsInvalidObj'', Text (unicode [0x9AD8, 0x7EA7, 0x5B57, 0x6BB5, 0x5FC5, 0x987B, 0x662F] @ '' JSON '' @ unicode [0x5BF9, 0x8C61])),
    (''modelsLabel'', Text (unicode [0x6A21, 0x578B, 0x5217, 0x8868])),
    (''modelIdHeader'', Text (unicode [0x6A21, 0x578B] @ '' ID'')),
    (''noModels'', Text (unicode [0x6682, 0x65E0, 0x6A21, 0x578B, 0xFF0C, 0x70B9, 0x51FB, 0x6DFB, 0x52A0])),
    (''clearAuth'', Text (unicode [0x6E05, 0x9664, 0x8BA4, 0x8BC1])),
    (''saveChanges'', Text (unicode [0x4FDD, 0x5B58, 0x66F4, 0x6539])),
    (''loadApiKeyFailed'', Text (unicode [0x52A0, 0x8F7D] @ '' API Key '' @ unicode [0x5931, 0x8D25, 0xFF1A] @ ''{{error}}'')),
    (''testDialogTitle'', Text (unicode [0x6D4B, 0x8BD5] @ '' Channel: {{name}}'')),
    (''testDialogDesc'', Text (unicode [0x9009, 0x62E9, 0x4E00, 0x4E2A, 0x6A21, 0x578B, 0x8FDB, 0x884C, 0x8FDE, 0x63A5, 0x6D4B, 0x8BD5, 0xFF0C, 0x67E5, 0x770B, 0x539F, 0x59CB, 0x54CD, 0x5E94, 0x6570, 0x636E, 0x3002])),
    (''selectModel'', Text (unicode [0x9009, 0x62E9, 0x6A21, 0x578B])),
    (''selectModelPlaceholder'', Text (unicode [0x9009, 0x62E9, 0x8981, 0x6D4B, 0x8BD5, 0x7684, 0x6A21, 0x578B])),
    (''noModelsConfigured'', Text (unicode [0x8BE5, 0x6E20, 0x9053, 0x672A, 0x914D, 0x7F6E, 0x6A21, 0x578B])),
    (''testSuccess'', Text (unicode [0x6D4B, 0x8BD5, 0x6210, 0x529F])),
    (''testFailed'', Text (unicode [0x6D4B, 0x8BD5, 0x5931, 0x8D25])),
    (''rawResponse'', Text (unicode [0x539F, 0x59CB, 0x54CD, 0x5E94])),
    (''startTest'', Text (unicode [0x5F00, 0x59CB, 0x6D4B, 0x8BD5])),
    (''deleteDialogTitle'', Text (unicode [0x5220, 0x9664, 0x6E20, 0x9053])),
    (''deleteDialogDesc'', Text (unicode [0x786E, 0x5B9A, 0x8981, 0x5220, 0x9664, 0x6E20, 0x9053] @ '' \"{{name}}\" '' @ unicode [0x5417, 0xFF1F, 0x6B64, 0x64CD, 0x4F5C, 0x4E0D, 0x53EF, 0x64A4, 0x9500, 0x3002])),
    (''syncDialogTitle'', Text (unicode [0x540C, 0x6B65, 0x4E0A, 0x6E38, 0x6A21, 0x578B])),
    (''syncDialogDesc'', Text (unicode [0x4ECE, 0x4E0A, 0x6E38] @ '' /v1/models '' @ unicode [0x63A5, 0x53E3, 0x62C9, 0x53D6, 0x6A21, 0x578B, 0x5217, 0x8868, 0xFF0C, 0x9009, 0x62E9, 0x9700, 0x8981, 0x6DFB, 0x52A0, 0x7684, 0x6A21, 0x578B, 0xFF0C, 0x91CD, 0x590D, 0x7684, 0x6A21, 0x578B, 0x4F1A, 0x81EA, 0x52A8, 0x8DF3, 0x8FC7, 0x3002])),
    (''syncLoading'', Text (unicode [0x6B63, 0x5728, 0x8BF7, 0x6C42, 0x4E0A, 0x6E38] @ '' models '' @ unicode [0x63A5, 0x53E3] @ ''...'')),
    (''syncFailed'', Text (unicode [0x62C9, 0x53D6, 0x5931, 0x8D25])),
    (''syncEmpty'', Text (unicode [0x4E0A, 0x6E38, 0x672A, 0x8FD4, 0x56DE, 0x4EFB, 0x4F55, 0x6A21, 0x578B, 0x3002])),
    (''syncCount'', Text (unicode [0x5171] @ '' {{total}} '' @ unicode [0x4E2A, 0x6A21, 0x578B, 0xFF0C, 0x5DF2, 0x9009] @ '' {{selected}} '' @ unicode [0x4E2A])),
    (''syncNeedUrl'', Text (unicode [0x8BF7, 0x5148, 0x586B, 0x5199] @ '' Target Base URL'')),
    (''exportConfigButton'', Text (unicode [0x5BFC, 0x51FA, 0x914D, 0x7F6E])),
    (''importConfigButton'', Text (unicode [0x5BFC, 0x5165, 0x914D, 0x7F6E])),
    (''importConfigTitle'', Text (unicode [0x5BFC, 0x5165, 0x6E20, 0x9053, 0x914D, 0x7F6E])),
    (''importConfigDesc'', Text (unicode [0x5728, 0x4E0B, 0x65B9, 0x7C98, 0x8D34, 0x5BFC, 0x51FA, 0x7684] @ '' JSON '' @ unicode [0x914D, 0x7F6E, 0xFF0C, 0x7CFB, 0x7EDF, 0x5C06, 0x9010, 0x4E2A, 0x521B, 0x5EFA, 0x6E20, 0x9053, 0x3002])),
    (''configJsonLabel'', Text (unicode [0x914D, 0x7F6E] @ '' JSON'')),
    (''importConfigPlaceholder'', Text (''{'' @ unicode [0xA] @ ''  \"version\": 1,'' @ unicode [0xA] @ ''  \"providers\": [...]'' @ unicode [0xA] @ ''}'')),
    (''importConfigEmpty'', Text (unicode [0x914D, 0x7F6E] @ '' JSON '' @ unicode [0x4E3A, 0x7A7A])),
    (''importConfigVersionMismatch'', Text (unicode [0x4E0D, 0x652F, 0x6301, 0x7684, 0x914D, 0x7F6E, 0x7248, 0x672C, 0xFF1A] @ ''{{version}}'' @ unicode [0xFF0C, 0x671F, 0x671B, 0x7248, 0x672C] @ '' 1'')),
    (''importConfigInvalid'', Text (unicode [0x914D, 0x7F6E, 0x683C, 0x5F0F, 0x9519, 0x8BEF, 0xFF1A] @ ''providers '' @ unicode [0x5B57, 0x6BB5, 0x5FC5, 0x987B, 0x662F, 0x6570, 0x7EC4])),
    (''importConfigConfirm'', Text (unicode [0x5BFC, 0x5165, 0x914D, 0x7F6E])),
    (''exportConfigTitle'', Text (unicode [0x5BFC, 0x51FA, 0x6E20, 0x9053, 0x914D, 0x7F6E])),
    (''exportConfigDesc'', Text (unicode [0x4E0B, 0x65B9, 0x662F, 0x6240, 0x6709, 0x6E20, 0x9053, 0x914D, 0x7F6E, 0x7684, 0x5BFC, 0x51FA, 0x5185, 0x5BB9, 0xFF0C, 0x53EF, 0x590D, 0x5236, 0x4FDD, 0x5B58, 0x3002])),
    (''copyExportConfig'', Text (unicode [0x590D, 0x5236, 0x914D, 0x7F6E])),
    (''addSelectedModels'', Text (unicode [0x6DFB, 0x52A0, 0x6240, 0x9009, 0x6A21, 0x578B])),
    (''healthy'', Text (unicode [0x5065, 0x5EB7])),
    (''degraded'', Text (unicode [0x964D, 0x7EA7])),
    (''down'', Text (unicode [0x4E0D, 0x53EF, 0x7528])),
    (''noDataStatus'', Text (unicode [0x65E0, 0x6570, 0x636E])),
    (''disableChannel'', Text (unicode [0x7981, 0x7528, 0x6B64, 0x6E20, 0x9053])),
    (''enableChannel'', Text (unicode [0x542F, 0x7528, 0x6B64, 0x6E20, 0x9053])),
    (''providerNotExist'', Text (''Provider '' @ unicode [0x4E0D, 0x5B58, 0x5728])),
    (''providerDeletedHint'', Text (''Provider \"{{name}}\" '' @ unicode [0x5DF2, 0x88AB, 0x5220, 0x9664, 0xFF0C, 0x8BE5, 0x522B, 0x540D, 0x65E0, 0x6CD5, 0x8DEF, 0x7531])),
    (''modelRemoved'', Text (unicode [0x6A21, 0x578B, 0x5DF2, 0x79FB, 0x9664])),
    (''modelRemovedHint'', Text (unicode [0x6A21, 0x578B] @ '' \"{{model}}\" '' @ unicode [0x5DF2, 0x4E0D, 0x5728] @ '' \"{{provider}}\" '' @ unicode [0x7684, 0x6A21, 0x578B, 0x5217, 0x8868, 0x4E2D])),
    (''providerDisabled'', Text (''Provider '' @ unicode [0x5DF2, 0x7981, 0x7528])),
    (''providerDisabledHint'', Text (''Provider \"{{name}}\" '' @ unicode [0x5F53, 0x524D, 0x5DF2, 0x7981, 0x7528])),
    (''showMore'', Text (''+{{count}} '' @ unicode [0x4E2A, 0x66F4, 0x591A])),
    (''showLess'', Text (unicode [0x6536, 0x8D77]))]"

definition zh_routes :: Messages where
  "zh_routes = Section [
    (''title'', Text (unicode [0x6A21, 0x578B, 0x8DEF, 0x7531])),
    (''description'', Text (unicode [0x4E3A, 0x865A, 0x62DF, 0x6A21, 0x578B, 0x540D, 0x914D, 0x7F6E, 0x8DEF, 0x7531, 0x76EE, 0x6807, 0x3002, 0x5BA2, 0x6237, 0x7AEF, 0x53D1, 0x9001, 0x5BF9, 0x5E94, 0x522B, 0x540D, 0x65F6, 0xFF0C, 0x7F51, 0x5173, 0x4F1A, 0x5C06, 0x8BF7, 0x6C42, 0x8F6C, 0x53D1, 0x81F3, 0x6B64, 0x5904, 0x7ED1, 0x5B9A, 0x7684] @ '' Provider '' @ unicode [0x548C, 0x771F, 0x5B9E, 0x6A21, 0x578B, 0x3002])),
    (''newAlias'', Text (unicode [0x65B0, 0x5EFA, 0x522B, 0x540D])),
    (''emptyTitle'', Text (unicode [0x6682, 0x65E0, 0x8DEF, 0x7531, 0x522B, 0x540D])),
    (''emptyDescription'', Text (unicode [0x70B9, 0x51FB, 0x300C, 0x65B0, 0x5EFA, 0x522B, 0x540D, 0x300D, 0x521B, 0x5EFA, 0x7B2C, 0x4E00, 0x4E2A, 0x865A, 0x62DF, 0x6A21, 0x578B, 0x540D, 0x8DEF, 0x7531])),
    (''colAlias'', Text (unicode [0x522B, 0x540D])),
    (''colProvider'', Text (unicode [0x6E20, 0x9053])),
    (''colTargetModel'', Text (unicode [0x76EE, 0x6807, 0x6A21, 0x578B])),
    (''colTargets'', Text (unicode [0x76EE, 0x6807, 0x8DEF, 0x7531])),
    (''colNotes'', Text (unicode [0x5907, 0x6CE8])),
    (''colStatus'', Text (unicode [0x72B6, 0x6001])),
    (''colActions'', Text (unicode [0x64CD, 0x4F5C])),
    (''aliasLabel'', Text (unicode [0x522B, 0x540D, 0xFF08] @ ''Alias'' @ unicode [0xFF09])),
    (''aliasHint'', Text (unicode [0x5BA2, 0x6237, 0x7AEF, 0x53D1, 0x9001, 0x7684] @ '' model '' @ unicode [0x540D, 0x79F0, 0xFF0C, 0x4F8B, 0x5982] @ '' Auto'' @ unicode [0x3001] @ ''Best'')),
    (''aliasPlaceholder'', Text ''Auto''),
    (''targetProvider'', Text (unicode [0x76EE, 0x6807] @ '' Provider'')),
    (''selectProvider'', Text (unicode [0x9009, 0x62E9] @ '' Provider'')),
    (''targetModel'', Text (unicode [0x76EE, 0x6807, 0x6A21, 0x578B])),
    (''selectFirstProvider'', Text (unicode [0x8BF7, 0x5148, 0x9009, 0x62E9] @ '' Provider'')),
    (''noProviderModels'', Text (unicode [0x8BE5] @ '' Provider '' @ unicode [0x6682, 0x65E0, 0x6A21, 0x578B])),
    (''selectTargetModel'', Text (unicode [0x9009, 0x62E9, 0x76EE, 0x6807, 0x6A21, 0x578B])),
    (''notesLabel'', Text (unicode [0x5907, 0x6CE8, 0xFF08, 0x53EF, 0x9009, 0xFF09])),
    (''notesPlaceholder'', Text (unicode [0x63CF, 0x8FF0, 0x8FD9, 0x4E2A, 0x522B, 0x540D, 0x7684, 0x7528, 0x9014])),
    (''createDialogTitle'', Text (unicode [0x65B0, 0x5EFA, 0x8DEF, 0x7531, 0x522B, 0x540D])),
    (''createDialogDesc'', Text (unicode [0x914D, 0x7F6E, 0x4E00, 0x4E2A, 0x865A, 0x62DF, 0x6A21, 0x578B, 0x540D, 0xFF0C, 0x5C06, 0x5176, 0x8DEF, 0x7531, 0x5230, 0x5DF2, 0x6709] @ '' Provider '' @ unicode [0x4E2D, 0x7684, 0x771F, 0x5B9E, 0x6A21, 0x578B])),
    (''editDialogTitle'', Text (unicode [0x7F16, 0x8F91, 0x8DEF, 0x7531, 0x522B, 0x540D])),
    (''editDialogDesc'', Text (unicode [0x4FEE, 0x6539, 0x6B64, 0x865A, 0x62DF, 0x6A21, 0x578B, 0x540D, 0x7684, 0x8DEF, 0x7531, 0x76EE, 0x6807])),
    (''requiredFieldsError'', Text (unicode [0x522B, 0x540D, 0x3001] @ ''Provider '' @ unicode [0x548C, 0x6A21, 0x578B, 0x5747, 0x4E3A, 0x5FC5, 0x586B, 0x9879])),
    (''routeTargetsLabel'', Text (unicode [0x8DEF, 0x7531, 0x76EE, 0x6807])),
    (''routeTargetsHint'', Text (unicode [0x6309, 0x987A, 0x5E8F, 0x5C1D, 0x8BD5, 0x8FD9, 0x4E9B, 0x76EE, 0x6807, 0xFF1B, 0x76EE, 0x6807, 0x53EF, 0x4EE5, 0x6307, 0x5411] @ '' direct '' @ unicode [0x6216] @ '' explicit-only Provider'' @ unicode [0x3002])),
    (''routeTargetAdd'', Text (unicode [0x6DFB, 0x52A0, 0x76EE, 0x6807])),
    (''routeTargetPrimary'', Text (unicode [0x9996, 0x9009])),
    (''visibleToClients'', Text (unicode [0x663E, 0x793A, 0x5728, 0x6A21, 0x578B, 0x5217, 0x8868])),
    (''visibleToClientsHint'', Text (unicode [0x542F, 0x7528, 0x540E, 0xFF0C, 0x6B64, 0x865A, 0x62DF, 0x6A21, 0x578B, 0x4F1A, 0x51FA, 0x73B0, 0x5728] @ '' /v1/models '' @ unicode [0x548C] @ '' API key '' @ unicode [0x6A21, 0x578B, 0x9009, 0x62E9, 0x5668, 0x4E2D, 0x3002])),
    (''providerDirect'', Text ''direct''),
    (''providerExplicitOnly'', Text ''explicit only''),
    (''routeMapTitle'', Text (unicode [0x8DEF, 0x7531, 0x5730, 0x56FE])),
    (''routeMapDesc'', Text (unicode [0x6309] @ '' request '' @ unicode [0x4E2D, 0x7684] @ '' model '' @ unicode [0x5C55, 0x793A, 0x5B9E, 0x9645, 0x8C03, 0x5EA6, 0x65B9, 0x5411, 0xFF1A, 0x5148, 0x5C55, 0x793A, 0x9996, 0x9009, 0x771F, 0x5B9E, 0x8DEF, 0x7531, 0xFF0C, 0x518D, 0x5C55, 0x793A, 0x5F53, 0x524D, 0x56DE, 0x9000, 0x7B56, 0x7565, 0x4E0B, 0x53EF, 0x80FD, 0x8FFD, 0x52A0, 0x7684, 0x771F, 0x5B9E, 0x6A21, 0x578B, 0x3002, 0x7981, 0x7528, 0x6E20, 0x9053, 0x548C, 0x7981, 0x7528, 0x522B, 0x540D, 0x4E0D, 0x4F1A, 0x663E, 0x793A, 0x3002])),
    (''routeMapEmptyTitle'', Text (unicode [0x6682, 0x65E0, 0x53EF, 0x7528, 0x8DEF, 0x7531])),
    (''routeMapEmptyDesc'', Text (unicode [0x542F, 0x7528] @ '' Provider '' @ unicode [0x5E76, 0x914D, 0x7F6E, 0x6A21, 0x578B, 0x540E, 0xFF0C, 0x8FD9, 0x91CC, 0x4F1A, 0x5C55, 0x793A] @ '' request model '' @ unicode [0x5230, 0x771F, 0x5B9E, 0x6A21, 0x578B, 0x7684, 0x6620, 0x5C04, 0x3002])),
    (''routeMapRequestModel'', Text ''Request model''),
    (''routeMapPrimaryRoute'', Text (unicode [0x9996, 0x9009, 0x771F, 0x5B9E, 0x8DEF, 0x7531])),
    (''routeMapFallbackRoutes'', Text (unicode [0x53EF, 0x80FD, 0x56DE, 0x9000, 0x5230])),
    (''routeMapCoveredRoutes'', Text (unicode [0x88AB] @ '' alias '' @ unicode [0x8986, 0x76D6, 0x7684, 0x540C, 0x540D, 0x6A21, 0x578B])),
    (''routeMapAliasOverride'', Text (''alias '' @ unicode [0x8986, 0x76D6])),
    (''routeMapAlias'', Text ''alias''),
    (''routeMapModel'', Text (unicode [0x771F, 0x5B9E, 0x6A21, 0x578B])),
    (''routeMapNoRoute'', Text (unicode [0x65E0, 0x53EF, 0x7528, 0x8DEF, 0x7531])),
    (''routeMapNoFallback'', Text (unicode [0x4E0D, 0x56DE, 0x9000])),
    (''routeMapNoCoveredRoute'', Text (unicode [0x65E0, 0x8986, 0x76D6])),
    (''routeMapModelNotListed'', Text (unicode [0x6A21, 0x578B, 0x672A, 0x5217, 0x51FA])),
    (''routeMapSourceAlias'', Text ''alias''),
    (''routeMapSourceCustom'', Text (unicode [0x81EA, 0x5B9A, 0x4E49])),
    (''routeMapSourceAnyModel'', Text (unicode [0x4EFB, 0x610F, 0x6A21, 0x578B])),
    (''routeMapSourceModel'', Text (unicode [0x6A21, 0x578B])),
    (''failoverTitle'', Text (unicode [0x5168, 0x7AD9, 0x56DE, 0x9000, 0x7B56, 0x7565])),
    (''failoverDesc'', Text (unicode [0x7EDF, 0x4E00, 0x63A7, 0x5236, 0x8BF7, 0x6C42, 0x5931, 0x8D25, 0x540E, 0x7684, 0x91CD, 0x8BD5, 0x548C, 0x6A21, 0x578B, 0x56DE, 0x9000, 0xFF0C, 0x4E0D, 0x7ED1, 0x5B9A, 0x5177, 0x4F53, 0x6A21, 0x578B, 0x540D, 0x6216, 0x5355, 0x4E2A, 0x6E20, 0x9053, 0x3002])),
    (''failoverUpdatedAt'', Text (unicode [0x6700, 0x540E, 0x4FDD, 0x5B58] @ '' {{time}}'')),
    (''failoverReset'', Text (unicode [0x8FD8, 0x539F])),
    (''failoverSaved'', Text (unicode [0x56DE, 0x9000, 0x7B56, 0x7565, 0x5DF2, 0x4FDD, 0x5B58])),
    (''failoverEnabled'', Text (unicode [0x542F, 0x7528, 0x56DE, 0x9000])),
    (''failoverEnabledHint'', Text (unicode [0x5173, 0x95ED, 0x540E, 0xFF0C, 0x8BF7, 0x6C42, 0x5931, 0x8D25, 0x4F1A, 0x76F4, 0x63A5, 0x8FD4, 0x56DE, 0x4E0A, 0x6E38, 0x9519, 0x8BEF, 0xFF0C, 0x4E0D, 0x6267, 0x884C, 0x91CD, 0x8BD5, 0x6216, 0x6A21, 0x578B, 0x56DE, 0x9000, 0x3002])),
    (''failoverMode'', Text (unicode [0x6A21, 0x578B, 0x56DE, 0x9000, 0x6A21, 0x5F0F])),
    (''failoverModeHint'', Text (unicode [0x540C, 0x6A21, 0x578B, 0x4F1A, 0x6309, 0x6E20, 0x9053, 0x4F18, 0x5148, 0x7EA7, 0x5BFB, 0x627E, 0x53EF, 0x7528, 0x6E20, 0x9053, 0xFF1B, 0x4EFB, 0x610F, 0x6A21, 0x578B, 0x4F1A, 0x6309, 0x5168, 0x7AD9, 0x6E20, 0x9053, 0x548C, 0x6A21, 0x578B, 0x987A, 0x5E8F, 0x5C1D, 0x8BD5, 0x3002])),
    (''failoverModeDisabled'', Text (unicode [0x4E0D, 0x56DE, 0x9000, 0x6A21, 0x578B])),
    (''failoverModeSameModel'', Text (unicode [0x540C, 0x6A21, 0x578B, 0x6362, 0x6E20, 0x9053])),
    (''failoverModeAnyModel'', Text (unicode [0x56DE, 0x9000, 0x4EFB, 0x610F, 0x6A21, 0x578B])),
    (''failoverRetryAttempts'', Text (unicode [0x5355, 0x8DEF, 0x7531, 0x91CD, 0x8BD5, 0x6B21, 0x6570])),
    (''failoverMaxFallbackAttempts'', Text (unicode [0x6700, 0x5927, 0x6A21, 0x578B, 0x56DE, 0x9000, 0x6B21, 0x6570])),
    (''failoverRangeHint'', Text (unicode [0x8303, 0x56F4] @ '' {{min}} - {{max}}'')),
    (''failoverTriggers'', Text (unicode [0x89E6, 0x53D1, 0x6761, 0x4EF6])),
    (''failoverTriggersHint'', Text (unicode [0x547D, 0x4E2D, 0x4EFB, 0x4E00, 0x6761, 0x4EF6, 0x65F6, 0xFF0C, 0x5148, 0x91CD, 0x8BD5, 0x5F53, 0x524D, 0x8DEF, 0x7531, 0xFF1B, 0x91CD, 0x8BD5, 0x8017, 0x5C3D, 0x540E, 0x518D, 0x6309, 0x56DE, 0x9000, 0x6A21, 0x5F0F, 0x5C1D, 0x8BD5, 0x5176, 0x4ED6, 0x8DEF, 0x7531, 0x3002])),
    (''failoverTriggerTimeout'', Text (unicode [0x9996, 0x5B57, 0x8282, 0x8D85, 0x65F6])),
    (''failoverTriggerNetwork'', Text (unicode [0x7F51, 0x7EDC, 0x9519, 0x8BEF])),
    (''failoverTrigger429'', Text ''HTTP 429''),
    (''failoverTrigger5xx'', Text ''HTTP 5xx''),
    (''failoverHelpTitle'', Text (unicode [0x56DE, 0x9000, 0x7B56, 0x7565, 0x914D, 0x7F6E, 0x8BF4, 0x660E])),
    (''failoverHelpDesc'', Text (unicode [0x81EA, 0x5B9A, 0x4E49, 0x56DE, 0x9000, 0x4F1A, 0x4F18, 0x5148, 0x4E8E, 0x5168, 0x7AD9, 0x56DE, 0x9000, 0x6A21, 0x5F0F, 0x6267, 0x884C, 0xFF0C, 0x9002, 0x5408, 0x7ED9, 0x5173, 0x952E, 0x6A21, 0x578B, 0x8BBE, 0x7F6E, 0x660E, 0x786E, 0x7684, 0x5907, 0x7528, 0x94FE, 0x8DEF, 0x3002])),
    (''failoverHelpCustomTitle'', Text (unicode [0x81EA, 0x5B9A, 0x4E49, 0x89C4, 0x5219, 0x5982, 0x4F55, 0x5339, 0x914D])),
    (''failoverHelpCustomBody'', Text (unicode [0x8BF7, 0x6C42, 0x4E2D, 0x7684] @ '' model '' @ unicode [0x7B49, 0x4E8E, 0x201C, 0x8BF7, 0x6C42, 0x6A21, 0x578B, 0x540D, 0x201D, 0x65F6, 0xFF0C, 0x7F51, 0x5173, 0x5148, 0x91CD, 0x8BD5, 0x5F53, 0x524D, 0x8DEF, 0x7531, 0xFF1B, 0x91CD, 0x8BD5, 0x8017, 0x5C3D, 0x540E, 0x6309] @ '' Fallback '' @ unicode [0x76EE, 0x6807, 0x6570, 0x7EC4, 0x9010, 0x4E2A, 0x5C1D, 0x8BD5, 0x3002] @ ''alias '' @ unicode [0x4F1A, 0x6309, 0x8BF7, 0x6C42, 0x4E2D, 0x7684] @ '' alias '' @ unicode [0x540D, 0x72EC, 0x7ACB, 0x5339, 0x914D, 0x89C4, 0x5219, 0xFF0C, 0x4E0D, 0x7EE7, 0x627F, 0x5176, 0x771F, 0x5B9E, 0x6A21, 0x578B, 0x7684, 0x89C4, 0x5219, 0x3002])),
    (''failoverHelpAliasTitle'', Text (''Alias '' @ unicode [0x662F, 0x865A, 0x62DF, 0x6A21, 0x578B])),
    (''failoverHelpAliasBody'', Text (''Fallback '' @ unicode [0x76EE, 0x6807, 0x53EF, 0x4EE5, 0x5199] @ '' Routes '' @ unicode [0x9875, 0x9762, 0x5DF2, 0x6709, 0x7684, 0x8DEF, 0x7531, 0x522B, 0x540D, 0xFF0C, 0x4E5F, 0x53EF, 0x4EE5, 0x5199] @ '' '' @ unicode [0x6E20, 0x9053, 0x540D] @ '':'' @ unicode [0x6A21, 0x578B, 0x540D, 0x3002] @ ''alias '' @ unicode [0x4F1A, 0x89E3, 0x6790, 0x5230, 0x7ED1, 0x5B9A, 0x7684] @ '' Provider '' @ unicode [0x548C, 0x771F, 0x5B9E, 0x6A21, 0x578B, 0x7528, 0x4E8E, 0x8F6C, 0x53D1, 0xFF0C, 0x4F46, 0x5B83, 0x672C, 0x8EAB, 0x62E5, 0x6709, 0x72EC, 0x7ACB, 0x7684, 0x6A21, 0x578B, 0x7EA7, 0x56DE, 0x9000, 0x914D, 0x7F6E, 0x3002])),
    (''failoverHelpOrderTitle'', Text (unicode [0x5C1D, 0x8BD5, 0x987A, 0x5E8F])),
    (''failoverHelpOrderBody'', Text (unicode [0x81EA, 0x5B9A, 0x4E49] @ '' fallback '' @ unicode [0x6309, 0x586B, 0x5199, 0x987A, 0x5E8F, 0x5C1D, 0x8BD5, 0xFF1B, 0x6BCF, 0x4E2A, 0x76EE, 0x6807, 0x90FD, 0x5FC5, 0x987B, 0x660E, 0x786E, 0x6307, 0x5411, 0x4E00, 0x4E2A] @ '' alias '' @ unicode [0x6216, 0x4E00, 0x4E2A, 0x6E20, 0x9053, 0x6A21, 0x578B, 0x3002, 0x81EA, 0x5B9A, 0x4E49, 0x89C4, 0x5219, 0x672A, 0x547D, 0x4E2D, 0x65F6, 0x624D, 0x4F7F, 0x7528, 0x5168, 0x7AD9, 0x6A21, 0x5F0F, 0x3002])),
    (''failoverHelpExampleRequest'', Text (unicode [0x8BF7, 0x6C42, 0x6A21, 0x578B, 0x540D])),
    (''failoverHelpExampleFallbacks'', Text (''Fallback '' @ unicode [0x76EE, 0x6807, 0x6570, 0x7EC4])),
    (''failoverCurrentMode'', Text (unicode [0x5F53, 0x524D, 0x6A21, 0x5F0F])),
    (''failoverCustomTitle'', Text (unicode [0x81EA, 0x5B9A, 0x4E49, 0x6A21, 0x578B, 0x56DE, 0x9000])),
    (''failoverCustomDesc'', Text (unicode [0x6309, 0x8BF7, 0x6C42, 0x4F20, 0x5165, 0x7684] @ '' model '' @ unicode [0x540D, 0x79F0, 0x914D, 0x7F6E] @ '' fallback '' @ unicode [0x6570, 0x7EC4, 0xFF1B] @ ''alias '' @ unicode [0x4F1A, 0x4F5C, 0x4E3A, 0x72EC, 0x7ACB, 0x865A, 0x62DF, 0x6A21, 0x578B, 0x5339, 0x914D, 0xFF0C] @ ''fallback '' @ unicode [0x53EF, 0x586B, 0x5199, 0x8DEF, 0x7531, 0x522B, 0x540D, 0x6216] @ '' '' @ unicode [0x6E20, 0x9053, 0x540D] @ '':'' @ unicode [0x6A21, 0x578B, 0x540D, 0x3002])),
    (''failoverCustomAdd'', Text (unicode [0x6DFB, 0x52A0, 0x89C4, 0x5219])),
    (''failoverCustomEmpty'', Text (unicode [0x672A, 0x914D, 0x7F6E, 0x81EA, 0x5B9A, 0x4E49, 0x89C4, 0x5219, 0xFF0C, 0x5931, 0x8D25, 0x540E, 0x5C06, 0x4F7F, 0x7528, 0x5168, 0x7AD9, 0x56DE, 0x9000, 0x6A21, 0x5F0F, 0x3002])),
    (''failoverCustomRequestModel'', Text (unicode [0x8BF7, 0x6C42, 0x6A21, 0x578B, 0x540D])),
    (''failoverCustomFallbackModels'', Text (''Fallback '' @ unicode [0x76EE, 0x6807, 0x6570, 0x7EC4])),
    (''failoverCustomFallbackPlaceholder'', Text (''mini'' @ unicode [0xA] @ ''backup:gpt-4o-mini'')),
    (''failoverCustomFallbackHint'', Text (unicode [0x6BCF, 0x884C, 0x4E00, 0x4E2A] @ '' alias '' @ unicode [0x6216] @ '' '' @ unicode [0x6E20, 0x9053, 0x540D] @ '':'' @ unicode [0x6A21, 0x578B, 0x540D, 0xFF0C, 0x4E5F, 0x652F, 0x6301, 0x7528, 0x82F1, 0x6587, 0x9017, 0x53F7, 0x5206, 0x9694, 0xFF1B, 0x4F1A, 0x6309, 0x586B, 0x5199, 0x987A, 0x5E8F, 0x5C1D, 0x8BD5, 0x3002])),
    (''failoverCustomRuleCount'', Text (unicode [0x81EA, 0x5B9A, 0x4E49, 0x89C4, 0x5219, 0x6570])),
    (''failoverCustomValidationRuleCount'', Text (unicode [0x81EA, 0x5B9A, 0x4E49, 0x89C4, 0x5219, 0x4E0D, 0x80FD, 0x8D85, 0x8FC7] @ '' {{max}} '' @ unicode [0x6761])),
    (''failoverCustomValidationModelRequired'', Text (unicode [0x7B2C] @ '' {{index}} '' @ unicode [0x6761, 0x81EA, 0x5B9A, 0x4E49, 0x89C4, 0x5219, 0x7F3A, 0x5C11, 0x8BF7, 0x6C42, 0x6A21, 0x578B, 0x540D])),
    (''failoverCustomValidationFallbackRequired'', Text (''{{model}} '' @ unicode [0x81F3, 0x5C11, 0x9700, 0x8981, 0x4E00, 0x4E2A] @ '' fallback '' @ unicode [0x6A21, 0x578B])),
    (''failoverCustomValidationFallbackCount'', Text (''{{model}} '' @ unicode [0x7684] @ '' fallback '' @ unicode [0x6A21, 0x578B, 0x4E0D, 0x80FD, 0x8D85, 0x8FC7] @ '' {{max}} '' @ unicode [0x4E2A])),
    (''failoverValidationRequired'', Text (''{{label}} '' @ unicode [0x4E0D, 0x80FD, 0x4E3A, 0x7A7A])),
    (''failoverValidationNumber'', Text (''{{label}} '' @ unicode [0x5FC5, 0x987B, 0x662F, 0x6570, 0x5B57])),
    (''failoverValidationRange'', Text (''{{label}} '' @ unicode [0x5FC5, 0x987B, 0x5728] @ '' {{min}} - {{max}} '' @ unicode [0x4E4B, 0x95F4]))]"

definition zh_models :: Messages where
  "zh_models = Section [
    (''title'', Text (unicode [0x53EF, 0x7528, 0x6A21, 0x578B])),
    (''totalCount'', Text (unicode [0x5171] @ '' {{count}} '' @ unicode [0x4E2A, 0x6A21, 0x578B])),
    (''endpointsTitle'', Text (unicode [0x663E, 0x5F0F, 0x7C7B, 0x578B, 0x7AEF, 0x70B9])),
    (''endpointsDesc'', Text (unicode [0x9664, 0x81EA, 0x52A8, 0x6309, 0x6A21, 0x578B, 0x9009, 0x8DEF, 0xFF08] @ ''/v1/*'' @ unicode [0xFF09, 0x5916, 0xFF0C, 0x53EF, 0x5728, 0x8DEF, 0x5F84, 0x4E2D, 0x663E, 0x5F0F, 0x6307, 0x5B9A, 0x534F, 0x8BAE, 0x7C7B, 0x578B, 0xFF0C, 0x7F51, 0x5173, 0x5C06, 0x4EC5, 0x5728, 0x5BF9, 0x5E94, 0x7C7B, 0x578B, 0x7684, 0x6E20, 0x9053, 0x4E2D, 0x67E5, 0x627E, 0x6A21, 0x578B, 0x3002])),
    (''openaiProtocol'', Text (''OpenAI '' @ unicode [0x534F, 0x8BAE])),
    (''anthropicProtocol'', Text (''Anthropic '' @ unicode [0x534F, 0x8BAE])),
    (''modelId'', Text (unicode [0x6A21, 0x578B] @ '' ID'')),
    (''contextLength'', Text (unicode [0x4E0A, 0x4E0B, 0x6587, 0x957F, 0x5EA6])),
    (''inputPrice'', Text (unicode [0x8F93, 0x5165, 0x4EF7, 0x683C] @ '' / 1M'')),
    (''outputPrice'', Text (unicode [0x8F93, 0x51FA, 0x4EF7, 0x683C] @ '' / 1M'')),
    (''cacheReadPrice'', Text (unicode [0x7F13, 0x5B58, 0x8BFB, 0x53D6, 0x4EF7, 0x683C] @ '' / 1M'')),
    (''cacheWritePrice'', Text (unicode [0x7F13, 0x5B58, 0x5199, 0x5165, 0x4EF7, 0x683C] @ '' / 1M'')),
    (''channel'', Text (unicode [0x6240, 0x5C5E, 0x6E20, 0x9053])),
    (''manualBadge'', Text (unicode [0x624B, 0x52A8])),
    (''emptyMeansAuto'', Text (unicode [0x7559, 0x7A7A, 0x4F7F, 0x7528, 0x81EA, 0x52A8, 0x503C])),
    (''editDialogTitle'', Text (unicode [0x7F16, 0x8F91, 0x6A21, 0x578B, 0x5143, 0x6570, 0x636E])),
    (''editDialogDesc'', Text (unicode [0x4E3A] @ '' {{channel}} / {{model}} '' @ unicode [0x8BBE, 0x7F6E, 0x624B, 0x52A8, 0x4EF7, 0x683C, 0x548C, 0x4E0A, 0x4E0B, 0x6587, 0x3002, 0x624B, 0x52A8, 0x503C, 0x4F18, 0x5148, 0x4E8E, 0x81EA, 0x52A8, 0x62C9, 0x53D6, 0x6570, 0x636E, 0xFF1B, 0x5168, 0x90E8, 0x7559, 0x7A7A, 0x4F1A, 0x6E05, 0x9664, 0x8986, 0x76D6, 0x3002])),
    (''customPricingRequired'', Text (unicode [0x81EA, 0x5B9A, 0x4E49, 0x4EF7, 0x683C, 0x5FC5, 0x987B, 0x540C, 0x65F6, 0x586B, 0x5199, 0x8F93, 0x5165, 0x4EF7, 0x683C, 0x548C, 0x8F93, 0x51FA, 0x4EF7, 0x683C])),
    (''validationNumber'', Text (''{{label}}'' @ unicode [0x5FC5, 0x987B, 0x662F, 0x6570, 0x5B57])),
    (''validationInteger'', Text (''{{label}}'' @ unicode [0x5FC5, 0x987B, 0x662F, 0x6574, 0x6570])),
    (''validationMin'', Text (''{{label}}'' @ unicode [0x4E0D, 0x80FD, 0x5C0F, 0x4E8E] @ '' {{min}}'')),
    (''noModelsTitle'', Text (unicode [0x6682, 0x65E0, 0x6A21, 0x578B])),
    (''noModelsDesc'', Text (unicode [0x8BE5, 0x7C7B, 0x578B, 0x4E0B, 0x5F53, 0x524D, 0x6CA1, 0x6709, 0x5DF2, 0x914D, 0x7F6E, 0x7684, 0x6A21, 0x578B, 0x3002])),
    (''anthropicDesc'', Text (unicode [0x901A, 0x8FC7] @ '' Anthropic '' @ unicode [0x534F, 0x8BAE, 0x8DEF, 0x7531, 0x7684, 0x6A21, 0x578B])),
    (''openaiDesc'', Text (unicode [0x901A, 0x8FC7] @ '' OpenAI '' @ unicode [0x517C, 0x5BB9, 0x534F, 0x8BAE, 0x8DEF, 0x7531, 0x7684, 0x6A21, 0x578B])),
    (''testDialogTitle'', Text (unicode [0x6D4B, 0x8BD5, 0x6A21, 0x578B])),
    (''testDialogDesc'', Text (unicode [0x6D4B, 0x8BD5, 0x6A21, 0x578B] @ '' {{model}}'' @ unicode [0xFF08, 0x6E20, 0x9053, 0xFF1A] @ ''{{channel}}'' @ unicode [0xFF09])),
    (''testSuccess'', Text (unicode [0x6D4B, 0x8BD5, 0x6210, 0x529F])),
    (''testFailed'', Text (unicode [0x6D4B, 0x8BD5, 0x5931, 0x8D25])),
    (''rawResponse'', Text (unicode [0x539F, 0x59CB, 0x54CD, 0x5E94])),
    (''retest'', Text (unicode [0x91CD, 0x65B0, 0x6D4B, 0x8BD5]))]"

definition zh_keys :: Messages where
  "zh_keys = Section [
    (''title'', Text (''API Keys '' @ unicode [0x7BA1, 0x7406])),
    (''description'', Text (unicode [0x7528, 0x666E, 0x901A] @ '' API key '' @ unicode [0x533A, 0x5206, 0x5BA2, 0x6237, 0x7AEF, 0x548C, 0x4F7F, 0x7528, 0x6765, 0x6E90, 0x3002, 0x73AF, 0x5883, 0x53D8, 0x91CF, 0x91CC, 0x7684, 0x7BA1, 0x7406, 0x5458] @ '' key '' @ unicode [0x4E0D, 0x51FA, 0x73B0, 0x5728, 0x8FD9, 0x91CC, 0xFF0C, 0x4E5F, 0x4E0D, 0x5EFA, 0x8BAE, 0x5E38, 0x7528, 0x3002, 0x5B8C, 0x6574] @ '' key '' @ unicode [0x652F, 0x6301, 0x540E, 0x7EED, 0x91CD, 0x590D, 0x67E5, 0x770B, 0x3001, 0x590D, 0x5236, 0x548C, 0x91CD, 0x547D, 0x540D, 0x7BA1, 0x7406, 0x3002])),
    (''newKey'', Text (unicode [0x65B0, 0x5EFA] @ '' Key'')),
    (''nameCol'', Text (unicode [0x540D, 0x79F0])),
    (''prefixCol'', Text (unicode [0x524D, 0x7F00])),
    (''createdCol'', Text (unicode [0x521B, 0x5EFA, 0x65F6, 0x95F4])),
    (''lastUsedCol'', Text (unicode [0x6700, 0x8FD1, 0x4F7F, 0x7528])),
    (''actionsCol'', Text (unicode [0x64CD, 0x4F5C])),
    (''viewUsage'', Text (unicode [0x67E5, 0x770B, 0x7528, 0x91CF])),
    (''rename'', Text (unicode [0x91CD, 0x547D, 0x540D])),
    (''nameEmptyError'', Text (''Key '' @ unicode [0x540D, 0x79F0, 0x4E0D, 0x80FD, 0x4E3A, 0x7A7A])),
    (''keyNameUpdated'', Text (''Key '' @ unicode [0x540D, 0x79F0, 0x5DF2, 0x66F4, 0x65B0])),
    (''keyCopied'', Text (''API key '' @ unicode [0x5DF2, 0x590D, 0x5236])),
    (''copyFailed'', Text (unicode [0x590D, 0x5236, 0x5931, 0x8D25, 0xFF0C, 0x8BF7, 0x624B, 0x52A8, 0x590D, 0x5236])),
    (''confirmDelete'', Text (unicode [0x786E, 0x5B9A, 0x5220, 0x9664] @ '' API key'' @ unicode [0x300C] @ ''{{name}}'' @ unicode [0x300D, 0x5417, 0xFF1F, 0x5220, 0x9664, 0x540E, 0x5C06, 0x7ACB, 0x5373, 0x5931, 0x6548, 0x3002])),
    (''emptyTitle'', Text (unicode [0x8FD8, 0x6CA1, 0x6709, 0x53EF, 0x7528, 0x7684] @ '' API key'')),
    (''emptyDesc'', Text (unicode [0x5148, 0x521B, 0x5EFA, 0x4E00, 0x4E2A, 0x666E, 0x901A] @ '' key '' @ unicode [0x7ED9, 0x5BA2, 0x6237, 0x7AEF, 0x4F7F, 0x7528, 0x3002, 0x4E4B, 0x540E, 0x5C31, 0x53EF, 0x4EE5, 0x6309] @ '' key '' @ unicode [0x540D, 0x79F0, 0x533A, 0x5206, 0x5BA2, 0x6237, 0x7AEF, 0x6765, 0x6E90, 0x3002])),
    (''createDialogTitle'', Text (unicode [0x65B0, 0x5EFA] @ '' API key'')),
    (''createDialogDesc'', Text (unicode [0x521B, 0x5EFA, 0x540E, 0x4F1A, 0x7ACB, 0x5373, 0x8FD4, 0x56DE, 0x5B8C, 0x6574] @ '' key'' @ unicode [0xFF0C, 0x540E, 0x7EED, 0x4E5F, 0x53EF, 0x4EE5, 0x5728] @ '' Keys '' @ unicode [0x9875, 0x9762, 0x91CD, 0x590D, 0x67E5, 0x770B, 0x3002])),
    (''keyNameLabel'', Text (''Key '' @ unicode [0x540D, 0x79F0])),
    (''keyNamePlaceholder'', Text (unicode [0x4F8B, 0x5982, 0xFF1A] @ ''iPhone / iPad / MacBook / 17Air'')),
    (''creating'', Text (unicode [0x521B, 0x5EFA, 0x4E2D] @ ''...'')),
    (''createKey'', Text (unicode [0x521B, 0x5EFA] @ '' Key'')),
    (''renameDialogTitle'', Text (unicode [0x91CD, 0x547D, 0x540D] @ '' Key'')),
    (''renameDialogDesc'', Text (unicode [0x66F4, 0x65B0, 0x8FD9, 0x4E2A] @ '' Key '' @ unicode [0x7684, 0x663E, 0x793A, 0x540D, 0x79F0, 0xFF0C, 0x540E, 0x7EED, 0x65E5, 0x5FD7, 0x548C, 0x805A, 0x5408, 0x4F1A, 0x6309, 0x65B0, 0x540D, 0x79F0, 0x533A, 0x5206, 0x3002])),
    (''saveNameBtn'', Text (unicode [0x4FDD, 0x5B58, 0x540D, 0x79F0])),
    (''viewDialogTitle'', Text (unicode [0x67E5, 0x770B, 0x5B8C, 0x6574] @ '' API key'')),
    (''viewDialogDesc'', Text (unicode [0x300C] @ ''{{name}}'' @ unicode [0x300D, 0x7684, 0x5B8C, 0x6574, 0x503C, 0x5982, 0x4E0B, 0xFF0C, 0x53EF, 0x4EE5, 0x91CD, 0x590D, 0x67E5, 0x770B, 0x548C, 0x590D, 0x5236, 0x3002])),
    (''copyKey'', Text (unicode [0x590D, 0x5236] @ '' Key'')),
    (''allowedModelsCol'', Text (unicode [0x6A21, 0x578B, 0x9650, 0x5236])),
    (''allowedModelsNone'', Text (unicode [0x4E0D, 0x9650, 0x5236])),
    (''allowedModelsCount'', Text (unicode [0x9650] @ ''{{count}}'' @ unicode [0x4E2A])),
    (''costQuotaCol'', Text (unicode [0x8D39, 0x7528, 0x989D, 0x5EA6])),
    (''manageModels'', Text (unicode [0x6A21, 0x578B, 0x9650, 0x5236])),
    (''manageModelsDialogTitle'', Text (unicode [0x8BBE, 0x7F6E, 0x6A21, 0x578B, 0x9650, 0x5236])),
    (''manageModelsDialogDesc'', Text (unicode [0x4E3A, 0x300C] @ ''{{name}}'' @ unicode [0x300D, 0x914D, 0x7F6E, 0x5141, 0x8BB8, 0x4F7F, 0x7528, 0x7684, 0x6A21, 0x578B, 0x767D, 0x540D, 0x5355, 0x3002, 0x7559, 0x7A7A, 0x5219, 0x4E0D, 0x9650, 0x5236, 0xFF0C, 0x53EF, 0x4F7F, 0x7528] @ '' * '' @ unicode [0x901A, 0x914D, 0x7B26, 0xFF08, 0x5982] @ '' claude-*'' @ unicode [0xFF09, 0x3002])),
    (''allowedModelsChannelLabel'', Text (unicode [0x6E20, 0x9053, 0x7B5B, 0x9009])),
    (''allowedModelsConfiguredLabel'', Text (unicode [0x5DF2, 0x914D, 0x7F6E, 0x6A21, 0x578B])),
    (''allowedModelsAllChannels'', Text (unicode [0x5168, 0x90E8, 0x6E20, 0x9053])),
    (''allowedModelsSelectPlaceholder'', Text (unicode [0x4ECE, 0x5DF2, 0x914D, 0x7F6E, 0x6A21, 0x578B, 0x9009, 0x62E9])),
    (''allowedModelsNoConfigured'', Text (unicode [0x6CA1, 0x6709, 0x53EF, 0x9009, 0x6A21, 0x578B])),
    (''allowedModelsInputPlaceholder'', Text (unicode [0x8F93, 0x5165, 0x6A21, 0x578B, 0x540D, 0xFF0C, 0x56DE, 0x8F66, 0x6DFB, 0x52A0])),
    (''allowedModelsEmptyHint'', Text (unicode [0x6682, 0x65E0, 0x9650, 0x5236, 0xFF0C, 0x8BE5] @ '' key '' @ unicode [0x53EF, 0x4F7F, 0x7528, 0x6240, 0x6709, 0x6A21, 0x578B])),
    (''allowedModelsSave'', Text (unicode [0x4FDD, 0x5B58])),
    (''allowedModelsSaving'', Text (unicode [0x4FDD, 0x5B58, 0x4E2D] @ ''...'')),
    (''allowedModelsUpdated'', Text (unicode [0x6A21, 0x578B, 0x9650, 0x5236, 0x5DF2, 0x66F4, 0x65B0])),
    (''quotaUnlimited'', Text (unicode [0x4E0D, 0x9650, 0x5236])),
    (''quotaRemaining'', Text (unicode [0x5269] @ '' {{remaining}}'')),
    (''quotaExhausted'', Text (unicode [0x5DF2, 0x7528, 0x5B8C])),
    (''manageQuota'', Text (unicode [0x989D, 0x5EA6])),
    (''manageQuotaDialogTitle'', Text (unicode [0x8BBE, 0x7F6E, 0x8D39, 0x7528, 0x989D, 0x5EA6])),
    (''manageQuotaDialogDesc'', Text (unicode [0x4E3A, 0x300C] @ ''{{name}}'' @ unicode [0x300D, 0x914D, 0x7F6E, 0x7D2F, 0x8BA1, 0x8D39, 0x7528, 0x4E0A, 0x9650, 0xFF0C, 0x5355, 0x4F4D, 0x4E3A, 0x7F8E, 0x5143, 0x3002, 0x7559, 0x7A7A, 0x5219, 0x4E0D, 0x9650, 0x5236, 0x3002])),
    (''quotaInputLabel'', Text (unicode [0x8D39, 0x7528, 0x4E0A, 0x9650, 0xFF08, 0x7F8E, 0x5143, 0xFF09])),
    (''quotaInputPlaceholder'', Text (unicode [0x7559, 0x7A7A, 0x8868, 0x793A, 0x4E0D, 0x9650, 0x5236])),
    (''quotaInputHint'', Text (unicode [0x5F53, 0x524D, 0x5DF2, 0x7528] @ '' {{used}}'')),
    (''createQuotaHint'', Text (unicode [0x5206, 0x53D1, 0x524D, 0x53EF, 0x76F4, 0x63A5, 0x8BBE, 0x7F6E, 0x989D, 0x5EA6, 0xFF0C, 0x7559, 0x7A7A, 0x5219, 0x8FD9, 0x4E2A] @ '' key '' @ unicode [0x4E0D, 0x9650, 0x91CF, 0x3002])),
    (''quotaValidation'', Text (unicode [0x8D39, 0x7528, 0x989D, 0x5EA6, 0x5FC5, 0x987B, 0x662F, 0x975E, 0x8D1F, 0x6570, 0x5B57, 0xFF0C, 0x6216, 0x7559, 0x7A7A, 0x8868, 0x793A, 0x4E0D, 0x9650, 0x5236])),
    (''quotaSave'', Text (unicode [0x4FDD, 0x5B58, 0x989D, 0x5EA6])),
    (''quotaSaving'', Text (unicode [0x4FDD, 0x5B58, 0x4E2D] @ ''...'')),
    (''quotaUpdated'', Text (unicode [0x8D39, 0x7528, 0x989D, 0x5EA6, 0x5DF2, 0x66F4, 0x65B0]))]"

definition zh_bucket :: Messages where
  "zh_bucket = Section [
    (''colDimension'', Text (unicode [0x7EF4, 0x5EA6])),
    (''colRequests'', Text (unicode [0x8BF7, 0x6C42])),
    (''colHitRate'', Text (unicode [0x547D, 0x4E2D, 0x7387])),
    (''colAvgFirstToken'', Text (unicode [0x5E73, 0x5747, 0x9996] @ '' token'')),
    (''colErrors'', Text (unicode [0x9519, 0x8BEF, 0x6570])),
    (''colTotalTokens'', Text (unicode [0x603B] @ '' tokens'')),
    (''colTotalCost'', Text (unicode [0x603B, 0x6210, 0x672C])),
    (''lastSeen'', Text (unicode [0x6700, 0x540E, 0x51FA, 0x73B0] @ '' {{time}}'')),
    (''emptyTitle'', Text (unicode [0x6682, 0x65E0, 0x805A, 0x5408, 0x6570, 0x636E])),
    (''emptyDescription'', Text (unicode [0x5148, 0x53D1, 0x9001, 0x51E0, 0x6B21, 0x8BF7, 0x6C42, 0xFF0C, 0x518D, 0x56DE, 0x6765, 0x67E5, 0x770B, 0x8DEF, 0x7531, 0x548C, 0x6A21, 0x578B, 0x7684, 0x805A, 0x5408, 0x7EDF, 0x8BA1, 0x3002]))]"

definition zh_channelHealth :: Messages where
  "zh_channelHealth = Section [
    (''title'', Text (unicode [0x6E20, 0x9053, 0x5065, 0x5EB7, 0x72B6, 0x51B5])),
    (''description'', Text (unicode [0x6309, 0x5C0F, 0x65F6, 0x7EDF, 0x8BA1, 0x5404, 0x6E20, 0x9053, 0x8BF7, 0x6C42, 0x72B6, 0x6001] @ '' '' @ unicode [0xB7] @ '' '' @ unicode [0x7EFF, 0x8272] @ ''='' @ unicode [0x5168, 0x90E8, 0x6210, 0x529F] @ '' '' @ unicode [0xB7] @ '' '' @ unicode [0x9EC4, 0x8272] @ ''='' @ unicode [0x90E8, 0x5206, 0x6210, 0x529F] @ '' '' @ unicode [0xB7] @ '' '' @ unicode [0x7EA2, 0x8272] @ ''='' @ unicode [0x5168, 0x90E8, 0x5931, 0x8D25] @ '' '' @ unicode [0xB7] @ '' '' @ unicode [0x7070, 0x8272] @ ''='' @ unicode [0x65E0, 0x6570, 0x636E])),
    (''routeCol'', Text (unicode [0x6E20, 0x9053]))]"

definition zh_payload :: Messages where
  "zh_payload = Section [
    (''supportCopyView'', Text (unicode [0x652F, 0x6301, 0x590D, 0x5236, 0x4E0E, 0x5168, 0x6587, 0x67E5, 0x770B])),
    (''noContent'', Text (unicode [0x5F53, 0x524D, 0x6CA1, 0x6709, 0x4FDD, 0x7559, 0x5185, 0x5BB9])),
    (''structured'', Text (unicode [0x7ED3, 0x6784, 0x5316])),
    (''raw'', Text (unicode [0x539F, 0x59CB])),
    (''truncated'', Text (unicode [0x5DF2, 0x622A, 0x65AD])),
    (''fullRetained'', Text (unicode [0x5168, 0x91CF, 0x4FDD, 0x7559])),
    (''emptyTitle'', Text (unicode [0x6CA1, 0x6709, 0x53EF, 0x5C55, 0x793A, 0x7684, 0x5185, 0x5BB9])),
    (''emptyDescription'', Text (unicode [0x8FD9, 0x4E2A, 0x5206, 0x6BB5, 0x6CA1, 0x6709, 0x4FDD, 0x5B58] @ '' payload'' @ unicode [0xFF0C, 0x901A, 0x5E38, 0x8868, 0x793A, 0x8BF7, 0x6C42, 0x8FD8, 0x672A, 0x5199, 0x5165, 0x6216, 0x6CA1, 0x6709, 0x8FD4, 0x56DE, 0x6B63, 0x6587, 0x3002]))]"

definition zh_chart :: Messages where
  "zh_chart = Section [
    (''tokenTrend'', Text (''Token '' @ unicode [0x8D8B, 0x52BF])),
    (''tokenTrendDesc'', Text (unicode [0x6309, 0x65F6, 0x95F4, 0x770B, 0x6BCF, 0x4E2A] @ '' bucket '' @ unicode [0x7684] @ '' token '' @ unicode [0x6D88, 0x8017, 0x53D8, 0x5316, 0x3002])),
    (''costTrend'', Text (''Cost '' @ unicode [0x8D8B, 0x52BF])),
    (''costTrendDesc'', Text (unicode [0x6309, 0x65F6, 0x95F4, 0x770B, 0x6BCF, 0x4E2A] @ '' bucket '' @ unicode [0x7684, 0x6210, 0x672C, 0x82B1, 0x8D39, 0xFF0C, 0x5355, 0x72EC, 0x770B, 0x66F4, 0x76F4, 0x89C2, 0x3002])),
    (''tokenConsumption'', Text (''Token '' @ unicode [0x6D88, 0x8017])),
    (''costSpend'', Text (unicode [0x6210, 0x672C, 0x82B1, 0x8D39])),
    (''emptyTimeseries'', Text (unicode [0x5F53, 0x524D, 0x7B5B, 0x9009, 0x6761, 0x4EF6, 0x4E0B, 0x6682, 0x65E0, 0x65F6, 0x95F4, 0x5E8F, 0x5217, 0x6570, 0x636E])),
    (''peakTokens'', Text (unicode [0x5CF0, 0x503C] @ '' Tokens'')),
    (''peakCost'', Text (unicode [0x5CF0, 0x503C, 0x6210, 0x672C])),
    (''dataPoints'', Text (unicode [0x65F6, 0x95F4, 0x70B9, 0x6570, 0x91CF]))]"

definition zh :: Messages where
  "zh = Section [
    (''common'', zh_common),
    (''lang'', zh_lang),
    (''nav'', zh_nav),
    (''session'', zh_session),
    (''timeRange'', zh_timeRange),
    (''monitor'', zh_monitor),
    (''settings'', zh_settings),
    (''usage'', zh_usage),
    (''logs'', zh_logs),
    (''logTable'', zh_logTable),
    (''detail'', zh_detail),
    (''providers'', zh_providers),
    (''routes'', zh_routes),
    (''models'', zh_models),
    (''keys'', zh_keys),
    (''bucket'', zh_bucket),
    (''channelHealth'', zh_channelHealth),
    (''payload'', zh_payload),
    (''chart'', zh_chart)]"

end
