(* ===== verification/Locale_Texts.thy ===== *)
theory Locale_Texts
  imports Locale_En Locale_Zh
begin

text \<open>
  The signatures of the sections of both tables, and for the texts the modelled pages ask for the values they
  need. A section is unfolded once per lemma and its texts are scanned by the rules of \<open>Messages\<close>.
\<close>

declare text_simps [simp] takeWhile.simps(2) [simp del] dropWhile.simps(2) [simp del]

section \<open>The sections agree\<close>

lemma common_signature: "signature zh_common = signature en_common"
  by (simp add: en_common_def zh_common_def)

lemma lang_signature: "signature zh_lang = signature en_lang"
  by (simp add: en_lang_def zh_lang_def)

lemma nav_signature: "signature zh_nav = signature en_nav"
  by (simp add: en_nav_def zh_nav_def)

lemma session_signature: "signature zh_session = signature en_session"
  by (simp add: en_session_def zh_session_def)

lemma timeRange_signature: "signature zh_timeRange = signature en_timeRange"
  by (simp add: en_timeRange_def zh_timeRange_def)

lemma monitor_signature: "signature zh_monitor = signature en_monitor"
  by (simp add: en_monitor_def zh_monitor_def)

lemma settings_signature: "signature zh_settings = signature en_settings"
  by (simp add: en_settings_def zh_settings_def)

lemma usage_signature: "signature zh_usage = signature en_usage"
  by (simp add: en_usage_def zh_usage_def)

lemma logs_signature: "signature zh_logs = signature en_logs"
  by (simp add: en_logs_def zh_logs_def)

lemma logTable_signature: "signature zh_logTable = signature en_logTable"
  by (simp add: en_logTable_def zh_logTable_def)

lemma detail_signature: "signature zh_detail = signature en_detail"
  by (simp add: en_detail_def zh_detail_def)

lemma providers_signature: "signature zh_providers = signature en_providers"
  by (simp add: en_providers_def zh_providers_def)

lemma routes_signature: "signature zh_routes = signature en_routes"
  by (simp add: en_routes_def zh_routes_def)

lemma models_signature: "signature zh_models = signature en_models"
  by (simp add: en_models_def zh_models_def)

lemma keys_signature: "signature zh_keys = signature en_keys"
  by (simp add: en_keys_def zh_keys_def)

lemma bucket_signature: "signature zh_bucket = signature en_bucket"
  by (simp add: en_bucket_def zh_bucket_def)

lemma channelHealth_signature: "signature zh_channelHealth = signature en_channelHealth"
  by (simp add: en_channelHealth_def zh_channelHealth_def)

lemma payload_signature: "signature zh_payload = signature en_payload"
  by (simp add: en_payload_def zh_payload_def)

lemma chart_signature: "signature zh_chart = signature en_chart"
  by (simp add: en_chart_def zh_chart_def)

lemmas section_signatures =
  common_signature lang_signature nav_signature session_signature timeRange_signature monitor_signature
  settings_signature usage_signature logs_signature logTable_signature detail_signature providers_signature
  routes_signature models_signature keys_signature bucket_signature channelHealth_signature payload_signature
  chart_signature

section \<open>The texts the pages ask for\<close>

lemma bucket_texts: "covers_all (signature en_bucket)
    [(''colAvgFirstToken'', []), (''colDimension'', []), (''colErrors'', []), (''colHitRate'', []),
     (''colRequests'', []), (''colTotalCost'', []), (''colTotalTokens'', []),
     (''emptyDescription'', []), (''emptyTitle'', []), (''lastSeen'', [''time''])]"
  by (simp add: en_bucket_def) (simp only: lookup_rules)

lemma channelHealth_texts: "covers_all (signature en_channelHealth)
    [(''description'', []), (''routeCol'', []), (''title'', [])]"
  by (simp add: en_channelHealth_def) (simp only: lookup_rules)

lemma chart_texts: "covers_all (signature en_chart)
    [(''costSpend'', []), (''costTrend'', []), (''costTrendDesc'', []), (''dataPoints'', []),
     (''emptyTimeseries'', []), (''peakCost'', []), (''peakTokens'', []), (''tokenConsumption'', []),
     (''tokenTrend'', []), (''tokenTrendDesc'', [])]"
  by (simp add: en_chart_def) (simp only: lookup_rules)

lemma common_texts: "covers_all (signature en_common)
    [(''alreadyExists'', []), (''cancel'', []), (''clear'', []), (''clearFilters'', []),
     (''close'', []), (''connectionFailed'', []), (''copy'', []), (''current'', []),
     (''delete'', []), (''deleting'', []), (''disabled'', []), (''done'', []), (''edit'', []),
     (''enabled'', []), (''errorOccurred'', []), (''help'', []), (''loadFailed'', []),
     (''noData'', []), (''refresh'', []), (''refreshData'', []), (''save'', []),
     (''saveFailed'', []), (''saving'', []), (''searchModel'', []), (''searchRoute'', []),
     (''searchTimeRange'', []), (''selectAll'', []), (''test'', []), (''testing'', []),
     (''viewLogs'', [])]"
  by (simp add: en_common_def) (simp only: lookup_rules)

lemma detail_texts: "covers_all (signature en_detail)
    [(''backToLogs'', []), (''costDesc'', []), (''costTitle'', []), (''detailDesc'', []),
     (''detailTitle'', []), (''duration'', []), (''emptyDesc'', []), (''emptyTitle'', []),
     (''failoverReason'', []), (''firstChunk'', []), (''firstToken'', []),
     (''forwardedHeaders'', []), (''forwardedHeadersDesc'', []), (''forwardedPayload'', []),
     (''generationDuration'', []), (''httpStatus'', []), (''keySource'', []), (''loadingDesc'', []),
     (''loadingTitle'', []), (''noForwardedHeaders'', []), (''noForwardedHeadersDesc'', []),
     (''noOriginalHeaders'', []), (''noOriginalHeadersDesc'', []), (''noResponseHeaders'', []),
     (''noResponseHeadersDesc'', []), (''noSseConcat'', []), (''noSseConcatDesc'', []),
     (''nonStreaming'', []), (''originalHeaders'', []), (''originalHeadersDesc'', []),
     (''originalPayload'', []), (''overviewDesc'', []), (''overviewTitle'', []), (''path'', []),
     (''refreshFailed'', []), (''requestId'', []), (''requestIdLabel'', [''id'']),
     (''requestModel'', []), (''responseBody'', []), (''responseBodySize'', []),
     (''responseHeaders'', []), (''responseHeadersDesc'', []), (''responseModel'', []),
     (''retryAttempt'', []), (''routePrefix'', []), (''sseConcat'', []), (''sseConcatDesc'', []),
     (''streaming'', []), (''tabRequest'', []), (''tabResponse'', []), (''tabSummary'', []),
     (''targetUrl'', []), (''time'', []), (''timingDesc'', []), (''timingTitle'', []),
     (''tokenDesc'', []), (''tokenTitle'', []), (''transferMode'', []), (''upstreamType'', [])]"
  by (simp add: en_detail_def) (simp only: lookup_rules)

lemma keys_texts: "covers_all (signature en_keys)
    [(''actionsCol'', []), (''allowedModelsAllChannels'', []), (''allowedModelsChannelLabel'', []),
     (''allowedModelsCol'', []), (''allowedModelsConfiguredLabel'', []),
     (''allowedModelsCount'', [''count'']), (''allowedModelsEmptyHint'', []),
     (''allowedModelsInputPlaceholder'', []), (''allowedModelsNoConfigured'', []),
     (''allowedModelsNone'', []), (''allowedModelsSave'', []), (''allowedModelsSaving'', []),
     (''allowedModelsSelectPlaceholder'', []), (''allowedModelsUpdated'', []),
     (''confirmDelete'', [''name'']), (''copyFailed'', []), (''copyKey'', []),
     (''costQuotaCol'', []), (''createDialogDesc'', []), (''createDialogTitle'', []),
     (''createKey'', []), (''createQuotaHint'', []), (''createdCol'', []), (''creating'', []),
     (''description'', []), (''emptyDesc'', []), (''emptyTitle'', []), (''keyCopied'', []),
     (''keyNameLabel'', []), (''keyNamePlaceholder'', []), (''keyNameUpdated'', []),
     (''lastUsedCol'', []), (''manageModels'', []), (''manageModelsDialogDesc'', [''name'']),
     (''manageModelsDialogTitle'', []), (''manageQuota'', []),
     (''manageQuotaDialogDesc'', [''name'']), (''manageQuotaDialogTitle'', []), (''nameCol'', []),
     (''nameEmptyError'', []), (''newKey'', []), (''prefixCol'', []), (''quotaExhausted'', []),
     (''quotaInputHint'', [''used'']), (''quotaInputLabel'', []), (''quotaInputPlaceholder'', []),
     (''quotaRemaining'', [''remaining'']), (''quotaSave'', []), (''quotaSaving'', []),
     (''quotaUnlimited'', []), (''quotaUpdated'', []), (''quotaValidation'', []), (''rename'', []),
     (''renameDialogDesc'', []), (''renameDialogTitle'', []), (''saveNameBtn'', []), (''title'', []),
     (''viewDialogDesc'', [''name'']), (''viewDialogTitle'', []), (''viewUsage'', [])]"
  by (simp add: en_keys_def) (simp only: lookup_rules)

lemma lang_texts: "covers_all (signature en_lang)
    [(''switch'', [])]"
  by (simp add: en_lang_def) (simp only: lookup_rules)

lemma logTable_texts: "covers_all (signature en_logTable)
    [(''actionLabel'', []), (''anonymous'', []), (''cacheLabel'', []), (''colActions'', []),
     (''colCacheHitRate'', []), (''colCost'', []), (''colLatency'', []), (''colModel'', []),
     (''colOutputSpeed'', []), (''colRequest'', []), (''colRoute'', []), (''colSource'', []),
     (''colStatus'', []), (''colTime'', []), (''colTokens'', []), (''copied'', [''label'']),
     (''copyFailed'', [''label'']), (''copyPath'', []), (''copyRequestId'', []),
     (''description'', []), (''emptyDescription'', []), (''emptyTitle'', []), (''estimated'', []),
     (''failedOver'', []), (''filterSameModel'', []), (''filterSameRoute'', []),
     (''filterSameSource'', []), (''firstLabel'', []), (''inputLabel'', []), (''outputLabel'', []),
     (''requestModel'', [''model'']), (''responseModel'', [''model'']),
     (''responsesChatCompat'', []), (''responsesChatCompatTip'', []), (''retriedSameRoute'', []),
     (''title'', []), (''totalLabel'', []), (''truncatedLog'', []), (''truncatedSize'', []),
     (''truncatedStream'', []), (''viewDetail'', [])]"
  by (simp add: en_logTable_def) (simp only: lookup_rules)

lemma logs_texts: "covers_all (signature en_logs)
    [(''description'', []), (''nextPage'', []), (''prevPage'', []), (''title'', [])]"
  by (simp add: en_logs_def) (simp only: lookup_rules)

lemma models_texts: "covers_all (signature en_models)
    [(''anthropicDesc'', []), (''anthropicProtocol'', []), (''cacheReadPrice'', []),
     (''cacheWritePrice'', []), (''channel'', []), (''contextLength'', []),
     (''customPricingRequired'', []), (''editDialogDesc'', [''model'', ''channel'']),
     (''editDialogTitle'', []), (''emptyMeansAuto'', []), (''endpointsDesc'', []),
     (''endpointsTitle'', []), (''inputPrice'', []), (''manualBadge'', []), (''modelId'', []),
     (''noModelsDesc'', []), (''noModelsTitle'', []), (''openaiDesc'', []), (''openaiProtocol'', []),
     (''outputPrice'', []), (''rawResponse'', []), (''retest'', []),
     (''testDialogDesc'', [''model'', ''channel'']), (''testDialogTitle'', []), (''testFailed'', []),
     (''testSuccess'', []), (''title'', []), (''totalCount'', [''count'']),
     (''validationInteger'', [''label'']), (''validationMin'', [''label'', ''min'']),
     (''validationNumber'', [''label''])]"
  by (simp add: en_models_def) (simp only: lookup_rules)

lemma monitor_texts: "covers_all (signature en_monitor)
    [(''allRoutes'', []), (''avgDuration'', []), (''avgDurationDesc'', []), (''avgFirstChunk'', []),
     (''avgFirstChunkDesc'', []), (''avgFirstToken'', []), (''avgFirstTokenDesc'', []),
     (''avgGeneration'', []), (''avgGenerationDesc'', []), (''cacheCreates'', []),
     (''cacheCreatesDesc'', []), (''cacheHealth'', []), (''cacheHitDesc'', [''hits'', ''creates'']),
     (''cacheHitRate'', []), (''cacheHits'', []), (''cacheHitsDesc'', []), (''cacheMisses'', []),
     (''cacheMissesDesc'', []), (''channelName'', []), (''channelStatus'', []),
     (''description'', []), (''errorRate'', [''rate'']), (''errorRequests'', []),
     (''failoverRate'', [''rate'']), (''failovers'', []), (''latencyMetrics'', []),
     (''recentLogs'', []), (''requestTrend'', []), (''retentionDescription'', [''count'']),
     (''statusDegraded'', []), (''statusDown'', []), (''statusHealthy'', []), (''statusLabel'', []),
     (''statusUnknown'', []), (''storageBackend'', []),
     (''successCount'', [''success'', ''errors'']), (''successRate'', []), (''tabLatency'', []),
     (''tabRequests'', []), (''tabSuccessRate'', []), (''title'', []), (''totalCount'', [''total'']),
     (''totalRequests'', []), (''trend'', []), (''viewAll'', [])]"
  by (simp add: en_monitor_def) (simp only: lookup_rules)

lemma nav_texts: "covers_all (signature en_nav)
    [(''keys'', []), (''logs'', []), (''models'', []), (''monitor'', []), (''providers'', []),
     (''routes'', []), (''settings'', []), (''themeDark'', []), (''themeLabel'', []),
     (''themeLight'', []), (''themeSystem'', []), (''usage'', [])]"
  by (simp add: en_nav_def) (simp only: lookup_rules)

lemma payload_texts: "covers_all (signature en_payload)
    [(''emptyDescription'', []), (''emptyTitle'', []), (''fullRetained'', []), (''noContent'', []),
     (''raw'', []), (''structured'', []), (''supportCopyView'', []), (''truncated'', [])]"
  by (simp add: en_payload_def) (simp only: lookup_rules)

lemma providers_texts: "covers_all (signature en_providers)
    [(''addChannel'', []), (''addSelectedModels'', []), (''authMethodAuto'', []),
     (''authMethodHint'', []), (''channelNameHint'', [''name'']), (''configJsonLabel'', []),
     (''copyExportConfig'', []), (''createDialogDesc'', []), (''deleteDialogDesc'', [''name'']),
     (''deleteDialogTitle'', []), (''description'', []), (''disableChannel'', []),
     (''editDialogDesc'', []), (''emptyDescription'', []), (''emptyTitle'', []),
     (''enableChannel'', []), (''exportConfigButton'', []), (''exportConfigDesc'', []),
     (''exportConfigTitle'', []), (''extraFieldsHint'', []), (''hideApiKey'', []),
     (''importConfigButton'', []), (''importConfigConfirm'', []), (''importConfigDesc'', []),
     (''importConfigEmpty'', []), (''importConfigInvalid'', []), (''importConfigPlaceholder'', []),
     (''importConfigTitle'', []), (''importConfigVersionMismatch'', [''version'']),
     (''loadApiKeyFailed'', [''error'']), (''loadFailed'', []), (''modelRemoved'', []),
     (''modelRemovedHint'', [''model'', ''provider'']), (''noApiKey'', []), (''noModels'', []),
     (''noModelsConfigured'', []), (''priorityHint'', []), (''providerDeletedHint'', [''name'']),
     (''providerDisabled'', []), (''providerDisabledHint'', [''name'']), (''providerNotExist'', []),
     (''rawResponse'', []), (''responsesModeChatCompat'', []), (''responsesModeDisabled'', []),
     (''responsesModeHint'', []), (''responsesModeLabel'', []), (''responsesModeNative'', []),
     (''selectModel'', []), (''selectModelPlaceholder'', []), (''showApiKey'', []),
     (''startTest'', []), (''syncCount'', [''total'', ''selected'']), (''syncDialogDesc'', []),
     (''syncDialogTitle'', []), (''syncEmpty'', []), (''syncFailed'', []), (''syncLoading'', []),
     (''syncNeedUrl'', []), (''systemPromptHint'', []), (''targetUrlAnthropicHint'', []),
     (''targetUrlOpenaiHint'', []), (''testAll'', []), (''testDialogDesc'', []),
     (''testDialogTitle'', [''name'']), (''testFailed'', []), (''testSuccess'', []), (''title'', []),
     (''typeOpenaiHint'', [])]"
  by (simp add: en_providers_def) (simp only: lookup_rules)

lemma routes_texts: "covers_all (signature en_routes)
    [(''aliasHint'', []), (''aliasLabel'', []), (''colActions'', []), (''colAlias'', []),
     (''colNotes'', []), (''colStatus'', []), (''colTargets'', []), (''createDialogDesc'', []),
     (''createDialogTitle'', []), (''description'', [''interpolation'']), (''editDialogDesc'', []),
     (''editDialogTitle'', []), (''emptyDescription'', []), (''emptyTitle'', []),
     (''failoverCurrentMode'', []), (''failoverCustomAdd'', []), (''failoverCustomDesc'', []),
     (''failoverCustomEmpty'', []), (''failoverCustomFallbackHint'', []),
     (''failoverCustomFallbackModels'', []), (''failoverCustomFallbackPlaceholder'', []),
     (''failoverCustomRequestModel'', []), (''failoverCustomRuleCount'', []),
     (''failoverCustomTitle'', []),
     (''failoverCustomValidationFallbackCount'', [''model'', ''max'']),
     (''failoverCustomValidationFallbackRequired'', [''model'']),
     (''failoverCustomValidationModelRequired'', [''index'']),
     (''failoverCustomValidationRuleCount'', [''max'']), (''failoverDesc'', []),
     (''failoverEnabled'', []), (''failoverEnabledHint'', []), (''failoverHelpAliasBody'', []),
     (''failoverHelpAliasTitle'', []), (''failoverHelpCustomBody'', []),
     (''failoverHelpCustomTitle'', []), (''failoverHelpDesc'', []),
     (''failoverHelpExampleFallbacks'', []), (''failoverHelpExampleRequest'', []),
     (''failoverHelpOrderBody'', []), (''failoverHelpOrderTitle'', []), (''failoverHelpTitle'', []),
     (''failoverMaxFallbackAttempts'', []), (''failoverMode'', []), (''failoverModeAnyModel'', []),
     (''failoverModeDisabled'', []), (''failoverModeHint'', []), (''failoverModeSameModel'', []),
     (''failoverRangeHint'', [''min'', ''max'']), (''failoverReset'', []),
     (''failoverRetryAttempts'', []), (''failoverSaved'', []), (''failoverTitle'', []),
     (''failoverTrigger429'', []), (''failoverTrigger5xx'', []), (''failoverTriggerNetwork'', []),
     (''failoverTriggerTimeout'', []), (''failoverTriggers'', []), (''failoverTriggersHint'', []),
     (''failoverUpdatedAt'', [''time'']), (''failoverValidationNumber'', [''label'']),
     (''failoverValidationRange'', [''label'', ''min'', ''max'']),
     (''failoverValidationRequired'', [''label'']), (''newAlias'', []), (''noProviderModels'', []),
     (''notesLabel'', []), (''notesPlaceholder'', []), (''providerDirect'', []),
     (''providerExplicitOnly'', []), (''requiredFieldsError'', []), (''routeMapAlias'', []),
     (''routeMapAliasOverride'', []), (''routeMapCoveredRoutes'', []), (''routeMapDesc'', []),
     (''routeMapEmptyDesc'', []), (''routeMapEmptyTitle'', []), (''routeMapFallbackRoutes'', []),
     (''routeMapModel'', []), (''routeMapModelNotListed'', []), (''routeMapNoCoveredRoute'', []),
     (''routeMapNoFallback'', []), (''routeMapNoRoute'', []), (''routeMapPrimaryRoute'', []),
     (''routeMapRequestModel'', []), (''routeMapSourceAlias'', []), (''routeMapSourceAnyModel'', []),
     (''routeMapSourceCustom'', []), (''routeMapSourceModel'', []), (''routeMapTitle'', []),
     (''routeTargetAdd'', []), (''routeTargetPrimary'', []), (''routeTargetsHint'', []),
     (''routeTargetsLabel'', []), (''selectFirstProvider'', []), (''selectProvider'', []),
     (''selectTargetModel'', []), (''title'', []), (''visibleToClients'', []),
     (''visibleToClientsHint'', [])]"
  by (simp add: en_routes_def) (simp only: lookup_rules)

lemma session_texts: "covers_all (signature en_session)
    [(''brandLabel'', []), (''disabledDescription'', []), (''disabledTitle'', []),
     (''errorHint'', []), (''errorTitle'', []), (''loadingDescription'', []), (''loadingTitle'', []),
     (''loginDescription'', []), (''loginFailed'', []), (''loginTitle'', []), (''passwordHint'', []),
     (''passwordLabel'', []), (''passwordPlaceholder'', []), (''submitButton'', []),
     (''submitting'', [])]"
  by (simp add: en_session_def) (simp only: lookup_rules)

lemma settings_texts: "covers_all (signature en_settings)
    [(''bodyIdlePolicy'', []), (''currentPolicyTitle'', []), (''defaultFirstByteLabel'', []),
     (''defaultValue'', [''value'']), (''description'', []), (''disabledPolicy'', []),
     (''firstByteDesc'', []), (''firstByteTitle'', []), (''imageFirstByteLabel'', []),
     (''imagePolicy'', []), (''loadFailed'', []), (''normalPolicy'', []),
     (''rangeHint'', [''min'', ''max'']), (''responseIdleDesc'', []), (''responseIdleLabel'', []),
     (''responseIdleTitle'', []), (''saved'', []), (''secondsSuffix'', []),
     (''streamFirstByteLabel'', []), (''streamPolicy'', []), (''title'', []),
     (''updatedAt'', [''time'']), (''validationNumber'', [''label'']),
     (''validationRange'', [''label'', ''min'', ''max'']), (''validationRequired'', [''label''])]"
  by (simp add: en_settings_def) (simp only: lookup_rules)

lemma timeRange_texts: "covers_all (signature en_timeRange)
    [(''1h'', []), (''24h'', []), (''30d'', []), (''72h'', []), (''7d'', []), (''all'', []),
     (''placeholder'', [])]"
  by (simp add: en_timeRange_def) (simp only: lookup_rules)

lemma usage_texts: "covers_all (signature en_usage)
    [(''allClients'', []), (''allModels'', []), (''allRoutes'', []), (''anthropicCacheRead'', []),
     (''anthropicCacheReadDesc'', []), (''anthropicCacheWrite'', []),
     (''anthropicCacheWriteDesc'', []), (''avgCostPerReq'', []), (''avgTokensPerReq'', [''count'']),
     (''cacheAndReasoning'', []), (''cacheCost'', []), (''cacheCostDesc'', [''read'', ''write'']),
     (''cacheHitDesc'', [''hits'', ''creates'']), (''cacheHitRate'', []), (''clientBucket'', []),
     (''clientBucketDesc'', []), (''clientLabel'', []), (''coreDataDesc'', []),
     (''coreDataTitle'', []), (''costBreakdown'', []), (''costCacheDesc'', []),
     (''costCacheTitle'', []), (''description'', []), (''filterLabel'', []), (''groupDetail'', []),
     (''groupDetailDesc'', []), (''inputCost'', []), (''inputTokensDesc'', [''count'']),
     (''modelBucket'', []), (''modelBucketDesc'', []), (''modelLabel'', []),
     (''openaiCachedPrompt'', []), (''openaiCachedPromptDesc'', []), (''outputCost'', []),
     (''outputTokensDesc'', [''count'']), (''reasoning'', []), (''reasoningDesc'', []),
     (''retentionDesc'', [''count'']), (''routeBucket'', []), (''routeBucketDesc'', []),
     (''routeLabel'', []), (''searchClient'', []), (''timeRangeLabel'', []), (''title'', []),
     (''totalCost'', []), (''totalCostDesc'', [''input'', ''output'']), (''totalCostLabel'', []),
     (''totalRequests'', []), (''totalRequestsDesc'', [''count'']), (''totalTokens'', []),
     (''totalTokensDesc'', [''input'', ''output'']), (''trendDesc'', []), (''trendTitle'', [])]"
  by (simp add: en_usage_def) (simp only: lookup_rules)

end
