(* ===== verification/Hash_Route.thy ===== *)
theory Hash_Route
  imports Url
begin

text \<open>
  The client-side router of the console, \<open>hooks/use-hash-route.ts\<close>: the pages, the hash they are
  written to and read from, and the cached snapshot \<open>useSyncExternalStore\<close> reads.
\<close>

section \<open>Pages and their hash\<close>

datatype PageRoute =
    Monitor
  | Usage "string option"
  | Providers
  | Models
  | Routes
  | Keys
  | Logs
  | Settings
  | Api
  | Detail string

text \<open>\<open>hash.replace(/^#\/?/, "")\<close>\<close>

definition strip_hash :: "string \<Rightarrow> string" where
  "strip_hash h =
     (case h of
        [] \<Rightarrow> []
      | c # s \<Rightarrow>
          if c = CHR ''#'' then (case s of [] \<Rightarrow> [] | d # t \<Rightarrow> if d = CHR ''/'' then t else s)
          else h)"

text \<open>\<open>None\<close> is the \<open>URIError\<close> that \<open>decodeURIComponent\<close> throws.\<close>

definition parseHash :: "string \<Rightarrow> PageRoute option" where
  "parseHash locationHash =
     (let parts = split_on (\<lambda>c. c = CHR ''?'') (strip_hash locationHash);
          pageName = hd parts;
          queryString = (case tl parts of [] \<Rightarrow> [] | q # _ \<Rightarrow> q);
          params = parse_params queryString
      in if pageName = ''monitor'' \<or> pageName = ''dashboard'' then Some Monitor
         else if pageName = ''usage'' then
           Some (Usage (case params_get params ''client'' of
                          None \<Rightarrow> None | Some c \<Rightarrow> if c = [] then None else Some c))
         else if pageName = ''logs'' then Some Logs
         else if pageName = ''providers'' then Some Providers
         else if pageName = ''models'' then Some Models
         else if pageName = ''routes'' then Some Routes
         else if pageName = ''keys'' then Some Keys
         else if pageName = ''settings'' then Some Settings
         else if pageName = ''api'' then Some Api
         else if starts_with pageName ''detail/'' then
           (case decodeURIComponent (drop 7 pageName) of
              None \<Rightarrow> None
            | Some requestId \<Rightarrow> if requestId \<noteq> [] then Some (Detail requestId) else Some Monitor)
         else Some Monitor)"

fun page_name :: "PageRoute \<Rightarrow> string" where
  "page_name Monitor = ''monitor''"
| "page_name (Usage _) = ''usage''"
| "page_name Providers = ''providers''"
| "page_name Models = ''models''"
| "page_name Routes = ''routes''"
| "page_name Keys = ''keys''"
| "page_name Logs = ''logs''"
| "page_name Settings = ''settings''"
| "page_name Api = ''api''"
| "page_name (Detail _) = ''detail''"

text \<open>The new value of \<open>window.location.hash\<close>; the empty client is falsy.\<close>

definition navigate :: "PageRoute \<Rightarrow> string" where
  "navigate target =
     (case target of
        Detail requestId \<Rightarrow> ''#/detail/'' @ encodeURIComponent requestId
      | Usage (Some client) \<Rightarrow>
          if client \<noteq> [] then ''#/usage?client='' @ encodeURIComponent client
          else ''#/'' @ page_name target
      | _ \<Rightarrow> ''#/'' @ page_name target)"

section \<open>The cached snapshot\<close>

record SnapshotCache =
  cachedHash :: string
  cachedRoute :: PageRoute

definition initial_cache :: SnapshotCache where
  "initial_cache = \<lparr>cachedHash = [], cachedRoute = Monitor\<rparr>"

text \<open>
  One call with the current hash: the route it returns (\<open>None\<close> when \<open>parseHash\<close> throws) and the
  module's variables after it. \<open>cachedHash\<close> is written before \<open>parseHash\<close> runs.
\<close>

definition getSnapshot :: "string \<Rightarrow> SnapshotCache \<Rightarrow> PageRoute option \<times> SnapshotCache" where
  "getSnapshot currentHash c =
     (if currentHash \<noteq> cachedHash c then
        (case parseHash currentHash of
           None \<Rightarrow> (None, c\<lparr>cachedHash := currentHash\<rparr>)
         | Some r \<Rightarrow> (Some r, c\<lparr>cachedHash := currentHash, cachedRoute := r\<rparr>))
      else (Some (cachedRoute c), c))"

definition getServerSnapshot :: PageRoute where
  "getServerSnapshot = Monitor"

fun snapshots :: "string list \<Rightarrow> SnapshotCache \<Rightarrow> SnapshotCache" where
  "snapshots [] c = c"
| "snapshots (h # hs) c = snapshots hs (snd (getSnapshot h c))"

definition coherent :: "SnapshotCache \<Rightarrow> bool" where
  "coherent c \<longleftrightarrow> parseHash (cachedHash c) = Some (cachedRoute c)"

lemma coherent_initial: "coherent initial_cache"
  by (simp add: coherent_def initial_cache_def parseHash_def strip_hash_def starts_with_def)

lemma coherent_getSnapshot:
  "coherent c \<Longrightarrow> parseHash h \<noteq> None \<Longrightarrow>
     fst (getSnapshot h c) = parseHash h \<and> coherent (snd (getSnapshot h c))"
  by (auto simp: getSnapshot_def coherent_def)

lemma coherent_snapshots:
  "coherent c \<Longrightarrow> (\<And>h. h \<in> set hs \<Longrightarrow> parseHash h \<noteq> None) \<Longrightarrow> coherent (snapshots hs c)"
proof (induction hs arbitrary: c)
  case (Cons a hs)
  have "parseHash a \<noteq> None" by (rule Cons.prems(2)) simp
  with Cons.prems(1) have "coherent (snd (getSnapshot a c))" using coherent_getSnapshot by blast
  moreover have "parseHash h \<noteq> None" if "h \<in> set hs" for h by (rule Cons.prems(2)) (simp add: that)
  ultimately show ?case using Cons.IH by simp
qed simp

section \<open>Properties\<close>

lemma strip_hash_slash [simp]: "strip_hash (CHR ''#'' # CHR ''/'' # s) = s"
  by (simp add: strip_hash_def)

lemma split_no_question: "CHR ''?'' \<notin> set s \<Longrightarrow> split_on (\<lambda>c. c = CHR ''?'') s = [s]"
  by (rule split_on_no_sep) auto

lemma parse_page_name:
  "r \<notin> range Detail \<Longrightarrow> r \<notin> range (\<lambda>c. Usage (Some c)) \<Longrightarrow> parseHash (''#/'' @ page_name r) = Some r"
proof (cases r)
  case (Usage c)
  then show "r \<notin> range (\<lambda>c. Usage (Some c)) \<Longrightarrow> ?thesis"
    by (cases c) (simp_all add: parseHash_def parse_params_def params_get_def)
qed (simp_all add: parseHash_def)

text \<open>
  Property C36. Navigation round trip: whatever page is navigated to, reading the hash back gives
  that page, with its request id or client filter intact; an id or client may hold any
  characters, separators and non-ASCII text included.
\<close>
theorem navigate_parseHash:
  assumes "\<And>i. r = Detail i \<Longrightarrow> i \<noteq> [] \<and> valid_utf8 i" and "r \<noteq> Usage (Some [])"
  shows "parseHash (navigate r) = Some r"
proof (cases r)
  case (Detail i)
  have "CHR ''?'' \<notin> set (''detail/'' @ encodeURIComponent i)"
    using encodeURIComponent_safe [of "CHR ''?''" i] by simp
  then have "split_on (\<lambda>c. c = CHR ''?'') (''detail/'' @ encodeURIComponent i) = [''detail/'' @ encodeURIComponent i]"
    by (rule split_no_question)
  with Detail assms show ?thesis
    by (simp add: navigate_def parseHash_def starts_with_def decode_encode_URIComponent)
next
  case (Usage c)
  show ?thesis
  proof (cases c)
    case (Some x)
    have "split_on (\<lambda>c. c = CHR ''?'') (''usage'' @ CHR ''?'' # ''client='' @ encodeURIComponent x)
        = ''usage'' # split_on (\<lambda>c. c = CHR ''?'') (''client='' @ encodeURIComponent x)"
      by (rule split_on_append) auto
    moreover have "split_on (\<lambda>c. c = CHR ''?'') (''client='' @ encodeURIComponent x) = [''client='' @ encodeURIComponent x]"
      using encodeURIComponent_safe [of "CHR ''?''" x] by (intro split_no_question) auto
    moreover have "parse_params (''client='' @ encodeURIComponent x) = [(''client'', x)]"
      using parse_params_component [of "''client''" x] by (simp add: is_alnum_def)
    ultimately show ?thesis
      using Usage Some assms(2) by (simp add: navigate_def parseHash_def params_get_def)
  next
    case None
    with Usage parse_page_name [of r] show ?thesis by (auto simp: navigate_def)
  qed
qed (use parse_page_name [of r] in \<open>auto simp: navigate_def\<close>)

text \<open>A witness: the detail page of an id with a slash, a question mark and a percent sign.\<close>
theorem navigate_parseHash_witness:
  "parseHash (navigate (Detail ''a/b?c%d'')) = Some (Detail ''a/b?c%d'')"
  by (rule navigate_parseHash) (auto simp: byte_in_def)

text \<open>
  Cache coherence: after any sequence of hashes that parse, the snapshot of a hash
  that parses is what \<open>parseHash\<close> would return, and asking again for the same hash returns the
  same cached route without touching the cache.
\<close>
theorem getSnapshot_coherent:
  assumes "\<And>x. x \<in> set (h # hs) \<Longrightarrow> parseHash x \<noteq> None"
  shows "fst (getSnapshot h (snapshots hs initial_cache)) = parseHash h \<and>
         getSnapshot h (snapshots (hs @ [h]) initial_cache) =
           (parseHash h, snapshots (hs @ [h]) initial_cache)"
proof -
  have app: "snapshots (hs @ [h]) c = snd (getSnapshot h (snapshots hs c))" for c
    by (induction hs arbitrary: c) auto
  have "coherent (snapshots hs initial_cache)"
    using assms by (intro coherent_snapshots coherent_initial) auto
  moreover obtain y where y: "parseHash h = Some y" using assms [of h] by auto
  ultimately show ?thesis by (auto simp: app getSnapshot_def coherent_def)
qed

text \<open>A witness: logs, then a request's detail page.\<close>
theorem getSnapshot_coherent_witness:
  "fst (getSnapshot ''#/detail/x'' (snapshots [''#/logs''] initial_cache)) = Some (Detail ''x'')"
proof -
  have logs: "parseHash ''#/logs'' = Some Logs"
    and detail: "parseHash ''#/detail/x'' = Some (Detail ''x'')"
    by (simp_all add: parseHash_def starts_with_def decodeURIComponent_def byte_in_def)
  have "\<And>x. x \<in> set [''#/detail/x'', ''#/logs''] \<Longrightarrow> parseHash x \<noteq> None"
    using logs detail by auto
  from conjunct1 [OF getSnapshot_coherent [OF this]] show ?thesis by (simp only: detail)
qed

text \<open>
  A malformed detail hash: the first snapshot throws, but the hash has already been
  recorded as cached, so the next snapshot of the same hash returns the page shown before, as if
  the hash belonged to it. The cache is then incoherent.
\<close>
theorem getSnapshot_after_throw:
  "fst (getSnapshot ''#/detail/%'' c) = None \<and>
   fst (getSnapshot ''#/detail/%'' (snd (getSnapshot ''#/detail/%'' c))) = Some (cachedRoute c) \<and>
   \<not> coherent (snd (getSnapshot ''#/detail/%'' c))"
  if "cachedHash c \<noteq> ''#/detail/%''"
proof -
  have "parseHash ''#/detail/%'' = None"
    by (simp add: parseHash_def starts_with_def decodeURIComponent_def)
  with that show ?thesis by (simp add: getSnapshot_def coherent_def)
qed

text \<open>A witness: from the freshly loaded module.\<close>
theorem getSnapshot_after_throw_witness:
  "fst (getSnapshot ''#/detail/%'' (snd (getSnapshot ''#/detail/%'' initial_cache))) = Some Monitor"
proof -
  have "cachedHash initial_cache \<noteq> ''#/detail/%''" by (simp add: initial_cache_def)
  from getSnapshot_after_throw [OF this] show ?thesis by (simp add: initial_cache_def)
qed

end
