(* ===== verification/App.thy ===== *)
theory App
  imports Hash_Route Types
begin

text \<open>
  The shell of the console: the session and the screen chosen from it (\<open>App.tsx\<close>), the login form
  (\<open>components/session-shell.tsx\<close>) and the items of the navigation bar (\<open>components/nav-bar.tsx\<close>). What they show
  is in theory \<open>Shell\<close>.
\<close>

section \<open>The session\<close>

record AppState =
  app_session :: "ConsoleSession option"
  app_sessionError :: string
  app_logoutPending :: bool

definition app_init :: AppState where
  "app_init = \<lparr>app_session = None, app_sessionError = [], app_logoutPending = False\<rparr>"

definition loadSession :: "ConsoleSession result \<Rightarrow> AppState \<Rightarrow> AppState" where
  "loadSession r s =
     (case r of
        Inr nextSession \<Rightarrow> s\<lparr>app_session := Some nextSession, app_sessionError := []\<rparr>
      | Inl message \<Rightarrow> s\<lparr>app_sessionError := message\<rparr>)"

definition signed_out :: "ConsoleSession option \<Rightarrow> ConsoleSession" where
  \<comment> \<open>\<open>{ enabled: current?.enabled ?? true, authenticated: false }\<close>\<close>
  "signed_out current =
     \<lparr>cs_authenticated = False, cs_enabled = (case current of None \<Rightarrow> True | Some c \<Rightarrow> cs_enabled c)\<rparr>"

definition handleUnauthorized :: "AppState \<Rightarrow> AppState" where
  "handleUnauthorized s = s\<lparr>app_session := Some (signed_out (app_session s))\<rparr>"

text \<open>The answer to \<open>login\<close>: an error passes to the form and leaves the session alone.\<close>

definition handleLogin :: "unit result \<Rightarrow> AppState \<Rightarrow> AppState" where
  "handleLogin r s =
     (case r of
        Inr _ \<Rightarrow> s\<lparr>app_session := Some \<lparr>cs_authenticated = True, cs_enabled = True\<rparr>\<rparr>
      | Inl _ \<Rightarrow> s)"

definition handleLogout_start :: "AppState \<Rightarrow> AppState" where
  "handleLogout_start s = s\<lparr>app_logoutPending := True\<rparr>"

definition handleLogout_end :: "unit result \<Rightarrow> AppState \<Rightarrow> AppState" where
  "handleLogout_end r s =
     (case r of
        Inr _ \<Rightarrow> s\<lparr>app_session := Some (signed_out (app_session s))\<rparr>
      | Inl _ \<Rightarrow> s)\<lparr>app_logoutPending := False\<rparr>"

datatype AppEvent =
    SessionLoaded "ConsoleSession result"
  | Unauthorized
  | LoginAnswered "unit result"
  | LogoutPressed
  | LogoutAnswered "unit result"

fun app_step :: "AppEvent \<Rightarrow> AppState \<Rightarrow> AppState" where
  "app_step (SessionLoaded r) s = loadSession r s"
| "app_step Unauthorized s = handleUnauthorized s"
| "app_step (LoginAnswered r) s = handleLogin r s"
| "app_step LogoutPressed s = handleLogout_start s"
| "app_step (LogoutAnswered r) s = handleLogout_end r s"

section \<open>The screen\<close>

text \<open>The page component of a route with its props; callbacks are the routes they navigate to.\<close>

datatype PageView =
    DashboardPage PageRoute
  | UsagePage PageRoute "string option"
  | ProvidersPage
  | ModelsPage
  | RoutesPage
  | KeysPage "string \<Rightarrow> PageRoute"
  | SettingsPage
  | DetailPage string PageRoute
  | ApiDocsPage
  | LogsPage "string \<Rightarrow> PageRoute"

fun renderPage :: "PageRoute \<Rightarrow> PageView" where
  "renderPage Monitor = DashboardPage Logs"
| "renderPage (Usage client) = UsagePage Logs client"
| "renderPage Providers = ProvidersPage"
| "renderPage Models = ModelsPage"
| "renderPage Routes = RoutesPage"
| "renderPage Keys = KeysPage (\<lambda>client. Usage (Some client))"
| "renderPage Settings = SettingsPage"
| "renderPage (Detail requestId) = DetailPage requestId Logs"
| "renderPage Api = ApiDocsPage"
| "renderPage Logs = LogsPage (\<lambda>requestId. Detail requestId)"

text \<open>The pages of the navigation bar.\<close>

datatype Page =
    P_monitor | P_usage | P_providers | P_models | P_routes | P_keys | P_logs | P_settings | P_api

fun activePage :: "PageRoute \<Rightarrow> Page" where
  "activePage (Detail _) = P_logs"
| "activePage Monitor = P_monitor"
| "activePage (Usage _) = P_usage"
| "activePage Providers = P_providers"
| "activePage Models = P_models"
| "activePage Routes = P_routes"
| "activePage Keys = P_keys"
| "activePage Logs = P_logs"
| "activePage Settings = P_settings"
| "activePage Api = P_api"

datatype Screen =
    SessionErrorView string
  | LoadingView
  | DisabledView
  | LoginView
  | ConsoleView Page bool PageView

definition app_screen :: "PageRoute \<Rightarrow> AppState \<Rightarrow> Screen" where
  "app_screen route s =
     (if app_sessionError s \<noteq> [] then SessionErrorView (app_sessionError s)
      else case app_session s of
          None \<Rightarrow> LoadingView
        | Some session \<Rightarrow>
            if \<not> cs_enabled session then DisabledView
            else if \<not> cs_authenticated session then LoginView
            else ConsoleView (activePage route) (app_logoutPending s) (renderPage route))"

section \<open>The login form\<close>

record LoginForm =
  lf_password :: string
  lf_error :: string
  lf_submitting :: bool

definition login_form_init :: LoginForm where
  "login_form_init = \<lparr>lf_password = [], lf_error = [], lf_submitting = False\<rparr>"

definition login_submit :: "LoginForm \<Rightarrow> LoginForm" where
  "login_submit f = f\<lparr>lf_submitting := True, lf_error := []\<rparr>"

definition login_settled :: "unit result \<Rightarrow> LoginForm \<Rightarrow> LoginForm" where
  "login_settled r f =
     (case r of Inr _ \<Rightarrow> f | Inl message \<Rightarrow> f\<lparr>lf_error := message\<rparr>)\<lparr>lf_submitting := False\<rparr>"

section \<open>The navigation bar\<close>

definition navItems :: "translator \<Rightarrow> (Page \<times> string) list" where
  "navItems t =
     [(P_monitor, t ''nav.monitor'' []), (P_usage, t ''nav.usage'' []), (P_providers, t ''nav.providers'' []),
      (P_models, t ''nav.models'' []), (P_routes, t ''nav.routes'' []), (P_keys, t ''nav.keys'' []),
      (P_logs, t ''nav.logs'' []), (P_settings, t ''nav.settings'' []), (P_api, ''API'')]"

text \<open>\<open>onNavigate={(page) => navigate({ page })}\<close>\<close>

fun page_route :: "Page \<Rightarrow> PageRoute" where
  "page_route P_monitor = Monitor"
| "page_route P_usage = Usage None"
| "page_route P_providers = Providers"
| "page_route P_models = Models"
| "page_route P_routes = Routes"
| "page_route P_keys = Keys"
| "page_route P_logs = Logs"
| "page_route P_settings = Settings"
| "page_route P_api = Api"

definition highlighted :: "translator \<Rightarrow> PageRoute \<Rightarrow> (Page \<times> string) list" where
  "highlighted t route = filter (\<lambda>(page, _). activePage route = page) (navItems t)"

section \<open>Properties\<close>

text \<open>
  Whether the operator may see the console, as the server's answers tell it: the last of a session
  answer, a sign-in, a sign-out or a rejected request decides.
\<close>

fun may_enter :: "bool \<Rightarrow> AppEvent \<Rightarrow> bool" where
  "may_enter b (SessionLoaded (Inr session)) = (cs_enabled session \<and> cs_authenticated session)"
| "may_enter b Unauthorized = False"
| "may_enter b (LoginAnswered (Inr _)) = True"
| "may_enter b (LogoutAnswered (Inr _)) = False"
| "may_enter b _ = b"

definition session_grants :: "AppState \<Rightarrow> bool" where
  "session_grants s \<longleftrightarrow> (\<exists>c. app_session s = Some c \<and> cs_enabled c \<and> cs_authenticated c)"

lemma session_grants_step: "session_grants (app_step e s) = may_enter (session_grants s) e"
proof (cases e)
  case (SessionLoaded r)
  then show ?thesis by (cases r) (auto simp: session_grants_def loadSession_def)
next
  case (LoginAnswered r)
  then show ?thesis by (cases r) (auto simp: session_grants_def handleLogin_def)
next
  case (LogoutAnswered r)
  then show ?thesis by (cases r) (auto simp: session_grants_def handleLogout_end_def signed_out_def)
qed (auto simp: session_grants_def handleUnauthorized_def handleLogout_start_def signed_out_def)

lemma session_grants_run:
  "session_grants (fold app_step es s) = fold (\<lambda>e b. may_enter b e) es (session_grants s)"
  by (induction es arbitrary: s) (simp_all add: session_grants_step)

lemma app_screen_console:
  "(\<exists>pending. app_screen route s = ConsoleView (activePage route) pending (renderPage route)) \<longleftrightarrow>
     app_sessionError s = [] \<and> session_grants s"
  by (auto simp: app_screen_def session_grants_def split: option.splits)

text \<open>
  Property C37. The console's pages are rendered exactly while the operator is entitled to them: over
  every history of session answers, sign-ins, sign-outs and rejected requests, a page is on screen if
  and only if no session error is pending and the last decisive event granted access, so one 401 of any
  page takes every page away until the next successful login, and a failed sign-out or login changes
  nothing.
\<close>
theorem console_shown_iff_granted:
  "(\<exists>pending. app_screen route (fold app_step es app_init) =
       ConsoleView (activePage route) pending (renderPage route)) \<longleftrightarrow>
     app_sessionError (fold app_step es app_init) = [] \<and> fold (\<lambda>e b. may_enter b e) es False"
proof -
  have "session_grants app_init = False" by (simp add: session_grants_def app_init_def)
  then show ?thesis by (simp add: app_screen_console session_grants_run)
qed

text \<open>
  The navigation bar agrees with the router: on every route exactly the item of the page
  shown is highlighted (that of the logs on a detail page), and pressing an item sets a hash that
  parses to that item's page, whose item is then the highlighted one.
\<close>
theorem navigation_agrees:
  "map fst (highlighted t route) = [activePage route] \<and>
   parseHash (navigate (page_route p)) = Some (page_route p) \<and>
   map fst (highlighted t (page_route p)) = [p]"
proof -
  have "map fst (highlighted t r) = [activePage r]" for r
    by (cases r) (simp_all add: highlighted_def navItems_def)
  moreover have "parseHash (navigate (page_route p)) = Some (page_route p)"
    by (cases p) (simp_all add: navigate_def parseHash_def strip_hash_def parse_params_def
        params_get_def starts_with_def Let_def)
  moreover have "activePage (page_route p) = p" by (cases p) simp_all
  ultimately show ?thesis by simp
qed

end
