(* ===== verification/Theme_Provider.thy ===== *)
theory Theme_Provider
  imports Prelude
begin

text \<open>
  \<open>components/theme-provider.tsx\<close> as \<open>main.tsx\<close> mounts it: the theme kept in local storage, the class and
  colour scheme of the document, the key D that toggles it, and the events of the system and of other tabs.
\<close>

section \<open>The document\<close>

datatype Theme = Dark | Light | System

definition THEME_VALUES :: "Theme list" where
  "THEME_VALUES = [Dark, Light, System]"

fun theme_name :: "Theme \<Rightarrow> string" where
  "theme_name Dark = ''dark''"
| "theme_name Light = ''light''"
| "theme_name System = ''system''"

definition isTheme :: "string option \<Rightarrow> Theme option" where
  \<comment> \<open>the theme a value is narrowed to\<close>
  "isTheme v = (case v of None \<Rightarrow> None | Some s \<Rightarrow> find (\<lambda>th. theme_name th = s) THEME_VALUES)"

datatype ResolvedTheme = Resolved_dark | Resolved_light

fun resolved_name :: "ResolvedTheme \<Rightarrow> string" where
  "resolved_name Resolved_dark = ''dark''"
| "resolved_name Resolved_light = ''light''"

definition getSystemTheme :: "bool \<Rightarrow> ResolvedTheme" where
  \<comment> \<open>the argument is whether the media query matches\<close>
  "getSystemTheme prefersDark = (if prefersDark then Resolved_dark else Resolved_light)"

fun resolve_theme :: "bool \<Rightarrow> Theme \<Rightarrow> ResolvedTheme" where
  "resolve_theme prefersDark System = getSystemTheme prefersDark"
| "resolve_theme prefersDark Dark = Resolved_dark"
| "resolve_theme prefersDark Light = Resolved_light"

text \<open>
  The browser: local storage under the provider's key, the system's preference, the state of the provider, and
  the classes and colour scheme of the root element.
\<close>

record Browser =
  br_stored :: "string option"
  br_prefersDark :: bool
  br_theme :: Theme
  br_classes :: "string list"
  br_colorScheme :: string

definition applyTheme :: "Theme \<Rightarrow> Browser \<Rightarrow> Browser" where
  "applyTheme nextTheme b =
     (let resolvedTheme = resolved_name (resolve_theme (br_prefersDark b) nextTheme)
      in b\<lparr>br_classes := set_add resolvedTheme (filter (\<lambda>c. c \<noteq> ''light'' \<and> c \<noteq> ''dark'') (br_classes b)),
           br_colorScheme := resolvedTheme\<rparr>)"

text \<open>The effect that runs when the theme has changed.\<close>

definition setThemeState :: "Theme \<Rightarrow> Browser \<Rightarrow> Browser" where
  "setThemeState th b = (if th = br_theme b then b else applyTheme th (b\<lparr>br_theme := th\<rparr>))"

definition theme_init :: "Theme \<Rightarrow> string option \<Rightarrow> bool \<Rightarrow> string list \<Rightarrow> Browser" where
  "theme_init defaultTheme stored prefersDark classes =
     (let th = (case isTheme stored of Some th \<Rightarrow> th | None \<Rightarrow> defaultTheme)
      in applyTheme th \<lparr>br_stored = stored, br_prefersDark = prefersDark, br_theme = th, br_classes = classes,
           br_colorScheme = []\<rparr>)"

definition setTheme :: "Theme \<Rightarrow> Browser \<Rightarrow> Browser" where
  "setTheme nextTheme b = setThemeState nextTheme (b\<lparr>br_stored := Some (theme_name nextTheme)\<rparr>)"

section \<open>Events\<close>

text \<open>An element on the way from the target of a key to the root: its tag and its \<open>contenteditable\<close> attribute.\<close>

record Element =
  el_tag :: string
  el_contenteditable :: "string option"

record KeyTarget =
  kt_html :: bool
  kt_isContentEditable :: bool
  kt_path :: "Element list"

definition isEditableTarget :: "KeyTarget \<Rightarrow> bool" where
  "isEditableTarget target \<longleftrightarrow>
     kt_html target \<and>
     (kt_isContentEditable target \<or>
      list_ex (\<lambda>e. el_tag e \<in> {''input'', ''textarea'', ''select''} \<or> el_contenteditable e = Some ''true'') (kt_path target))"

record KeyEvent =
  ke_key :: string
  ke_repeat :: bool
  ke_meta :: bool
  ke_ctrl :: bool
  ke_alt :: bool
  ke_target :: KeyTarget

definition toggles :: "KeyEvent \<Rightarrow> bool" where
  "toggles e \<longleftrightarrow> \<not> ke_repeat e \<and> \<not> (ke_meta e \<or> ke_ctrl e \<or> ke_alt e) \<and>
     \<not> isEditableTarget (ke_target e) \<and> ke_key e \<in> {''d'', ''D''}"

definition toggled_theme :: "Browser \<Rightarrow> Theme" where
  "toggled_theme b =
     (case br_theme b of
        Dark \<Rightarrow> Light
      | Light \<Rightarrow> Dark
      | System \<Rightarrow> (if getSystemTheme (br_prefersDark b) = Resolved_dark then Light else Dark))"

definition handleKeyDown :: "KeyEvent \<Rightarrow> Browser \<Rightarrow> Browser" where
  "handleKeyDown e b =
     (if \<not> toggles e then b
      else setThemeState (toggled_theme b) (b\<lparr>br_stored := Some (theme_name (toggled_theme b))\<rparr>))"

text \<open>The listener of the system's preference is there only while the theme is \<open>system\<close>.\<close>

definition system_changes :: "bool \<Rightarrow> Browser \<Rightarrow> Browser" where
  "system_changes prefersDark b =
     (let b' = b\<lparr>br_prefersDark := prefersDark\<rparr> in if br_theme b = System then applyTheme System b' else b')"

text \<open>
  A storage event of another tab: the area and the key it is about, and the new value. A value under the
  provider's own key is in local storage when the event arrives. The event of \<open>localStorage.clear()\<close> in another
  tab has no key: the storage is empty and the handler ignores it.
\<close>

definition handleStorageChange :: "Theme \<Rightarrow> bool \<Rightarrow> bool \<Rightarrow> string option \<Rightarrow> Browser \<Rightarrow> Browser" where
  "handleStorageChange defaultTheme ourArea ourKey newValue b =
     (if \<not> ourArea then b
      else if \<not> ourKey then b
      else case isTheme newValue of
          Some th \<Rightarrow> setThemeState th (b\<lparr>br_stored := newValue\<rparr>)
        | None \<Rightarrow> setThemeState defaultTheme (b\<lparr>br_stored := newValue\<rparr>))"

datatype ThemeEvent =
    Theme_chosen Theme
  | Key_down KeyEvent
  | System_changed bool
  | Storage_changed bool bool "string option"
  | Storage_cleared

fun theme_step :: "Theme \<Rightarrow> ThemeEvent \<Rightarrow> Browser \<Rightarrow> Browser" where
  "theme_step dflt (Theme_chosen th) b = setTheme th b"
| "theme_step dflt (Key_down e) b = handleKeyDown e b"
| "theme_step dflt (System_changed d) b = system_changes d b"
| "theme_step dflt (Storage_changed area key v) b = handleStorageChange dflt area key v b"
| "theme_step dflt Storage_cleared b = handleStorageChange dflt True False None (b\<lparr>br_stored := None\<rparr>)"

section \<open>What is on screen\<close>

definition theme_shown :: "Browser \<Rightarrow> bool" where
  "theme_shown b \<longleftrightarrow>
     br_colorScheme b = resolved_name (resolve_theme (br_prefersDark b) (br_theme b)) \<and>
     set (br_classes b) \<inter> {''light'', ''dark''} = {br_colorScheme b}"

definition theme_kept :: "Theme \<Rightarrow> Browser \<Rightarrow> bool" where
  "theme_kept dflt b \<longleftrightarrow> br_theme b = (case isTheme (br_stored b) of Some th \<Rightarrow> th | None \<Rightarrow> dflt)"

lemma isTheme_name [simp]: "isTheme (Some (theme_name th)) = Some th"
  by (cases th) (simp_all add: isTheme_def THEME_VALUES_def)

lemma resolved_name_cases: "resolved_name r \<in> {''light'', ''dark''}"
  by (cases r) simp_all

lemma resolved_name_inject [simp]: "resolved_name r = resolved_name r' \<longleftrightarrow> r = r'"
  by (cases r; cases r') simp_all

lemma applyTheme_simps [simp]:
  "br_colorScheme (applyTheme th b) = resolved_name (resolve_theme (br_prefersDark b) th)"
  "set (br_classes (applyTheme th b)) \<inter> {''light'', ''dark''} = {resolved_name (resolve_theme (br_prefersDark b) th)}"
  "br_theme (applyTheme th b) = br_theme b" "br_stored (applyTheme th b) = br_stored b"
  "br_prefersDark (applyTheme th b) = br_prefersDark b"
  using resolved_name_cases[of "resolve_theme (br_prefersDark b) th"]
  by (auto simp: applyTheme_def Let_def)

lemma setThemeState_simps [simp]:
  "br_theme (setThemeState th b) = th" "br_stored (setThemeState th b) = br_stored b"
  "br_prefersDark (setThemeState th b) = br_prefersDark b"
  by (simp_all add: setThemeState_def)

lemma theme_shown_stored [simp]: "theme_shown (b\<lparr>br_stored := v\<rparr>) = theme_shown b"
  by (simp add: theme_shown_def)

lemma theme_shown_set: "theme_shown b \<Longrightarrow> theme_shown (setThemeState th b)"
  by (auto simp: setThemeState_def theme_shown_def)

lemma theme_shown_step: "theme_shown b \<Longrightarrow> theme_shown (theme_step dflt e b)"
proof (cases e)
  case (System_changed d)
  assume "theme_shown b"
  with System_changed show ?thesis
    by (cases "br_theme b") (simp_all add: system_changes_def Let_def theme_shown_def)
qed (auto simp: setTheme_def handleKeyDown_def handleStorageChange_def intro!: theme_shown_set split: option.splits)

lemma theme_kept_step: "theme_kept dflt b \<Longrightarrow> Storage_cleared \<noteq> e \<Longrightarrow> theme_kept dflt (theme_step dflt e b)"
  by (cases e) (auto simp: theme_kept_def setTheme_def handleKeyDown_def handleStorageChange_def system_changes_def Let_def
      split: option.splits)

lemma theme_init_ok: "theme_shown (theme_init dflt stored prefersDark classes)"
    "theme_kept dflt (theme_init dflt stored prefersDark classes)"
  by (simp_all add: theme_init_def Let_def theme_shown_def theme_kept_def)

lemma theme_shown_run: "theme_shown b \<Longrightarrow> theme_shown (fold (theme_step dflt) es b)"
  by (induction es arbitrary: b) (simp_all add: theme_shown_step)

lemma theme_kept_run: "theme_kept dflt b \<Longrightarrow> Storage_cleared \<notin> set es \<Longrightarrow> theme_kept dflt (fold (theme_step dflt) es b)"
  by (induction es arbitrary: b) (simp_all add: theme_kept_step)

section \<open>Properties\<close>

text \<open>
  Property C26. After any sequence of choices, keys, system changes and storage events, the document wears
  exactly one of the classes light and dark, that of the theme in force; unless another tab cleared the
  storage, the theme is the one a reload would restore; and the key D, outside text fields and without
  modifiers, turns light into dark and dark into light and is remembered.
\<close>

theorem theme_is_shown_and_kept:
  fixes dflt :: Theme and es :: "ThemeEvent list" and classes :: "string list" and prefersDark :: bool
    and stored :: "string option"
  defines "b \<equiv> fold (theme_step dflt) es (theme_init dflt stored prefersDark classes)"
  shows "set (br_classes b) \<inter> {''light'', ''dark''} = {resolved_name (resolve_theme (br_prefersDark b) (br_theme b))} \<and>
    (Storage_cleared \<notin> set es \<longrightarrow>
      br_theme (theme_init dflt (br_stored b) (br_prefersDark b) (br_classes b)) = br_theme b) \<and>
    (toggles e \<longrightarrow>
      br_colorScheme (handleKeyDown e b) \<noteq> br_colorScheme b \<and>
      br_theme (theme_init dflt (br_stored (handleKeyDown e b)) prefersDark' classes') = br_theme (handleKeyDown e b))"
proof -
  have b: "theme_shown b" unfolding b_def by (intro theme_shown_run theme_init_ok)
  then have after: "theme_shown (handleKeyDown e b)" using theme_shown_step[of b dflt "Key_down e"] by simp
  have "Storage_cleared \<notin> set es \<Longrightarrow> theme_kept dflt b" unfolding b_def by (intro theme_kept_run theme_init_ok)
  moreover have "resolve_theme (br_prefersDark b) (toggled_theme b) \<noteq> resolve_theme (br_prefersDark b) (br_theme b)"
    by (cases "br_theme b"; cases "br_prefersDark b") (simp_all add: toggled_theme_def getSystemTheme_def)
  then have "br_colorScheme (handleKeyDown e b) \<noteq> br_colorScheme b" if "toggles e"
    using that b after by (simp add: theme_shown_def handleKeyDown_def)
  ultimately show ?thesis
    using b by (auto simp: theme_shown_def theme_kept_def theme_init_def handleKeyDown_def Let_def)
qed

section \<open>Witnesses\<close>

theorem theme_is_shown_and_kept_witness:
  "br_colorScheme (handleKeyDown \<lparr>ke_key = ''d'', ke_repeat = False, ke_meta = False, ke_ctrl = False, ke_alt = False,
       ke_target = \<lparr>kt_html = True, kt_isContentEditable = False, kt_path = [\<lparr>el_tag = ''body'', el_contenteditable = None\<rparr>]\<rparr>\<rparr>
     (fold (theme_step Light) [System_changed True, Theme_chosen System] (theme_init Light None False []))) \<noteq>
   br_colorScheme (fold (theme_step Light) [System_changed True, Theme_chosen System] (theme_init Light None False []))"
  using theme_is_shown_and_kept[of Light "[System_changed True, Theme_chosen System]" None False "[]"]
  by (simp add: toggles_def isEditableTarget_def)

end
