(* ===== verification/I18n.thy ===== *)
theory I18n
  imports Messages
begin

text \<open>
  \<open>i18n/index.ts\<close>: the language chosen and remembered. The lookup of a text is the library i18next, an argument \<open>t\<close>
  of the pages.
\<close>

section \<open>The language\<close>

record Language =
  lg_stored :: "string option"
  lg_language :: "string option"

definition getInitialLanguage :: "string option \<Rightarrow> string \<Rightarrow> string" where
  "getInitialLanguage stored navigator_language =
     (case stored of
        Some l \<Rightarrow> if l = ''en'' \<or> l = ''zh'' then l
          else if starts_with (lower_ascii navigator_language) ''zh'' then ''zh'' else ''en''
      | None \<Rightarrow> if starts_with (lower_ascii navigator_language) ''zh'' then ''zh'' else ''en'')"

definition load_language :: "string \<Rightarrow> Language \<Rightarrow> Language" where
  "load_language navigator_language s = s\<lparr>lg_language := Some (getInitialLanguage (lg_stored s) navigator_language)\<rparr>"

definition setLanguage :: "string \<Rightarrow> Language \<Rightarrow> Language" where
  "setLanguage lang s = s\<lparr>lg_stored := Some lang, lg_language := Some lang\<rparr>"

definition getLanguage :: "Language \<Rightarrow> string" where
  "getLanguage s = (case lg_language s of Some l \<Rightarrow> l | None \<Rightarrow> ''zh'')"

lemma language_remembered:
  "lang \<in> {''en'', ''zh''} \<Longrightarrow> getLanguage (load_language nav (setLanguage lang s)) = lang"
  by (auto simp: getLanguage_def load_language_def setLanguage_def getInitialLanguage_def)

lemma language_known: "getLanguage (load_language nav s) \<in> {''en'', ''zh''}"
  by (auto simp: getLanguage_def load_language_def getInitialLanguage_def split: option.splits)

end
