(* ===== verification/Shell.thy ===== *)
theory Shell
  imports App Theme_Provider I18n
begin

text \<open>
  What \<open>components/session-shell.tsx\<close> and \<open>components/nav-bar.tsx\<close> show: the screens before the console, and the
  navigation bar with its menus of themes and languages. Icons and CSS classes are left out.
\<close>

section \<open>The screens before the console\<close>

record LoginFormView =
  lfv_error :: "(string \<times> string) option"
  lfv_label :: string
  lfv_placeholder :: string
  lfv_password :: string
  lfv_hint :: string
  lfv_button :: "string \<times> bool"

definition login_form_view :: "translator \<Rightarrow> LoginForm \<Rightarrow> LoginFormView" where
  "login_form_view t f =
     \<lparr>lfv_error = (if lf_error f \<noteq> [] then Some (t ''session.loginFailed'' [], lf_error f) else None),
      lfv_label = t ''session.passwordLabel'' [],
      lfv_placeholder = t ''session.passwordPlaceholder'' [],
      lfv_password = lf_password f,
      lfv_hint = t ''session.passwordHint'' [],
      lfv_button = (if lf_submitting f then t ''session.submitting'' [] else t ''session.submitButton'' [], lf_submitting f)\<rparr>"

definition type_password :: "string \<Rightarrow> LoginForm \<Rightarrow> LoginForm" where
  "type_password v f = f\<lparr>lf_password := v\<rparr>"

text \<open>The card in the middle of the page: brand, title, description, and below them nothing, a skeleton, an alert or the form.\<close>

datatype ShellBody = No_body | Shell_skeleton | Shell_alert string string | Shell_form LoginFormView

record CenteredShell =
  csh_brand :: string
  csh_title :: string
  csh_description :: string
  csh_body :: ShellBody

definition centered_shell :: "translator \<Rightarrow> string \<Rightarrow> string \<Rightarrow> ShellBody \<Rightarrow> CenteredShell" where
  "centered_shell t title description body =
     \<lparr>csh_brand = t ''session.brandLabel'' [], csh_title = title, csh_description = description, csh_body = body\<rparr>"

definition login_view :: "translator \<Rightarrow> LoginForm \<Rightarrow> CenteredShell" where
  "login_view t f =
     centered_shell t (t ''session.loginTitle'' []) (t ''session.loginDescription'' []) (Shell_form (login_form_view t f))"

definition disabled_view :: "translator \<Rightarrow> CenteredShell" where
  "disabled_view t = centered_shell t (t ''session.disabledTitle'' []) (t ''session.disabledDescription'' []) No_body"

definition loading_view :: "translator \<Rightarrow> CenteredShell" where
  "loading_view t = centered_shell t (t ''session.loadingTitle'' []) (t ''session.loadingDescription'' []) Shell_skeleton"

definition session_error_view :: "translator \<Rightarrow> string \<Rightarrow> CenteredShell" where
  "session_error_view t description =
     centered_shell t (t ''session.errorTitle'' []) description
       (Shell_alert (t ''common.connectionFailed'' []) (t ''session.errorHint'' []))"

section \<open>The navigation bar\<close>

definition themeOptions :: "translator \<Rightarrow> (Theme \<times> string) list" where
  "themeOptions t = [(Light, t ''nav.themeLight'' []), (Dark, t ''nav.themeDark'' []), (System, t ''nav.themeSystem'' [])]"

definition activeTheme :: "translator \<Rightarrow> Theme \<Rightarrow> Theme \<times> string" where
  "activeTheme t theme =
     (case find (\<lambda>o'. fst o' = theme) (themeOptions t) of Some o' \<Rightarrow> o' | None \<Rightarrow> themeOptions t ! 2)"

text \<open>A menu: its label, and its items with the mark of the current one.\<close>

definition current_mark :: "translator \<Rightarrow> bool \<Rightarrow> string option" where
  "current_mark t current = (if current then Some (t ''common.current'' []) else None)"

definition theme_menu :: "translator \<Rightarrow> Theme \<Rightarrow> string \<times> (string \<times> string option) list" where
  "theme_menu t theme =
     (t ''nav.themeLabel'' [], map (\<lambda>o'. (snd o', current_mark t (theme = fst o'))) (themeOptions t))"

definition theme_menu_click :: "translator \<Rightarrow> nat \<Rightarrow> Browser \<Rightarrow> Browser" where
  "theme_menu_click t i b = (if i < length (themeOptions t) then setTheme (fst (themeOptions t ! i)) b else b)"

definition language_menu :: "translator \<Rightarrow> Language \<Rightarrow> string \<times> (string \<times> string option) list" where
  "language_menu t s =
     (t ''lang.switch'' [],
      [(unicode [0x4E2D, 0x6587], current_mark t (getLanguage s = ''zh'')),
       (''English'', current_mark t (getLanguage s = ''en''))])"

definition language_menu_click :: "nat \<Rightarrow> Language \<Rightarrow> Language" where
  "language_menu_click i s = (if i = 0 then setLanguage ''zh'' s else if i = 1 then setLanguage ''en'' s else s)"

record NavBarView =
  nb_brand :: "string \<times> string"
  nb_items :: "(Page \<times> string \<times> bool) list" \<comment> \<open>page, label, highlighted\<close>
  nb_themeIcon :: Theme
  nb_themes :: "string \<times> (string \<times> string option) list"
  nb_languages :: "string \<times> (string \<times> string option) list"
  nb_logoutDisabled :: bool

definition NavBar :: "translator \<Rightarrow> Theme \<Rightarrow> Language \<Rightarrow> Page \<Rightarrow> bool \<Rightarrow> NavBarView" where
  "NavBar t theme lang active logoutPending =
     \<lparr>nb_brand = (''LLMRelayService'', ''API Gateway''),
      nb_items = map (\<lambda>(page, label). (page, label, active = page)) (navItems t),
      nb_themeIcon = fst (activeTheme t theme),
      nb_themes = theme_menu t theme,
      nb_languages = language_menu t lang,
      nb_logoutDisabled = logoutPending\<rparr>"

datatype AppView = Shell_card CenteredShell | Console NavBarView PageView

text \<open>The whole window: the card of a screen before the console, or the bar beside the page.\<close>

definition app_view ::
    "translator \<Rightarrow> Theme \<Rightarrow> Language \<Rightarrow> LoginForm \<Rightarrow> PageRoute \<Rightarrow> AppState \<Rightarrow> AppView" where
  "app_view t theme lang form route s =
     (case app_screen route s of
        SessionErrorView description \<Rightarrow> Shell_card (session_error_view t description)
      | LoadingView \<Rightarrow> Shell_card (loading_view t)
      | DisabledView \<Rightarrow> Shell_card (disabled_view t)
      | LoginView \<Rightarrow> Shell_card (login_view t form)
      | ConsoleView active pending page \<Rightarrow> Console (NavBar t theme lang active pending) page)"

text \<open>Exactly one theme, one language and one item of the bar is marked.\<close>

lemma one_theme_marked: "filter (\<lambda>i. snd i \<noteq> None) (snd (theme_menu t theme)) = [(snd (activeTheme t theme), Some (t ''common.current'' []))]"
  by (cases theme) (simp_all add: theme_menu_def themeOptions_def activeTheme_def current_mark_def)

lemma one_item_highlighted: "map fst (filter (\<lambda>(_, _, lit). lit) (nb_items (NavBar t theme lang active pending))) = [active]"
  by (cases active) (simp_all add: NavBar_def navItems_def)

lemma one_language_marked:
  "getLanguage s \<in> {''en'', ''zh''} \<Longrightarrow> length (filter (\<lambda>i. snd i \<noteq> None) (snd (language_menu t s))) = 1"
  by (auto simp: language_menu_def current_mark_def)

text \<open>A click on an item of a menu makes it the marked one.\<close>

lemma theme_click_marks: "i < 3 \<Longrightarrow> br_theme (theme_menu_click t i b) = fst (themeOptions t ! i)"
  by (simp add: theme_menu_click_def themeOptions_def setTheme_def setThemeState_def applyTheme_def Let_def)

lemma language_click_marks: "i < 2 \<Longrightarrow> snd (snd (language_menu t (language_menu_click i s)) ! i) = Some (t ''common.current'' [])"
  by (auto simp: less_2_cases_iff language_menu_click_def language_menu_def current_mark_def setLanguage_def getLanguage_def)

end
