(* ===== verification/JS_Decimal.thy ===== *)
theory JS_Decimal
  imports JS_Text
begin

text \<open>
  Every finite number is read back from its text: seventeen significant digits determine a binary64
  value, so the search for the shortest numeral ends, and \<open>Number\<close> inverts each of the layouts of
  \<open>String\<close>.
\<close>

section \<open>Values that rounding leaves alone\<close>

definition representable :: "rat \<Rightarrow> bool" where
  "representable x \<longleftrightarrow> fl x = Fin x"

lemma representable_fl_rat: "representable x \<Longrightarrow> fl_rat x = x"
  by (auto simp: representable_def dest: fl_Fin)

lemma representable_minus: "representable (- x) = representable x"
  by (auto simp: representable_def fl_def Let_def fl_rat_minus split: if_splits)

text \<open>A representable positive number as significand and exponent.\<close>

lemma representable_parts:
  assumes "representable x" and "0 < x"
  obtains m e where "x = of_int m * 2 powi e" "0 < m" "m < 2 ^ 53" "- 1074 \<le> e"
    "e = - 1074 \<or> 2 ^ 52 \<le> m"
proof -
  let ?e = "ulp_exp x" and ?m = "round_even (x / 2 powi ulp_exp x)"
  have x: "x = of_int ?m * 2 powi ?e"
    using representable_fl_rat[OF assms(1)] assms(2) by (simp add: fl_rat_def)
  have e: "- 1074 \<le> ?e" "ilog2 x - 52 \<le> ?e" by (simp_all add: ulp_exp_def assms(2) less_imp_le abs_of_pos)
  have pos: "0 < ?m"
  proof -
    have "0 < of_int ?m * (2 :: rat) powi ?e" using assms(2) x by simp
    then have "(0 :: rat) < of_int ?m" by (rule zero_less_mult_pos2) simp
    then show ?thesis by simp
  qed
  have "x < 2 powi (ilog2 x + 1)" by (rule ilog2_bounds(2)[OF assms(2)])
  also have "\<dots> \<le> 2 powi (?e + 53)" using e by (simp add: powi_le_iff)
  also have "\<dots> = of_int (2 ^ 53) * 2 powi ?e" by (subst powi_split[of ?e]) simp_all
  finally have "of_int ?m * 2 powi ?e < (of_int (2 ^ 53) :: rat) * 2 powi ?e" using x by simp
  then have less: "?m < 2 ^ 53" by (simp only: mult_less_cancel_right_pos powi_pos of_int_less_iff)
  have "?e = - 1074 \<or> 2 ^ 52 \<le> ?m"
  proof (cases "?e = - 1074")
    case False
    then have ie: "ilog2 x = ?e + 52" using assms(2) by (auto simp: ulp_exp_def abs_of_pos)
    have "of_int (2 ^ 52) * (2 :: rat) powi ?e = 2 powi (?e + 52)" by (subst powi_split[of ?e]) simp_all
    also have "\<dots> \<le> x" using ilog2_bounds(1)[OF assms(2)] ie by simp
    also have "x = of_int ?m * 2 powi ?e" by (rule x)
    finally show ?thesis by (simp only: mult_le_cancel_right_pos powi_pos of_int_le_iff) simp
  qed simp
  with x pos less e(1) show ?thesis using that by blast
qed

lemma round_even_near: "\<bar>z - of_int m\<bar> < 1 / 2 \<Longrightarrow> round_even z = m"
proof -
  assume near: "\<bar>z - of_int m\<bar> < 1 / 2"
  consider "of_int m \<le> z" | "z < of_int m" by linarith
  then show ?thesis
  proof cases
    case 1
    then have "\<lfloor>z\<rfloor> = m" using near by linarith
    then show ?thesis using near 1 by (simp add: round_even_def Let_def)
  next
    case 2
    then have "\<lfloor>z\<rfloor> = m - 1" using near by linarith
    then show ?thesis using near 2 by (simp add: round_even_def Let_def)
  qed
qed

lemma ilog2_eqI:
  assumes "2 powi e \<le> x" and "x < 2 powi (e + 1)"
  shows "ilog2 x = e"
proof -
  have x: "0 < x" using assms(1) powi_pos[of e] by linarith
  have "(2 :: rat) powi e < 2 powi (ilog2 x + 1)" "(2 :: rat) powi ilog2 x < 2 powi (e + 1)"
    using assms ilog2_bounds[OF x] by linarith+
  then have "e < ilog2 x + 1" "ilog2 x < e + 1" by (metis powi_le_iff not_le)+
  then show ?thesis by linarith
qed

text \<open>Rounding gives back a representable number from anything within half a unit of its seventeenth digit.\<close>

lemma fl_rat_near:
  assumes "representable x" and "0 < x" and near: "\<bar>y - x\<bar> * (2 * 10 ^ 16) \<le> x"
  shows "fl_rat y = x"
proof -
  obtain m e where x: "x = of_int m * 2 powi e" and m: "0 < m" "m < 2 ^ 53" and e: "- 1074 \<le> e"
    and normal: "e = - 1074 \<or> 2 ^ 52 \<le> m"
    using representable_parts[OF assms(1,2)] .
  define d :: rat where "d = 2 powi e"
  have d: "0 < d" by (simp add: d_def)
  define z where "z = y / d"
  have y: "y = z * d" using d by (simp add: z_def)
  have xd: "x = of_int m * d" by (simp add: x d_def)
  have "\<bar>z - of_int m\<bar> * d * (2 * 10 ^ 16) \<le> of_int m * d"
    using near d by (simp add: y xd left_diff_distrib [symmetric] abs_mult)
  then have nz: "\<bar>z - of_int m\<bar> * (2 * 10 ^ 16) \<le> of_int m"
    using d by (simp add: mult.commute mult.left_commute)
  have mr: "(of_int m :: rat) \<le> 2 ^ 53 - 1"
  proof -
    have "m \<le> 2 ^ 53 - 1" using m by simp
    then have "(of_int m :: rat) \<le> of_int (2 ^ 53 - 1)" by (simp only: of_int_le_iff)
    then show ?thesis by simp
  qed
  have half: "\<bar>z - of_int m\<bar> < 1 / 2" using nz mr by simp
  have m1: "(1 :: rat) \<le> of_int m" using m by simp
  have z0: "0 < z" using half m1 unfolding abs_less_iff by linarith
  have y0: "0 < y" using z0 d by (simp add: y)
  have z53: "z < 2 ^ 53" using half mr unfolding abs_less_iff by linarith
  have "y < 2 ^ 53 * d" using z53 d by (simp add: y)
  also have "\<dots> = 2 powi (e + 53)" unfolding d_def by (subst powi_split[of e "e + 53"]) simp_all
  finally have up: "y < 2 powi (e + 53)" .
  show ?thesis
  proof (cases "e = - 1074 \<or> 2 ^ 52 \<le> z")
    case True
    have "ulp_exp y = e"
    proof (cases "2 ^ 52 \<le> z")
      case True
      then have "2 ^ 52 * d \<le> y" using d by (simp add: y)
      moreover have "2 ^ 52 * d = 2 powi (e + 52)" unfolding d_def by (subst powi_split[of e "e + 52"]) simp_all
      ultimately have "ilog2 y = e + 52" using up by (intro ilog2_eqI) (simp_all add: add.assoc)
      then show ?thesis using e y0 by (simp add: ulp_exp_def abs_of_pos)
    next
      case False
      then have "e = - 1074" using \<open>e = - 1074 \<or> 2 ^ 52 \<le> z\<close> by simp
      moreover have "ilog2 y < e + 53" using up y0 by (intro ilog2_less)
      ultimately show ?thesis using y0 by (simp add: ulp_exp_def abs_of_pos)
    qed
    moreover have "round_even z = m" using half by (rule round_even_near)
    ultimately show ?thesis using y0 by (simp add: fl_rat_def z_def xd d_def)
  next
    case False
    then have big: "2 ^ 52 \<le> m" and e1: "- 1073 \<le> e" using normal e by auto
    have "(of_int m :: rat) < 2 ^ 52 + 1 / 2" using False half unfolding abs_less_iff by linarith
    then have "(of_int m :: rat) < of_int (2 ^ 52 + 1)" by simp
    then have "m < 2 ^ 52 + 1" by (simp only: of_int_less_iff)
    with big have meq: "m = 2 ^ 52" by simp
    have quarter: "\<bar>z - 2 ^ 52\<bar> < 1 / 4" using nz by (simp add: meq)
    have lower: "2 powi (e + 51) \<le> y"
    proof -
      have "2 powi (e + 51) = 2 ^ 51 * d" unfolding d_def by (subst powi_split[of e "e + 51"]) simp_all
      also have "\<dots> \<le> z * d"
      proof (rule mult_right_mono)
        show "2 ^ 51 \<le> z" using quarter unfolding abs_less_iff by simp
      qed (use d in simp)
      finally show ?thesis by (simp add: y)
    qed
    have "y < 2 ^ 52 * d" using False d by (simp add: y)
    also have "2 ^ 52 * d = 2 powi (e + 51 + 1)" unfolding d_def by (subst powi_split[of e "e + 51 + 1"]) simp_all
    finally have "ilog2 y = e + 51" using lower by (intro ilog2_eqI)
    then have u: "ulp_exp y = e - 1" using e1 y0 by (simp add: ulp_exp_def abs_of_pos)
    have d2: "2 powi (e - 1) = d / 2" by (simp add: d_def power_int_diff)
    have "y / 2 powi (e - 1) = 2 * z" using d by (simp add: d2 y)
    moreover have "round_even (2 * z) = 2 ^ 53" using quarter 
    proof (intro round_even_near)
      show "\<bar>2 * z - of_int (2 ^ 53)\<bar> < 1 / 2" using quarter unfolding abs_less_iff by simp
    qed
    ultimately have "fl_rat y = of_int (2 ^ 53) * (d / 2)" using y0 by (simp add: fl_rat_def u d2)
    then show ?thesis by (simp add: xd meq)
  qed
qed

lemma fl_near:
  assumes "representable x" and "0 < x" and "\<bar>y - x\<bar> * (2 * 10 ^ 16) \<le> x"
  shows "fl y = Fin x"
  using fl_rat_near[OF assms] assms(1) representable_fl_rat[OF assms(1)]
  by (simp add: representable_def fl_def)

section \<open>Decimal places\<close>

lemma nat_str_bounds: "0 < n \<Longrightarrow> 10 ^ (length (nat_str n) - 1) \<le> n" "n < 10 ^ length (nat_str n)"
proof (induction n rule: nat_str.induct)
  case (1 n)
  case 1
  then show ?case
  proof (cases "n < 10")
    case False
    then have "0 < n div 10" by simp
    with "1.IH"(1)[OF False] have "10 ^ (length (nat_str (n div 10)) - 1) \<le> n div 10" by simp
    moreover have "length (nat_str n) = Suc (length (nat_str (n div 10)))"
      using False by (subst nat_str.simps) simp
    moreover have "length (nat_str (n div 10)) = Suc (length (nat_str (n div 10)) - 1)" by simp
    ultimately show ?thesis by (metis diff_Suc_1 div_le_mono2 less_mult_imp_div_less linorder_not_less mult.commute power_Suc)
  qed (subst nat_str.simps, simp)
next
  case (1 n)
  case 2
  show ?case
  proof (cases "n < 10")
    case False
    with "1.IH"(2)[OF False] have "n div 10 < 10 ^ length (nat_str (n div 10))" by simp
    then have "n < 10 * 10 ^ length (nat_str (n div 10))" by simp
    moreover have "length (nat_str n) = Suc (length (nat_str (n div 10)))"
      using False by (subst nat_str.simps) simp
    ultimately show ?thesis by simp
  qed (subst nat_str.simps, simp)
qed

lemma powi_nat: "0 \<le> k \<Longrightarrow> (10 :: rat) powi k = of_nat (10 ^ nat k)"
  by (simp add: power_int_def)

lemma ilog10_bounds:
  assumes "0 < x"
  shows "10 powi ilog10 x \<le> x" and "x < 10 powi (ilog10 x + 1)"
proof -
  obtain p q where pq: "quotient_of x = (p, q)" by (cases "quotient_of x")
  then have q: "0 < q" and x: "x = of_int p / of_int q"
    by (auto simp: quotient_of_denom_pos quotient_of_div)
  with assms have p: "0 < p" by (simp add: zero_less_divide_iff)
  let ?a = "length (nat_str (nat p))" and ?b = "length (nat_str (nat q))"
  have len: "0 < ?a" "0 < ?b" by simp_all
  have digits: "10 powi (int (length (nat_str n)) - 1) \<le> (of_nat n :: rat)" "of_nat n < (10 :: rat) powi int (length (nat_str n))"
    if n: "0 < n" for n
  proof -
    have l: "0 < length (nat_str n)" by simp
    have "(10 :: rat) powi (int (length (nat_str n)) - 1) = of_nat (10 ^ (length (nat_str n) - 1))"
      using l by (subst powi_nat) (simp_all add: nat_diff_distrib)
    also have "\<dots> \<le> of_nat n" using nat_str_bounds(1)[OF n] by (simp only: of_nat_le_iff)
    finally show "10 powi (int (length (nat_str n)) - 1) \<le> (of_nat n :: rat)" .
    have "(of_nat n :: rat) < of_nat (10 ^ length (nat_str n))"
      using nat_str_bounds(2)[of n] by (simp only: of_nat_less_iff)
    then show "of_nat n < (10 :: rat) powi int (length (nat_str n))" by (simp add: power_int_def)
  qed
  have P: "10 powi (int ?a - 1) \<le> (of_int p :: rat)" "(of_int p :: rat) < 10 powi int ?a"
    using digits[of "nat p"] p by simp_all
  have Q: "10 powi (int ?b - 1) \<le> (of_int q :: rat)" "(of_int q :: rat) < 10 powi int ?b"
    using digits[of "nat q"] q by simp_all
  have q0: "(0 :: rat) < of_int q" using q by simp
  let ?e = "int ?a - int ?b"
  have up: "x < 10 powi (?e + 1)"
  proof -
    have "of_int p < (10 :: rat) powi int ?a" by (rule P(2))
    also have "\<dots> = 10 powi (?e + 1) * 10 powi (int ?b - 1)" by (simp flip: power_int_add)
    also have "\<dots> \<le> 10 powi (?e + 1) * of_int q" using Q(1) by (intro mult_left_mono) auto
    finally show ?thesis using q0 by (simp add: x field_simps)
  qed
  have lo: "10 powi (?e - 1) \<le> x"
  proof -
    have "10 powi (?e - 1) * of_int q \<le> (10 :: rat) powi (?e - 1) * 10 powi int ?b"
      using Q(2) by (intro mult_left_mono) auto
    also have "\<dots> = 10 powi (?e - 1 + int ?b)" by (rule power_int_add [symmetric]) simp
    also have "\<dots> = 10 powi (int ?a - 1)" by (simp add: algebra_simps)
    also have "\<dots> \<le> of_int p" by (rule P(1))
    finally show ?thesis using q0 by (simp add: x field_simps)
  qed
  show "10 powi ilog10 x \<le> x" and "x < 10 powi (ilog10 x + 1)"
    using up lo by (auto simp: ilog10_def pq Let_def)
qed

text \<open>The candidate with \<open>k\<close> digits has \<open>k\<close> digits, or is \<open>10 ^ k\<close>, and is within half a unit of its last place.\<close>

lemma decimal_candidate_near:
  assumes "0 < x"
  shows "\<bar>of_nat (decimal_candidate x k) * 10 powi (ilog10 x + 1 - int k) - x\<bar> * 2 \<le> 10 powi (ilog10 x + 1 - int k)"
proof -
  define u :: rat where "u = 10 powi (ilog10 x + 1 - int k)"
  have u: "0 < u" by (simp add: u_def)
  have c: "(of_nat (decimal_candidate x k) :: rat) = of_int \<lfloor>x / u + 1/2\<rfloor>"
    using assms u by (simp add: decimal_candidate_def u_def)
  have "\<bar>of_int \<lfloor>x / u + 1/2\<rfloor> - x / u\<bar> \<le> 1/2" by linarith
  then have "\<bar>of_int \<lfloor>x / u + 1/2\<rfloor> - x / u\<bar> * u \<le> 1/2 * u" using u by (intro mult_right_mono) auto
  moreover have "\<bar>of_int \<lfloor>x / u + 1/2\<rfloor> - x / u\<bar> * u = \<bar>of_int \<lfloor>x / u + 1/2\<rfloor> * u - x\<bar>"
  proof -
    have "(of_int \<lfloor>x / u + 1/2\<rfloor> - x / u) * u = of_int \<lfloor>x / u + 1/2\<rfloor> * u - x"
      using u by (simp add: left_diff_distrib)
    then show ?thesis using u by (metis abs_mult abs_of_pos)
  qed
  ultimately show ?thesis by (simp add: c flip: u_def)
qed

lemma decimal_candidate_bounds:
  assumes "0 < x" and "0 < k"
  shows "10 ^ (k - 1) \<le> decimal_candidate x k" and "decimal_candidate x k \<le> 10 ^ k"
proof -
  define u :: rat where "u = 10 powi (ilog10 x + 1 - int k)"
  have u: "0 < u" by (simp add: u_def)
  have lo: "of_int (10 ^ (k - 1)) \<le> x / u"
  proof -
    have "of_int (10 ^ (k - 1)) * u = 10 powi (int (k - 1)) * u" by (simp add: power_int_def)
    also have "\<dots> = 10 powi ilog10 x" unfolding u_def using assms(2) by (simp flip: power_int_add)
    also have "\<dots> \<le> x" by (rule ilog10_bounds(1)[OF assms(1)])
    finally show ?thesis using u by (simp add: pos_le_divide_eq)
  qed
  have up: "x / u < of_int (10 ^ k)"
  proof -
    have "x < 10 powi (ilog10 x + 1)" by (rule ilog10_bounds(2)[OF assms(1)])
    also have "\<dots> = 10 powi (int k + (ilog10 x + 1 - int k))" by simp
    also have "\<dots> = 10 powi (int k) * u" unfolding u_def by (rule power_int_add) simp
    finally show ?thesis using u by (simp add: pos_divide_less_eq power_int_def)
  qed
  have "10 ^ (k - 1) \<le> \<lfloor>x / u + 1/2\<rfloor>" using lo by (simp add: le_floor_iff)
  moreover have "\<lfloor>x / u + 1/2\<rfloor> \<le> 10 ^ k"
  proof -
    have "x / u + 1/2 < of_int (10 ^ k + 1)" using up by simp
    then show ?thesis by (simp only: floor_less_iff [symmetric])
  qed
  ultimately show "10 ^ (k - 1) \<le> decimal_candidate x k" and "decimal_candidate x k \<le> 10 ^ k"
    by (simp_all add: decimal_candidate_def flip: u_def)
qed

lemma decimal_ok_17:
  assumes "representable x" and "0 < x"
  shows "decimal_ok x 17"
proof -
  let ?y = "of_nat (decimal_candidate x 17) * 10 powi (ilog10 x + 1 - int 17)"
  have "\<bar>?y - x\<bar> * 2 \<le> 10 powi (ilog10 x + 1 - int 17)" by (rule decimal_candidate_near[OF assms(2)])
  then have "\<bar>?y - x\<bar> * 2 * 10 ^ 16 \<le> 10 powi (ilog10 x + 1 - int 17) * 10 ^ 16"
    by (intro mult_right_mono) auto
  also have "\<dots> = 10 powi (ilog10 x + 1 - int 17 + 16)" by (subst power_int_add) (simp_all add: power_int_def)
  also have "\<dots> = 10 powi ilog10 x" by simp
  also have "\<dots> \<le> x" by (rule ilog10_bounds(1)[OF assms(2)])
  finally have "fl ?y = Fin x" using assms by (intro fl_near) (simp_all add: mult.assoc)
  then show ?thesis by (simp add: decimal_ok_def)
qed

section \<open>The value of a numeral\<close>

definition digits_value :: "string \<Rightarrow> int \<Rightarrow> rat" where
  "digits_value ds n = of_nat (nat_of_digits ds) * 10 powi (n - int (length ds))"

lemma nat_of_digits_app: "nat_of_digits (a @ b) = nat_of_digits a * 10 ^ length b + nat_of_digits b"
proof (induction b rule: rev_induct)
  case (snoc c b)
  then show ?case using nat_of_digits_append[of "a @ b" c] nat_of_digits_append[of b c] by simp
qed (simp add: nat_of_digits_def)

lemma nat_of_digits_zeros [simp]: "nat_of_digits (replicate z CHR ''0'') = 0"
proof (induction z)
  case (Suc z)
  then show ?case using nat_of_digits_app[of "''0''" "replicate z CHR ''0''"]
    by (simp add: nat_of_digits_def digit_val_def)
qed (simp add: nat_of_digits_def)

lemma length_nat_str_eqI:
  assumes "10 ^ (k - 1) \<le> c" and "c < 10 ^ k" and "0 < k"
  shows "length (nat_str c) = k"
proof -
  have "(0::nat) < 10 ^ (k - 1)" by simp
  then have c: "0 < c" using assms(1) by linarith
  have "(10::nat) ^ (length (nat_str c) - 1) < 10 ^ k" using nat_str_bounds(1)[OF c] assms(2) by linarith
  moreover have "(10::nat) ^ (k - 1) < 10 ^ length (nat_str c)" using nat_str_bounds(2)[of c] assms(1) by linarith
  ultimately have "length (nat_str c) - 1 < k" "k - 1 < length (nat_str c)" by simp_all
  then show ?thesis using assms(3) by linarith
qed

lemma shortest_digits_value:
  assumes "representable x" and "0 < x"
  shows "case shortest_digits x of (ds, n) \<Rightarrow> all_digits ds \<and> fl (digits_value ds n) = Fin x"
proof -
  define k where "k = (case find (decimal_ok x) [1..<17] of Some k \<Rightarrow> k | None \<Rightarrow> 17)"
  have k: "0 < k \<and> decimal_ok x k"
  proof (cases "find (decimal_ok x) [1..<17]")
    case (Some j)
    then have "k = j" by (simp add: k_def)
    moreover have "decimal_ok x j \<and> j \<in> set [1..<17]"
      using Some unfolding find_Some_iff by (metis nth_mem)
    ultimately show ?thesis by auto
  qed (use decimal_ok_17[OF assms] in \<open>simp add: k_def\<close>)
  define c where "c = decimal_candidate x k"
  let ?n = "ilog10 x + 1"
  have sd: "shortest_digits x = (if k < length (nat_str c) then (take k (nat_str c), ?n + 1) else (nat_str c, ?n))"
    by (simp only: shortest_digits_def Let_def k_def c_def)
  have ok: "fl (of_nat c * 10 powi (?n - int k)) = Fin x"
    using k by (simp add: decimal_ok_def c_def)
  have c: "10 ^ (k - 1) \<le> c" "c \<le> 10 ^ k"
    using decimal_candidate_bounds[OF assms(2)] k by (auto simp: c_def)
  have digits: "list_all is_digit (nat_str m)" for m
    using is_digit_nat_str by (auto simp: list_all_iff)
  show ?thesis
  proof (cases "c = 10 ^ k")
    case True
    have c': "length (nat_str c) = Suc k"
      by (rule length_nat_str_eqI) (simp_all add: True)
    obtain j where j: "k = Suc j" using k by (cases k) auto
    have "nat_str c = nat_str (10 ^ j) @ [digit_char 0]"
      by (subst nat_str.simps) (simp add: True j)
    then have t: "take k (nat_str c) = nat_str (10 ^ j)"
      using length_nat_str_eqI[of k "10 ^ j"] by (simp add: j)
    have "of_nat (10 ^ j) * 10 powi (?n + 1 - int k) = of_nat c * (10 :: rat) powi (?n - int k)"
    proof -
      have "(10 :: rat) powi (?n + 1 - int k) = 10 powi (1 + (?n - int k))"
        by (simp only: algebra_simps)
      also have "\<dots> = 10 powi 1 * 10 powi (?n - int k)" by (rule power_int_add) simp
      finally show ?thesis by (simp add: True j)
    qed
    moreover have "length (nat_str (10 ^ j)) = k" by (rule length_nat_str_eqI) (simp_all add: j)
    ultimately show ?thesis
      using ok c' digits[of "10 ^ j"]
      by (simp add: sd t digits_value_def all_digits_def)
  next
    case False
    then have "length (nat_str c) = k" using c k by (intro length_nat_str_eqI) auto
    then show ?thesis
      using ok digits[of c]
      by (simp add: sd digits_value_def all_digits_def)
  qed
qed

section \<open>Parsing the four layouts\<close>

lemma span_digits:
  assumes "list_all is_digit a" and "\<not> is_digit c"
  shows "takeWhile is_digit (a @ c # r) = a" "dropWhile is_digit (a @ c # r) = c # r"
  using assms by (auto simp: list_all_iff takeWhile_append dropWhile_append)

lemma span_all_digits:
  assumes "list_all is_digit a"
  shows "takeWhile is_digit a = a" "dropWhile is_digit a = []"
  using assms by (auto simp: list_all_iff)

lemma not_digit_marks [simp]: "\<not> is_digit CHR ''.''" "\<not> is_digit CHR ''e''"
  by (simp_all add: is_digit_def)

lemma parse_integer:
  "all_digits a \<Longrightarrow> parse_unsigned a = Some (of_nat (nat_of_digits a))"
  by (simp add: parse_unsigned_def all_digits_def span_all_digits Let_def)

lemma parse_point:
  assumes "all_digits a" and "list_all is_digit b"
  shows "parse_unsigned (a @ CHR ''.'' # b) = Some (of_nat (nat_of_digits (a @ b)) / 10 ^ length b)"
  using assms by (simp add: parse_unsigned_def all_digits_def span_all_digits span_digits Let_def)

lemma parse_exp:
  assumes "all_digits a" and "parse_exponent es = Some e"
  shows "parse_unsigned (a @ CHR ''e'' # es) = Some (of_nat (nat_of_digits a) * 10 powi e)"
  using assms by (simp add: parse_unsigned_def all_digits_def span_digits Let_def)

lemma parse_point_exp:
  assumes "all_digits a" and "list_all is_digit b" and "parse_exponent es = Some e"
  shows "parse_unsigned (a @ CHR ''.'' # b @ CHR ''e'' # es) =
    Some (of_nat (nat_of_digits (a @ b)) / 10 ^ length b * 10 powi e)"
  using assms by (simp add: parse_unsigned_def all_digits_def span_digits Let_def)

lemma all_digits_nat_str: "all_digits (nat_str n)"
  using is_digit_nat_str by (auto simp: all_digits_def list_all_iff)

lemma parse_exponent_signed:
  "parse_exponent ((if e < 0 then ''-'' else ''+'') @ nat_str (nat \<bar>e\<bar>)) = Some e"
proof -
  have "parse_exponent (CHR ''-'' # nat_str n) = Some (- int n)" "parse_exponent (CHR ''+'' # nat_str n) = Some (int n)" for n
    by (simp_all only: parse_exponent.simps(1,2) all_digits_nat_str nat_of_digits_nat_str if_True)
  from this[of "nat \<bar>e\<bar>"] show ?thesis by (cases "e < 0") simp_all
qed

lemma digits_zeros [simp]: "list_all is_digit (replicate z CHR ''0'')"
  by (induction z) (simp_all add: is_digit_def)

lemma powi_down: "a \<le> b \<Longrightarrow> (10 :: rat) powi (a - b) = 1 / 10 ^ nat (b - a)"
proof -
  assume "a \<le> b"
  then have "(10 :: rat) powi (a - b) = 10 powi (- int (nat (b - a)))" by simp
  also have "\<dots> = inverse (10 powi int (nat (b - a)))" by (rule power_int_minus)
  finally show ?thesis by (simp only: power_int_of_nat inverse_eq_divide)
qed

lemma parse_format_digits:
  assumes "all_digits ds"
  shows "parse_unsigned (format_digits ds n) = Some (digits_value ds n)"
proof -
  let ?k = "int (length ds)" and ?D = "nat_of_digits ds"
  have digits: "list_all is_digit ds" "ds \<noteq> []" using assms by (simp_all add: all_digits_def)
  have sub: "list_all is_digit (take i ds)" "list_all is_digit (drop i ds)" for i
    using digits(1) by (auto simp: list_all_iff dest: in_set_takeD in_set_dropD)
  consider (int) "?k \<le> n" "n \<le> 21" | (point) "0 < n" "n \<le> 21" "n < ?k" | (small) "- 6 < n" "n \<le> 0"
    | (exp) "n \<le> - 6 \<or> 21 < n" by linarith
  then show ?thesis
  proof cases
    case int
    have "all_digits (ds @ replicate (nat (n - ?k)) CHR ''0'')"
      using digits by (simp add: all_digits_def)
    then show ?thesis
      using int by (simp add: format_digits_def parse_integer nat_of_digits_app digits_value_def power_int_def)
  next
    case point
    have a: "all_digits (take (nat n) ds)" using point sub digits(2) by (simp add: all_digits_def)
    have "parse_unsigned (take (nat n) ds @ CHR ''.'' # drop (nat n) ds) =
        Some (of_nat ?D / 10 ^ length (drop (nat n) ds))"
      using parse_point[OF a sub(2)] by simp
    moreover have "nat (?k - n) = length (drop (nat n) ds)" using point by simp
    ultimately show ?thesis
      using point by (simp add: format_digits_def digits_value_def powi_down)
  next
    case small
    have b: "list_all is_digit (replicate (nat (- n)) CHR ''0'' @ ds)"
      using digits(1) by simp
    have z: "all_digits ''0''" by (simp add: all_digits_def is_digit_def)
    have v: "nat_of_digits (''0'' @ replicate (nat (- n)) CHR ''0'' @ ds) = ?D"
      by (simp only: nat_of_digits_app nat_of_digits_zeros) (simp add: nat_of_digits_def digit_val_def)
    have "nat (?k - n) = nat (- n) + length ds" using small by simp
    moreover have "\<not> ?k \<le> n" using digits(2) small by (cases ds) auto
    ultimately show ?thesis
      using parse_point[OF z b] v small digits(2)
      by (simp add: format_digits_def digits_value_def powi_down Let_def)
  next
    case exp
    let ?es = "(if n - 1 < 0 then ''-'' else ''+'') @ nat_str (nat \<bar>n - 1\<bar>)"
    have len: "0 < length ds" using digits(2) by simp
    have layout: "\<not> (?k \<le> n \<and> n \<le> 21)" "\<not> (0 < n \<and> n \<le> 21)" "\<not> (- 6 < n \<and> n \<le> 0)"
      using exp len by linarith+
    show ?thesis
    proof (cases "?k = 1")
      case True
      then have "format_digits ds n = ds @ CHR ''e'' # ?es"
        using layout unfolding format_digits_def Let_def by (simp only: if_False if_True append.simps refl)
      moreover have "parse_unsigned (ds @ CHR ''e'' # ?es) = Some (of_nat ?D * 10 powi (n - 1))"
        by (rule parse_exp[OF assms parse_exponent_signed])
      ultimately show ?thesis using True by (simp only: digits_value_def)
    next
      case False
      then have k: "1 < length ds" using digits(2) by (cases ds) auto
      have a: "all_digits (take 1 ds)" using sub digits(2) by (simp add: all_digits_def)
      have "format_digits ds n = take 1 ds @ CHR ''.'' # drop 1 ds @ CHR ''e'' # ?es"
        using False by (simp only: format_digits_def Let_def layout if_False append.simps)
      moreover have "parse_unsigned (take 1 ds @ CHR ''.'' # drop 1 ds @ CHR ''e'' # ?es) =
          Some (of_nat ?D / 10 ^ length (drop 1 ds) * 10 powi (n - 1))"
        using parse_point_exp[OF a sub(2) parse_exponent_signed] by (simp only: append_take_drop_id)
      moreover have "of_nat ?D / 10 ^ length (drop 1 ds) * 10 powi (n - 1) = digits_value ds n"
      proof -
        have "(10 :: rat) powi (n - ?k) = 10 powi ((1 - ?k) + (n - 1))" by simp
        also have "\<dots> = 10 powi (1 - ?k) * 10 powi (n - 1)" by (rule power_int_add) simp
        also have "(10 :: rat) powi (1 - ?k) = 1 / 10 ^ (length ds - 1)" using k by (subst powi_down) (simp_all add: nat_diff_distrib)
        finally show ?thesis by (simp add: digits_value_def)
      qed
      ultimately show ?thesis by (simp only:)
    qed
  qed
qed

section \<open>Numbers and their texts\<close>

text \<open>The characters of a numeral, and that it is neither blank nor a literal of another radix.\<close>

definition numeral_char :: "char \<Rightarrow> bool" where
  "numeral_char c \<longleftrightarrow> is_digit c \<or> c \<in> {CHR ''.'', CHR ''e'', CHR ''+'', CHR ''-''}"

lemma numeral_char_simps [simp]:
  "is_digit c \<Longrightarrow> numeral_char c" "numeral_char CHR ''.''" "numeral_char CHR ''e''"
  "numeral_char CHR ''+''" "numeral_char CHR ''-''"
  by (simp_all add: numeral_char_def)

lemma numeral_char_plain:
  "numeral_char c \<Longrightarrow> \<not> is_space c \<and> c \<notin> {CHR ''x'', CHR ''X'', CHR ''o'', CHR ''O'', CHR ''b'', CHR ''B''}"
  by (auto simp: numeral_char_def is_digit_def is_space_def)

lemma list_all_nat_str [simp]: "list_all is_digit (nat_str n)"
  using all_digits_nat_str[of n] by (simp add: all_digits_def)

lemma list_all_numeral: "list_all is_digit s \<Longrightarrow> list_all numeral_char s"
  by (auto simp: list_all_iff)

lemma format_digits_chars:
  assumes "all_digits ds"
  shows "list_all numeral_char (format_digits ds n) \<and> format_digits ds n \<noteq> [] \<and> is_digit (hd (format_digits ds n))"
proof -
  have ds: "list_all is_digit ds" "ds \<noteq> []" using assms by (simp_all add: all_digits_def)
  then have hd: "is_digit (hd ds)" by (cases ds) auto
  have sub: "list_all numeral_char (take i ds)" "list_all numeral_char (drop i ds)" for i
    using ds(1) by (auto simp: list_all_iff dest: in_set_takeD in_set_dropD)
  have whole: "list_all numeral_char ds" "list_all numeral_char (replicate z CHR ''0'')" for z
    using ds(1) by (simp_all add: list_all_numeral)
  have first: "is_digit (hd (take i ds @ r))" "take i ds @ r \<noteq> []" if "0 < i" for i r
    using that ds hd by (cases ds; cases i; simp)+
  have zero: "is_digit CHR ''0''" by (simp add: is_digit_def)
  show ?thesis
    using ds(2) hd sub whole first[of "nat n"] first[of 1] zero
    by (auto simp: format_digits_def Let_def list_all_numeral)
qed

lemma pos_to_string_reads:
  assumes "representable x" and "0 < x"
  shows "\<exists>y. parse_unsigned (pos_to_string x) = Some y \<and> fl y = Fin x"
    and "list_all numeral_char (pos_to_string x) \<and> pos_to_string x \<noteq> [] \<and> is_digit (hd (pos_to_string x))"
proof -
  have fx: "fl x = Fin x" using assms(1) by (simp add: representable_def)
  obtain ds n where sd: "shortest_digits x = (ds, n)" by (cases "shortest_digits x")
  then have ds: "all_digits ds" "fl (digits_value ds n) = Fin x"
    using shortest_digits_value[OF assms] by simp_all
  have hd: "is_digit (hd (nat_str m))" for m
    using is_digit_nat_str[of "hd (nat_str m)" m] by simp
  show "\<exists>y. parse_unsigned (pos_to_string x) = Some y \<and> fl y = Fin x"
  proof (cases "x = of_int \<lfloor>x\<rfloor> \<and> x < 2 ^ 53")
    case True
    moreover have "(of_nat (nat \<lfloor>x\<rfloor>) :: rat) = x" using True assms(2) by simp
    ultimately show ?thesis using fx by (simp add: pos_to_string_def)
  next
    case False
    then have "pos_to_string x = format_digits ds n" by (auto simp: pos_to_string_def sd)
    then show ?thesis using parse_format_digits[OF ds(1)] ds(2) by simp
  qed
  show "list_all numeral_char (pos_to_string x) \<and> pos_to_string x \<noteq> [] \<and> is_digit (hd (pos_to_string x))"
    using format_digits_chars[OF ds(1)] hd by (auto simp: pos_to_string_def sd list_all_numeral)
qed

lemma string_to_number_plain:
  assumes "list_all numeral_char s" and "s \<noteq> []"
  shows "string_to_number s = parse_signed s"
proof -
  have "trim s = s" using assms(1) numeral_char_plain by (intro trim_no_space) (auto simp: list_all_iff)
  moreover have "take 2 s = [a, b] \<Longrightarrow> b \<notin> {CHR ''x'', CHR ''X'', CHR ''o'', CHR ''O'', CHR ''b'', CHR ''B''}" for a b
  proof -
    assume "take 2 s = [a, b]"
    then have "b \<in> set (take 2 s)" by simp
    then have "numeral_char b" using assms(1) by (auto simp: list_all_iff dest: in_set_takeD)
    then show ?thesis by (simp only: numeral_char_plain not_False_eq_True)
  qed
  ultimately show ?thesis using assms(2) unfolding string_to_number_def Let_def by auto
qed

lemma parse_signed_digit:
  assumes "is_digit (hd s)" and "s \<noteq> []" and "parse_unsigned s = Some y"
  shows "parse_signed s = fl y"
proof -
  obtain c r where s: "s = c # r" using assms(2) by (cases s) auto
  have c: "c \<noteq> CHR ''+''" "c \<noteq> CHR ''-''" "c \<noteq> CHR ''I''"
    using assms(1) s by (auto simp: is_digit_def)
  then have "parse_signed (c # r) = (case parse_unsigned (c # r) of Some x \<Rightarrow> fl x | None \<Rightarrow> NaN)"
    by (cases "c # r" rule: parse_signed.cases) auto
  then show ?thesis using assms(3) by (simp add: s)
qed

lemma fl_minus_Fin: "fl y = Fin x \<Longrightarrow> fl (- y) = Fin (- x)"
  by (auto simp: fl_def Let_def fl_rat_minus split: if_splits)

text \<open>\<open>Number(String(n))\<close> is \<open>n\<close>, for every finite number.\<close>

lemma string_to_number_to_string:
  assumes "representable x"
  shows "string_to_number (number_to_string (Fin x)) = Fin x"
proof (cases "x < 0")
  case True
  have r: "representable (- x)" "0 < - x" using assms True by (simp_all add: representable_minus)
  obtain y where y: "parse_unsigned (pos_to_string (- x)) = Some y" "fl y = Fin (- x)"
    using pos_to_string_reads(1)[OF r] by blast
  have chars: "list_all numeral_char (CHR ''-'' # pos_to_string (- x))" "pos_to_string (- x) \<noteq> ''Infinity''"
    using pos_to_string_reads(2)[OF r] by (auto simp: is_digit_def)
  have "string_to_number (CHR ''-'' # pos_to_string (- x)) = parse_signed (CHR ''-'' # pos_to_string (- x))"
    using chars(1) by (rule string_to_number_plain) simp
  also have "\<dots> = Fin x" using chars(2) y fl_minus_Fin[OF y(2)] by (simp only: parse_signed.simps(2) if_False option.case) simp
  finally show ?thesis using True by simp
next
  case False
  show ?thesis
  proof (cases "x = 0")
    case True
    then show ?thesis using number_string_roundtrip[of 0] by simp
  next
    case F: False
    with False have x: "0 < x" by simp
    obtain y where y: "parse_unsigned (pos_to_string x) = Some y" "fl y = Fin x"
      using pos_to_string_reads(1)[OF assms x] by blast
    have "string_to_number (pos_to_string x) = parse_signed (pos_to_string x)"
      using pos_to_string_reads(2)[OF assms x] by (intro string_to_number_plain) simp_all
    also have "\<dots> = Fin x"
      using pos_to_string_reads(2)[OF assms x] y by (simp add: parse_signed_digit)
    finally show ?thesis using False by simp
  qed
qed

lemma numeral_chars_number_to_string:
  assumes "representable x"
  shows "list_all numeral_char (number_to_string (Fin x)) \<and> number_to_string (Fin x) \<noteq> []"
proof -
  consider "x < 0" | "x = 0" | "0 < x" by linarith
  then show ?thesis
  proof cases
    case 1
    then have "representable (- x)" "0 < - x" using assms by (simp_all add: representable_minus)
    then show ?thesis using 1 pos_to_string_reads(2)[of "- x"] by simp
  next
    case 2
    then show ?thesis by (simp add: pos_to_string_def nat_str.simps[of 0] digit_char_def numeral_char_def is_digit_def)
  next
    case 3
    then show ?thesis using pos_to_string_reads(2)[OF assms 3] by simp
  qed
qed

lemma trim_number_to_string [simp]:
  assumes "representable x"
  shows "trim (number_to_string (Fin x)) = number_to_string (Fin x)" "number_to_string (Fin x) \<noteq> []"
  using numeral_chars_number_to_string[OF assms] numeral_char_plain
  by (auto simp del: number_to_string.simps simp: list_all_iff intro!: trim_no_space)

section \<open>Rounding error and \<open>toFixed\<close>\<close>

lemma round_even_error: "\<bar>of_int (round_even z) - z\<bar> * 2 \<le> 1"
  using of_int_floor_le[of z] floor_correct[of z] unfolding round_even_def Let_def by (auto simp: abs_if simp del: of_int_floor_le)

lemma fl_rat_error:
  assumes "\<bar>x\<bar> < 2 powi k" and "- 1021 \<le> k"
  shows "\<bar>fl_rat x - x\<bar> * 2 \<le> 2 powi (k - 53)"
proof (cases "x = 0")
  case False
  let ?u = "(2 :: rat) powi ulp_exp x"
  have "2 powi ilog2 \<bar>x\<bar> < (2 :: rat) powi k" using ilog2_bounds(1)[of "\<bar>x\<bar>"] False assms(1) by simp
  then have "ilog2 \<bar>x\<bar> < k" using powi_le_iff[of k "ilog2 \<bar>x\<bar>"] by linarith
  then have u: "?u \<le> 2 powi (k - 53)" using assms(2) by (simp add: powi_le_iff ulp_exp_def)
  have "fl_rat x - x = (of_int (round_even (x / ?u)) - x / ?u) * ?u"
    using False by (simp add: fl_rat_def left_diff_distrib)
  then have "\<bar>fl_rat x - x\<bar> * 2 = \<bar>of_int (round_even (x / ?u)) - x / ?u\<bar> * 2 * ?u" by (simp add: abs_mult)
  also have "\<dots> \<le> 1 * ?u" by (intro mult_right_mono round_even_error) simp
  finally show ?thesis using u by simp
qed simp

lemma nat_of_digits_pad [simp]: "nat_of_digits (pad_start w CHR ''0'' (nat_str n)) = n"
  by (simp add: pad_start_def nat_of_digits_app)

lemma string_to_number_fixed:
  assumes "0 < f"
  shows "string_to_number (fixed_digits f n) = fl (of_nat n / 10 ^ f)"
proof -
  let ?m = "pad_start (Suc f) CHR ''0'' (nat_str n)"
  let ?w = "length ?m - f"
  have m: "list_all is_digit ?m" by (simp add: pad_start_def)
  have w: "0 < ?w" "?w \<le> length ?m" by simp_all
  have d: "list_all is_digit (take ?w ?m)" "list_all is_digit (drop ?w ?m)"
    using m by (auto simp: list_all_iff dest: in_set_takeD in_set_dropD)
  have "?m \<noteq> []" using w(1) by (metis diff_0_eq_0 less_irrefl list.size(3))
  then have a: "all_digits (take ?w ?m)" using d(1) w by (auto simp: all_digits_def)
  then have hd: "is_digit (hd (take ?w ?m))" by (metis all_digits_def list_all_iff list.set_sel(1))
  let ?s = "take ?w ?m @ CHR ''.'' # drop ?w ?m"
  have "parse_unsigned ?s = Some (of_nat n / 10 ^ f)"
    using parse_point[OF a d(2)] by (simp del: length_pad_start) (simp)
  moreover have "string_to_number ?s = parse_signed ?s"
    using d by (intro string_to_number_plain) (simp_all add: list_all_numeral)
  moreover have "is_digit (hd ?s)" "?s \<noteq> []" using hd a by (simp_all add: all_digits_def hd_append)
  ultimately have "string_to_number ?s = fl (of_nat n / 10 ^ f)" by (metis parse_signed_digit)
  moreover have "fixed_digits f n = ?s" using assms unfolding fixed_digits_def Let_def by simp
  ultimately show ?thesis by (simp only:)
qed

text \<open>Rounding twice is rounding once.\<close>

lemma fl_rat_idem: "fl_rat (fl_rat x) = fl_rat x"
proof (cases "x = 0")
  case False
  let ?e = "ulp_exp x"
  let ?z = "x / 2 powi ?e"
  have e: "- 1074 \<le> ?e" "ilog2 \<bar>x\<bar> + 1 \<le> 53 + ?e" by (simp_all add: ulp_exp_def)
  have "\<bar>x\<bar> < 2 powi (ilog2 \<bar>x\<bar> + 1)" using False by (intro ilog2_bounds(2)) simp
  also have "\<dots> \<le> 2 powi (53 + ?e)" using e(2) by (simp only: powi_le_iff)
  also have "\<dots> = of_int (2 ^ 53) * 2 powi ?e" by (subst power_int_add) (simp_all add: power_int_def)
  finally have "\<bar>?z\<bar> \<le> of_int (2 ^ 53)" by (simp add: divide_le_eq)
  then have z: "?z \<le> of_int (2 ^ 53)" "of_int (- (2 ^ 53)) \<le> ?z"
    by (simp_all only: abs_le_iff of_int_minus) linarith
  then have m: "\<bar>round_even ?z\<bar> \<le> 2 ^ 53"
    using round_even_le_int[OF z(1)] round_even_ge_int[OF z(2)] by linarith
  have r: "fl_rat x = of_int (round_even ?z) * 2 powi ?e" using False by (simp add: fl_rat_def)
  show ?thesis
  proof (cases "\<bar>round_even ?z\<bar> < 2 ^ 53")
    case True
    then show ?thesis using r e(1) by (intro fl_rat_exact[of _ "round_even ?z" ?e]) simp_all
  next
    case False
    then have "\<bar>round_even ?z\<bar> = 2 ^ 53" using m by simp
    then have two: "round_even ?z = sgn (round_even ?z) * 2 ^ 52 * 2" by (simp add: sgn_if abs_if split: if_splits)
    have "(2 :: rat) powi (1 + ?e) = 2 * 2 powi ?e" by (simp add: power_int_add)
    then have "fl_rat x = of_int (sgn (round_even ?z) * 2 ^ 52) * 2 powi (1 + ?e)"
      using r two by (metis (no_types, opaque_lifting) mult.assoc of_int_mult of_int_numeral)
    moreover have "\<bar>sgn (round_even ?z) * 2 ^ 52\<bar> < 2 ^ 53" by (simp add: abs_mult abs_sgn_eq)
    ultimately show ?thesis using e(1) by (intro fl_rat_exact[of _ "sgn (round_even ?z) * 2 ^ 52" "1 + ?e"]) simp_all
  qed
qed simp

lemma representable_fl: "fl x = Fin r \<Longrightarrow> representable r"
  by (auto simp: representable_def fl_def Let_def fl_rat_idem split: if_splits)

lemma representable_of_int: "\<bar>n\<bar> < 2 ^ 53 \<Longrightarrow> representable (of_int n)"
  by (simp add: representable_def fl_of_int)

end
