(* ===== verification/Grouping.thy ===== *)
theory Grouping
  imports JS_Decimal
begin

text \<open>
  Aggregation of a list of records into a \<open>Map\<close> of counters, as the monitor does it per time bucket and per
  route, against its specification: the group of a key is the sublist with that key. Also the integer
  arithmetic of time buckets and the order of numeric keys.
\<close>

section \<open>Counting into a map\<close>

definition group_step :: "('a \<Rightarrow> 'k) \<Rightarrow> ('a \<Rightarrow> 's \<Rightarrow> 's) \<Rightarrow> 's \<Rightarrow> 'a \<Rightarrow> ('k, 's) jsmap \<Rightarrow> ('k, 's) jsmap" where
  \<comment> \<open>\<open>if (!m.has(k)) m.set(k, initial)\<close>, then the entry of \<open>k\<close> is updated in place\<close>
  "group_step key bump initial x m =
     map_set (key x) (bump x (case map_get m (key x) of Some s \<Rightarrow> s | None \<Rightarrow> initial)) m"

definition group_of :: "('a \<Rightarrow> 'k) \<Rightarrow> 'a list \<Rightarrow> 'k \<Rightarrow> 'a list" where
  "group_of key xs k = filter (\<lambda>x. key x = k) xs"

lemma map_get_group:
  "map_get (fold (group_step key bump initial) xs []) k =
     (if group_of key xs k = [] then None else Some (fold bump (group_of key xs k) initial))"
  by (induction xs rule: rev_induct) (auto simp: group_step_def group_of_def js_collections)

lemma distinct_group: "distinct (map fst (fold (group_step key bump initial) xs []))"
  by (induction xs rule: rev_induct) (auto simp: group_step_def intro: distinct_update)

lemma keys_group: "fst ` set (fold (group_step key bump initial) xs []) = key ` set xs"
  by (induction xs rule: rev_induct) (auto simp: group_step_def dom_update)

lemma group_entry_iff:
  "(k, s) \<in> set (fold (group_step key bump initial) xs []) \<longleftrightarrow>
     k \<in> key ` set xs \<and> s = fold bump (group_of key xs k) initial"
proof -
  have "(k, s) \<in> set (fold (group_step key bump initial) xs []) \<longleftrightarrow>
      map_get (fold (group_step key bump initial) xs []) k = Some s"
    using distinct_group by (metis map_of_eq_Some_iff)
  moreover have "group_of key xs k = [] \<longleftrightarrow> k \<notin> key ` set xs" by (auto simp: group_of_def filter_empty_conv)
  ultimately show ?thesis by (auto simp: map_get_group)
qed

lemma sum_group_lengths:
  "distinct ks \<Longrightarrow> key ` set xs \<subseteq> set ks \<Longrightarrow> sum_list (map (\<lambda>k. length (group_of key xs k)) ks) = length xs"
proof (induction xs)
  case (Cons x xs)
  have "sum_list (map (\<lambda>k. length (group_of key (x # xs) k)) ks) =
      sum_list (map (\<lambda>k. (if k = key x then 1 else 0) + length (group_of key xs k)) ks)"
    by (intro arg_cong[of _ _ sum_list] map_cong) (auto simp: group_of_def)
  also have "\<dots> = sum_list (map (\<lambda>k. if k = key x then 1 else 0) ks) + length xs"
    using Cons by (simp add: sum_list_addf)
  also have "sum_list (map (\<lambda>k. if k = key x then 1 else 0 :: nat) ks) = 1"
    using Cons.prems by (simp add: sum_list_distinct_conv_sum_set)
  finally show ?case by simp
qed (simp add: group_of_def)

section \<open>Order of numeric keys\<close>

text \<open>\<open>entries.sort(([a], [b]) => a - b)\<close>.\<close>

definition by_key :: "jsnum \<times> 'a \<Rightarrow> jsnum \<times> 'a \<Rightarrow> bool" where
  "by_key p q \<longleftrightarrow> num_less (Fin 0) (num_sub (fst p) (fst q))"

lemma by_key_less:
  assumes "is_double (fst p)" and "is_double (fst q)" and "fst p \<noteq> NaN" and "fst q \<noteq> NaN"
  shows "by_key p q \<longleftrightarrow> fst q < fst p"
  using num_sub_pos_iff[of "fst p" "fst q"] assms by (simp add: by_key_def num_less_iff)

interpretation key_order: comparator "\<lambda>p q :: jsnum \<times> 'a. fst q < fst p"
  by unfold_locales auto

lemma sorted_by_key:
  assumes "\<And>p. p \<in> set ps \<Longrightarrow> is_double (fst p) \<and> fst p \<noteq> NaN" and "distinct (map fst ps)"
  shows "sorted_wrt (<) (map fst (js_sort by_key ps))"
proof -
  let ?gt = "\<lambda>p q :: jsnum \<times> 'a. fst q < fst p"
  have "js_sort by_key ps = js_sort ?gt ps" using assms(1) by (intro js_sort_cong) (simp add: by_key_less)
  moreover have "sorted (map fst (js_sort ?gt ps))"
    using key_order.sorted_js_sort[of ps] by (simp add: sorted_wrt_map not_less)
  moreover have "distinct (map fst (js_sort ?gt ps))"
    using assms(2) by (metis mset_js_sort mset_map mset_eq_imp_distinct_iff)
  ultimately show ?thesis by (simp add: strict_sorted_iff)
qed

section \<open>Whole division of milliseconds\<close>

lemma fl_rat_relative:
  assumes "2 powi (- 1021) \<le> x"
  shows "\<bar>fl_rat x - x\<bar> * 2 ^ 53 \<le> x"
proof -
  have x: "0 < x" using assms powi_pos[of "- 1021"] by linarith
  have "2 powi (- 1021) < (2 :: rat) powi (ilog2 x + 1)" using assms ilog2_bounds(2)[OF x] by linarith
  then have e: "- 1021 \<le> ilog2 x + 1" using powi_le_iff[of "ilog2 x + 1" "- 1021"] by linarith
  have "\<bar>fl_rat x - x\<bar> * 2 \<le> 2 powi (ilog2 x + 1 - 53)"
    using fl_rat_error[of x "ilog2 x + 1"] ilog2_bounds(2)[OF x] x e by simp
  then have "\<bar>fl_rat x - x\<bar> * 2 * 2 ^ 52 \<le> 2 powi (ilog2 x + 1 - 53) * 2 ^ 52" by (rule mult_right_mono) simp
  also have "2 powi (ilog2 x + 1 - 53) * 2 ^ 52 = (2 :: rat) powi (ilog2 x)"
    using power_int_add[of "2 :: rat" "ilog2 x - 52" 52] by (simp add: power_int_def)
  also have "\<dots> \<le> x" using x by (rule ilog2_bounds(1))
  finally show ?thesis by simp
qed

lemma floor_div_exact:
  assumes "0 \<le> n" and "n < 2 ^ 50" and "0 < d" and "d < 2 ^ 50"
  shows "math_floor (num_div (Fin (of_int n)) (Fin (of_int d))) = Fin (of_int (n div d))"
proof (cases "n = 0")
  case True
  then show ?thesis using assms(3) fl_of_int[of 0] by simp
next
  case False
  let ?x = "(of_int n :: rat) / of_int d" and ?q = "n div d"
  have q: "0 \<le> ?q" "?q < 2 ^ 50" using zdiv_mono2[of n 1 d] assms
    by (simp_all add: pos_imp_zdiv_nonneg_iff)
  have lo: "of_int ?q \<le> ?x" and hi: "?x \<le> of_int (?q + 1) - 1 / of_int d"
  proof -
    have n: "n = ?q * d + n mod d" "0 \<le> n mod d" "n mod d \<le> d - 1" using assms(3) by simp_all
    then have "(of_int n :: rat) = of_int ?q * of_int d + of_int (n mod d)" by (metis of_int_add of_int_mult)
    moreover have "(of_int (n mod d) :: rat) \<le> of_int d - 1" using n(3) by (metis of_int_1 of_int_diff of_int_le_iff)
    ultimately have "(of_int n :: rat) \<le> (of_int (?q + 1) - 1 / of_int d) * of_int d" "of_int ?q * of_int d \<le> (of_int n :: rat)"
      using assms(3) n(2) by (simp_all add: left_diff_distrib distrib_right)
    then show "of_int ?q \<le> ?x" "?x \<le> of_int (?q + 1) - 1 / of_int d"
      using assms(3) by (simp_all add: pos_le_divide_eq pos_divide_le_eq)
  qed
  have "fl ?x \<noteq> NaN" by simp
  obtain r where r: "fl ?x = Fin r" "of_int ?q \<le> r"
  proof -
    have "0 \<le> 1 / (of_int d :: rat)" using assms(3) by simp
    then have "?x \<le> of_int (?q + 1)" using hi by linarith
    then show ?thesis using fl_between[OF lo, of "?q + 1"] q that by auto
  qed
  have small: "2 powi (- 1021) \<le> ?x"
  proof -
    have "(2 :: rat) powi (- 1021) \<le> 2 powi (- 50)" by (simp add: powi_le_iff)
    also have "\<dots> = 1 / of_int (2 ^ 50)" by (simp add: power_int_def power_one_over)
    also have "\<dots> \<le> 1 / of_int d"
      using assms(3,4) by (intro divide_left_mono) (simp_all only: of_int_le_iff of_int_0_less_iff, simp_all)
    also have "\<dots> \<le> ?x" using False assms by (intro divide_right_mono) simp_all
    finally show ?thesis .
  qed
  have "\<bar>r - ?x\<bar> * 2 ^ 53 \<le> ?x" using fl_rat_relative[OF small] fl_Fin[OF r(1)] by (simp only:)
  moreover have "(r - ?x) * 2 ^ 53 \<le> \<bar>r - ?x\<bar> * 2 ^ 53" by (intro mult_right_mono) simp_all
  ultimately have "(r - ?x) * 2 ^ 53 \<le> ?x" by (rule order_trans[rotated])
  then have "r - ?x \<le> ?x / 2 ^ 53" by (subst pos_le_divide_eq) simp_all
  also have "\<dots> < 1 / of_int d"
  proof -
    have "(of_int n :: rat) < of_int (2 ^ 53)" using assms(2) by (simp only: of_int_less_iff) simp
    then show ?thesis using assms(3) by (simp add: field_simps)
  qed
  finally have "r < of_int ?q + 1" using hi by simp
  then have "\<lfloor>r\<rfloor> = ?q" using r(2) by (intro floor_unique) simp_all
  then show ?thesis using r(1) assms(3) by simp
qed

end
