(* ===== verification/Failover.thy ===== *)
theory Failover
  imports Types
begin

text \<open>
  The failover form of \<open>components/routes-page.tsx\<close>: from the stored policy to the form's strings, from
  the strings back to a policy within the server's limits, and the editing of the custom rules. The
  translator \<open>t\<close> that renders the messages is a parameter.
\<close>

section \<open>The form\<close>

record FallbackRuleDraft =
  frd_model :: string
  frd_fallbacksText :: string

record FailoverFormState =
  ff_enabled :: bool
  ff_retryAttempts :: string
  ff_modelFallbackMode :: ModelFallbackMode
  ff_maxFallbackAttempts :: string
  ff_customModelFallbacks :: "FallbackRuleDraft list"
  ff_retryOnTimeout :: bool
  ff_retryOnNetworkError :: bool
  ff_retryOn429 :: bool
  ff_retryOn5xx :: bool

definition newline :: string where
  "newline = [CHR 0x0A]"

definition toFailoverForm :: "'a GatewayFailoverPolicy_scheme \<Rightarrow> FailoverFormState" where
  "toFailoverForm policy =
     \<lparr>ff_enabled = fp_enabled policy,
      ff_retryAttempts = int_str (fp_retryAttempts policy),
      ff_modelFallbackMode = fp_modelFallbackMode policy,
      ff_maxFallbackAttempts = int_str (fp_maxFallbackAttempts policy),
      ff_customModelFallbacks = map (\<lambda>rule. \<lparr>frd_model = cf_model rule,
          frd_fallbacksText = js_join newline (cf_fallbacks rule)\<rparr>) (fp_customModelFallbacks policy),
      ff_retryOnTimeout = fp_retryOnTimeout policy,
      ff_retryOnNetworkError = fp_retryOnNetworkError policy,
      ff_retryOn429 = (429 \<in> set (fp_retryOnStatusCodes policy)),
      ff_retryOn5xx = (Range_5xx \<in> set (fp_retryOnStatusRanges policy))\<rparr>"

section \<open>Validation\<close>

text \<open>The number is integral after \<open>Math.trunc\<close>, so the result is an \<open>int\<close>.\<close>

definition parseBoundedInteger :: "translator \<Rightarrow> string \<Rightarrow> string \<Rightarrow> IntLimit \<Rightarrow> int result" where
  "parseBoundedInteger t label val limit =
     (let trimmed = trim val
      in if trimmed = [] then throw (t ''routes.failoverValidationRequired'' [(''label'', JStr label)])
         else
           (case string_to_number trimmed of
              Fin parsed \<Rightarrow>
                (let normalized = trunc_rat parsed
                 in if normalized < lim_min limit \<or> lim_max limit < normalized
                    then throw (t ''routes.failoverValidationRange'' [(''label'', JStr label),
                      (''min'', int_val (lim_min limit)), (''max'', int_val (lim_max limit))])
                    else return normalized)
            | _ \<Rightarrow> throw (t ''routes.failoverValidationNumber'' [(''label'', JStr label)])))"

definition fallback_separator :: "char \<Rightarrow> bool" where
  \<comment> \<open>\<open>/[\n,]/\<close>\<close>
  "fallback_separator c \<longleftrightarrow> c = CHR 0x0A \<or> c = CHR '',''"

definition normalize_rule :: "FallbackRuleDraft \<Rightarrow> CustomModelFallbackRule" where
  "normalize_rule rule =
     \<lparr>cf_model = trim (frd_model rule),
      cf_fallbacks = filter (\<lambda>item. item \<noteq> [])
        (map trim (split_on fallback_separator (frd_fallbacksText rule)))\<rparr>"

definition check_rule :: "translator \<Rightarrow> FailoverLimits \<Rightarrow> nat \<times> CustomModelFallbackRule \<Rightarrow> CustomModelFallbackRule result" where
  \<comment> \<open>the body of \<open>normalized.map((rule, index) => ...)\<close>\<close>
  "check_rule t limits ir =
     (let rule = snd ir;
          fallbacks = new_Set (cf_fallbacks rule);
          per_rule = fl_customModelFallbacksPerRule limits
      in if cf_model rule = [] then
           throw (t ''routes.failoverCustomValidationModelRequired'' [(''index'', int_val (int (fst ir) + 1))])
         else if int (length fallbacks) < lim_min per_rule then
           throw (t ''routes.failoverCustomValidationFallbackRequired'' [(''model'', JStr (cf_model rule))])
         else if lim_max per_rule < int (length fallbacks) then
           throw (t ''routes.failoverCustomValidationFallbackCount''
             [(''model'', JStr (cf_model rule)), (''max'', int_val (lim_max per_rule))])
         else return \<lparr>cf_model = cf_model rule, cf_fallbacks = fallbacks\<rparr>)"

definition parseCustomModelFallbacks ::
    "translator \<Rightarrow> FallbackRuleDraft list \<Rightarrow> FailoverLimits \<Rightarrow> CustomModelFallbackRule list result" where
  "parseCustomModelFallbacks t rules limits =
     (let normalized = filter (\<lambda>rule. cf_model rule \<noteq> [] \<or> cf_fallbacks rule \<noteq> []) (map normalize_rule rules)
      in if lim_max (fl_customModelFallbackRules limits) < int (length normalized) then
           throw (t ''routes.failoverCustomValidationRuleCount''
             [(''max'', int_val (lim_max (fl_customModelFallbackRules limits)))])
         else map_result (check_rule t limits) (enumerate 0 normalized))"

text \<open>The policy \<open>handleFailoverSave\<close> sends.\<close>

definition policy_to_save ::
    "translator \<Rightarrow> FailoverFormState \<Rightarrow> FailoverLimits \<Rightarrow> GatewayFailoverPolicy result" where
  "policy_to_save t form limits =
     bind_result (parseBoundedInteger t (t ''routes.failoverRetryAttempts'' []) (ff_retryAttempts form)
         (fl_retryAttempts limits)) (\<lambda>retryAttempts.
     bind_result (parseBoundedInteger t (t ''routes.failoverMaxFallbackAttempts'' []) (ff_maxFallbackAttempts form)
         (fl_maxFallbackAttempts limits)) (\<lambda>maxFallbackAttempts.
     bind_result (parseCustomModelFallbacks t (ff_customModelFallbacks form) limits) (\<lambda>customModelFallbacks.
       return
         \<lparr>fp_enabled = ff_enabled form,
          fp_retryAttempts = retryAttempts,
          fp_modelFallbackMode = ff_modelFallbackMode form,
          fp_maxFallbackAttempts = maxFallbackAttempts,
          fp_customModelFallbacks = customModelFallbacks,
          fp_retryOnTimeout = ff_retryOnTimeout form,
          fp_retryOnNetworkError = ff_retryOnNetworkError form,
          fp_retryOnStatusCodes = (if ff_retryOn429 form then [408, 429] else [408]),
          fp_retryOnStatusRanges = (if ff_retryOn5xx form then [Range_5xx] else [])\<rparr>)))"

section \<open>Editing the custom rules\<close>

text \<open>The inputs of the form; without a loaded policy they do nothing.\<close>

datatype FailoverInput =
    Switch_enabled bool
  | Choose_mode ModelFallbackMode
  | Type_retryAttempts string
  | Type_maxFallbackAttempts string
  | Check_timeout bool
  | Check_network bool
  | Check_429 bool
  | Check_5xx bool

fun failover_input :: "FailoverInput \<Rightarrow> FailoverFormState \<Rightarrow> FailoverFormState" where
  "failover_input (Switch_enabled v) f = f\<lparr>ff_enabled := v\<rparr>"
| "failover_input (Choose_mode v) f = f\<lparr>ff_modelFallbackMode := v\<rparr>"
| "failover_input (Type_retryAttempts v) f = f\<lparr>ff_retryAttempts := v\<rparr>"
| "failover_input (Type_maxFallbackAttempts v) f = f\<lparr>ff_maxFallbackAttempts := v\<rparr>"
| "failover_input (Check_timeout v) f = f\<lparr>ff_retryOnTimeout := v\<rparr>"
| "failover_input (Check_network v) f = f\<lparr>ff_retryOnNetworkError := v\<rparr>"
| "failover_input (Check_429 v) f = f\<lparr>ff_retryOn429 := v\<rparr>"
| "failover_input (Check_5xx v) f = f\<lparr>ff_retryOn5xx := v\<rparr>"

definition edit_failover :: "FailoverInput \<Rightarrow> FailoverFormState option \<Rightarrow> FailoverFormState option" where
  "edit_failover i current = map_option (failover_input i) current"

text \<open>\<open>None\<close> is the form before the policy has loaded.\<close>

definition addCustomFallbackRule :: "FailoverFormState option \<Rightarrow> FailoverFormState option" where
  "addCustomFallbackRule = map_option (\<lambda>current. current\<lparr>ff_customModelFallbacks :=
     ff_customModelFallbacks current @ [\<lparr>frd_model = [], frd_fallbacksText = []\<rparr>]\<rparr>)"

record RulePatch =
  rp_model :: "string option"
  rp_fallbacksText :: "string option"

definition patch_rule :: "RulePatch \<Rightarrow> FallbackRuleDraft \<Rightarrow> FallbackRuleDraft" where
  "patch_rule patch rule =
     \<lparr>frd_model = (case rp_model patch of Some m \<Rightarrow> m | None \<Rightarrow> frd_model rule),
      frd_fallbacksText = (case rp_fallbacksText patch of Some f \<Rightarrow> f | None \<Rightarrow> frd_fallbacksText rule)\<rparr>"

definition updateCustomFallbackRule :: "nat \<Rightarrow> RulePatch \<Rightarrow> FailoverFormState option \<Rightarrow> FailoverFormState option" where
  "updateCustomFallbackRule index patch = map_option (\<lambda>current. current\<lparr>ff_customModelFallbacks :=
     map (\<lambda>(ruleIndex, rule). if ruleIndex = index then patch_rule patch rule else rule)
       (enumerate 0 (ff_customModelFallbacks current))\<rparr>)"

definition removeCustomFallbackRule :: "nat \<Rightarrow> FailoverFormState option \<Rightarrow> FailoverFormState option" where
  "removeCustomFallbackRule index = map_option (\<lambda>current. current\<lparr>ff_customModelFallbacks :=
     map snd (filter (\<lambda>(ruleIndex, _). ruleIndex \<noteq> index) (enumerate 0 (ff_customModelFallbacks current)))\<rparr>)"

section \<open>Parsing lemmas\<close>

lemma trunc_rat_of_int [simp]: "trunc_rat (of_int n) = n"
  by (simp add: trunc_rat_def)

lemma parseBoundedInteger_within:
  "parseBoundedInteger t label s limit = Inr n \<Longrightarrow> lim_min limit \<le> n \<and> n \<le> lim_max limit"
  by (auto simp: parseBoundedInteger_def Let_def result_simps split: if_splits jsnum.splits)

lemma parseBoundedInteger_int_str:
  assumes "0 \<le> n" "n < 2 ^ 53" "lim_min limit \<le> n" "n \<le> lim_max limit"
  shows "parseBoundedInteger t label (int_str n) limit = Inr n"
proof -
  have s: "int_str n = nat_str (nat n)" using assms(1) by (simp add: int_str_def)
  have "js_nat (nat n) = Fin (of_int n)"
    using assms(1,2) js_nat_exact [of "nat n"] by (simp add: of_nat_nat nat_less_iff)
  then show ?thesis
    using assms(3,4) by (simp add: parseBoundedInteger_def Let_def s result_simps)
qed

lemma check_rule_sound:
  assumes "check_rule t limits ir = Inr r"
  shows "cf_model r = cf_model (snd ir) \<and> cf_model r \<noteq> [] \<and> distinct (cf_fallbacks r) \<and>
    set (cf_fallbacks r) = set (cf_fallbacks (snd ir)) \<and>
    lim_min (fl_customModelFallbacksPerRule limits) \<le> int (length (cf_fallbacks r)) \<and>
    int (length (cf_fallbacks r)) \<le> lim_max (fl_customModelFallbacksPerRule limits)"
  using assms by (auto simp: check_rule_def Let_def result_simps split: if_splits)

lemma normalize_rule_clean:
  "trim (cf_model (normalize_rule r)) = cf_model (normalize_rule r)"
  "f \<in> set (cf_fallbacks (normalize_rule r)) \<Longrightarrow> f \<noteq> [] \<and> trim f = f"
  by (auto simp: normalize_rule_def)

lemma parse_rules_sound:
  assumes "parseCustomModelFallbacks t rules limits = Inr rs"
  shows "int (length rs) \<le> lim_max (fl_customModelFallbackRules limits)"
    and "r \<in> set rs \<Longrightarrow> cf_model r \<noteq> [] \<and> trim (cf_model r) = cf_model r \<and> distinct (cf_fallbacks r) \<and>
      (\<forall>f \<in> set (cf_fallbacks r). f \<noteq> [] \<and> trim f = f) \<and>
      lim_min (fl_customModelFallbacksPerRule limits) \<le> int (length (cf_fallbacks r)) \<and>
      int (length (cf_fallbacks r)) \<le> lim_max (fl_customModelFallbacksPerRule limits)"
proof -
  let ?n = "filter (\<lambda>rule. cf_model rule \<noteq> [] \<or> cf_fallbacks rule \<noteq> []) (map normalize_rule rules)"
  have len: "int (length ?n) \<le> lim_max (fl_customModelFallbackRules limits)"
    and map: "map_result (check_rule t limits) (enumerate 0 ?n) = Inr rs"
    using assms by (auto simp: parseCustomModelFallbacks_def Let_def throw_def split: if_splits)
  show "int (length rs) \<le> lim_max (fl_customModelFallbackRules limits)"
    using len map_result_Inr_length [OF map] by simp
  assume "r \<in> set rs"
  then obtain ir where ir: "ir \<in> set (enumerate 0 ?n)" and c: "check_rule t limits ir = Inr r"
    using map_result_Inr_set [OF map] by blast
  have "snd ir \<in> set (map snd (enumerate 0 ?n))"
    unfolding set_map using ir by (rule imageI)
  then have "snd ir \<in> set ?n" by (simp only: map_snd_enumerate)
  then obtain d where "snd ir = normalize_rule d" by auto
  then show "cf_model r \<noteq> [] \<and> trim (cf_model r) = cf_model r \<and> distinct (cf_fallbacks r) \<and>
      (\<forall>f \<in> set (cf_fallbacks r). f \<noteq> [] \<and> trim f = f) \<and>
      lim_min (fl_customModelFallbacksPerRule limits) \<le> int (length (cf_fallbacks r)) \<and>
      int (length (cf_fallbacks r)) \<le> lim_max (fl_customModelFallbacksPerRule limits)"
    using check_rule_sound [OF c] normalize_rule_clean(1) [of d] normalize_rule_clean(2) [of _ d] by auto
qed

lemma split_on_join_sep:
  assumes "P c" and "ss \<noteq> []" and "\<forall>s \<in> set ss. \<forall>x \<in> set s. \<not> P x"
  shows "split_on P (js_join [c] ss) = ss"
  using assms(2,3)
proof (induction ss)
  case (Cons s ss)
  have "split_on P s = [s]" using Cons.prems by (intro split_on_no_sep) auto
  moreover have "split_on P (s @ c # t) = s # split_on P t" for t
    using Cons.prems assms(1) by (intro split_on_append) auto
  ultimately show ?case
    using Cons by (cases "ss = []") (auto simp: js_join_Cons)
qed simp

text \<open>A rule the form can show: what the server stores after a save.\<close>

definition clean_rule :: "FailoverLimits \<Rightarrow> CustomModelFallbackRule \<Rightarrow> bool" where
  "clean_rule limits r \<longleftrightarrow>
     cf_model r \<noteq> [] \<and> trim (cf_model r) = cf_model r \<and> distinct (cf_fallbacks r) \<and>
     (\<forall>f \<in> set (cf_fallbacks r). f \<noteq> [] \<and> trim f = f \<and> (\<forall>c \<in> set f. \<not> fallback_separator c)) \<and>
     lim_min (fl_customModelFallbacksPerRule limits) \<le> int (length (cf_fallbacks r)) \<and>
     int (length (cf_fallbacks r)) \<le> lim_max (fl_customModelFallbacksPerRule limits)"

definition rule_draft :: "CustomModelFallbackRule \<Rightarrow> FallbackRuleDraft" where
  "rule_draft rule = \<lparr>frd_model = cf_model rule, frd_fallbacksText = js_join newline (cf_fallbacks rule)\<rparr>"

lemma normalize_rule_draft:
  assumes "clean_rule limits r"
  shows "normalize_rule (rule_draft r) = r"
proof -
  have clean: "map trim (cf_fallbacks r) = cf_fallbacks r" "filter (\<lambda>x. x \<noteq> []) (cf_fallbacks r) = cf_fallbacks r"
    using assms by (auto simp: clean_rule_def intro: map_idI)
  have "filter (\<lambda>x. x \<noteq> []) (map trim (split_on fallback_separator (js_join newline (cf_fallbacks r)))) = cf_fallbacks r"
  proof (cases "cf_fallbacks r = []")
    case False
    then have "split_on fallback_separator (js_join newline (cf_fallbacks r)) = cf_fallbacks r"
      unfolding newline_def using assms
      by (intro split_on_join_sep) (auto simp: clean_rule_def fallback_separator_def)
    then show ?thesis by (simp only: clean)
  qed simp
  then show ?thesis
    using assms by (simp add: normalize_rule_def rule_draft_def clean_rule_def)
qed

lemma check_rule_clean: "clean_rule limits (snd ir) \<Longrightarrow> check_rule t limits ir = Inr (snd ir)"
  by (simp add: check_rule_def clean_rule_def new_Set_id Let_def result_simps)

lemma map_result_snd:
  assumes "\<forall>x \<in> set xs. f x = Inr (snd x)"
  shows "map_result f xs = Inr (map snd xs)"
  using assms by (induction xs) simp_all

lemma parse_rule_drafts:
  assumes "\<forall>r \<in> set rs. clean_rule limits r"
    and "int (length rs) \<le> lim_max (fl_customModelFallbackRules limits)"
  shows "parseCustomModelFallbacks t (map rule_draft rs) limits = Inr rs"
proof -
  have "map normalize_rule (map rule_draft rs) = rs"
    unfolding map_map by (rule map_idI) (use assms(1) in \<open>auto simp: normalize_rule_draft\<close>)
  moreover have "filter (\<lambda>rule. cf_model rule \<noteq> [] \<or> cf_fallbacks rule \<noteq> []) rs = rs"
    using assms(1) by (auto simp: clean_rule_def)
  moreover have "map_result (check_rule t limits) (enumerate 0 rs) = Inr rs"
  proof -
    have "snd ir \<in> set rs" if "ir \<in> set (enumerate 0 rs)" for ir
      using imageI [OF that, of snd] by (simp only: map_snd_enumerate flip: set_map)
    then have "map_result (check_rule t limits) (enumerate 0 rs) = Inr (map snd (enumerate 0 rs))"
      using assms(1) by (intro map_result_snd) (auto simp: check_rule_clean)
    then show ?thesis by (simp only: map_snd_enumerate)
  qed
  ultimately show ?thesis
    using assms(2) by (simp add: parseCustomModelFallbacks_def Let_def)
qed

lemma updateCustomFallbackRule_nth:
  "map_option ff_customModelFallbacks (updateCustomFallbackRule n patch (Some form)) =
     Some (if n < length (ff_customModelFallbacks form)
           then (ff_customModelFallbacks form)[n := patch_rule patch (ff_customModelFallbacks form ! n)]
           else ff_customModelFallbacks form)"
  unfolding updateCustomFallbackRule_def
  by (auto intro!: nth_equalityI simp: nth_enumerate_eq nth_list_update)

lemma toFailoverForm_simps:
  "ff_enabled (toFailoverForm p) = fp_enabled p"
  "ff_retryAttempts (toFailoverForm p) = int_str (fp_retryAttempts p)"
  "ff_modelFallbackMode (toFailoverForm p) = fp_modelFallbackMode p"
  "ff_maxFallbackAttempts (toFailoverForm p) = int_str (fp_maxFallbackAttempts p)"
  "ff_customModelFallbacks (toFailoverForm p) = map rule_draft (fp_customModelFallbacks p)"
  "ff_retryOnTimeout (toFailoverForm p) = fp_retryOnTimeout p"
  "ff_retryOnNetworkError (toFailoverForm p) = fp_retryOnNetworkError p"
  "ff_retryOn429 (toFailoverForm p) \<longleftrightarrow> 429 \<in> set (fp_retryOnStatusCodes p)"
  "ff_retryOn5xx (toFailoverForm p) \<longleftrightarrow> Range_5xx \<in> set (fp_retryOnStatusRanges p)"
  by (simp_all add: toFailoverForm_def rule_draft_def)

section \<open>Properties\<close>

text \<open>
  Property C18. Whatever is typed into the failover form, a policy that is sent is one the server's limits
  allow: both numbers within their bounds, no more custom rules than allowed, each with a trimmed,
  non-empty model and distinct, trimmed, non-empty fallbacks in allowed number.
\<close>
theorem saved_policy_within_limits:
  assumes "policy_to_save t form limits = Inr p"
  shows "lim_min (fl_retryAttempts limits) \<le> fp_retryAttempts p \<and>
    fp_retryAttempts p \<le> lim_max (fl_retryAttempts limits) \<and>
    lim_min (fl_maxFallbackAttempts limits) \<le> fp_maxFallbackAttempts p \<and>
    fp_maxFallbackAttempts p \<le> lim_max (fl_maxFallbackAttempts limits) \<and>
    int (length (fp_customModelFallbacks p)) \<le> lim_max (fl_customModelFallbackRules limits) \<and>
    (\<forall>r \<in> set (fp_customModelFallbacks p).
       cf_model r \<noteq> [] \<and> trim (cf_model r) = cf_model r \<and> distinct (cf_fallbacks r) \<and>
       (\<forall>f \<in> set (cf_fallbacks r). f \<noteq> [] \<and> trim f = f) \<and>
       lim_min (fl_customModelFallbacksPerRule limits) \<le> int (length (cf_fallbacks r)) \<and>
       int (length (cf_fallbacks r)) \<le> lim_max (fl_customModelFallbacksPerRule limits))"
proof -
  obtain ra ma rs where
    "parseBoundedInteger t (t ''routes.failoverRetryAttempts'' []) (ff_retryAttempts form) (fl_retryAttempts limits) = Inr ra"
    "parseBoundedInteger t (t ''routes.failoverMaxFallbackAttempts'' []) (ff_maxFallbackAttempts form) (fl_maxFallbackAttempts limits) = Inr ma"
    and rs: "parseCustomModelFallbacks t (ff_customModelFallbacks form) limits = Inr rs"
    and p: "fp_retryAttempts p = ra" "fp_maxFallbackAttempts p = ma" "fp_customModelFallbacks p = rs"
    using assms by (auto simp: policy_to_save_def result_simps)
  then show ?thesis
    using parseBoundedInteger_within parse_rules_sound [OF rs] by (simp add: p)
qed

text \<open>
  Property C19. Saving the failover form unedited sends back the stored policy, when that policy is one the
  form can express: numbers and rules within the limits, rules in the form a save leaves them, and the
  status codes 408 with or without 429.
\<close>
theorem failover_form_roundtrip:
  assumes "0 \<le> fp_retryAttempts p \<and> fp_retryAttempts p < 2 ^ 53 \<and>
      lim_min (fl_retryAttempts limits) \<le> fp_retryAttempts p \<and> fp_retryAttempts p \<le> lim_max (fl_retryAttempts limits)"
    and "0 \<le> fp_maxFallbackAttempts p \<and> fp_maxFallbackAttempts p < 2 ^ 53 \<and>
      lim_min (fl_maxFallbackAttempts limits) \<le> fp_maxFallbackAttempts p \<and>
      fp_maxFallbackAttempts p \<le> lim_max (fl_maxFallbackAttempts limits)"
    and "\<forall>r \<in> set (fp_customModelFallbacks p). clean_rule limits r"
    and "int (length (fp_customModelFallbacks p)) \<le> lim_max (fl_customModelFallbackRules limits)"
    and "fp_retryOnStatusCodes p \<in> {[408], [408, 429]}" and "fp_retryOnStatusRanges p \<in> {[], [Range_5xx]}"
  shows "policy_to_save t (toFailoverForm p) limits = Inr p"
proof -
  have "policy_to_save t (toFailoverForm p) limits = Inr
      \<lparr>fp_enabled = fp_enabled p, fp_retryAttempts = fp_retryAttempts p,
       fp_modelFallbackMode = fp_modelFallbackMode p, fp_maxFallbackAttempts = fp_maxFallbackAttempts p,
       fp_customModelFallbacks = fp_customModelFallbacks p, fp_retryOnTimeout = fp_retryOnTimeout p,
       fp_retryOnNetworkError = fp_retryOnNetworkError p,
       fp_retryOnStatusCodes = (if 429 \<in> set (fp_retryOnStatusCodes p) then [408, 429] else [408]),
       fp_retryOnStatusRanges = (if Range_5xx \<in> set (fp_retryOnStatusRanges p) then [Range_5xx] else [])\<rparr>"
    using assms(1,2)
    by (simp add: policy_to_save_def parse_rule_drafts [OF assms(3,4)] toFailoverForm_simps
        parseBoundedInteger_int_str result_simps)
  then show ?thesis using assms(5,6) by (auto simp: result_simps)
qed

text \<open>
  Saving loses retry codes: whatever status codes the stored policy retries on, a save of the
  form sends 408, and 429 exactly when it was on; a policy that retries on any other code, or not on 408,
  is silently changed even when nothing was edited.
\<close>
theorem save_forgets_status_codes:
  assumes "policy_to_save t (toFailoverForm p) limits = Inr q"
  shows "set (fp_retryOnStatusCodes q) = {408} \<union> ({429} \<inter> set (fp_retryOnStatusCodes p)) \<and>
    (set (fp_retryOnStatusCodes q) = set (fp_retryOnStatusCodes p) \<longleftrightarrow>
       408 \<in> set (fp_retryOnStatusCodes p) \<and> set (fp_retryOnStatusCodes p) \<subseteq> {408, 429})"
proof -
  have q: "fp_retryOnStatusCodes q = (if 429 \<in> set (fp_retryOnStatusCodes p) then [408, 429] else [408])"
    using assms by (auto simp: policy_to_save_def toFailoverForm_simps result_simps)
  then have "set (fp_retryOnStatusCodes q) = {408} \<union> ({429} \<inter> set (fp_retryOnStatusCodes p))"
    by simp
  moreover have "{408} \<union> ({429} \<inter> S) = S \<longleftrightarrow> 408 \<in> S \<and> S \<subseteq> {408, 429}" for S :: "int set"
    by auto
  ultimately show ?thesis by simp
qed

definition sample_limits :: FailoverLimits where
  "sample_limits = \<lparr>fl_retryAttempts = \<lparr>lim_min = 0, lim_max = 5\<rparr>, fl_maxFallbackAttempts = \<lparr>lim_min = 0, lim_max = 10\<rparr>,
     fl_customModelFallbackRules = \<lparr>lim_min = 0, lim_max = 50\<rparr>,
     fl_customModelFallbacksPerRule = \<lparr>lim_min = 1, lim_max = 10\<rparr>\<rparr>"

definition sample_failover :: "int list \<Rightarrow> GatewayFailoverPolicy" where
  "sample_failover codes = \<lparr>fp_enabled = True, fp_retryAttempts = 1, fp_modelFallbackMode = Same_model,
     fp_maxFallbackAttempts = 2,
     fp_customModelFallbacks = [\<lparr>cf_model = ''gpt-4'', cf_fallbacks = [''a:m'', ''Auto'']\<rparr>],
     fp_retryOnTimeout = True, fp_retryOnNetworkError = True, fp_retryOnStatusCodes = codes,
     fp_retryOnStatusRanges = [Range_5xx]\<rparr>"

lemma sample_failover_save:
  "policy_to_save (\<lambda>k _. k) (toFailoverForm (sample_failover codes)) sample_limits =
     Inr (sample_failover (if 429 \<in> set codes then [408, 429] else [408]))"
proof -
  have "parseCustomModelFallbacks (\<lambda>k _. k) (map rule_draft (fp_customModelFallbacks (sample_failover codes))) sample_limits =
      Inr (fp_customModelFallbacks (sample_failover codes))"
    by (rule parse_rule_drafts) (auto simp: sample_failover_def clean_rule_def sample_limits_def trim_def
        is_space_def fallback_separator_def)
  then show ?thesis
    by (simp add: policy_to_save_def toFailoverForm_simps)
      (simp add: sample_failover_def sample_limits_def parseBoundedInteger_int_str result_simps)
qed

theorem saved_policy_within_limits_witness:
  "fp_retryAttempts (sample_failover [408]) \<le> lim_max (fl_retryAttempts sample_limits)"
  using saved_policy_within_limits [OF sample_failover_save [of "[408]", simplified]] by simp

theorem failover_form_roundtrip_witness:
  "policy_to_save (\<lambda>k _. k) (toFailoverForm (sample_failover [408, 429])) sample_limits =
     Inr (sample_failover [408, 429])"
  by (rule failover_form_roundtrip)
    (auto simp: sample_failover_def clean_rule_def sample_limits_def trim_def is_space_def
      fallback_separator_def)

theorem save_forgets_status_codes_witness:
  "fp_retryOnStatusCodes (sample_failover [408]) \<noteq> [503] \<and>
   set (fp_retryOnStatusCodes (sample_failover [408])) \<noteq> set (fp_retryOnStatusCodes (sample_failover [503]))"
  using save_forgets_status_codes [OF sample_failover_save [of "[503]", simplified]]
  by (simp add: sample_failover_def)

end
