(* ===== verification/Monitor.thy ===== *)
theory Monitor
  imports Grouping Loaders Requests Failover
begin

text \<open>
  \<open>components/dashboard-page.tsx\<close>: what the monitor computes from the overview, the route statistics and the
  latest requests (loaded by \<open>useDashboardStats\<close>, theory \<open>Loaders\<close>). The calendar of a time is an argument.
\<close>

section \<open>The request trend\<close>

fun bucketSizeMs :: "UsageRange \<Rightarrow> int" where
  "bucketSizeMs Range_1h = 5 * 60 * 1000"
| "bucketSizeMs Range_24h = 60 * 60 * 1000"
| "bucketSizeMs Range_72h = 3 * 60 * 60 * 1000"
| "bucketSizeMs Range_7d = 24 * 60 * 60 * 1000"
| "bucketSizeMs Range_30d = 24 * 60 * 60 * 1000"
| "bucketSizeMs Range_all = 7 * 24 * 60 * 60 * 1000"

definition tsMs :: "ConsoleRequestListItem \<Rightarrow> jsnum" where
  \<comment> \<open>times before 1e12 are seconds\<close>
  "tsMs req =
     (if rq_created_at req < 10 ^ 12 then num_mul (js_int (rq_created_at req)) (Fin 1000)
      else js_int (rq_created_at req))"

definition bucket :: "int \<Rightarrow> ConsoleRequestListItem \<Rightarrow> jsnum" where
  "bucket width req =
     num_mul (math_floor (num_div (tsMs req) (Fin (of_int width)))) (Fin (of_int width))"

text \<open>Counters stay far below \<open>2^53\<close>; the latency total is a sum of doubles.\<close>

record TrendEntry =
  te_total :: nat
  te_errors :: nat
  te_totalLatency :: jsnum
  te_latencyCount :: nat

definition trend_zero :: TrendEntry where
  "trend_zero = \<lparr>te_total = 0, te_errors = 0, te_totalLatency = Fin 0, te_latencyCount = 0\<rparr>"

definition failed_request :: "ConsoleRequestListItem \<Rightarrow> bool" where
  "failed_request req = (case rq_response_status req of None \<Rightarrow> True | Some s \<Rightarrow> 400 \<le> s)"

definition trend_bump :: "ConsoleRequestListItem \<Rightarrow> TrendEntry \<Rightarrow> TrendEntry" where
  "trend_bump req e0 =
     (let e1 = e0\<lparr>te_total := te_total e0 + 1\<rparr>;
          e2 = (if failed_request req then e1\<lparr>te_errors := te_errors e1 + 1\<rparr> else e1)
      in case rt_duration_ms (rq_response_timing req) of
           None \<Rightarrow> e2
         | Some d \<Rightarrow> e2\<lparr>te_totalLatency := num_add (te_totalLatency e2) (js_int d),
                      te_latencyCount := te_latencyCount e2 + 1\<rparr>)"

text \<open>\<open>new Date(ts)\<close> in local time: month from 0, day, hours, minutes.\<close>

record DateParts =
  dp_month :: nat
  dp_date :: nat
  dp_hours :: nat
  dp_minutes :: nat

definition pad2 :: "nat \<Rightarrow> string" where
  "pad2 n = pad_start 2 CHR ''0'' (nat_str n)"

fun trend_label :: "UsageRange \<Rightarrow> DateParts \<Rightarrow> string" where
  "trend_label Range_1h d = pad2 (dp_hours d) @ '':'' @ pad2 (dp_minutes d)"
| "trend_label Range_24h d =
     nat_str (dp_month d + 1) @ ''/'' @ nat_str (dp_date d) @ '' '' @ pad2 (dp_hours d) @ '':00''"
| "trend_label Range_72h d =
     nat_str (dp_month d + 1) @ ''/'' @ nat_str (dp_date d) @ '' '' @ pad2 (dp_hours d) @ '':00''"
| "trend_label _ d = nat_str (dp_month d + 1) @ ''/'' @ nat_str (dp_date d)"

text \<open>\<open>((total - errors) / total) * 100\<close>, or 0 without requests.\<close>

definition success_percent :: "nat \<Rightarrow> nat \<Rightarrow> jsnum" where
  "success_percent tot errors =
     (if 0 < tot
      then num_mul (num_div (num_sub (js_nat tot) (js_nat errors)) (js_nat tot)) (Fin 100) else Fin 0)"

record TrendPoint =
  tp_bucket :: string
  tp_total :: nat
  tp_errors :: nat
  tp_successRate :: jsnum
  tp_avgLatency :: jsnum

definition trend_point :: "(jsnum \<Rightarrow> DateParts) \<Rightarrow> UsageRange \<Rightarrow> jsnum \<times> TrendEntry \<Rightarrow> TrendPoint" where
  "trend_point date_of rng p =
     (let data = snd p
      in \<lparr>tp_bucket = trend_label rng (date_of (fst p)), tp_total = te_total data, tp_errors = te_errors data,
          tp_successRate = success_percent (te_total data) (te_errors data),
          tp_avgLatency = (if 0 < te_latencyCount data
            then num_div (te_totalLatency data) (js_nat (te_latencyCount data)) else Fin 0)\<rparr>)"

definition trend_entries :: "UsageRange \<Rightarrow> ConsoleRequestListItem list \<Rightarrow> (jsnum \<times> TrendEntry) list" where
  "trend_entries rng requests =
     js_sort by_key (fold (group_step (bucket (bucketSizeMs rng)) trend_bump trend_zero) requests [])"

definition trendData ::
    "(jsnum \<Rightarrow> DateParts) \<Rightarrow> UsageRange \<Rightarrow> ConsoleRequestListItem list \<Rightarrow> TrendPoint list" where
  "trendData date_of rng requests =
     (if requests = [] then [] else map (trend_point date_of rng) (trend_entries rng requests))"

section \<open>The sparkline of a route\<close>

definition hour_ms :: int where
  "hour_ms = 60 * 60 * 1000"

definition hour_count :: "ConsoleRequestListItem \<Rightarrow> (jsnum, nat) jsmap \<Rightarrow> (jsnum, nat) jsmap" where
  \<comment> \<open>\<open>m.set(bucket, (m.get(bucket) ?? 0) + 1)\<close>\<close>
  "hour_count = group_step (bucket hour_ms) (\<lambda>_ n. n + 1) 0"

definition slice_last :: "nat \<Rightarrow> 'a list \<Rightarrow> 'a list" where
  \<comment> \<open>\<open>xs.slice(-n)\<close>\<close>
  "slice_last n xs = drop (length xs - n) xs"

lemma slice_last_map: "slice_last n (map f xs) = map f (slice_last n xs)"
  by (simp add: slice_last_def drop_map)

definition routeSparklines :: "ConsoleRequestListItem list \<Rightarrow> (string, nat list) jsmap" where
  "routeSparklines requests =
     map (\<lambda>(route, buckets). (route, map snd (slice_last 6 (js_sort by_key buckets))))
       (fold (group_step rq_route_prefix hour_count []) requests [])"

definition recentLogs :: "ConsoleRequestListItem list \<Rightarrow> ConsoleRequestListItem list" where
  "recentLogs = take 10"

section \<open>Cards, channel status, recent logs\<close>

record MetricCard =
  mc_title :: string
  mc_value :: string
  mc_description :: string

text \<open>\<open>overview?.field\<close>.\<close>

definition ov_int :: "(ConsoleUsageOverview \<Rightarrow> int) \<Rightarrow> ConsoleUsageOverview option \<Rightarrow> jsval" where
  "ov_int f ov = (case ov of None \<Rightarrow> JUndef | Some o' \<Rightarrow> int_val (f o'))"

definition ov_num :: "(ConsoleUsageOverview \<Rightarrow> jsnum option) \<Rightarrow> ConsoleUsageOverview option \<Rightarrow> jsval" where
  "ov_num f ov = (case Option.bind ov f of None \<Rightarrow> JUndef | Some n \<Rightarrow> JNum n)"

definition ov_count :: "(ConsoleUsageOverview \<Rightarrow> int) \<Rightarrow> ConsoleUsageOverview option \<Rightarrow> int" where
  \<comment> \<open>\<open>overview?.total ?? 0\<close>\<close>
  "ov_count f ov = (case ov of None \<Rightarrow> 0 | Some o' \<Rightarrow> f o')"

definition successCount :: "ConsoleUsageOverview option \<Rightarrow> jsnum" where
  "successCount ov = math_max0 (num_sub (js_int (ov_count uo_total ov)) (js_int (ov_count uo_errors ov)))"

text \<open>\<open>(a / total) * 100\<close>.\<close>

definition percent_of :: "jsnum \<Rightarrow> int \<Rightarrow> jsnum" where
  "percent_of a tot = num_mul (num_div a (js_int tot)) (Fin 100)"

definition successRate :: "ConsoleUsageOverview option \<Rightarrow> jsnum" where
  "successRate ov = (if 0 < ov_count uo_total ov then percent_of (successCount ov) (ov_count uo_total ov) else Fin 0)"

definition count_text :: "(ConsoleUsageOverview \<Rightarrow> int) \<Rightarrow> ConsoleUsageOverview option \<Rightarrow> string" where
  "count_text f ov = formatCount (ov_int f ov)"

definition duration_text :: "(ConsoleUsageOverview \<Rightarrow> jsnum option) \<Rightarrow> ConsoleUsageOverview option \<Rightarrow> string" where
  "duration_text f ov = formatDuration (ov_num f ov)"

definition rate_text :: "translator \<Rightarrow> string \<Rightarrow> jsnum \<Rightarrow> int \<Rightarrow> string" where
  "rate_text t k a tot =
     (if 0 < tot then t k [(''rate'', JStr (formatPercent (JNum (percent_of a tot))))] else t ''common.noData'' [])"

definition overview_cards :: "translator \<Rightarrow> ConsoleUsageOverview option \<Rightarrow> MetricCard list" where
  "overview_cards t ov =
     (let total = ov_count uo_total ov; errors = ov_count uo_errors ov
      in [\<lparr>mc_title = t ''monitor.totalRequests'' [], mc_value = formatCount (int_val total),
           mc_description = t ''monitor.successCount''
             [(''success'', JStr (formatCount (JNum (successCount ov)))), (''errors'', JStr (formatCount (int_val errors)))]\<rparr>,
          \<lparr>mc_title = t ''monitor.successRate'' [], mc_value = formatPercent (JNum (successRate ov)),
           mc_description = t ''monitor.totalCount'' [(''total'', JStr (formatCount (int_val total)))]\<rparr>,
          \<lparr>mc_title = t ''monitor.errorRequests'' [], mc_value = formatCount (int_val errors),
           mc_description = rate_text t ''monitor.errorRate'' (js_int errors) total\<rparr>,
          \<lparr>mc_title = t ''monitor.failovers'' [], mc_value = count_text uo_failovers ov,
           mc_description = rate_text t ''monitor.failoverRate'' (js_int (ov_count uo_failovers ov)) total\<rparr>])"

definition latency_cards :: "translator \<Rightarrow> ConsoleUsageOverview option \<Rightarrow> MetricCard list" where
  "latency_cards t ov =
     [\<lparr>mc_title = t ''monitor.avgFirstChunk'' [], mc_value = duration_text uo_avg_first_chunk_ms ov,
       mc_description = t ''monitor.avgFirstChunkDesc'' []\<rparr>,
      \<lparr>mc_title = t ''monitor.avgFirstToken'' [], mc_value = duration_text uo_avg_first_token_ms ov,
       mc_description = t ''monitor.avgFirstTokenDesc'' []\<rparr>,
      \<lparr>mc_title = t ''monitor.avgDuration'' [], mc_value = duration_text uo_avg_duration_ms ov,
       mc_description = t ''monitor.avgDurationDesc'' []\<rparr>,
      \<lparr>mc_title = t ''monitor.avgGeneration'' [], mc_value = duration_text uo_avg_generation_ms ov,
       mc_description = t ''monitor.avgGenerationDesc'' []\<rparr>]"

definition cache_cards :: "translator \<Rightarrow> ConsoleUsageOverview option \<Rightarrow> MetricCard list" where
  "cache_cards t ov =
     [\<lparr>mc_title = t ''monitor.cacheHitRate'' [], mc_value = formatPercent (ov_num (\<lambda>o'. Some (uo_hit_rate o')) ov),
       mc_description = t ''monitor.cacheHitDesc''
         [(''hits'', JStr (count_text uo_cache_hits ov)), (''creates'', JStr (count_text uo_cache_creates ov))]\<rparr>,
      \<lparr>mc_title = t ''monitor.cacheHits'' [], mc_value = count_text uo_cache_hits ov,
       mc_description = t ''monitor.cacheHitsDesc'' []\<rparr>,
      \<lparr>mc_title = t ''monitor.cacheCreates'' [], mc_value = count_text uo_cache_creates ov,
       mc_description = t ''monitor.cacheCreatesDesc'' []\<rparr>,
      \<lparr>mc_title = t ''monitor.cacheMisses'' [], mc_value = count_text uo_cache_misses ov,
       mc_description = t ''monitor.cacheMissesDesc'' []\<rparr>,
      \<lparr>mc_title = t ''monitor.storageBackend'' [],
       mc_value = (case ov of Some o' \<Rightarrow> (case uo_storage_backend o' of Postgresql \<Rightarrow> ''POSTGRESQL'') | None \<Rightarrow> ''PG''),
       mc_description = t ''monitor.retentionDescription'' [(''count'', JStr (count_text uo_retention_max_records ov))]\<rparr>]"

datatype RouteHealth = Route_unknown | Route_healthy | Route_degraded | Route_down

definition errorRate :: "ConsoleStatsBucket \<Rightarrow> jsnum" where
  "errorRate route =
     (if 0 < sb_requests route then num_div (js_int (sb_errors route)) (js_int (sb_requests route)) else Fin 0)"

definition route_health :: "ConsoleStatsBucket \<Rightarrow> RouteHealth" where
  "route_health route =
     (if sb_requests route = 0 then Route_unknown
      else if num_less (errorRate route) (fl (5 / 100)) then Route_healthy
      else if num_less (errorRate route) (fl (2 / 10)) then Route_degraded else Route_down)"

fun health_key :: "RouteHealth \<Rightarrow> string" where
  "health_key Route_unknown = ''monitor.statusUnknown''"
| "health_key Route_healthy = ''monitor.statusHealthy''"
| "health_key Route_degraded = ''monitor.statusDegraded''"
| "health_key Route_down = ''monitor.statusDown''"

record ChannelRow =
  cr_name :: string
  cr_status :: RouteHealth
  cr_successRate :: string
  cr_latency :: string
  cr_sparkline :: "nat list option"

definition MiniSparkline :: "nat list \<Rightarrow> nat list option" where
  \<comment> \<open>\<open>None\<close> is the dash shown for fewer than two points\<close>
  "MiniSparkline data = (if length data < 2 then None else Some data)"

definition channel_row :: "(string, nat list) jsmap \<Rightarrow> ConsoleStatsBucket \<Rightarrow> ChannelRow" where
  "channel_row sparklines route =
     \<lparr>cr_name = (if sb_label route \<noteq> [] then sb_label route else sb_key route),
      cr_status = route_health route,
      cr_successRate = (if 0 < sb_requests route
        then formatPercent (JNum (percent_of
          (num_sub (js_int (sb_requests route)) (js_int (sb_errors route))) (sb_requests route)))
        else utf8 [0xE2, 0x80, 0x94]),
      cr_latency = formatDuration (case sb_avg_duration_ms route of None \<Rightarrow> JUndef | Some n \<Rightarrow> JNum n),
      cr_sparkline = MiniSparkline (case map_get sparklines (sb_key route) of Some d \<Rightarrow> d | None \<Rightarrow> [])\<rparr>"

definition channel_rows :: "ConsoleStats \<Rightarrow> ConsoleRequestListItem list \<Rightarrow> ChannelRow list" where
  "channel_rows stats requests = map (channel_row (routeSparklines requests)) (take 6 (st_routes stats))"

record RecentLogRow =
  rl_method :: string
  rl_path :: string
  rl_badge :: badge_variant
  rl_status :: string
  rl_duration :: string
  rl_time :: string

definition recent_log_row :: "(int \<Rightarrow> string) \<Rightarrow> ConsoleRequestListItem \<Rightarrow> RecentLogRow" where
  "recent_log_row date_text req =
     \<lparr>rl_method = (if sublist ''/models'' (lower_ascii (rq_path req)) \<and>
          \<not> sublist ''/chat'' (lower_ascii (rq_path req)) then ''GET'' else ''POST''),
      rl_path = shortText (JStr (rq_path req)) 28,
      rl_badge = getHttpStatusBadgeVariant (rq_response_status req),
      rl_status = (case rq_response_status req of Some s \<Rightarrow> int_str s | None \<Rightarrow> utf8 [0xE2, 0x80, 0x94]),
      rl_duration = formatDuration (opt_int (rt_duration_ms (rq_response_timing req))),
      rl_time = formatTime date_text (Some (rq_created_at req))\<rparr>"

definition routeOptions :: "ConsoleStats \<Rightarrow> (string \<times> string) list" where
  "routeOptions stats = map (\<lambda>r. (sb_key r, sb_label r)) (st_routes stats)"

section \<open>Buckets are exact\<close>

text \<open>Times the page handles: seconds before 1e12, milliseconds until the year 37648.\<close>

definition timely :: "ConsoleRequestListItem \<Rightarrow> bool" where
  "timely req \<longleftrightarrow> 0 \<le> rq_created_at req \<and> rq_created_at req < 2 ^ 50"

definition time_ms :: "ConsoleRequestListItem \<Rightarrow> int" where
  "time_ms req = (if rq_created_at req < 10 ^ 12 then rq_created_at req * 1000 else rq_created_at req)"

lemma time_ms_bounds: "timely req \<Longrightarrow> 0 \<le> time_ms req \<and> time_ms req < 2 ^ 50"
  by (auto simp: timely_def time_ms_def)

lemma tsMs_exact:
  assumes "timely req"
  shows "tsMs req = Fin (of_int (time_ms req))"
proof (cases "rq_created_at req < 10 ^ 12")
  case True
  then have "\<bar>rq_created_at req * 1000\<bar> < 2 ^ 53" "\<bar>rq_created_at req\<bar> < 2 ^ 53" using assms by (auto simp: timely_def)
  then show ?thesis using True fl_of_int[of "rq_created_at req * 1000"]
    by (simp add: tsMs_def time_ms_def js_int_exact)
next
  case False
  then show ?thesis using assms by (simp add: tsMs_def time_ms_def timely_def js_int_exact)
qed

lemma bucket_exact:
  assumes "timely req" and "0 < width" and "width < 2 ^ 50"
  shows "bucket width req = Fin (of_int (time_ms req div width * width))"
proof -
  have t: "0 \<le> time_ms req" "time_ms req < 2 ^ 50" using time_ms_bounds[OF assms(1)] by simp_all
  then have "0 \<le> time_ms req div width * width" "time_ms req div width * width \<le> time_ms req"
    using assms(2) by (simp_all add: pos_imp_zdiv_nonneg_iff) (metis minus_mod_eq_div_mult mult.commute pos_mod_sign diff_ge_0_iff_ge diff_diff_eq2 add_diff_cancel_left' le_add_same_cancel1 diff_add_cancel)
  moreover have "(2 :: int) ^ 50 < 2 ^ 53" by simp
  ultimately have "\<bar>time_ms req div width * width\<bar> < 2 ^ 53" using t(2) by (simp only: abs_of_nonneg)
  then have "fl (of_int (time_ms req div width) * of_int width) = Fin (of_int (time_ms req div width * width))"
    using fl_of_int by (metis of_int_mult)
  then show ?thesis using floor_div_exact[OF t assms(2,3)] by (simp add: bucket_def tsMs_exact[OF assms(1)])
qed

lemma bucketSizeMs_bounds: "0 < bucketSizeMs r" "bucketSizeMs r < 2 ^ 50"
  by (cases r; simp)+

lemma hour_ms_bounds: "0 < hour_ms" "hour_ms < 2 ^ 50"
  by (simp_all add: hour_ms_def)

text \<open>What a bucket must hold: the counts of its requests.\<close>

definition entry_of :: "ConsoleRequestListItem list \<Rightarrow> TrendEntry" where
  "entry_of rs =
     \<lparr>te_total = length rs, te_errors = length (filter failed_request rs),
      te_totalLatency = fold (\<lambda>d s. num_add s (js_int d)) (List.map_filter (\<lambda>r. rt_duration_ms (rq_response_timing r)) rs) (Fin 0),
      te_latencyCount = length (List.map_filter (\<lambda>r. rt_duration_ms (rq_response_timing r)) rs)\<rparr>"

lemma fold_trend_bump: "fold trend_bump rs trend_zero = entry_of rs"
  by (induction rs rule: rev_induct)
     (auto simp: trend_zero_def entry_of_def trend_bump_def Let_def List.map_filter_def split: option.splits)

lemma trend_entry_iff:
  "(b, e) \<in> set (trend_entries rng rs) \<longleftrightarrow>
     b \<in> bucket (bucketSizeMs rng) ` set rs \<and> e = entry_of (group_of (bucket (bucketSizeMs rng)) rs b)"
  by (simp add: trend_entries_def group_entry_iff fold_trend_bump)

lemma finite_buckets:
  assumes "\<forall>r \<in> set rs. timely r" and "b \<in> bucket width ` set rs" and "0 < width" and "width < 2 ^ 50"
  shows "is_double b \<and> b \<noteq> NaN"
proof -
  obtain r where r: "r \<in> set rs" "b = bucket width r" using assms(2) by blast
  then have b: "b = Fin (of_int (time_ms r div width * width))" using assms bucket_exact by blast
  have "is_double (num_mul (Fin x) (Fin y))" for x y by simp
  then have "is_double b" using floor_div_exact[of "time_ms r" width] time_ms_bounds[of r] assms r
    by (simp add: bucket_def tsMs_exact)
  then show ?thesis by (simp add: b)
qed

lemma sorted_trend_entries:
  assumes "\<forall>r \<in> set rs. timely r"
  shows "sorted_wrt (<) (map fst (trend_entries rng rs))"
  unfolding trend_entries_def
proof (rule sorted_by_key)
  fix p assume "p \<in> set (fold (group_step (bucket (bucketSizeMs rng)) trend_bump trend_zero) rs [])"
  then have "fst p \<in> bucket (bucketSizeMs rng) ` set rs" using keys_group by (metis image_eqI)
  then show "is_double (fst p) \<and> fst p \<noteq> NaN" using assms finite_buckets bucketSizeMs_bounds by blast
qed (rule distinct_group)

section \<open>Rates\<close>

lemma success_percent_range:
  assumes "errors \<le> tot" and "tot < 2 ^ 50"
  shows "\<exists>x. success_percent tot errors = Fin x \<and> 0 \<le> x \<and> x \<le> 100"
proof (cases "tot = 0")
  case False
  let ?s = "int tot - int errors"
  have small: "\<bar>int tot\<bar> < 2 ^ 53" "\<bar>int errors\<bar> < 2 ^ 53" "\<bar>?s\<bar> < 2 ^ 53" "0 \<le> ?s" "?s \<le> int tot"
    using assms by (simp_all add: of_nat_less_iff[symmetric] del: of_nat_less_iff)
  have js: "js_nat tot = Fin (of_int (int tot))" "js_nat errors = Fin (of_int (int errors))"
    using assms by (simp_all add: js_nat_exact)
  have sub: "num_sub (js_nat tot) (js_nat errors) = Fin (of_int ?s)"
    using fl_of_int[OF small(3)] by (simp add: js num_sub_def)
  have ratio: "0 \<le> (of_int ?s :: rat) / of_int (int tot)" "(of_int ?s :: rat) / of_int (int tot) \<le> 1"
    using small(4,5) False by (simp_all add: divide_le_eq)
  obtain q where q: "fl (of_int ?s / of_int (int tot)) = Fin q" "0 \<le> q" "q \<le> 1"
    using fl_between[of 0 "of_int ?s / of_int (int tot)" 1] ratio by auto
  obtain x where x: "fl (q * 100) = Fin x" "0 \<le> x" "x \<le> 100"
    using fl_between[of 0 "q * 100" 100] q by auto
  have d: "num_div (Fin (of_int ?s)) (js_nat tot) = Fin q" using False q(1) js(1) by simp
  have "success_percent tot errors = Fin x" using False x(1) unfolding success_percent_def sub d by simp
  then show ?thesis using x by blast
qed (simp add: success_percent_def)

section \<open>Properties\<close>

text \<open>
  Property C23. The trend is the reference aggregate: grouping the requests in one pass gives, in ascending order
  of time and once each, exactly the buckets some request falls into, each with the number of its requests,
  of its failures (no status, or 400 and above) and the sum and number of its durations; no request is lost
  or counted twice, and every request lies in the interval of its bucket.
\<close>

theorem trend_equals_reference:
  fixes rs :: "ConsoleRequestListItem list" and rng :: UsageRange
  assumes "\<forall>r \<in> set rs. timely r"
  defines "key \<equiv> bucket (bucketSizeMs rng)"
  shows "set (trend_entries rng rs) = (\<lambda>b. (b, entry_of (group_of key rs b))) ` key ` set rs \<and>
    sorted_wrt (<) (map fst (trend_entries rng rs)) \<and>
    sum_list (map (te_total \<circ> snd) (trend_entries rng rs)) = length rs \<and>
    (\<forall>r \<in> set rs. \<exists>n. key r = Fin (of_int n) \<and> bucketSizeMs rng dvd n \<and> n \<le> time_ms r \<and> time_ms r < n + bucketSizeMs rng)"
proof -
  have entries: "set (trend_entries rng rs) = (\<lambda>b. (b, entry_of (group_of key rs b))) ` key ` set rs"
    by (auto simp: trend_entry_iff key_def)
  have sorted: "sorted_wrt (<) (map fst (trend_entries rng rs))" using assms(1) by (rule sorted_trend_entries)
  then have distinct: "distinct (map fst (trend_entries rng rs))" by (simp add: strict_sorted_iff)
  have "map (te_total \<circ> snd) (trend_entries rng rs) = map (\<lambda>k. length (group_of key rs k)) (map fst (trend_entries rng rs))"
    using entries by (auto simp: entry_of_def)
  moreover have "key ` set rs \<subseteq> set (map fst (trend_entries rng rs))" using entries by force
  ultimately have sum: "sum_list (map (te_total \<circ> snd) (trend_entries rng rs)) = length rs"
    using sum_group_lengths[OF distinct] by metis
  have "\<exists>n. key r = Fin (of_int n) \<and> bucketSizeMs rng dvd n \<and> n \<le> time_ms r \<and> time_ms r < n + bucketSizeMs rng"
    if "r \<in> set rs" for r
  proof (intro exI conjI)
    let ?n = "time_ms r div bucketSizeMs rng * bucketSizeMs rng"
    show "key r = Fin (of_int ?n)" using assms(1) that bucket_exact bucketSizeMs_bounds unfolding key_def by blast
    have m: "time_ms r = ?n + time_ms r mod bucketSizeMs rng" by simp
    show "?n \<le> time_ms r" "time_ms r < ?n + bucketSizeMs rng"
      using m bucketSizeMs_bounds(1)[of rng] pos_mod_sign[of "bucketSizeMs rng" "time_ms r"]
        pos_mod_bound[of "bucketSizeMs rng" "time_ms r"] by linarith+
  qed simp
  with entries sorted sum show ?thesis by blast
qed

text \<open>
  Every point of the trend chart is drawable: its failures are at most its requests and its success
  rate, computed in doubles, is a finite percentage between 0 and 100.
\<close>

theorem trend_points_in_range:
  assumes "length rs < 2 ^ 50" and "p \<in> set (trendData date_of rng rs)"
  shows "0 < tp_total p \<and> tp_total p \<le> length rs \<and> tp_errors p \<le> tp_total p \<and>
    (\<exists>x. tp_successRate p = Fin x \<and> 0 \<le> x \<and> x \<le> 100)"
proof -
  obtain b e where p: "(b, e) \<in> set (trend_entries rng rs)" "p = trend_point date_of rng (b, e)"
    using assms(2) by (auto simp: trendData_def split: if_splits)
  let ?g = "group_of (bucket (bucketSizeMs rng)) rs b"
  have e: "e = entry_of ?g" "?g \<noteq> []"
    using p(1) by (auto simp: trend_entry_iff group_of_def filter_empty_conv)
  have "te_errors (entry_of g) \<le> te_total (entry_of g)" "te_total (entry_of g) = length g" for g
    by (simp_all add: entry_of_def)
  moreover have "length ?g \<le> length rs" by (simp add: group_of_def)
  ultimately have "te_errors e \<le> te_total e" "0 < te_total e" "te_total e \<le> length rs"
    using e by simp_all
  moreover from this have "te_total e < 2 ^ 50" using assms(1) by linarith
  ultimately show ?thesis using success_percent_range[of "te_errors e" "te_total e"] p(2)
    by (simp add: trend_point_def)
qed

text \<open>
  The sparkline of a route shows the hourly numbers of its requests over the latest six hours that
  have any, in ascending order of time; a route without requests has none.
\<close>

theorem sparkline_equals_reference:
  fixes rs :: "ConsoleRequestListItem list" and route :: string
  assumes "\<forall>r \<in> set rs. timely r"
  defines "mine \<equiv> group_of rq_route_prefix rs route"
  shows "case map_get (routeSparklines rs) route of
      None \<Rightarrow> mine = []
    | Some counts \<Rightarrow> mine \<noteq> [] \<and> (\<exists>hours. sorted_wrt (<) hours \<and> set hours = bucket hour_ms ` set mine \<and>
        counts = map (\<lambda>h. length (group_of (bucket hour_ms) mine h)) (slice_last 6 hours))"
proof (cases "mine = []")
  case True
  then show ?thesis
    by (simp add: routeSparklines_def map_of_map_value map_get_group mine_def)
next
  case False
  let ?m = "fold (group_step (bucket hour_ms) (\<lambda>_ n. n + 1) (0 :: nat)) mine []"
  let ?s = "js_sort by_key ?m"
  have get: "map_get (routeSparklines rs) route = Some (map snd (slice_last 6 ?s))"
    using False by (simp add: routeSparklines_def map_of_map_value map_get_group mine_def hour_count_def)
  have hours: "set (map fst ?s) = bucket hour_ms ` set mine" by (simp add: keys_group)
  have "\<forall>r \<in> set mine. timely r" using assms(1) by (simp add: mine_def group_of_def)
  then have "is_double (fst p) \<and> fst p \<noteq> NaN" if "p \<in> set ?m" for p
  proof -
    have "fst p \<in> bucket hour_ms ` set mine" using that keys_group by (metis image_eqI)
    then show ?thesis using \<open>\<forall>r \<in> set mine. timely r\<close> using finite_buckets hour_ms_bounds by blast
  qed
  then have sorted: "sorted_wrt (<) (map fst ?s)" by (intro sorted_by_key distinct_group)
  have "fold (\<lambda>_ n. n + 1) xs k = k + length xs" for xs :: "ConsoleRequestListItem list" and k :: nat
    by (induction xs arbitrary: k) simp_all
  then have "snd p = length (group_of (bucket hour_ms) mine (fst p))" if "p \<in> set ?s" for p
    using that group_entry_iff[of "fst p" "snd p" "bucket hour_ms" "\<lambda>_ n. n + 1" "0 :: nat" mine] by simp
  then have "map snd ?s = map (\<lambda>h. length (group_of (bucket hour_ms) mine h)) (map fst ?s)" by simp
  then have "map snd (slice_last 6 ?s) = map (\<lambda>h. length (group_of (bucket hour_ms) mine h)) (slice_last 6 (map fst ?s))"
    by (metis slice_last_map)
  with False get hours sorted show ?thesis by auto
qed

section \<open>Witnesses\<close>

definition sample_requests :: "ConsoleRequestListItem list" where
  "sample_requests =
     [sample_request ''main'' 1700000000 (Some 200), sample_request ''main'' 1700000001000 (Some 500),
      sample_request ''spare'' 1700000002000 None]"

lemma timely_sample: "\<forall>r \<in> set sample_requests. timely r"
  by (simp add: sample_requests_def timely_def)

theorem trend_equals_reference_witness:
  "sum_list (map (te_total \<circ> snd) (trend_entries Range_1h sample_requests)) = 3"
  using trend_equals_reference [OF timely_sample, of Range_1h] by (simp add: sample_requests_def)

theorem trend_points_in_range_witness:
  "\<exists>p \<in> set (trendData date_of Range_24h sample_requests). tp_errors p \<le> tp_total p"
proof -
  have "trend_entries Range_24h sample_requests \<noteq> []"
    using trend_entry_iff [of _ _ Range_24h sample_requests] by (force simp: sample_requests_def)
  then obtain p where "p \<in> set (trendData date_of Range_24h sample_requests)"
    by (cases "trend_entries Range_24h sample_requests") (auto simp: trendData_def sample_requests_def)
  then show ?thesis using trend_points_in_range [of sample_requests] by (auto simp: sample_requests_def)
qed

theorem sparkline_equals_reference_witness:
  "map_get (routeSparklines sample_requests) ''main'' \<noteq> None"
  using sparkline_equals_reference [OF timely_sample, of "''main''"]
  by (auto simp: sample_requests_def group_of_def split: option.splits)

end
