(* ===== verification/Combobox.thy ===== *)
theory Combobox
  imports Messages
begin

text \<open>
  The searchable selection box \<open>components/ui/combobox.tsx\<close> of the monitor, the usage page and the keys page: its
  own state, what it shows, and a choice. The filtering of the list by the search text is the library cmdk.
\<close>

record ComboboxTexts =
  ct_placeholder :: string
  ct_search :: string
  ct_empty :: string

definition default_texts :: ComboboxTexts where
  "default_texts =
     \<lparr>ct_placeholder = unicode [0x8BF7, 0x9009, 0x62E9] @ ''...'', ct_search = unicode [0x641C, 0x7D22] @ ''...'',
      ct_empty = unicode [0x672A, 0x627E, 0x5230, 0x5339, 0x914D, 0x9879]\<rparr>"

record ComboboxState =
  cs_open :: bool
  cs_search :: string

definition combobox_init :: ComboboxState where
  "combobox_init = \<lparr>cs_open = False, cs_search = []\<rparr>"

definition combobox_display :: "(string \<times> string) list \<Rightarrow> string \<Rightarrow> string" where
  "combobox_display options v = (case map_of options v of Some label \<Rightarrow> label | None \<Rightarrow> v)"

definition combobox_text :: "string \<Rightarrow> (string \<times> string) list \<Rightarrow> string \<Rightarrow> string" where
  "combobox_text placeholder options v =
     (if combobox_display options v = [] then placeholder else combobox_display options v)"

definition combobox_select :: "string \<Rightarrow> string \<Rightarrow> string" where
  \<comment> \<open>choosing the option that is already chosen clears the box\<close>
  "combobox_select v currentValue = (if currentValue = v then [] else currentValue)"

datatype ComboboxEvent = Open_change bool | Search string | Select string

text \<open>The state after an event, and the value passed to \<open>onChange\<close> if the event passes one.\<close>

fun combobox_step :: "string \<Rightarrow> ComboboxEvent \<Rightarrow> ComboboxState \<Rightarrow> ComboboxState \<times> string option" where
  "combobox_step v (Open_change o') s = (s\<lparr>cs_open := o', cs_search := (if o' then [] else cs_search s)\<rparr>, None)"
| "combobox_step v (Search query) s = (s\<lparr>cs_search := query\<rparr>, None)"
| "combobox_step v (Select currentValue) s =
     (s\<lparr>cs_search := [], cs_open := False\<rparr>, Some (combobox_select v currentValue))"

record ComboboxView =
  cb_button :: string
  cb_dimmed :: bool
  cb_search :: string
  cb_empty :: string
  cb_items :: "(string \<times> string \<times> bool) list" \<comment> \<open>value, label, and whether it has the mark\<close>

definition Combobox :: "ComboboxTexts \<Rightarrow> (string \<times> string) list \<Rightarrow> string \<Rightarrow> ComboboxView" where
  "Combobox texts options v =
     \<lparr>cb_button = combobox_text (ct_placeholder texts) options v,
      cb_dimmed = (combobox_display options v = []),
      cb_search = ct_search texts,
      cb_empty = ct_empty texts,
      cb_items = map (\<lambda>(k, label). (k, label, v = k)) options\<rparr>"

text \<open>A box given a placeholder and a search text, as all but one are.\<close>

abbreviation filter_texts :: "string \<Rightarrow> string \<Rightarrow> ComboboxTexts" where
  "filter_texts placeholder search \<equiv> default_texts\<lparr>ct_placeholder := placeholder, ct_search := search\<rparr>"

text \<open>The mark is at the option the button names, and every choice closes the list.\<close>

lemma combobox_marks:
  assumes "distinct (map fst options)"
  shows "filter (\<lambda>(_, _, marked). marked) (cb_items (Combobox texts options v)) =
    (case map_of options v of Some label \<Rightarrow> [(v, label, True)] | None \<Rightarrow> [])"
proof -
  have "filter (\<lambda>(_, _, marked). marked) (map (\<lambda>(k, label). (k, label, v = k)) options) =
      (case map_of options v of Some label \<Rightarrow> [(v, label, True)] | None \<Rightarrow> [])"
    using assms
  proof (induction options)
    case (Cons p ps)
    obtain k label where p: "p = (k, label)" by (cases p)
    show ?case
    proof (cases "v = k")
      case True
      then have "map_of ps v = None" using Cons.prems by (simp add: p map_of_eq_None_iff)
      then show ?thesis using Cons True by (simp add: p)
    qed (use Cons p in simp)
  qed simp
  then show ?thesis by (simp add: Combobox_def)
qed

lemma combobox_closes: "cs_open (fst (combobox_step v (Select c) s)) = False"
  by simp

lemma combobox_opens_fresh: "cs_search (fst (combobox_step v (Open_change True) s)) = []"
  by simp

lemma combobox_toggles: "v \<noteq> [] \<Longrightarrow> snd (combobox_step v (Select v) s) = Some []"
  by (simp add: combobox_select_def)

end
