(* ===== verification/Usage_Page.thy ===== *)
theory Usage_Page
  imports Monitor Combobox
begin

text \<open>
  \<open>components/usage-page.tsx\<close>, \<open>components/bucket-table.tsx\<close> and \<open>components/usage-trend-chart.tsx\<close>: the usage page
  as a function of what \<open>useUsageStats\<close> (theory \<open>Loaders\<close>) holds.
\<close>

section \<open>The filters\<close>

definition range_options :: "translator \<Rightarrow> (string \<times> string) list" where
  "range_options t = map (\<lambda>r. (range_name r, t (''timeRange.'' @ range_name r) []))
     [Range_1h, Range_24h, Range_72h, Range_7d, Range_30d, Range_all]"

definition range_of :: "string \<Rightarrow> UsageRange" where
  \<comment> \<open>the option of a name; \<open>value || "24h"\<close> for the empty name\<close>
  "range_of v =
     (case find (\<lambda>r. range_name r = v) [Range_1h, Range_24h, Range_72h, Range_7d, Range_30d, Range_all] of
        Some r \<Rightarrow> r | None \<Rightarrow> Range_24h)"

text \<open>A choice in one of the four boxes, and the click on a dimension of a bucket table.\<close>

datatype UsageInput =
    RangeBox UsageRange | RouteBox string | ModelBox string | ClientBox string
  | RouteBucket string | ModelBucket string | ClientBucket string

fun usage_input :: "UsageInput \<Rightarrow> UsageFilterState \<Rightarrow> UsageFilterChange" where
  "usage_input (RangeBox r) f = setRangeFilter (range_of (combobox_select (range_name (uff_range f)) (range_name r)))"
| "usage_input (RouteBox v) f = setRouteFilter (combobox_select (uff_route f) v)"
| "usage_input (ModelBox v) f = setModelFilter (combobox_select (uff_model f) v)"
| "usage_input (ClientBox v) f = setClientFilter (combobox_select (uff_client f) v)"
| "usage_input (RouteBucket v) f = setRouteFilter v"
| "usage_input (ModelBucket v) f = setModelFilter v"
| "usage_input (ClientBucket v) f = setClientFilter v"

section \<open>Cards\<close>

definition cost_text :: "(ConsoleUsageOverview \<Rightarrow> jsnum) \<Rightarrow> ConsoleUsageOverview option \<Rightarrow> string" where
  "cost_text f ov = formatCost (ov_num (\<lambda>o'. Some (f o')) ov)"

definition ov_cost :: "(ConsoleUsageOverview \<Rightarrow> jsnum) \<Rightarrow> ConsoleUsageOverview option \<Rightarrow> jsnum" where
  \<comment> \<open>\<open>overview?.total_cost ?? 0\<close>\<close>
  "ov_cost f ov = (case ov of None \<Rightarrow> Fin 0 | Some o' \<Rightarrow> f o')"

definition cacheCost :: "ConsoleUsageOverview option \<Rightarrow> jsnum" where
  "cacheCost ov = num_add (ov_cost uo_total_cache_read_cost ov) (ov_cost uo_total_cache_write_cost ov)"

definition usage_card :: "string \<Rightarrow> string \<Rightarrow> string \<Rightarrow> MetricCard" where
  "usage_card title v description = \<lparr>mc_title = title, mc_value = v, mc_description = description\<rparr>"

definition headlineCards :: "translator \<Rightarrow> ConsoleUsageOverview option \<Rightarrow> MetricCard list" where
  "headlineCards t ov =
     (let tot = ov_count uo_total ov
      in [usage_card (t ''usage.totalRequests'' []) (formatCount (int_val tot))
            (t ''usage.totalRequestsDesc'' [(''count'', JStr (formatCount (JNum (successCount ov))))]),
          usage_card (t ''usage.totalTokens'' []) (count_text uo_total_tokens ov)
            (t ''usage.totalTokensDesc'' [(''input'', JStr (count_text uo_total_input_tokens ov)),
              (''output'', JStr (count_text uo_total_output_tokens ov))]),
          usage_card (t ''usage.totalCost'' []) (cost_text uo_total_cost ov)
            (t ''usage.totalCostDesc'' [(''input'', JStr (cost_text uo_total_input_cost ov)),
              (''output'', JStr (cost_text uo_total_output_cost ov))]),
          usage_card (t ''usage.avgCostPerReq'' [])
            (if 0 < tot then formatCost (JNum (num_div (ov_cost uo_total_cost ov) (js_int tot))) else formatCost (JNum (Fin 0)))
            (if 0 < tot
             then t ''usage.avgTokensPerReq''
               [(''count'', JStr (formatCount (JNum (math_round (num_div (js_int (ov_count uo_total_tokens ov)) (js_int tot))))))]
             else t ''common.noData'' [])])"

definition costCards :: "translator \<Rightarrow> ConsoleUsageOverview option \<Rightarrow> MetricCard list" where
  "costCards t ov =
     [usage_card (t ''usage.totalCostLabel'' []) (cost_text uo_total_cost ov)
        (t ''usage.retentionDesc'' [(''count'', JStr (count_text uo_retention_max_records ov))]),
      usage_card (t ''usage.inputCost'' []) (cost_text uo_total_input_cost ov)
        (t ''usage.inputTokensDesc'' [(''count'', JStr (count_text uo_total_input_tokens ov))]),
      usage_card (t ''usage.outputCost'' []) (cost_text uo_total_output_cost ov)
        (t ''usage.outputTokensDesc'' [(''count'', JStr (count_text uo_total_output_tokens ov))]),
      usage_card (t ''usage.cacheCost'' []) (formatCost (JNum (cacheCost ov)))
        (t ''usage.cacheCostDesc'' [(''read'', JStr (cost_text uo_total_cache_read_cost ov)),
          (''write'', JStr (cost_text uo_total_cache_write_cost ov))])]"

definition cacheCards :: "translator \<Rightarrow> ConsoleUsageOverview option \<Rightarrow> MetricCard list" where
  "cacheCards t ov =
     [usage_card (t ''usage.cacheHitRate'' []) (formatPercent (ov_num (\<lambda>o'. Some (uo_hit_rate o')) ov))
        (t ''usage.cacheHitDesc'' [(''hits'', JStr (count_text uo_cache_hits ov)), (''creates'', JStr (count_text uo_cache_creates ov))]),
      usage_card (t ''usage.anthropicCacheRead'' []) (count_text uo_total_cache_read_tokens ov) (t ''usage.anthropicCacheReadDesc'' []),
      usage_card (t ''usage.anthropicCacheWrite'' []) (count_text uo_total_cache_creation_tokens ov) (t ''usage.anthropicCacheWriteDesc'' []),
      usage_card (t ''usage.openaiCachedPrompt'' []) (count_text uo_total_cached_input_tokens ov) (t ''usage.openaiCachedPromptDesc'' []),
      usage_card (t ''usage.reasoning'' []) (count_text uo_total_reasoning_output_tokens ov) (t ''usage.reasoningDesc'' [])]"

section \<open>Bucket tables\<close>

record BucketRow =
  br_key :: string
  br_label :: string
  br_lastSeen :: string
  br_requests :: string
  br_hitRate :: "string option"
  br_firstToken :: string
  br_errors :: string
  br_tokens :: string
  br_cost :: string

definition bucket_row :: "translator \<Rightarrow> (int \<Rightarrow> string) \<Rightarrow> bool \<Rightarrow> ConsoleStatsBucket \<Rightarrow> BucketRow" where
  "bucket_row t date_text showHitRate b =
     \<lparr>br_key = sb_key b,
      br_label = (if sb_label b \<noteq> [] then sb_label b else if sb_key b \<noteq> [] then sb_key b else ''--''),
      br_lastSeen = t ''bucket.lastSeen'' [(''time'', JStr (formatTime date_text (Some (sb_last_seen_at b))))],
      br_requests = formatCount (int_val (sb_requests b)),
      br_hitRate = (if showHitRate
        then Some (formatPercent (JNum (calculateHitRate (int_val (sb_cache_hits b)) (int_val (sb_requests b))))) else None),
      br_firstToken = formatDuration (case sb_avg_first_token_ms b of None \<Rightarrow> JUndef | Some n \<Rightarrow> JNum n),
      br_errors = formatCount (int_val (sb_errors b)),
      br_tokens = formatCount (int_val (sb_total_tokens b)),
      br_cost = formatCost (JNum (sb_total_cost b))\<rparr>"

record BucketTableView =
  bt_title :: string
  bt_description :: string
  bt_body :: "string \<times> string + string list \<times> BucketRow list"
    \<comment> \<open>\<open>Inl\<close>: the texts of the empty state; \<open>Inr\<close>: headings and rows\<close>

definition BucketTable ::
    "translator \<Rightarrow> (int \<Rightarrow> string) \<Rightarrow> string \<Rightarrow> string \<Rightarrow> bool \<Rightarrow> ConsoleStatsBucket list \<Rightarrow> BucketTableView" where
  "BucketTable t date_text title description showHitRate buckets =
     \<lparr>bt_title = title, bt_description = description,
      bt_body = (if buckets = [] then Inl (t ''bucket.emptyTitle'' [], t ''bucket.emptyDescription'' [])
        else Inr
          ([t ''bucket.colDimension'' [], t ''bucket.colRequests'' []] @
           (if showHitRate then [t ''bucket.colHitRate'' []] else []) @
           [t ''bucket.colAvgFirstToken'' [], t ''bucket.colErrors'' [], t ''bucket.colTotalTokens'' [],
            t ''bucket.colTotalCost'' []],
           map (bucket_row t date_text showHitRate) buckets))\<rparr>"

section \<open>The trend chart\<close>

definition math_max :: "jsnum \<Rightarrow> jsnum \<Rightarrow> jsnum" where
  "math_max a b = (if a = NaN \<or> b = NaN then NaN else if num_less a b then b else a)"

definition math_max_list :: "jsnum list \<Rightarrow> jsnum \<Rightarrow> jsnum" where
  \<comment> \<open>\<open>Math.max(...xs, last)\<close>\<close>
  "math_max_list xs last' = fold math_max xs last'"

text \<open>
  A chart of one series: title, description and name of the series. A point has its label, both figures, and
  their texts; the numbers under the charts have a caption each.
\<close>

record TrendChart =
  tc_charts :: "(string \<times> string \<times> string) list"
  tc_points :: "(string \<times> jsnum \<times> jsnum \<times> string \<times> string) list"
  tc_peakTokens :: "string \<times> string"
  tc_peakCost :: "string \<times> string"
  tc_dataPoints :: "string \<times> string"

definition peakTokens :: "ConsoleUsageTimeSeriesPoint list \<Rightarrow> jsnum" where
  "peakTokens points = math_max_list (map (\<lambda>p. js_int (ts_total_tokens p)) points) (Fin 1)"

definition peakCost :: "ConsoleUsageTimeSeriesPoint list \<Rightarrow> jsnum" where
  "peakCost points = math_max_list (map ts_total_cost points) (Fin 0)"

definition UsageTrendChart :: "translator \<Rightarrow> ConsoleUsageTimeSeriesPoint list \<Rightarrow> string + TrendChart" where
  "UsageTrendChart t points =
     (if points = [] then Inl (t ''chart.emptyTimeseries'' [])
      else Inr \<lparr>tc_charts =
             [(t ''chart.tokenTrend'' [], t ''chart.tokenTrendDesc'' [], t ''chart.tokenConsumption'' []),
              (t ''chart.costTrend'' [], t ''chart.costTrendDesc'' [], t ''chart.costSpend'' [])],
           tc_points = map (\<lambda>p. (ts_bucket_label p, js_int (ts_total_tokens p), ts_total_cost p,
             formatCost (JNum (ts_total_cost p)), formatCount (int_val (ts_total_tokens p)))) points,
           tc_peakTokens = (t ''chart.peakTokens'' [], formatCount (JNum (peakTokens points))),
           tc_peakCost = (t ''chart.peakCost'' [], formatCost (JNum (peakCost points))),
           tc_dataPoints = (t ''chart.dataPoints'' [], formatCount (JNum (js_nat (length points))))\<rparr>)"

section \<open>The page\<close>

definition filter_options :: "ConsoleUsageFilterOption list \<Rightarrow> (string \<times> string) list" where
  "filter_options = map (\<lambda>o'. (fo_value o', fo_label o'))"

text \<open>A box under its label.\<close>

definition usage_boxes :: "translator \<Rightarrow> UsageStats \<Rightarrow> (string \<times> ComboboxView) list" where
  "usage_boxes t s =
     (let f = us_filter s; options = ush_filters (us_shown s)
      in [(t ''usage.timeRangeLabel'' [], Combobox
             (filter_texts (t ''timeRange.placeholder'' []) (t ''common.searchTimeRange'' []))
             (range_options t) (range_name (uff_range f))),
          (t ''usage.routeLabel'' [], Combobox
             (filter_texts (t ''usage.allRoutes'' []) (t ''common.searchRoute'' []))
             (filter_options (uf_routes options)) (uff_route f)),
          (t ''usage.modelLabel'' [], Combobox
             (filter_texts (t ''usage.allModels'' []) (t ''common.searchModel'' []))
             (filter_options (uf_models options)) (uff_model f)),
          (t ''usage.clientLabel'' [], Combobox
             (filter_texts (t ''usage.allClients'' []) (t ''usage.searchClient'' []))
             (filter_options (uf_clients options)) (uff_client f))])"

text \<open>Pairs of texts are a title and a description.\<close>

record UsageView =
  uv_title :: "string \<times> string"
  uv_actions :: "string list"
  uv_filters :: "string \<times> (string \<times> ComboboxView) list"
  uv_headline :: "(string \<times> string) \<times> MetricCard list"
  uv_trend :: "(string \<times> string) \<times> (string + TrendChart)"
  uv_costCache :: "string \<times> string"
  uv_cost :: "string \<times> MetricCard list"
  uv_cache :: "string \<times> MetricCard list"
  uv_groups :: "(string \<times> string) \<times> BucketTableView list"

definition UsagePage :: "translator \<Rightarrow> (int \<Rightarrow> string) \<Rightarrow> UsageStats \<Rightarrow> UsageView" where
  "UsagePage t date_text s =
     (let v = us_shown s
      in \<lparr>uv_title = (t ''usage.title'' [], t ''usage.description'' []),
          uv_actions = [t ''common.refreshData'' [], t ''common.viewLogs'' []],
          uv_filters = (t ''usage.filterLabel'' [], usage_boxes t s),
          uv_headline = ((t ''usage.coreDataTitle'' [], t ''usage.coreDataDesc'' []), headlineCards t (ush_overview v)),
          uv_trend = ((t ''usage.trendTitle'' [], t ''usage.trendDesc'' []), UsageTrendChart t (ush_timeseries v)),
          uv_costCache = (t ''usage.costCacheTitle'' [], t ''usage.costCacheDesc'' []),
          uv_cost = (t ''usage.costBreakdown'' [], costCards t (ush_overview v)),
          uv_cache = (t ''usage.cacheAndReasoning'' [], cacheCards t (ush_overview v)),
          uv_groups = ((t ''usage.groupDetail'' [], t ''usage.groupDetailDesc'' []),
            [BucketTable t date_text (t ''usage.routeBucket'' []) (t ''usage.routeBucketDesc'' []) True (st_routes (ush_stats v)),
             BucketTable t date_text (t ''usage.modelBucket'' []) (t ''usage.modelBucketDesc'' []) True (st_models (ush_stats v)),
             BucketTable t date_text (t ''usage.clientBucket'' []) (t ''usage.clientBucketDesc'' []) True
               (st_clients (ush_stats v))])\<rparr>)"

section \<open>Properties\<close>

lemma math_max_max: "a \<noteq> NaN \<Longrightarrow> b \<noteq> NaN \<Longrightarrow> math_max a b = max a b"
  by (auto simp: math_max_def num_less_iff max_def)

lemma math_max_list_Max:
  "NaN \<notin> set xs \<Longrightarrow> a \<noteq> NaN \<Longrightarrow> math_max_list xs a = Max (insert a (set xs))"
proof (induction xs arbitrary: a)
  case (Cons x xs)
  then have "math_max x a = max x a" "max x a \<noteq> NaN" by (auto simp: math_max_max max_def)
  then have "math_max_list (x # xs) a = Max (insert (max x a) (set xs))"
    using Cons by (simp add: math_max_list_def)
  also have "\<dots> = Max (insert a (set (x # xs)))"
    by (cases "xs = []") (simp_all add: insert_commute[of a x] max.commute max.left_commute)
  finally show ?case .
qed (simp add: math_max_list_def)

lemma js_int_not_NaN [simp]: "js_int n \<noteq> NaN"
  by (simp add: js_int_def)

text \<open>
  The peaks under the usage charts are the true maxima of the plotted points, at least 1 token and
  at least no cost, whatever the points are; only a cost that is not a number would spoil the cost peak.
\<close>

theorem usage_peaks_are_maxima:
  assumes "NaN \<notin> ts_total_cost ` set points"
  shows "peakTokens points = Max (insert (Fin 1) ((\<lambda>p. js_int (ts_total_tokens p)) ` set points)) \<and>
    peakCost points = Max (insert (Fin 0) (ts_total_cost ` set points))"
proof
  have "NaN \<notin> set (map (\<lambda>p. js_int (ts_total_tokens p)) points)" by (auto dest: sym)
  then show "peakTokens points = Max (insert (Fin 1) ((\<lambda>p. js_int (ts_total_tokens p)) ` set points))"
    by (simp only: peakTokens_def math_max_list_Max jsnum.distinct set_map) (simp add: math_max_list_Max)
  show "peakCost points = Max (insert (Fin 0) (ts_total_cost ` set points))"
    using assms by (simp add: peakCost_def math_max_list_Max)
qed

lemma range_of_name [simp]: "range_of (range_name r) = r" "range_of [] = Range_24h"
  by (cases r; simp add: range_of_def) (simp add: range_of_def)

lemma range_name_inject [simp]: "range_name r = range_name r' \<longleftrightarrow> r = r'" "range_name r \<noteq> []"
  by (cases r; cases r'; simp) (cases r; simp)

text \<open>
  A choice in a box filters by what was chosen and by nothing else: the query of the next request
  holds exactly the filters on display. Choosing the chosen route, model or client again removes that
  filter; the time range has no empty state and falls back to a day. A click on a dimension of a bucket table
  selects it and, unlike the box, never removes it.
\<close>

theorem usage_boxes_filter:
  fixes f :: UsageFilterState
  defines "pick \<equiv> \<lambda>i f. change_filter (usage_input i f) f"
  shows "pick (RangeBox r) f = f\<lparr>uff_range := if r = uff_range f then Range_24h else r\<rparr> \<and>
    pick (RouteBox v) f = f\<lparr>uff_route := if v = uff_route f then [] else v\<rparr> \<and>
    pick (ModelBox v) f = f\<lparr>uff_model := if v = uff_model f then [] else v\<rparr> \<and>
    pick (ClientBox v) f = f\<lparr>uff_client := if v = uff_client f then [] else v\<rparr> \<and>
    pick (RouteBucket v) f = f\<lparr>uff_route := v\<rparr> \<and> pick (ModelBucket v) f = f\<lparr>uff_model := v\<rparr> \<and>
    pick (ClientBucket v) f = f\<lparr>uff_client := v\<rparr> \<and>
    usage_query (pick i f) =
      filter (\<lambda>(k, v). v \<noteq> [])
        [(''route'', uff_route (pick i f)), (''model'', uff_model (pick i f)), (''client'', uff_client (pick i f)),
         (''range'', if uff_range (pick i f) = Range_all then [] else range_name (uff_range (pick i f)))]"
proof -
  have "usage_query g = filter (\<lambda>(k, v). v \<noteq> [])
      [(''route'', uff_route g), (''model'', uff_model g), (''client'', uff_client g),
       (''range'', if uff_range g = Range_all then [] else range_name (uff_range g))]" for g
    by (simp add: usage_query_def set_filter_def params_set_def Let_def)
  then show ?thesis by (simp add: pick_def combobox_select_def)
qed

section \<open>Witness\<close>

theorem usage_peaks_are_maxima_witness:
  "peakTokens [\<lparr>ts_bucket_start = 0, ts_bucket_label = ''a'', ts_requests = 1, ts_total_tokens = 7,
     ts_total_cost = Fin 2, ts_errors = 0\<rparr>] = Fin 7"
  using usage_peaks_are_maxima [of "[\<lparr>ts_bucket_start = 0, ts_bucket_label = ''a'', ts_requests = 1, ts_total_tokens = 7,
     ts_total_cost = Fin 2, ts_errors = 0\<rparr>]"] js_int_exact [of 7]
  by (simp add: max_def less_eq_jsnum_def less_jsnum_def)

end
