(* ===== verification/Monitor_View.thy ===== *)
theory Monitor_View
  imports Usage_Page
begin

text \<open>
  What \<open>components/dashboard-page.tsx\<close> and \<open>components/channel-health.tsx\<close> show for the data of the monitor (theories
  \<open>Loaders\<close>, \<open>Monitor\<close>): filters, cards, the trend chart with its tabs, and the tables. Colours and icons are left out.
\<close>

section \<open>Filters and tabs\<close>

datatype TrendTab = Tab_requests | Tab_success | Tab_latency

datatype MonitorInput = RouteFilterBox string | RangeFilterBox UsageRange | TrendButton TrendTab | ViewAllButton

text \<open>An input changes the filters of the loader, the tab, or the page.\<close>

datatype MonitorEffect = Filter_change DashboardFilterChange | Tab_change TrendTab | Navigate_to_logs

fun monitor_input :: "DashboardStats \<Rightarrow> MonitorInput \<Rightarrow> MonitorEffect" where
  "monitor_input s (RouteFilterBox v) = Filter_change (setRoute (combobox_select (ds_routeFilter s) v))"
| "monitor_input s (RangeFilterBox r) =
     Filter_change (setRange (range_of (combobox_select (range_name (ds_rangeFilter s)) (range_name r))))"
| "monitor_input s (TrendButton tab) = Tab_change tab"
| "monitor_input s ViewAllButton = Navigate_to_logs"

definition monitor_boxes :: "translator \<Rightarrow> DashboardStats \<Rightarrow> ComboboxView list" where
  "monitor_boxes t s =
     [Combobox (filter_texts (t ''monitor.allRoutes'' []) (t ''common.searchRoute'' []))
        (routeOptions (dsh_stats (ds_shown s))) (ds_routeFilter s),
      Combobox (filter_texts (t ''timeRange.placeholder'' []) (t ''common.searchTimeRange'' []))
        (range_options t) (range_name (ds_rangeFilter s))]"

fun tab_label :: "translator \<Rightarrow> TrendTab \<Rightarrow> string" where
  "tab_label t Tab_requests = t ''monitor.tabRequests'' []"
| "tab_label t Tab_success = t ''monitor.tabSuccessRate'' []"
| "tab_label t Tab_latency = t ''monitor.tabLatency'' []"

definition tab_buttons :: "translator \<Rightarrow> TrendTab \<Rightarrow> (string \<times> bool) list" where
  "tab_buttons t trendTab = map (\<lambda>tab. (tab_label t tab, trendTab = tab)) [Tab_requests, Tab_success, Tab_latency]"

text \<open>The series drawn: the key of its values, its name, and the value of each point.\<close>

definition trend_series :: "translator \<Rightarrow> TrendTab \<Rightarrow> (string \<times> string \<times> (TrendPoint \<Rightarrow> jsnum)) list" where
  "trend_series t trendTab =
     (case trendTab of
        Tab_requests \<Rightarrow>
          [(''total'', t ''monitor.tabRequests'' [], \<lambda>p. js_nat (tp_total p)),
           (''errors'', t ''monitor.errorRequests'' [], \<lambda>p. js_nat (tp_errors p))]
      | Tab_success \<Rightarrow> [(''successRate'', t ''monitor.tabSuccessRate'' [], tp_successRate)]
      | Tab_latency \<Rightarrow> [(''avgLatency'', t ''monitor.tabLatency'' [], tp_avgLatency)])"

record TrendView =
  tv_title :: string
  tv_tabs :: "(string \<times> bool) list"
  tv_chart :: "string + (string list \<times> (string \<times> string \<times> jsnum list) list)"
    \<comment> \<open>\<open>Inl\<close>: no data; \<open>Inr\<close>: the ticks of the axis and the series\<close>

definition trend_view :: "translator \<Rightarrow> TrendTab \<Rightarrow> TrendPoint list \<Rightarrow> TrendView" where
  "trend_view t trendTab points =
     \<lparr>tv_title = t ''monitor.requestTrend'' [],
      tv_tabs = tab_buttons t trendTab,
      tv_chart = (if points = [] then Inl (t ''common.noData'' [])
        else Inr (map tp_bucket points, map (\<lambda>(key, name, f). (key, name, map f points)) (trend_series t trendTab)))\<rparr>"

section \<open>Tables\<close>

text \<open>A card with a button to the log: title, button, and headings with rows, or the text for no data.\<close>

record 'r TableCard =
  tb_title :: string
  tb_button :: string
  tb_body :: "string + (string list \<times> 'r list)"

definition table_card :: "translator \<Rightarrow> string \<Rightarrow> string list \<Rightarrow> 'r list \<Rightarrow> 'r TableCard" where
  "table_card t title headings rows =
     \<lparr>tb_title = title, tb_button = t ''monitor.viewAll'' [],
      tb_body = (if rows = [] then Inl (t ''common.noData'' []) else Inr (headings, rows))\<rparr>"

definition channels_card :: "translator \<Rightarrow> DashboardShown \<Rightarrow> (string \<times> ChannelRow) TableCard" where
  \<comment> \<open>a row with the text of its status\<close>
  "channels_card t v =
     table_card t (t ''monitor.channelStatus'' [])
       [t ''monitor.channelName'' [], t ''monitor.statusLabel'' [], t ''monitor.tabSuccessRate'' [],
        t ''monitor.tabLatency'' [], t ''monitor.trend'' []]
       (map (\<lambda>r. (t (health_key (cr_status r)) [], r)) (channel_rows (dsh_stats v) (dsh_requests v)))"

definition recent_card :: "translator \<Rightarrow> (int \<Rightarrow> string) \<Rightarrow> DashboardShown \<Rightarrow> RecentLogRow TableCard" where
  "recent_card t date_text v =
     table_card t (t ''monitor.recentLogs'' []) [] (map (recent_log_row date_text) (recentLogs (dsh_requests v)))"

text \<open>The health table: the heading of an hour is the part of its key after the blank.\<close>

definition hour_heading :: "string \<Rightarrow> string" where
  \<comment> \<open>\<open>hour.split(" ")[1]\<close>\<close>
  "hour_heading hour = (case split_on (\<lambda>c. c = CHR '' '') hour of _ # h # _ \<Rightarrow> h | _ \<Rightarrow> [])"

record HealthCard =
  hc_title :: "string \<times> string"
  hc_headings :: "string list"
  hc_rows :: "(string \<times> HealthStatus list) list"

definition health_card :: "translator \<Rightarrow> (int \<Rightarrow> string) \<Rightarrow> ConsoleRequestListItem list \<Rightarrow> HealthCard option" where
  "health_card t hour_key requests =
     map_option (\<lambda>(hours, rows).
        \<lparr>hc_title = (t ''channelHealth.title'' [], t ''channelHealth.description'' []),
         hc_headings = t ''channelHealth.routeCol'' [] # map hour_heading hours, hc_rows = rows\<rparr>)
       (ChannelHealth hour_key requests)"

section \<open>The page\<close>

record MonitorView =
  mon_title :: "string \<times> string"
  mon_boxes :: "ComboboxView list"
  mon_overview :: "MetricCard list"
  mon_trend :: TrendView
  mon_channels :: "(string \<times> ChannelRow) TableCard"
  mon_recent :: "RecentLogRow TableCard"
  mon_latency :: "string \<times> MetricCard list"
  mon_cache :: "string \<times> MetricCard list"
  mon_health :: "HealthCard option"

definition monitor_view ::
    "translator \<Rightarrow> (jsnum \<Rightarrow> DateParts) \<Rightarrow> (int \<Rightarrow> string) \<Rightarrow> (int \<Rightarrow> string) \<Rightarrow> TrendTab \<Rightarrow> DashboardStats \<Rightarrow>
     MonitorView" where
  "monitor_view t date_of date_text hour_key trendTab s =
     (let v = ds_shown s
      in \<lparr>mon_title = (t ''monitor.title'' [], t ''monitor.description'' []),
          mon_boxes = monitor_boxes t s,
          mon_overview = overview_cards t (dsh_overview v),
          mon_trend = trend_view t trendTab (trendData date_of (ds_rangeFilter s) (dsh_requests v)),
          mon_channels = channels_card t v,
          mon_recent = recent_card t date_text v,
          mon_latency = (t ''monitor.latencyMetrics'' [], latency_cards t (dsh_overview v)),
          mon_cache = (t ''monitor.cacheHealth'' [], cache_cards t (dsh_overview v)),
          mon_health = health_card t hour_key (dsh_requests v)\<rparr>)"

text \<open>A range stays chosen when it is chosen again only if it is the day; any other falls back to the day.\<close>

lemma monitor_range_choice:
  "monitor_input s (RangeFilterBox r) =
     Filter_change (setRange (if r = ds_rangeFilter s then Range_24h else r))"
  by (simp add: combobox_select_def)

text \<open>Whatever the tab, the chart draws every point of the trend.\<close>

lemma trend_view_complete:
  "tv_chart (trend_view t tab points) = Inr (ticks, series) \<Longrightarrow>
     ticks = map tp_bucket points \<and> (\<forall>(k, n, ys) \<in> set series. length ys = length points)"
  by (auto simp: trend_view_def split: if_splits)

end
