(* ===== verification/Request_Log.thy ===== *)
theory Request_Log
  imports Requests Loaders Failover
begin

text \<open>
  \<open>components/request-log-table.tsx\<close> and \<open>components/logs-page.tsx\<close>: the rows of the request log, its sort
  buttons and its pages of fifty. The calendar, the translator and \<open>new URL(s).pathname\<close> (\<open>None\<close> where the
  constructor throws) are arguments; the loader is \<open>useDashboardData\<close> of theory \<open>Loaders\<close>.
\<close>

section \<open>Cells of the table\<close>

definition getSourceTypeLabel :: "translator \<Rightarrow> string option \<Rightarrow> string" where
  "getSourceTypeLabel t clientLabel =
     (case clientLabel of Some l \<Rightarrow> if l = [] then t ''logTable.anonymous'' [] else l
      | None \<Rightarrow> t ''logTable.anonymous'' [])"

definition getNumericUsageValue :: "jsval \<Rightarrow> jsnum" where
  "getNumericUsageValue v =
     (let numeric = js_to_number (coalesce v (JNum (Fin 0)))
      in if is_finite numeric \<and> num_less (Fin 0) numeric then numeric else Fin 0)"

definition getRequestCacheReadTokens :: "ConsoleRequestListItem \<Rightarrow> jsnum" where
  "getRequestCacheReadTokens item =
     (if rq_upstream_type item = ''openai''
      then getNumericUsageValue (opt_int (us_cached_input_tokens (rq_response_usage item)))
      else getNumericUsageValue (opt_int (us_cache_read_input_tokens (rq_response_usage item))))"

definition math_min :: "jsnum \<Rightarrow> jsnum \<Rightarrow> jsnum" where
  "math_min a b = (if a = NaN \<or> b = NaN then NaN else if num_less b a then b else a)"

definition calculateRequestCacheHitRate :: "ConsoleRequestListItem \<Rightarrow> jsnum option" where
  "calculateRequestCacheHitRate item =
     (let usage = rq_response_usage item;
          cacheReadTokens = getRequestCacheReadTokens item;
          inputTokens = getNumericUsageValue
            (coalesce (opt_int (us_input_tokens usage)) (opt_int (us_total_input_tokens usage)));
          denominator =
            (if rq_upstream_type item = ''openai'' then inputTokens
             else num_add (num_add inputTokens (getNumericUsageValue
               (coalesce (opt_int (us_cache_creation_input_tokens usage)) (opt_int (us_total_cache_creation_tokens usage)))))
               cacheReadTokens)
      in if num_le denominator (Fin 0) then None
         else Some (math_min (Fin 100) (num_mul (num_div cacheReadTokens denominator) (Fin 100))))"

definition getPathname :: "(string \<Rightarrow> string option) \<Rightarrow> string \<Rightarrow> string" where
  "getPathname url_pathname val =
     (let trimmed = trim val
      in if trimmed = [] then []
         else (case url_pathname trimmed of Some p \<Rightarrow> p | None \<Rightarrow> takeWhile (\<lambda>c. c \<noteq> CHR ''?'') trimmed))"

definition isResponsesChatCompatConverted :: "(string \<Rightarrow> string option) \<Rightarrow> ConsoleRequestListItem \<Rightarrow> bool" where
  "isResponsesChatCompatConverted url_pathname item \<longleftrightarrow>
     rq_upstream_type item = ''openai'' \<and>
     suffix ''/responses'' (getPathname url_pathname (rq_path item)) \<and>
     suffix ''/chat/completions'' (getPathname url_pathname (rq_target_url item))"

definition present :: "string option \<Rightarrow> bool" where
  \<comment> \<open>a string that is neither absent nor empty\<close>
  "present v = (case v of Some s \<Rightarrow> s \<noteq> [] | None \<Rightarrow> False)"

definition getRuntimeStatusBadges :: "translator \<Rightarrow> ConsoleRequestListItem \<Rightarrow> (string \<times> badge_variant) list" where
  "getRuntimeStatusBadges t item =
     [(getHttpStatusLabel (rq_response_status item), getHttpStatusBadgeVariant (rq_response_status item))] @
     (if rq_response_payload_truncated item
      then [(if rq_response_payload_truncation_reason item = Some ''stream duration timeout'' then t ''logTable.truncatedStream'' []
             else if rq_response_payload_truncation_reason item = Some ''body too large'' then t ''logTable.truncatedSize'' []
             else t ''logTable.truncatedLog'' [], Outline)]
      else []) @
     (if present (rq_failover_from item) then [(t ''logTable.failedOver'' [], Outline)]
      else if 0 < rq_retry_attempt item then [(t ''logTable.retriedSameRoute'' [], Outline)]
      else [])"

datatype SortIcon = Sort_up | Sort_down | Sort_both

definition sort_icon :: "bool \<Rightarrow> SortDirection \<Rightarrow> SortIcon" where
  "sort_icon active direction = (if active then (if direction = Asc then Sort_up else Sort_down) else Sort_both)"

text \<open>The new key and order of a click on a column.\<close>

definition toggleSort :: "RequestSortKey \<Rightarrow> SortDirection \<Rightarrow> RequestSortKey \<Rightarrow> RequestSortKey \<times> SortDirection" where
  "toggleSort sortBy sortOrder nextKey =
     (if nextKey = sortBy then (nextKey, if sortOrder = Asc then Desc else Asc) else (nextKey, Desc))"

datatype RouteCell =
    Failed_over string string "string option"
  | Direct_route string

definition route_cell :: "ConsoleRequestListItem \<Rightarrow> RouteCell" where
  "route_cell item =
     (case rq_failover_from item of
        Some from' \<Rightarrow>
          if from' = [] then Direct_route (rq_route_prefix item)
          else Failed_over
            (case rq_original_route_prefix item of Some o' \<Rightarrow> if o' = [] then from' else o' | None \<Rightarrow> from')
            (rq_route_prefix item)
            (if present (rq_failover_reason item) then rq_failover_reason item else None)
      | None \<Rightarrow> Direct_route (rq_route_prefix item))"

datatype ModelCell = Other_model string string | Same_model_as_asked string

definition model_cell :: "ConsoleRequestListItem \<Rightarrow> string \<times> ModelCell" where
  "model_cell item =
     (case us_model (rq_response_usage item) of
        Some m \<Rightarrow>
          if m \<noteq> [] \<and> m \<noteq> rq_request_model item
          then (shortText (JStr m) 22, Other_model (rq_request_model item) m)
          else (shortText (JStr (rq_request_model item)) 22, Same_model_as_asked (rq_request_model item))
      | None \<Rightarrow> (shortText (JStr (rq_request_model item)) 22, Same_model_as_asked (rq_request_model item)))"

section \<open>The page\<close>

definition PAGE_SIZE :: int where
  "PAGE_SIZE = 50"

text \<open>\<open>{ limit: PAGE_SIZE, offset, filters: {} }\<close>.\<close>

definition page_options :: "int \<Rightarrow> RefreshOptions" where
  "page_options off = no_options\<lparr>ro_limit := Some PAGE_SIZE, ro_offset := Some off, ro_filters := Some (Some no_filters)\<rparr>"

definition first_load :: RefreshOptions where
  "first_load = page_options 0"

definition handleSortChange :: "RequestSortKey \<times> SortDirection \<Rightarrow> RefreshOptions" where
  "handleSortChange p = (page_options 0)\<lparr>ro_sortBy := Some (fst p), ro_sortOrder := Some (snd p)\<rparr>"

definition canPrev :: "DashboardData \<Rightarrow> bool" where
  "canPrev s \<longleftrightarrow> 0 < dd_offset s"

definition canNext :: "DashboardData \<Rightarrow> bool" where
  "canNext s \<longleftrightarrow> dd_offset s + PAGE_SIZE < dd_total s"

definition goPrev :: "DashboardData \<Rightarrow> RefreshOptions option" where
  "goPrev s = (if \<not> canPrev s then None else Some (page_options (max 0 (dd_offset s - PAGE_SIZE))))"

definition goNext :: "DashboardData \<Rightarrow> RefreshOptions option" where
  "goNext s = (if \<not> canNext s then None else Some (page_options (dd_offset s + PAGE_SIZE)))"

definition refresh_page :: "DashboardData \<Rightarrow> RefreshOptions" where
  "refresh_page s = page_options (dd_offset s)"

definition pageStart :: "DashboardData \<Rightarrow> int" where
  "pageStart s = (if dd_total s = 0 then 0 else dd_offset s + 1)"

definition pageEnd :: "DashboardData \<Rightarrow> int" where
  "pageEnd s = min (dd_offset s + PAGE_SIZE) (dd_total s)"

section \<open>Numbers that are not negative\<close>

definition nonneg :: "jsnum \<Rightarrow> bool" where
  "nonneg v \<longleftrightarrow> v = PosInf \<or> (\<exists>x. v = Fin x \<and> 0 \<le> x)"

lemma nonneg_simps [simp]: "nonneg PosInf" "nonneg (Fin x) \<longleftrightarrow> 0 \<le> x" "\<not> nonneg NaN" "\<not> nonneg NegInf"
  by (simp_all add: nonneg_def)

lemma nonneg_fl: "0 \<le> x \<Longrightarrow> nonneg (fl x)"
  using fl_rat_nonneg [of x] by (auto simp: fl_def Let_def)

lemma nonneg_add: "nonneg a \<Longrightarrow> nonneg b \<Longrightarrow> nonneg (num_add a b)"
  by (auto simp: nonneg_def [of a] nonneg_def [of b] nonneg_fl)

lemma nonneg_div: "nonneg a \<Longrightarrow> a \<noteq> PosInf \<Longrightarrow> nonneg b \<Longrightarrow> \<not> num_le b (Fin 0) \<Longrightarrow> nonneg (num_div a b)"
  by (auto simp: nonneg_def [of a] nonneg_def [of b] nonneg_fl signed_inf_def)

lemma nonneg_times_100: "nonneg a \<Longrightarrow> nonneg (num_mul a (Fin 100))"
  by (auto simp: nonneg_def [of a] nonneg_fl signed_inf_def)

lemma nonneg_usage [simp]: "nonneg (getNumericUsageValue v)" "getNumericUsageValue v \<noteq> PosInf"
  by (cases "js_to_number (coalesce v (JNum (Fin 0)))"; simp add: getNumericUsageValue_def Let_def)+

lemma nonneg_cache_read [simp]: "nonneg (getRequestCacheReadTokens item)" "getRequestCacheReadTokens item \<noteq> PosInf"
  by (simp_all add: getRequestCacheReadTokens_def)

section \<open>Paging against a server\<close>

text \<open>The answer of a server that holds the records \<open>xs\<close>, and one click on next or previous with its answer.\<close>

definition page_of :: "ConsoleRequestListItem list \<Rightarrow> DashboardCall \<Rightarrow> ConsoleRequestListPayload result" where
  "page_of xs c = Inr \<lparr>rl_requests = Some (take (nat (dc_limit c)) (drop (nat (dc_offset c)) xs)),
     rl_total = Some (int (length xs)), rl_offset = Some (dc_offset c)\<rparr>"

definition visit :: "ConsoleRequestListItem list \<Rightarrow> RefreshOptions option \<Rightarrow> DashboardData \<Rightarrow> DashboardData" where
  "visit xs opt s =
     (case opt of
        None \<Rightarrow> s
      | Some o' \<Rightarrow> (case refreshDashboard o' s of (s1, c) \<Rightarrow> dashboard_settled c (page_of xs c) s1))"

definition next_page :: "ConsoleRequestListItem list \<Rightarrow> DashboardData \<Rightarrow> DashboardData" where
  "next_page xs s = visit xs (goNext s) s"

definition prev_page :: "ConsoleRequestListItem list \<Rightarrow> DashboardData \<Rightarrow> DashboardData" where
  "prev_page xs s = visit xs (goPrev s) s"

definition shows_page :: "ConsoleRequestListItem list \<Rightarrow> nat \<Rightarrow> DashboardData \<Rightarrow> bool" where
  "shows_page xs k s \<longleftrightarrow> dd_offset s = 50 * int k \<and> dd_total s = int (length xs) \<and>
     dd_requests s = take 50 (drop (50 * k) xs) \<and> \<not> dd_refreshing s"

lemma shows_visit:
  "0 \<le> off \<Longrightarrow> off = 50 * int k \<Longrightarrow> shows_page xs k (visit xs (Some (page_options off)) s)"
  by (simp add: shows_page_def visit_def refreshDashboard_def page_options_def no_options_def dashboard_settled_def
      page_of_def coalesce_opt_def PAGE_SIZE_def Let_def nat_mult_distrib)

lemma shows_next:
  assumes "shows_page xs k s"
  shows "50 * (k + 1) < length xs \<Longrightarrow> shows_page xs (k + 1) (next_page xs s)"
    and "length xs \<le> 50 * (k + 1) \<Longrightarrow> next_page xs s = s"
proof -
  have "canNext s \<longleftrightarrow> 50 * (k + 1) < length xs" using assms by (simp add: canNext_def shows_page_def PAGE_SIZE_def) linarith
  then show "50 * (k + 1) < length xs \<Longrightarrow> shows_page xs (k + 1) (next_page xs s)"
    and "length xs \<le> 50 * (k + 1) \<Longrightarrow> next_page xs s = s"
    using assms shows_visit [of "dd_offset s + 50" "k + 1" xs s]
    by (simp_all add: next_page_def goNext_def shows_page_def PAGE_SIZE_def visit_def)
qed

lemma shows_prev: "shows_page xs (k + 1) s \<Longrightarrow> shows_page xs k (prev_page xs s)"
  using shows_visit [of "dd_offset s - 50" k xs s]
  by (simp add: prev_page_def goPrev_def canPrev_def PAGE_SIZE_def) (simp add: shows_page_def)

lemma shows_walk: "50 * k < length xs \<or> k = 0 \<Longrightarrow> shows_page xs 0 s \<Longrightarrow> shows_page xs k ((next_page xs ^^ k) s)"
proof (induction k)
  case (Suc k)
  then have "shows_page xs k ((next_page xs ^^ k) s)" by auto
  then show ?case using shows_next(1) [of xs k] Suc.prems(1) by simp
qed simp

section \<open>Properties\<close>

text \<open>
  The cache hit rate of a row is absent or a finite percentage between 0 and 100, for every request:
  also where counts are missing, negative or so large that the doubles overflow, and for both protocols,
  although OpenAI's denominator need not contain the cached tokens.
\<close>

theorem request_hit_rate_in_range:
  "case calculateRequestCacheHitRate item of None \<Rightarrow> True | Some r \<Rightarrow> \<exists>x. r = Fin x \<and> 0 \<le> x \<and> x \<le> 100"
proof (cases "calculateRequestCacheHitRate item")
  case (Some r)
  define inp where "inp = getNumericUsageValue (coalesce (opt_int (us_input_tokens (rq_response_usage item)))
    (opt_int (us_total_input_tokens (rq_response_usage item))))"
  define new where "new = getNumericUsageValue (coalesce (opt_int (us_cache_creation_input_tokens (rq_response_usage item)))
    (opt_int (us_total_cache_creation_tokens (rq_response_usage item))))"
  define d where "d = (if rq_upstream_type item = ''openai'' then inp
    else num_add (num_add inp new) (getRequestCacheReadTokens item))"
  have "nonneg d" by (simp add: d_def inp_def new_def nonneg_add)
  moreover have d: "\<not> num_le d (Fin 0)" "r = math_min (Fin 100) (num_mul (num_div (getRequestCacheReadTokens item) d) (Fin 100))"
    using Some unfolding calculateRequestCacheHitRate_def Let_def d_def inp_def new_def
    by (simp_all only: option.inject option.distinct refl not_False_eq_True split: if_split_asm)
  ultimately have "nonneg (num_mul (num_div (getRequestCacheReadTokens item) d) (Fin 100))"
    by (intro nonneg_times_100 nonneg_div) simp_all
  then show ?thesis using Some d(2) by (auto simp: nonneg_def math_min_def)
qed simp

text \<open>
  Property C27. The pages show every record of the server exactly once and in its order: from the first page, the
  record at index i is reached by clicking next i div 50 times and stands in row i mod 50; the footer counts the
  records on screen; next is disabled exactly on the last page, and previous leads back. The walk goes
  through the guarded loader, with the server's answer between the clicks.
\<close>

theorem paging_covers_all_records:
  fixes s0 :: DashboardData
  assumes "i < length xs"
  defines "s \<equiv> (next_page xs ^^ (i div 50)) (visit xs (Some first_load) s0)"
  shows "i mod 50 < length (dd_requests s) \<and> dd_requests s ! (i mod 50) = xs ! i \<and>
    pageStart s = int (i - i mod 50) + 1 \<and> pageEnd s = pageStart s + int (length (dd_requests s)) - 1 \<and>
    canNext s = (50 * (i div 50 + 1) < length xs) \<and>
    dd_requests (prev_page xs (next_page xs s)) = (if canNext s then dd_requests s else dd_requests (prev_page xs s))"
proof -
  let ?k = "i div 50"
  have i: "i = 50 * ?k + i mod 50" "i mod 50 < 50" by simp_all
  then have k: "50 * ?k < length xs" using assms(1) by linarith
  have "shows_page xs 0 (visit xs (Some first_load) s0)" unfolding first_load_def by (rule shows_visit) simp_all
  then have s: "shows_page xs ?k s" unfolding s_def using k by (intro shows_walk) simp_all
  have len: "length (dd_requests s) = min 50 (length xs - 50 * ?k)" using s by (simp add: shows_page_def)
  have row: "i mod 50 < length (dd_requests s)" using i assms(1) len by linarith
  moreover have "dd_requests s ! (i mod 50) = xs ! i" using s row i k by (simp add: shows_page_def)
  moreover have "pageStart s = int (i - i mod 50) + 1"
  proof -
    have "xs \<noteq> []" using assms(1) by auto
    moreover have "i - i mod 50 = 50 * ?k" using i(1) by linarith
    ultimately show ?thesis using s by (simp add: pageStart_def shows_page_def)
  qed
  moreover have "pageEnd s = pageStart s + int (length (dd_requests s)) - 1"
  proof -
    have "dd_offset s = 50 * int ?k" "dd_total s = int (length xs)" "xs \<noteq> []"
      using s assms(1) by (auto simp: shows_page_def)
    then show ?thesis using k unfolding len pageStart_def pageEnd_def PAGE_SIZE_def by (auto simp: min_def)
  qed
  moreover have can: "canNext s = (50 * (?k + 1) < length xs)"
    using s by (simp add: canNext_def shows_page_def PAGE_SIZE_def) linarith
  moreover have "dd_requests (prev_page xs (next_page xs s)) = (if canNext s then dd_requests s else dd_requests (prev_page xs s))"
  proof (cases "canNext s")
    case True
    then have "shows_page xs ?k (prev_page xs (next_page xs s))" using shows_prev shows_next(1)[OF s] can by simp
    then show ?thesis using True s by (simp add: shows_page_def)
  next
    case False
    then show ?thesis using shows_next(2)[OF s] can by simp
  qed
  ultimately show ?thesis by blast
qed

section \<open>Witnesses\<close>

theorem paging_covers_all_records_witness:
  "dd_requests ((next_page (replicate 51 (sample_request ''a'' 1 None) @ [sample_request ''b'' 2 None]) ^^ 1)
     (visit (replicate 51 (sample_request ''a'' 1 None) @ [sample_request ''b'' 2 None]) (Some first_load) dashboard_data_init)) ! 1 =
   sample_request ''b'' 2 None"
  using paging_covers_all_records [of 51 "replicate 51 (sample_request ''a'' 1 None) @ [sample_request ''b'' 2 None]" dashboard_data_init]
  by (simp add: nth_append)

end
