(* ===== verification/Clipboard.thy ===== *)
theory Clipboard
  imports Prelude
begin

text \<open>
  Copying to the clipboard: \<open>copyText\<close> of \<open>utils.ts\<close> and of \<open>components/keys-page.tsx\<close>. Whether the browser lets a
  page write to the clipboard is an argument.
\<close>

type_synonym Clipboard = string

definition write_text :: "bool \<Rightarrow> string \<Rightarrow> Clipboard \<Rightarrow> Clipboard \<times> bool" where
  \<comment> \<open>\<open>navigator.clipboard.writeText\<close>: the clipboard afterwards and whether the promise is fulfilled\<close>
  "write_text allowed v clip = (if allowed then (v, True) else (clip, False))"

definition copyText :: "bool \<Rightarrow> string \<Rightarrow> Clipboard \<Rightarrow> Clipboard \<times> bool" where
  "copyText allowed v clip = (if v = [] then (clip, False) else write_text allowed v clip)"

definition keys_copyText :: "bool \<Rightarrow> string \<Rightarrow> Clipboard \<Rightarrow> Clipboard \<times> bool" where
  \<comment> \<open>the keys page has its own, which also copies the empty text\<close>
  "keys_copyText allowed v clip = write_text allowed v clip"

lemma copied_text: "copyText allowed v clip = (clip', True) \<Longrightarrow> clip' = v \<and> v \<noteq> []"
  by (auto simp: copyText_def write_text_def split: if_splits)

lemma not_copied: "copyText allowed v clip = (clip', False) \<Longrightarrow> clip' = clip"
  by (auto simp: copyText_def write_text_def split: if_splits)

lemma keys_copied_text: "keys_copyText allowed v clip = (clip', copied) \<Longrightarrow> clip' = (if copied then v else clip)"
  by (auto simp: keys_copyText_def write_text_def split: if_splits)

end
