(* ===== verification/Log_View.thy ===== *)
theory Log_View
  imports Request_Log Messages Clipboard
begin

text \<open>
  What \<open>components/request-log-table.tsx\<close> and \<open>components/logs-page.tsx\<close> show for the state of the log (theory
  \<open>Request_Log\<close>): headings with their sort buttons, rows, the menu of a row and what copying reports.
\<close>

section \<open>Rows\<close>

record LogRow =
  lr_key :: string
  lr_selected :: bool
  lr_time :: string
  lr_id :: string
  lr_path :: string
  lr_converted :: "(string \<times> string \<times> string) option" \<comment> \<open>badge, hint and target\<close>
  lr_route :: RouteCell
  lr_upstream :: string
  lr_model :: "string \<times> string list" \<comment> \<open>badge and the lines of its hint\<close>
  lr_source :: string
  lr_badges :: "(string \<times> badge_variant) list"
  lr_latency :: "(string \<times> string) list"
  lr_tokens :: "(string \<times> string) list"
  lr_estimated :: "string option"
  lr_hitRate :: string
  lr_speed :: string
  lr_cost :: string
  lr_menuLabel :: string

text \<open>Both models are named when the answer came from another model than the one asked for.\<close>

definition model_hint :: "translator \<Rightarrow> ConsoleRequestListItem \<Rightarrow> string list" where
  "model_hint t item =
     (case snd (model_cell item) of
        Other_model reqModel resModel \<Rightarrow>
          [t ''logTable.requestModel'' [(''model'', JStr reqModel)], t ''logTable.responseModel'' [(''model'', JStr resModel)]]
      | Same_model_as_asked _ \<Rightarrow> [])"

definition log_row ::
    "translator \<Rightarrow> (int \<Rightarrow> string) \<Rightarrow> (string \<Rightarrow> string option) \<Rightarrow> string option \<Rightarrow> ConsoleRequestListItem \<Rightarrow> LogRow" where
  "log_row t date_text url_pathname selectedId item =
     (let timing = rq_response_timing item; usage = rq_response_usage item
      in \<lparr>lr_key = rq_request_id item,
          lr_selected = (Some (rq_request_id item) = selectedId),
          lr_time = formatTime date_text (Some (rq_created_at item)),
          lr_id = shortText (JStr (rq_request_id item)) 24,
          lr_path = rq_path item,
          lr_converted = (if isResponsesChatCompatConverted url_pathname item
            then Some (t ''logTable.responsesChatCompat'' [], t ''logTable.responsesChatCompatTip'' [], rq_target_url item)
            else None),
          lr_route = route_cell item,
          lr_upstream = rq_upstream_type item,
          lr_model = (fst (model_cell item), model_hint t item),
          lr_source = getSourceTypeLabel t (rq_client_label item),
          lr_badges = getRuntimeStatusBadges t item,
          lr_latency =
            [(t ''logTable.firstLabel'' [], formatDuration (opt_int (rt_first_token_latency_ms timing))),
             (t ''logTable.totalLabel'' [], formatDuration (opt_int (rt_duration_ms timing)))],
          lr_tokens =
            [(t ''logTable.inputLabel'' [], formatCount (coalesce (coalesce (opt_int (us_uncached_input_tokens usage))
                (opt_int (us_input_tokens usage))) (JNum (Fin 0)))),
             (t ''logTable.outputLabel'' [], formatCount (coalesce (coalesce (opt_int (us_output_tokens usage))
                (opt_int (us_total_output_tokens usage))) (JNum (Fin 0)))),
             (t ''logTable.cacheLabel'' [], formatCount (JNum (getRequestCacheReadTokens item)))],
          lr_estimated = (if us_estimated usage = Some True then Some (t ''logTable.estimated'' []) else None),
          lr_hitRate = formatPercent (case calculateRequestCacheHitRate item of Some r \<Rightarrow> JNum r | None \<Rightarrow> JUndef),
          lr_speed = formatTokensPerSecond (speed_val (calculateOutputTokensPerSecond (usage_any usage) (timing_any timing))),
          lr_cost = formatCost (case us_cost usage of Some c \<Rightarrow> JNum c | None \<Rightarrow> JUndef),
          lr_menuLabel = t ''logTable.actionLabel'' []\<rparr>)"

section \<open>The menu of a row\<close>

text \<open>What an item of the menu or a button of the table does, as a call of a property or a copy.\<close>

datatype LogAction =
    ClearFilters | SelectRequest string | Copy string string
  | FilterRoute string | FilterModel string | FilterSource string

definition menu_items :: "translator \<Rightarrow> ConsoleRequestListItem \<Rightarrow> (string \<times> LogAction) list" where
  "menu_items t item =
     [(t ''logTable.viewDetail'' [], SelectRequest (rq_request_id item)),
      (t ''logTable.copyRequestId'' [], Copy ''request_id'' (rq_request_id item)),
      (t ''logTable.copyPath'' [], Copy (t ''detail.path'' []) (rq_path item)),
      (t ''logTable.filterSameRoute'' [], FilterRoute (rq_route_prefix item)),
      (t ''logTable.filterSameModel'' [], FilterModel (rq_request_model item)),
      (t ''logTable.filterSameSource'' [], FilterSource
        (case rq_api_key_name item of Some n \<Rightarrow> if n = [] then ''__anonymous__'' else n | None \<Rightarrow> ''__anonymous__''))]"

definition emitCopyFeedback :: "translator \<Rightarrow> bool \<Rightarrow> string \<Rightarrow> string \<Rightarrow> Clipboard \<Rightarrow> Clipboard \<times> string" where
  \<comment> \<open>the clipboard afterwards and the feedback shown until its timer ends\<close>
  "emitCopyFeedback t allowed label v clip =
     (case copyText allowed v clip of (clip', copied) \<Rightarrow>
        (clip', if copied then t ''logTable.copied'' [(''label'', JStr label)]
          else t ''logTable.copyFailed'' [(''label'', JStr label)]))"

text \<open>The page opens the request asked for; the other properties it passes are empty functions.\<close>

datatype LogEffect = Open_request string | Feedback "Clipboard \<times> string" | Nothing

fun log_action :: "translator \<Rightarrow> bool \<Rightarrow> Clipboard \<Rightarrow> LogAction \<Rightarrow> LogEffect" where
  "log_action t allowed clip (SelectRequest requestId) = Open_request requestId"
| "log_action t allowed clip (Copy label v) = Feedback (emitCopyFeedback t allowed label v clip)"
| "log_action t allowed clip ClearFilters = Nothing"
| "log_action t allowed clip (FilterRoute v) = Nothing"
| "log_action t allowed clip (FilterModel v) = Nothing"
| "log_action t allowed clip (FilterSource v) = Nothing"

section \<open>The table\<close>

text \<open>A heading, with the key and the icon of its sort button if it has one.\<close>

definition log_headings :: "translator \<Rightarrow> RequestSortKey \<Rightarrow> SortDirection \<Rightarrow> (string \<times> (RequestSortKey \<times> SortIcon) option) list" where
  "log_headings t sortBy sortOrder =
     (let sorted_by = (\<lambda>k. Some (k, sort_icon (sortBy = k) sortOrder))
      in [(t ''logTable.colTime'' [], sorted_by Created_at), (t ''logTable.colRequest'' [], None),
          (t ''logTable.colRoute'' [], None), (t ''logTable.colModel'' [], None), (t ''logTable.colSource'' [], None),
          (t ''logTable.colStatus'' [], sorted_by Response_status), (t ''logTable.colLatency'' [], None),
          (t ''logTable.colTokens'' [], sorted_by Tokens), (t ''logTable.colCacheHitRate'' [], None),
          (t ''logTable.colOutputSpeed'' [], None), (t ''logTable.colCost'' [], None),
          (t ''logTable.colActions'' [], None)])"

datatype LogBody =
    Log_skeleton
  | Log_empty string string "string \<times> LogAction"
  | Log_rows bool "(string \<times> (RequestSortKey \<times> SortIcon) option) list" "LogRow list"

record LogTable =
  lt_title :: "string \<times> string"
  lt_clear :: "string \<times> LogAction"
  lt_feedback :: "string option"
  lt_body :: LogBody

definition RequestLogTable ::
    "translator \<Rightarrow> (int \<Rightarrow> string) \<Rightarrow> (string \<Rightarrow> string option) \<Rightarrow> string option \<Rightarrow> string \<Rightarrow> DashboardData \<Rightarrow> LogTable" where
  "RequestLogTable t date_text url_pathname selectedId feedback s =
     \<lparr>lt_title = (t ''logTable.title'' [], t ''logTable.description'' []),
      lt_clear = (t ''common.clearFilters'' [], ClearFilters),
      lt_feedback = (if feedback = [] then None else Some feedback),
      lt_body = (if dd_loading s \<and> dd_requests s = [] then Log_skeleton
        else if dd_requests s \<noteq> []
        then Log_rows (dd_refreshing s) (log_headings t (dd_sortBy s) (dd_sortOrder s))
          (map (log_row t date_text url_pathname selectedId) (dd_requests s))
        else Log_empty (t ''logTable.emptyTitle'' []) (t ''logTable.emptyDescription'' [])
          (unicode [0x6E05, 0x7A7A, 0x7B5B, 0x9009], ClearFilters))\<rparr>"

section \<open>The page\<close>

record LogsView =
  lv_title :: "string \<times> string"
  lv_refresh :: "string \<times> bool"
  lv_table :: LogTable
  lv_footer :: string
  lv_prev :: "string \<times> bool"
  lv_next :: "string \<times> bool"

text \<open>A button is its label and whether it is disabled.\<close>

definition LogsPage ::
    "translator \<Rightarrow> (int \<Rightarrow> string) \<Rightarrow> (string \<Rightarrow> string option) \<Rightarrow> string \<Rightarrow> DashboardData \<Rightarrow> LogsView" where
  "LogsPage t date_text url_pathname feedback s =
     \<lparr>lv_title = (t ''logs.title'' [], t ''logs.description'' []),
      lv_refresh = (t ''common.refreshData'' [], dd_refreshing s),
      lv_table = RequestLogTable t date_text url_pathname None feedback s,
      lv_footer = int_str (pageStart s) @ unicode [0x2013] @ int_str (pageEnd s) @ '' / '' @ int_str (dd_total s),
      lv_prev = (t ''logs.prevPage'' [], \<not> canPrev s \<or> dd_refreshing s),
      lv_next = (t ''logs.nextPage'' [], \<not> canNext s \<or> dd_refreshing s)\<rparr>"

text \<open>Of the six items of the menu only the first three do anything, and the buttons that clear the filters nothing.\<close>

lemma filter_items_inert:
  "map (log_action t allowed clip \<circ> snd) (drop 3 (menu_items t item)) = [Nothing, Nothing, Nothing]"
  by (simp add: menu_items_def)

text \<open>A request shown is the request of its row, and copying it puts exactly its id on the clipboard.\<close>

lemma copy_request_id:
  "rq_request_id item \<noteq> [] \<Longrightarrow> log_action t True clip (snd (menu_items t item ! 1)) =
     Feedback (rq_request_id item, t ''logTable.copied'' [(''label'', JStr ''request_id'')])"
  by (simp add: menu_items_def emitCopyFeedback_def copyText_def write_text_def)

end
