(* ===== verification/Detail_View.thy ===== *)
theory Detail_View
  imports Sse Json_Roundtrip Format Failover Loaders
begin

text \<open>
  \<open>components/detail-view.tsx\<close>, \<open>components/payload-panel.tsx\<close>, \<open>components/detail-metric-table.tsx\<close> and the tree
  \<open>components/ui/json-viewer.tsx\<close>: what the detail page shows of a recorded request. The record is of type
  \<open>any\<close>; the calendar and the translator are arguments.
\<close>

section \<open>The JSON tree\<close>

text \<open>
  A node keeps one bit of state, whether it is expanded; it starts as \<open>defaultExpanded\<close> and its button flips it.
  \<open>flipped\<close> lists the paths flipped an odd number of times; collapsing a node unmounts its children, which
  forgets their state.
\<close>

datatype JsonTree =
    Leaf string
  | Closed string
  | Opened string "(string \<times> JsonTree) list"

definition node_open :: "nat list list \<Rightarrow> nat list \<Rightarrow> bool \<Rightarrow> bool" where
  "node_open flipped path defaultExpanded \<longleftrightarrow> (defaultExpanded \<noteq> (path \<in> set flipped))"

definition quoted :: "string \<Rightarrow> string" where
  "quoted s = [CHR 0x22] @ s @ [CHR 0x22]"

lemma size_entry: "p \<in> set ps \<Longrightarrow> size (snd p) < size (JObj ps)"
  by (induction ps) auto

lemma size_item: "v \<in> set vs \<Longrightarrow> size v < size (JArr vs)"
  by (induction vs) auto

text \<open>\<open>defaultExpanded={depth < 1}\<close> and \<open>depth={depth + 1}\<close> for the children.\<close>

function (sequential) JsonNode :: "nat list list \<Rightarrow> nat list \<Rightarrow> bool \<Rightarrow> nat \<Rightarrow> jsval \<Rightarrow> JsonTree" where
  "JsonNode flipped path dflt depth JNull = Leaf ''null''"
| "JsonNode flipped path dflt depth JUndef = Leaf ''undefined''"
| "JsonNode flipped path dflt depth (JBool b) = Leaf (if b then ''true'' else ''false'')"
| "JsonNode flipped path dflt depth (JNum n) = Leaf (number_to_string n)"
| "JsonNode flipped path dflt depth (JStr s) = Leaf (quoted s)"
| "JsonNode flipped path dflt depth (JArr vs) =
     (if vs = [] then Leaf ''[]''
      else let label = ''['' @ nat_str (length vs) @ '']''
        in if node_open flipped path dflt
           then Opened label (map (\<lambda>(i, v). (nat_str i @ '': '', JsonNode flipped (path @ [i]) (depth < 1) (depth + 1) v))
             (enumerate 0 vs))
           else Closed label)"
| "JsonNode flipped path dflt depth (JObj ps) =
     (if ps = [] then Leaf ''{}''
      else let label = ''{'' @ nat_str (length ps) @ ''}''
        in if node_open flipped path dflt
           then Opened label (map (\<lambda>(i, p). (quoted (fst p) @ '': '', JsonNode flipped (path @ [i]) (depth < 1) (depth + 1) (snd p)))
             (enumerate 0 ps))
           else Closed label)"
  by pat_completeness auto

termination
proof (relation "measure (\<lambda>(flipped, path, dflt, depth, v). size v)")
  fix flipped path dflt depth vs label iv i and v :: jsval
  assume "iv \<in> set (enumerate 0 vs)" and "(i, v) = iv"
  then have "v \<in> set vs" using snd_set_enumerate[of iv 0 vs] by (metis snd_conv)
  then show "((flipped, path @ [i], depth < 1, depth + 1, v), flipped, path, dflt, depth, JArr vs)
      \<in> measure (\<lambda>(flipped, path, dflt, depth, v). size v)" using size_item by simp
next
  fix flipped path dflt depth ps label ip i and p :: "string \<times> jsval"
  assume "ip \<in> set (enumerate 0 ps)" and "(i, p) = ip"
  then have "p \<in> set ps" using snd_set_enumerate[of ip 0 ps] by (metis snd_conv)
  then show "((flipped, path @ [i], depth < 1, depth + 1, snd p), flipped, path, dflt, depth, JObj ps)
      \<in> measure (\<lambda>(flipped, path, dflt, depth, v). size v)" using size_entry by simp
qed simp

definition JsonViewer :: "nat list list \<Rightarrow> bool \<Rightarrow> jsval \<Rightarrow> JsonTree" where
  "JsonViewer flipped defaultExpanded data = JsonNode flipped [] defaultExpanded 0 data"

definition toggle_node :: "nat list \<Rightarrow> nat list list \<Rightarrow> nat list list" where
  "toggle_node path flipped =
     (let kept = filter (\<lambda>q. \<not> strict_prefix path q \<and> q \<noteq> path) flipped
      in if path \<in> set flipped then kept else path # kept)"

section \<open>The payload panel\<close>

datatype PayloadBody = Payload_tree jsval | Payload_text string | Payload_empty string string

record PayloadPanelView =
  pp_title :: "string \<times> string"
  pp_modes :: "(string \<times> bool) list" \<comment> \<open>the switch of the view mode, with the mode in force\<close>
  pp_badges :: "string \<times> string"
  pp_body :: PayloadBody

definition parsed_payload :: "string option \<Rightarrow> jsval option" where
  "parsed_payload payload = (if getPayloadText payload = [] then None else json_parse (getPayloadText payload))"

definition PayloadPanel :: "translator \<Rightarrow> bool \<Rightarrow> string \<Rightarrow> string option \<Rightarrow> bool \<Rightarrow> PayloadPanelView" where
  \<comment> \<open>\<open>rawMode\<close> is \<open>viewMode === "raw"\<close>\<close>
  "PayloadPanel t rawMode title payload truncated =
     (let payloadText = getPayloadText payload
      in \<lparr>pp_title = (title, if payloadText \<noteq> [] then t ''payload.supportCopyView'' [] else t ''payload.noContent'' []),
          pp_modes = (if parsed_payload payload = None then []
            else [(t ''payload.structured'' [], \<not> rawMode), (t ''payload.raw'' [], rawMode)]),
          pp_badges = (if truncated then t ''payload.truncated'' [] else t ''payload.fullRetained'' [],
            formatBytes (Some (js_nat (getPayloadBytes payload)))),
          pp_body = (if payloadText = [] then Payload_empty (t ''payload.emptyTitle'' []) (t ''payload.emptyDescription'' [])
            else case parsed_payload payload of
                Some v \<Rightarrow> if rawMode then Payload_text payloadText else Payload_tree v
              | None \<Rightarrow> Payload_text payloadText)\<rparr>)"

section \<open>The detail view\<close>

definition hasContent :: "string \<Rightarrow> bool" where
  "hasContent v \<longleftrightarrow> trim v \<noteq> [] \<and> trim v \<noteq> ''{}''"

record TextCard =
  tcd_title :: "string \<times> string"
  tcd_body :: "(string \<times> string) + string" \<comment> \<open>\<open>Inl\<close>: the texts of the empty state\<close>

definition ReadonlyTextCard :: "string \<Rightarrow> string \<Rightarrow> string \<Rightarrow> string \<Rightarrow> string \<Rightarrow> TextCard" where
  "ReadonlyTextCard title description v emptyTitle emptyDescription =
     \<lparr>tcd_title = (title, description),
      tcd_body = (if hasContent v then Inr v else Inl (emptyTitle, emptyDescription))\<rparr>"

text \<open>A field of the record where a string is expected, and the time of one.\<close>

definition any_string :: "jsval \<Rightarrow> string option" where
  "any_string v = (case v of JStr s \<Rightarrow> Some s | _ \<Rightarrow> None)"

definition any_time :: "(jsval \<Rightarrow> string) \<Rightarrow> jsval \<Rightarrow> string" where
  "any_time date_text v = (if truthy v then date_text v else ''--'')"

definition any_bytes :: "jsval \<Rightarrow> string" where
  "any_bytes v = formatBytes (Some (or_zero v))"

definition greater_zero :: "jsval \<Rightarrow> bool" where
  "greater_zero v \<longleftrightarrow> num_less (Fin 0) (js_to_number v)"

text \<open>The rows of the overview; a value of type \<open>any\<close> is rendered as it is.\<close>

definition requestRows :: "translator \<Rightarrow> (jsval \<Rightarrow> string) \<Rightarrow> ConsoleRequestDetail \<Rightarrow> (string \<times> jsval) list" where
  "requestRows t date_text detail =
     (let rec = rd_record detail; usage = coalesce (js_get rec ''response_usage'') (JObj []);
          text = (\<lambda>k. js_to_string (js_get rec k))
      in [(t ''detail.requestId'' [], js_get rec ''request_id''),
          (t ''detail.time'' [], JStr (any_time date_text (js_get rec ''created_at''))),
          (t ''detail.path'' [], js_get rec ''path''),
          (t ''detail.routePrefix'' [],
            if truthy (js_get rec ''failover_from'')
            then JStr (js_to_string (js_or (js_get rec ''original_route_prefix'') (js_get rec ''failover_from''))
              @ utf8 [0x20, 0xE2, 0x86, 0x92, 0x20] @ text ''route_prefix'')
            else js_get rec ''route_prefix''),
          (t ''detail.keySource'' [],
            JStr (case rd_client_label detail of Some l \<Rightarrow> if l = [] then ''generic'' else l | None \<Rightarrow> ''generic'')),
          (t ''detail.requestModel'' [], js_get rec ''request_model''),
          (t ''detail.responseModel'' [], js_or (js_get usage ''model'') (JStr ''--'')),
          (t ''detail.targetUrl'' [], js_get rec ''target_url''),
          (t ''detail.upstreamType'' [], js_get rec ''upstream_type''),
          (t ''detail.httpStatus'' [],
            JStr (trim (js_to_string (coalesce (js_get rec ''response_status'') (JStr ''--'')) @ '' '' @
              js_to_string (js_or (js_get rec ''response_status_text'') (JStr []))))) ] @
         (if truthy (js_get rec ''failover_reason'') then [(t ''detail.failoverReason'' [], js_get rec ''failover_reason'')] else []) @
         (if greater_zero (js_get rec ''retry_attempt'')
          then [(t ''detail.retryAttempt'' [], JStr (text ''retry_attempt''))] else []))"

definition timingRows :: "translator \<Rightarrow> jsval \<Rightarrow> (string \<times> string) list" where
  "timingRows t timing =
     [(t ''detail.firstChunk'' [], formatDuration (js_get timing ''first_chunk_latency_ms'')),
      (t ''detail.firstToken'' [], formatDuration (js_get timing ''first_token_latency_ms'')),
      (t ''detail.duration'' [], formatDuration (js_get timing ''duration_ms'')),
      (t ''detail.generationDuration'' [], formatDuration (js_get timing ''generation_duration_ms'')),
      (t ''detail.responseBodySize'' [], any_bytes (js_get timing ''response_body_bytes'')),
      (t ''detail.transferMode'' [],
        if truthy (js_get timing ''has_streaming_content'') then t ''detail.streaming'' [] else t ''detail.nonStreaming'' [])]"

definition headers_text :: "jsval \<Rightarrow> string \<Rightarrow> string" where
  "headers_text rec k = json_stringify2 (coalesce (js_get rec k) (JObj []))"

definition payload_panel :: "translator \<Rightarrow> bool \<Rightarrow> string \<Rightarrow> jsval \<Rightarrow> string \<Rightarrow> PayloadPanelView" where
  \<comment> \<open>the panel of a payload of the record\<close>
  "payload_panel t rawMode title rec k =
     PayloadPanel t rawMode title (any_string (js_get rec k)) (truthy (js_get rec (k @ ''_truncated'')))"

text \<open>
  A card is its title and description with its rows; \<open>raw\<close> gives each payload panel its view mode (the
  original, the forwarded and the response payload).
\<close>

record DetailContent =
  dc_badges :: "jsval list"
  dc_title :: jsval
  dc_subtitle :: "string \<times> jsval \<times> string"
  dc_error :: "(string \<times> string) option"
  dc_tabs :: "string list"
  dc_request :: "(string \<times> string) \<times> (string \<times> jsval) list"
  dc_timing :: "(string \<times> string) \<times> (string \<times> string) list"
  dc_usage :: "(string \<times> string) \<times> MetricRow list"
  dc_cost :: "(string \<times> string) \<times> MetricRow list"
  dc_payloads :: "PayloadPanelView list"
  dc_headers :: "TextCard list"
  dc_sse :: "TextCard option"
  dc_response :: PayloadPanelView
  dc_responseHeaders :: TextCard

datatype DetailViewState = Detail_missing "string \<times> string" string string | Detail_shown DetailContent

definition request_tab :: "translator \<Rightarrow> (nat \<Rightarrow> bool) \<Rightarrow> jsval \<Rightarrow> PayloadPanelView list \<times> TextCard list" where
  "request_tab t raw rec =
     ([payload_panel t (raw 0) (t ''detail.originalPayload'' []) rec ''original_payload'',
       payload_panel t (raw 1) (t ''detail.forwardedPayload'' []) rec ''forwarded_payload''],
      [ReadonlyTextCard (t ''detail.originalHeaders'' []) (t ''detail.originalHeadersDesc'' [])
         (headers_text rec ''original_headers'') (t ''detail.noOriginalHeaders'' []) (t ''detail.noOriginalHeadersDesc'' []),
       ReadonlyTextCard (t ''detail.forwardedHeaders'' []) (t ''detail.forwardedHeadersDesc'' [])
         (headers_text rec ''forward_headers'') (t ''detail.noForwardedHeaders'' []) (t ''detail.noForwardedHeadersDesc'' [])])"

definition sse_card :: "translator \<Rightarrow> jsval \<Rightarrow> jsval \<Rightarrow> TextCard option" where
  "sse_card t rec timing =
     (if truthy (js_get timing ''has_streaming_content'')
      then Some (ReadonlyTextCard (t ''detail.sseConcat'' []) (t ''detail.sseConcatDesc'' [])
        (extractReadableSseText (any_string (js_get rec ''response_payload'')))
        (t ''detail.noSseConcat'' []) (t ''detail.noSseConcatDesc'' []))
      else None)"

definition DetailView ::
    "translator \<Rightarrow> (jsval \<Rightarrow> string) \<Rightarrow> (nat \<Rightarrow> bool) \<Rightarrow> ConsoleRequestDetail option \<Rightarrow> string \<Rightarrow> DetailViewState" where
  "DetailView t date_text raw detail error =
     (case detail of
        None \<Rightarrow> Detail_missing (t ''detail.detailTitle'' [], t ''detail.detailDesc'' []) (t ''detail.emptyTitle'' [])
          (if error \<noteq> [] then error else t ''detail.emptyDesc'' [])
      | Some d \<Rightarrow>
          (let rec = rd_record d; usage = coalesce (js_get rec ''response_usage'') (JObj []);
               timing = coalesce (js_get rec ''response_timing'') (JObj []);
               upstream = js_to_string (js_get rec ''upstream_type'')
           in Detail_shown
             \<lparr>dc_badges = [js_get rec ''route_prefix'', js_get rec ''upstream_type'', JStr (an_summary (rd_analysis d))],
              dc_title = js_get rec ''path'',
              dc_subtitle = (any_time date_text (js_get rec ''created_at''), js_get rec ''request_model'',
                shortText (js_get (js_get rec ''forwarded_summary'') ''metadata_user_id'') 28),
              dc_error = (if error = [] then None else Some (t ''detail.refreshFailed'' [], error)),
              dc_tabs = [t ''detail.tabSummary'' [], t ''detail.tabRequest'' [], t ''detail.tabResponse'' []],
              dc_request = ((t ''detail.overviewTitle'' [], t ''detail.overviewDesc'' []), requestRows t date_text d),
              dc_timing = ((t ''detail.timingTitle'' [], t ''detail.timingDesc'' []), timingRows t timing),
              dc_usage = ((t ''detail.tokenTitle'' [], t ''detail.tokenDesc'' []), getUsageMetricRows usage timing upstream),
              dc_cost = ((t ''detail.costTitle'' [], t ''detail.costDesc'' []),
                getCostMetricRows usage (js_to_string (js_get rec ''request_model'')) upstream),
              dc_payloads = fst (request_tab t raw rec),
              dc_headers = snd (request_tab t raw rec),
              dc_sse = sse_card t rec timing,
              dc_response = payload_panel t (raw 2) (t ''detail.responseBody'' []) rec ''response_payload'',
              dc_responseHeaders = ReadonlyTextCard (t ''detail.responseHeaders'' []) (t ''detail.responseHeadersDesc'' [])
                (headers_text rec ''response_headers'') (t ''detail.noResponseHeaders'' [])
                (t ''detail.noResponseHeadersDesc'' [])\<rparr>))"

section \<open>The detail page\<close>

text \<open>\<open>detail-page.tsx\<close>: the bar with the request's id, and the loading card or the view of what the loader holds.\<close>

record DetailPageView =
  dpv_back :: string
  dpv_requestId :: string
  dpv_refresh :: string
  dpv_body :: "(string \<times> string \<times> string) + DetailViewState"

definition DetailPage ::
    "translator \<Rightarrow> (jsval \<Rightarrow> string) \<Rightarrow> (nat \<Rightarrow> bool) \<Rightarrow> string \<Rightarrow> DetailState \<Rightarrow> DetailPageView" where
  "DetailPage t date_text raw requestId s =
     \<lparr>dpv_back = t ''detail.backToLogs'' [], dpv_requestId = requestId, dpv_refresh = t ''common.refresh'' [],
      dpv_body = (if detail_loading_card s
        then Inl (t ''detail.loadingTitle'' [], t ''detail.loadingDesc'' [],
          t ''detail.requestIdLabel'' [(''id'', JStr requestId)])
        else Inr (DetailView t date_text raw (dts_detail (dt_shown s)) (dts_error (dt_shown s))))\<rparr>"

section \<open>Every value of a tree can be reached\<close>

fun node_at :: "JsonTree \<Rightarrow> nat list \<Rightarrow> JsonTree option" where
  "node_at tree [] = Some tree"
| "node_at (Opened label children) (i # path) =
     (if i < length children then node_at (snd (children ! i)) path else None)"
| "node_at _ _ = None"

fun value_at :: "jsval \<Rightarrow> nat list \<Rightarrow> jsval option" where
  "value_at v [] = Some v"
| "value_at (JArr vs) (i # path) = (if i < length vs then value_at (vs ! i) path else None)"
| "value_at (JObj ps) (i # path) = (if i < length ps then value_at (snd (ps ! i)) path else None)"
| "value_at _ _ = None"

text \<open>\<open>defaultExpanded\<close> of a node by its depth: the root's own, its children open, all others closed.\<close>

definition default_at :: "bool \<Rightarrow> nat \<Rightarrow> bool" where
  "default_at dflt depth = (if depth = 0 then dflt else depth \<le> 1)"

lemma default_at_child: "(depth = 0) = default_at dflt (Suc depth)"
  by (auto simp: default_at_def)

lemma node_at_open:
  assumes "value_at v path = Some w"
    and "\<And>k. k < length path \<Longrightarrow> node_open flipped (base @ take k path) (default_at dflt (depth + k))"
  shows "node_at (JsonNode flipped base (default_at dflt depth) depth v) path =
    Some (JsonNode flipped (base @ path) (default_at dflt (depth + length path)) (depth + length path) w)"
  using assms
proof (induction path arbitrary: v base depth)
  case (Cons i path)
  have here: "node_open flipped base (default_at dflt depth)" using Cons.prems(2)[of 0] by simp
  have deeper: "node_open flipped ((base @ [i]) @ take k path) (default_at dflt (depth + 1 + k))" if "k < length path" for k
    using Cons.prems(2)[of "Suc k"] that by simp
  consider (arr) vs where "v = JArr vs" "i < length vs" "value_at (vs ! i) path = Some w"
    | (obj) ps where "v = JObj ps" "i < length ps" "value_at (snd (ps ! i)) path = Some w"
    using Cons.prems(1) by (cases v) (auto split: if_splits)
  then show ?case
  proof cases
    case arr
    then have "vs \<noteq> []" by auto
    then show ?thesis using arr here Cons.IH[OF arr(3) deeper]
      by (simp add: Let_def nth_enumerate_eq default_at_child[of depth dflt])
  next
    case obj
    then have "ps \<noteq> []" by auto
    then show ?thesis using obj here Cons.IH[OF obj(3) deeper]
      by (simp add: Let_def nth_enumerate_eq default_at_child[of depth dflt])
  qed
qed simp

text \<open>The clicks that open a path, from the root down: the closed nodes on the way.\<close>

definition clicks :: "bool \<Rightarrow> nat list \<Rightarrow> nat list list" where
  "clicks dflt path = filter (\<lambda>q. \<not> default_at dflt (length q)) (map (\<lambda>k. take k path) [0..<length path])"

lemma fold_toggle_prefixes:
  assumes "sorted_wrt (\<lambda>p q. length p < length q) qs" and "\<forall>f \<in> set fs. \<forall>q \<in> set qs. length f < length q"
  shows "set (fold toggle_node qs fs) = set qs \<union> set fs"
  using assms
proof (induction qs arbitrary: fs)
  case (Cons q qs)
  have new: "q \<notin> set fs" "filter (\<lambda>p. \<not> strict_prefix q p \<and> p \<noteq> q) fs = fs"
    using Cons.prems(2) by (auto simp: filter_id_conv dest!: prefix_length_less)
  then have "toggle_node q fs = q # fs" by (simp add: toggle_node_def Let_def)
  moreover have "\<forall>f \<in> set (q # fs). \<forall>p \<in> set qs. length f < length p" using Cons.prems by auto
  ultimately show ?case using Cons by simp
qed simp

lemma sorted_clicks: "sorted_wrt (\<lambda>p q. length p < length q) (clicks dflt path)"
  unfolding clicks_def by (intro sorted_wrt_filter) (auto simp: sorted_wrt_map sorted_wrt_iff_nth_less)

section \<open>Properties\<close>

text \<open>
  Property C38. Every value inside a payload can be reached in the viewer: clicking the closed nodes on its path
  from the root down, at most one per level, displays it, however deep it lies; the viewer itself returns
  on every value.
\<close>

theorem json_viewer_reaches:
  fixes dflt :: bool and path :: "nat list"
  assumes "value_at data path = Some w"
  defines "flipped \<equiv> fold toggle_node (clicks dflt path) []"
  shows "node_at (JsonViewer flipped dflt data) path =
      Some (JsonNode flipped path (default_at dflt (length path)) (length path) w) \<and>
    length (clicks dflt path) \<le> length path"
proof -
  have flipped: "set flipped = set (clicks dflt path)"
    unfolding flipped_def using fold_toggle_prefixes[OF sorted_clicks, of "[]"] by simp
  have "node_open flipped ([] @ take k path) (default_at dflt (0 + k))" if "k < length path" for k
    using that by (auto simp: node_open_def flipped clicks_def)
  then have "node_at (JsonNode flipped [] (default_at dflt 0) 0 data) path =
      Some (JsonNode flipped ([] @ path) (default_at dflt (0 + length path)) (0 + length path) w)"
    using assms(1) by (intro node_at_open)
  moreover have "length (clicks dflt path) \<le> length path"
    unfolding clicks_def by (metis length_filter_le length_map length_upt minus_nat.diff_0)
  ultimately show ?thesis by (simp add: JsonViewer_def default_at_def)
qed

text \<open>
  The payload panel is faithful: a recorded JSON payload is shown as the tree of exactly the value
  that was recorded, and as its indented text, which is the same value; a payload that is not JSON is shown
  as it is, without the switch to a tree; an empty one as empty.
\<close>

theorem payload_panel_faithful:
  assumes "json_clean v" and "json_parse s = None" and "s \<noteq> []"
  shows "pp_body (PayloadPanel t False title (Some (json_stringify v)) truncated) = Payload_tree v \<and>
    pp_body (PayloadPanel t True title (Some (json_stringify v)) truncated) = Payload_text (json_stringify2 v) \<and>
    json_parse (json_stringify2 v) = Some v \<and>
    pp_body (PayloadPanel t raw title (Some s) truncated) = Payload_text s \<and>
    pp_modes (PayloadPanel t raw title (Some s) truncated) = [] \<and>
    pp_body (PayloadPanel t raw title None truncated) = Payload_empty (t ''payload.emptyTitle'' []) (t ''payload.emptyDescription'' [])"
proof -
  have ne: "json_stringify v \<noteq> []" "json_stringify2 v \<noteq> []"
    using json_text_hd[OF assms(1)] unfolding json_stringify_def json_stringify2_def
    by (metis list.distinct(1))+
  have shown: "getPayloadText (Some (json_stringify v)) = json_stringify2 v"
    using ne by (simp add: getPayloadText_def json_parse_stringify[OF assms(1)])
  have "getPayloadText (Some s) = s" "getPayloadText None = []"
    using assms(2,3) by (simp_all add: getPayloadText_def)
  then show ?thesis using ne shown assms(2,3) json_parse_stringify2[OF assms(1)]
    by (simp add: PayloadPanel_def parsed_payload_def Let_def)
qed

section \<open>Witnesses\<close>

theorem json_viewer_reaches_witness:
  "\<exists>flipped. node_at (JsonViewer flipped True (JArr [JArr [JArr [JArr [JStr ''x'']]]])) [0, 0, 0, 0] = Some (Leaf (quoted ''x''))"
  using json_viewer_reaches[of "JArr [JArr [JArr [JArr [JStr ''x'']]]]" "[0, 0, 0, 0]" "JStr ''x''" True] by auto

theorem payload_panel_faithful_witness:
  "pp_body (PayloadPanel (\<lambda>k _. k) False [] (Some ''null'') False) = Payload_tree JNull"
proof -
  have "json_parse ''{'' = None" by code_simp
  then show ?thesis using payload_panel_faithful[of JNull "''{''" "\<lambda>k _. k" "[]" False False]
    by (simp add: json_stringify_def)
qed

end
