(* ===== verification/Keyed_List.thy ===== *)
theory Keyed_List
  imports Prelude
begin

text \<open>
  The lists of records the pages keep in step with the server: after a successful create, update or
  delete the page appends, replaces or removes the record with that key. The contract is the locale
  \<open>mirrored_store\<close>; the pages interpret it on their own lists.
\<close>

definition find_key :: "('a \<Rightarrow> 'k) \<Rightarrow> 'a list \<Rightarrow> 'k \<Rightarrow> 'a option" where
  "find_key key xs k = find (\<lambda>x. key x = k) xs"

definition update_key :: "('a \<Rightarrow> 'k) \<Rightarrow> 'k \<Rightarrow> ('a \<Rightarrow> 'a) \<Rightarrow> 'a list \<Rightarrow> 'a list" where
  \<comment> \<open>\<open>cur.map((item) => item.id === target.id ? { ...item, ...updated } : item)\<close>, \<open>f\<close> the merge\<close>
  "update_key key k f cur = map (\<lambda>a. if key a = k then f a else a) cur"

definition replace_key :: "('a \<Rightarrow> 'k) \<Rightarrow> 'a \<Rightarrow> 'a list \<Rightarrow> 'a list" where
  \<comment> \<open>\<open>cur.map((a) => (a.id === updated.id ? updated : a))\<close>\<close>
  "replace_key key updated cur = map (\<lambda>a. if key a = key updated then updated else a) cur"

definition remove_key :: "('a \<Rightarrow> 'k) \<Rightarrow> 'k \<Rightarrow> 'a list \<Rightarrow> 'a list" where
  \<comment> \<open>\<open>cur.filter((a) => a.id !== id)\<close>\<close>
  "remove_key key k cur = filter (\<lambda>a. key a \<noteq> k) cur"

definition append_item :: "'a \<Rightarrow> 'a list \<Rightarrow> 'a list" where
  \<comment> \<open>\<open>[...cur, created]\<close>\<close>
  "append_item created cur = cur @ [created]"

definition prepend_item :: "'a \<Rightarrow> 'a list \<Rightarrow> 'a list" where
  \<comment> \<open>\<open>[created, ...cur]\<close>\<close>
  "prepend_item created cur = created # cur"

lemma replace_key_update: "replace_key key x = update_key key (key x) (\<lambda>_. x)"
  by (simp add: fun_eq_iff replace_key_def update_key_def)

lemma find_key_update:
  "(\<And>x. key x = k \<Longrightarrow> key (f x) = k) \<Longrightarrow>
     find_key key (update_key key k f xs) k' = (if k' = k then map_option f (find_key key xs k) else find_key key xs k')"
  by (induction xs) (auto simp: find_key_def update_key_def)

lemma find_key_remove: "find_key key (remove_key key k' xs) k = (if k = k' then None else find_key key xs k)"
  by (induction xs) (auto simp: find_key_def remove_key_def)

lemma find_key_append:
  "find_key key xs (key x) = None \<Longrightarrow>
     find_key key (append_item x xs) k = (if k = key x then Some x else find_key key xs k)"
  by (induction xs) (auto simp: find_key_def append_item_def split: if_splits)

lemma find_key_prepend:
  "find_key key (prepend_item x xs) k = (if k = key x then Some x else find_key key xs k)"
  by (auto simp: find_key_def prepend_item_def)

lemma find_key_Some_iff:
  "distinct (map key xs) \<Longrightarrow> find_key key xs k = Some x \<longleftrightarrow> x \<in> set xs \<and> key x = k"
  by (induction xs) (auto simp: find_key_def image_iff)

lemma map_key_update: "(\<And>x. key x = k \<Longrightarrow> key (f x) = k) \<Longrightarrow> map key (update_key key k f xs) = map key xs"
  by (induction xs) (auto simp: update_key_def)

lemma length_update_key [simp]: "length (update_key key k f xs) = length xs"
  by (simp add: update_key_def)

lemma map_key_replace [simp]: "map key (replace_key key x xs) = map key xs"
  by (simp add: replace_key_update map_key_update)

lemma distinct_key_remove: "distinct (map key xs) \<Longrightarrow> distinct (map key (remove_key key k xs))"
  by (simp add: remove_key_def distinct_map_filter)

text \<open>What the server answered, in the order the page learns it.\<close>

datatype ('a, 'k) answer = Created 'a | Updated 'k "'a \<Rightarrow> 'a" | Deleted 'k

fun server_step :: "('a \<Rightarrow> 'k) \<Rightarrow> ('a, 'k) answer \<Rightarrow> ('k \<rightharpoonup> 'a) \<Rightarrow> ('k \<rightharpoonup> 'a)" where
  "server_step key (Created x) m = m(key x \<mapsto> x)"
| "server_step key (Updated k f) m = m(k := map_option f (m k))"
| "server_step key (Deleted k) m = m(k := None)"

text \<open>A create makes a new record, an update changes an existing one and keeps its key.\<close>

fun server_allows :: "('a \<Rightarrow> 'k) \<Rightarrow> ('a, 'k) answer list \<Rightarrow> ('k \<rightharpoonup> 'a) \<Rightarrow> bool" where
  "server_allows key [] m = True"
| "server_allows key (a # as) m =
     ((case a of Created x \<Rightarrow> m (key x) = None | Updated k f \<Rightarrow> m k \<noteq> None \<and> (\<forall>x. key x = k \<longrightarrow> key (f x) = k)
        | Deleted k \<Rightarrow> True) \<and>
      server_allows key as (server_step key a m))"

locale mirrored_store =
  fixes key :: "'a \<Rightarrow> 'k"
    and lookup :: "'s \<Rightarrow> 'k \<Rightarrow> 'a option"
    and created :: "'a \<Rightarrow> 's \<Rightarrow> 's"
    and updated :: "'k \<Rightarrow> ('a \<Rightarrow> 'a) \<Rightarrow> 's \<Rightarrow> 's"
    and deleted :: "'k \<Rightarrow> 's \<Rightarrow> 's"
  assumes lookup_created: "lookup s (key x) = None \<Longrightarrow>
      lookup (created x s) k = (if k = key x then Some x else lookup s k)"
    and lookup_updated: "(\<And>x. key x = k' \<Longrightarrow> key (f x) = k') \<Longrightarrow>
      lookup (updated k' f s) k = (if k = k' then map_option f (lookup s k') else lookup s k)"
    and lookup_deleted: "lookup (deleted k' s) k = (if k = k' then None else lookup s k)"
begin

fun page_step :: "('a, 'k) answer \<Rightarrow> 's \<Rightarrow> 's" where
  "page_step (Created x) s = created x s"
| "page_step (Updated k f) s = updated k f s"
| "page_step (Deleted k) s = deleted k s"

text \<open>The page's list always answers as the server's table does.\<close>

lemma mirrors_server:
  assumes "server_allows key as m" and "lookup s = m"
  shows "lookup (fold page_step as s) = fold (server_step key) as m"
  using assms
proof (induction as arbitrary: s m)
  case (Cons a as)
  have "lookup (page_step a s) = server_step key a m"
    using Cons.prems by (cases a) (simp_all add: fun_eq_iff lookup_created lookup_updated lookup_deleted)
  with Cons show ?case by simp
qed simp

end

end
