(* ===== verification/Models_Page.thy ===== *)
theory Models_Page
  imports Api JS_Decimal Failover Keyed_List
begin

text \<open>
  \<open>components/models-page.tsx\<close>: the models of the channels, their test dialog and the dialog that overrides
  context length and prices. Handlers are cut at their \<open>await\<close>; the translator is an argument.
\<close>

section \<open>The table\<close>

definition formatContext :: "int option \<Rightarrow> string" where
  "formatContext context =
     (case context of
        None \<Rightarrow> ''--''
      | Some c \<Rightarrow>
          if c = 0 then ''--''
          else if 1000000 \<le> c then
            (let m = num_div (js_int c) (Fin 1000000)
             in (if is_integer m then number_to_string m else to_fixed 1 m) @ ''M'')
          else if 1000 \<le> c then to_locale_string (num_div (js_int c) (Fin 1000)) @ ''K''
          else number_to_string (js_int c))"

definition formatPrice :: "jsnum option \<Rightarrow> string" where
  "formatPrice price = (case price of None \<Rightarrow> ''--'' | Some p \<Rightarrow> ''$'' @ to_fixed 2 p)"

record ModelTableRow =
  mtr_id :: string
  mtr_context :: "string \<times> string option"
  mtr_input :: "string \<times> string option"
  mtr_output :: string
  mtr_channel :: string
  mtr_buttons :: "string list"

text \<open>The badge of a value the operator set.\<close>

definition manual_badge :: "translator \<Rightarrow> bool \<Rightarrow> string option" where
  "manual_badge t manual = (if manual then Some (t ''models.manualBadge'' []) else None)"

definition model_table_row :: "translator \<Rightarrow> GatewayModel \<Rightarrow> ModelTableRow" where
  "model_table_row t model =
     \<lparr>mtr_id = gm_id model,
      mtr_context = (formatContext (gm_context model), manual_badge t
        (case gm_override model of Some ov \<Rightarrow> ov_context ov \<noteq> None | None \<Rightarrow> False)),
      mtr_input = (formatPrice (map_option pr_input (gm_pricing model)), manual_badge t
        (case gm_override model of Some ov \<Rightarrow> ov_pricing ov \<noteq> None | None \<Rightarrow> False)),
      mtr_output = formatPrice (map_option pr_output (gm_pricing model)),
      mtr_channel = gm_channelName model,
      mtr_buttons = [t ''common.test'' [], t ''common.edit'' []]\<rparr>"

datatype ModelTable = Models_loading | Models_none string string | Models_rows "string list" "ModelTableRow list"

definition model_table :: "translator \<Rightarrow> GatewayModel list option \<Rightarrow> ModelTable" where
  "model_table t models =
     (case models of
        None \<Rightarrow> Models_loading
      | Some ms \<Rightarrow>
          if ms = [] then Models_none (t ''models.noModelsTitle'' []) (t ''models.noModelsDesc'' [])
          else Models_rows
            [t ''models.modelId'' [], t ''models.contextLength'' [], t ''models.inputPrice'' [], t ''models.outputPrice'' [],
             t ''models.channel'' [], []]
            (map (model_table_row t) ms))"

section \<open>The metadata draft\<close>

record ModelMetadataDraft =
  md_context :: string
  md_input :: string
  md_output :: string
  md_cacheRead :: string
  md_cacheWrite :: string

definition numberToDraft :: "jsnum option \<Rightarrow> string" where
  "numberToDraft v = (case v of None \<Rightarrow> [] | Some n \<Rightarrow> number_to_string n)"

text \<open>\<open>a ?? b\<close> on optional fields.\<close>

definition or_else :: "'a option \<Rightarrow> 'a option \<Rightarrow> 'a option" where
  "or_else a b = (case a of Some x \<Rightarrow> Some x | None \<Rightarrow> b)"

definition effective_pricing :: "GatewayModel \<Rightarrow> ConsoleModelPricing option" where
  "effective_pricing model = or_else (Option.bind (gm_override model) ov_pricing) (gm_pricing model)"

definition effective_context :: "GatewayModel \<Rightarrow> int option" where
  "effective_context model = or_else (Option.bind (gm_override model) ov_context) (gm_context model)"

definition createMetadataDraft :: "GatewayModel \<Rightarrow> ModelMetadataDraft" where
  "createMetadataDraft model =
     (let pricing = effective_pricing model
      in \<lparr>md_context = numberToDraft (map_option js_int (effective_context model)),
          md_input = numberToDraft (map_option pr_input pricing),
          md_output = numberToDraft (map_option pr_output pricing),
          md_cacheRead = numberToDraft (Option.bind pricing pr_cache_read),
          md_cacheWrite = numberToDraft (Option.bind pricing pr_cache_write)\<rparr>)"

text \<open>\<open>integer\<close> and \<open>min\<close> are the options of the call (here \<open>least\<close>).\<close>

definition parseOptionalNumber ::
    "translator \<Rightarrow> string \<Rightarrow> string \<Rightarrow> bool \<Rightarrow> jsnum \<Rightarrow> jsnum option result" where
  "parseOptionalNumber t val label integer least =
     (let trimmed = trim val; numeric = string_to_number trimmed
      in if trimmed = [] then return None
         else if \<not> is_finite numeric then throw (t ''models.validationNumber'' [(''label'', JStr label)])
         else if integer \<and> \<not> is_integer numeric then throw (t ''models.validationInteger'' [(''label'', JStr label)])
         else if num_less numeric least
         then throw (t ''models.validationMin'' [(''label'', JStr label), (''min'', JNum least)])
         else return (Some numeric))"

definition buildPricingDraft :: "translator \<Rightarrow> ModelMetadataDraft \<Rightarrow> PartialPricing option result" where
  "buildPricingDraft t draft =
     bind_result (parseOptionalNumber t (md_input draft) (t ''models.inputPrice'' []) False (Fin 0)) (\<lambda>inp.
     bind_result (parseOptionalNumber t (md_output draft) (t ''models.outputPrice'' []) False (Fin 0)) (\<lambda>outp.
     bind_result (parseOptionalNumber t (md_cacheRead draft) (t ''models.cacheReadPrice'' []) False (Fin 0)) (\<lambda>rd.
     bind_result (parseOptionalNumber t (md_cacheWrite draft) (t ''models.cacheWritePrice'' []) False (Fin 0)) (\<lambda>wr.
       if inp = None \<and> outp = None \<and> rd = None \<and> wr = None then return None
       else if inp = None \<or> outp = None then throw (t ''models.customPricingRequired'' [])
       else return (Some \<lparr>pp_input = inp, pp_output = outp, pp_cache_read = rd, pp_cache_write = wr\<rparr>)))))"

definition parseMetadataDraft ::
    "translator \<Rightarrow> ModelMetadataDraft \<Rightarrow> (jsnum option \<times> PartialPricing option) result" where
  "parseMetadataDraft t draft =
     bind_result (parseOptionalNumber t (md_context draft) (t ''models.contextLength'' []) True (Fin 1)) (\<lambda>context.
     bind_result (buildPricingDraft t draft) (\<lambda>pricing. return (context, pricing)))"

section \<open>The page\<close>

record ModelsPage =
  mp_openaiModels :: "GatewayModel list option"
  mp_anthropicModels :: "GatewayModel list option"
  mp_error :: string
  mp_loading :: bool
  mp_testDialogOpen :: bool
  mp_testDialogModel :: "GatewayModel option"
  mp_testDialogResult :: "TestProviderResult option"
  mp_testDialogLoading :: bool
  mp_editDialogOpen :: bool
  mp_editDialogModel :: "GatewayModel option"
  mp_editDraft :: ModelMetadataDraft
  mp_editError :: string
  mp_savingMetadata :: bool
  mp_unauthorized :: nat

definition models_page_init :: ModelsPage where
  "models_page_init =
     \<lparr>mp_openaiModels = None, mp_anthropicModels = None, mp_error = [], mp_loading = False,
      mp_testDialogOpen = False, mp_testDialogModel = None, mp_testDialogResult = None,
      mp_testDialogLoading = False, mp_editDialogOpen = False, mp_editDialogModel = None,
      mp_editDraft = \<lparr>md_context = [], md_input = [], md_output = [], md_cacheRead = [], md_cacheWrite = []\<rparr>,
      mp_editError = [], mp_savingMetadata = False, mp_unauthorized = 0\<rparr>"

definition loadModels_start :: "ModelsPage \<Rightarrow> ModelsPage" where
  "loadModels_start s = s\<lparr>mp_loading := True\<rparr>"

definition loadModels_end :: "ConsoleModelsPayload result \<Rightarrow> ModelsPage \<Rightarrow> ModelsPage" where
  "loadModels_end r s =
     (case r of
        Inr data \<Rightarrow>
          s\<lparr>mp_openaiModels := Some (cm_openai data), mp_anthropicModels := Some (cm_anthropic data), mp_error := []\<rparr>
      | Inl message \<Rightarrow>
          if message = ''unauthorized'' then s\<lparr>mp_unauthorized := mp_unauthorized s + 1\<rparr>
          else s\<lparr>mp_error := message\<rparr>)\<lparr>mp_loading := False\<rparr>"

definition model_test_outcome :: "TestProviderResult result \<Rightarrow> TestProviderResult" where
  "model_test_outcome r =
     (case r of
        Inr result \<Rightarrow> result
      | Inl message \<Rightarrow> \<lparr>tr_status = Error, tr_statusCode = 0, tr_message = message, tr_latencyMs = None,
          tr_model = None, tr_rawResponse = JUndef\<rparr>)"

definition openTestDialog_start :: "GatewayModel \<Rightarrow> ModelsPage \<Rightarrow> ModelsPage \<times> HttpRequest" where
  "openTestDialog_start model s =
     (s\<lparr>mp_testDialogModel := Some model, mp_testDialogResult := None, mp_testDialogOpen := True,
        mp_testDialogLoading := True\<rparr>,
      testProvider (gm_channelName model) (Some (gm_id model)))"

definition testDialog_end :: "TestProviderResult result \<Rightarrow> ModelsPage \<Rightarrow> ModelsPage" where
  "testDialog_end r s = s\<lparr>mp_testDialogResult := Some (model_test_outcome r), mp_testDialogLoading := False\<rparr>"

definition handleRetest_start :: "ModelsPage \<Rightarrow> ModelsPage \<times> HttpRequest option" where
  "handleRetest_start s =
     (case mp_testDialogModel s of
        None \<Rightarrow> (s, None)
      | Some model \<Rightarrow>
          (s\<lparr>mp_testDialogResult := None, mp_testDialogLoading := True\<rparr>,
           Some (testProvider (gm_channelName model) (Some (gm_id model)))))"

definition openEditDialog :: "GatewayModel \<Rightarrow> ModelsPage \<Rightarrow> ModelsPage" where
  "openEditDialog model s =
     s\<lparr>mp_editDialogModel := Some model, mp_editDraft := createMetadataDraft model, mp_editError := [],
       mp_editDialogOpen := True\<rparr>"

definition edit_error :: "string \<Rightarrow> ModelsPage \<Rightarrow> ModelsPage" where
  "edit_error message s =
     (if message = ''unauthorized'' then s\<lparr>mp_unauthorized := mp_unauthorized s + 1\<rparr>
      else s\<lparr>mp_editError := message\<rparr>)"

definition handleSaveMetadata_start :: "translator \<Rightarrow> ModelsPage \<Rightarrow> ModelsPage \<times> HttpRequest option" where
  "handleSaveMetadata_start t s =
     (case mp_editDialogModel s of
        None \<Rightarrow> (s, None)
      | Some model \<Rightarrow>
          (case parseMetadataDraft t (mp_editDraft s) of
             Inl message \<Rightarrow> ((edit_error message s)\<lparr>mp_savingMetadata := False\<rparr>, None)
           | Inr (context, pricing) \<Rightarrow>
               (s\<lparr>mp_savingMetadata := True\<rparr>,
                Some (updateModelMetadata (gm_channelName model) (gm_id model)
                  \<lparr>um_context = Some context, um_pricing = Some pricing\<rparr>))))"

text \<open>A model is known by its channel and its name.\<close>

definition model_key :: "GatewayModel \<Rightarrow> string \<times> string" where
  "model_key model = (gm_channelName model, gm_id model)"

definition updateList :: "GatewayModel \<Rightarrow> GatewayModel list option \<Rightarrow> GatewayModel list option" where
  "updateList updated = map_option (replace_key model_key updated)"

definition handleSaveMetadata_end :: "GatewayModel result \<Rightarrow> ModelsPage \<Rightarrow> ModelsPage" where
  "handleSaveMetadata_end r s =
     (case r of
        Inr updated \<Rightarrow>
          s\<lparr>mp_openaiModels := updateList updated (mp_openaiModels s),
            mp_anthropicModels := updateList updated (mp_anthropicModels s),
            mp_editDialogOpen := False, mp_editDialogModel := None, mp_editError := [], mp_error := []\<rparr>
      | Inl message \<Rightarrow> edit_error message s)\<lparr>mp_savingMetadata := False\<rparr>"

definition totalCount :: "ModelsPage \<Rightarrow> nat" where
  "totalCount s =
     (case mp_openaiModels s of Some ms \<Rightarrow> length ms | None \<Rightarrow> 0) +
     (case mp_anthropicModels s of Some ms \<Rightarrow> length ms | None \<Rightarrow> 0)"

text \<open>The description of the header: nothing until both lists are there.\<close>

definition models_description :: "translator \<Rightarrow> ModelsPage \<Rightarrow> string option" where
  "models_description t s =
     (if mp_openaiModels s \<noteq> None \<and> mp_anthropicModels s \<noteq> None
      then Some (t ''models.totalCount'' [(''count'', JNum (js_nat (totalCount s)))]) else None)"

text \<open>\<open>{ model: model?.id, channel: model?.channelName }\<close>.\<close>

definition model_values :: "GatewayModel option \<Rightarrow> (string \<times> jsval) list" where
  "model_values model =
     [(''model'', case model of Some m \<Rightarrow> JStr (gm_id m) | None \<Rightarrow> JUndef),
      (''channel'', case model of Some m \<Rightarrow> JStr (gm_channelName m) | None \<Rightarrow> JUndef)]"

text \<open>
  The test dialog: spinner, result (success, title, message, model and latency), raw answer under its title,
  and the buttons with whether they are disabled.
\<close>

record TestDialogView =
  tdv_title :: "string \<times> string"
  tdv_spinner :: "string option"
  tdv_result :: "(bool \<times> string \<times> string \<times> string) option"
  tdv_raw :: "(string \<times> jsval) option"
  tdv_buttons :: "(string \<times> bool) list"

definition latency_text :: "TestProviderResult \<Rightarrow> string" where
  "latency_text r =
     (case tr_model r of Some m \<Rightarrow> if m = [] then [] else m @ utf8 [0x20, 0xE2, 0x80, 0xA2, 0x20] | None \<Rightarrow> []) @
     (case tr_latencyMs r of Some ms \<Rightarrow> number_to_string (js_int ms) | None \<Rightarrow> []) @ ''ms''"

definition test_dialog_view :: "translator \<Rightarrow> ModelsPage \<Rightarrow> TestDialogView" where
  "test_dialog_view t s =
     \<lparr>tdv_title = (t ''models.testDialogTitle'' [], t ''models.testDialogDesc'' (model_values (mp_testDialogModel s))),
      tdv_spinner = (if mp_testDialogLoading s \<and> mp_testDialogResult s = None
        then Some (t ''common.testing'' [] @ ''...'') else None),
      tdv_result = map_option (\<lambda>r. (tr_status r = Ok,
          if tr_status r = Ok then t ''models.testSuccess'' [] else t ''models.testFailed'' [],
          tr_message r, latency_text r)) (mp_testDialogResult s),
      tdv_raw = (case mp_testDialogResult s of
          Some r \<Rightarrow> if truthy (tr_rawResponse r) then Some (t ''models.rawResponse'' [], tr_rawResponse r) else None
        | None \<Rightarrow> None),
      tdv_buttons = (t ''common.close'' [], False) #
        (if mp_testDialogResult s = None then []
         else [(if mp_testDialogLoading s then t ''common.testing'' [] @ ''...'' else t ''models.retest'' [],
            mp_testDialogLoading s)])\<rparr>"

text \<open>The edit dialog: its message, the five inputs under their labels, the save button.\<close>

record EditDialogView =
  edv_title :: "string \<times> string"
  edv_error :: "(string \<times> string) option"
  edv_inputs :: "(string \<times> string \<times> string) list" \<comment> \<open>label, value, placeholder\<close>
  edv_buttons :: "(string \<times> bool) list"

definition edit_dialog_view :: "translator \<Rightarrow> ModelsPage \<Rightarrow> EditDialogView" where
  "edit_dialog_view t s =
     (let auto = t ''models.emptyMeansAuto'' []; d = mp_editDraft s
      in \<lparr>edv_title = (t ''models.editDialogTitle'' [], t ''models.editDialogDesc'' (model_values (mp_editDialogModel s))),
          edv_error = (if mp_editError s = [] then None else Some (t ''common.saveFailed'' [], mp_editError s)),
          edv_inputs =
            [(t ''models.contextLength'' [], md_context d, auto),
             (t ''models.inputPrice'' [], md_input d, auto),
             (t ''models.outputPrice'' [], md_output d, auto),
             (t ''models.cacheReadPrice'' [], md_cacheRead d, auto),
             (t ''models.cacheWritePrice'' [], md_cacheWrite d, auto)],
          edv_buttons = [(t ''common.cancel'' [], False),
            (if mp_savingMetadata s then t ''common.saving'' [] else t ''common.save'' [], mp_savingMetadata s)]\<rparr>)"

text \<open>The onChange of an input, by the position of its label.\<close>

definition edit_input :: "nat \<Rightarrow> string \<Rightarrow> ModelsPage \<Rightarrow> ModelsPage" where
  "edit_input i v s =
     (let d = mp_editDraft s
      in s\<lparr>mp_editDraft :=
           (if i = 0 then d\<lparr>md_context := v\<rparr> else if i = 1 then d\<lparr>md_input := v\<rparr>
            else if i = 2 then d\<lparr>md_output := v\<rparr> else if i = 3 then d\<lparr>md_cacheRead := v\<rparr>
            else d\<lparr>md_cacheWrite := v\<rparr>)\<rparr>)"

text \<open>The page: header, error, endpoint reference, a card per protocol with its count, and the dialogs open.\<close>

record ModelCard =
  mcd_title :: string
  mcd_badge :: "nat option"
  mcd_description :: string
  mcd_table :: ModelTable

definition model_card :: "translator \<Rightarrow> string \<Rightarrow> string \<Rightarrow> GatewayModel list option \<Rightarrow> ModelCard" where
  "model_card t title description models =
     \<lparr>mcd_title = title, mcd_badge = map_option length models, mcd_description = description,
      mcd_table = model_table t models\<rparr>"

record ModelsView =
  mv_title :: "string \<times> string option"
  mv_refresh :: "string \<times> bool"
  mv_error :: "(string \<times> string) option"
  mv_endpoints :: "string \<times> string \<times> (string \<times> string list) list"
  mv_cards :: "ModelCard list"
  mv_test :: "TestDialogView option"
  mv_edit :: "EditDialogView option"

definition models_view :: "translator \<Rightarrow> ModelsPage \<Rightarrow> ModelsView" where
  "models_view t s =
     \<lparr>mv_title = (t ''models.title'' [], models_description t s),
      mv_refresh = (t ''common.refresh'' [], mp_loading s),
      mv_error = (if mp_error s = [] then None else Some (t ''common.loadFailed'' [], mp_error s)),
      mv_endpoints = (t ''models.endpointsTitle'' [], t ''models.endpointsDesc'' [],
        [(t ''models.openaiProtocol'' [],
          [''/openai/v1/chat/completions'', ''/openai/v1/responses'', ''/openai/v1/models'']),
         (t ''models.anthropicProtocol'' [],
          [''/anthropic/v1/messages'', ''/anthropic/v1/messages/count_tokens'', ''/anthropic/v1/models''])]),
      mv_cards =
        [model_card t ''Anthropic'' (t ''models.anthropicDesc'' []) (mp_anthropicModels s),
         model_card t ''OpenAI'' (t ''models.openaiDesc'' []) (mp_openaiModels s)],
      mv_test = (if mp_testDialogOpen s then Some (test_dialog_view t s) else None),
      mv_edit = (if mp_editDialogOpen s then Some (edit_dialog_view t s) else None)\<rparr>"

section \<open>Drafts and numbers\<close>

text \<open>A number the server can have stored: a double, an integer where asked, not below the minimum.\<close>

definition field_ok :: "bool \<Rightarrow> jsnum \<Rightarrow> jsnum option \<Rightarrow> bool" where
  "field_ok integer least v =
     (case v of
        None \<Rightarrow> True
      | Some (Fin x) \<Rightarrow> (integer \<longrightarrow> is_integer (Fin x)) \<and> num_le least (Fin x)
      | Some _ \<Rightarrow> False)"

definition doubles :: "jsnum option list \<Rightarrow> bool" where
  "doubles = list_all (\<lambda>v. case v of Some (Fin x) \<Rightarrow> representable x | _ \<Rightarrow> True)"

lemma parseOptionalNumber_ok:
  "parseOptionalNumber t s label integer (Fin m) = Inr v \<Longrightarrow> field_ok integer (Fin m) v"
  by (cases "string_to_number (trim s)")
     (auto simp: parseOptionalNumber_def Let_def field_ok_def result_simps split: if_splits)

lemma parse_numberToDraft:
  assumes "field_ok integer (Fin m) v" and "doubles [v]"
  shows "parseOptionalNumber t (numberToDraft v) label integer (Fin m) = Inr v"
proof (cases v)
  case None
  then show ?thesis by (simp add: parseOptionalNumber_def numberToDraft_def result_simps)
next
  case (Some n)
  then obtain x where x: "n = Fin x" "representable x" "integer \<longrightarrow> is_integer (Fin x)" "m \<le> x"
    using assms by (cases n) (auto simp: field_ok_def doubles_def)
  then show ?thesis
    using string_to_number_to_string [OF x(2)] Some
    by (simp add: parseOptionalNumber_def numberToDraft_def Let_def result_simps del: number_to_string.simps is_integer.simps)
qed

text \<open>What a save may send: \<open>null\<close> or a valid value, and prices only with both input and output.\<close>

definition pricing_ok :: "PartialPricing option \<Rightarrow> bool" where
  "pricing_ok p =
     (case p of
        None \<Rightarrow> True
      | Some q \<Rightarrow> pp_input q \<noteq> None \<and> pp_output q \<noteq> None \<and>
          list_all (field_ok False (Fin 0)) [pp_input q, pp_output q, pp_cache_read q, pp_cache_write q])"

lemma buildPricingDraft_ok: "buildPricingDraft t draft = Inr p \<Longrightarrow> pricing_ok p"
  by (auto simp: buildPricingDraft_def pricing_ok_def result_simps split: if_splits dest!: parseOptionalNumber_ok)

lemma parseMetadataDraft_ok:
  "parseMetadataDraft t draft = Inr (context, pricing) \<Longrightarrow> field_ok True (Fin 1) context \<and> pricing_ok pricing"
  by (auto simp: parseMetadataDraft_def result_simps dest: parseOptionalNumber_ok buildPricingDraft_ok)

text \<open>The prices of a model as a payload, and models whose values the server accepts.\<close>

definition pricing_payload :: "ConsoleModelPricing \<Rightarrow> PartialPricing" where
  "pricing_payload p = \<lparr>pp_input = Some (pr_input p), pp_output = Some (pr_output p),
     pp_cache_read = pr_cache_read p, pp_cache_write = pr_cache_write p\<rparr>"

definition pricing_fields :: "PartialPricing \<Rightarrow> jsnum option list" where
  "pricing_fields q = [pp_input q, pp_output q, pp_cache_read q, pp_cache_write q]"

definition valid_model :: "GatewayModel \<Rightarrow> bool" where
  "valid_model model \<longleftrightarrow>
     (case effective_context model of None \<Rightarrow> True | Some c \<Rightarrow> 1 \<le> c \<and> c < 2 ^ 53) \<and>
     (case effective_pricing model of
        None \<Rightarrow> True
      | Some p \<Rightarrow> pricing_ok (Some (pricing_payload p)) \<and> doubles (pricing_fields (pricing_payload p)))"

lemma context_field:
  assumes "valid_model model"
  shows "field_ok True (Fin 1) (map_option js_int (effective_context model))"
    and "doubles [map_option js_int (effective_context model)]"
  using assms by (auto simp: valid_model_def field_ok_def doubles_def js_int_exact representable_of_int split: option.splits)

lemma buildPricingDraft_of_model:
  assumes "valid_model model"
  shows "buildPricingDraft t (createMetadataDraft model) = Inr (map_option pricing_payload (effective_pricing model))"
proof (cases "effective_pricing model")
  case None
  then show ?thesis
    using parse_numberToDraft [of False 0 None]
    by (simp add: buildPricingDraft_def createMetadataDraft_def field_ok_def doubles_def result_simps)
next
  case (Some p)
  then have ok: "list_all (field_ok False (Fin 0)) (pricing_fields (pricing_payload p))"
      "doubles (pricing_fields (pricing_payload p))"
    using assms by (auto simp: valid_model_def pricing_ok_def pricing_fields_def)
  then have "parseOptionalNumber t (numberToDraft v) label False (Fin 0) = Inr v"
    if "v \<in> set (pricing_fields (pricing_payload p))" for v label
    using that by (intro parse_numberToDraft) (auto simp: list_all_iff doubles_def)
  then show ?thesis
    using Some by (simp add: buildPricingDraft_def createMetadataDraft_def pricing_fields_def pricing_payload_def result_simps)
qed

lemma parseMetadataDraft_of_model:
  assumes "valid_model model"
  shows "parseMetadataDraft t (createMetadataDraft model) =
    Inr (map_option js_int (effective_context model), map_option pricing_payload (effective_pricing model))"
  using parse_numberToDraft [OF context_field [OF assms]] buildPricingDraft_of_model [OF assms]
  by (simp add: parseMetadataDraft_def createMetadataDraft_def Let_def result_simps)

section \<open>Properties\<close>

text \<open>
  Every metadata request carries a context length that is a whole number of at least one or
  \<open>null\<close>, and prices that are either all absent (\<open>null\<close>) or finite, not negative and with both input and
  output given; a draft that breaks this sends nothing and leaves the lists alone.
\<close>

theorem metadata_requests_valid:
  assumes "handleSaveMetadata_start t s = (s', Some request)"
  shows "\<exists>model context pricing. mp_editDialogModel s = Some model \<and>
    request = updateModelMetadata (gm_channelName model) (gm_id model)
      \<lparr>um_context = Some context, um_pricing = Some pricing\<rparr> \<and>
    field_ok True (Fin 1) context \<and> pricing_ok pricing"
  using assms
  by (auto simp: handleSaveMetadata_start_def split: option.splits sum.splits dest!: parseMetadataDraft_ok)

text \<open>
  Saving the metadata dialog as it was opened sends the values on display, each exactly, as an
  override: also those that were automatic, although the fields say that empty means automatic. The save
  turns every automatic value into a manual one.
\<close>

theorem untouched_save_pins_values:
  assumes "valid_model model"
  shows "snd (handleSaveMetadata_start t (openEditDialog model s)) =
    Some (updateModelMetadata (gm_channelName model) (gm_id model)
      \<lparr>um_context = Some (map_option js_int (effective_context model)),
       um_pricing = Some (map_option pricing_payload (effective_pricing model))\<rparr>)"
  by (simp add: handleSaveMetadata_start_def openEditDialog_def parseMetadataDraft_of_model [OF assms])

text \<open>
  The answer of a metadata save replaces the model of that channel and name in both lists, in its
  place, and no other model; the lists keep their length and order. The dialog closes.
\<close>

theorem saved_model_replaced:
  fixes s :: ModelsPage and updated :: GatewayModel
  assumes "mp_openaiModels s = Some os" and "mp_anthropicModels s = Some as"
  defines "s' \<equiv> handleSaveMetadata_end (Inr updated) s"
  shows "\<exists>os' as'. mp_openaiModels s' = Some os' \<and> mp_anthropicModels s' = Some as' \<and>
    map model_key os' = map model_key os \<and> map model_key as' = map model_key as \<and>
    (\<forall>k. find_key model_key os' k =
       (if k = model_key updated then map_option (\<lambda>_. updated) (find_key model_key os k) else find_key model_key os k)) \<and>
    (\<forall>k. find_key model_key as' k =
       (if k = model_key updated then map_option (\<lambda>_. updated) (find_key model_key as k) else find_key model_key as k)) \<and>
    totalCount s' = totalCount s \<and> \<not> mp_editDialogOpen s' \<and> mp_editDialogModel s' = None"
  using assms(1,2)
  by (simp add: s'_def handleSaveMetadata_end_def updateList_def totalCount_def replace_key_update
      find_key_update map_key_update)

text \<open>
  The test dialog shows the answer that came last, whichever model it was asked for: if the test of
  one model is answered after the dialog was opened for another, its result stands under the other's name,
  the spinner is gone and the retest button is enabled while the other test still runs.
\<close>

theorem late_model_test_shown:
  fixes r :: "TestProviderResult result" and a b :: GatewayModel and s :: ModelsPage
  assumes "model_key a \<noteq> model_key b"
  defines "s' \<equiv> testDialog_end r (fst (openTestDialog_start b (fst (openTestDialog_start a s))))"
  shows "mp_testDialogModel s' = Some b \<and>
    snd (tdv_title (test_dialog_view t s')) = t ''models.testDialogDesc'' (model_values (Some b)) \<and>
    tdv_spinner (test_dialog_view t s') = None \<and>
    (\<exists>title. tdv_result (test_dialog_view t s') = Some (tr_status (model_test_outcome r) = Ok, title,
      tr_message (model_test_outcome r), latency_text (model_test_outcome r))) \<and>
    (t ''models.retest'' [], False) \<in> set (tdv_buttons (test_dialog_view t s'))"
  by (simp add: s'_def testDialog_end_def openTestDialog_start_def test_dialog_view_def)

text \<open>
  A metadata save that ends while another model's dialog is open closes that dialog: what was typed
  there is not saved and its dialog is gone.
\<close>

theorem late_save_closes_other_dialog:
  fixes s :: ModelsPage and updated b :: GatewayModel
  assumes "handleSaveMetadata_start t s = (s1, Some request)" and "mp_editDialogModel s = Some a"
    and "model_key a \<noteq> model_key b"
  defines "s' \<equiv> handleSaveMetadata_end (Inr updated) (openEditDialog b s1)"
  shows "\<not> mp_editDialogOpen s' \<and> mp_editDialogModel s' = None \<and> handleSaveMetadata_start t s' = (s', None)"
  by (simp add: s'_def handleSaveMetadata_end_def openEditDialog_def handleSaveMetadata_start_def)

section \<open>Witnesses\<close>

definition sample_model :: "string \<Rightarrow> GatewayModel" where
  "sample_model name =
     \<lparr>gm_id = name, gm_channelName = ''main'', gm_type = OpenAI, gm_context = Some 128000,
      gm_pricing = Some \<lparr>pr_input = Fin 3, pr_output = Fin (15/2), pr_cache_read = None, pr_cache_write = None\<rparr>,
      gm_override = None\<rparr>"

lemma representable_half: "representable (15/2)"
proof -
  have "fl_rat (15/2) = 15/2" by (rule fl_rat_exact [of _ 15 "- 1"]) (simp_all add: power_int_def)
  then show ?thesis by (simp add: representable_def fl_def)
qed

lemma valid_sample_model: "valid_model (sample_model name)"
  using representable_half representable_of_int [of 3]
  by (simp add: valid_model_def sample_model_def effective_context_def effective_pricing_def or_else_def
      pricing_ok_def pricing_payload_def pricing_fields_def field_ok_def doubles_def)

definition sample_models_page :: ModelsPage where
  "sample_models_page = fst (handleSaveMetadata_start (\<lambda>k _. k)
     (openEditDialog (sample_model ''a'') (loadModels_end
       (Inr \<lparr>cm_openai = [sample_model ''a'', sample_model ''b''], cm_anthropic = []\<rparr>) models_page_init)))"

theorem metadata_requests_valid_witness:
  "\<exists>model context pricing. mp_editDialogModel (openEditDialog (sample_model ''a'') models_page_init) = Some model \<and>
    snd (handleSaveMetadata_start (\<lambda>k _. k) (openEditDialog (sample_model ''a'') models_page_init)) =
      Some (updateModelMetadata (gm_channelName model) (gm_id model)
        \<lparr>um_context = Some context, um_pricing = Some pricing\<rparr>) \<and>
    field_ok True (Fin 1) context \<and> pricing_ok pricing"
proof -
  let ?s = "openEditDialog (sample_model ''a'') models_page_init"
  obtain request where "handleSaveMetadata_start (\<lambda>k _. k) ?s =
      (fst (handleSaveMetadata_start (\<lambda>k _. k) ?s), Some request)"
    by (simp add: handleSaveMetadata_start_def openEditDialog_def parseMetadataDraft_of_model [OF valid_sample_model])
  then show ?thesis using metadata_requests_valid [of "\<lambda>k _. k" ?s] by (metis snd_conv)
qed

theorem untouched_save_pins_values_witness:
  "snd (handleSaveMetadata_start (\<lambda>k _. k) (openEditDialog (sample_model ''a'') models_page_init)) =
    Some (updateModelMetadata ''main'' ''a''
      \<lparr>um_context = Some (Some (Fin 128000)),
       um_pricing = Some (Some \<lparr>pp_input = Some (Fin 3), pp_output = Some (Fin (15/2)),
         pp_cache_read = None, pp_cache_write = None\<rparr>)\<rparr>)"
  using untouched_save_pins_values [OF valid_sample_model, of "\<lambda>k _. k" "''a''" models_page_init] js_int_exact [of 128000]
  by (simp add: sample_model_def effective_context_def effective_pricing_def or_else_def pricing_payload_def)

theorem saved_model_replaced_witness:
  "totalCount (handleSaveMetadata_end (Inr (sample_model ''b'')) sample_models_page) = 2"
proof -
  have lists: "mp_openaiModels sample_models_page = Some [sample_model ''a'', sample_model ''b'']"
    "mp_anthropicModels sample_models_page = Some []"
    by (simp_all add: sample_models_page_def handleSaveMetadata_start_def openEditDialog_def loadModels_end_def
        parseMetadataDraft_of_model [OF valid_sample_model])
  then have "totalCount sample_models_page = 2" by (simp add: totalCount_def)
  then show ?thesis using saved_model_replaced [OF lists, of "sample_model ''b''"] by metis
qed

theorem late_model_test_shown_witness:
  "mp_testDialogModel (testDialog_end (Inl ''timeout'')
     (fst (openTestDialog_start (sample_model ''b'') (fst (openTestDialog_start (sample_model ''a'') models_page_init))))) =
   Some (sample_model ''b'')"
  using late_model_test_shown [of "sample_model ''a''" "sample_model ''b''"]
  by (simp add: model_key_def sample_model_def)

theorem late_save_closes_other_dialog_witness:
  "\<exists>s1 request. handleSaveMetadata_start (\<lambda>k _. k) (openEditDialog (sample_model ''a'') models_page_init) = (s1, Some request) \<and>
    \<not> mp_editDialogOpen (handleSaveMetadata_end (Inr (sample_model ''a'')) (openEditDialog (sample_model ''b'') s1))"
proof -
  let ?s = "openEditDialog (sample_model ''a'') models_page_init"
  obtain s1 request where start: "handleSaveMetadata_start (\<lambda>k _. k) ?s = (s1, Some request)"
    by (simp add: handleSaveMetadata_start_def openEditDialog_def parseMetadataDraft_of_model [OF valid_sample_model])
  moreover have "mp_editDialogModel ?s = Some (sample_model ''a'')" by (simp add: openEditDialog_def)
  moreover have "model_key (sample_model ''a'') \<noteq> model_key (sample_model ''b'')" by (simp add: model_key_def sample_model_def)
  ultimately show ?thesis using late_save_closes_other_dialog by blast
qed

end
