(* ===== verification/Settings_Page.thy ===== *)
theory Settings_Page
  imports Api JS_Decimal Failover
begin

text \<open>
  \<open>components/settings-page.tsx\<close>: the timeouts of the gateway, kept in milliseconds by the server and edited
  in seconds. Handlers are cut at their \<open>await\<close>; the calendar and the translator are arguments.
\<close>

section \<open>Milliseconds and seconds\<close>

definition secondsText :: "jsnum \<Rightarrow> string" where
  "secondsText ms =
     (let seconds = num_div ms (Fin 1000)
      in if is_integer seconds then number_to_string seconds
         else number_to_string (string_to_number (to_fixed 3 seconds)))"

definition formatUpdatedAt :: "(int \<Rightarrow> string \<Rightarrow> string) \<Rightarrow> int option \<Rightarrow> string \<Rightarrow> string" where
  "formatUpdatedAt date_text timestamp language =
     (case timestamp of
        None \<Rightarrow> ''--''
      | Some ts \<Rightarrow>
          if ts = 0 then ''--'' else date_text ts (if language = ''en'' then ''en-US'' else ''zh-CN''))"

record TimeoutFormState =
  tf_defaultFirstByteTimeoutSeconds :: string
  tf_streamFirstByteTimeoutSeconds :: string
  tf_imageFirstByteTimeoutSeconds :: string
  tf_responseIdleTimeoutSeconds :: string

definition toForm :: "GatewayTimeoutSettingsPayload \<Rightarrow> TimeoutFormState" where
  "toForm settings =
     \<lparr>tf_defaultFirstByteTimeoutSeconds = secondsText (gt_defaultFirstByteTimeoutMs settings),
      tf_streamFirstByteTimeoutSeconds = secondsText (gt_streamFirstByteTimeoutMs settings),
      tf_imageFirstByteTimeoutSeconds = secondsText (gt_imageFirstByteTimeoutMs settings),
      tf_responseIdleTimeoutSeconds = secondsText (gt_responseIdleTimeoutMs settings)\<rparr>"

definition parseSeconds :: "translator \<Rightarrow> string \<Rightarrow> string \<Rightarrow> TimeoutLimit \<Rightarrow> jsnum result" where
  "parseSeconds t val label limit =
     (let trimmed = trim val; seconds = string_to_number trimmed; ms = math_round (num_mul seconds (Fin 1000))
      in if trimmed = [] then throw (t ''settings.validationRequired'' [(''label'', JStr label)])
         else if \<not> is_finite seconds then throw (t ''settings.validationNumber'' [(''label'', JStr label)])
         else if num_less ms (tl_minMs limit) \<or> num_less (tl_maxMs limit) ms
         then throw (t ''settings.validationRange'' [(''label'', JStr label),
                (''min'', JStr (secondsText (tl_minMs limit))), (''max'', JStr (secondsText (tl_maxMs limit)))])
         else return ms)"

text \<open>The label, the input with its bounds and its unit, and the two hints below it.\<close>

record TimeoutFieldView =
  tfv_id :: string
  tfv_label :: string
  tfv_min :: string
  tfv_max :: string
  tfv_value :: string
  tfv_suffix :: string
  tfv_hints :: "string \<times> string"

definition TimeoutField :: "translator \<Rightarrow> string \<Rightarrow> string \<Rightarrow> string \<Rightarrow> jsnum \<Rightarrow> TimeoutLimit \<Rightarrow> TimeoutFieldView" where
  "TimeoutField t ident label val defaultMs limit =
     \<lparr>tfv_id = ident, tfv_label = label,
      tfv_min = secondsText (tl_minMs limit), tfv_max = secondsText (tl_maxMs limit), tfv_value = val,
      tfv_suffix = t ''settings.secondsSuffix'' [],
      tfv_hints =
        (t ''settings.defaultValue'' [(''value'', JStr (secondsText defaultMs))],
         t ''settings.rangeHint'' [(''min'', JStr (secondsText (tl_minMs limit))),
                                 (''max'', JStr (secondsText (tl_maxMs limit)))])\<rparr>"

section \<open>The page\<close>

record SettingsPage =
  sp_settings :: "GatewayTimeoutSettingsPayload option"
  sp_form :: TimeoutFormState
  sp_error :: string
  sp_feedback :: string
  sp_loading :: bool
  sp_saving :: bool
  sp_unauthorized :: nat

definition settings_page_init :: SettingsPage where
  "settings_page_init =
     \<lparr>sp_settings = None,
      sp_form = \<lparr>tf_defaultFirstByteTimeoutSeconds = ''300'', tf_streamFirstByteTimeoutSeconds = ''30'',
                 tf_imageFirstByteTimeoutSeconds = ''300'', tf_responseIdleTimeoutSeconds = ''300''\<rparr>,
      sp_error = [], sp_feedback = [], sp_loading = False, sp_saving = False, sp_unauthorized = 0\<rparr>"

definition settings_error :: "string \<Rightarrow> SettingsPage \<Rightarrow> SettingsPage" where
  "settings_error message s =
     (if message = ''unauthorized'' then s\<lparr>sp_unauthorized := sp_unauthorized s + 1\<rparr>
      else s\<lparr>sp_error := message\<rparr>)"

definition loadSettings_start :: "SettingsPage \<Rightarrow> SettingsPage" where
  "loadSettings_start s = s\<lparr>sp_loading := True\<rparr>"

definition loadSettings_end :: "GatewayTimeoutSettingsPayload result \<Rightarrow> SettingsPage \<Rightarrow> SettingsPage" where
  "loadSettings_end r s =
     (case r of
        Inr data \<Rightarrow> s\<lparr>sp_settings := Some data, sp_form := toForm data, sp_error := []\<rparr>
      | Inl message \<Rightarrow> settings_error message s)\<lparr>sp_loading := False\<rparr>"

definition canSubmit :: "SettingsPage \<Rightarrow> bool" where
  "canSubmit s \<longleftrightarrow> sp_settings s \<noteq> None \<and> \<not> sp_saving s"

definition currentPolicy :: "translator \<Rightarrow> SettingsPage \<Rightarrow> (string \<times> string) list" where
  "currentPolicy t s =
     (case sp_settings s of
        None \<Rightarrow> []
      | Some source \<Rightarrow>
          [(t ''settings.normalPolicy'' [], secondsText (gt_defaultFirstByteTimeoutMs source) @ ''s''),
           (t ''settings.streamPolicy'' [], secondsText (gt_streamFirstByteTimeoutMs source) @ ''s''),
           (t ''settings.imagePolicy'' [], secondsText (gt_imageFirstByteTimeoutMs source) @ ''s''),
           (t ''settings.bodyIdlePolicy'' [],
            if gt_responseIdleTimeoutMs source = Fin 0 then t ''settings.disabledPolicy'' []
            else secondsText (gt_responseIdleTimeoutMs source) @ ''s'')])"

definition timeouts_to_save ::
    "translator \<Rightarrow> TimeoutFormState \<Rightarrow> GatewayTimeoutSettingsPayload \<Rightarrow> GatewayTimeoutSettings result" where
  "timeouts_to_save t form settings =
     bind_result (parseSeconds t (tf_defaultFirstByteTimeoutSeconds form)
         (t ''settings.defaultFirstByteLabel'' []) (gtp_firstByte settings)) (\<lambda>a.
     bind_result (parseSeconds t (tf_streamFirstByteTimeoutSeconds form)
         (t ''settings.streamFirstByteLabel'' []) (gtp_firstByte settings)) (\<lambda>b.
     bind_result (parseSeconds t (tf_imageFirstByteTimeoutSeconds form)
         (t ''settings.imageFirstByteLabel'' []) (gtp_firstByte settings)) (\<lambda>c.
     bind_result (parseSeconds t (tf_responseIdleTimeoutSeconds form)
         (t ''settings.responseIdleLabel'' []) (gtp_responseIdle settings)) (\<lambda>d.
       return
         \<lparr>gt_defaultFirstByteTimeoutMs = a, gt_streamFirstByteTimeoutMs = b,
          gt_imageFirstByteTimeoutMs = c, gt_responseIdleTimeoutMs = d\<rparr>))))"

definition handleSave_start :: "translator \<Rightarrow> SettingsPage \<Rightarrow> SettingsPage \<times> HttpRequest option" where
  "handleSave_start t s =
     (case sp_settings s of
        None \<Rightarrow> (s, None)
      | Some settings \<Rightarrow>
          (case timeouts_to_save t (sp_form s) settings of
             Inl message \<Rightarrow> ((settings_error message s)\<lparr>sp_saving := False\<rparr>, None)
           | Inr payload \<Rightarrow> (s\<lparr>sp_saving := True\<rparr>, Some (updateGatewayTimeoutSettings payload))))"

definition handleSave_end :: "translator \<Rightarrow> GatewayTimeoutSettingsPayload result \<Rightarrow> SettingsPage \<Rightarrow> SettingsPage" where
  "handleSave_end t r s =
     (case r of
        Inr new \<Rightarrow>
          s\<lparr>sp_settings := Some new, sp_form := toForm new, sp_error := [], sp_feedback := t ''settings.saved'' []\<rparr>
      | Inl message \<Rightarrow> settings_error message s)\<lparr>sp_saving := False\<rparr>"

definition settings_feedback_expires :: "SettingsPage \<Rightarrow> SettingsPage" where
  "settings_feedback_expires s = s\<lparr>sp_feedback := []\<rparr>"

text \<open>A card of the page: its title, description and badge. The last card shows the policy in force.\<close>

record SettingsCard =
  sc_title :: string
  sc_description :: "string option"
  sc_badge :: "string option"
  sc_fields :: "TimeoutFieldView list"
  sc_policy :: "(string \<times> string) list"

datatype SettingsBody = Settings_skeleton | Settings_cards "SettingsCard list"

definition settings_cards ::
    "translator \<Rightarrow> string \<Rightarrow> TimeoutFormState \<Rightarrow> GatewayTimeoutSettingsPayload \<Rightarrow> (string \<times> string) list \<Rightarrow>
     SettingsCard list" where
  "settings_cards t updated form settings policy =
     (let defaults = gtp_defaults settings
      in [\<lparr>sc_title = t ''settings.firstByteTitle'' [], sc_description = Some (t ''settings.firstByteDesc'' []),
           sc_badge = Some (t ''settings.updatedAt'' [(''time'', JStr updated)]),
           sc_fields =
             [TimeoutField t ''default-first-byte-timeout'' (t ''settings.defaultFirstByteLabel'' [])
                (tf_defaultFirstByteTimeoutSeconds form) (gt_defaultFirstByteTimeoutMs defaults) (gtp_firstByte settings),
              TimeoutField t ''stream-first-byte-timeout'' (t ''settings.streamFirstByteLabel'' [])
                (tf_streamFirstByteTimeoutSeconds form) (gt_streamFirstByteTimeoutMs defaults) (gtp_firstByte settings),
              TimeoutField t ''image-first-byte-timeout'' (t ''settings.imageFirstByteLabel'' [])
                (tf_imageFirstByteTimeoutSeconds form) (gt_imageFirstByteTimeoutMs defaults) (gtp_firstByte settings)],
           sc_policy = []\<rparr>,
          \<lparr>sc_title = t ''settings.responseIdleTitle'' [], sc_description = Some (t ''settings.responseIdleDesc'' []),
           sc_badge = None,
           sc_fields =
             [TimeoutField t ''response-idle-timeout'' (t ''settings.responseIdleLabel'' [])
                (tf_responseIdleTimeoutSeconds form) (gt_responseIdleTimeoutMs defaults) (gtp_responseIdle settings)],
           sc_policy = []\<rparr>,
          \<lparr>sc_title = t ''settings.currentPolicyTitle'' [], sc_description = None, sc_badge = None, sc_fields = [],
           sc_policy = policy\<rparr>])"

record SettingsView =
  sv_title :: "string \<times> string"
  sv_refresh :: "string \<times> bool"
  sv_save :: "string \<times> bool"
  sv_error :: "(string \<times> string) option"
  sv_feedback :: "(string \<times> string) option"
  sv_body :: SettingsBody

text \<open>A button is its label and whether it is disabled.\<close>

definition settings_view ::
    "translator \<Rightarrow> (int \<Rightarrow> string \<Rightarrow> string) \<Rightarrow> string \<Rightarrow> SettingsPage \<Rightarrow> SettingsView" where
  "settings_view t date_text language s =
     \<lparr>sv_title = (t ''settings.title'' [], t ''settings.description'' []),
      sv_refresh = (t ''common.refresh'' [], sp_loading s),
      sv_save = (if sp_saving s then t ''common.saving'' [] else t ''common.save'' [], \<not> canSubmit s),
      sv_error = (if sp_error s = [] then None
        else Some (if sp_settings s \<noteq> None then t ''common.errorOccurred'' [] else t ''settings.loadFailed'' [], sp_error s)),
      sv_feedback = (if sp_feedback s = [] then None else Some (t ''common.done'' [], sp_feedback s)),
      sv_body = (case sp_settings s of
          None \<Rightarrow> Settings_skeleton
        | Some settings \<Rightarrow> Settings_cards
            (settings_cards t (formatUpdatedAt date_text (gtp_updatedAt settings) language) (sp_form s) settings
              (currentPolicy t s)))\<rparr>"

section \<open>Seconds are exact\<close>

lemma fl_error:
  assumes "0 \<le> x" and "x < 2 powi k" and "0 \<le> k" and "k \<le> 52"
  shows "\<exists>r. fl x = Fin r \<and> \<bar>r - x\<bar> * 2 \<le> 2 powi (k - 53) \<and> 0 \<le> r \<and> r \<le> 2 powi k"
proof -
  have p: "(2 :: rat) powi k = of_int (2 ^ nat k)" using assms(3) by (rule powi_int_eq)
  have "(2 :: int) ^ nat k \<le> 2 ^ 52" using assms(4) by (intro power_increasing) auto
  then have "\<bar>2 ^ nat k :: int\<bar> < 2 ^ 53" by simp
  then obtain r where r: "fl x = Fin r" "0 \<le> r" "r \<le> 2 powi k"
    using fl_between[of 0 x "2 ^ nat k"] assms(1,2) p by auto
  moreover have "\<bar>fl_rat x - x\<bar> * 2 \<le> 2 powi (k - 53)" using assms by (intro fl_rat_error) auto
  ultimately show ?thesis using fl_Fin[OF r(1)] by auto
qed

lemma floor_near_int:
  fixes y :: rat
  assumes "\<bar>y - of_int n\<bar> < 1 / 2"
  shows "\<lfloor>y + 1 / 2\<rfloor> = n"
  using assms unfolding abs_less_iff by (intro floor_unique) linarith+

lemma seconds_of_ms:
  assumes "0 \<le> ms" and "ms < 2 ^ 40"
  obtains s where "fl (of_int ms / 1000) = Fin s" and "representable s" and "\<bar>s * 1000 - of_int ms\<bar> < 1 / 8"
    and "0 \<le> s" and "s * 1000 < 2 powi 42"
proof -
  have "(of_int ms :: rat) < of_int (2 ^ 40)" using assms(2) by (simp only: of_int_less_iff)
  then have x: "0 \<le> (of_int ms :: rat) / 1000" "of_int ms / 1000 < (2 :: rat) powi 31" using assms(1) by simp_all
  then obtain s where s: "fl (of_int ms / 1000) = Fin s" "\<bar>s - of_int ms / 1000\<bar> * 2 \<le> 2 powi (31 - 53)"
      "0 \<le> s" "s \<le> 2 powi 31"
    using fl_error[of "of_int ms / 1000" 31] by auto
  have "s * 1000 - of_int ms = (s - of_int ms / 1000) * 1000" by simp
  then have "\<bar>s * 1000 - of_int ms\<bar> = \<bar>s - of_int ms / 1000\<bar> * 1000" by (metis abs_mult abs_numeral)
  moreover have "(2 :: rat) powi (31 - 53) * 500 < 1 / 8" by (simp add: power_int_def power_divide)
  ultimately have near: "\<bar>s * 1000 - of_int ms\<bar> < 1 / 8" using s(2) by linarith
  have "representable s" using s(1) by (rule representable_fl)
  moreover have "s * 1000 < 2 powi 42" using s(4) by simp
  ultimately show ?thesis using that s near by blast
qed

text \<open>\<open>toFixed(3)\<close> changes nothing: the seconds shown are the double nearest to the milliseconds.\<close>

lemma secondsText_exact:
  assumes "0 \<le> ms" and "ms < 2 ^ 40"
  shows "secondsText (Fin (of_int ms)) = number_to_string (fl (of_int ms / 1000))"
proof -
  obtain s where s: "fl (of_int ms / 1000) = Fin s" "representable s" "\<bar>s * 1000 - of_int ms\<bar> < 1 / 8" "0 \<le> s"
      "s * 1000 < 2 powi 42"
    using assms by (rule seconds_of_ms)
  have "\<lfloor>s * 10 ^ 3 + 1 / 2\<rfloor> = ms" using s(3) by (intro floor_near_int) simp
  moreover have "\<not> 10 ^ 21 \<le> \<bar>s\<bar>" using s(4,5) by simp
  ultimately have "to_fixed 3 (Fin s) = fixed_digits 3 (nat ms)"
    using s(4) by (simp only: to_fixed.simps rat_to_fixed_def if_False not_less[symmetric])
  then have "string_to_number (to_fixed 3 (Fin s)) = Fin s"
    using string_to_number_fixed[of 3 "nat ms"] s(1) assms(1) by simp
  then show ?thesis using s(1) by (simp add: secondsText_def Let_def del: to_fixed.simps number_to_string.simps)
qed

lemma parse_secondsText:
  assumes "0 \<le> ms" and "ms < 2 ^ 40"
    and "\<not> num_less (Fin (of_int ms)) (tl_minMs limit)" and "\<not> num_less (tl_maxMs limit) (Fin (of_int ms))"
  shows "parseSeconds t (secondsText (Fin (of_int ms))) label limit = Inr (Fin (of_int ms))"
proof -
  obtain s where s: "fl (of_int ms / 1000) = Fin s" "representable s" "\<bar>s * 1000 - of_int ms\<bar> < 1 / 8" "0 \<le> s"
      "s * 1000 < 2 powi 42"
    using assms(1,2) by (rule seconds_of_ms)
  obtain r where r: "fl (s * 1000) = Fin r" "\<bar>r - s * 1000\<bar> * 2 \<le> 2 powi (42 - 53)"
    using fl_error[of "s * 1000" 42] s(4,5) by auto
  have "(2 :: rat) powi (42 - 53) < 1 / 8" by (simp add: power_int_def power_divide)
  then have "\<bar>r - of_int ms\<bar> < 1 / 2"
    using r(2) s(3) abs_triangle_ineq[of "r - s * 1000" "s * 1000 - of_int ms"] by simp
  then have "math_round (num_mul (Fin s) (Fin 1000)) = Fin (of_int ms)" using r(1) floor_near_int by simp
  then show ?thesis
    using assms s(1,2) string_to_number_to_string[OF s(2)]
    by (simp add: secondsText_exact parseSeconds_def Let_def result_simps del: number_to_string.simps num_mul.simps math_round.simps)
qed

text \<open>What passes the check is a whole number of milliseconds between the limits.\<close>

lemma parseSeconds_within:
  assumes "parseSeconds t s label limit = Inr ms" and "tl_minMs limit = Fin a" and "tl_maxMs limit = Fin b"
  shows "\<exists>n. ms = Fin (of_int n) \<and> a \<le> of_int n \<and> of_int n \<le> b"
proof -
  have "ms = math_round (num_mul (string_to_number (trim s)) (Fin 1000))" "\<not> num_less ms (Fin a)" "\<not> num_less (Fin b) ms"
      "is_finite (string_to_number (trim s))"
    using assms by (auto simp: parseSeconds_def Let_def result_simps split: if_splits)
  then show ?thesis
    by (cases "num_mul (string_to_number (trim s)) (Fin 1000)"; cases "string_to_number (trim s)") auto
qed

section \<open>The limits on the wire\<close>

text \<open>
  \<open>settings.limits\<close> as it is read from the answer, and what the gateway answers
  (\<open>internal/consoleapi/api.go\<close>): the bounds are called \<open>min\<close> and \<open>max\<close>.
\<close>

definition timeout_limit_of_json :: "jsval \<Rightarrow> TimeoutLimit" where
  "timeout_limit_of_json j =
     \<lparr>tl_minMs = js_to_number (js_get j ''minMs''), tl_maxMs = js_to_number (js_get j ''maxMs''),
      tl_allowZero = (case js_get j ''allowZero'' of JBool b \<Rightarrow> Some b | _ \<Rightarrow> None)\<rparr>"

definition gateway_first_byte_limit :: jsval where
  "gateway_first_byte_limit = JObj [(''min'', JNum (Fin 1000)), (''max'', JNum (Fin 900000))]"

definition gateway_response_idle_limit :: jsval where
  "gateway_response_idle_limit =
     JObj [(''min'', JNum (Fin 0)), (''max'', JNum (Fin 3600000)), (''allowZero'', JBool True)]"

section \<open>Properties\<close>

text \<open>A whole number of milliseconds that the seconds of the form represent, within a limit.\<close>

definition in_limit :: "TimeoutLimit \<Rightarrow> jsnum \<Rightarrow> bool" where
  "in_limit limit v \<longleftrightarrow>
     (case v of Fin x \<Rightarrow> x = of_int \<lfloor>x\<rfloor> \<and> num_le (tl_minMs limit) v \<and> num_le v (tl_maxMs limit) | _ \<Rightarrow> False)"

definition timeouts_in_limits :: "GatewayTimeoutSettingsPayload \<Rightarrow> GatewayTimeoutSettings \<Rightarrow> bool" where
  "timeouts_in_limits settings g \<longleftrightarrow>
     in_limit (gtp_firstByte settings) (gt_defaultFirstByteTimeoutMs g) \<and>
     in_limit (gtp_firstByte settings) (gt_streamFirstByteTimeoutMs g) \<and>
     in_limit (gtp_firstByte settings) (gt_imageFirstByteTimeoutMs g) \<and>
     in_limit (gtp_responseIdle settings) (gt_responseIdleTimeoutMs g)"

text \<open>Limits that are numbers, of at most about 34 years.\<close>

definition numeric_limit :: "TimeoutLimit \<Rightarrow> bool" where
  "numeric_limit limit \<longleftrightarrow>
     (case (tl_minMs limit, tl_maxMs limit) of (Fin a, Fin b) \<Rightarrow> 0 \<le> a \<and> b < 2 ^ 40 | _ \<Rightarrow> False)"

lemma numeric_limitE:
  assumes "numeric_limit limit"
  obtains a b where "tl_minMs limit = Fin a" "tl_maxMs limit = Fin b" "0 \<le> a" "b < 2 ^ 40"
  using assms by (cases "tl_minMs limit"; cases "tl_maxMs limit") (auto simp: numeric_limit_def)

lemma parse_in_limit:
  assumes "numeric_limit limit" and "in_limit limit v"
  shows "parseSeconds t (secondsText v) label limit = Inr v"
proof -
  obtain a b where l: "tl_minMs limit = Fin a" "tl_maxMs limit = Fin b" "0 \<le> a" "b < 2 ^ 40"
    using assms(1) by (rule numeric_limitE)
  obtain x where v: "v = Fin x" "x = of_int \<lfloor>x\<rfloor>" "a \<le> x" "x \<le> b"
    using assms(2) l by (cases v) (auto simp: in_limit_def)
  have "(of_int \<lfloor>x\<rfloor> :: rat) < of_int (2 ^ 40)" using v l(4) by simp
  then have "\<lfloor>x\<rfloor> < 2 ^ 40" by (simp only: of_int_less_iff)
  moreover have "0 \<le> \<lfloor>x\<rfloor>" using v(3) l(3) by simp
  ultimately have "parseSeconds t (secondsText (Fin (of_int \<lfloor>x\<rfloor>))) label limit = Inr (Fin (of_int \<lfloor>x\<rfloor>))"
    using l v by (intro parse_secondsText) simp_all
  then show ?thesis using v(1,2) by metis
qed

lemma parse_within_limit:
  assumes "parseSeconds t s label limit = Inr v" and "numeric_limit limit"
  shows "in_limit limit v"
proof -
  obtain a b where l: "tl_minMs limit = Fin a" "tl_maxMs limit = Fin b"
    using assms(2) by (rule numeric_limitE)
  then show ?thesis using parseSeconds_within[OF assms(1) l] by (auto simp: in_limit_def)
qed


text \<open>
  With limits that are numbers, every request of a save carries whole milliseconds within the
  limits of its field; a form that breaks one sends nothing and shows an error instead.
\<close>

theorem saved_timeouts_within_limits:
  assumes "sp_settings s = Some settings"
    and "numeric_limit (gtp_firstByte settings)" and "numeric_limit (gtp_responseIdle settings)"
  shows "case handleSave_start t s of
      (s', Some request) \<Rightarrow> sp_saving s' \<and> request \<in> updateGatewayTimeoutSettings ` Collect (timeouts_in_limits settings)
    | (s', None) \<Rightarrow> \<exists>e. timeouts_to_save t (sp_form s) settings = Inl e \<and> s' = (settings_error e s)\<lparr>sp_saving := False\<rparr>"
proof (cases "timeouts_to_save t (sp_form s) settings")
  case (Inl e)
  then show ?thesis using assms(1) by (simp add: handleSave_start_def settings_error_def)
next
  case (Inr g)
  then have "timeouts_in_limits settings g"
    using assms(2,3) by (auto simp: timeouts_to_save_def timeouts_in_limits_def result_simps dest!: parse_within_limit)
  then show ?thesis using assms(1) Inr by (auto simp: handleSave_start_def)
qed

text \<open>
  With the limits the gateway really answers the range check never fires: any text that is a
  finite number is accepted in both fields, so that minus five seconds is sent as a timeout of -5000 ms.
\<close>

theorem gateway_limits_unchecked:
  fixes limit :: TimeoutLimit
  assumes "limit \<in> timeout_limit_of_json ` {gateway_first_byte_limit, gateway_response_idle_limit}"
    and "string_to_number text = Fin seconds" and "trim text \<noteq> []"
  shows "parseSeconds t text label limit = Inr (math_round (num_mul (Fin seconds) (Fin 1000))) \<and>
    tfv_min (TimeoutField t ident label text defaultMs limit) = ''NaN'' \<and>
    tfv_max (TimeoutField t ident label text defaultMs limit) = ''NaN''"
proof -
  have l: "tl_minMs limit = NaN" "tl_maxMs limit = NaN"
    using assms(1) by (auto simp: timeout_limit_of_json_def gateway_first_byte_limit_def gateway_response_idle_limit_def)
  moreover have "\<not> num_less v NaN" "\<not> num_less NaN v" for v by (cases v; simp)+
  moreover have "secondsText NaN = ''NaN''" by (simp add: secondsText_def) code_simp
  ultimately show ?thesis
    using assms(2,3) by (simp add: parseSeconds_def TimeoutField_def Let_def result_simps del: num_mul.simps math_round.simps)
qed

section \<open>Witnesses\<close>

definition sample_timeouts :: GatewayTimeoutSettingsPayload where
  "sample_timeouts =
     \<lparr>gt_defaultFirstByteTimeoutMs = Fin 300000, gt_streamFirstByteTimeoutMs = Fin 30001,
      gt_imageFirstByteTimeoutMs = Fin 300000, gt_responseIdleTimeoutMs = Fin 0,
      gtp_ok = True,
      gtp_defaults = \<lparr>gt_defaultFirstByteTimeoutMs = Fin 300000, gt_streamFirstByteTimeoutMs = Fin 30000,
        gt_imageFirstByteTimeoutMs = Fin 300000, gt_responseIdleTimeoutMs = Fin 300000\<rparr>,
      gtp_firstByte = \<lparr>tl_minMs = Fin 1000, tl_maxMs = Fin 900000, tl_allowZero = None\<rparr>,
      gtp_responseIdle = \<lparr>tl_minMs = Fin 0, tl_maxMs = Fin 3600000, tl_allowZero = Some True\<rparr>,
      gtp_updatedAt = None\<rparr>"

lemma sample_limits:
  "numeric_limit (gtp_firstByte sample_timeouts)" "numeric_limit (gtp_responseIdle sample_timeouts)"
  "timeouts_in_limits sample_timeouts (GatewayTimeoutSettings.truncate sample_timeouts)"
  by (simp_all add: sample_timeouts_def numeric_limit_def timeouts_in_limits_def in_limit_def
      GatewayTimeoutSettings.truncate_def)


definition sample_settings_page :: SettingsPage where
  "sample_settings_page = settings_page_init\<lparr>sp_settings := Some sample_timeouts\<rparr>"

theorem saved_timeouts_within_limits_witness:
  "case handleSave_start (\<lambda>k _. k) sample_settings_page of
      (s', Some request) \<Rightarrow> sp_saving s' \<and> request \<in> updateGatewayTimeoutSettings ` Collect (timeouts_in_limits sample_timeouts)
    | (s', None) \<Rightarrow> \<exists>e. timeouts_to_save (\<lambda>k _. k) (sp_form sample_settings_page) sample_timeouts = Inl e \<and>
        s' = (settings_error e sample_settings_page)\<lparr>sp_saving := False\<rparr>"
  by (rule saved_timeouts_within_limits [OF _ sample_limits(1,2)]) (simp add: sample_settings_page_def)

lemma minus_five: "string_to_number ''-5'' = Fin (- 5)" "trim ''-5'' \<noteq> []"
proof -
  have r: "representable (- 5)" using representable_of_int [of "- 5"] by simp
  have t: "number_to_string (Fin (- 5)) = ''-5''"
    by (simp add: pos_to_string_def nat_str.simps [of 5] digit_char_def) code_simp
  show "string_to_number ''-5'' = Fin (- 5)" using string_to_number_to_string [OF r] by (simp only: t)
  show "trim ''-5'' \<noteq> []" using trim_number_to_string(1) [OF r] by (simp only: t) simp
qed

theorem gateway_limits_unchecked_witness:
  "parseSeconds (\<lambda>k _. k) ''-5'' [] (timeout_limit_of_json gateway_first_byte_limit) = Inr (Fin (- 5000))"
proof -
  have "math_round (num_mul (Fin (- 5)) (Fin 1000)) = Fin (- 5000)" using fl_of_int [of "- 5000"] floor_near_int [of "- 5000" "- 5000"] by simp
  then show ?thesis
    using gateway_limits_unchecked [OF _ minus_five, of "timeout_limit_of_json gateway_first_byte_limit"] by simp
qed

end
