(* ===== verification/Providers.thy ===== *)
theory Providers
  imports Api Json_Roundtrip
begin

text \<open>
  The channel form of \<open>components/providers-page.tsx\<close>: the form's state from a stored provider, the
  editing of its rows, and the payload a save sends.
  Row ids (\<open>crypto.randomUUID()\<close>) are arguments.
\<close>

section \<open>The form\<close>

datatype DialogMode = Create_mode | Edit_mode

datatype AuthHeaderChoice = Auto | Explicit auth_header

record ModelRowState =
  mr_id :: string
  mr_model :: string

record ProviderFormState =
  pf_channelName :: string
  pf_type :: provider_type
  pf_targetBaseUrl :: string
  pf_priority :: string
  pf_routingVisibility :: RoutingVisibility
  pf_systemPrompt :: string
  pf_authHeader :: AuthHeaderChoice
  pf_responsesMode :: OpenAiResponsesMode
  pf_apiKey :: string
  pf_apiKeyDirty :: bool
  pf_clearAuth :: bool
  pf_extraFieldsJson :: string
  pf_models :: "ModelRowState list"

fun getDefaultAuthHeaderForType :: "provider_type \<Rightarrow> auth_header" where
  "getDefaultAuthHeaderForType Anthropic = X_api_key"
| "getDefaultAuthHeaderForType OpenAI = Authorization"

definition createModelRow :: "string \<Rightarrow> string \<Rightarrow> ModelRowState" where
  "createModelRow uuid model = \<lparr>mr_id = uuid, mr_model = model\<rparr>"

text \<open>The key and label of a model badge.\<close>

definition formatProviderModel :: "ProviderModelInfo \<Rightarrow> string \<times> string" where
  "formatProviderModel model =
     (let modelId = (if pm_model model \<noteq> [] then pm_model model else ''--'')
      in case pm_context model of
           None \<Rightarrow> (modelId, modelId)
         | Some context \<Rightarrow>
             (modelId @ '':'' @ number_to_string (js_int context),
              modelId @ '' ('' @ number_to_string (math_round (num_div (js_int context) (js_int 1000))) @ ''k)''))"

definition stripResponsesModeFromExtraFields ::
    "(string \<times> jsval) list option \<Rightarrow> (string \<times> jsval) list option" where
  "stripResponsesModeFromExtraFields extraFields =
     (case extraFields of
        None \<Rightarrow> None
      | Some efs \<Rightarrow>
          (let rest = filter (\<lambda>(k, _). k \<noteq> ''responsesMode'') efs
           in if rest \<noteq> [] then Some rest else None))"

definition blank_form :: "(nat \<Rightarrow> string) \<Rightarrow> ProviderFormState" where
  \<comment> \<open>\<open>createFormState()\<close>\<close>
  "blank_form uuids =
     \<lparr>pf_channelName = [], pf_type = Anthropic, pf_targetBaseUrl = [], pf_priority = ''0'',
      pf_routingVisibility = Direct, pf_systemPrompt = [], pf_authHeader = Auto, pf_responsesMode = Native,
      pf_apiKey = [], pf_apiKeyDirty = False, pf_clearAuth = False, pf_extraFieldsJson = [],
      pf_models = [createModelRow (uuids 0) []]\<rparr>"

definition form_auth_header :: "ProviderInfo \<Rightarrow> AuthHeaderChoice" where
  "form_auth_header provider =
     (case pv_auth provider of
        None \<Rightarrow> Auto
      | Some auth \<Rightarrow>
          if pa_header auth = getDefaultAuthHeaderForType (pv_type provider) then Auto
          else Explicit (pa_header auth))"

definition createFormState :: "(nat \<Rightarrow> string) \<Rightarrow> ProviderInfo \<Rightarrow> ProviderFormState" where
  "createFormState uuids provider =
     \<lparr>pf_channelName = pv_channelName provider,
      pf_type = pv_type provider,
      pf_targetBaseUrl = pv_targetBaseUrl provider,
      pf_priority = int_str (pv_priority provider),
      pf_routingVisibility = pv_routingVisibility provider,
      pf_systemPrompt = (case pv_systemPrompt provider of Some p \<Rightarrow> p | None \<Rightarrow> []),
      pf_authHeader = form_auth_header provider,
      pf_responsesMode = (case pv_responsesMode provider of Some m \<Rightarrow> m | None \<Rightarrow> Native),
      pf_apiKey = (case pv_auth provider of
          Some auth \<Rightarrow> (case pa_value auth of Some v \<Rightarrow> v | None \<Rightarrow> []) | None \<Rightarrow> []),
      pf_apiKeyDirty = False,
      pf_clearAuth = False,
      pf_extraFieldsJson = (case stripResponsesModeFromExtraFields (pv_extraFields provider) of
          None \<Rightarrow> [] | Some efs \<Rightarrow> json_stringify2 (JObj efs)),
      pf_models = (if pv_models provider \<noteq> []
          then map (\<lambda>(i, model). createModelRow (uuids i) (pm_model model)) (enumerate 0 (pv_models provider))
          else [createModelRow (uuids 0) []])\<rparr>"

definition set_authHeader :: "AuthHeaderChoice \<Rightarrow> ProviderFormState \<Rightarrow> ProviderFormState" where
  "set_authHeader choice f = f\<lparr>pf_authHeader := choice, pf_apiKeyDirty := True, pf_clearAuth := False\<rparr>"

definition set_apiKey :: "string \<Rightarrow> ProviderFormState \<Rightarrow> ProviderFormState" where
  "set_apiKey v f = f\<lparr>pf_apiKey := v, pf_apiKeyDirty := True, pf_clearAuth := False\<rparr>"

definition press_clearAuth :: "ProviderFormState \<Rightarrow> ProviderFormState" where
  "press_clearAuth f = f\<lparr>pf_apiKey := [], pf_apiKeyDirty := True, pf_clearAuth := True\<rparr>"

text \<open>The other inputs of the form.\<close>

datatype FormInput =
    Type_channelName string
  | Choose_type provider_type
  | Type_targetBaseUrl string
  | Choose_responsesMode OpenAiResponsesMode
  | Type_priority string
  | Choose_routingVisibility RoutingVisibility
  | Type_systemPrompt string
  | Type_extraFields string
  | Choose_authHeader AuthHeaderChoice
  | Type_apiKey string
  | Press_clearAuth

fun form_input :: "FormInput \<Rightarrow> ProviderFormState \<Rightarrow> ProviderFormState" where
  "form_input (Type_channelName v) f = f\<lparr>pf_channelName := v\<rparr>"
| "form_input (Choose_type v) f = f\<lparr>pf_type := v\<rparr>"
| "form_input (Type_targetBaseUrl v) f = f\<lparr>pf_targetBaseUrl := v\<rparr>"
| "form_input (Choose_responsesMode v) f = f\<lparr>pf_responsesMode := v\<rparr>"
| "form_input (Type_priority v) f = f\<lparr>pf_priority := v\<rparr>"
| "form_input (Choose_routingVisibility v) f = f\<lparr>pf_routingVisibility := v\<rparr>"
| "form_input (Type_systemPrompt v) f = f\<lparr>pf_systemPrompt := v\<rparr>"
| "form_input (Type_extraFields v) f = f\<lparr>pf_extraFieldsJson := v\<rparr>"
| "form_input (Choose_authHeader v) f = set_authHeader v f"
| "form_input (Type_apiKey v) f = set_apiKey v f"
| "form_input Press_clearAuth f = press_clearAuth f"

section \<open>Rows of models\<close>

definition updateModelRow :: "string \<Rightarrow> string \<Rightarrow> ProviderFormState \<Rightarrow> ProviderFormState" where
  "updateModelRow row_id model current =
     current\<lparr>pf_models := map (\<lambda>row. if mr_id row = row_id then row\<lparr>mr_model := model\<rparr> else row) (pf_models current)\<rparr>"

definition addModelRow :: "string \<Rightarrow> ProviderFormState \<Rightarrow> ProviderFormState" where
  "addModelRow uuid current = current\<lparr>pf_models := pf_models current @ [createModelRow uuid []]\<rparr>"

definition removeModelRow :: "string \<Rightarrow> string \<Rightarrow> ProviderFormState \<Rightarrow> ProviderFormState" where
  "removeModelRow uuid row_id current =
     current\<lparr>pf_models := if 1 < length (pf_models current)
        then filter (\<lambda>row. mr_id row \<noteq> row_id) (pf_models current)
        else [createModelRow uuid []]\<rparr>"

definition existing_ids :: "ProviderFormState \<Rightarrow> string list" where
  "existing_ids f = new_Set (filter (\<lambda>m. m \<noteq> []) (map (\<lambda>r. trim (mr_model r)) (pf_models f)))"

text \<open>The models preselected in the sync dialog, and the rows a confirmation leaves.\<close>

definition sync_preselected :: "string list \<Rightarrow> ProviderFormState \<Rightarrow> string list" where
  "sync_preselected upstream f = new_Set (filter (\<lambda>m. m \<notin> set (existing_ids f)) upstream)"

definition sync_toggle :: "string \<Rightarrow> bool \<Rightarrow> string list \<Rightarrow> string list" where
  "sync_toggle m checked prev = (if checked then set_add m prev else filter (\<lambda>x. x \<noteq> m) prev)"

definition handleSyncConfirm :: "(nat \<Rightarrow> string) \<Rightarrow> string list \<Rightarrow> ProviderFormState \<Rightarrow> ProviderFormState" where
  "handleSyncConfirm uuids syncSelected current =
     (let toAdd = filter (\<lambda>m. m \<notin> set (existing_ids current)) syncSelected
      in if syncSelected = [] \<or> toAdd = [] then current
         else
           (let nonEmpty = filter (\<lambda>r. trim (mr_model r) \<noteq> []) (pf_models current);
                newRows = map (\<lambda>(i, m). createModelRow (uuids i) m) (enumerate 0 toAdd)
            in current\<lparr>pf_models := if nonEmpty \<noteq> [] then nonEmpty @ newRows else newRows\<rparr>))"

section \<open>The payload\<close>

definition parseExtraJson :: "string \<Rightarrow> (string \<times> jsval) list option result" where
  "parseExtraJson val =
     (let trimmed = trim val
      in if trimmed = [] then return None
         else
           (case json_parse trimmed of
              None \<Rightarrow> throw ''Extra fields must be valid JSON object''
            | Some (JObj efs) \<Rightarrow> return (Some efs)
            | Some _ \<Rightarrow> throw ''Extra fields must be a JSON object''))"

definition buildModels :: "ModelRowState list \<Rightarrow> ProviderModelInfo list" where
  "buildModels rows =
     map (\<lambda>m. \<lparr>pm_model = m, pm_context = None, pm_rest = []\<rparr>)
       (filter (\<lambda>m. m \<noteq> []) (map (\<lambda>row. trim (mr_model row)) rows))"

definition auth_entry :: "AuthHeaderChoice \<Rightarrow> string \<Rightarrow> AuthPayload" where
  \<comment> \<open>\<open>explicitHeader ? { header: explicitHeader, value: apiKey } : { value: apiKey }\<close>\<close>
  "auth_entry choice apiKey =
     (case choice of
        Explicit h \<Rightarrow> \<lparr>ap_header = Some h, ap_value = Some apiKey\<rparr>
      | Auto \<Rightarrow> \<lparr>ap_header = None, ap_value = Some apiKey\<rparr>)"

text \<open>\<open>None\<close>: the key \<open>auth\<close> is absent; \<open>Some None\<close>: it is \<open>null\<close>.\<close>

definition auth_of_form :: "ProviderFormState \<Rightarrow> DialogMode \<Rightarrow> AuthPayload option option" where
  "auth_of_form state mode =
     (let apiKey = trim (pf_apiKey state)
      in if pf_clearAuth state then Some None
         else if mode = Create_mode then
           (if apiKey \<noteq> [] then Some (Some (auth_entry (pf_authHeader state) apiKey)) else None)
         else if pf_apiKeyDirty state then
           Some (if apiKey \<noteq> [] then Some (auth_entry (pf_authHeader state) apiKey) else None)
         else None)"

definition buildProviderPayload :: "ProviderFormState \<Rightarrow> DialogMode \<Rightarrow> ProviderMutationPayload result" where
  "buildProviderPayload state mode =
     bind_result (parseExtraJson (pf_extraFieldsJson state)) (\<lambda>extraFields.
       (let priorityText = trim (pf_priority state)
        in return
          \<lparr>mp_channelName = trim (pf_channelName state),
           mp_type = pf_type state,
           mp_targetBaseUrl = trim (pf_targetBaseUrl state),
           mp_systemPrompt = (if trim (pf_systemPrompt state) \<noteq> [] then Some (trim (pf_systemPrompt state)) else None),
           mp_models = buildModels (pf_models state),
           mp_priority = (if priorityText \<noteq> [] then string_to_number priorityText else Fin 0),
           mp_routingVisibility = pf_routingVisibility state,
           mp_auth = auth_of_form state mode,
           mp_responsesMode = (if pf_type state = OpenAI then Some (pf_responsesMode state) else None),
           mp_extraFields = extraFields\<rparr>))"

section \<open>Lemmas\<close>

lemma trim_ends: "\<not> is_space c \<Longrightarrow> \<not> is_space d \<Longrightarrow> trim (c # s @ [d]) = c # s @ [d]"
  by (simp add: trim_def)

lemma trim_json_object: "ps \<noteq> [] \<Longrightarrow> trim (json_stringify2 (JObj ps)) = json_stringify2 (JObj ps)"
proof (cases "filter (\<lambda>p. snd p \<noteq> JUndef) ps = []")
  case True
  then show ?thesis by (simp add: json_stringify2_def trim_def is_space_def)
next
  case False
  then obtain s where "json_stringify2 (JObj ps) = CHR ''{'' # s @ [CHR ''}'']"
    by (simp add: json_stringify2_def)
  then show ?thesis by (simp add: trim_ends is_space_def)
qed

lemma map_trim_rows:
  assumes "\<forall>m \<in> set ms. trim (pm_model m) = pm_model m \<and> pm_model m \<noteq> []"
  shows "filter (\<lambda>m. m \<noteq> []) (map (\<lambda>row. trim (mr_model row))
      (map (\<lambda>(i, model). createModelRow (uuids i) (pm_model model)) (enumerate 0 ms))) = map pm_model ms"
proof -
  have "map (\<lambda>row. trim (mr_model row)) (map (\<lambda>(i, model). createModelRow (uuids i) (pm_model model)) (enumerate 0 ms)) =
      map (\<lambda>p. trim (pm_model (snd p))) (enumerate 0 ms)"
    by (simp add: createModelRow_def case_prod_unfold comp_def)
  also have "\<dots> = map (\<lambda>m. trim (pm_model m)) ms" by (rule map_snd_of_enumerate)
  also have "\<dots> = map pm_model ms" using assms by simp
  finally show ?thesis using assms by (auto intro!: filter_True)
qed

text \<open>A form the user has touched only outside the credentials keeps their flags.\<close>

fun auth_input :: "FormInput \<Rightarrow> bool" where
  "auth_input (Choose_authHeader _) = True"
| "auth_input (Type_apiKey _) = True"
| "auth_input Press_clearAuth = True"
| "auth_input _ = False"

lemma form_input_auth:
  "pf_apiKeyDirty (form_input i f) \<longleftrightarrow> pf_apiKeyDirty f \<or> auth_input i"
  "pf_clearAuth (form_input i f) \<longleftrightarrow> (if auth_input i then i = Press_clearAuth else pf_clearAuth f)"
  by (cases i; simp add: set_authHeader_def set_apiKey_def press_clearAuth_def)+

lemma form_inputs_dirty: "pf_apiKeyDirty (fold form_input is f) \<longleftrightarrow> pf_apiKeyDirty f \<or> list_ex auth_input is"
  by (induction "is" arbitrary: f) (auto simp: form_input_auth)

lemma clear_is_dirty:
  "(pf_clearAuth f \<longrightarrow> pf_apiKeyDirty f) \<Longrightarrow>
     pf_clearAuth (fold form_input is f) \<longrightarrow> pf_apiKeyDirty (fold form_input is f)"
  by (induction "is" arbitrary: f) (auto simp: form_input_auth split: if_splits)

lemma buildModels_names: "map pm_model (buildModels rows) = filter (\<lambda>m. m \<noteq> []) (map (\<lambda>row. trim (mr_model row)) rows)"
  by (simp add: buildModels_def comp_def)

lemma set_existing_ids: "set (existing_ids f) = set (map pm_model (buildModels (pf_models f)))"
  by (simp only: existing_ids_def buildModels_names set_new_Set)

text \<open>What an unchanged form sends; an empty system prompt is sent as none.\<close>

lemma unchanged_payload:
  assumes "trim (pv_channelName p) = pv_channelName p" and "trim (pv_targetBaseUrl p) = pv_targetBaseUrl p"
    and "\<forall>q. pv_systemPrompt p = Some q \<longrightarrow> trim q = q"
    and "0 \<le> pv_priority p \<and> pv_priority p < 2 ^ 53"
    and "\<forall>m \<in> set (pv_models p). trim (pm_model m) = pm_model m \<and> pm_model m \<noteq> []"
    and "\<forall>efs. stripResponsesModeFromExtraFields (pv_extraFields p) = Some efs \<longrightarrow> json_clean (JObj efs)"
  shows "\<exists>payload. buildProviderPayload (createFormState uuids p) Edit_mode = Inr payload \<and>
    mp_channelName payload = pv_channelName p \<and> mp_type payload = pv_type p \<and>
    mp_targetBaseUrl payload = pv_targetBaseUrl p \<and> mp_systemPrompt payload = (if pv_systemPrompt p = Some [] then None else pv_systemPrompt p) \<and>
    mp_priority payload = js_int (pv_priority p) \<and> mp_routingVisibility payload = pv_routingVisibility p \<and>
    map pm_model (mp_models payload) = map pm_model (pv_models p) \<and> mp_auth payload = None \<and>
    mp_responsesMode payload = (if pv_type p = OpenAI
      then Some (case pv_responsesMode p of Some m \<Rightarrow> m | None \<Rightarrow> Native) else None) \<and>
    mp_extraFields payload = stripResponsesModeFromExtraFields (pv_extraFields p)"
proof -
  let ?f = "createFormState uuids p"
  let ?e = "stripResponsesModeFromExtraFields (pv_extraFields p)"
  have extra: "parseExtraJson (pf_extraFieldsJson ?f) = Inr ?e"
  proof (cases ?e)
    case None
    then show ?thesis by (simp add: createFormState_def parseExtraJson_def result_simps)
  next
    case (Some efs)
    then have "efs \<noteq> []"
      by (auto simp: stripResponsesModeFromExtraFields_def Let_def split: option.splits if_splits)
    moreover from this have "json_stringify2 (JObj efs) \<noteq> []"
      by (auto simp: json_stringify2_def)
    moreover have "json_parse (json_stringify2 (JObj efs)) = Some (JObj efs)"
      using assms(6) Some by (intro json_parse_stringify2) simp
    ultimately show ?thesis
      using Some trim_json_object [of efs]
      by (simp add: createFormState_def parseExtraJson_def Let_def result_simps)
  qed
  have prio: "string_to_number (int_str (pv_priority p)) = js_int (pv_priority p)"
    "trim (int_str (pv_priority p)) = int_str (pv_priority p)" "int_str (pv_priority p) \<noteq> []"
    using assms(4) by (simp_all add: int_str_def js_nat_def js_int_def)
  have models: "map pm_model (buildModels (pf_models ?f)) = map pm_model (pv_models p)"
    using map_trim_rows [OF assms(5)]
    by (cases "pv_models p = []") (simp_all add: buildModels_names createFormState_def createModelRow_def)
  show ?thesis
    using extra prio models assms(1,2,3)
    by (auto simp: buildProviderPayload_def result_simps auth_of_form_def Let_def)
      (auto simp: createFormState_def split: option.splits)
qed

section \<open>Properties\<close>

text \<open>
  Opening a channel and saving it unchanged sends back every field of the stored channel, leaves
  its credentials alone (no \<open>auth\<close> key), and names the same models in the same order; the priority and
  the free-form extra fields survive their trip through the form's text.
\<close>
theorem provider_edit_roundtrip:
  assumes "trim (pv_channelName p) = pv_channelName p" and "trim (pv_targetBaseUrl p) = pv_targetBaseUrl p"
    and "\<forall>q. pv_systemPrompt p = Some q \<longrightarrow> trim q = q \<and> q \<noteq> []"
    and "0 \<le> pv_priority p \<and> pv_priority p < 2 ^ 53"
    and "\<forall>m \<in> set (pv_models p). trim (pm_model m) = pm_model m \<and> pm_model m \<noteq> []"
    and "\<forall>efs. stripResponsesModeFromExtraFields (pv_extraFields p) = Some efs \<longrightarrow> json_clean (JObj efs)"
  shows "\<exists>payload. buildProviderPayload (createFormState uuids p) Edit_mode = Inr payload \<and>
    mp_channelName payload = pv_channelName p \<and> mp_type payload = pv_type p \<and>
    mp_targetBaseUrl payload = pv_targetBaseUrl p \<and> mp_systemPrompt payload = pv_systemPrompt p \<and>
    mp_priority payload = js_int (pv_priority p) \<and> mp_routingVisibility payload = pv_routingVisibility p \<and>
    map pm_model (mp_models payload) = map pm_model (pv_models p) \<and> mp_auth payload = None \<and>
    mp_responsesMode payload = (if pv_type p = OpenAI
      then Some (case pv_responsesMode p of Some m \<Rightarrow> m | None \<Rightarrow> Native) else None) \<and>
    mp_extraFields payload = stripResponsesModeFromExtraFields (pv_extraFields p)"
  using unchanged_payload [of p uuids] assms by auto

text \<open>
  Saving a channel strips the metadata of its models: whatever the stored models carry, every
  model a save sends has its name alone, with no context length and no other property, so an unedited
  save of a channel whose models have metadata changes them.
\<close>
theorem save_drops_model_metadata:
  assumes "buildProviderPayload f mode = Inr payload"
  shows "mp_models payload = map (\<lambda>m. \<lparr>pm_model = pm_model m, pm_context = None, pm_rest = []\<rparr>) (mp_models payload) \<and>
    (mp_models payload = pv_models p \<longrightarrow>
       list_all (\<lambda>m. pm_context m = None \<and> pm_rest m = []) (pv_models p))"
proof -
  have bare: "pm_context m = None \<and> pm_rest m = []" if "m \<in> set (mp_models payload)" for m
    using assms that by (auto simp: buildProviderPayload_def buildModels_def result_simps Let_def)
  then have "map (\<lambda>m. \<lparr>pm_model = pm_model m, pm_context = None, pm_rest = []\<rparr>) (mp_models payload) = mp_models payload"
    by (intro map_idI) simp
  then show ?thesis using bare by (auto simp: list_all_iff)
qed

text \<open>
  A save of an existing channel touches its credentials exactly when the user touched them:
  over any sequence of inputs to the form, the payload has an \<open>auth\<close> key if and only if one of the inputs
  chose the method, typed the key or pressed the clear button.
\<close>
theorem credentials_touched_iff:
  "auth_of_form (fold form_input is (createFormState uuids p)) Edit_mode = None \<longleftrightarrow>
     \<not> list_ex auth_input is"
proof -
  let ?f = "createFormState uuids p"
  have "\<not> pf_apiKeyDirty ?f" "\<not> pf_clearAuth ?f" by (simp_all add: createFormState_def)
  then show ?thesis
    using form_inputs_dirty [of "is" ?f] clear_is_dirty [of ?f "is"]
    by (auto simp: auth_of_form_def Let_def)
qed

text \<open>
  Choosing another authentication method without a key on screen asks to clear the credentials: when the form opened
  without the channel's key (its detail could not be loaded), a save after changing only the method sends
  \<open>auth: null\<close>.
\<close>
theorem auth_method_change_clears:
  assumes "\<forall>a v. pv_auth p = Some a \<longrightarrow> pa_value a = Some v \<longrightarrow> trim v = []"
  shows "auth_of_form (set_authHeader choice (createFormState uuids p)) Edit_mode = Some None"
  using assms by (auto simp: auth_of_form_def set_authHeader_def createFormState_def Let_def split: option.splits)

text \<open>
  Confirming the sync dialog adds the selected upstream models that are missing, each once and
  in the order of selection, keeps those the form had, and drops only blank rows.
\<close>
theorem sync_adds_missing:
  assumes "distinct syncSelected" and "\<forall>m \<in> set syncSelected. trim m = m \<and> m \<noteq> []"
  shows "map pm_model (buildModels (pf_models (handleSyncConfirm uuids syncSelected f))) =
    map pm_model (buildModels (pf_models f)) @
    filter (\<lambda>m. m \<notin> set (map pm_model (buildModels (pf_models f)))) syncSelected"
proof -
  let ?add = "filter (\<lambda>m. m \<notin> set (existing_ids f)) syncSelected"
  let ?new = "map (\<lambda>(i, m). createModelRow (uuids i) m) (enumerate 0 ?add)"
  let ?old = "filter (\<lambda>r. trim (mr_model r) \<noteq> []) (pf_models f)"
  show ?thesis
  proof (cases "?add = []")
    case True
    then show ?thesis by (auto simp: handleSyncConfirm_def Let_def set_existing_ids filter_empty_conv)
  next
    case False
    then have "pf_models (handleSyncConfirm uuids syncSelected f) = ?old @ ?new"
      by (auto simp: handleSyncConfirm_def Let_def)
    moreover have "map (\<lambda>row. trim (mr_model row)) ?new = map trim ?add"
      by (simp add: createModelRow_def case_prod_unfold comp_def)
    moreover have "map trim ?add = ?add" using assms(2) by (intro map_idI) auto
    then have "filter (\<lambda>m. m \<noteq> []) (map trim ?add) = ?add"
      using assms(2) by (auto intro!: filter_cong)
    moreover have "filter (\<lambda>m. m \<noteq> []) (map (\<lambda>row. trim (mr_model row)) ?old) =
        filter (\<lambda>m. m \<noteq> []) (map (\<lambda>row. trim (mr_model row)) (pf_models f))"
      by (simp add: filter_map comp_def)
    ultimately show ?thesis
      by (simp only: buildModels_names map_append filter_append set_existing_ids)
  qed
qed

definition sample_channel :: "ProviderModelInfo list \<Rightarrow> ProviderInfo" where
  "sample_channel ms =
     \<lparr>pv_channelName = ''a'', pv_type = OpenAI, pv_targetBaseUrl = ''https://x'', pv_systemPrompt = Some ''hi'',
      pv_priority = 3, pv_enabled = False, pv_routingVisibility = Explicit_only, pv_models = ms,
      pv_auth = Some \<lparr>pa_header = Authorization, pa_configured = True, pa_value = None\<rparr>,
      pv_responsesMode = Some Chat_compat, pv_extraFields = Some [(''responsesMode'', JStr ''chat_compat''), (''vendor'', JStr ''x'')],
      pv_providerUuid = [], pv_healthStatus = None\<rparr>"

definition sample_model :: ProviderModelInfo where
  "sample_model = \<lparr>pm_model = ''m'', pm_context = Some 128000, pm_rest = []\<rparr>"

theorem provider_edit_roundtrip_witness:
  "\<exists>payload. buildProviderPayload (createFormState (\<lambda>_. ''u'') (sample_channel [sample_model])) Edit_mode = Inr payload \<and>
     mp_extraFields payload = Some [(''vendor'', JStr ''x'')] \<and> mp_auth payload = None"
  using provider_edit_roundtrip [of "sample_channel [sample_model]" "\<lambda>_. ''u''"]
  by (auto simp: sample_channel_def sample_model_def trim_def is_space_def stripResponsesModeFromExtraFields_def)

theorem save_drops_model_metadata_witness:
  "\<exists>payload. buildProviderPayload (blank_form (\<lambda>_. ''u'')) Create_mode = Inr payload \<and>
     mp_models payload \<noteq> pv_models (sample_channel [sample_model])"
proof -
  obtain payload where p: "buildProviderPayload (blank_form (\<lambda>_. ''u'')) Create_mode = Inr payload"
    by (auto simp: buildProviderPayload_def blank_form_def parseExtraJson_def result_simps Let_def)
  then show ?thesis
    using save_drops_model_metadata [OF p, of "sample_channel [sample_model]"]
    by (auto simp: sample_channel_def sample_model_def)
qed

theorem auth_method_change_clears_witness:
  "auth_of_form (set_authHeader (Explicit X_api_key) (createFormState (\<lambda>_. ''u'') (sample_channel []))) Edit_mode = Some None"
  by (rule auth_method_change_clears) (simp add: sample_channel_def)

theorem sync_adds_missing_witness:
  "map pm_model (buildModels (pf_models (handleSyncConfirm (\<lambda>_. ''u'') [''m'', ''n'']
     (createFormState (\<lambda>_. ''u'') (sample_channel [sample_model]))))) = [''m'', ''n'']"
  using sync_adds_missing [of "[''m'', ''n'']" "\<lambda>_. ''u''" "createFormState (\<lambda>_. ''u'') (sample_channel [sample_model])"]
  by (simp add: trim_def is_space_def buildModels_def createFormState_def sample_channel_def sample_model_def createModelRow_def)

end
