(* ===== verification/Providers_Page.thy ===== *)
theory Providers_Page
  imports Providers
begin

text \<open>
  The state of \<open>ProvidersPage\<close> in \<open>components/providers-page.tsx\<close> and its handlers, cut at each
  \<open>await\<close>: loading, testing, toggling, the channel dialog with its late detail, the sync and delete dialogs, and the
  guard of the nested dialogs.
\<close>

section \<open>State\<close>

record ProvidersPage =
  pgs_providers :: "ProviderInfo list option"
  pgs_error :: string
  pgs_dialogOpen :: bool
  pgs_dialogMode :: DialogMode
  pgs_activeProvider :: "ProviderInfo option"
  pgs_formState :: ProviderFormState
  pgs_formError :: string
  pgs_submitPending :: bool
  pgs_testingAll :: bool
  pgs_testResults :: "(string, TestProviderResult) jsmap"
  pgs_testingChannels :: "string list"
  pgs_testDialogOpen :: bool
  pgs_testDialogProvider :: "ProviderInfo option"
  pgs_testDialogModel :: string
  pgs_testDialogResult :: "TestProviderResult option"
  pgs_testDialogLoading :: bool
  pgs_showApiKey :: bool
  pgs_togglingChannels :: "string list"
  pgs_syncDialogOpen :: bool
  pgs_syncLoading :: bool
  pgs_syncError :: string
  pgs_syncModels :: "string list"
  pgs_syncSelected :: "string list"
  pgs_deleteDialogOpen :: bool
  pgs_deleteDialogProvider :: "ProviderInfo option"
  pgs_deletePending :: bool
  pgs_configDialogOpen :: bool
  pgs_configImport :: bool \<comment> \<open>\<open>configDialogMode === "import"\<close>\<close>
  pgs_configJson :: string
  pgs_configError :: string
  pgs_unauthorized :: nat

definition providers_page_init :: "(nat \<Rightarrow> string) \<Rightarrow> ProvidersPage" where
  "providers_page_init uuids =
     \<lparr>pgs_providers = None, pgs_error = [], pgs_dialogOpen = False, pgs_dialogMode = Create_mode,
      pgs_activeProvider = None, pgs_formState = blank_form uuids, pgs_formError = [], pgs_submitPending = False,
      pgs_testingAll = False, pgs_testResults = [], pgs_testingChannels = [], pgs_testDialogOpen = False,
      pgs_testDialogProvider = None, pgs_testDialogModel = [], pgs_testDialogResult = None,
      pgs_testDialogLoading = False, pgs_showApiKey = False, pgs_togglingChannels = [],
      pgs_syncDialogOpen = False, pgs_syncLoading = False, pgs_syncError = [], pgs_syncModels = [],
      pgs_syncSelected = [], pgs_deleteDialogOpen = False, pgs_deleteDialogProvider = None,
      pgs_deletePending = False, pgs_configDialogOpen = False, pgs_configImport = False, pgs_configJson = [],
      pgs_configError = [], pgs_unauthorized = 0\<rparr>"

definition set_delete :: "'a \<Rightarrow> 'a list \<Rightarrow> 'a list" where
  "set_delete x s = filter (\<lambda>y. y \<noteq> x) s"

section \<open>Loading, testing, toggling\<close>

definition loadProviders_end :: "ProviderInfo list result \<Rightarrow> ProvidersPage \<Rightarrow> ProvidersPage" where
  "loadProviders_end r s =
     (case r of
        Inr providers \<Rightarrow> s\<lparr>pgs_providers := Some providers, pgs_error := []\<rparr>
      | Inl message \<Rightarrow>
          if message = ''unauthorized'' then s\<lparr>pgs_unauthorized := pgs_unauthorized s + 1\<rparr>
          else s\<lparr>pgs_error := message\<rparr>)"

definition testSingle_start :: "string \<Rightarrow> ProvidersPage \<Rightarrow> ProvidersPage" where
  "testSingle_start channelName s = s\<lparr>pgs_testingChannels := set_add channelName (pgs_testingChannels s)\<rparr>"

definition test_outcome :: "TestProviderResult result \<Rightarrow> TestProviderResult" where
  "test_outcome r =
     (case r of
        Inr result \<Rightarrow> result
      | Inl message \<Rightarrow> \<lparr>tr_status = Error, tr_statusCode = 0, tr_message = message, tr_latencyMs = None,
          tr_model = None, tr_rawResponse = JUndef\<rparr>)"

definition testSingle_end :: "string \<Rightarrow> TestProviderResult result \<Rightarrow> ProvidersPage \<Rightarrow> ProvidersPage" where
  "testSingle_end channelName r s =
     s\<lparr>pgs_testResults := map_set channelName (test_outcome r) (pgs_testResults s),
       pgs_testingChannels := set_delete channelName (pgs_testingChannels s)\<rparr>"

text \<open>\<open>testAllProviders\<close> up to its \<open>Promise.all\<close>, and after it.\<close>

definition testAll_start :: "ProvidersPage \<Rightarrow> ProvidersPage" where
  "testAll_start s =
     (case pgs_providers s of
        None \<Rightarrow> s
      | Some providers \<Rightarrow>
          if pgs_testingAll s then s
          else fold testSingle_start (map pv_channelName providers)
                 (s\<lparr>pgs_testingAll := True, pgs_testResults := []\<rparr>))"

definition testAll_end :: "ProvidersPage \<Rightarrow> ProvidersPage" where
  "testAll_end s = s\<lparr>pgs_testingAll := False\<rparr>"

definition toggle_start :: "string \<Rightarrow> bool \<Rightarrow> ProvidersPage \<Rightarrow> ProvidersPage \<times> HttpRequest" where
  "toggle_start channelName on s =
     (s\<lparr>pgs_togglingChannels := set_add channelName (pgs_togglingChannels s)\<rparr>, toggleProvider channelName on)"

text \<open>Success or failure, the list is reloaded; its answer ends the toggle.\<close>

definition toggle_reloaded :: "string \<Rightarrow> ProviderInfo list result \<Rightarrow> ProvidersPage \<Rightarrow> ProvidersPage" where
  "toggle_reloaded channelName r s =
     (loadProviders_end r s)\<lparr>pgs_togglingChannels := set_delete channelName (pgs_togglingChannels s)\<rparr>"

section \<open>The channel dialog\<close>

definition openCreateDialog :: "(nat \<Rightarrow> string) \<Rightarrow> ProvidersPage \<Rightarrow> ProvidersPage" where
  "openCreateDialog uuids s =
     s\<lparr>pgs_dialogMode := Create_mode, pgs_activeProvider := None, pgs_formState := blank_form uuids,
       pgs_formError := [], pgs_showApiKey := False, pgs_dialogOpen := True\<rparr>"

definition openEditDialog_start :: "(nat \<Rightarrow> string) \<Rightarrow> ProviderInfo \<Rightarrow> ProvidersPage \<Rightarrow> ProvidersPage \<times> HttpRequest" where
  "openEditDialog_start uuids provider s =
     (s\<lparr>pgs_dialogMode := Edit_mode, pgs_activeProvider := Some provider,
        pgs_formState := createFormState uuids provider, pgs_formError := [], pgs_showApiKey := False\<rparr>,
      fetchProvider (pv_channelName provider))"

definition openEditDialog_end ::
    "(nat \<Rightarrow> string) \<Rightarrow> translator \<Rightarrow> ProviderInfo result \<Rightarrow> ProvidersPage \<Rightarrow> ProvidersPage" where
  "openEditDialog_end uuids t r s =
     (case r of
        Inr detail \<Rightarrow>
          s\<lparr>pgs_activeProvider := Some detail, pgs_formState := createFormState uuids detail, pgs_dialogOpen := True\<rparr>
      | Inl message \<Rightarrow>
          if message = ''unauthorized'' then s\<lparr>pgs_unauthorized := pgs_unauthorized s + 1\<rparr>
          else s\<lparr>pgs_formError := t ''providers.loadApiKeyFailed'' [(''error'', JStr message)], pgs_dialogOpen := True\<rparr>)"

text \<open>
  \<open>handleSubmit\<close>: the request it sends, if the form is valid; in edit mode without an active provider it
  sends none and goes on to reload.
\<close>

datatype SubmitCall = Send HttpRequest | Reload_only

definition handleSubmit_start :: "ProvidersPage \<Rightarrow> ProvidersPage \<times> SubmitCall option" where
  "handleSubmit_start s =
     (let s1 = s\<lparr>pgs_formError := [], pgs_submitPending := True\<rparr>
      in case buildProviderPayload (pgs_formState s) (pgs_dialogMode s) of
           Inl message \<Rightarrow> (s1\<lparr>pgs_formError := message, pgs_submitPending := False\<rparr>, None)
         | Inr payload \<Rightarrow>
             (s1, Some (if pgs_dialogMode s = Create_mode then Send (createProvider payload)
                else case pgs_activeProvider s of
                    Some p \<Rightarrow> Send (updateProvider (pv_channelName p) payload)
                  | None \<Rightarrow> Reload_only)))"

definition handleSubmit_refused :: "string \<Rightarrow> ProvidersPage \<Rightarrow> ProvidersPage" where
  "handleSubmit_refused message s = s\<lparr>pgs_formError := message, pgs_submitPending := False\<rparr>"

definition handleSubmit_reloaded :: "ProviderInfo list result \<Rightarrow> ProvidersPage \<Rightarrow> ProvidersPage" where
  "handleSubmit_reloaded r s = (loadProviders_end r s)\<lparr>pgs_dialogOpen := False, pgs_submitPending := False\<rparr>"

section \<open>The other dialogs\<close>

definition openTestDialog :: "ProviderInfo \<Rightarrow> ProvidersPage \<Rightarrow> ProvidersPage" where
  "openTestDialog provider s =
     s\<lparr>pgs_testDialogProvider := Some provider,
       pgs_testDialogModel := (case pv_models provider of [] \<Rightarrow> [] | m # _ \<Rightarrow> pm_model m),
       pgs_testDialogResult := None, pgs_testDialogOpen := True\<rparr>"

definition handleTestDialog_start :: "ProvidersPage \<Rightarrow> ProvidersPage \<times> (string \<times> HttpRequest) option" where
  "handleTestDialog_start s =
     (case pgs_testDialogProvider s of
        None \<Rightarrow> (s, None)
      | Some p \<Rightarrow> (testSingle_start (pv_channelName p) (s\<lparr>pgs_testDialogLoading := True\<rparr>),
          Some (pv_channelName p, testProvider (pv_channelName p)
            (if pgs_testDialogModel s \<noteq> [] then Some (pgs_testDialogModel s) else None))))"

definition handleTestDialog_end :: "string \<Rightarrow> TestProviderResult result \<Rightarrow> ProvidersPage \<Rightarrow> ProvidersPage" where
  "handleTestDialog_end channelName r s =
     (testSingle_end channelName r s)\<lparr>pgs_testDialogResult := Some (test_outcome r), pgs_testDialogLoading := False\<rparr>"

fun auth_choice_name :: "AuthHeaderChoice \<Rightarrow> string" where
  "auth_choice_name Auto = ''auto''"
| "auth_choice_name (Explicit h) = header_name h"

text \<open>\<open>openSyncDialog\<close>: where the upstream models are asked for, or the error it throws at once.\<close>

definition sync_request :: "translator \<Rightarrow> ProviderFormState \<Rightarrow> HttpRequest result" where
  "sync_request t f =
     (if trim (pf_apiKey f) \<noteq> [] then
        return (fetchUpstreamModelsPreview
          \<lparr>pvw_targetBaseUrl = trim (pf_targetBaseUrl f), pvw_type = pf_type f,
           pvw_authHeader = Some (auth_choice_name (pf_authHeader f)), pvw_authValue = Some (trim (pf_apiKey f))\<rparr>)
      else if trim (pf_channelName f) \<noteq> [] then return (fetchUpstreamModels (trim (pf_channelName f)))
      else throw (t ''providers.syncNeedUrl'' []))"

definition sync_settled :: "ProviderFormState \<Rightarrow> string list result \<Rightarrow> ProvidersPage \<Rightarrow> ProvidersPage" where
  \<comment> \<open>the form is the one the handler closed over\<close>
  "sync_settled f r s =
     (case r of
        Inr models \<Rightarrow> s\<lparr>pgs_syncModels := models, pgs_syncSelected := sync_preselected models f\<rparr>
      | Inl message \<Rightarrow> s\<lparr>pgs_syncError := message\<rparr>)\<lparr>pgs_syncLoading := False\<rparr>"

definition openSyncDialog :: "translator \<Rightarrow> ProvidersPage \<Rightarrow> ProvidersPage \<times> (ProviderFormState \<times> HttpRequest) option" where
  "openSyncDialog t s =
     (let f = pgs_formState s
      in if trim (pf_targetBaseUrl f) = [] then (s, None)
         else
           (let s1 = s\<lparr>pgs_syncError := [], pgs_syncModels := [], pgs_syncSelected := [],
                 pgs_syncDialogOpen := True, pgs_syncLoading := True\<rparr>
            in case sync_request t f of
                 Inr request \<Rightarrow> (s1, Some (f, request))
               | Inl message \<Rightarrow> (sync_settled f (Inl message) s1, None)))"

definition sync_confirm :: "(nat \<Rightarrow> string) \<Rightarrow> ProvidersPage \<Rightarrow> ProvidersPage" where
  "sync_confirm uuids s =
     s\<lparr>pgs_formState := handleSyncConfirm uuids (pgs_syncSelected s) (pgs_formState s), pgs_syncDialogOpen := False\<rparr>"

definition openDeleteDialog :: "ProviderInfo \<Rightarrow> ProvidersPage \<Rightarrow> ProvidersPage" where
  "openDeleteDialog provider s = s\<lparr>pgs_deleteDialogProvider := Some provider, pgs_deleteDialogOpen := True\<rparr>"

definition handleDelete_start :: "ProvidersPage \<Rightarrow> ProvidersPage \<times> HttpRequest option" where
  "handleDelete_start s =
     (case pgs_deleteDialogProvider s of
        None \<Rightarrow> (s, None)
      | Some p \<Rightarrow> (s\<lparr>pgs_deletePending := True\<rparr>, Some (deleteProvider (pv_channelName p))))"

definition handleDelete_refused :: "string \<Rightarrow> ProvidersPage \<Rightarrow> ProvidersPage" where
  "handleDelete_refused message s = s\<lparr>pgs_deletePending := False\<rparr>"

definition handleDelete_done :: "ProvidersPage \<Rightarrow> ProvidersPage" where
  "handleDelete_done s = s\<lparr>pgs_deleteDialogOpen := False, pgs_deleteDialogProvider := None\<rparr>"

definition handleDelete_reloaded :: "ProviderInfo list result \<Rightarrow> ProvidersPage \<Rightarrow> ProvidersPage" where
  "handleDelete_reloaded r s = (loadProviders_end r s)\<lparr>pgs_deletePending := False\<rparr>"

text \<open>The boxes of the sync dialog and its two links.\<close>

definition sync_check :: "string \<Rightarrow> bool \<Rightarrow> ProvidersPage \<Rightarrow> ProvidersPage" where
  "sync_check m checked s = s\<lparr>pgs_syncSelected := sync_toggle m checked (pgs_syncSelected s)\<rparr>"

definition sync_select_all :: "ProvidersPage \<Rightarrow> ProvidersPage" where
  "sync_select_all s = s\<lparr>pgs_syncSelected := new_Set (pgs_syncModels s)\<rparr>"

definition sync_clear :: "ProvidersPage \<Rightarrow> ProvidersPage" where
  "sync_clear s = s\<lparr>pgs_syncSelected := []\<rparr>"

section \<open>Closing the outer dialog\<close>

text \<open>
  The guard \<open>childDialogOpenRef\<close>: an effect sets it while a child dialog is open and, once it closed,
  schedules a zero-delay timer that clears it; a reopened child cancels the timer.
\<close>

record DialogGuard =
  dg_outerOpen :: bool
  dg_childOpen :: bool
  dg_ref :: bool
  dg_timer :: bool

datatype GuardEvent = ChildOpens | ChildCloses | TimerFires | OuterAsks bool

fun guard_step :: "GuardEvent \<Rightarrow> DialogGuard \<Rightarrow> DialogGuard" where
  "guard_step ChildOpens g = g\<lparr>dg_childOpen := True, dg_ref := True, dg_timer := False\<rparr>"
| "guard_step ChildCloses g = (if dg_childOpen g then g\<lparr>dg_childOpen := False, dg_timer := True\<rparr> else g)"
| "guard_step TimerFires g = (if dg_timer g then g\<lparr>dg_ref := False, dg_timer := False\<rparr> else g)"
| "guard_step (OuterAsks ask) g = (if \<not> ask \<and> dg_ref g then g else g\<lparr>dg_outerOpen := ask\<rparr>)"

definition guard_init :: DialogGuard where
  "guard_init = \<lparr>dg_outerOpen = False, dg_childOpen = False, dg_ref = False, dg_timer = False\<rparr>"


section \<open>Runs of the channel dialog\<close>

datatype DialogEvent =
    Press_add
  | Press_edit ProviderInfo
  | Detail_arrives "ProviderInfo result"
  | Form_event FormInput
  | Press_submit
  | Save_refused string
  | List_reloaded "ProviderInfo list result"

fun dialog_step :: "(nat \<Rightarrow> string) \<Rightarrow> translator \<Rightarrow> DialogEvent \<Rightarrow> ProvidersPage \<Rightarrow> ProvidersPage" where
  "dialog_step u t Press_add s = openCreateDialog u s"
| "dialog_step u t (Press_edit p) s = fst (openEditDialog_start u p s)"
| "dialog_step u t (Detail_arrives r) s = openEditDialog_end u t r s"
| "dialog_step u t (Form_event i) s = s\<lparr>pgs_formState := form_input i (pgs_formState s)\<rparr>"
| "dialog_step u t Press_submit s = fst (handleSubmit_start s)"
| "dialog_step u t (Save_refused m) s = handleSubmit_refused m s"
| "dialog_step u t (List_reloaded r) s = handleSubmit_reloaded r s"

definition dialog_run :: "(nat \<Rightarrow> string) \<Rightarrow> translator \<Rightarrow> DialogEvent list \<Rightarrow> ProvidersPage" where
  "dialog_run u t es = fold (dialog_step u t) es (providers_page_init u)"

section \<open>Lemmas\<close>

lemmas page_handler_defs = loadProviders_end_def openCreateDialog_def openEditDialog_start_def
  openEditDialog_end_def handleSubmit_start_def handleSubmit_refused_def handleSubmit_reloaded_def

lemma dialog_step_active:
  assumes "pgs_dialogMode s = Edit_mode \<longrightarrow> pgs_activeProvider s \<noteq> None"
  shows "pgs_dialogMode (dialog_step u t e s) = Edit_mode \<longrightarrow> pgs_activeProvider (dialog_step u t e s) \<noteq> None"
  using assms by (cases e) (auto simp: page_handler_defs Let_def split: sum.splits)

lemma dialog_run_active:
  "pgs_dialogMode (dialog_run u t es) = Edit_mode \<longrightarrow> pgs_activeProvider (dialog_run u t es) \<noteq> None"
proof -
  have "pgs_dialogMode s = Edit_mode \<longrightarrow> pgs_activeProvider s \<noteq> None \<Longrightarrow>
      pgs_dialogMode (fold (dialog_step u t) es s) = Edit_mode \<longrightarrow>
      pgs_activeProvider (fold (dialog_step u t) es s) \<noteq> None" for s
  proof (induction es arbitrary: s)
    case (Cons e es)
    show ?case using Cons.IH[OF dialog_step_active[OF Cons.prems]] by simp
  qed simp
  then show ?thesis by (simp add: dialog_run_def providers_page_init_def)
qed

lemma testSingle_starts:
  "fold testSingle_start cs s = s\<lparr>pgs_testingChannels := fold set_add cs (pgs_testingChannels s)\<rparr>"
  by (induction cs arbitrary: s) (simp_all add: testSingle_start_def)

lemma set_set_delete [simp]: "set (set_delete x xs) = set xs - {x}"
  by (auto simp: set_delete_def)

lemma tests_end_testing:
  "set (pgs_testingChannels (fold (\<lambda>(c, r). testSingle_end c r) answers s)) =
     set (pgs_testingChannels s) - fst ` set answers"
  by (induction answers arbitrary: s) (auto simp: testSingle_end_def)

lemma tests_end_results:
  "pgs_testResults (fold (\<lambda>(c, r). testSingle_end c r) answers s) =
     fold (\<lambda>(c, r). map_set c r) (map (\<lambda>(c, r). (c, test_outcome r)) answers) (pgs_testResults s)"
  by (induction answers arbitrary: s) (auto simp: testSingle_end_def)

definition guard_coherent :: "DialogGuard \<Rightarrow> bool" where
  "guard_coherent g \<longleftrightarrow> dg_ref g = (dg_childOpen g \<or> dg_timer g) \<and> \<not> (dg_childOpen g \<and> dg_timer g)"

lemma guard_coherent_step: "guard_coherent g \<Longrightarrow> guard_coherent (guard_step e g)"
  by (cases e) (auto simp: guard_coherent_def)

lemma guard_coherent_run: "guard_coherent g \<Longrightarrow> guard_coherent (fold guard_step es g)"
  by (induction es arbitrary: g) (simp_all add: guard_coherent_step)

lemma payload_of_valid_form:
  "parseExtraJson (pf_extraFieldsJson f) = Inr extra \<Longrightarrow>
     \<exists>payload. buildProviderPayload f mode = Inr payload \<and> mp_channelName payload = trim (pf_channelName f)"
  by (simp add: buildProviderPayload_def Let_def return_def)

section \<open>Properties\<close>

text \<open>
  Property C35. Test all: in whatever order the answers of the channels arrive, and whether they are results
  or errors, once all have arrived no channel is left testing, the button is free again, and the page
  holds, per channel, exactly the outcome of that channel's test.
\<close>

theorem test_all_settles:
  assumes "pgs_providers s = Some ps" "\<not> pgs_testingAll s" "pgs_testingChannels s = []"
    and "distinct (map pv_channelName ps)"
    and "mset (map fst answers) = mset (map pv_channelName ps)"
  defines "s' \<equiv> testAll_end (fold (\<lambda>(c, r). testSingle_end c r) answers (testAll_start s))"
  shows "pgs_testingChannels s' = [] \<and> \<not> pgs_testingAll s' \<and>
    (\<forall>c r. map_get (pgs_testResults s') c = Some r \<longleftrightarrow> (\<exists>a. (c, a) \<in> set answers \<and> r = test_outcome a)) \<and>
    map_keys (pgs_testResults s') = map fst answers"
proof -
  let ?rs = "map (\<lambda>(c, r). (c, test_outcome r)) answers"
  have start: "pgs_testResults (testAll_start s) = []"
      "set (pgs_testingChannels (testAll_start s)) = set (map pv_channelName ps)"
    using assms(1-3) by (simp_all add: testAll_start_def testSingle_starts set_fold_set_add)
  have dist: "distinct (map fst answers)" using assms(4,5) by (metis mset_eq_imp_distinct_iff)
  have fsts: "map fst ?rs = map fst answers" by (simp add: comp_def case_prod_unfold)
  have results: "pgs_testResults s' = ?rs"
    using new_Map_id[of ?rs] dist fsts
    by (simp add: s'_def testAll_end_def tests_end_results start new_Map_def del: map_map)
  have "set (pgs_testingChannels s') = {}"
    using mset_eq_setD[OF assms(5)] by (simp add: s'_def testAll_end_def tests_end_testing start)
  moreover have "\<And>c r. map_get (pgs_testResults s') c = Some r \<longleftrightarrow> (\<exists>a. (c, a) \<in> set answers \<and> r = test_outcome a)"
    using map_of_eq_Some_iff[of ?rs, unfolded fsts, OF dist] by (auto simp: results)
  moreover have "map_keys (pgs_testResults s') = map fst answers"
    using fsts by (simp add: results map_keys_def del: map_map)
  moreover have "\<not> pgs_testingAll s'" by (simp add: s'_def testAll_end_def)
  ultimately show ?thesis by simp
qed

text \<open>
  Whatever was pressed, typed, answered or saved before, a submit in edit mode always knows the
  channel it edits: it is refused by the form's own checks, or it sends the update of the active
  provider; and in create mode it sends the creation.
\<close>

theorem submit_targets_active:
  "case handleSubmit_start (dialog_run u t es) of
     (s', None) \<Rightarrow> \<exists>m. buildProviderPayload (pgs_formState s') (pgs_dialogMode s') = Inl m \<and>
       pgs_formError s' = m \<and> \<not> pgs_submitPending s'
   | (s', Some call) \<Rightarrow> pgs_submitPending s' \<and>
       (\<exists>payload. buildProviderPayload (pgs_formState s') (pgs_dialogMode s') = Inr payload \<and>
          call = Send (case pgs_dialogMode s' of
            Create_mode \<Rightarrow> createProvider payload
          | Edit_mode \<Rightarrow> updateProvider (pv_channelName (the (pgs_activeProvider s'))) payload))"
  using dialog_run_active[of u t es]
  by (cases "pgs_dialogMode (dialog_run u t es)")
    (auto simp: handleSubmit_start_def Let_def split: sum.splits option.splits)

text \<open>
  The detail of a channel whose edit button was pressed is put into the form even if the
  create dialog was opened meanwhile: after edit, add and the late answer, the create dialog is open
  with the other channel's data, the credentials included, and a submit creates a channel from it.
\<close>

theorem late_detail_fills_create_form:
  fixes u :: "nat \<Rightarrow> string" and t :: translator and es :: "DialogEvent list" and p d :: ProviderInfo
  assumes "parseExtraJson (pf_extraFieldsJson (createFormState u d)) = Inr extra"
  defines "s \<equiv> dialog_run u t (es @ [Press_edit p, Press_add, Detail_arrives (Inr d)])"
  shows "pgs_dialogOpen s \<and> pgs_dialogMode s = Create_mode \<and> pgs_formState s = createFormState u d \<and>
    (\<exists>payload. snd (handleSubmit_start s) = Some (Send (createProvider payload)) \<and>
       mp_channelName payload = trim (pv_channelName d))"
proof -
  have s: "pgs_dialogOpen s" "pgs_dialogMode s = Create_mode" "pgs_formState s = createFormState u d"
    by (simp_all add: s_def dialog_run_def page_handler_defs Let_def)
  obtain payload where "buildProviderPayload (createFormState u d) Create_mode = Inr payload"
      "mp_channelName payload = trim (pf_channelName (createFormState u d))"
    using payload_of_valid_form[OF assms(1)] by blast
  moreover have "pf_channelName (createFormState u d) = pv_channelName d" by (simp add: createFormState_def)
  ultimately show ?thesis
    using s by (intro conjI exI[of _ payload]) (simp_all add: handleSubmit_start_def Let_def)
qed

text \<open>
  A test answered after the dialog was reopened for another channel is shown as that channel's
  result: only the map of results keeps it under the channel that was tested.
\<close>

theorem late_test_result_shown:
  fixes r :: "TestProviderResult result"
  assumes "pgs_testDialogProvider s = Some p" "pv_channelName q \<noteq> pv_channelName p"
  defines "s' \<equiv> handleTestDialog_end (pv_channelName p) r (openTestDialog q (fst (handleTestDialog_start s)))"
  shows "pgs_testDialogOpen s' \<and> pgs_testDialogProvider s' = Some q \<and>
    pgs_testDialogResult s' = Some (test_outcome r) \<and>
    map_get (pgs_testResults s') (pv_channelName p) = Some (test_outcome r) \<and>
    map_get (pgs_testResults s') (pv_channelName q) = map_get (pgs_testResults s) (pv_channelName q)"
  using assms(1,2)
  by (simp add: s'_def handleTestDialog_start_def handleTestDialog_end_def openTestDialog_def
      testSingle_start_def testSingle_end_def map_get_set)

text \<open>
  The guard of the channel dialog, after any sequence of events: a request to close is ignored
  exactly while a child dialog is open or closed so recently that the timer has not fired, and nothing
  but an unguarded request closes it.
\<close>

theorem outer_dialog_guarded:
  fixes es :: "GuardEvent list"
  defines "g \<equiv> fold guard_step es guard_init"
  shows "dg_outerOpen (guard_step (OuterAsks False) g) = (dg_outerOpen g \<and> (dg_childOpen g \<or> dg_timer g)) \<and>
    {e. dg_outerOpen g \<and> \<not> dg_outerOpen (guard_step e g)} \<subseteq> {OuterAsks False}"
proof -
  have "dg_ref g = (dg_childOpen g \<or> dg_timer g)"
    using guard_coherent_run[of guard_init es] by (simp add: g_def guard_init_def guard_coherent_def)
  moreover have "e \<noteq> OuterAsks False \<Longrightarrow> dg_outerOpen g \<Longrightarrow> dg_outerOpen (guard_step e g)" for e
    by (cases e) auto
  ultimately show ?thesis by auto
qed

section \<open>Witnesses\<close>

definition other_channel :: ProviderInfo where
  "other_channel = (sample_channel [])\<lparr>pv_channelName := ''other'', pv_extraFields := None\<rparr>"

definition page_with_two :: ProvidersPage where
  "page_with_two = (providers_page_init (\<lambda>_. ''u''))
     \<lparr>pgs_providers := Some [sample_channel [], other_channel], pgs_testDialogProvider := Some (sample_channel [])\<rparr>"

theorem test_all_settles_witness:
  "pgs_testingChannels (testAll_end (fold (\<lambda>(c, r). testSingle_end c r)
     [(''other'', Inl ''timeout''), (pv_channelName (sample_channel []), Inl ''refused'')]
     (testAll_start page_with_two))) = []"
proof -
  have "pgs_providers page_with_two = Some [sample_channel [], other_channel]" "\<not> pgs_testingAll page_with_two"
      "pgs_testingChannels page_with_two = []"
    by (simp_all add: page_with_two_def providers_page_init_def)
  moreover have "distinct (map pv_channelName [sample_channel [], other_channel])"
    by (simp add: other_channel_def sample_channel_def)
  moreover have "mset (map fst [(''other'', Inl ''timeout''), (pv_channelName (sample_channel []), Inl ''refused'')]) =
      mset (map pv_channelName [sample_channel [], other_channel])"
    by (simp add: other_channel_def)
  ultimately show ?thesis by (blast dest: test_all_settles)
qed

theorem late_detail_fills_create_form_witness:
  "pgs_dialogMode (dialog_run (\<lambda>_. ''u'') (\<lambda>key _. key)
     ([] @ [Press_edit other_channel, Press_add, Detail_arrives (Inr other_channel)])) = Create_mode"
proof -
  have "parseExtraJson (pf_extraFieldsJson (createFormState (\<lambda>_. ''u'') other_channel)) = Inr None"
    by (simp add: createFormState_def other_channel_def sample_channel_def parseExtraJson_def
        stripResponsesModeFromExtraFields_def return_def)
  from late_detail_fills_create_form [OF this] show ?thesis by blast
qed

theorem late_test_result_shown_witness:
  "pgs_testDialogProvider (handleTestDialog_end (pv_channelName (sample_channel [])) (Inl ''timeout'')
     (openTestDialog other_channel (fst (handleTestDialog_start page_with_two)))) = Some other_channel"
  using late_test_result_shown [of page_with_two "sample_channel []" other_channel "Inl ''timeout''"]
  by (simp add: page_with_two_def other_channel_def sample_channel_def)

end
