(* ===== verification/Providers_Import.thy ===== *)
theory Providers_Import
  imports Providers_Page Clipboard
begin

text \<open>
  The configuration dialog of \<open>components/providers-page.tsx\<close>: the JSON text of all channels, and the import that
  creates channels from such a text one request at a time. The messages the host gives to a \<open>SyntaxError\<close> and
  to reading a property of \<open>null\<close> are arguments.
\<close>

section \<open>Export and import\<close>

definition provider_auth_json :: "ProviderAuthInfo \<Rightarrow> jsval" where
  "provider_auth_json a = JObj ([(''header'', JStr (header_name (pa_header a))),
     (''configured'', JBool (pa_configured a))] @ opt_field ''value'' JStr (pa_value a))"

text \<open>One channel of the export; the optional \<open>responsesMode\<close> is dropped by \<open>JSON.stringify\<close> when absent.\<close>

definition export_provider :: "ProviderInfo \<Rightarrow> jsval" where
  "export_provider p = JObj
     ([(''channelName'', JStr (pv_channelName p)),
       (''type'', JStr (type_name (pv_type p))),
       (''targetBaseUrl'', JStr (pv_targetBaseUrl p)),
       (''systemPrompt'', or_null JStr (pv_systemPrompt p)),
       (''priority'', int_val (pv_priority p)),
       (''enabled'', JBool (pv_enabled p)),
       (''models'', JArr (map model_json (pv_models p))),
       (''auth'', or_null provider_auth_json (pv_auth p))] @
      opt_field ''responsesMode'' (\<lambda>m. JStr (mode_name m)) (pv_responsesMode p) @
      [(''extraFields'', or_null JObj (pv_extraFields p))])"

definition export_json :: "int \<Rightarrow> ProviderInfo list \<Rightarrow> string" where
  "export_json exportedAt providers =
     json_stringify2 (JObj [(''version'', int_val 1), (''exportedAt'', int_val exportedAt),
       (''providers'', JArr (map export_provider providers))])"

text \<open>The payload made of one entry of an imported file, whose fields are of any type.\<close>

definition import_payload :: "jsval \<Rightarrow> jsval" where
  "import_payload p = JObj
     [(''channelName'', js_get p ''channelName''),
      (''type'', js_get p ''type''),
      (''targetBaseUrl'', js_get p ''targetBaseUrl''),
      (''systemPrompt'', coalesce (js_get p ''systemPrompt'') JNull),
      (''models'', coalesce (js_get p ''models'') (JArr [])),
      (''priority'', coalesce (js_get p ''priority'') (int_val 0)),
      (''responsesMode'', if js_get p ''type'' = JStr ''openai''
         then coalesce (js_get p ''responsesMode'') (JStr ''native'') else JNull),
      (''extraFields'', coalesce (js_get p ''extraFields'') JNull),
      (''auth'', coalesce (js_get p ''auth'') JNull)]"

text \<open>An entry that is \<open>null\<close> throws at its first property, when its turn has come.\<close>

definition import_entry :: "(string \<Rightarrow> string) \<Rightarrow> jsval \<Rightarrow> jsval result" where
  "import_entry type_error p = (if nullish p then throw (type_error ''channelName'') else return (import_payload p))"

text \<open>The checks on the text, and the entries it holds.\<close>

definition import_entries ::
    "translator \<Rightarrow> string \<Rightarrow> (string \<Rightarrow> string) \<Rightarrow> string \<Rightarrow> jsval list result" where
  "import_entries t syntax_error type_error configJson =
     (let trimmed = trim configJson
      in if trimmed = [] then throw (t ''providers.importConfigEmpty'' [])
         else
           (case json_parse trimmed of
              None \<Rightarrow> throw syntax_error
            | Some parsed \<Rightarrow>
                if nullish parsed then throw (type_error ''version'')
                else if js_get parsed ''version'' \<noteq> int_val 1
                then throw (t ''providers.importConfigVersionMismatch''
                  [(''version'', coalesce (js_get parsed ''version'') (JStr ''unknown''))])
                else
                  (case js_get parsed ''providers'' of
                     JArr ps \<Rightarrow> return ps
                   | _ \<Rightarrow> throw (t ''providers.importConfigInvalid'' []))))"

section \<open>The dialog\<close>

definition press_export :: "int \<Rightarrow> ProvidersPage \<Rightarrow> ProvidersPage" where
  \<comment> \<open>\<open>now\<close> is \<open>Date.now()\<close>; the button is there once the channels are loaded\<close>
  "press_export now s =
     (case pgs_providers s of
        None \<Rightarrow> s
      | Some providers \<Rightarrow> s\<lparr>pgs_configImport := False, pgs_configError := [],
          pgs_configJson := export_json now providers, pgs_configDialogOpen := True\<rparr>)"

definition press_import :: "ProvidersPage \<Rightarrow> ProvidersPage" where
  "press_import s = s\<lparr>pgs_configImport := True, pgs_configJson := [], pgs_configError := [], pgs_configDialogOpen := True\<rparr>"

definition press_copy :: "bool \<Rightarrow> ProvidersPage \<Rightarrow> Clipboard \<Rightarrow> Clipboard" where
  \<comment> \<open>the button of an export; a refusal is caught and dropped\<close>
  "press_copy allowed s clip = fst (write_text allowed (pgs_configJson s) clip)"

definition type_config :: "string \<Rightarrow> ProvidersPage \<Rightarrow> ProvidersPage" where
  "type_config v s = s\<lparr>pgs_configJson := v\<rparr>"

definition config_onOpenChange :: "bool \<Rightarrow> ProvidersPage \<Rightarrow> ProvidersPage" where
  "config_onOpenChange v s = s\<lparr>pgs_configDialogOpen := v\<rparr>"

definition can_import :: "ProvidersPage \<Rightarrow> bool" where
  "can_import s \<longleftrightarrow> trim (pgs_configJson s) \<noteq> []"

text \<open>What a running import waits for: a creation, with the entries still to come, or the new list.\<close>

datatype ImportWait = Await_create "jsval list" | Await_list

type_synonym import_step = "ProvidersPage \<times> (HttpRequest \<times> ImportWait) option"

definition create_request :: "jsval \<Rightarrow> HttpRequest" where
  "create_request payload = send_json ''POST'' ''/__console/api/providers'' payload"

definition import_failed :: "string \<Rightarrow> ProvidersPage \<Rightarrow> import_step" where
  "import_failed message s = (s\<lparr>pgs_configError := message\<rparr>, None)"

definition import_next :: "(string \<Rightarrow> string) \<Rightarrow> jsval list \<Rightarrow> ProvidersPage \<Rightarrow> import_step" where
  "import_next type_error entries s =
     (case entries of
        [] \<Rightarrow> (s, Some (fetchProviders, Await_list))
      | p # ps \<Rightarrow>
          (case import_entry type_error p of
             Inl message \<Rightarrow> import_failed message s
           | Inr payload \<Rightarrow> (s, Some (create_request payload, Await_create ps))))"

definition import_start :: "translator \<Rightarrow> string \<Rightarrow> (string \<Rightarrow> string) \<Rightarrow> ProvidersPage \<Rightarrow> import_step" where
  "import_start t syntax_error type_error s =
     (let s1 = s\<lparr>pgs_configError := []\<rparr>
      in case import_entries t syntax_error type_error (pgs_configJson s) of
           Inl message \<Rightarrow> import_failed message s1
         | Inr entries \<Rightarrow> import_next type_error entries s1)"

definition import_created :: "(string \<Rightarrow> string) \<Rightarrow> unit result \<Rightarrow> jsval list \<Rightarrow> ProvidersPage \<Rightarrow> import_step" where
  "import_created type_error r ps s =
     (case r of Inl message \<Rightarrow> import_failed message s | Inr _ \<Rightarrow> import_next type_error ps s)"

definition import_listed :: "ProviderInfo list result \<Rightarrow> ProvidersPage \<Rightarrow> ProvidersPage" where
  "import_listed r s = (loadProviders_end r s)\<lparr>pgs_configDialogOpen := False\<rparr>"

text \<open>The creations a run sends while they are answered, and where it has come to.\<close>

fun import_run :: "(string \<Rightarrow> string) \<Rightarrow> unit result list \<Rightarrow> import_step \<Rightarrow> HttpRequest list \<times> import_step" where
  "import_run type_error (r # rs) (s, Some (request, Await_create ps)) =
     (let (sent, end) = import_run type_error rs (import_created type_error r ps s) in (request # sent, end))"
| "import_run type_error rs (s, wait) = ([], s, wait)"

section \<open>Lemmas\<close>

text \<open>What is left of a channel when its export is imported.\<close>

definition recreated :: "ProviderInfo \<Rightarrow> jsval" where
  "recreated p = JObj
     [(''channelName'', JStr (pv_channelName p)), (''type'', JStr (type_name (pv_type p))),
      (''targetBaseUrl'', JStr (pv_targetBaseUrl p)), (''systemPrompt'', or_null JStr (pv_systemPrompt p)),
      (''models'', JArr (map model_json (pv_models p))), (''priority'', int_val (pv_priority p)),
      (''responsesMode'', if pv_type p = OpenAI
         then JStr (case pv_responsesMode p of Some m \<Rightarrow> mode_name m | None \<Rightarrow> ''native'') else JNull),
      (''extraFields'', or_null JObj (pv_extraFields p)), (''auth'', or_null provider_auth_json (pv_auth p))]"

lemma import_export_payload: "import_payload (export_provider p) = recreated p"
  by (cases "pv_type p"; cases "pv_responsesMode p"; cases "pv_systemPrompt p"; cases "pv_extraFields p"; cases "pv_auth p")
    (simp_all add: recreated_def import_payload_def export_provider_def or_null_def coalesce_def nullish_def int_val_def
      provider_auth_json_def opt_field_def)

lemma import_entries_export:
  assumes "json_clean (JArr (map export_provider ps))" and "json_clean (int_val now)"
  shows "import_entries t syntax_error type_error (export_json now ps) = Inr (map export_provider ps)"
proof -
  let ?v = "JObj [(''version'', int_val 1), (''exportedAt'', int_val now), (''providers'', JArr (map export_provider ps))]"
  have "json_clean ?v"
    using assms js_int_exact[of 1] by (simp add: int_val_def safe_integer_def)
  then have "json_parse (json_stringify2 ?v) = Some ?v" by (rule json_parse_stringify2)
  moreover have "json_stringify2 ?v \<noteq> []" by (simp add: json_stringify2_def)
  ultimately show ?thesis
    by (simp add: import_entries_def export_json_def trim_json_object nullish_def return_def)
qed

lemma import_run_created:
  assumes "list_all (\<lambda>p. \<not> nullish p) ps" and "k \<le> length ps"
  shows "import_run type_error (replicate k (Inr ()) @ rs) (import_next type_error ps s) =
    (let (sent, end) = import_run type_error rs (import_next type_error (drop k ps) s)
     in (map (\<lambda>p. create_request (import_payload p)) (take k ps) @ sent, end))"
  using assms
proof (induction k arbitrary: ps)
  case (Suc k)
  then obtain p qs where ps: "ps = p # qs" by (cases ps) auto
  then show ?case
    using Suc by (simp add: import_next_def [of _ "p # qs"] import_entry_def import_created_def return_def split_beta Let_def)
qed (simp add: split_beta)

lemma export_not_nullish: "list_all (\<lambda>p. \<not> nullish p) (map export_provider ps)"
  by (simp add: list_all_iff nullish_def export_provider_def)

section \<open>Properties\<close>

text \<open>
  Importing an export recreates every channel with its own name, protocol, URL, prompt, models,
  priority, extra fields and credentials, but neither its enabled flag nor its routing visibility: two
  channels that differ in these two only are imported by the same request, so a disabled or backend-only
  channel comes back enabled and direct, as the server's defaults have it.
\<close>
theorem import_forgets_visibility:
  "import_payload (export_provider p) =
     import_payload (export_provider (p\<lparr>pv_enabled := on, pv_routingVisibility := vis\<rparr>)) \<and>
   js_get (import_payload (export_provider p)) ''enabled'' = JUndef \<and>
   js_get (import_payload (export_provider p)) ''routingVisibility'' = JUndef \<and>
   js_get (import_payload (export_provider p)) ''channelName'' = JStr (pv_channelName p) \<and>
   js_get (import_payload (export_provider p)) ''models'' = JArr (map model_json (pv_models p)) \<and>
   js_get (import_payload (export_provider p)) ''priority'' = int_val (pv_priority p)"
  by (simp add: import_export_payload recreated_def)


text \<open>
  An import that is refused at its channel number \<open>k\<close> has created the \<open>k\<close> channels before it and
  sends nothing more: the message is shown in the open dialog, but the list of channels is not asked for again, so the
  page still shows none of those that were created.
\<close>
theorem refused_import_stale:
  assumes "import_entries t syntax_error type_error (pgs_configJson s) = Inr ps"
    and "list_all (\<lambda>p. \<not> nullish p) ps" and "k < length ps"
  shows "import_run type_error (replicate k (Inr ()) @ [Inl message]) (import_start t syntax_error type_error s) =
    (map (\<lambda>p. create_request (import_payload p)) (take (Suc k) ps), s\<lparr>pgs_configError := message\<rparr>, None)"
proof -
  have "drop k ps = ps ! k # drop (Suc k) ps" "\<not> nullish (ps ! k)"
    using assms(2,3) by (simp_all add: Cons_nth_drop_Suc list_all_length)
  then have "import_run type_error [Inl message] (import_next type_error (drop k ps) (s\<lparr>pgs_configError := []\<rparr>)) =
      ([create_request (import_payload (ps ! k))], s\<lparr>pgs_configError := message\<rparr>, None)"
    by (simp add: import_next_def import_entry_def import_created_def import_failed_def return_def)
  then show ?thesis
    using assms by (simp add: import_start_def import_run_created take_Suc_conv_app_nth)
qed

section \<open>Witnesses\<close>

lemma clean_export: "json_clean (JArr (map export_provider [sample_channel []]))" "json_clean (int_val 1000)"
  using js_int_exact[of 3] js_int_exact[of 1000]
  by (simp_all add: export_provider_def sample_channel_def provider_auth_json_def or_null_def opt_field_def
      int_val_def safe_integer_def)

definition loaded_page :: ProvidersPage where
  "loaded_page = (providers_page_init (\<lambda>_. ''u''))\<lparr>pgs_providers := Some [sample_channel []]\<rparr>"


theorem refused_import_stale_witness:
  "snd (import_run (\<lambda>x. x) [Inr (), Inl ''exists''] (import_start (\<lambda>key _. key) ''SyntaxError'' (\<lambda>x. x)
     (loaded_page\<lparr>pgs_configJson := export_json 1000 [sample_channel [], sample_channel []]\<rparr>))) =
   (loaded_page\<lparr>pgs_configJson := export_json 1000 [sample_channel [], sample_channel []], pgs_configError := ''exists''\<rparr>, None)"
  using refused_import_stale[of "\<lambda>key _. key" "''SyntaxError''" "\<lambda>x. x"
      "loaded_page\<lparr>pgs_configJson := export_json 1000 [sample_channel [], sample_channel []]\<rparr>"
      "map export_provider [sample_channel [], sample_channel []]" 1 "''exists''"]
    import_entries_export[of "[sample_channel [], sample_channel []]" 1000 "\<lambda>key _. key" "''SyntaxError''" "\<lambda>x. x"]
    clean_export export_not_nullish[of "[sample_channel [], sample_channel []]"]
  by simp

end
