(* ===== verification/Providers_View.thy ===== *)
theory Providers_View
  imports Providers_Import Messages
begin

text \<open>
  What \<open>components/providers-page.tsx\<close> shows for its state: the header, the counters, the rows and cards of the
  channels, the channel form with its fields and models, and the test, delete, sync and configuration dialogs. Texts
  the program translates come from \<open>t\<close>; those written into it are spelled out. Icons and CSS classes are left out.
\<close>

section \<open>Counters and labels\<close>

record ProviderStats =
  ps_total :: nat
  ps_anthropicCount :: nat
  ps_openAiCount :: nat
  ps_enabledCount :: nat
  ps_explicitOnlyCount :: nat

definition providerStats :: "ProviderInfo list option \<Rightarrow> ProviderStats" where
  "providerStats providers =
     (let list = (case providers of Some ps \<Rightarrow> ps | None \<Rightarrow> [])
      in \<lparr>ps_total = length list,
          ps_anthropicCount = length (filter (\<lambda>p. pv_type p = Anthropic) list),
          ps_openAiCount = length (filter (\<lambda>p. pv_type p = OpenAI) list),
          ps_enabledCount = length (filter pv_enabled list),
          ps_explicitOnlyCount = length (filter (\<lambda>p. pv_routingVisibility p = Explicit_only) list)\<rparr>)"

fun healthLabels :: "HealthStatus \<Rightarrow> string" where
  "healthLabels Healthy = utf8 [0xE5, 0x81, 0xA5, 0xE5, 0xBA, 0xB7]"
| "healthLabels Degraded = utf8 [0xE9, 0x99, 0x8D, 0xE7, 0xBA, 0xA7]"
| "healthLabels Down = utf8 [0xE5, 0xBC, 0x82, 0xE5, 0xB8, 0xB8]"
| "healthLabels No_data = utf8 [0xE6, 0x9A, 0x82, 0xE6, 0x97, 0xA0, 0xE6, 0x95, 0xB0, 0xE6, 0x8D, 0xAE]"

fun typeLabels :: "provider_type \<Rightarrow> string" where
  "typeLabels Anthropic = ''Anthropic''"
| "typeLabels OpenAI = ''OpenAI''"

fun routingVisibilityLabels :: "RoutingVisibility \<Rightarrow> string" where
  "routingVisibilityLabels Direct = ''Direct''"
| "routingVisibilityLabels Explicit_only = ''Explicit only''"

definition channel_health :: "ProviderInfo \<Rightarrow> HealthStatus" where
  "channel_health provider = (case pv_healthStatus provider of Some h \<Rightarrow> h | None \<Rightarrow> No_data)"

text \<open>The models column names two and counts the rest.\<close>

definition models_text :: "ProviderModelInfo list \<Rightarrow> string" where
  "models_text models =
     (if models \<noteq> [] then js_join '', '' (map pm_model (take 2 models)) else utf8 [0xE2, 0x80, 0x94]) @
     (if 2 < length models then '' +'' @ nat_str (length models - 2) else [])"

definition name_value :: "ProviderInfo option \<Rightarrow> jsval" where
  \<comment> \<open>\<open>provider?.channelName\<close>\<close>
  "name_value provider = (case provider of Some p \<Rightarrow> JStr (pv_channelName p) | None \<Rightarrow> JUndef)"

record Action =
  act_label :: string
  act_disabled :: bool

abbreviation action :: "string \<Rightarrow> Action" where
  "action label \<equiv> \<lparr>act_label = label, act_disabled = False\<rparr>"

text \<open>Whether \<open>Start test\<close>, \<open>Test all\<close> and the \<open>Add\<close> of the sync dialog can be pressed.\<close>

definition can_start_test :: "ProvidersPage \<Rightarrow> bool" where
  "can_start_test s \<longleftrightarrow> \<not> pgs_testDialogLoading s \<and> pgs_testDialogModel s \<noteq> [] \<and>
     \<not> (case pgs_testDialogProvider s of Some p \<Rightarrow> pv_models p = [] | None \<Rightarrow> False)"

definition can_test_all :: "ProvidersPage \<Rightarrow> bool" where
  "can_test_all s \<longleftrightarrow> \<not> pgs_testingAll s \<and> pgs_providers s \<noteq> Some []"

definition sync_can_add :: "ProvidersPage \<Rightarrow> bool" where
  "sync_can_add s \<longleftrightarrow> \<not> pgs_syncLoading s \<and> pgs_syncSelected s \<noteq> []"

section \<open>The page\<close>

definition header_actions :: "translator \<Rightarrow> ProvidersPage \<Rightarrow> Action list" where
  "header_actions t s =
     [action (t ''providers.addChannel'' []),
      \<lparr>act_label = (if pgs_testingAll s then t ''common.testing'' [] else t ''providers.testAll'' []),
       act_disabled = (\<not> can_test_all s)\<rparr>,
      action (t ''providers.exportConfigButton'' []),
      action (t ''providers.importConfigButton'' [])]"

text \<open>Title, number and note of each counter.\<close>

definition stat_cards :: "translator \<Rightarrow> ProviderStats \<Rightarrow> (string \<times> string \<times> string) list" where
  "stat_cards t st =
     [(unicode [0x5168, 0x90E8, 0x6E20, 0x9053], nat_str (ps_total st),
       ''OpenAI '' @ nat_str (ps_openAiCount st) @ ('' '' @ unicode [0x00B7] @ '' Anthropic '') @ nat_str (ps_anthropicCount st)),
      (unicode [0x5DF2, 0x542F, 0x7528], nat_str (ps_enabledCount st),
       nat_str (ps_total st - ps_enabledCount st) @ '' '' @ t ''common.disabled'' [] @ ('' '' @ unicode [0x00B7] @ '' '') @
       nat_str (ps_explicitOnlyCount st) @ '' backend-only''),
      (''OpenAI'', nat_str (ps_openAiCount st), (''Responses '' @ unicode [0x539F, 0x751F, 0x4E0E, 0x517C, 0x5BB9, 0x6A21, 0x5F0F])),
      (''Anthropic'', nat_str (ps_anthropicCount st), (''Messages '' @ unicode [0x534F, 0x8BAE, 0x6E20, 0x9053]))]"

definition channel_columns :: "string list" where
  "channel_columns =
     [unicode [0x6E20, 0x9053], unicode [0x7C7B, 0x578B], unicode [0x66B4, 0x9732], unicode [0x6A21, 0x578B], unicode [0x72B6, 0x6001], unicode [0x4F18, 0x5148, 0x7EA7], unicode [0x76EE, 0x6807, 0x5730, 0x5740], unicode [0x64CD, 0x4F5C]]"

record ProviderRow =
  cr_key :: string
  cr_dimmed :: bool
  cr_health :: string
  cr_type :: string
  cr_visibility :: string
  cr_models :: string
  cr_toggle :: Action
  cr_togglesTo :: bool
  cr_priority :: string
  cr_url :: string
  cr_test :: Action
  cr_edit :: Action
  cr_delete :: Action

definition toggle_action :: "translator \<Rightarrow> ProvidersPage \<Rightarrow> ProviderInfo \<Rightarrow> Action" where
  "toggle_action t s provider =
     (let isToggling = pv_channelName provider \<in> set (pgs_togglingChannels s)
      in \<lparr>act_label = (if isToggling then ''...''
            else if pv_enabled provider then t ''common.enabled'' [] else t ''common.disabled'' []),
          act_disabled = isToggling\<rparr>)"

definition test_action :: "translator \<Rightarrow> ProvidersPage \<Rightarrow> ProviderInfo \<Rightarrow> Action" where
  "test_action t s provider =
     (let isTesting = pv_channelName provider \<in> set (pgs_testingChannels s)
      in \<lparr>act_label = (if isTesting then t ''common.testing'' [] else t ''common.test'' []), act_disabled = isTesting\<rparr>)"

definition provider_row :: "translator \<Rightarrow> ProvidersPage \<Rightarrow> ProviderInfo \<Rightarrow> ProviderRow" where
  "provider_row t s provider =
     \<lparr>cr_key = pv_channelName provider,
      cr_dimmed = (\<not> pv_enabled provider),
      cr_health = healthLabels (channel_health provider),
      cr_type = typeLabels (pv_type provider),
      cr_visibility = routingVisibilityLabels (pv_routingVisibility provider),
      cr_models = models_text (pv_models provider),
      cr_toggle = toggle_action t s provider,
      cr_togglesTo = (\<not> pv_enabled provider),
      cr_priority = int_str (pv_priority provider),
      cr_url = pv_targetBaseUrl provider,
      cr_test = test_action t s provider,
      cr_edit = action (t ''common.edit'' []),
      cr_delete = action (t ''common.delete'' [])\<rparr>"

definition MODEL_COLLAPSE_THRESHOLD :: nat where
  "MODEL_COLLAPSE_THRESHOLD = 5"

record ProviderCardView =
  pcv_key :: string
  pcv_url :: string
  pcv_dimmed :: bool
  pcv_health :: string
  pcv_actions :: "Action list"
  pcv_tooltip :: string
  pcv_test :: "(bool \<times> string \<times> string) option" \<comment> \<open>failed, message, latency\<close>
  pcv_badges :: "string list"
  pcv_modelsTitle :: string
  pcv_models :: "string list"
  pcv_fold :: "string option"
  pcv_systemPrompt :: "string option"

definition response_mode_badge :: "translator \<Rightarrow> OpenAiResponsesMode \<Rightarrow> string" where
  "response_mode_badge t mode =
     (case mode of
        Native \<Rightarrow> t ''providers.responsesModeBadge.native'' []
      | Chat_compat \<Rightarrow> t ''providers.responsesModeBadge.chat_compat'' []
      | Responses_disabled \<Rightarrow> t ''providers.responsesModeBadge.disabled'' [])"

definition ProviderCard :: "translator \<Rightarrow> ProvidersPage \<Rightarrow> bool \<Rightarrow> ProviderInfo \<Rightarrow> ProviderCardView" where
  "ProviderCard t s modelsExpanded provider =
     (let models = pv_models provider; long = MODEL_COLLAPSE_THRESHOLD < length models
      in \<lparr>pcv_key = pv_channelName provider,
          pcv_url = pv_targetBaseUrl provider,
          pcv_dimmed = (\<not> pv_enabled provider),
          pcv_health = healthLabels (channel_health provider),
          pcv_actions = [toggle_action t s provider, test_action t s provider,
            action (t ''common.edit'' []), action (t ''common.delete'' [])],
          pcv_tooltip = (if pv_enabled provider then t ''providers.disableChannel'' [] else t ''providers.enableChannel'' []),
          pcv_test = map_option (\<lambda>r. (tr_status r \<noteq> Ok, tr_message r,
              case tr_latencyMs r of Some ms \<Rightarrow> int_str ms @ ''ms'' | None \<Rightarrow> []))
            (map_get (pgs_testResults s) (pv_channelName provider)),
          pcv_badges = [typeLabels (pv_type provider)] @
            (if pv_type provider = OpenAI
             then [response_mode_badge t (case pv_responsesMode provider of Some m \<Rightarrow> m | None \<Rightarrow> Native)] else []) @
            [routingVisibilityLabels (pv_routingVisibility provider), ''priority '' @ int_str (pv_priority provider)],
          pcv_modelsTitle = ''Models '' @ (if long then ''('' @ nat_str (length models) @ '')'' else []),
          pcv_models = map (\<lambda>m. snd (formatProviderModel m))
            (if modelsExpanded then models else take MODEL_COLLAPSE_THRESHOLD models),
          pcv_fold = (if \<not> long then None
            else if modelsExpanded then Some ''Show less''
            else Some (''+'' @ nat_str (length models - MODEL_COLLAPSE_THRESHOLD) @ '' more'')),
          pcv_systemPrompt = (case pv_systemPrompt provider of
            Some p \<Rightarrow> (if p \<noteq> [] then Some p else None) | None \<Rightarrow> None)\<rparr>)"

record ChannelList =
  cl_title :: string
  cl_shown :: string
  cl_badge :: string
  cl_rows :: "ProviderRow list"
  cl_cards :: "ProviderCardView list"

definition channel_list ::
    "translator \<Rightarrow> ProvidersPage \<Rightarrow> (string \<Rightarrow> bool) \<Rightarrow> ProviderInfo list \<Rightarrow> ChannelList" where
  \<comment> \<open>\<open>expanded\<close> is the cards' own state\<close>
  "channel_list t s expanded providers =
     (let n = nat_str (length providers)
      in \<lparr>cl_title = unicode [0x6E20, 0x9053, 0x5217, 0x8868], cl_shown = (unicode [0x663E, 0x793A] @ '' '') @ n @ '' / '' @ n,
          cl_badge = nat_str (ps_enabledCount (providerStats (Some providers))) @ '' '' @ t ''common.enabled'' [],
          cl_rows = map (provider_row t s) providers,
          cl_cards = map (\<lambda>p. ProviderCard t s (expanded (pv_channelName p)) p) providers\<rparr>)"

section \<open>The channel form\<close>

record FormField =
  ff_id :: string
  ff_label :: string
  ff_value :: string
  ff_options :: "(string \<times> string) list" \<comment> \<open>value and label of each choice; none for a text field\<close>
  ff_hint :: string

abbreviation text_field :: "string \<Rightarrow> string \<Rightarrow> string \<Rightarrow> string \<Rightarrow> FormField" where
  "text_field i label v hint \<equiv> \<lparr>ff_id = i, ff_label = label, ff_value = v, ff_options = [], ff_hint = hint\<rparr>"

definition provider_fields :: "translator \<Rightarrow> ProviderFormState \<Rightarrow> FormField list" where
  "provider_fields t f =
     [text_field ''provider-channel-name'' ''Channel Name'' (pf_channelName f)
        (t ''providers.channelNameHint''
          [(''name'', JStr (if pf_channelName f \<noteq> [] then pf_channelName f else ''channel-name''))]),
      \<lparr>ff_id = ''provider-type'', ff_label = ''Type'', ff_value = type_name (pf_type f),
       ff_options = [(''anthropic'', ''Anthropic''), (''openai'', ''OpenAI'')],
       ff_hint = t ''providers.typeOpenaiHint'' []\<rparr>,
      text_field ''provider-target-url'' ''Target Base URL'' (pf_targetBaseUrl f)
        (if pf_type f = OpenAI then t ''providers.targetUrlOpenaiHint'' [] else t ''providers.targetUrlAnthropicHint'' [])] @
     (if pf_type f = OpenAI
      then [\<lparr>ff_id = ''provider-responses-mode'', ff_label = t ''providers.responsesModeLabel'' [],
             ff_value = mode_name (pf_responsesMode f),
             ff_options = [(''native'', t ''providers.responsesModeNative'' []),
               (''chat_compat'', t ''providers.responsesModeChatCompat'' []),
               (''disabled'', t ''providers.responsesModeDisabled'' [])],
             ff_hint = t ''providers.responsesModeHint'' []\<rparr>]
      else []) @
     [text_field ''provider-priority'' ''Priority'' (pf_priority f) (t ''providers.priorityHint'' []),
      \<lparr>ff_id = ''provider-routing-visibility'', ff_label = ''Routing Visibility'',
       ff_value = visibility_name (pf_routingVisibility f),
       ff_options = [(''direct'', ''Direct''), (''explicit_only'', ''Explicit only'')],
       ff_hint = ''Direct providers can be matched by client model names. Explicit-only providers are only used by virtual routes and custom fallback targets.''\<rparr>,
      text_field ''provider-system-prompt'' ''System Prompt'' (pf_systemPrompt f) (t ''providers.systemPromptHint'' []),
      \<lparr>ff_id = ''provider-auth-header'', ff_label = ''Auth Method'', ff_value = auth_choice_name (pf_authHeader f),
       ff_options = [(''auto'', t ''providers.authMethodAuto'' []), (''x-api-key'', ''x-api-key''),
         (''authorization'', ''Authorization: Bearer'')],
       ff_hint = t ''providers.authMethodHint'' []\<rparr>,
      text_field ''provider-auth-value'' ''Credential'' (pf_apiKey f) [],
      text_field ''provider-extra-fields'' ''Extra Fields'' (pf_extraFieldsJson f) (t ''providers.extraFieldsHint'' [])]"

record ProviderDialog =
  pd_title :: string
  pd_description :: string
  pd_error :: "(string \<times> string) option"
  pd_fields :: "FormField list"
  pd_keyVisible :: bool
  pd_keyPlaceholder :: string
  pd_keyButton :: string
  pd_sync :: Action
  pd_models :: "(nat \<times> string) list"
  pd_noModels :: "string option"
  pd_buttons :: "Action list"

definition provider_dialog :: "translator \<Rightarrow> ProvidersPage \<Rightarrow> ProviderDialog" where
  "provider_dialog t s =
     (let f = pgs_formState s; creating = (pgs_dialogMode s = Create_mode)
      in \<lparr>pd_title = (if creating then ''Create Channel''
            else ''Edit '' @ (case pgs_activeProvider s of Some p \<Rightarrow> pv_channelName p | None \<Rightarrow> ''Channel'')),
          pd_description = (if creating then t ''providers.createDialogDesc'' [] else t ''providers.editDialogDesc'' []),
          pd_error = (if pgs_formError s \<noteq> [] then Some (t ''common.saveFailed'' [], pgs_formError s) else None),
          pd_fields = provider_fields t f,
          pd_keyVisible = pgs_showApiKey s,
          pd_keyPlaceholder = (if creating then [] else t ''providers.noApiKey'' []),
          pd_keyButton = (if pgs_showApiKey s then t ''providers.hideApiKey'' [] else t ''providers.showApiKey'' []),
          pd_sync = \<lparr>act_label = ''Sync'', act_disabled = (trim (pf_targetBaseUrl f) = [])\<rparr>,
          pd_models = map (\<lambda>(i, row). (i + 1, mr_model row)) (enumerate 0 (pf_models f)),
          pd_noModels = (if pf_models f = [] then Some (t ''providers.noModels'' []) else None),
          pd_buttons = (if creating then [] else [action ''Clear Auth'']) @
            [action ''Cancel'',
             \<lparr>act_label = (if pgs_submitPending s then ''Saving...'' else if creating then ''Create Channel'' else ''Save Changes''),
              act_disabled = pgs_submitPending s\<rparr>]\<rparr>)"

section \<open>The other dialogs\<close>

record ChannelTestDialog =
  ctd_title :: string
  ctd_description :: string
  ctd_label :: string
  ctd_value :: string
  ctd_options :: "string list"
  ctd_noModels :: "string option"
  ctd_result :: "(bool \<times> string \<times> string \<times> string) option" \<comment> \<open>failed, title, message, model and latency\<close>
  ctd_raw :: "(string \<times> jsval) option"
  ctd_buttons :: "Action list"

definition channel_test_dialog :: "translator \<Rightarrow> ProvidersPage \<Rightarrow> ChannelTestDialog" where
  "channel_test_dialog t s =
     (let models = (case pgs_testDialogProvider s of Some p \<Rightarrow> Some (map pm_model (pv_models p)) | None \<Rightarrow> None)
      in \<lparr>ctd_title = t ''providers.testDialogTitle'' [(''name'', name_value (pgs_testDialogProvider s))],
          ctd_description = t ''providers.testDialogDesc'' [],
          ctd_label = t ''providers.selectModel'' [],
          ctd_value = (if pgs_testDialogModel s \<noteq> [] then pgs_testDialogModel s else t ''providers.selectModelPlaceholder'' []),
          ctd_options = (case models of Some ms \<Rightarrow> ms | None \<Rightarrow> []),
          ctd_noModels = (if models = Some [] then Some (t ''providers.noModelsConfigured'' []) else None),
          ctd_result = map_option (\<lambda>r. (tr_status r \<noteq> Ok,
              if tr_status r = Ok then t ''providers.testSuccess'' [] else t ''providers.testFailed'' [],
              tr_message r,
              (case tr_model r of Some m \<Rightarrow> (if m \<noteq> [] then m @ ('' '' @ unicode [0x2022] @ '' '') else []) | None \<Rightarrow> []) @
              (case tr_latencyMs r of Some ms \<Rightarrow> int_str ms | None \<Rightarrow> []) @ ''ms''))
            (pgs_testDialogResult s),
          ctd_raw = (case pgs_testDialogResult s of
              None \<Rightarrow> None
            | Some r \<Rightarrow> if truthy (tr_rawResponse r) then Some (t ''providers.rawResponse'' [], tr_rawResponse r) else None),
          ctd_buttons = [action (t ''common.close'' []),
            \<lparr>act_label = (if pgs_testDialogLoading s then t ''common.testing'' [] @ ''...'' else t ''providers.startTest'' []),
             act_disabled = (\<not> can_start_test s)\<rparr>]\<rparr>)"

record DialogView =
  dv_title :: string
  dv_description :: string
  dv_buttons :: "Action list"

definition delete_dialog :: "translator \<Rightarrow> ProvidersPage \<Rightarrow> DialogView" where
  "delete_dialog t s =
     \<lparr>dv_title = t ''providers.deleteDialogTitle'' [],
      dv_description = t ''providers.deleteDialogDesc'' [(''name'', name_value (pgs_deleteDialogProvider s))],
      dv_buttons = [action (t ''common.cancel'' []),
        \<lparr>act_label = (if pgs_deletePending s then t ''common.deleting'' [] else t ''common.delete'' []),
         act_disabled = pgs_deletePending s\<rparr>]\<rparr>"

datatype SyncView =
    Sync_spinner string
  | Sync_failed string string
  | Sync_empty string
  | Sync_rows string "string list" "(string \<times> bool \<times> string option) list"
      \<comment> \<open>count, links, and per model whether it is ticked and the note that the form has it\<close>

definition sync_view :: "translator \<Rightarrow> ProvidersPage \<Rightarrow> SyncView" where
  "sync_view t s =
     (if pgs_syncLoading s then Sync_spinner (t ''providers.syncLoading'' [])
      else if pgs_syncError s \<noteq> [] then Sync_failed (t ''providers.syncFailed'' []) (pgs_syncError s)
      else if pgs_syncModels s = [] then Sync_empty (t ''providers.syncEmpty'' [])
      else Sync_rows
        (t ''providers.syncCount'' [(''total'', int_val (int (length (pgs_syncModels s)))),
          (''selected'', int_val (int (length (pgs_syncSelected s))))])
        [t ''common.selectAll'' [], t ''common.clear'' []]
        (map (\<lambda>m. (m, m \<in> set (pgs_syncSelected s),
          if list_ex (\<lambda>r. trim (mr_model r) = m) (pf_models (pgs_formState s))
          then Some (t ''common.alreadyExists'' []) else None)) (pgs_syncModels s)))"

definition sync_dialog :: "translator \<Rightarrow> ProvidersPage \<Rightarrow> DialogView \<times> SyncView" where
  "sync_dialog t s =
     (\<lparr>dv_title = t ''providers.syncDialogTitle'' [], dv_description = t ''providers.syncDialogDesc'' [],
       dv_buttons = [action (t ''common.cancel'' []),
         \<lparr>act_label = t ''providers.addSelectedModels'' [], act_disabled = (\<not> sync_can_add s)\<rparr>]\<rparr>,
      sync_view t s)"

record ConfigDialogView =
  cdv_dialog :: DialogView
  cdv_error :: "(string \<times> string) option"
  cdv_label :: string
  cdv_value :: string
  cdv_readOnly :: bool
  cdv_placeholder :: "string option"

definition config_dialog :: "translator \<Rightarrow> ProvidersPage \<Rightarrow> ConfigDialogView" where
  "config_dialog t s =
     (let importing = pgs_configImport s
      in \<lparr>cdv_dialog =
            \<lparr>dv_title = (if importing then t ''providers.importConfigTitle'' [] else t ''providers.exportConfigTitle'' []),
             dv_description = (if importing then t ''providers.importConfigDesc'' [] else t ''providers.exportConfigDesc'' []),
             dv_buttons = [action (t ''common.close'' []),
               if importing then \<lparr>act_label = t ''providers.importConfigConfirm'' [], act_disabled = (\<not> can_import s)\<rparr>
               else action (t ''providers.copyExportConfig'' [])]\<rparr>,
          cdv_error = (if pgs_configError s \<noteq> [] then Some (t ''common.errorOccurred'' [], pgs_configError s) else None),
          cdv_label = t ''providers.configJsonLabel'' [],
          cdv_value = pgs_configJson s,
          cdv_readOnly = (\<not> importing),
          cdv_placeholder = (if importing then Some (t ''providers.importConfigPlaceholder'' []) else None)\<rparr>)"

section \<open>All of it\<close>

record ChannelsView =
  chv_title :: string
  chv_description :: string
  chv_actions :: "Action list"
  chv_stats :: "(string \<times> string \<times> string) list"
  chv_list :: "DialogView + ChannelList" \<comment> \<open>\<open>Inl\<close>: the text for no channel and its button\<close>
  chv_form :: "ProviderDialog option"
  chv_test :: "ChannelTestDialog option"
  chv_delete :: "DialogView option"
  chv_sync :: "(DialogView \<times> SyncView) option"
  chv_config :: "ConfigDialogView option"

datatype ProvidersView =
    Load_failed string string
  | Skeleton
  | Channels ChannelsView

definition providers_view :: "translator \<Rightarrow> (string \<Rightarrow> bool) \<Rightarrow> ProvidersPage \<Rightarrow> ProvidersView" where
  "providers_view t expanded s =
     (if pgs_error s \<noteq> [] then Load_failed (t ''providers.loadFailed'' []) (pgs_error s)
      else
        (case pgs_providers s of
           None \<Rightarrow> Skeleton
         | Some ps \<Rightarrow> Channels
             \<lparr>chv_title = t ''providers.title'' [], chv_description = t ''providers.description'' [],
              chv_actions = header_actions t s,
              chv_stats = stat_cards t (providerStats (pgs_providers s)),
              chv_list = (if ps = []
                then Inl \<lparr>dv_title = t ''providers.emptyTitle'' [], dv_description = t ''providers.emptyDescription'' [],
                  dv_buttons = [action ''Create Channel'']\<rparr>
                else Inr (channel_list t s expanded ps)),
              chv_form = (if pgs_dialogOpen s then Some (provider_dialog t s) else None),
              chv_test = (if pgs_testDialogOpen s then Some (channel_test_dialog t s) else None),
              chv_delete = (if pgs_deleteDialogOpen s then Some (delete_dialog t s) else None),
              chv_sync = (if pgs_syncDialogOpen s then Some (sync_dialog t s) else None),
              chv_config = (if pgs_configDialogOpen s then Some (config_dialog t s) else None)\<rparr>))"

end
