(* ===== verification/Routes_Page.thy ===== *)
theory Routes_Page
  imports Api Route_Map Failover Keyed_List
begin

text \<open>
  The rest of \<open>components/routes-page.tsx\<close>: the page's state, its asynchronous handlers cut at their
  \<open>await\<close>, the alias dialog, and the warning next to an alias.
\<close>

section \<open>The alias dialog\<close>

record RouteTargetDraft =
  td_id :: string
  td_provider :: string
  td_model :: string

record AliasDraft =
  ad_alias :: string
  ad_targets :: "RouteTargetDraft list"
  ad_description :: string
  ad_visible :: bool

definition EMPTY_FORM :: AliasDraft where
  "EMPTY_FORM = \<lparr>ad_alias = [], ad_targets = [], ad_description = [], ad_visible = True\<rparr>"

text \<open>\<open>crypto.randomUUID()\<close> is the argument \<open>uuid\<close>.\<close>

definition createTargetDraft :: "string \<Rightarrow> string \<Rightarrow> string \<Rightarrow> RouteTargetDraft" where
  "createTargetDraft uuid provider model = \<lparr>td_id = uuid, td_provider = provider, td_model = model\<rparr>"

definition form_targets :: "string \<Rightarrow> AliasDraft \<Rightarrow> RouteTargetDraft list" where
  "form_targets uuid draft =
     (if ad_targets draft \<noteq> [] then ad_targets draft else [createTargetDraft uuid [] []])"

record TargetPatch =
  tp_provider :: "string option"
  tp_model :: "string option"

definition patch_target :: "TargetPatch \<Rightarrow> RouteTargetDraft \<Rightarrow> RouteTargetDraft" where
  "patch_target patch target =
     target\<lparr>td_provider := (case tp_provider patch of Some p \<Rightarrow> p | None \<Rightarrow> td_provider target),
            td_model := (case tp_model patch of Some m \<Rightarrow> m | None \<Rightarrow> td_model target)\<rparr>"

definition updateTarget :: "string \<Rightarrow> string \<Rightarrow> TargetPatch \<Rightarrow> AliasDraft \<Rightarrow> AliasDraft" where
  "updateTarget uuid key_id patch draft =
     draft\<lparr>ad_targets := map (\<lambda>target. if td_id target = key_id then patch_target patch target else target)
        (form_targets uuid draft)\<rparr>"

text \<open>Choosing a provider clears the model.\<close>

definition select_provider :: "string \<Rightarrow> string \<Rightarrow> string \<Rightarrow> AliasDraft \<Rightarrow> AliasDraft" where
  "select_provider uuid key_id provider draft =
     updateTarget uuid key_id \<lparr>tp_provider = Some provider, tp_model = Some []\<rparr> draft"

definition select_model :: "string \<Rightarrow> string \<Rightarrow> string \<Rightarrow> AliasDraft \<Rightarrow> AliasDraft" where
  "select_model uuid key_id model draft =
     updateTarget uuid key_id \<lparr>tp_provider = None, tp_model = Some model\<rparr> draft"

definition removeTarget :: "string \<Rightarrow> string \<Rightarrow> AliasDraft \<Rightarrow> AliasDraft" where
  "removeTarget uuid key_id draft =
     (let targets = form_targets uuid draft
      in if length targets \<le> 1 then draft
         else draft\<lparr>ad_targets := filter (\<lambda>target. td_id target \<noteq> key_id) targets\<rparr>)"

definition addTarget :: "string \<Rightarrow> string \<Rightarrow> AliasDraft \<Rightarrow> AliasDraft" where
  "addTarget uuid new_uuid draft =
     draft\<lparr>ad_targets := form_targets uuid draft @ [createTargetDraft new_uuid [] []]\<rparr>"

text \<open>The models offered in a target's second select.\<close>

definition target_models :: "ProviderInfo list \<Rightarrow> RouteTargetDraft \<Rightarrow> string list" where
  "target_models providers target =
     (case find (\<lambda>p. getProviderRef p = td_provider target) providers of
        Some p \<Rightarrow> map pm_model (pv_models p)
      | None \<Rightarrow> [])"

definition set_alias :: "string \<Rightarrow> AliasDraft \<Rightarrow> AliasDraft" where
  "set_alias v draft = draft\<lparr>ad_alias := v\<rparr>"

definition set_visible :: "bool \<Rightarrow> AliasDraft \<Rightarrow> AliasDraft" where
  "set_visible v draft = draft\<lparr>ad_visible := v\<rparr>"

definition set_description :: "string \<Rightarrow> AliasDraft \<Rightarrow> AliasDraft" where
  "set_description v draft = draft\<lparr>ad_description := v\<rparr>"

section \<open>The page\<close>

datatype TestState = Testing | Tested TestProviderResult

record RoutesPage =
  rp_aliases :: "ModelAlias list option"
  rp_providers :: "ProviderInfo list"
  rp_failoverPolicy :: "GatewayFailoverPolicyPayload option"
  rp_failoverForm :: "FailoverFormState option"
  rp_error :: string
  rp_failoverError :: string
  rp_failoverFeedback :: string
  rp_loading :: bool
  rp_savingFailover :: bool
  rp_dialogOpen :: bool
  rp_editTarget :: "ModelAlias option"
  rp_draft :: AliasDraft
  rp_submitting :: bool
  rp_submitError :: string
  rp_deletingId :: "int option"
  rp_togglingId :: "int option"
  rp_testResults :: "(int, TestState) jsmap"
  rp_unauthorized :: nat

definition routes_page_init :: RoutesPage where
  "routes_page_init =
     \<lparr>rp_aliases = None, rp_providers = [], rp_failoverPolicy = None, rp_failoverForm = None, rp_error = [],
      rp_failoverError = [], rp_failoverFeedback = [], rp_loading = False, rp_savingFailover = False,
      rp_dialogOpen = False, rp_editTarget = None, rp_draft = EMPTY_FORM, rp_submitting = False,
      rp_submitError = [], rp_deletingId = None, rp_togglingId = None, rp_testResults = [],
      rp_unauthorized = 0\<rparr>"

text \<open>\<open>if (handleUnauth(message)) return\<close>, then \<open>otherwise\<close>.\<close>

definition unless_unauth :: "string \<Rightarrow> (RoutesPage \<Rightarrow> RoutesPage) \<Rightarrow> RoutesPage \<Rightarrow> RoutesPage" where
  "unless_unauth message otherwise s =
     (if message = ''unauthorized'' then s\<lparr>rp_unauthorized := rp_unauthorized s + 1\<rparr> else otherwise s)"

definition load_start :: "RoutesPage \<Rightarrow> RoutesPage" where
  "load_start s = s\<lparr>rp_loading := True\<rparr>"

definition load_end ::
    "(ModelAlias list \<times> ProviderInfo list \<times> GatewayFailoverPolicyPayload) result \<Rightarrow> RoutesPage \<Rightarrow> RoutesPage" where
  "load_end r s =
     (case r of
        Inr (aliases, providers, failoverData) \<Rightarrow>
          s\<lparr>rp_aliases := Some aliases, rp_providers := providers, rp_failoverPolicy := Some failoverData,
            rp_failoverForm := Some (toFailoverForm failoverData), rp_error := [], rp_failoverError := []\<rparr>
      | Inl message \<Rightarrow> unless_unauth message (\<lambda>s. s\<lparr>rp_error := message\<rparr>) s)\<lparr>rp_loading := False\<rparr>"

definition openCreate :: "string \<Rightarrow> RoutesPage \<Rightarrow> RoutesPage" where
  "openCreate uuid s =
     s\<lparr>rp_editTarget := None, rp_draft := EMPTY_FORM\<lparr>ad_targets := [createTargetDraft uuid [] []]\<rparr>,
       rp_submitError := [], rp_dialogOpen := True\<rparr>"

definition draft_of :: "(nat \<Rightarrow> string) \<Rightarrow> ModelAlias \<Rightarrow> AliasDraft" where
  "draft_of uuids alias =
     \<lparr>ad_alias = al_alias alias,
      ad_targets = map (\<lambda>(i, target). createTargetDraft (uuids i) (tg_provider target) (tg_model target))
        (enumerate 0 (getAliasTargets alias)),
      ad_description = (case al_description alias of Some d \<Rightarrow> d | None \<Rightarrow> []),
      ad_visible = al_visible alias\<rparr>"

definition openEdit :: "(nat \<Rightarrow> string) \<Rightarrow> ModelAlias \<Rightarrow> RoutesPage \<Rightarrow> RoutesPage" where
  "openEdit uuids alias s =
     s\<lparr>rp_editTarget := Some alias, rp_draft := draft_of uuids alias, rp_submitError := [], rp_dialogOpen := True\<rparr>"

definition trimmed_draft :: "AliasDraft \<Rightarrow> AliasPayload" where
  "trimmed_draft draft =
     \<lparr>alp_alias = trim (ad_alias draft),
      alp_targets = map (\<lambda>target. \<lparr>tg_provider = trim (td_provider target), tg_model = trim (td_model target)\<rparr>)
        (ad_targets draft),
      alp_description = (if trim (ad_description draft) \<noteq> [] then Some (trim (ad_description draft)) else None),
      alp_visible = ad_visible draft\<rparr>"

definition payload_incomplete :: "AliasPayload \<Rightarrow> bool" where
  "payload_incomplete p \<longleftrightarrow>
     alp_alias p = [] \<or> alp_targets p = [] \<or>
     list_ex (\<lambda>target. tg_provider target = [] \<or> tg_model target = []) (alp_targets p)"

text \<open>\<open>None\<close> when the form is incomplete; else the request and the alias being edited.\<close>

definition handleSubmit_start :: "translator \<Rightarrow> RoutesPage \<Rightarrow> RoutesPage \<times> (HttpRequest \<times> ModelAlias option) option" where
  "handleSubmit_start t s =
     (let trimmed = trimmed_draft (rp_draft s)
      in if payload_incomplete trimmed then (s\<lparr>rp_submitError := t ''routes.requiredFieldsError'' []\<rparr>, None)
         else (s\<lparr>rp_submitting := True, rp_submitError := []\<rparr>,
               Some (case rp_editTarget s of
                   Some alias \<Rightarrow> updateModelAlias (al_id alias) trimmed
                 | None \<Rightarrow> createModelAlias trimmed, rp_editTarget s)))"

definition handleSubmit_end :: "ModelAlias option \<Rightarrow> ModelAlias result \<Rightarrow> RoutesPage \<Rightarrow> RoutesPage" where
  "handleSubmit_end editTarget r s =
     (case r of
        Inr alias \<Rightarrow>
          (case editTarget of
             Some _ \<Rightarrow> s\<lparr>rp_aliases := map_option (replace_key al_id alias) (rp_aliases s)\<rparr>
           | None \<Rightarrow> s\<lparr>rp_aliases := Some (append_item alias
                 (case rp_aliases s of Some cur \<Rightarrow> cur | None \<Rightarrow> []))\<rparr>)\<lparr>rp_dialogOpen := False\<rparr>
      | Inl message \<Rightarrow> s\<lparr>rp_submitError := message\<rparr>)\<lparr>rp_submitting := False\<rparr>"

definition handleToggle_start :: "ModelAlias \<Rightarrow> bool \<Rightarrow> RoutesPage \<Rightarrow> RoutesPage \<times> HttpRequest" where
  "handleToggle_start alias enabled s = (s\<lparr>rp_togglingId := Some (al_id alias)\<rparr>, toggleModelAlias (al_id alias) enabled)"

definition handleToggle_end :: "ModelAlias result \<Rightarrow> RoutesPage \<Rightarrow> RoutesPage" where
  "handleToggle_end r s =
     (case r of
        Inr alias \<Rightarrow> s\<lparr>rp_aliases := map_option (replace_key al_id alias) (rp_aliases s)\<rparr>
      | Inl message \<Rightarrow> unless_unauth message (\<lambda>s. s\<lparr>rp_error := message\<rparr>) s)\<lparr>rp_togglingId := None\<rparr>"

definition handleDelete_start :: "int \<Rightarrow> RoutesPage \<Rightarrow> RoutesPage \<times> HttpRequest" where
  "handleDelete_start key_id s = (s\<lparr>rp_deletingId := Some key_id\<rparr>, deleteModelAlias key_id)"

definition handleDelete_end :: "int \<Rightarrow> unit result \<Rightarrow> RoutesPage \<Rightarrow> RoutesPage" where
  "handleDelete_end key_id r s =
     (case r of
        Inr _ \<Rightarrow> s\<lparr>rp_aliases := map_option (remove_key al_id key_id) (rp_aliases s),
                  rp_testResults := map_delete key_id (rp_testResults s)\<rparr>
      | Inl message \<Rightarrow> unless_unauth message (\<lambda>s. s\<lparr>rp_error := message\<rparr>) s)\<lparr>rp_deletingId := None\<rparr>"

definition handleTest_start :: "ModelAlias \<Rightarrow> RoutesPage \<Rightarrow> RoutesPage \<times> HttpRequest" where
  "handleTest_start alias s =
     (let firstTarget = hd (getAliasTargets alias);
          resolvedChannelName = (case find (\<lambda>p. pv_providerUuid p = tg_provider firstTarget) (rp_providers s) of
              Some p \<Rightarrow> pv_channelName p | None \<Rightarrow> tg_provider firstTarget)
      in (s\<lparr>rp_testResults := map_set (al_id alias) Testing (rp_testResults s)\<rparr>,
          testProvider resolvedChannelName (Some (tg_model firstTarget))))"

definition test_failed :: "string \<Rightarrow> TestProviderResult" where
  "test_failed message = \<lparr>tr_status = Error, tr_statusCode = 0, tr_message = message, tr_latencyMs = None,
     tr_model = None, tr_rawResponse = JUndef\<rparr>"

definition handleTest_end :: "int \<Rightarrow> TestProviderResult result \<Rightarrow> RoutesPage \<Rightarrow> RoutesPage" where
  "handleTest_end key_id r s =
     s\<lparr>rp_testResults := map_set key_id
        (Tested (case r of Inr res \<Rightarrow> res | Inl message \<Rightarrow> test_failed message)) (rp_testResults s)\<rparr>"

definition routeMapEntries :: "collation \<Rightarrow> RoutesPage \<Rightarrow> RouteMapEntry list" where
  "routeMapEntries lc s =
     buildRouteMapEntries lc (case rp_aliases s of Some as \<Rightarrow> as | None \<Rightarrow> []) (rp_providers s) (rp_failoverPolicy s)"

text \<open>
  \<open>handleFailoverSave\<close>: the validation error of the first half passes through the same \<open>catch\<close>.
\<close>

definition handleFailoverSave_start ::
    "translator \<Rightarrow> RoutesPage \<Rightarrow> RoutesPage \<times> GatewayFailoverPolicy option" where
  "handleFailoverSave_start t s =
     (case (rp_failoverPolicy s, rp_failoverForm s) of
        (Some policy, Some form) \<Rightarrow>
          (let s1 = s\<lparr>rp_savingFailover := True, rp_failoverError := []\<rparr>
           in case policy_to_save t form (fpp_limits policy) of
                Inr p \<Rightarrow> (s1, Some p)
              | Inl message \<Rightarrow>
                  ((unless_unauth message (\<lambda>s. s\<lparr>rp_failoverError := message\<rparr>) s1)\<lparr>rp_savingFailover := False\<rparr>, None))
      | _ \<Rightarrow> (s, None))"

definition handleFailoverSave_end :: "translator \<Rightarrow> GatewayFailoverPolicyPayload result \<Rightarrow> RoutesPage \<Rightarrow> RoutesPage" where
  "handleFailoverSave_end t r s =
     (case r of
        Inr next_policy \<Rightarrow>
          s\<lparr>rp_failoverPolicy := Some next_policy, rp_failoverForm := Some (toFailoverForm next_policy),
            rp_failoverError := [], rp_failoverFeedback := t ''routes.failoverSaved'' []\<rparr>
      | Inl message \<Rightarrow> unless_unauth message (\<lambda>s. s\<lparr>rp_failoverError := message\<rparr>) s)\<lparr>rp_savingFailover := False\<rparr>"

text \<open>The timer of a successful save.\<close>

definition failover_feedback_expires :: "RoutesPage \<Rightarrow> RoutesPage" where
  "failover_feedback_expires s = s\<lparr>rp_failoverFeedback := []\<rparr>"

definition resetFailoverForm :: "RoutesPage \<Rightarrow> RoutesPage" where
  "resetFailoverForm s =
     (case rp_failoverPolicy s of Some p \<Rightarrow> s\<lparr>rp_failoverForm := Some (toFailoverForm p)\<rparr> | None \<Rightarrow> s)"

section \<open>The warning of an alias\<close>

text \<open>The warning next to an enabled alias. Here a reference is matched by UUID before the name.\<close>

definition status_provider :: "ProviderInfo list \<Rightarrow> string \<Rightarrow> ProviderInfo option" where
  "status_provider providers ref =
     (case find (\<lambda>p. pv_providerUuid p = ref) providers of
        Some p \<Rightarrow> Some p
      | None \<Rightarrow> find (\<lambda>p. pv_channelName p = ref) providers)"

datatype AliasWarning = ProviderNotExist string | ModelRemoved string string | ProviderDisabled string

definition AliasStatus :: "ModelAlias \<Rightarrow> ProviderInfo list \<Rightarrow> AliasWarning option" where
  "AliasStatus alias providers =
     (let targets = getAliasTargets alias
      in case find (\<lambda>target. status_provider providers (tg_provider target) = None) targets of
           Some target \<Rightarrow> Some (ProviderNotExist (tg_provider target))
         | None \<Rightarrow>
             (case find (\<lambda>target. case status_provider providers (tg_provider target) of
                  Some provider \<Rightarrow> \<not> offers provider (tg_model target) | None \<Rightarrow> False) targets of
                Some target \<Rightarrow> Some (ModelRemoved (tg_model target)
                  (case status_provider providers (tg_provider target) of
                     Some p \<Rightarrow> pv_channelName p | None \<Rightarrow> tg_provider target))
              | None \<Rightarrow>
                  (case find (\<lambda>provider. case provider of Some p \<Rightarrow> \<not> pv_enabled p | None \<Rightarrow> False)
                     (map (\<lambda>target. status_provider providers (tg_provider target)) targets) of
                     Some (Some p) \<Rightarrow> Some (ProviderDisabled (pv_channelName p))
                   | _ \<Rightarrow> None)))"

section \<open>The alias list mirrors the server\<close>

text \<open>The answers that change the list, as the page receives them; a failure changes nothing.\<close>

datatype AliasEvent =
    SubmitAnswered "ModelAlias option" "ModelAlias result"
  | ToggleAnswered "ModelAlias result"
  | DeleteAnswered int "unit result"

fun alias_event :: "AliasEvent \<Rightarrow> RoutesPage \<Rightarrow> RoutesPage" where
  "alias_event (SubmitAnswered editTarget r) s = handleSubmit_end editTarget r s"
| "alias_event (ToggleAnswered r) s = handleToggle_end r s"
| "alias_event (DeleteAnswered k r) s = handleDelete_end k r s"

fun alias_answers :: "AliasEvent \<Rightarrow> (ModelAlias, int) answer list" where
  "alias_answers (SubmitAnswered editTarget (Inr x)) = [if editTarget = None then Created x else Updated (al_id x) (\<lambda>_. x)]"
| "alias_answers (ToggleAnswered (Inr x)) = [Updated (al_id x) (\<lambda>_. x)]"
| "alias_answers (DeleteAnswered k (Inr _)) = [Deleted k]"
| "alias_answers _ = []"

interpretation alias_store: mirrored_store "al_id :: ModelAlias \<Rightarrow> int" "find_key al_id" append_item "update_key al_id" "remove_key al_id"
proof (rule mirrored_store.intro)
  fix s k k' f and x :: ModelAlias
  show "find_key al_id s (al_id x) = None \<Longrightarrow>
      find_key al_id (append_item x s) k = (if k = al_id x then Some x else find_key al_id s k)"
    by (rule find_key_append)
  show "(\<And>x :: ModelAlias. al_id x = k' \<Longrightarrow> al_id (f x) = k') \<Longrightarrow>
      find_key al_id (update_key al_id k' f s) k = (if k = k' then map_option f (find_key al_id s k') else find_key al_id s k)"
    by (rule find_key_update)
qed (rule find_key_remove)

lemma find_SomeD: "find P xs = Some x \<Longrightarrow> x \<in> set xs \<and> P x"
  by (auto simp: find_Some_iff)

lemma unless_unauth_aliases [simp]: "rp_aliases (unless_unauth m (\<lambda>s. s\<lparr>rp_error := e\<rparr>) s) = rp_aliases s"
  by (simp add: unless_unauth_def)

lemma alias_event_list:
  assumes "rp_aliases s = Some xs"
  shows "rp_aliases (alias_event e s) = Some (fold alias_store.page_step (alias_answers e) xs)"
proof (cases e)
  case (SubmitAnswered editTarget r)
  then show ?thesis
    using assms by (cases r; cases editTarget) (simp_all add: handleSubmit_end_def replace_key_update)
next
  case (ToggleAnswered r)
  then show ?thesis using assms by (cases r) (simp_all add: handleToggle_end_def replace_key_update)
next
  case (DeleteAnswered k r)
  then show ?thesis using assms by (cases r) (simp_all add: handleDelete_end_def)
qed

lemma alias_events_list:
  "rp_aliases s = Some xs \<Longrightarrow>
     rp_aliases (fold alias_event es s) = Some (fold alias_store.page_step (concat (map alias_answers es)) xs)"
  by (induction es arbitrary: s xs) (simp_all add: alias_event_list)

section \<open>Properties\<close>


definition sample_alias :: "int \<Rightarrow> string \<Rightarrow> ModelAlias" where
  "sample_alias k name = \<lparr>al_id = k, al_alias = name, al_provider = ''a'', al_model = ''m'', al_targets = [],
     al_description = Some ''note'', al_visible = True, al_enabled = True, al_createdAt = 0, al_updatedAt = 0\<rparr>"


text \<open>
  Editing an alias and saving it unchanged sends the alias back: for an alias with trimmed
  texts, the request the dialog sends is the update of that id with its own name, targets, notes and
  visibility, the legacy single target standing for an empty target list.
\<close>
theorem alias_edit_roundtrip:
  assumes "trim (al_alias a) = al_alias a" and "al_alias a \<noteq> []"
    and "\<forall>g \<in> set (getAliasTargets a). trim (tg_provider g) = tg_provider g \<and> tg_provider g \<noteq> [] \<and>
      trim (tg_model g) = tg_model g \<and> tg_model g \<noteq> []"
    and "\<forall>d. al_description a = Some d \<longrightarrow> trim d = d \<and> d \<noteq> []"
  shows "snd (handleSubmit_start t (openEdit uuids a s)) =
    Some (updateModelAlias (al_id a) \<lparr>alp_alias = al_alias a, alp_targets = getAliasTargets a,
      alp_description = al_description a, alp_visible = al_visible a\<rparr>, Some a)"
proof -
  have targets: "map (\<lambda>target. \<lparr>tg_provider = trim (td_provider target), tg_model = trim (td_model target)\<rparr>)
      (ad_targets (draft_of uuids a)) = getAliasTargets a"
  proof -
    have "map (\<lambda>target. \<lparr>tg_provider = trim (td_provider target), tg_model = trim (td_model target)\<rparr>)
        (ad_targets (draft_of uuids a)) =
      map ((\<lambda>g. \<lparr>tg_provider = trim (tg_provider g), tg_model = trim (tg_model g)\<rparr>) \<circ> snd)
        (enumerate 0 (getAliasTargets a))"
      by (simp add: draft_of_def createTargetDraft_def comp_def case_prod_unfold)
    also have "\<dots> = map (\<lambda>g. \<lparr>tg_provider = trim (tg_provider g), tg_model = trim (tg_model g)\<rparr>) (getAliasTargets a)"
      unfolding map_map [symmetric] by (simp only: map_snd_enumerate)
    also have "\<dots> = getAliasTargets a"
      using assms(3) by (intro map_idI) auto
    finally show ?thesis .
  qed
  have "trimmed_draft (draft_of uuids a) = \<lparr>alp_alias = al_alias a, alp_targets = getAliasTargets a,
      alp_description = al_description a, alp_visible = al_visible a\<rparr>"
    using assms(1,4) unfolding trimmed_draft_def targets
    by (auto simp: draft_of_def split: option.splits)
  moreover have "getAliasTargets a \<noteq> []" by (simp add: getAliasTargets_def)
  ultimately show ?thesis
    using assms(2,3)
    by (auto simp: handleSubmit_start_def openEdit_def payload_incomplete_def list_ex_iff Let_def)
qed

theorem alias_edit_roundtrip_witness:
  "snd (handleSubmit_start (\<lambda>key _. key) (openEdit (\<lambda>_. ''u'') (sample_alias 1 ''Auto'') routes_page_init)) =
     Some (updateModelAlias 1 \<lparr>alp_alias = ''Auto'', alp_targets = [\<lparr>tg_provider = ''a'', tg_model = ''m''\<rparr>],
       alp_description = Some ''note'', alp_visible = True\<rparr>, Some (sample_alias 1 ''Auto''))"
  using alias_edit_roundtrip [where t = "\<lambda>key _. key", of "sample_alias 1 ''Auto''" "\<lambda>_. ''u''" routes_page_init]
  by (simp add: sample_alias_def getAliasTargets_def trim_def is_space_def)

text \<open>
  An alias carries no warning exactly when each of its targets is usable: its provider exists,
  lists the target's model and is enabled.
\<close>
theorem alias_status_exact:
  "AliasStatus a providers = None \<longleftrightarrow>
     list_all (\<lambda>g. case status_provider providers (tg_provider g) of
         None \<Rightarrow> False | Some p \<Rightarrow> offers p (tg_model g) \<and> pv_enabled p) (getAliasTargets a)"
proof -
  let ?ts = "getAliasTargets a" and ?p = "\<lambda>g. status_provider providers (tg_provider g)"
  consider (missing) g where "find (\<lambda>g. ?p g = None) ?ts = Some g"
    | (unlisted) g where "find (\<lambda>g. ?p g = None) ?ts = None"
        "find (\<lambda>g. case ?p g of Some p \<Rightarrow> \<not> offers p (tg_model g) | None \<Rightarrow> False) ?ts = Some g"
    | (listed) "find (\<lambda>g. ?p g = None) ?ts = None"
        "find (\<lambda>g. case ?p g of Some p \<Rightarrow> \<not> offers p (tg_model g) | None \<Rightarrow> False) ?ts = None"
    by (cases "find (\<lambda>g. ?p g = None) ?ts";
        cases "find (\<lambda>g. case ?p g of Some p \<Rightarrow> \<not> offers p (tg_model g) | None \<Rightarrow> False) ?ts") blast+
  then show ?thesis
  proof cases
    case missing
    then have "AliasStatus a providers \<noteq> None" by (simp add: AliasStatus_def Let_def)
    with find_SomeD [OF missing] show ?thesis by (auto simp: list_all_iff)
  next
    case unlisted
    then have "AliasStatus a providers \<noteq> None" by (simp add: AliasStatus_def Let_def)
    with find_SomeD [OF unlisted(2)] show ?thesis by (force simp: list_all_iff split: option.splits)
  next
    case listed
    let ?off = "\<lambda>provider. case provider of Some p \<Rightarrow> \<not> pv_enabled p | None \<Rightarrow> False"
    have usable: "(case ?p g of None \<Rightarrow> False | Some p \<Rightarrow> offers p (tg_model g) \<and> pv_enabled p) \<longleftrightarrow> \<not> ?off (?p g)"
      if "g \<in> set ?ts" for g
      using listed that by (auto simp: find_None_iff split: option.splits)
    have "AliasStatus a providers = None \<longleftrightarrow> find ?off (map ?p ?ts) = None"
      using listed find_SomeD [of ?off "map ?p ?ts"]
      by (auto simp: AliasStatus_def Let_def split: option.splits)
    also have "\<dots> \<longleftrightarrow> (\<forall>g \<in> set ?ts. \<not> ?off (?p g))" by (auto simp: find_None_iff)
    finally show ?thesis using usable by (auto simp: list_all_iff)
  qed
qed

text \<open>
  A 401 ends the session everywhere on the page except in the alias dialog: loading, toggling,
  deleting and saving the policy report it, while a rejected create or edit only shows the word
  \<open>unauthorized\<close> in the dialog and leaves the session open.
\<close>
theorem alias_dialog_swallows_401:
  "rp_unauthorized (handleSubmit_end editTarget (Inl ''unauthorized'') s) = rp_unauthorized s \<and>
   rp_submitError (handleSubmit_end editTarget (Inl ''unauthorized'') s) = ''unauthorized'' \<and>
   rp_unauthorized (load_end (Inl ''unauthorized'') s) = rp_unauthorized s + 1 \<and>
   rp_unauthorized (handleToggle_end (Inl ''unauthorized'') s) = rp_unauthorized s + 1 \<and>
   rp_unauthorized (handleDelete_end k (Inl ''unauthorized'') s) = rp_unauthorized s + 1 \<and>
   rp_unauthorized (handleFailoverSave_end t (Inl ''unauthorized'') s) = rp_unauthorized s + 1"
  by (simp add: handleSubmit_end_def load_end_def handleToggle_end_def handleDelete_end_def
      handleFailoverSave_end_def unless_unauth_def)

end
