(* ===== verification/Routes_View.thy ===== *)
theory Routes_View
  imports Routes_Page Messages
begin

text \<open>
  What \<open>components/routes-page.tsx\<close> shows for its state: the failover form, the table of the route map, the table
  of aliases and the dialog of an alias. Texts come from the translator \<open>t\<close>; \<open>date_text\<close> is
  \<open>toLocaleString\<close>. Icons and CSS classes are left out.
\<close>

section \<open>Routes\<close>

record RouteBadge =
  rb_provider :: string
  rb_model :: string
  rb_type :: string
  rb_source :: string
  rb_notListed :: "string option"

definition source_label :: "translator \<Rightarrow> route_source \<Rightarrow> string" where
  "source_label t source =
     (case source of
        From_alias \<Rightarrow> t ''routes.routeMapSourceAlias'' []
      | From_custom \<Rightarrow> t ''routes.routeMapSourceCustom'' []
      | From_any_model \<Rightarrow> t ''routes.routeMapSourceAnyModel'' []
      | From_model \<Rightarrow> t ''routes.routeMapSourceModel'' [])"

definition route_badge :: "translator \<Rightarrow> RouteMapRoute \<Rightarrow> RouteBadge" where
  "route_badge t route =
     \<lparr>rb_provider = rr_provider route, rb_model = rr_model route, rb_type = type_name (rr_type route),
      rb_source = source_label t (rr_source route),
      rb_notListed = (if rr_modelKnown route then None else Some (t ''routes.routeMapModelNotListed'' []))\<rparr>"

text \<open>A list of badges, or the label of an empty list.\<close>

definition RouteMapRouteList :: "translator \<Rightarrow> RouteMapRoute list \<Rightarrow> string \<Rightarrow> string + RouteBadge list" where
  "RouteMapRouteList t routes emptyLabel = (if routes = [] then Inl emptyLabel else Inr (map (route_badge t) routes))"

record RouteMapRow =
  rmr_requestModel :: string
  rmr_requestType :: string
  rmr_kind :: string
  rmr_primary :: "string + RouteBadge list"
  rmr_fallback :: "string + RouteBadge list"
  rmr_hidden :: "string + RouteBadge list"

definition route_map_row :: "translator \<Rightarrow> RouteMapEntry \<Rightarrow> RouteMapRow" where
  "route_map_row t e =
     \<lparr>rmr_requestModel = re_requestModel e, rmr_requestType = type_name (re_requestType e),
      rmr_kind = (case re_kind e of
          Kind_alias_override \<Rightarrow> t ''routes.routeMapAliasOverride'' []
        | Kind_alias \<Rightarrow> t ''routes.routeMapAlias'' []
        | Kind_model \<Rightarrow> t ''routes.routeMapModel'' []),
      rmr_primary = RouteMapRouteList t (re_primaryRoutes e) (t ''routes.routeMapNoRoute'' []),
      rmr_fallback = RouteMapRouteList t (re_fallbackRoutes e) (t ''routes.routeMapNoFallback'' []),
      rmr_hidden = RouteMapRouteList t (re_hiddenRoutes e) (t ''routes.routeMapNoCoveredRoute'' [])\<rparr>"

text \<open>A table: still loading, empty with its two texts, or its columns and rows.\<close>

datatype 'a table_view = Table_skeleton | Table_empty string string | Table_rows "string list" "'a list"

definition route_map_table :: "translator \<Rightarrow> collation \<Rightarrow> RoutesPage \<Rightarrow> RouteMapRow table_view" where
  "route_map_table t lc s =
     (let entries = routeMapEntries lc s
      in if rp_aliases s = None then Table_skeleton
         else if entries = []
         then Table_empty (t ''routes.routeMapEmptyTitle'' []) (t ''routes.routeMapEmptyDesc'' [])
         else Table_rows
           [t ''routes.routeMapRequestModel'' [], t ''routes.routeMapPrimaryRoute'' [],
            t ''routes.routeMapFallbackRoutes'' [], t ''routes.routeMapCoveredRoutes'' []]
           (map (route_map_row t) entries))"

section \<open>Aliases\<close>

text \<open>Badge and tooltip of the warning.\<close>

definition warning_view :: "translator \<Rightarrow> AliasWarning \<Rightarrow> string \<times> string" where
  "warning_view t warning =
     (case warning of
        ProviderNotExist name \<Rightarrow>
          (t ''providers.providerNotExist'' [], t ''providers.providerDeletedHint'' [(''name'', JStr name)])
      | ModelRemoved model provider \<Rightarrow>
          (t ''providers.modelRemoved'' [],
           t ''providers.modelRemovedHint'' [(''model'', JStr model), (''provider'', JStr provider)])
      | ProviderDisabled name \<Rightarrow>
          (t ''providers.providerDisabled'' [], t ''providers.providerDisabledHint'' [(''name'', JStr name)]))"

text \<open>The test button: its label, whether it is disabled, and the outcome with its tooltip.\<close>

record TestButton =
  tb_label :: string
  tb_disabled :: bool
  tb_outcome :: "(bool \<times> string \<times> string option) option" \<comment> \<open>succeeded, message, latency\<close>

definition test_button :: "translator \<Rightarrow> TestState option \<Rightarrow> TestButton" where
  "test_button t result =
     (case result of
        Some Testing \<Rightarrow> \<lparr>tb_label = t ''common.testing'' [], tb_disabled = True, tb_outcome = None\<rparr>
      | Some (Tested r) \<Rightarrow> \<lparr>tb_label = t ''common.test'' [], tb_disabled = False,
          tb_outcome = Some (tr_status r = Ok, tr_message r, map_option (\<lambda>ms. int_str ms @ ''ms'') (tr_latencyMs r))\<rparr>
      | None \<Rightarrow> \<lparr>tb_label = t ''common.test'' [], tb_disabled = False, tb_outcome = None\<rparr>)"

record AliasRow =
  alr_alias :: string
  alr_dimmed :: bool
  alr_routes :: "string + RouteBadge list"
  alr_notes :: string
  alr_enabled :: bool
  alr_toggleDisabled :: bool
  alr_warning :: "(string \<times> string) option"
  alr_test :: TestButton
  alr_edit :: string
  alr_delete :: "string \<times> bool"

definition alias_row :: "translator \<Rightarrow> RoutesPage \<Rightarrow> ModelAlias \<Rightarrow> AliasRow" where
  "alias_row t s alias =
     \<lparr>alr_alias = al_alias alias,
      alr_dimmed = (\<not> al_enabled alias),
      alr_routes = RouteMapRouteList t
        (map (getAliasRoute alias (rp_providers s) From_alias) (getAliasTargets alias)) (t ''routes.routeMapNoRoute'' []),
      alr_notes = (case al_description alias of Some d \<Rightarrow> d | None \<Rightarrow> unicode [0x2014]),
      alr_enabled = al_enabled alias,
      alr_toggleDisabled = (rp_togglingId s = Some (al_id alias)),
      alr_warning = (if al_enabled alias then map_option (warning_view t) (AliasStatus alias (rp_providers s)) else None),
      alr_test = test_button t (map_get (rp_testResults s) (al_id alias)),
      alr_edit = t ''common.edit'' [],
      alr_delete = (t ''common.delete'' [], rp_deletingId s = Some (al_id alias))\<rparr>"

definition alias_table :: "translator \<Rightarrow> RoutesPage \<Rightarrow> AliasRow table_view" where
  "alias_table t s =
     (case rp_aliases s of
        None \<Rightarrow> Table_skeleton
      | Some [] \<Rightarrow> Table_empty (t ''routes.emptyTitle'' []) (t ''routes.emptyDescription'' [])
      | Some aliases \<Rightarrow> Table_rows
          [t ''routes.colAlias'' [], t ''routes.colTargets'' [], t ''routes.colNotes'' [],
           t ''routes.colStatus'' [], t ''routes.colActions'' []]
          (map (alias_row t s) aliases))"

section \<open>The dialog of an alias\<close>

record TargetView =
  tv_provider :: string
  tv_providerPlaceholder :: string
  tv_providers :: "(string \<times> string \<times> string list) list" \<comment> \<open>value, name and badges of each choice\<close>
  tv_model :: string
  tv_models :: "string list"
  tv_modelDisabled :: bool
  tv_modelPlaceholder :: string
  tv_remove :: "string \<times> bool"

definition provider_choice :: "translator \<Rightarrow> ProviderInfo \<Rightarrow> string \<times> string \<times> string list" where
  "provider_choice t p =
     (getProviderRef p, pv_channelName p,
      [if pv_routingVisibility p = Explicit_only then t ''routes.providerExplicitOnly'' [] else t ''routes.providerDirect'' []] @
      (if pv_enabled p then [] else [t ''common.disabled'' []]))"

definition target_view ::
    "translator \<Rightarrow> ProviderInfo list \<Rightarrow> RouteTargetDraft list \<Rightarrow> nat \<times> RouteTargetDraft \<Rightarrow> TargetView" where
  "target_view t providers targets = (\<lambda>(index, target).
     (let availableModels = target_models providers target
      in \<lparr>tv_provider = td_provider target,
          tv_providerPlaceholder = t ''routes.selectProvider'' [],
          tv_providers = map (provider_choice t) providers,
          tv_model = td_model target,
          tv_models = availableModels,
          tv_modelDisabled = (td_provider target = [] \<or> availableModels = []),
          tv_modelPlaceholder = (if td_provider target = [] then t ''routes.selectFirstProvider'' []
            else if availableModels = [] then t ''routes.noProviderModels'' [] else t ''routes.selectTargetModel'' []),
          tv_remove = (if index = 0 then t ''routes.routeTargetPrimary'' [] else t ''common.delete'' [],
            length targets \<le> 1)\<rparr>))"

record AliasFormView =
  afv_alias :: "string \<times> string \<times> string" \<comment> \<open>label, hint, value\<close>
  afv_targets :: "string \<times> string \<times> string \<times> TargetView list"
  afv_visible :: "bool \<times> string \<times> string"
  afv_notes :: "string \<times> string \<times> string"

definition AliasForm :: "translator \<Rightarrow> string \<Rightarrow> ProviderInfo list \<Rightarrow> AliasDraft \<Rightarrow> AliasFormView" where
  "AliasForm t uuid providers draft =
     (let targets = form_targets uuid draft
      in \<lparr>afv_alias = (t ''routes.aliasLabel'' [], t ''routes.aliasHint'' [], ad_alias draft),
          afv_targets = (t ''routes.routeTargetsLabel'' [], t ''routes.routeTargetsHint'' [], t ''routes.routeTargetAdd'' [],
            map (target_view t providers targets) (enumerate 0 targets)),
          afv_visible = (ad_visible draft, t ''routes.visibleToClients'' [], t ''routes.visibleToClientsHint'' []),
          afv_notes = (t ''routes.notesLabel'' [], t ''routes.notesPlaceholder'' [], ad_description draft)\<rparr>)"

record AliasDialog =
  adv_title :: string
  adv_description :: string
  adv_form :: AliasFormView
  adv_error :: "string option"
  adv_cancel :: "string \<times> bool"
  adv_save :: "string \<times> bool"

definition alias_dialog :: "translator \<Rightarrow> string \<Rightarrow> RoutesPage \<Rightarrow> AliasDialog" where
  "alias_dialog t uuid s =
     \<lparr>adv_title = (if rp_editTarget s \<noteq> None then t ''routes.editDialogTitle'' [] else t ''routes.createDialogTitle'' []),
      adv_description = (if rp_editTarget s \<noteq> None then t ''routes.editDialogDesc'' [] else t ''routes.createDialogDesc'' []),
      adv_form = AliasForm t uuid (rp_providers s) (rp_draft s),
      adv_error = (if rp_submitError s \<noteq> [] then Some (rp_submitError s) else None),
      adv_cancel = (t ''common.cancel'' [], rp_submitting s),
      adv_save = (if rp_submitting s then t ''common.saving'' [] else t ''common.save'' [], rp_submitting s)\<rparr>"

section \<open>The failover form\<close>

definition failoverModeLabel :: "translator \<Rightarrow> FailoverFormState option \<Rightarrow> string" where
  "failoverModeLabel t form =
     (case form of
        Some f \<Rightarrow>
          (case ff_modelFallbackMode f of
             Any_model \<Rightarrow> t ''routes.failoverModeAnyModel'' []
           | Same_model \<Rightarrow> t ''routes.failoverModeSameModel'' []
           | Fallback_disabled \<Rightarrow> t ''routes.failoverModeDisabled'' [])
      | None \<Rightarrow> t ''routes.failoverModeDisabled'' [])"

definition policy_time :: "(int \<Rightarrow> string \<Rightarrow> string) \<Rightarrow> int option \<Rightarrow> string \<Rightarrow> string" where
  "policy_time date_text timestamp language =
     (case timestamp of
        None \<Rightarrow> ''--''
      | Some ts \<Rightarrow> if ts = 0 then ''--'' else date_text ts (if language = ''en'' then ''en-US'' else ''zh-CN''))"

record NumberField =
  nf_label :: string
  nf_value :: string
  nf_min :: int
  nf_max :: int
  nf_hint :: string

definition number_field :: "translator \<Rightarrow> string \<Rightarrow> string \<Rightarrow> IntLimit \<Rightarrow> NumberField" where
  "number_field t label v limit =
     \<lparr>nf_label = label, nf_value = v, nf_min = lim_min limit, nf_max = lim_max limit,
      nf_hint = t ''routes.failoverRangeHint'' [(''min'', int_val (lim_min limit)), (''max'', int_val (lim_max limit))]\<rparr>"

record FailoverView =
  fov_enabled :: "string \<times> bool \<times> string \<times> string"
  fov_mode :: "string \<times> ModelFallbackMode \<times> (ModelFallbackMode \<times> string) list \<times> string"
  fov_numbers :: "NumberField list"
  fov_triggers :: "string \<times> (string \<times> bool) list \<times> string"
  fov_custom :: "string \<times> string"
  fov_addRule :: "string \<times> bool"
  fov_rules :: "string + (string \<times> string \<times> string \<times> string) list" \<comment> \<open>labels with model and fallbacks\<close>
  fov_ruleTexts :: "string \<times> string \<times> string"
  fov_summary :: "(string \<times> string) list"

definition failover_view ::
    "translator \<Rightarrow> FailoverFormState \<Rightarrow> GatewayFailoverPolicyPayload \<Rightarrow> FailoverView" where
  "failover_view t form policy =
     (let limits = fpp_limits policy; rules = ff_customModelFallbacks form;
          retryLabel = t ''routes.failoverRetryAttempts'' []; maxLabel = t ''routes.failoverMaxFallbackAttempts'' []
      in \<lparr>fov_enabled = (t ''routes.failoverEnabled'' [], ff_enabled form,
            if ff_enabled form then t ''common.enabled'' [] else t ''common.disabled'' [], t ''routes.failoverEnabledHint'' []),
          fov_mode = (t ''routes.failoverMode'' [], ff_modelFallbackMode form,
            [(Fallback_disabled, t ''routes.failoverModeDisabled'' []), (Same_model, t ''routes.failoverModeSameModel'' []),
             (Any_model, t ''routes.failoverModeAnyModel'' [])], t ''routes.failoverModeHint'' []),
          fov_numbers = [number_field t retryLabel (ff_retryAttempts form) (fl_retryAttempts limits),
            number_field t maxLabel (ff_maxFallbackAttempts form) (fl_maxFallbackAttempts limits)],
          fov_triggers = (t ''routes.failoverTriggers'' [],
            [(t ''routes.failoverTriggerTimeout'' [], ff_retryOnTimeout form),
             (t ''routes.failoverTriggerNetwork'' [], ff_retryOnNetworkError form),
             (t ''routes.failoverTrigger429'' [], ff_retryOn429 form),
             (t ''routes.failoverTrigger5xx'' [], ff_retryOn5xx form)], t ''routes.failoverTriggersHint'' []),
          fov_custom = (t ''routes.failoverCustomTitle'' [], t ''routes.failoverCustomDesc'' []),
          fov_addRule = (t ''routes.failoverCustomAdd'' [],
            lim_max (fl_customModelFallbackRules limits) \<le> int (length rules)),
          fov_rules = (if rules = [] then Inl (t ''routes.failoverCustomEmpty'' [])
            else Inr (map (\<lambda>rule. (t ''routes.failoverCustomRequestModel'' [], frd_model rule,
              t ''routes.failoverCustomFallbackModels'' [], frd_fallbacksText rule)) rules)),
          fov_ruleTexts = (t ''routes.failoverCustomFallbackPlaceholder'' [], t ''routes.failoverCustomFallbackHint'' [],
            t ''common.delete'' []),
          fov_summary = [(t ''routes.failoverCurrentMode'' [], failoverModeLabel t (Some form)),
            (retryLabel, ff_retryAttempts form), (maxLabel, ff_maxFallbackAttempts form),
            (t ''routes.failoverCustomRuleCount'' [], nat_str (length rules))]\<rparr>)"

text \<open>The help beside the form: heading and body of its three parts, and the example.\<close>

definition failover_help :: "translator \<Rightarrow> string \<times> string \<times> string \<times> (string \<times> string) list \<times> string list" where
  "failover_help t =
     (t ''common.help'' [], t ''routes.failoverHelpTitle'' [], t ''routes.failoverHelpDesc'' [],
      [(t ''routes.failoverHelpCustomTitle'' [], t ''routes.failoverHelpCustomBody'' []),
       (t ''routes.failoverHelpAliasTitle'' [], t ''routes.failoverHelpAliasBody'' []),
       (t ''routes.failoverHelpOrderTitle'' [], t ''routes.failoverHelpOrderBody'' [])],
      [t ''routes.failoverHelpExampleRequest'' [] @ '': gpt-4o'',
       t ''routes.failoverHelpExampleFallbacks'' [] @ '': mini, backup:gpt-4o-mini''])"

section \<open>The page\<close>

record RoutesView =
  rov_title :: "string \<times> string"
  rov_refresh :: "string \<times> bool"
  rov_newAlias :: string
  rov_failoverTitle :: "string \<times> string"
  rov_updatedAt :: "string option"
  rov_help :: "string \<times> string \<times> string \<times> (string \<times> string) list \<times> string list"
  rov_reset :: "string \<times> bool"
  rov_save :: "string \<times> bool"
  rov_failover :: "FailoverView option"
  rov_failoverNotes :: "string list"
  rov_mapTitle :: "string \<times> string"
  rov_map :: "RouteMapRow table_view"
  rov_error :: "string option"
  rov_aliases :: "AliasRow table_view"
  rov_dialog :: "AliasDialog option"

definition routes_view ::
    "translator \<Rightarrow> collation \<Rightarrow> (int \<Rightarrow> string \<Rightarrow> string) \<Rightarrow> string \<Rightarrow> string \<Rightarrow> RoutesPage \<Rightarrow> RoutesView" where
  "routes_view t lc date_text language uuid s =
     \<lparr>rov_title = (t ''routes.title'' [],
        t ''routes.description'' [(''interpolation'', JObj [(''escapeValue'', JBool False)])]),
      rov_refresh = (t ''common.refresh'' [], rp_loading s),
      rov_newAlias = t ''routes.newAlias'' [],
      rov_failoverTitle = (t ''routes.failoverTitle'' [], t ''routes.failoverDesc'' []),
      rov_updatedAt = map_option (\<lambda>p. t ''routes.failoverUpdatedAt''
        [(''time'', JStr (policy_time date_text (fpp_updatedAt p) language))]) (rp_failoverPolicy s),
      rov_help = failover_help t,
      rov_reset = (t ''routes.failoverReset'' [], rp_failoverPolicy s = None \<or> rp_savingFailover s),
      rov_save = (if rp_savingFailover s then t ''common.saving'' [] else t ''common.save'' [],
        rp_failoverPolicy s = None \<or> rp_failoverForm s = None \<or> rp_savingFailover s),
      rov_failover = (case (rp_failoverForm s, rp_failoverPolicy s) of
          (Some form, Some policy) \<Rightarrow> Some (failover_view t form policy) | _ \<Rightarrow> None),
      rov_failoverNotes = filter (\<lambda>m. m \<noteq> []) [rp_failoverError s, rp_failoverFeedback s],
      rov_mapTitle = (t ''routes.routeMapTitle'' [], t ''routes.routeMapDesc'' []),
      rov_map = route_map_table t lc s,
      rov_error = (if rp_error s \<noteq> [] then Some (rp_error s) else None),
      rov_aliases = alias_table t s,
      rov_dialog = (if rp_dialogOpen s then Some (alias_dialog t uuid s) else None)\<rparr>"

end
