(* ===== verification/Keys.thy ===== *)
theory Keys
  imports Api Json_Roundtrip Format Keyed_List Route_Map Clipboard
begin

text \<open>
  \<open>components/keys-page.tsx\<close>: the managed API keys, their quotas and the models they may use. Handlers are
  cut at their \<open>await\<close>; \<open>confirm\<close>, the clipboard and \<open>localeCompare\<close> are arguments.
\<close>

section \<open>State\<close>

record KeysPage =
  kp_keys :: "ManagedApiKey list option"
  kp_error :: string
  kp_feedback :: string
  kp_createOpen :: bool
  kp_renameOpen :: bool
  kp_modelsOpen :: bool
  kp_quotaOpen :: bool
  kp_creating :: bool
  kp_renamingId :: "string option"
  kp_deletingId :: "string option"
  kp_savingModelsId :: "string option"
  kp_savingQuotaId :: "string option"
  kp_newKeyName :: string
  kp_newKeyQuotaDraft :: string
  kp_renameDraft :: string
  kp_renameTarget :: "ManagedApiKey option"
  kp_visibleKey :: "ManagedApiKeyDetail option"
  kp_modelsTarget :: "ManagedApiKey option"
  kp_quotaTarget :: "ManagedApiKey option"
  kp_quotaDraft :: string
  kp_modelsDraft :: "string list"
  kp_modelsInput :: string
  kp_configuredModels :: "GatewayModel list"
  kp_modelsChannelFilter :: string
  kp_modelsModelSelect :: string
  kp_unauthorized :: nat

definition keys_page_init :: KeysPage where
  "keys_page_init =
     \<lparr>kp_keys = None, kp_error = [], kp_feedback = [], kp_createOpen = False, kp_renameOpen = False,
      kp_modelsOpen = False, kp_quotaOpen = False, kp_creating = False, kp_renamingId = None,
      kp_deletingId = None, kp_savingModelsId = None, kp_savingQuotaId = None, kp_newKeyName = [],
      kp_newKeyQuotaDraft = [], kp_renameDraft = [], kp_renameTarget = None, kp_visibleKey = None,
      kp_modelsTarget = None, kp_quotaTarget = None, kp_quotaDraft = [], kp_modelsDraft = [],
      kp_modelsInput = [], kp_configuredModels = [], kp_modelsChannelFilter = [], kp_modelsModelSelect = [],
      kp_unauthorized = 0\<rparr>"

text \<open>The \<open>catch\<close> of every handler.\<close>

definition key_error :: "string \<Rightarrow> KeysPage \<Rightarrow> KeysPage" where
  "key_error message s =
     (if message = ''unauthorized'' then s\<lparr>kp_unauthorized := kp_unauthorized s + 1\<rparr> else s\<lparr>kp_error := message\<rparr>)"

definition showFeedback :: "string \<Rightarrow> KeysPage \<Rightarrow> KeysPage" where
  "showFeedback message s = s\<lparr>kp_feedback := message\<rparr>"

definition feedback_expires :: "KeysPage \<Rightarrow> KeysPage" where
  "feedback_expires s = s\<lparr>kp_feedback := []\<rparr>"

definition loadKeys_end :: "ManagedApiKey list result \<Rightarrow> KeysPage \<Rightarrow> KeysPage" where
  "loadKeys_end r s =
     (case r of Inr keys \<Rightarrow> s\<lparr>kp_keys := Some keys, kp_error := []\<rparr> | Inl message \<Rightarrow> key_error message s)"

definition loadConfiguredModels_end :: "ConsoleModelsPayload result \<Rightarrow> KeysPage \<Rightarrow> KeysPage" where
  "loadConfiguredModels_end r s =
     (case r of
        Inr data \<Rightarrow> s\<lparr>kp_configuredModels := cm_anthropic data @ cm_openai data\<rparr>
      | Inl message \<Rightarrow> key_error message s)"

definition current_keys :: "KeysPage \<Rightarrow> ManagedApiKey list" where
  "current_keys s = (case kp_keys s of Some keys \<Rightarrow> keys | None \<Rightarrow> [])"

section \<open>Creating, renaming, deleting\<close>

text \<open>An empty text is no quota; any other must be a finite number that is not negative.\<close>

definition parse_quota :: "string \<Rightarrow> jsnum option" where
  "parse_quota draft = (let trimmed = trim draft in if trimmed = [] then None else Some (string_to_number trimmed))"

definition quota_invalid :: "jsnum option \<Rightarrow> bool" where
  "quota_invalid quota =
     (case quota of None \<Rightarrow> False | Some n \<Rightarrow> \<not> is_finite n \<or> num_less n (Fin 0))"

definition handleCreate_start :: "translator \<Rightarrow> KeysPage \<Rightarrow> KeysPage \<times> HttpRequest option" where
  "handleCreate_start t s =
     (let name = trim (kp_newKeyName s); costQuota = parse_quota (kp_newKeyQuotaDraft s)
      in if name = [] then (s\<lparr>kp_error := t ''keys.nameEmptyError'' []\<rparr>, None)
         else if quota_invalid costQuota then (s\<lparr>kp_error := t ''keys.quotaValidation'' []\<rparr>, None)
         else (s\<lparr>kp_creating := True\<rparr>, Some (createKey name costQuota)))"

definition detail_of :: "ManagedApiKey \<Rightarrow> string \<Rightarrow> ManagedApiKeyDetail" where
  \<comment> \<open>\<open>{ ...record, key }\<close>\<close>
  "detail_of k secret = ManagedApiKey.extend k \<lparr>akd_key = secret\<rparr>"

definition handleCreate_end :: "ConsoleCreateKeyPayload result \<Rightarrow> KeysPage \<Rightarrow> KeysPage" where
  "handleCreate_end r s =
     (case r of
        Inr created \<Rightarrow>
          s\<lparr>kp_keys := Some (prepend_item (ck_record created) (current_keys s)),
            kp_visibleKey := Some (detail_of (ck_record created) (ck_key created)),
            kp_createOpen := False, kp_newKeyName := [], kp_newKeyQuotaDraft := [], kp_error := []\<rparr>
      | Inl message \<Rightarrow> key_error message s)\<lparr>kp_creating := False\<rparr>"

definition openRename :: "ManagedApiKey \<Rightarrow> KeysPage \<Rightarrow> KeysPage" where
  "openRename key s = s\<lparr>kp_renameTarget := Some key, kp_renameDraft := ak_name key, kp_renameOpen := True\<rparr>"

definition handleRename_start :: "translator \<Rightarrow> KeysPage \<Rightarrow> KeysPage \<times> (string \<times> HttpRequest) option" where
  "handleRename_start t s =
     (case kp_renameTarget s of
        None \<Rightarrow> (s, None)
      | Some target \<Rightarrow>
          (let nextName = trim (kp_renameDraft s)
           in if nextName = [] then (s\<lparr>kp_error := t ''keys.nameEmptyError'' []\<rparr>, None)
              else (s\<lparr>kp_renamingId := Some (ak_id target)\<rparr>, Some (ak_id target, renameKey (ak_id target) nextName))))"

text \<open>The answer of a rename holds only some of the key's data; the rest is kept.\<close>

record RenamedKey =
  rk_id :: string
  rk_name :: string
  rk_prefix :: string
  rk_created_at :: int
  rk_last_used_at :: "int option"

definition merge_renamed :: "RenamedKey \<Rightarrow> ManagedApiKey \<Rightarrow> ManagedApiKey" where
  "merge_renamed updated item =
     item\<lparr>ak_id := rk_id updated, ak_name := rk_name updated, ak_prefix := rk_prefix updated,
          ak_created_at := rk_created_at updated, ak_last_used_at := rk_last_used_at updated\<rparr>"

definition visible_is :: "string \<Rightarrow> KeysPage \<Rightarrow> bool" where
  "visible_is k s = (case kp_visibleKey s of Some d \<Rightarrow> ak_id d = k | None \<Rightarrow> False)"

definition handleRename_end :: "translator \<Rightarrow> string \<Rightarrow> RenamedKey result \<Rightarrow> KeysPage \<Rightarrow> KeysPage" where
  "handleRename_end t target r s =
     (case r of
        Inr updated \<Rightarrow> showFeedback (t ''keys.keyNameUpdated'' [])
          (s\<lparr>kp_keys := Some (update_key ak_id target (merge_renamed updated) (current_keys s)),
             kp_visibleKey := (if visible_is target s
               then map_option (\<lambda>d. d\<lparr>ak_name := rk_name updated\<rparr>) (kp_visibleKey s) else kp_visibleKey s),
             kp_renameOpen := False, kp_renameTarget := None, kp_renameDraft := [], kp_error := []\<rparr>)
      | Inl message \<Rightarrow> key_error message s)\<lparr>kp_renamingId := None\<rparr>"

definition handleDelete_start :: "bool \<Rightarrow> ManagedApiKey \<Rightarrow> KeysPage \<Rightarrow> KeysPage \<times> HttpRequest option" where
  "handleDelete_start confirmed key s =
     (if confirmed then (s\<lparr>kp_deletingId := Some (ak_id key)\<rparr>, Some (deleteKey (ak_id key))) else (s, None))"

definition handleDelete_end :: "string \<Rightarrow> unit result \<Rightarrow> KeysPage \<Rightarrow> KeysPage" where
  "handleDelete_end key r s =
     (case r of
        Inr _ \<Rightarrow> s\<lparr>kp_keys := Some (remove_key ak_id key (current_keys s)),
                  kp_visibleKey := (if visible_is key s then None else kp_visibleKey s), kp_error := []\<rparr>
      | Inl message \<Rightarrow> key_error message s)\<lparr>kp_deletingId := None\<rparr>"

section \<open>Quotas\<close>

definition openQuotaDialog :: "ManagedApiKey \<Rightarrow> KeysPage \<Rightarrow> KeysPage" where
  "openQuotaDialog key s =
     s\<lparr>kp_quotaTarget := Some key,
       kp_quotaDraft := (case ak_cost_quota key of None \<Rightarrow> [] | Some q \<Rightarrow> number_to_string q),
       kp_quotaOpen := True\<rparr>"

definition closeQuotaDialog :: "KeysPage \<Rightarrow> KeysPage" where
  "closeQuotaDialog s = s\<lparr>kp_quotaOpen := False, kp_quotaTarget := None\<rparr>"

definition handleSaveQuota_start :: "translator \<Rightarrow> KeysPage \<Rightarrow> KeysPage \<times> (string \<times> HttpRequest) option" where
  "handleSaveQuota_start t s =
     (case kp_quotaTarget s of
        None \<Rightarrow> (s, None)
      | Some target \<Rightarrow>
          (let costQuota = parse_quota (kp_quotaDraft s)
           in if quota_invalid costQuota then (s\<lparr>kp_error := t ''keys.quotaValidation'' []\<rparr>, None)
              else (s\<lparr>kp_savingQuotaId := Some (ak_id target)\<rparr>, Some (ak_id target, setKeyCostQuota (ak_id target) costQuota))))"

definition handleSaveQuota_end :: "translator \<Rightarrow> string \<Rightarrow> ManagedApiKey result \<Rightarrow> KeysPage \<Rightarrow> KeysPage" where
  "handleSaveQuota_end t target r s =
     (case r of
        Inr updated \<Rightarrow> showFeedback (t ''keys.quotaUpdated'' [])
          (s\<lparr>kp_keys := Some (update_key ak_id target (\<lambda>_. updated) (current_keys s)),
             kp_visibleKey := (if visible_is target s
               then map_option (\<lambda>d. detail_of updated (akd_key d)) (kp_visibleKey s) else kp_visibleKey s),
             kp_quotaOpen := False, kp_quotaTarget := None, kp_error := []\<rparr>)
      | Inl message \<Rightarrow> key_error message s)\<lparr>kp_savingQuotaId := None\<rparr>"

section \<open>Copying a key\<close>

definition copy_start :: "ManagedApiKey \<Rightarrow> HttpRequest" where
  "copy_start key = getKey (ak_id key)"

text \<open>
  After the answer the key goes to the clipboard and the page says whether that worked; nothing catches the error
  of a refused request. \<open>allowed\<close> is the browser's leave to write to the clipboard.
\<close>

definition copy_feedback :: "translator \<Rightarrow> bool \<Rightarrow> string" where
  "copy_feedback t copied = (if copied then t ''keys.keyCopied'' [] else t ''keys.copyFailed'' [])"

definition copy_end ::
    "translator \<Rightarrow> bool \<Rightarrow> ManagedApiKeyDetail result \<Rightarrow> KeysPage \<times> Clipboard \<Rightarrow> KeysPage \<times> Clipboard" where
  "copy_end t allowed r s =
     (case r of
        Inr detail \<Rightarrow> (case keys_copyText allowed (akd_key detail) (snd s) of (clip, copied) \<Rightarrow>
          (showFeedback (copy_feedback t copied) (fst s), clip))
      | Inl message \<Rightarrow> s)"

definition copy_visible :: "translator \<Rightarrow> bool \<Rightarrow> KeysPage \<times> Clipboard \<Rightarrow> KeysPage \<times> Clipboard" where
  "copy_visible t allowed s =
     (case kp_visibleKey (fst s) of
        None \<Rightarrow> s
      | Some d \<Rightarrow>
          if akd_key d = [] then s
          else case keys_copyText allowed (akd_key d) (snd s) of (clip, copied) \<Rightarrow>
            (showFeedback (copy_feedback t copied) (fst s), clip))"

definition closeVisible :: "KeysPage \<Rightarrow> KeysPage" where
  "closeVisible s = s\<lparr>kp_visibleKey := None\<rparr>"

section \<open>Allowed models\<close>

definition openModelsDialog :: "ManagedApiKey \<Rightarrow> KeysPage \<Rightarrow> KeysPage" where
  "openModelsDialog key s =
     s\<lparr>kp_modelsTarget := Some key, kp_modelsDraft := ak_allowed_models key, kp_modelsInput := [],
       kp_modelsChannelFilter := [], kp_modelsModelSelect := [], kp_modelsOpen := True\<rparr>"

definition closeModelsDialog :: "KeysPage \<Rightarrow> KeysPage" where
  "closeModelsDialog s = s\<lparr>kp_modelsOpen := False, kp_modelsTarget := None\<rparr>"

definition addModelRestriction :: "string \<Rightarrow> KeysPage \<Rightarrow> KeysPage" where
  "addModelRestriction text s =
     (let model = trim text
      in if model = [] \<or> model \<in> set (kp_modelsDraft s) then s
         else s\<lparr>kp_modelsDraft := kp_modelsDraft s @ [model]\<rparr>)"

definition handleModelsInputKeyDown :: "string \<Rightarrow> KeysPage \<Rightarrow> KeysPage" where
  "handleModelsInputKeyDown pressed s =
     (if pressed = ''Enter'' then (addModelRestriction (kp_modelsInput s) s)\<lparr>kp_modelsInput := []\<rparr> else s)"

definition modelChannelOptions :: "collation \<Rightarrow> KeysPage \<Rightarrow> string list" where
  "modelChannelOptions lc s =
     js_sort (\<lambda>l r. 0 < lc l r) (new_Set (map gm_channelName (kp_configuredModels s)))"

record ModelOption =
  mo_value :: string
  mo_label :: string
  mo_modelId :: string

definition model_option :: "GatewayModel \<Rightarrow> ModelOption" where
  "model_option model =
     \<lparr>mo_value = json_stringify (JArr [JStr (gm_channelName model), JStr (gm_id model)]),
      mo_label = gm_channelName model @ '' / '' @ gm_id model, mo_modelId = gm_id model\<rparr>"

definition configuredModelOptions :: "collation \<Rightarrow> KeysPage \<Rightarrow> ModelOption list" where
  "configuredModelOptions lc s =
     js_sort (\<lambda>l r. 0 < lc (mo_label l) (mo_label r))
       (map model_option
         (if kp_modelsChannelFilter s \<noteq> []
          then filter (\<lambda>m. gm_channelName m = kp_modelsChannelFilter s) (kp_configuredModels s)
          else kp_configuredModels s))"

definition handleSelectConfiguredModel :: "collation \<Rightarrow> string \<Rightarrow> KeysPage \<Rightarrow> KeysPage" where
  "handleSelectConfiguredModel lc val s =
     (case find (\<lambda>item. mo_value item = val) (configuredModelOptions lc s) of
        Some option \<Rightarrow> (addModelRestriction (mo_modelId option) s)\<lparr>kp_modelsModelSelect := []\<rparr>
      | None \<Rightarrow> s\<lparr>kp_modelsModelSelect := val\<rparr>)"

definition choose_channel :: "string \<Rightarrow> KeysPage \<Rightarrow> KeysPage" where
  "choose_channel channel s = s\<lparr>kp_modelsChannelFilter := channel, kp_modelsModelSelect := []\<rparr>"

definition removeModel :: "string \<Rightarrow> KeysPage \<Rightarrow> KeysPage" where
  "removeModel model s = s\<lparr>kp_modelsDraft := filter (\<lambda>m. m \<noteq> model) (kp_modelsDraft s)\<rparr>"

definition handleSaveModels_start :: "KeysPage \<Rightarrow> KeysPage \<times> (string \<times> HttpRequest) option" where
  "handleSaveModels_start s =
     (case kp_modelsTarget s of
        None \<Rightarrow> (s, None)
      | Some target \<Rightarrow>
          (s\<lparr>kp_savingModelsId := Some (ak_id target)\<rparr>,
           Some (ak_id target, setKeyAllowedModels (ak_id target) (kp_modelsDraft s))))"

definition handleSaveModels_end :: "translator \<Rightarrow> string \<Rightarrow> ManagedApiKey result \<Rightarrow> KeysPage \<Rightarrow> KeysPage" where
  "handleSaveModels_end t target r s =
     (case r of
        Inr updated \<Rightarrow> showFeedback (t ''keys.allowedModelsUpdated'' [])
          (s\<lparr>kp_keys := Some (update_key ak_id target (\<lambda>_. updated) (current_keys s)),
             kp_modelsOpen := False, kp_modelsTarget := None, kp_error := []\<rparr>)
      | Inl message \<Rightarrow> key_error message s)\<lparr>kp_savingModelsId := None\<rparr>"

section \<open>Runs\<close>

text \<open>The answers that change the list of keys, as the page receives them.\<close>

datatype KeyEvent =
    KeyCreated "ConsoleCreateKeyPayload result"
  | KeyRenamed string "RenamedKey result"
  | QuotaSaved string "ManagedApiKey result"
  | ModelsSaved string "ManagedApiKey result"
  | KeyDeleted string "unit result"
  | SecretClosed

fun key_event :: "translator \<Rightarrow> KeyEvent \<Rightarrow> KeysPage \<Rightarrow> KeysPage" where
  "key_event t (KeyCreated r) s = handleCreate_end r s"
| "key_event t (KeyRenamed target r) s = handleRename_end t target r s"
| "key_event t (QuotaSaved target r) s = handleSaveQuota_end t target r s"
| "key_event t (ModelsSaved target r) s = handleSaveModels_end t target r s"
| "key_event t (KeyDeleted key r) s = handleDelete_end key r s"
| "key_event t SecretClosed s = closeVisible s"

fun key_answers :: "KeyEvent \<Rightarrow> (ManagedApiKey, string) answer list" where
  "key_answers (KeyCreated (Inr c)) = [Created (ck_record c)]"
| "key_answers (KeyRenamed target (Inr u)) = [Updated target (merge_renamed u)]"
| "key_answers (QuotaSaved target (Inr k)) = [Updated target (\<lambda>_. k)]"
| "key_answers (ModelsSaved target (Inr k)) = [Updated target (\<lambda>_. k)]"
| "key_answers (KeyDeleted key (Inr _)) = [Deleted key]"
| "key_answers _ = []"

text \<open>The edits of the dialog of allowed models.\<close>

datatype ModelsEvent =
    TypeModel string
  | KeyDown string
  | SelectModel string
  | ChooseChannel string
  | RemoveModel string

fun models_event :: "collation \<Rightarrow> ModelsEvent \<Rightarrow> KeysPage \<Rightarrow> KeysPage" where
  "models_event lc (TypeModel text) s = s\<lparr>kp_modelsInput := text\<rparr>"
| "models_event lc (KeyDown k) s = handleModelsInputKeyDown k s"
| "models_event lc (SelectModel v) s = handleSelectConfiguredModel lc v s"
| "models_event lc (ChooseChannel c) s = choose_channel c s"
| "models_event lc (RemoveModel m) s = removeModel m s"

interpretation key_store: mirrored_store "ak_id :: ManagedApiKey \<Rightarrow> string" "find_key ak_id" prepend_item "update_key ak_id" "remove_key ak_id"
proof (rule mirrored_store.intro)
  fix s k k' f and x :: ManagedApiKey
  show "(\<And>x :: ManagedApiKey. ak_id x = k' \<Longrightarrow> ak_id (f x) = k') \<Longrightarrow>
      find_key ak_id (update_key ak_id k' f s) k = (if k = k' then map_option f (find_key ak_id s k') else find_key ak_id s k)"
    by (rule find_key_update)
qed (rule find_key_prepend find_key_remove)+

lemma key_error_frame [simp]:
  "kp_keys (key_error m s) = kp_keys s" "kp_visibleKey (key_error m s) = kp_visibleKey s"
  by (simp_all add: key_error_def)

lemmas key_handler_defs = handleCreate_end_def handleRename_end_def handleSaveQuota_end_def
  handleSaveModels_end_def handleDelete_end_def showFeedback_def closeVisible_def

lemma key_event_list:
  assumes "kp_keys s = Some xs"
  shows "kp_keys (key_event t e s) = Some (fold key_store.page_step (key_answers e) xs)"
proof (cases e)
  case (KeyCreated r)
  then show ?thesis using assms by (cases r) (simp_all add: key_handler_defs current_keys_def)
next
  case (KeyRenamed target r)
  then show ?thesis using assms by (cases r) (simp_all add: key_handler_defs current_keys_def)
next
  case (QuotaSaved target r)
  then show ?thesis using assms by (cases r) (simp_all add: key_handler_defs current_keys_def)
next
  case (ModelsSaved target r)
  then show ?thesis using assms by (cases r) (simp_all add: key_handler_defs current_keys_def)
next
  case (KeyDeleted key r)
  then show ?thesis using assms by (cases r) (simp_all add: key_handler_defs current_keys_def)
qed (simp add: assms closeVisible_def)

lemma key_events_list:
  "kp_keys s = Some xs \<Longrightarrow>
     kp_keys (fold (key_event t) es s) = Some (fold key_store.page_step (concat (map key_answers es)) xs)"
  by (induction es arbitrary: s xs) (simp_all add: key_event_list)

text \<open>The id of the key whose secret is shown, and the ids of the table.\<close>

definition secret_id :: "KeysPage \<Rightarrow> string option" where
  "secret_id s = map_option ak_id (kp_visibleKey s)"

fun secret_after :: "KeyEvent \<Rightarrow> string option \<Rightarrow> string option" where
  "secret_after (KeyCreated (Inr c)) v = Some (ak_id (ck_record c))"
| "secret_after (QuotaSaved target (Inr k)) v = (if v = Some target then Some (ak_id k) else v)"
| "secret_after (KeyDeleted key (Inr _)) v = (if v = Some key then None else v)"
| "secret_after SecretClosed v = None"
| "secret_after _ v = v"

lemma ak_id_detail_of [simp]: "ak_id (detail_of k secret) = ak_id k"
  by (simp add: detail_of_def ManagedApiKey.defs)

lemma secret_id_event: "secret_id (key_event t e s) = secret_after e (secret_id s)"
proof (cases e)
  case (KeyCreated r)
  then show ?thesis by (cases r) (simp_all add: key_handler_defs secret_id_def)
next
  case (KeyRenamed target r)
  then show ?thesis
    by (cases r) (simp_all add: key_handler_defs secret_id_def option.map_comp comp_def)
next
  case (QuotaSaved target r)
  then show ?thesis
    by (cases r; cases "kp_visibleKey s") (simp_all add: key_handler_defs secret_id_def visible_is_def)
next
  case (ModelsSaved target r)
  then show ?thesis by (cases r) (simp_all add: key_handler_defs secret_id_def)
next
  case (KeyDeleted key r)
  then show ?thesis
    by (cases r; cases "kp_visibleKey s") (simp_all add: key_handler_defs secret_id_def visible_is_def)
qed (simp add: secret_id_def closeVisible_def)

lemma selector_surj_key: "\<exists>x :: ManagedApiKey. ak_id x = k"
  by (rule exI[of _ "undefined\<lparr>ak_id := k\<rparr>"]) simp

definition secret_listed :: "string option \<Rightarrow> (string \<rightharpoonup> ManagedApiKey) \<Rightarrow> bool" where
  "secret_listed v m = (case v of None \<Rightarrow> True | Some k \<Rightarrow> m k \<noteq> None)"

lemma server_allows_append:
  "server_allows key (as @ bs) m = (server_allows key as m \<and> server_allows key bs (fold (server_step key) as m))"
  by (induction as arbitrary: m) auto

lemma secret_listed_event:
  assumes "secret_listed v m" and "server_allows ak_id (key_answers e) m"
  shows "secret_listed (secret_after e v) (fold (server_step ak_id) (key_answers e) m)"
proof (cases e)
  case (KeyCreated r)
  then show ?thesis using assms by (cases r) (auto simp: secret_listed_def split: option.splits)
next
  case (KeyRenamed target r)
  then show ?thesis using assms by (cases r) (auto simp: secret_listed_def split: option.splits)
next
  case (QuotaSaved target r)
  show ?thesis
  proof (cases r)
    case (Inr k)
    have allowed: "m target \<noteq> None \<and> (\<forall>x :: ManagedApiKey. ak_id x = target \<longrightarrow> ak_id k = target)"
      using assms(2) unfolding QuotaSaved Inr key_answers.simps server_allows.simps answer.case by blast
    then have "ak_id k = target" using selector_surj_key[of target] by blast
    then show ?thesis
      using assms(1) allowed by (auto simp: QuotaSaved Inr secret_listed_def split: option.splits)
  qed (use assms QuotaSaved in simp)
next
  case (ModelsSaved target r)
  then show ?thesis using assms by (cases r) (auto simp: secret_listed_def split: option.splits)
next
  case (KeyDeleted key r)
  then show ?thesis using assms by (cases r) (auto simp: secret_listed_def split: option.splits if_splits)
qed (use assms in \<open>simp add: secret_listed_def\<close>)


lemma secret_listed_run:
  assumes "secret_listed (secret_id s) m" and "server_allows ak_id (concat (map key_answers es)) m"
  shows "secret_listed (secret_id (fold (key_event t) es s)) (fold (server_step ak_id) (concat (map key_answers es)) m)"
  using assms
proof (induction es arbitrary: s m)
  case (Cons e es)
  have "secret_listed (secret_id (key_event t e s)) (fold (server_step ak_id) (key_answers e) m)"
    using Cons.prems by (simp add: secret_id_event secret_listed_event server_allows_append)
  from Cons.IH[OF this] Cons.prems(2) show ?case by (simp add: server_allows_append)
qed simp

text \<open>A draft of allowed models as the dialog keeps it: trimmed, not empty, without duplicates.\<close>

definition clean_models :: "string list \<Rightarrow> bool" where
  "clean_models ms \<longleftrightarrow> distinct ms \<and> list_all (\<lambda>m. m \<noteq> [] \<and> trim m = m) ms"

lemma clean_addModelRestriction:
  "clean_models (kp_modelsDraft s) \<Longrightarrow> clean_models (kp_modelsDraft (addModelRestriction text s))"
  by (simp add: addModelRestriction_def Let_def clean_models_def)

lemma clean_models_event:
  assumes "clean_models (kp_modelsDraft s)"
  shows "clean_models (kp_modelsDraft (models_event lc e s))"
proof (cases e)
  case (RemoveModel m)
  then show ?thesis using assms by (auto simp: removeModel_def clean_models_def list_all_iff)
qed (use assms in \<open>auto simp: handleModelsInputKeyDown_def handleSelectConfiguredModel_def choose_channel_def
    clean_addModelRestriction split: option.splits\<close>)

lemma models_event_target: "kp_modelsTarget (models_event lc e s) = kp_modelsTarget s"
  by (cases e) (auto simp: handleModelsInputKeyDown_def handleSelectConfiguredModel_def choose_channel_def
    removeModel_def addModelRestriction_def Let_def split: option.splits)

lemma models_run:
  assumes "clean_models (kp_modelsDraft s)"
  shows "clean_models (kp_modelsDraft (fold (models_event lc) es s)) \<and>
    kp_modelsTarget (fold (models_event lc) es s) = kp_modelsTarget s"
  using assms by (induction es arbitrary: s) (simp_all add: clean_models_event models_event_target)

lemma option_value_inject:
  "mo_value (model_option a) = mo_value (model_option b) \<Longrightarrow>
     gm_channelName a = gm_channelName b \<and> gm_id a = gm_id b"
proof -
  let ?v = "\<lambda>m :: GatewayModel. JArr [JStr (gm_channelName m), JStr (gm_id m)]"
  assume "mo_value (model_option a) = mo_value (model_option b)"
  then have "json_stringify (?v a) = json_stringify (?v b)" by (simp only: model_option_def ModelOption.simps)
  moreover have "json_parse (json_stringify (?v m)) = Some (?v m)" for m
    by (rule json_parse_stringify) simp
  ultimately have "?v a = ?v b" by (metis option.inject)
  then show ?thesis by simp
qed

lemma options_of_models: "opt \<in> set (configuredModelOptions lc s) \<Longrightarrow> opt \<in> range model_option"
  by (auto simp only: configuredModelOptions_def set_js_sort set_map)

lemma selected_option:
  assumes "m \<in> set (kp_configuredModels s)"
    and "kp_modelsChannelFilter s = [] \<or> gm_channelName m = kp_modelsChannelFilter s"
  shows "\<exists>opt. find (\<lambda>item. mo_value item = mo_value (model_option m)) (configuredModelOptions lc s) = Some opt \<and>
    mo_modelId opt = gm_id m"
proof -
  have "model_option m \<in> set (configuredModelOptions lc s)"
    using assms by (auto simp: configuredModelOptions_def)
  then obtain opt where opt: "find (\<lambda>item. mo_value item = mo_value (model_option m)) (configuredModelOptions lc s) = Some opt"
    by (cases "find (\<lambda>item. mo_value item = mo_value (model_option m)) (configuredModelOptions lc s)")
      (auto simp only: find_None_iff)
  have found: "opt \<in> set (configuredModelOptions lc s) \<and> mo_value opt = mo_value (model_option m)"
    using opt unfolding find_Some_iff by (metis nth_mem)
  then obtain m' where m': "opt = model_option m'" using options_of_models[of opt lc s] by blast
  have "gm_id m' = gm_id m" using option_value_inject[of m' m] found m' by blast
  then have "mo_modelId opt = gm_id m" unfolding m' by (simp only: model_option_def ModelOption.simps)
  with opt show ?thesis by blast
qed

lemma valid_quota_sound:
  "\<not> quota_invalid quota \<Longrightarrow> quota = None \<or> (\<exists>r \<ge> 0. quota = Some (Fin r))"
  by (auto simp: quota_invalid_def not_less split: option.splits elim!: is_finite.elims)

lemma parse_quota_text:
  assumes "n < 2 ^ 53"
  shows "parse_quota (number_to_string (Fin (of_nat n))) = Some (Fin (of_nat n))"
  using number_string_roundtrip[OF assms]
  by (simp only: number_to_string_nat[OF assms] parse_quota_def Let_def trim_nat_str nat_str_nonempty if_False)

section \<open>Properties\<close>


text \<open>
  Only sound quotas are sent: whatever was typed, a request to create a key or to change a
  quota carries no quota or a finite one that is not negative; and reopening the dialog of a key with a
  whole quota and saving at once sends that same quota.
\<close>

theorem quota_requests_sound:
  assumes "\<forall>n. q = Some n \<longrightarrow> n < 2 ^ 53"
  shows "(case snd (handleCreate_start t s) of None \<Rightarrow> True
     | Some req \<Rightarrow> \<exists>name quota. req = createKey name quota \<and> name \<noteq> [] \<and>
         (quota = None \<or> (\<exists>r \<ge> 0. quota = Some (Fin r)))) \<and>
    (case snd (handleSaveQuota_start t s) of None \<Rightarrow> True
     | Some (k, req) \<Rightarrow> \<exists>quota. req = setKeyCostQuota k quota \<and>
         (quota = None \<or> (\<exists>r \<ge> 0. quota = Some (Fin r)))) \<and>
    (ak_cost_quota key = map_option (\<lambda>n. Fin (of_nat n)) q \<longrightarrow>
     snd (handleSaveQuota_start t (openQuotaDialog key s)) =
       Some (ak_id key, setKeyCostQuota (ak_id key) (ak_cost_quota key)))"
proof (intro conjI impI)
  show "case snd (handleCreate_start t s) of None \<Rightarrow> True
     | Some req \<Rightarrow> \<exists>name quota. req = createKey name quota \<and> name \<noteq> [] \<and>
         (quota = None \<or> (\<exists>r \<ge> 0. quota = Some (Fin r)))"
    using valid_quota_sound[of "parse_quota (kp_newKeyQuotaDraft s)"] by (auto simp: handleCreate_start_def Let_def)
  show "case snd (handleSaveQuota_start t s) of None \<Rightarrow> True
     | Some (k, req) \<Rightarrow> \<exists>quota. req = setKeyCostQuota k quota \<and>
         (quota = None \<or> (\<exists>r \<ge> 0. quota = Some (Fin r)))"
    using valid_quota_sound[of "parse_quota (kp_quotaDraft s)"]
    by (auto simp: handleSaveQuota_start_def Let_def split: option.splits)
  assume key: "ak_cost_quota key = map_option (\<lambda>n. Fin (of_nat n)) q"
  have "parse_quota (kp_quotaDraft (openQuotaDialog key s)) = ak_cost_quota key"
  proof (cases q)
    case (Some n)
    with assms have "n < 2 ^ 53" by simp
    from parse_quota_text[OF this] show ?thesis using key by (simp add: openQuotaDialog_def Some del: number_to_string.simps)
  qed (use key in \<open>simp add: openQuotaDialog_def parse_quota_def\<close>)
  moreover have "\<not> quota_invalid (ak_cost_quota key)"
    using key by (cases q) (simp_all add: quota_invalid_def)
  ultimately show "snd (handleSaveQuota_start t (openQuotaDialog key s)) =
       Some (ak_id key, setKeyCostQuota (ak_id key) (ak_cost_quota key))"
    by (simp add: handleSaveQuota_start_def openQuotaDialog_def Let_def)
qed

text \<open>
  The dialog of allowed models, opened on a key whose list is clean, keeps it clean through any
  typing, selecting and removing, and the save sends exactly the list shown to that key.
\<close>

theorem allowed_models_stay_clean:
  fixes s :: KeysPage and lc :: collation and es :: "ModelsEvent list"
  assumes "clean_models (ak_allowed_models key)"
  defines "s' \<equiv> fold (models_event lc) es (openModelsDialog key s)"
  shows "clean_models (kp_modelsDraft s') \<and>
    snd (handleSaveModels_start s') = Some (ak_id key, setKeyAllowedModels (ak_id key) (kp_modelsDraft s'))"
proof -
  have "clean_models (kp_modelsDraft (openModelsDialog key s))"
    using assms(1) by (simp add: openModelsDialog_def)
  from models_run[OF this, of lc es] show ?thesis
    by (simp add: s'_def handleSaveModels_start_def openModelsDialog_def)
qed

text \<open>
  Choosing an entry of the list of configured models restricts the key to exactly that model:
  the JSON text of an entry identifies its channel and model, whatever characters their names hold.
\<close>

theorem select_adds_chosen_model:
  fixes lc :: collation
  assumes "m \<in> set (kp_configuredModels s)"
    and "kp_modelsChannelFilter s = [] \<or> gm_channelName m = kp_modelsChannelFilter s"
    and "trim (gm_id m) \<noteq> []"
  defines "s' \<equiv> handleSelectConfiguredModel lc (mo_value (model_option m)) s"
  shows "kp_modelsDraft s' = set_add (trim (gm_id m)) (kp_modelsDraft s) \<and> kp_modelsModelSelect s' = []"
proof -
  obtain opt where "find (\<lambda>item. mo_value item = mo_value (model_option m)) (configuredModelOptions lc s) = Some opt"
      "mo_modelId opt = gm_id m"
    using selected_option[OF assms(1,2)] by blast
  then show ?thesis
    using assms(3) by (simp add: s'_def handleSelectConfiguredModel_def addModelRestriction_def set_add_def Let_def)
qed

section \<open>Witnesses\<close>

definition sample_key :: "string \<Rightarrow> ManagedApiKey" where
  "sample_key k = \<lparr>ak_id = k, ak_name = ''dev'', ak_prefix = ''sk-1'', ak_created_at = 1, ak_last_used_at = None,
     ak_allowed_models = [''m''], ak_cost_quota = Some (Fin 5), ak_cost_used = Fin 0,
     ak_cost_remaining = Some (Fin 5), ak_quota_exhausted = False\<rparr>"

definition sample_gateway_model :: GatewayModel where
  "sample_gateway_model = \<lparr>gm_id = ''gpt'', gm_channelName = ''a'', gm_type = OpenAI, gm_context = None,
     gm_pricing = None, gm_override = None\<rparr>"


theorem quota_requests_sound_witness:
  "snd (handleSaveQuota_start (\<lambda>key _. key) (openQuotaDialog (sample_key ''k1'') keys_page_init)) =
     Some (''k1'', setKeyCostQuota ''k1'' (Some (Fin 5)))"
  using quota_requests_sound [where t = "\<lambda>key _. key", of "Some 5" keys_page_init "sample_key ''k1''"] by (simp add: sample_key_def)

theorem allowed_models_stay_clean_witness:
  "clean_models (kp_modelsDraft (fold (models_event code_point_collation)
     [TypeModel '' gpt '', KeyDown ''Enter''] (openModelsDialog (sample_key ''k1'') keys_page_init)))"
  using allowed_models_stay_clean [of "sample_key ''k1''" code_point_collation
      "[TypeModel '' gpt '', KeyDown ''Enter'']" keys_page_init]
  by (simp add: sample_key_def clean_models_def trim_def is_space_def)

theorem select_adds_chosen_model_witness:
  "kp_modelsDraft (handleSelectConfiguredModel code_point_collation (mo_value (model_option sample_gateway_model))
     (keys_page_init\<lparr>kp_configuredModels := [sample_gateway_model]\<rparr>)) = [''gpt'']"
  using select_adds_chosen_model [of sample_gateway_model
      "keys_page_init\<lparr>kp_configuredModels := [sample_gateway_model]\<rparr>" code_point_collation]
  by (simp add: keys_page_init_def sample_gateway_model_def trim_def is_space_def set_add_def)

end
