(* ===== verification/Keys_View.thy ===== *)
theory Keys_View
  imports Keys Combobox
begin

text \<open>
  What \<open>components/keys-page.tsx\<close> shows for its state: its messages, the table of keys and the five dialogs. Texts come
  from the translator \<open>t\<close>; \<open>date_text\<close> is the calendar's rendering of a time. Icons and CSS classes are left out.
\<close>

section \<open>The table\<close>

definition formatDateTime :: "(int \<Rightarrow> string) \<Rightarrow> int option \<Rightarrow> string" where
  "formatDateTime date_text timestamp =
     (case timestamp of None \<Rightarrow> ''--'' | Some ts \<Rightarrow> if ts = 0 then ''--'' else date_text ts)"

text \<open>The quota cell: its text alone, or a badge (red or not) over the sums.\<close>

datatype QuotaCell = Quota_text string | Quota_badge bool string string

definition quota_cell :: "translator \<Rightarrow> ManagedApiKey \<Rightarrow> QuotaCell" where
  "quota_cell t key =
     (case ak_cost_quota key of
        None \<Rightarrow> Quota_text (t ''keys.quotaUnlimited'' [])
      | Some q \<Rightarrow> Quota_badge (ak_quota_exhausted key)
          (if ak_quota_exhausted key then t ''keys.quotaExhausted'' []
           else t ''keys.quotaRemaining'' [(''remaining'', JStr (formatCost
             (case ak_cost_remaining key of Some r \<Rightarrow> JNum r | None \<Rightarrow> JNull)))])
          (formatCost (JNum (ak_cost_used key)) @ '' / '' @ formatCost (JNum q)))"

record KeyRow =
  kr_name :: string
  kr_prefix :: string
  kr_models :: string
  kr_quota :: QuotaCell
  kr_created :: string
  kr_lastUsed :: string
  kr_buttons :: "string list"
  kr_delete :: "string \<times> bool"

definition key_row :: "translator \<Rightarrow> (int \<Rightarrow> string) \<Rightarrow> KeysPage \<Rightarrow> ManagedApiKey \<Rightarrow> KeyRow" where
  "key_row t date_text s key =
     (let deleting = (kp_deletingId s = Some (ak_id key))
      in \<lparr>kr_name = ak_name key, kr_prefix = ak_prefix key,
          kr_models = (if ak_allowed_models key = [] then t ''keys.allowedModelsNone'' []
            else t ''keys.allowedModelsCount'' [(''count'', int_val (int (length (ak_allowed_models key))))]),
          kr_quota = quota_cell t key,
          kr_created = formatDateTime date_text (Some (ak_created_at key)),
          kr_lastUsed = formatDateTime date_text (ak_last_used_at key),
          kr_buttons = [t ''common.copy'' [], t ''keys.viewUsage'' [], t ''keys.rename'' [], t ''keys.manageModels'' [],
            t ''keys.manageQuota'' []],
          kr_delete = (if deleting then t ''common.deleting'' [] else t ''common.delete'' [], deleting)\<rparr>)"

datatype KeysBody = Keys_skeleton | Keys_empty string string | Keys_table "string list" "KeyRow list"

definition keys_body :: "translator \<Rightarrow> (int \<Rightarrow> string) \<Rightarrow> KeysPage \<Rightarrow> KeysBody" where
  "keys_body t date_text s =
     (case kp_keys s of
        None \<Rightarrow> Keys_skeleton
      | Some keys \<Rightarrow>
          if keys = [] then Keys_empty (t ''keys.emptyTitle'' []) (t ''keys.emptyDesc'' [])
          else Keys_table
            [t ''keys.nameCol'' [], t ''keys.prefixCol'' [], t ''keys.allowedModelsCol'' [], t ''keys.costQuotaCol'' [],
             t ''keys.createdCol'' [], t ''keys.lastUsedCol'' [], t ''keys.actionsCol'' []]
            (map (key_row t date_text s) keys))"

section \<open>The dialogs\<close>

text \<open>Title, description, inputs (label, placeholder, value, hint) and buttons (label, disabled) of a dialog.\<close>

record KeyDialog =
  kd_title :: string
  kd_description :: string
  kd_inputs :: "(string \<times> string \<times> string \<times> string) list"
  kd_buttons :: "(string \<times> bool) list"

definition cancel_button :: "translator \<Rightarrow> string \<times> bool" where
  "cancel_button t = (t ''common.cancel'' [], False)"

text \<open>The button of a dialog is busy while the request for its own key runs.\<close>

definition busy :: "string option \<Rightarrow> ManagedApiKey option \<Rightarrow> bool" where
  \<comment> \<open>\<open>renamingId === renameTarget?.id\<close>: \<open>null\<close> is not \<open>undefined\<close>\<close>
  "busy running target = (case (running, target) of (Some k, Some key) \<Rightarrow> k = ak_id key | _ \<Rightarrow> False)"

definition target_name :: "ManagedApiKey option \<Rightarrow> jsval" where
  "target_name target = JStr (case target of Some key \<Rightarrow> ak_name key | None \<Rightarrow> [])"

definition create_dialog :: "translator \<Rightarrow> KeysPage \<Rightarrow> KeyDialog" where
  "create_dialog t s =
     \<lparr>kd_title = t ''keys.createDialogTitle'' [], kd_description = t ''keys.createDialogDesc'' [],
      kd_inputs = [(t ''keys.keyNameLabel'' [], t ''keys.keyNamePlaceholder'' [], kp_newKeyName s, []),
        (t ''keys.quotaInputLabel'' [], t ''keys.quotaInputPlaceholder'' [], kp_newKeyQuotaDraft s, t ''keys.createQuotaHint'' [])],
      kd_buttons = [cancel_button t,
        (if kp_creating s then t ''keys.creating'' [] else t ''keys.createKey'' [], kp_creating s)]\<rparr>"

definition rename_dialog :: "translator \<Rightarrow> KeysPage \<Rightarrow> KeyDialog" where
  "rename_dialog t s =
     (let saving = busy (kp_renamingId s) (kp_renameTarget s)
      in \<lparr>kd_title = t ''keys.renameDialogTitle'' [], kd_description = t ''keys.renameDialogDesc'' [],
          kd_inputs = [(t ''keys.keyNameLabel'' [], [], kp_renameDraft s, [])],
          kd_buttons = [cancel_button t,
            (if saving then t ''common.saving'' [] else t ''keys.saveNameBtn'' [], saving)]\<rparr>)"

definition quota_dialog :: "translator \<Rightarrow> KeysPage \<Rightarrow> KeyDialog" where
  "quota_dialog t s =
     (let saving = busy (kp_savingQuotaId s) (kp_quotaTarget s)
      in \<lparr>kd_title = t ''keys.manageQuotaDialogTitle'' [],
          kd_description = t ''keys.manageQuotaDialogDesc'' [(''name'', target_name (kp_quotaTarget s))],
          kd_inputs = [(t ''keys.quotaInputLabel'' [], t ''keys.quotaInputPlaceholder'' [], kp_quotaDraft s,
            t ''keys.quotaInputHint'' [(''used'', JStr (formatCost (JNum
              (case kp_quotaTarget s of Some key \<Rightarrow> ak_cost_used key | None \<Rightarrow> Fin 0))))])],
          kd_buttons = [cancel_button t,
            (if saving then t ''keys.quotaSaving'' [] else t ''keys.quotaSave'' [], saving)]\<rparr>)"

record ModelsDialog =
  mdv_dialog :: KeyDialog
  mdv_channels :: "string \<times> ComboboxView" \<comment> \<open>a box under its label\<close>
  mdv_models :: "string \<times> ComboboxView"
  mdv_draft :: "string + string list"

definition models_dialog :: "translator \<Rightarrow> collation \<Rightarrow> KeysPage \<Rightarrow> ModelsDialog" where
  "models_dialog t lc s =
     (let saving = busy (kp_savingModelsId s) (kp_modelsTarget s)
      in \<lparr>mdv_dialog =
            \<lparr>kd_title = t ''keys.manageModelsDialogTitle'' [],
             kd_description = t ''keys.manageModelsDialogDesc'' [(''name'', target_name (kp_modelsTarget s))],
             kd_inputs = [(t ''keys.allowedModelsInputPlaceholder'' [], t ''keys.allowedModelsInputPlaceholder'' [],
               kp_modelsInput s, [])],
             kd_buttons = [cancel_button t,
               (if saving then t ''keys.allowedModelsSaving'' [] else t ''keys.allowedModelsSave'' [], saving)]\<rparr>,
          mdv_channels = (t ''keys.allowedModelsChannelLabel'' [], Combobox
            (filter_texts (t ''keys.allowedModelsAllChannels'' []) (t ''common.searchRoute'' []))
            (map (\<lambda>c. (c, c)) (modelChannelOptions lc s)) (kp_modelsChannelFilter s)),
          mdv_models = (t ''keys.allowedModelsConfiguredLabel'' [], Combobox
            \<lparr>ct_placeholder = t ''keys.allowedModelsSelectPlaceholder'' [], ct_search = t ''common.searchModel'' [],
             ct_empty = t ''keys.allowedModelsNoConfigured'' []\<rparr>
            (map (\<lambda>opt. (mo_value opt, mo_label opt)) (configuredModelOptions lc s)) (kp_modelsModelSelect s)),
          mdv_draft = (if kp_modelsDraft s = [] then Inl (t ''keys.allowedModelsEmptyHint'' [])
            else Inr (kp_modelsDraft s))\<rparr>)"

definition visible_dialog :: "translator \<Rightarrow> ManagedApiKeyDetail \<Rightarrow> KeyDialog" where
  "visible_dialog t d =
     \<lparr>kd_title = t ''keys.viewDialogTitle'' [],
      kd_description = t ''keys.viewDialogDesc'' [(''name'', JStr (if ak_name d \<noteq> [] then ak_name d else ''API key''))],
      kd_inputs = [([], [], akd_key d, [])],
      kd_buttons = [(t ''keys.copyKey'' [], False), (t ''common.close'' [], False)]\<rparr>"

section \<open>The page\<close>

record KeysShown =
  kv_title :: "string \<times> string"
  kv_actions :: "string list"
  kv_error :: "(string \<times> string) option"
  kv_feedback :: "(string \<times> string) option"
  kv_body :: KeysBody
  kv_create :: "KeyDialog option"
  kv_rename :: "KeyDialog option"
  kv_models :: "ModelsDialog option"
  kv_quota :: "KeyDialog option"
  kv_visible :: "KeyDialog option"

datatype KeysView = Keys_failed string string | Keys_shown KeysShown

definition keys_view :: "translator \<Rightarrow> collation \<Rightarrow> (int \<Rightarrow> string) \<Rightarrow> KeysPage \<Rightarrow> KeysView" where
  "keys_view t lc date_text s =
     (if kp_error s \<noteq> [] \<and> kp_keys s = None then Keys_failed (t ''common.loadFailed'' []) (kp_error s)
      else Keys_shown
        \<lparr>kv_title = (t ''keys.title'' [], t ''keys.description'' []),
         kv_actions = [t ''common.refreshData'' [], t ''keys.newKey'' []],
         kv_error = (if kp_error s \<noteq> [] then Some (t ''common.errorOccurred'' [], kp_error s) else None),
         kv_feedback = (if kp_feedback s \<noteq> [] then Some (t ''common.done'' [], kp_feedback s) else None),
         kv_body = keys_body t date_text s,
         kv_create = (if kp_createOpen s then Some (create_dialog t s) else None),
         kv_rename = (if kp_renameOpen s then Some (rename_dialog t s) else None),
         kv_models = (if kp_modelsOpen s then Some (models_dialog t lc s) else None),
         kv_quota = (if kp_quotaOpen s then Some (quota_dialog t s) else None),
         kv_visible = map_option (visible_dialog t) (kp_visibleKey s)\<rparr>)"

definition delete_question :: "translator \<Rightarrow> ManagedApiKey \<Rightarrow> string" where
  "delete_question t key = t ''keys.confirmDelete'' [(''name'', JStr (ak_name key))]"

end
