(* ===== verification/Page_Texts.thy ===== *)
theory Page_Texts
  imports Locale_Texts Shell Monitor_View Log_View Detail_View Models_Page Settings_Page Providers_View Routes_View Keys_View
begin

text \<open>
  What the two text tables (theories \<open>Locale_En\<close>, \<open>Locale_Zh\<close>) provide for the pages: they have the same keys and
  values, and the pages ask for nothing they lack.
\<close>

section \<open>The two tables agree\<close>

lemma zh_signature: "signature zh = signature en"
  by (simp add: en_def zh_def section_signatures)

text \<open>
  Property C25. The English and the Chinese table agree on every key: both have a text for it or neither has, and
  the two texts ask for the same values.
\<close>

theorem locales_agree:
  "map_option (set \<circ> placeholders) (message zh key) = map_option (set \<circ> placeholders) (message en key)"
  unfolding message_def values_at_signature[symmetric] zh_signature ..

section \<open>The texts of the pages\<close>

lemma en_sections:
  "map_of (the_sections en) ''common'' = Some en_common"
  "map_of (the_sections en) ''lang'' = Some en_lang"
  "map_of (the_sections en) ''nav'' = Some en_nav"
  "map_of (the_sections en) ''session'' = Some en_session"
  "map_of (the_sections en) ''timeRange'' = Some en_timeRange"
  "map_of (the_sections en) ''monitor'' = Some en_monitor"
  "map_of (the_sections en) ''settings'' = Some en_settings"
  "map_of (the_sections en) ''usage'' = Some en_usage"
  "map_of (the_sections en) ''logs'' = Some en_logs"
  "map_of (the_sections en) ''logTable'' = Some en_logTable"
  "map_of (the_sections en) ''detail'' = Some en_detail"
  "map_of (the_sections en) ''providers'' = Some en_providers"
  "map_of (the_sections en) ''routes'' = Some en_routes"
  "map_of (the_sections en) ''models'' = Some en_models"
  "map_of (the_sections en) ''keys'' = Some en_keys"
  "map_of (the_sections en) ''bucket'' = Some en_bucket"
  "map_of (the_sections en) ''channelHealth'' = Some en_channelHealth"
  "map_of (the_sections en) ''payload'' = Some en_payload"
  "map_of (the_sections en) ''chart'' = Some en_chart"
  by (simp_all add: en_def)

lemma en_provides:
  assumes "covers_all (signature m) ps" and "map_of (the_sections en) s = Some m" and "list_all (\<lambda>c. c \<noteq> CHR ''.'') s"
  shows "list_all (\<lambda>p. CHR ''.'' \<in> set (fst p) \<or> provides en (s @ CHR ''.'' # fst p) (snd p)) ps"
proof -
  have "en = Section (the_sections en)" by (simp add: en_def)
  moreover have "CHR ''.'' \<notin> set s" using assms(3) by (auto simp: list_all_iff)
  ultimately show ?thesis using provides_section[OF assms(1,2)] by simp
qed

text \<open>The texts of three names.\<close>

lemma badge_provides:
  "provides en ''providers.responsesModeBadge.native'' []"
  "provides en ''providers.responsesModeBadge.chat_compat'' []"
  "provides en ''providers.responsesModeBadge.disabled'' []"
  by (simp_all add: provides_def message_def key_path_def en_def en_providers_def)

lemmas page_provides =
  common_texts [THEN en_provides, OF en_sections(1), simplified]
  lang_texts [THEN en_provides, OF en_sections(2), simplified]
  nav_texts [THEN en_provides, OF en_sections(3), simplified]
  session_texts [THEN en_provides, OF en_sections(4), simplified]
  timeRange_texts [THEN en_provides, OF en_sections(5), simplified]
  monitor_texts [THEN en_provides, OF en_sections(6), simplified]
  settings_texts [THEN en_provides, OF en_sections(7), simplified]
  usage_texts [THEN en_provides, OF en_sections(8), simplified]
  logs_texts [THEN en_provides, OF en_sections(9), simplified]
  logTable_texts [THEN en_provides, OF en_sections(10), simplified]
  detail_texts [THEN en_provides, OF en_sections(11), simplified]
  providers_texts [THEN en_provides, OF en_sections(12), simplified]
  routes_texts [THEN en_provides, OF en_sections(13), simplified]
  models_texts [THEN en_provides, OF en_sections(14), simplified]
  keys_texts [THEN en_provides, OF en_sections(15), simplified]
  bucket_texts [THEN en_provides, OF en_sections(16), simplified]
  channelHealth_texts [THEN en_provides, OF en_sections(17), simplified]
  payload_texts [THEN en_provides, OF en_sections(18), simplified]
  chart_texts [THEN en_provides, OF en_sections(19), simplified]
  badge_provides

text \<open>
  Two translators that agree on what both tables provide: a text that both have, given at least the values
  that it asks for. They may differ on any other key, and on a text called without one of its values.
\<close>

definition same_texts :: "translator \<Rightarrow> translator \<Rightarrow> bool" where
  "same_texts t t' \<longleftrightarrow>
     (\<forall>key args. provides en key (map fst args) \<and> provides zh key (map fst args) \<longrightarrow> t key args = t' key args)"

lemma same_textsD: "same_texts t t' \<Longrightarrow> provides en key (map fst args) \<Longrightarrow> t key args = t' key args"
  by (simp add: same_texts_def provides_covers zh_signature)

section \<open>The pages ask only for texts that exist\<close>

declare option.case_cong [cong] if_cong [cong] sum.case_cong [cong] Screen.case_cong [cong] jsval.case_cong [cong]
  entry_kind.case_cong [cong] list.case_cong [cong]

text \<open>A page, or a handler with messages, that asks only for texts both tables have is the same for both translators.\<close>

lemma shell_texts:
  assumes "same_texts t t'"
  shows "app_view t = app_view t'"
proof -
  have menus: "theme_menu t = theme_menu t'" "language_menu t = language_menu t'" "themeOptions t = themeOptions t'"
    by (intro ext | simp add: theme_menu_def language_menu_def themeOptions_def current_mark_def same_textsD[OF assms] page_provides)+
  have "NavBar t = NavBar t'" "login_view t = login_view t'" "session_error_view t = session_error_view t'"
    by (intro ext | simp add: NavBar_def navItems_def activeTheme_def menus login_view_def login_form_view_def
        session_error_view_def centered_shell_def same_textsD[OF assms] page_provides)+
  moreover have "disabled_view t = disabled_view t'" "loading_view t = loading_view t'"
    by (simp_all add: disabled_view_def loading_view_def centered_shell_def same_textsD[OF assms] page_provides)
  ultimately show ?thesis by (intro ext) (simp add: app_view_def)
qed

lemma monitor_view_texts:
  assumes "same_texts t t'"
  shows "monitor_view t = monitor_view t'"
proof -
  have "t (health_key h) [] = t' (health_key h) []" for h
    by (cases h) (simp_all add: same_textsD[OF assms] page_provides)
  then have tables: "channels_card t = channels_card t'" "recent_card t = recent_card t'" "health_card t = health_card t'"
    by (intro ext | simp add: channels_card_def recent_card_def table_card_def health_card_def same_textsD[OF assms] page_provides)+
  have "tab_label t tab = tab_label t' tab" "trend_series t tab = trend_series t' tab" for tab
    by (cases tab; simp add: trend_series_def same_textsD[OF assms] page_provides)+
  then have "trend_view t = trend_view t'"
    by (intro ext) (simp add: trend_view_def tab_buttons_def same_textsD[OF assms] page_provides)
  moreover have "monitor_boxes t = monitor_boxes t'"
    by (intro ext) (simp add: monitor_boxes_def range_options_def same_textsD[OF assms] page_provides)
  ultimately show ?thesis
    by (intro ext) (simp add: monitor_view_def overview_cards_def latency_cards_def cache_cards_def rate_text_def tables Let_def
        same_textsD[OF assms] page_provides)
qed

lemma UsagePage_texts:
  assumes "same_texts t t'"
  shows "UsagePage t = UsagePage t'"
proof -
  have parts: "UsageTrendChart t = UsageTrendChart t'" "BucketTable t = BucketTable t'" "usage_boxes t = usage_boxes t'"
    by (intro ext | simp add: UsageTrendChart_def BucketTable_def bucket_row_def usage_boxes_def range_options_def Let_def
        same_textsD[OF assms] page_provides)+
  show ?thesis
    by (intro ext) (simp add: UsagePage_def headlineCards_def costCards_def cacheCards_def usage_card_def parts Let_def
        same_textsD[OF assms] page_provides)
qed

lemma log_texts:
  assumes "same_texts t t'"
  shows "LogsPage t = LogsPage t'" and "menu_items t = menu_items t'" and "log_action t = log_action t'"
proof -
  have "getSourceTypeLabel t l = getSourceTypeLabel t' l" for l
    by (cases l) (simp_all add: getSourceTypeLabel_def same_textsD[OF assms] page_provides)
  moreover have "getRuntimeStatusBadges t = getRuntimeStatusBadges t'" "log_headings t = log_headings t'"
    by (intro ext | simp add: getRuntimeStatusBadges_def log_headings_def Let_def same_textsD[OF assms] page_provides)+
  moreover have "model_hint t item = model_hint t' item" for item
    by (simp add: model_hint_def same_textsD[OF assms] page_provides split: ModelCell.splits)
  ultimately have "log_row t = log_row t'"
    by (intro ext) (simp add: log_row_def Let_def same_textsD[OF assms] page_provides)
  then show "LogsPage t = LogsPage t'"
    using \<open>log_headings t = log_headings t'\<close>
    by (intro ext) (simp add: LogsPage_def RequestLogTable_def same_textsD[OF assms] page_provides)
  show "menu_items t = menu_items t'"
    by (intro ext) (simp add: menu_items_def same_textsD[OF assms] page_provides)
  show "log_action t = log_action t'"
  proof (intro ext)
    fix allowed clip a
    show "log_action t allowed clip a = log_action t' allowed clip a"
      by (cases a) (simp_all add: emitCopyFeedback_def same_textsD[OF assms] page_provides)
  qed
qed

lemma DetailPage_texts:
  assumes "same_texts t t'"
  shows "DetailPage t = DetailPage t'"
proof -
  have panels: "payload_panel t = payload_panel t'" "sse_card t = sse_card t'"
    by (intro ext | simp add: payload_panel_def PayloadPanel_def sse_card_def Let_def same_textsD[OF assms] page_provides)+
  then have tabs: "request_tab t = request_tab t'" "timingRows t = timingRows t'" "requestRows t = requestRows t'"
    by (intro ext | simp add: request_tab_def timingRows_def requestRows_def Let_def same_textsD[OF assms] page_provides)+
  have "DetailView t = DetailView t'"
    by (intro ext) (simp add: DetailView_def tabs panels Let_def same_textsD[OF assms] page_provides)
  then show ?thesis by (intro ext) (simp add: DetailPage_def same_textsD[OF assms] page_provides)
qed

lemma models_texts_only:
  assumes "same_texts t t'"
  shows "models_view t = models_view t'" and "parseMetadataDraft t = parseMetadataDraft t'"
proof -
  have "parseOptionalNumber t = parseOptionalNumber t'"
    by (intro ext) (simp add: parseOptionalNumber_def Let_def same_textsD[OF assms] page_provides)
  then show "parseMetadataDraft t = parseMetadataDraft t'"
    by (intro ext) (simp add: parseMetadataDraft_def buildPricingDraft_def same_textsD[OF assms] page_provides)
  have "model_table_row t = model_table_row t'"
    by (intro ext) (simp add: model_table_row_def manual_badge_def same_textsD[OF assms] page_provides)
  then have "model_card t = model_card t'"
    by (intro ext) (simp add: model_card_def model_table_def same_textsD[OF assms] page_provides)
  moreover have "test_dialog_view t = test_dialog_view t'" "edit_dialog_view t = edit_dialog_view t'"
    by (intro ext | simp add: test_dialog_view_def edit_dialog_view_def model_values_def Let_def same_textsD[OF assms] page_provides)+
  ultimately show "models_view t = models_view t'"
    by (intro ext) (simp add: models_view_def models_description_def same_textsD[OF assms] page_provides)
qed

lemma settings_texts_only:
  assumes "same_texts t t'"
  shows "settings_view t = settings_view t'" and "timeouts_to_save t = timeouts_to_save t'"
proof -
  have "parseSeconds t = parseSeconds t'"
    by (intro ext) (simp add: parseSeconds_def Let_def same_textsD[OF assms] page_provides)
  then show "timeouts_to_save t = timeouts_to_save t'"
    by (intro ext) (simp add: timeouts_to_save_def same_textsD[OF assms] page_provides)
  have "settings_cards t = settings_cards t'" "currentPolicy t = currentPolicy t'"
    by (intro ext | simp add: settings_cards_def TimeoutField_def currentPolicy_def Let_def same_textsD[OF assms] page_provides)+
  then show "settings_view t = settings_view t'"
    by (intro ext) (simp add: settings_view_def same_textsD[OF assms] page_provides)
qed

lemma policy_texts:
  assumes "same_texts t t'"
  shows "policy_to_save t = policy_to_save t'"
proof -
  have "parseBoundedInteger t = parseBoundedInteger t'" "check_rule t = check_rule t'"
    by (intro ext; simp add: parseBoundedInteger_def check_rule_def Let_def same_textsD[OF assms] page_provides
        split: jsnum.splits)+
  then show ?thesis
    by (intro ext) (simp add: policy_to_save_def parseCustomModelFallbacks_def Let_def same_textsD[OF assms] page_provides)
qed

lemma providers_texts_only:
  assumes "same_texts t t'"
  shows "providers_view t = providers_view t'" and "sync_request t = sync_request t'" and "import_entries t = import_entries t'"
proof -
  have actions: "toggle_action t = toggle_action t'" "test_action t = test_action t'" "header_actions t = header_actions t'"
    by (intro ext | simp add: toggle_action_def test_action_def header_actions_def Let_def same_textsD[OF assms] page_provides)+
  have "response_mode_badge t m = response_mode_badge t' m" for m
    by (cases m) (simp_all add: response_mode_badge_def same_textsD[OF assms] page_provides)
  then have rows: "provider_row t = provider_row t'" "ProviderCard t = ProviderCard t'"
    by (intro ext | simp add: provider_row_def ProviderCard_def actions Let_def same_textsD[OF assms] page_provides)+
  have lists: "channel_list t = channel_list t'" "stat_cards t = stat_cards t'"
    by (intro ext | simp add: channel_list_def stat_cards_def rows Let_def same_textsD[OF assms] page_provides)+
  have "provider_fields t = provider_fields t'"
    by (intro ext) (simp add: provider_fields_def same_textsD[OF assms] page_provides)
  then have dialogs: "provider_dialog t = provider_dialog t'" "channel_test_dialog t = channel_test_dialog t'"
      "delete_dialog t = delete_dialog t'" "config_dialog t = config_dialog t'"
    by (intro ext | simp add: provider_dialog_def channel_test_dialog_def delete_dialog_def config_dialog_def Let_def
        same_textsD[OF assms] page_provides)+
  have "sync_dialog t = sync_dialog t'"
    by (intro ext) (simp add: sync_dialog_def sync_view_def same_textsD[OF assms] page_provides)
  then show "providers_view t = providers_view t'"
    by (intro ext) (simp add: providers_view_def actions lists dialogs same_textsD[OF assms] page_provides)
  show "sync_request t = sync_request t'" "import_entries t = import_entries t'"
    by (intro ext; simp add: sync_request_def import_entries_def Let_def same_textsD[OF assms] page_provides)+
qed

lemma routes_texts_only:
  assumes "same_texts t t'"
  shows "routes_view t = routes_view t'" and "Routes_Page.handleSubmit_start t = Routes_Page.handleSubmit_start t'"
proof -
  have "source_label t src = source_label t' src" for src
    by (cases src) (simp_all add: source_label_def same_textsD[OF assms] page_provides)
  then have "route_badge t = route_badge t'"
    by (intro ext) (simp add: route_badge_def same_textsD[OF assms] page_provides)
  then have lists: "RouteMapRouteList t = RouteMapRouteList t'"
    by (intro ext) (simp add: RouteMapRouteList_def)
  then have "route_map_row t = route_map_row t'"
    by (intro ext) (simp add: route_map_row_def same_textsD[OF assms] page_provides)
  then have maps: "route_map_table t = route_map_table t'"
    by (intro ext) (simp add: route_map_table_def Let_def same_textsD[OF assms] page_provides)
  have "warning_view t = warning_view t'"
    by (rule ext) (simp add: warning_view_def same_textsD[OF assms] page_provides split: AliasWarning.splits)
  moreover have "test_button t = test_button t'"
    by (rule ext) (simp add: test_button_def same_textsD[OF assms] page_provides split: option.splits TestState.splits)
  ultimately have "alias_row t = alias_row t'"
    by (intro ext) (simp add: alias_row_def lists same_textsD[OF assms] page_provides)
  then have aliases: "alias_table t = alias_table t'"
    by (intro ext) (simp add: alias_table_def same_textsD[OF assms] page_provides)
  have "provider_choice t = provider_choice t'"
    by (intro ext) (simp add: provider_choice_def same_textsD[OF assms] page_provides)
  then have "target_view t = target_view t'"
    by (intro ext) (simp add: target_view_def provider_choice_def Let_def same_textsD[OF assms] page_provides)
  then have dialog: "alias_dialog t = alias_dialog t'"
    by (intro ext) (simp add: alias_dialog_def AliasForm_def Let_def same_textsD[OF assms] page_provides)
  have "failoverModeLabel t f = failoverModeLabel t' f" for f
    by (simp add: failoverModeLabel_def same_textsD[OF assms] page_provides split: option.splits ModelFallbackMode.splits)
  moreover have "number_field t = number_field t'"
    by (intro ext) (simp add: number_field_def same_textsD[OF assms] page_provides)
  ultimately have "failover_view t = failover_view t'"
    by (intro ext) (simp add: failover_view_def Let_def same_textsD[OF assms] page_provides)
  then show "routes_view t = routes_view t'"
    by (intro ext) (simp add: routes_view_def failover_help_def maps aliases dialog same_textsD[OF assms] page_provides)
  show "Routes_Page.handleSubmit_start t = Routes_Page.handleSubmit_start t'"
    by (intro ext) (simp add: Routes_Page.handleSubmit_start_def Let_def same_textsD[OF assms] page_provides)
qed

lemma keys_texts_only:
  assumes "same_texts t t'"
  shows "keys_view t = keys_view t'" and "Keys.handleCreate_start t = Keys.handleCreate_start t'"
    and "handleSaveQuota_start t = handleSaveQuota_start t'" and "key_event t = key_event t'"
proof -
  have rows: "key_row t = key_row t'" "cancel_button t = cancel_button t'"
    by (intro ext | simp add: key_row_def quota_cell_def cancel_button_def Let_def same_textsD[OF assms] page_provides)+
  have dialogs: "create_dialog t = create_dialog t'" "rename_dialog t = rename_dialog t'" "quota_dialog t = quota_dialog t'"
      "models_dialog t = models_dialog t'" "visible_dialog t = visible_dialog t'"
    by (intro ext | simp add: create_dialog_def rename_dialog_def quota_dialog_def models_dialog_def visible_dialog_def rows
        Let_def same_textsD[OF assms] page_provides)+
  show "keys_view t = keys_view t'"
    by (intro ext) (simp add: keys_view_def keys_body_def rows dialogs same_textsD[OF assms] page_provides)
  show "Keys.handleCreate_start t = Keys.handleCreate_start t'" "handleSaveQuota_start t = handleSaveQuota_start t'"
    by (intro ext; simp add: Keys.handleCreate_start_def handleSaveQuota_start_def Let_def same_textsD[OF assms] page_provides)+
  show "key_event t = key_event t'"
  proof (intro ext)
    fix e s
    show "key_event t e s = key_event t' e s"
      by (cases e) (simp_all add: Keys.handleRename_end_def handleSaveQuota_end_def handleSaveModels_end_def
          same_textsD[OF assms] page_provides)
  qed
qed


section \<open>Witnesses\<close>


end
