(* ===== verification/Chart.thy ===== *)
theory Chart
  imports JS_Value
begin

text \<open>
  The parts of \<open>components/ui/chart.tsx\<close> around the chart library: the style sheet of a chart's colours, its tooltip
  and its legend. The payload the library passes to tooltip and legend is of type \<open>any\<close>; CSS classes are left out.
\<close>

section \<open>Configuration\<close>

record ChartItem =
  ci_label :: "string option"
  ci_color :: "string option"
  ci_theme :: "(string \<times> string) option" \<comment> \<open>light and dark\<close>

type_synonym ChartConfig = "(string \<times> ChartItem) list"

definition useChart :: "ChartConfig option \<Rightarrow> ChartConfig result" where
  "useChart context' =
     (case context' of
        None \<Rightarrow> throw ''useChart must be used within a <ChartContainer />''
      | Some config \<Rightarrow> return config)"

definition chart_id :: "string option \<Rightarrow> string \<Rightarrow> string" where
  "chart_id ident uniqueId =
     ''chart-'' @ (case ident of
        Some i \<Rightarrow> if i \<noteq> [] then i else filter (\<lambda>c. c \<noteq> CHR '':'') uniqueId
      | None \<Rightarrow> filter (\<lambda>c. c \<noteq> CHR '':'') uniqueId)"

section \<open>The style sheet\<close>

definition has_color :: "ChartItem \<Rightarrow> bool" where
  "has_color item \<longleftrightarrow> (case ci_color item of Some c \<Rightarrow> c \<noteq> [] | None \<Rightarrow> False) \<or> ci_theme item \<noteq> None"

definition theme_color :: "bool \<Rightarrow> ChartItem \<Rightarrow> string option" where
  \<comment> \<open>\<open>dark\<close> selects the theme; its colour if there is one, else the colour of both, else nothing\<close>
  "theme_color dark item =
     (let own = (case ci_theme item of None \<Rightarrow> [] | Some (l, d) \<Rightarrow> if dark then d else l);
          both = (case ci_color item of None \<Rightarrow> [] | Some c \<Rightarrow> c);
          color = (if own \<noteq> [] then own else both)
      in if color = [] then None else Some color)"

definition color_line :: "bool \<Rightarrow> string \<times> ChartItem \<Rightarrow> string option" where
  "color_line dark entry =
     map_option (\<lambda>color. ''  --color-'' @ fst entry @ '': '' @ color @ '';'') (theme_color dark (snd entry))"

definition style_block :: "string \<Rightarrow> bool \<Rightarrow> string \<Rightarrow> ChartConfig \<Rightarrow> string" where
  "style_block selector dark ident colorConfig =
     [CHR 0x0A] @ selector @ '' [data-chart='' @ ident @ ''] {'' @ [CHR 0x0A] @
     js_join [CHR 0x0A] (List.map_filter (color_line dark) colorConfig) @ [CHR 0x0A] @ ''}'' @ [CHR 0x0A]"

definition ChartStyle :: "string \<Rightarrow> ChartConfig \<Rightarrow> string option" where
  "ChartStyle ident config =
     (let colorConfig = filter (\<lambda>(_, item). has_color item) config
      in if colorConfig = [] then None
         else Some (js_join [CHR 0x0A]
           [style_block [] False ident colorConfig, style_block ''.dark'' True ident colorConfig]))"

section \<open>Tooltip and legend\<close>

datatype Indicator = Line_mark | Dot_mark | Dashed_mark

record TooltipRow =
  ttr_key :: string
  ttr_background :: string
  ttr_border :: string
  ttr_label :: jsval
  ttr_value :: jsval

record Tooltip =
  tt_label :: "jsval option"
  tt_rows :: "TooltipRow list"

text \<open>A formatter returns a pair of value and label (\<open>Inl\<close>) or a value alone (\<open>Inr\<close>).\<close>

type_synonym formatter = "jsval \<Rightarrow> string \<Rightarrow> jsval \<Rightarrow> (jsval \<times> jsval) + jsval"

definition item_key :: "jsval \<Rightarrow> string" where
  "item_key item = js_to_string (js_or (js_or (js_get item ''dataKey'') (js_get item ''name'')) (JStr ''value''))"

definition config_label :: "ChartConfig \<Rightarrow> string \<Rightarrow> jsval" where
  \<comment> \<open>\<open>config[key]?.label\<close>\<close>
  "config_label config key =
     (case map_of config key of None \<Rightarrow> JUndef
      | Some item \<Rightarrow> (case ci_label item of None \<Rightarrow> JUndef | Some l \<Rightarrow> JStr l))"

definition tooltip_row :: "ChartConfig \<Rightarrow> formatter option \<Rightarrow> Indicator \<Rightarrow> jsval \<Rightarrow> TooltipRow" where
  "tooltip_row config formatter indicator item =
     (let key = item_key item;
          color = js_to_string (js_or (js_get item ''color'') (JStr (''var(--color-'' @ key @ '')'')));
          formatted = (case formatter of None \<Rightarrow> Inr JUndef | Some f \<Rightarrow> f (js_get item ''value'') key item)
      in \<lparr>ttr_key = key,
          ttr_background = (if indicator = Dashed_mark then ''transparent'' else color),
          ttr_border = color,
          ttr_label = (case formatted of
              Inl (_, label) \<Rightarrow> label
            | Inr _ \<Rightarrow> js_or (config_label config key) (js_get item ''name'')),
          ttr_value = (case formatted of Inl (v, _) \<Rightarrow> v | Inr v \<Rightarrow> coalesce v (js_get item ''value''))\<rparr>)"

definition ChartTooltipContent ::
    "ChartConfig \<Rightarrow> formatter option \<Rightarrow> bool \<Rightarrow> Indicator \<Rightarrow> bool \<Rightarrow> jsval list option \<Rightarrow> Tooltip option" where
  "ChartTooltipContent config formatter hideLabel indicator active payload =
     (case payload of
        None \<Rightarrow> None
      | Some items \<Rightarrow>
          if \<not> active \<or> items = [] then None
          else
            (let label = js_get (js_get (hd items) ''payload'') ''bucket_label''
             in Some \<lparr>tt_label = (if \<not> hideLabel \<and> truthy label then Some label else None),
                      tt_rows = map (tooltip_row config formatter indicator) items\<rparr>))"

definition legend_entry :: "ChartConfig \<Rightarrow> jsval \<Rightarrow> string \<times> jsval \<times> jsval" where
  \<comment> \<open>key, colour of the mark, label\<close>
  "legend_entry config item =
     (let key = js_to_string (js_or (js_get item ''dataKey'') (JStr ''value''))
      in (key, js_get item ''color'', js_or (config_label config key) (js_get item ''value'')))"

definition ChartLegendContent :: "ChartConfig \<Rightarrow> jsval list option \<Rightarrow> (string \<times> jsval \<times> jsval) list option" where
  "ChartLegendContent config payload =
     (case payload of
        None \<Rightarrow> None
      | Some items \<Rightarrow> if items = [] then None else Some (map (legend_entry config) items))"

section \<open>Lemmas\<close>

text \<open>Every entry with a colour for a theme has its line in the block of that theme.\<close>

lemma has_color_iff: "has_color item \<longleftrightarrow> theme_color False item \<noteq> None \<or> theme_color True item \<noteq> None \<or> ci_theme item \<noteq> None"
  by (auto simp: has_color_def theme_color_def Let_def split: option.splits)

lemma color_line_listed:
  assumes "(key, item) \<in> set config" and "theme_color dark item = Some color"
  shows "''  --color-'' @ key @ '': '' @ color @ '';'' \<in>
    set (List.map_filter (color_line dark) (filter (\<lambda>(_, item). has_color item) config))"
proof -
  have "has_color item" using assms(2) by (auto simp: has_color_def theme_color_def Let_def split: option.splits if_splits)
  then show ?thesis using assms by (force simp: map_filter_def color_line_def)
qed

text \<open>A shown tooltip has a row for each item, in order.\<close>

lemma tooltip_rows_keys:
  "ChartTooltipContent config formatter hideLabel indicator active (Some items) = Some tip \<Longrightarrow>
     map ttr_key (tt_rows tip) = map item_key items"
  by (auto simp: ChartTooltipContent_def tooltip_row_def Let_def split: if_splits)

end
