(* ===== verification/Chart_Tooltips.thy ===== *)
theory Chart_Tooltips
  imports Chart Monitor_View
begin

text \<open>
  What the charts of \<open>components/usage-trend-chart.tsx\<close> and \<open>components/dashboard-page.tsx\<close> hand to the chart library and
  show for the point under the mouse. The drawing is the library's: for each series it passes the tooltip an item with
  the key of the series, its value at the point, and the point itself.
\<close>

section \<open>The usage charts\<close>

definition series :: "string \<Rightarrow> string \<Rightarrow> ChartItem" where
  "series label color = \<lparr>ci_label = Some label, ci_color = Some color, ci_theme = None\<rparr>"

definition tokenChartConfig :: "translator \<Rightarrow> ChartConfig" where
  "tokenChartConfig t = [(''total_tokens'', series (t ''chart.tokenConsumption'' []) ''var(--color-chart-1)'')]"

definition costChartConfig :: "translator \<Rightarrow> ChartConfig" where
  "costChartConfig t = [(''total_cost'', series (t ''chart.costSpend'' []) ''var(--color-chart-2)'')]"

definition chart_data_point :: "ConsoleUsageTimeSeriesPoint \<Rightarrow> jsval" where
  "chart_data_point p = JObj
     [(''bucket_start'', int_val (ts_bucket_start p)), (''bucket_label'', JStr (ts_bucket_label p)),
      (''requests'', int_val (ts_requests p)), (''total_tokens'', int_val (ts_total_tokens p)),
      (''total_cost'', JNum (ts_total_cost p)), (''errors'', int_val (ts_errors p)),
      (''total_cost_label'', JStr (formatCost (JNum (ts_total_cost p)))),
      (''total_tokens_label'', JStr (formatCount (int_val (ts_total_tokens p))))]"

definition token_tick :: "jsval \<Rightarrow> string" where
  "token_tick v = formatCount (JNum (js_to_number v))"

definition cost_tick :: "jsval \<Rightarrow> string" where
  "cost_tick v = formatCost (JNum (js_to_number v))"

definition token_tooltip :: "translator \<Rightarrow> bool \<Rightarrow> jsval list option \<Rightarrow> Tooltip option" where
  "token_tooltip t = ChartTooltipContent (tokenChartConfig t)
     (Some (\<lambda>v _ _. Inl (JStr (formatCount (JNum (js_to_number v))), JStr (t ''chart.tokenConsumption'' []))))
     False Dot_mark"

definition cost_tooltip :: "translator \<Rightarrow> bool \<Rightarrow> jsval list option \<Rightarrow> Tooltip option" where
  "cost_tooltip t = ChartTooltipContent (costChartConfig t)
     (Some (\<lambda>v _ _. Inl (JStr (formatCost (JNum (js_to_number v))), JStr (t ''chart.costSpend'' []))))
     False Dot_mark"

section \<open>The trend of the monitor\<close>

definition trendChartConfig :: "translator \<Rightarrow> ChartConfig" where
  "trendChartConfig t =
     [(''total'', series (t ''monitor.tabRequests'' []) ''var(--color-chart-1)''),
      (''errors'', series (t ''monitor.errorRequests'' []) ''var(--color-chart-3)''),
      (''successRate'', series (t ''monitor.tabSuccessRate'' []) ''var(--color-chart-2)''),
      (''avgLatency'', series (t ''monitor.tabLatency'' []) ''var(--color-chart-4)'')]"

definition trend_data_point :: "TrendPoint \<Rightarrow> jsval" where
  "trend_data_point p = JObj
     [(''bucket'', JStr (tp_bucket p)), (''total'', JNum (js_nat (tp_total p))), (''errors'', JNum (js_nat (tp_errors p))),
      (''successRate'', JNum (tp_successRate p)), (''avgLatency'', JNum (tp_avgLatency p))]"

definition trend_tooltip :: "translator \<Rightarrow> bool \<Rightarrow> jsval list option \<Rightarrow> Tooltip option" where
  "trend_tooltip t = ChartTooltipContent (trendChartConfig t) None False Dot_mark"

section \<open>Properties\<close>

text \<open>What the chart library passes for a series at a point.\<close>

definition item_of_point :: "jsval \<Rightarrow> string \<Rightarrow> jsval \<Rightarrow> bool" where
  "item_of_point point key item \<longleftrightarrow>
     js_get item ''payload'' = point \<and> js_get item ''dataKey'' = JStr key \<and> js_get item ''value'' = js_get point key"

lemmas tooltip_defs = ChartTooltipContent_def tooltip_row_def item_key_def config_label_def js_or_def series_def
  item_of_point_def

text \<open>
  The tooltips of the usage charts name the point under the mouse and show its figure with the name of the series, as
  the table below the charts would print it.
\<close>

theorem usage_tooltips_name_point:
  assumes "item_of_point (chart_data_point p) ''total_tokens'' tokens" and "item_of_point (chart_data_point p) ''total_cost'' cost"
    and "ts_bucket_label p \<noteq> []"
  shows "\<exists>tip. token_tooltip t True (Some [tokens]) = Some tip \<and> tt_label tip = Some (JStr (ts_bucket_label p)) \<and>
      map (\<lambda>r. (ttr_label r, ttr_value r)) (tt_rows tip) =
        [(JStr (t ''chart.tokenConsumption'' []), JStr (formatCount (int_val (ts_total_tokens p))))]"
    and "\<exists>tip. cost_tooltip t True (Some [cost]) = Some tip \<and> tt_label tip = Some (JStr (ts_bucket_label p)) \<and>
      map (\<lambda>r. (ttr_label r, ttr_value r)) (tt_rows tip) =
        [(JStr (t ''chart.costSpend'' []), JStr (formatCost (JNum (ts_total_cost p))))]"
  using assms
  by (auto simp: token_tooltip_def cost_tooltip_def tooltip_defs chart_data_point_def int_val_def Let_def)

text \<open>
  The tooltip of the monitor's trend never says which point it belongs to: it looks for \<open>bucket_label\<close>, and the points
  of the monitor have \<open>bucket\<close>. Its rows carry the names of the series and the bare numbers.
\<close>

theorem trend_tooltip_untitled:
  assumes "list_all2 (item_of_point (trend_data_point p)) keys items" and "items \<noteq> []"
    and "set keys \<subseteq> {''total'', ''errors'', ''successRate'', ''avgLatency''}"
  shows "\<exists>tip. trend_tooltip t True (Some items) = Some tip \<and> tt_label tip = None \<and>
    map ttr_key (tt_rows tip) = keys \<and> map ttr_value (tt_rows tip) = map (js_get (trend_data_point p)) keys"
proof -
  have no_label: "js_get (js_get (hd items) ''payload'') ''bucket_label'' = JUndef"
    using assms(1,2) by (cases items) (auto simp: list_all2_Cons2 item_of_point_def trend_data_point_def)
  have row: "ttr_key (tooltip_row (trendChartConfig t) None Dot_mark item) = key \<and>
      ttr_value (tooltip_row (trendChartConfig t) None Dot_mark item) = js_get (trend_data_point p) key"
    if "item_of_point (trend_data_point p) key item" "key \<noteq> []" for key item
    using that by (simp add: tooltip_row_def item_key_def js_or_def item_of_point_def Let_def)
  have "map ttr_key (map (tooltip_row (trendChartConfig t) None Dot_mark) items) = keys \<and>
      map ttr_value (map (tooltip_row (trendChartConfig t) None Dot_mark) items) = map (js_get (trend_data_point p)) keys"
    using assms(1,3) row by (induction rule: list_all2_induct) auto
  with no_label assms(2) show ?thesis by (simp add: trend_tooltip_def ChartTooltipContent_def)
qed

definition sample_trend_point :: TrendPoint where
  "sample_trend_point = \<lparr>tp_bucket = ''09:00'', tp_total = 3, tp_errors = 1, tp_successRate = Fin 67, tp_avgLatency = Fin 20\<rparr>"

theorem trend_tooltip_untitled_witness:
  "\<exists>tip. trend_tooltip (\<lambda>key _. key) True (Some [JObj [(''dataKey'', JStr ''total''),
      (''value'', js_get (trend_data_point sample_trend_point) ''total''), (''payload'', trend_data_point sample_trend_point)]]) =
    Some tip \<and> tt_label tip = None \<and> map ttr_key (tt_rows tip) = [''total'']"
  using trend_tooltip_untitled [of sample_trend_point "[''total'']"
      "[JObj [(''dataKey'', JStr ''total''), (''value'', js_get (trend_data_point sample_trend_point) ''total''),
          (''payload'', trend_data_point sample_trend_point)]]" "\<lambda>key _. key"]
  by (auto simp: item_of_point_def)

end
