(* ===== verification/Console_Mux.thy ===== *)
theory Console_Mux
  imports Api Messages
begin

text \<open>
  The other side of the client's requests: the routes of the gateway's console API (\<open>Routes\<close> and the handlers of
  \<open>internal/consoleapi/api.go\<close>, the dispatch of \<open>cmd/server/main.go\<close> and \<open>internal/server/router.go\<close>), as the operation
  that method and path select. What an operation does is left to it; paths are clean, as a browser sends them.
\<close>

section \<open>Operations\<close>

datatype ProviderOp = Show_provider | Enable_provider | Test_provider | Upstream_models | Delete_provider | Update_provider

datatype KeyOp = Show_key | Set_models | Set_quota | Delete_key | Rename_key

datatype AliasOp = Show_alias | Enable_alias | Delete_alias | Update_alias

datatype ConsoleOp =
    Redirect_home | Do_login | Do_logout | Show_session
  | List_requests string | Show_request string | Show_stats string | Show_filters
  | List_models | Save_metadata string string | Preview_models
  | List_providers | Create_provider | On_provider ProviderOp string
  | List_keys | Create_key | On_key KeyOp string
  | List_aliases | Create_alias | On_alias AliasOp int
  | Show_timeouts | Save_timeouts | Show_failover | Save_failover
  | Refused int string \<comment> \<open>a status and an error text as JSON\<close>
  | Unrouted \<comment> \<open>the plain 404 of the mux\<close>

definition path_parts :: "string \<Rightarrow> string \<Rightarrow> string list" where
  \<comment> \<open>\<open>strings.Split(strings.TrimPrefix(path, base), "/")\<close>\<close>
  "path_parts base path = split_on (\<lambda>c. c = CHR ''/'') (if starts_with path base then drop (length base) path else path)"

definition second_part :: "string list \<Rightarrow> string \<Rightarrow> bool" where
  \<comment> \<open>\<open>len(parts) >= 2 && parts[1] == s\<close>\<close>
  "second_part parts s \<longleftrightarrow> 2 \<le> length parts \<and> parts ! 1 = s"

definition atoi :: "string \<Rightarrow> int option" where
  "atoi s = (case parse_exponent s of
      None \<Rightarrow> None
    | Some n \<Rightarrow> if - (2 ^ 63) \<le> n \<and> n < 2 ^ 63 then Some n else None)"

section \<open>Handlers\<close>

text \<open>A handler takes the method, the decoded path and the query.\<close>

type_synonym handler = "string \<Rightarrow> string \<Rightarrow> string \<Rightarrow> ConsoleOp"

definition handleRequestDetail :: handler where
  "handleRequestDetail method path query =
     (let ident = (if starts_with path ''/__console/api/requests/'' then drop (length ''/__console/api/requests/'') path else path)
      in if ident = [] then Refused 404 ''not found'' else Show_request ident)"

definition handleModelMetadata :: handler where
  "handleModelMetadata method path query =
     (if method \<noteq> ''PUT'' then Refused 405 ''method not allowed''
      else
        (let parts = path_parts ''/__console/api/models/'' path
         in if length parts < 3 \<or> parts ! 2 \<noteq> ''metadata'' then Refused 404 ''not found''
            else
              (case percent_decode (parts ! 0) of
                 None \<Rightarrow> Refused 400 ''invalid channel''
               | Some channel \<Rightarrow>
                   if channel = [] then Refused 400 ''invalid channel''
                   else
                     (case percent_decode (parts ! 1) of
                        None \<Rightarrow> Refused 400 ''invalid model''
                      | Some model \<Rightarrow> if model = [] then Refused 400 ''invalid model'' else Save_metadata channel model))))"

definition handleProviders :: handler where
  "handleProviders method path query = (if method = ''POST'' then Create_provider else List_providers)"

definition handleProviderDetail :: handler where
  "handleProviderDetail method path query =
     (let parts = path_parts ''/__console/api/providers/'' path; channel = hd parts
      in if channel = [] then Refused 404 ''not found''
         else if second_part parts ''enabled'' \<and> method = ''PATCH'' then On_provider Enable_provider channel
         else if second_part parts ''test'' \<and> method = ''POST'' then On_provider Test_provider channel
         else if second_part parts ''upstream-models'' \<and> method = ''GET'' then On_provider Upstream_models channel
         else if method = ''DELETE'' then On_provider Delete_provider channel
         else if method = ''PATCH'' then On_provider Update_provider channel
         else if method = ''GET'' then On_provider Show_provider channel
         else Refused 405 ''method not allowed'')"

definition handleKeys :: handler where
  "handleKeys method path query = (if method = ''POST'' then Create_key else List_keys)"

definition handleKeyDetail :: handler where
  "handleKeyDetail method path query =
     (let parts = path_parts ''/__console/api/keys/'' path; ident = hd parts
      in if second_part parts ''allowed-models'' \<and> method = ''PATCH'' then On_key Set_models ident
         else if second_part parts ''quota'' \<and> method = ''PATCH'' then On_key Set_quota ident
         else if method = ''DELETE'' then On_key Delete_key ident
         else if method = ''PATCH'' then On_key Rename_key ident
         else On_key Show_key ident)"

definition handleAliases :: handler where
  "handleAliases method path query = (if method = ''POST'' then Create_alias else List_aliases)"

definition handleAliasDetail :: handler where
  "handleAliasDetail method path query =
     (let parts = path_parts ''/__console/api/model-aliases/'' path
      in case atoi (hd parts) of
           None \<Rightarrow> Refused 400 (unicode [0x65E0, 0x6548, 0x7684] @ '' id'')
         | Some ident \<Rightarrow>
             if second_part parts ''enabled'' \<and> method = ''PATCH'' then On_alias Enable_alias ident
             else if method = ''DELETE'' then On_alias Delete_alias ident
             else if method = ''PATCH'' then On_alias Update_alias ident
             else On_alias Show_alias ident)"

definition handleTimeouts :: handler where
  "handleTimeouts method path query = (if method = ''PATCH'' then Save_timeouts else Show_timeouts)"

definition handleFailover :: handler where
  "handleFailover method path query = (if method = ''PATCH'' then Save_failover else Show_failover)"

section \<open>The mux\<close>

text \<open>The patterns in the order of the code; the flag marks the routes behind \<open>requireAuth\<close>.\<close>

definition console_routes :: "(string \<times> bool \<times> handler) list" where
  "console_routes =
     [(''/__console'', False, \<lambda>_ _ _. Redirect_home),
      (''/__console/login'', False, \<lambda>_ _ _. Do_login),
      (''/__console/logout'', False, \<lambda>_ _ _. Do_logout),
      (''/__console/api/session'', False, \<lambda>_ _ _. Show_session),
      (''/__console/api/requests'', True, \<lambda>_ _ query. List_requests query),
      (''/__console/api/requests/'', True, handleRequestDetail),
      (''/__console/api/models'', True, \<lambda>_ _ _. List_models),
      (''/__console/api/models/'', True, handleModelMetadata),
      (''/__console/api/stats'', True, \<lambda>_ _ query. Show_stats query),
      (''/__console/api/filters'', True, \<lambda>_ _ _. Show_filters),
      (''/__console/api/providers'', True, handleProviders),
      (''/__console/api/providers/'', True, handleProviderDetail),
      (''/__console/api/keys'', True, handleKeys),
      (''/__console/api/keys/'', True, handleKeyDetail),
      (''/__console/api/model-aliases'', True, handleAliases),
      (''/__console/api/model-aliases/'', True, handleAliasDetail),
      (''/__console/api/upstream-models-preview'', True, \<lambda>_ _ _. Preview_models),
      (''/__console/api/settings/timeouts'', True, handleTimeouts),
      (''/__console/api/settings/failover'', True, handleFailover)]"

definition pattern_matches :: "string \<Rightarrow> string \<Rightarrow> bool" where
  \<comment> \<open>a pattern that ends in a slash stands for everything below it\<close>
  "pattern_matches pattern path \<longleftrightarrow> (if last pattern = CHR ''/'' then starts_with path pattern else path = pattern)"

fun longest_match :: "(string \<times> 'h) list \<Rightarrow> string \<Rightarrow> (string \<times> 'h) option" where
  "longest_match [] path = None"
| "longest_match (p # ps) path =
     (if pattern_matches (fst p) path
      then (case longest_match ps path of
              Some q \<Rightarrow> if length (fst p) < length (fst q) then Some q else Some p
            | None \<Rightarrow> Some p)
      else longest_match ps path)"

definition raw_path :: "string \<Rightarrow> string" where
  "raw_path url = takeWhile (\<lambda>c. c \<noteq> CHR ''?'') url"

definition raw_query :: "string \<Rightarrow> string" where
  "raw_query url = drop (Suc (length (raw_path url))) url"

text \<open>\<open>configured\<close>: a password is set; \<open>authed\<close>: the request carries its session cookie.\<close>

definition console_serve :: "bool \<Rightarrow> bool \<Rightarrow> string \<Rightarrow> string \<Rightarrow> ConsoleOp" where
  "console_serve configured authed method url =
     (case percent_decode (raw_path url) of
        None \<Rightarrow> Refused 400 ''Bad Request''
      | Some path \<Rightarrow>
          (case longest_match console_routes (raw_path url) of
             None \<Rightarrow> Unrouted
           | Some (_, guarded, h) \<Rightarrow>
               if guarded \<and> \<not> configured then Refused 503 (''GATEWAY_API_KEY '' @ unicode [0x672A, 0x8BBE, 0x7F6E])
               else if guarded \<and> \<not> authed then Refused 401 (unicode [0x672A, 0x6388, 0x6743])
               else h method path (raw_query url)))"

definition serve :: "bool \<Rightarrow> bool \<Rightarrow> HttpRequest \<Rightarrow> ConsoleOp" where
  "serve configured authed rq = console_serve configured authed (hr_method rq) (hr_url rq)"

text \<open>The answer to a refused request.\<close>

definition refusal :: "ConsoleOp \<Rightarrow> HttpResponse option" where
  "refusal op' =
     (case op' of
        Refused status reason \<Rightarrow> Some
          \<lparr>resp_status = status, resp_contentType = Some ''application/json'',
           resp_json = Inr (JObj [(''error'', JStr reason)]),
           resp_text = json_stringify (JObj [(''error'', JStr reason)])\<rparr>
      | Unrouted \<Rightarrow> Some
          \<lparr>resp_status = 404, resp_contentType = Some ''text/plain; charset=utf-8'', resp_json = Inl ''not JSON'',
           resp_text = ''404 page not found'' @ [CHR 0x0A]\<rparr>
      | _ \<Rightarrow> None)"

section \<open>The whole server\<close>

datatype Dispatch = To_console ConsoleOp | To_health | To_reset | To_models | To_proxy | To_web | Not_found

definition gateway_routes :: "(string \<times> Dispatch option) list" where
  \<comment> \<open>\<open>None\<close>: the root handler\<close>
  "gateway_routes =
     [(''/health'', Some To_health), (''/api/db/reset'', Some To_reset), (''/v1/models'', Some To_models),
      (''/openai/v1/models'', Some To_models), (''/'', None)]"

definition web_handler :: "string \<Rightarrow> string \<Rightarrow> Dispatch" where
  \<comment> \<open>\<open>To_web\<close>: the page or a file of the dashboard\<close>
  "web_handler method path =
     (if method \<noteq> ''GET'' \<and> method \<noteq> ''HEAD'' then Not_found
      else if starts_with path ''/__console'' \<or> starts_with path ''/v1/'' then Not_found
      else To_web)"

definition root_handler :: "string \<Rightarrow> string \<Rightarrow> Dispatch" where
  "root_handler method path = (if starts_with path ''/v1/'' \<or> path = ''/v1/models'' then To_proxy else web_handler method path)"

definition server_dispatch :: "bool \<Rightarrow> bool \<Rightarrow> string \<Rightarrow> string \<Rightarrow> Dispatch" where
  \<comment> \<open>of a server with a database, whose migrations succeeded\<close>
  "server_dispatch configured authed method url =
     (case percent_decode (raw_path url) of
        None \<Rightarrow> Not_found
      | Some path \<Rightarrow>
          if starts_with path ''/__console'' then To_console (console_serve configured authed method url)
          else (case longest_match gateway_routes (raw_path url) of
                  Some (_, Some d) \<Rightarrow> d
                | Some (_, None) \<Rightarrow> root_handler method path
                | None \<Rightarrow> Not_found))"

section \<open>The calls of the client\<close>

text \<open>Names that are one segment of a path; a browser resolves \<open>.\<close> and \<open>..\<close> before it sends.\<close>

definition plain_name :: "string \<Rightarrow> bool" where
  "plain_name name \<longleftrightarrow> name \<noteq> [] \<and> CHR ''/'' \<notin> set name \<and> name \<noteq> ''.'' \<and> name \<noteq> ''..''"

text \<open>The request of each function of \<open>api.ts\<close>, with the operation it is meant for by its name and arguments.\<close>

inductive client_call :: "HttpRequest \<Rightarrow> ConsoleOp \<Rightarrow> bool" where
  "client_call fetchSession Show_session"
| "client_call (login_request password) Do_login"
| "client_call logout Do_logout"
| "client_call (fetchRequests limit offset fs sortBy sortOrder)
     (List_requests (params_string (request_params limit offset fs sortBy sortOrder)))"
| "plain_name requestId \<Longrightarrow> client_call (fetchRequestDetail requestId) (Show_request requestId)"
| "client_call (fetchUsageStats query) (Show_stats (params_string query))"
| "client_call fetchFilterOptions Show_filters"
| "client_call fetchProviders List_providers"
| "client_call (createProvider p) Create_provider"
| "plain_name c \<Longrightarrow> client_call (fetchProvider c) (On_provider Show_provider c)"
| "plain_name c \<Longrightarrow> client_call (updateProvider c p) (On_provider Update_provider c)"
| "plain_name c \<Longrightarrow> client_call (deleteProvider c) (On_provider Delete_provider c)"
| "plain_name c \<Longrightarrow> client_call (toggleProvider c on) (On_provider Enable_provider c)"
| "plain_name c \<Longrightarrow> client_call (testProvider c model) (On_provider Test_provider c)"
| "plain_name c \<Longrightarrow> client_call (fetchUpstreamModels c) (On_provider Upstream_models c)"
| "client_call (fetchUpstreamModelsPreview pp) Preview_models"
| "client_call fetchKeys List_keys"
| "client_call (createKey name costQuota) Create_key"
| "plain_name k \<Longrightarrow> client_call (getKey k) (On_key Show_key k)"
| "plain_name k \<Longrightarrow> client_call (renameKey k name) (On_key Rename_key k)"
| "plain_name k \<Longrightarrow> client_call (deleteKey k) (On_key Delete_key k)"
| "plain_name k \<Longrightarrow> client_call (setKeyAllowedModels k models) (On_key Set_models k)"
| "plain_name k \<Longrightarrow> client_call (setKeyCostQuota k costQuota) (On_key Set_quota k)"
| "client_call fetchModels List_models"
| "client_call fetchModelAliases List_aliases"
| "client_call (createModelAlias ap) Create_alias"
| "\<bar>a\<bar> < 2 ^ 63 \<Longrightarrow> client_call (updateModelAlias a ap) (On_alias Update_alias a)"
| "\<bar>a\<bar> < 2 ^ 63 \<Longrightarrow> client_call (toggleModelAlias a on) (On_alias Enable_alias a)"
| "\<bar>a\<bar> < 2 ^ 63 \<Longrightarrow> client_call (deleteModelAlias a) (On_alias Delete_alias a)"
| "client_call fetchGatewayTimeoutSettings Show_timeouts"
| "client_call (updateGatewayTimeoutSettings timeouts) Save_timeouts"
| "client_call fetchGatewayFailoverPolicy Show_failover"
| "client_call (updateGatewayFailoverPolicy policy) Save_failover"

section \<open>Lemmas\<close>

lemma takeWhile_free [simp]: "c \<notin> set s \<Longrightarrow> takeWhile (\<lambda>x. x \<noteq> c) (s @ r) = s @ takeWhile (\<lambda>x. x \<noteq> c) r"
  by (induction s) auto

lemma takeWhile_free_all [simp]: "c \<notin> set s \<Longrightarrow> takeWhile (\<lambda>x. x \<noteq> c) s = s"
  by (induction s) auto

lemma no_mark_encode [simp]: "CHR ''?'' \<notin> set (encodeURIComponent s)" "CHR ''/'' \<notin> set (encodeURIComponent s)"
  by (rule encodeURIComponent_safe; simp)+

lemma int_str_chars: "c \<in> set (int_str n) \<Longrightarrow> is_digit c \<or> c = CHR ''-''"
  by (auto simp: int_str_def split: if_splits dest: is_digit_nat_str)

lemma no_mark_int_str [simp]:
  "CHR ''?'' \<notin> set (int_str n)" "CHR ''/'' \<notin> set (int_str n)" "CHR ''%'' \<notin> set (int_str n)"
  using int_str_chars by (auto simp: is_digit_def dest!: int_str_chars)

lemma percent_decode_plain: "CHR ''%'' \<notin> set s \<Longrightarrow> percent_decode (s @ r) = map_option ((@) s) (percent_decode r)"
  by (induction s; cases "percent_decode r") auto

lemma percent_decode_plain_all: "CHR ''%'' \<notin> set s \<Longrightarrow> percent_decode s = Some s"
  by (induction s) auto

lemma percent_decode_encode_app [simp]:
  "percent_decode (encodeURIComponent s @ r) = map_option ((@) s) (percent_decode r)"
  by (induction s; cases "percent_decode r")
    (auto simp: encodeURIComponent_def percent_def hex_byte_percent uri_unreserved_def is_alnum_def)

lemma parts_of_segment:
  assumes "CHR ''/'' \<notin> set s"
  shows "split_on (\<lambda>c. c = CHR ''/'') s = [s]"
    and "split_on (\<lambda>c. c = CHR ''/'') (s @ CHR ''/'' # r) = s # split_on (\<lambda>c. c = CHR ''/'') r"
  using assms by (induction s) auto

lemma parse_exponent_nat_str: "parse_exponent (nat_str m) = Some (int m)"
proof -
  obtain c cs where m: "nat_str m = c # cs" by (cases "nat_str m") auto
  then have digit: "is_digit c" using is_digit_nat_str [of c m] by simp
  then have "c \<noteq> CHR ''+''" "c \<noteq> CHR ''-''" by (auto simp: is_digit_def)
  then have "parse_exponent (c # cs) = (if all_digits (c # cs) then Some (int (nat_of_digits (c # cs))) else None)"
    by (cases "c # cs" rule: parse_exponent.cases) simp_all
  moreover have "all_digits (nat_str m)" by (auto simp: all_digits_def list_all_iff dest: is_digit_nat_str)
  ultimately show ?thesis by (simp flip: m)
qed

lemma atoi_int_str: "\<bar>n\<bar> < 2 ^ 63 \<Longrightarrow> atoi (int_str n) = Some n"
proof -
  assume n: "\<bar>n\<bar> < 2 ^ 63"
  have "all_digits (nat_str (nat (- n)))" by (auto simp: all_digits_def list_all_iff dest: is_digit_nat_str)
  then have "parse_exponent (int_str n) = Some n"
    by (cases "n < 0") (simp_all add: int_str_def parse_exponent_nat_str)
  with n show ?thesis by (auto simp: atoi_def abs_less_iff)
qed

text \<open>The route of each pattern, for the pattern itself or anything below it.\<close>

lemma routes:
  "longest_match console_routes ''/__console/login'' = Some (''/__console/login'', False, \<lambda>_ _ _. Do_login)"
  "longest_match console_routes ''/__console/logout'' = Some (''/__console/logout'', False, \<lambda>_ _ _. Do_logout)"
  "longest_match console_routes ''/__console/api/session'' = Some (''/__console/api/session'', False, \<lambda>_ _ _. Show_session)"
  "longest_match console_routes ''/__console/api/requests'' = Some (''/__console/api/requests'', True, \<lambda>_ _ query. List_requests query)"
  "longest_match console_routes ''/__console/api/models'' = Some (''/__console/api/models'', True, \<lambda>_ _ _. List_models)"
  "longest_match console_routes ''/__console/api/stats'' = Some (''/__console/api/stats'', True, \<lambda>_ _ query. Show_stats query)"
  "longest_match console_routes ''/__console/api/filters'' = Some (''/__console/api/filters'', True, \<lambda>_ _ _. Show_filters)"
  "longest_match console_routes ''/__console/api/providers'' = Some (''/__console/api/providers'', True, handleProviders)"
  "longest_match console_routes ''/__console/api/keys'' = Some (''/__console/api/keys'', True, handleKeys)"
  "longest_match console_routes ''/__console/api/model-aliases'' = Some (''/__console/api/model-aliases'', True, handleAliases)"
  "longest_match console_routes ''/__console/api/upstream-models-preview'' =
     Some (''/__console/api/upstream-models-preview'', True, \<lambda>_ _ _. Preview_models)"
  "longest_match console_routes ''/__console/api/settings/timeouts'' = Some (''/__console/api/settings/timeouts'', True, handleTimeouts)"
  "longest_match console_routes ''/__console/api/settings/failover'' = Some (''/__console/api/settings/failover'', True, handleFailover)"
  "longest_match console_routes (''/__console/api/requests/'' @ s) = Some (''/__console/api/requests/'', True, handleRequestDetail)"
  "longest_match console_routes (''/__console/api/models/'' @ s) = Some (''/__console/api/models/'', True, handleModelMetadata)"
  "longest_match console_routes (''/__console/api/providers/'' @ s) = Some (''/__console/api/providers/'', True, handleProviderDetail)"
  "longest_match console_routes (''/__console/api/keys/'' @ s) = Some (''/__console/api/keys/'', True, handleKeyDetail)"
  "longest_match console_routes (''/__console/api/model-aliases/'' @ s) = Some (''/__console/api/model-aliases/'', True, handleAliasDetail)"
  by (simp_all add: console_routes_def pattern_matches_def starts_with_def)

lemmas routes_simps = routes [unfolded append_Cons append_Nil]

lemmas request_simps = serve_def console_serve_def raw_path_def raw_query_def get_json_def send_json_def without_body_def
  json_request_def no_init_def provider_url_def key_url_def alias_url_def

lemmas handler_simps = handleRequestDetail_def handleModelMetadata_def handleProviders_def handleProviderDetail_def
  handleKeys_def handleKeyDetail_def handleAliases_def handleAliasDetail_def handleTimeouts_def handleFailover_def
  path_parts_def second_part_def starts_with_def parts_of_segment plain_name_def

section \<open>Properties\<close>

text \<open>
  Property C11. Every request of the client but one reaches the operation it is meant for, with its arguments, in a session with
  access, for names that are one segment of a path.
\<close>

theorem console_calls_reach:
  assumes "client_call rq op'"
  shows "serve True True rq = op'"
  using assms
proof cases
  case (27 a ap)
  then show ?thesis using atoi_int_str[of a]
    by (simp add: updateModelAlias_def request_simps routes_simps handler_simps percent_decode_plain_all)
next
  case (28 a on)
  then show ?thesis using atoi_int_str[of a]
    by (simp add: toggleModelAlias_def request_simps routes_simps handler_simps percent_decode_plain)
next
  case (29 a)
  then show ?thesis using atoi_int_str[of a]
    by (simp add: deleteModelAlias_def request_simps routes_simps handler_simps percent_decode_plain_all)
qed (simp_all add: fetchSession_def login_request_def logout_def fetchRequests_def fetchRequestDetail_def fetchUsageStats_def
    query_suffix_def params_string_def Let_def fetchFilterOptions_def fetchProviders_def createProvider_def fetchProvider_def
    updateProvider_def deleteProvider_def toggleProvider_def testProvider_def fetchUpstreamModels_def
    fetchUpstreamModelsPreview_def fetchKeys_def createKey_def getKey_def renameKey_def deleteKey_def setKeyAllowedModels_def
    setKeyCostQuota_def fetchModels_def fetchModelAliases_def createModelAlias_def fetchGatewayTimeoutSettings_def
    updateGatewayTimeoutSettings_def fetchGatewayFailoverPolicy_def updateGatewayFailoverPolicy_def
    request_simps routes_simps handler_simps)

text \<open>
  The one call that never reaches its operation saves the metadata of a model: the client sends \<open>PATCH\<close>, the gateway
  serves \<open>PUT\<close>.
\<close>

lemma served_metadata: "serve True True (updateModelMetadata c m payload) = Refused 405 ''method not allowed''"
  by (simp add: updateModelMetadata_def request_simps routes_simps handler_simps)

text \<open>
  A channel whose name has a slash cannot be reached: its requests act on the channel named by the part before the
  slash, as the gateway splits the path after decoding it.
\<close>

theorem slash_name_hits_other:
  assumes "plain_name a"
  shows "serve True True (deleteProvider (a @ ''/'' @ b)) = On_provider Delete_provider a \<and>
    serve True True (updateProvider (a @ ''/'' @ b) payload) \<in> {On_provider Update_provider a, On_provider Enable_provider a}"
  using assms
  by (simp add: deleteProvider_def updateProvider_def request_simps routes_simps handler_simps Let_def)

theorem console_calls_reach_witness:
  "serve True True (deleteProvider ''50% off'') = On_provider Delete_provider ''50% off''"
  by (rule console_calls_reach, rule client_call.intros) (simp add: plain_name_def)

theorem slash_name_hits_other_witness:
  "serve True True (deleteProvider ''azure/eu'') = On_provider Delete_provider ''azure''"
  using slash_name_hits_other [of "''azure''" "''eu''"] by (simp add: plain_name_def)

end
