(* ===== verification/Api_Docs.thy ===== *)
theory Api_Docs
  imports Console_Mux Clipboard
begin

text \<open>
  The page \<open>components/api-docs-page.tsx\<close>: its list of documented endpoints with their example bodies, the search, the
  entries that fold out, and the copy buttons; and what the server makes of the documented requests (theory
  \<open>Console_Mux\<close>). \<open>toLowerCase\<close> is that of the ASCII letters. CSS classes are left out.
\<close>

section \<open>The documented endpoints\<close>

record BodyExample =
  be_description :: string
  be_json :: jsval

record Endpoint =
  ep_method :: string
  ep_path :: string
  ep_description :: string
  ep_auth :: bool
  ep_body :: "BodyExample option"

definition PROVIDER_BODY :: BodyExample where
  "PROVIDER_BODY = \<lparr>be_description = unicode [0x521B, 0x5EFA] @ ''/'' @ unicode [0x66F4, 0x65B0, 0x6E20, 0x9053],
    be_json = JObj
     [(''channelName'', JStr ''my-openai''), (''type'', JStr ''openai''),
      (''targetBaseUrl'', JStr ''https://api.openai.com/v1''), (''systemPrompt'', JNull),
      (''models'', JArr [JStr ''gpt-4o'', JStr ''gpt-4o-mini'']), (''priority'', int_val 100),
      (''auth'', JObj [(''header'', JStr ''authorization''), (''value'', JStr ''sk-xxxx'')]),
      (''responsesMode'', JStr ''native''), (''extraFields'', JNull)]\<rparr>"

definition PROVIDER_ENABLED_BODY :: BodyExample where
  "PROVIDER_ENABLED_BODY = \<lparr>be_description = unicode [0x542F, 0x7528] @ ''/'' @ unicode [0x7981, 0x7528, 0x6E20, 0x9053],
    be_json = JObj
     [(''enabled'', JBool True)]\<rparr>"

definition KEY_NAME_BODY :: BodyExample where
  "KEY_NAME_BODY = \<lparr>be_description = unicode [0x521B, 0x5EFA] @ ''/'' @ unicode [0x91CD, 0x547D, 0x540D] @ '' API Key'',
    be_json = JObj
     [(''name'', JStr ''my-key'')]\<rparr>"

definition KEY_MODELS_BODY :: BodyExample where
  "KEY_MODELS_BODY = \<lparr>be_description = unicode [0x8BBE, 0x7F6E, 0x5141, 0x8BB8, 0x6A21, 0x578B, 0x5217, 0x8868],
    be_json = JObj
     [(''models'', JArr [JStr ''gpt-4o'', JStr ''gpt-4o-mini''])]\<rparr>"

definition ALIAS_BODY :: BodyExample where
  "ALIAS_BODY = \<lparr>be_description = unicode [0x521B, 0x5EFA] @ ''/'' @ unicode [0x66F4, 0x65B0, 0x6A21, 0x578B, 0x522B, 0x540D],
    be_json = JObj
     [(''alias'', JStr ''gpt-4o''), (''provider'', JStr ''my-openai''), (''model'', JStr ''gpt-4o-2024-08-06''),
      (''description'', JStr (''GPT-4o '' @ unicode [0x4E3B, 0x529B, 0x6A21, 0x578B])), (''enabled'', JBool True)]\<rparr>"

definition ALIAS_ENABLED_BODY :: BodyExample where
  "ALIAS_ENABLED_BODY = \<lparr>be_description = unicode [0x542F, 0x7528] @ ''/'' @ unicode [0x7981, 0x7528, 0x6A21, 0x578B, 0x522B, 0x540D],
    be_json = JObj
     [(''enabled'', JBool True)]\<rparr>"

definition MODEL_METADATA_BODY :: BodyExample where
  "MODEL_METADATA_BODY = \<lparr>be_description = unicode [0x8BBE, 0x7F6E, 0x6E20, 0x9053, 0x6A21, 0x578B, 0x7684, 0x624B, 0x52A8, 0x4E0A, 0x4E0B, 0x6587, 0x548C, 0x4EF7, 0x683C, 0x8986, 0x76D6],
    be_json = JObj
     [(''context'', int_val 128000),
      (''pricing'', JObj [(''input'', JNum (Fin (5/4))), (''output'', JNum (Fin (5/2))), (''cache_read'', JNum (Fin (1/8))),
        (''cache_write'', JNum (Fin (3/2)))])]\<rparr>"

definition ENDPOINTS :: "Endpoint list" where
  "ENDPOINTS =
     [
      \<lparr>ep_method = ''GET'', ep_path = ''/api/v1/health'', ep_description = unicode [0x5065, 0x5EB7, 0x68C0, 0x67E5], ep_auth = False, ep_body = None\<rparr>,
      \<lparr>ep_method = ''GET'', ep_path = ''/api/v1/providers'', ep_description = unicode [0x83B7, 0x53D6, 0x6240, 0x6709, 0x6E20, 0x9053], ep_auth = True, ep_body = None\<rparr>,
      \<lparr>ep_method = ''GET'', ep_path = ''/api/v1/providers/:channelName'', ep_description = unicode [0x83B7, 0x53D6, 0x5355, 0x4E2A, 0x6E20, 0x9053, 0x8BE6, 0x60C5], ep_auth = True, ep_body = None\<rparr>,
      \<lparr>ep_method = ''POST'', ep_path = ''/api/v1/providers'', ep_description = unicode [0x521B, 0x5EFA, 0x6E20, 0x9053], ep_auth = True, ep_body = Some PROVIDER_BODY\<rparr>,
      \<lparr>ep_method = ''PATCH'', ep_path = ''/api/v1/providers/:channelName'', ep_description = unicode [0x66F4, 0x65B0, 0x6E20, 0x9053], ep_auth = True, ep_body = Some PROVIDER_BODY\<rparr>,
      \<lparr>ep_method = ''DELETE'', ep_path = ''/api/v1/providers/:channelName'', ep_description = unicode [0x5220, 0x9664, 0x6E20, 0x9053], ep_auth = True, ep_body = None\<rparr>,
      \<lparr>ep_method = ''PATCH'', ep_path = ''/api/v1/providers/:channelName/enabled'', ep_description = unicode [0x542F, 0x7528] @ ''/'' @ unicode [0x7981, 0x7528, 0x6E20, 0x9053], ep_auth = True, ep_body = Some PROVIDER_ENABLED_BODY\<rparr>,
      \<lparr>ep_method = ''GET'', ep_path = ''/api/v1/requests'', ep_description = unicode [0x83B7, 0x53D6, 0x8BF7, 0x6C42, 0x65E5, 0x5FD7, 0x5217, 0x8868], ep_auth = True, ep_body = None\<rparr>,
      \<lparr>ep_method = ''GET'', ep_path = ''/api/v1/requests/:requestId'', ep_description = unicode [0x83B7, 0x53D6, 0x5355, 0x4E2A, 0x8BF7, 0x6C42, 0x8BE6, 0x60C5], ep_auth = True, ep_body = None\<rparr>,
      \<lparr>ep_method = ''GET'', ep_path = ''/api/v1/stats'', ep_description = unicode [0x83B7, 0x53D6, 0x7EDF, 0x8BA1, 0x6570, 0x636E], ep_auth = True, ep_body = None\<rparr>,
      \<lparr>ep_method = ''GET'', ep_path = ''/api/v1/keys'', ep_description = unicode [0x83B7, 0x53D6, 0x6240, 0x6709] @ '' API Keys'', ep_auth = True, ep_body = None\<rparr>,
      \<lparr>ep_method = ''GET'', ep_path = ''/api/v1/keys/:id'', ep_description = unicode [0x83B7, 0x53D6, 0x5355, 0x4E2A] @ '' API Key'', ep_auth = True, ep_body = None\<rparr>,
      \<lparr>ep_method = ''POST'', ep_path = ''/api/v1/keys'', ep_description = unicode [0x521B, 0x5EFA] @ '' API Key'', ep_auth = True, ep_body = Some KEY_NAME_BODY\<rparr>,
      \<lparr>ep_method = ''PATCH'', ep_path = ''/api/v1/keys/:id'', ep_description = unicode [0x91CD, 0x547D, 0x540D] @ '' API Key'', ep_auth = True, ep_body = Some KEY_NAME_BODY\<rparr>,
      \<lparr>ep_method = ''DELETE'', ep_path = ''/api/v1/keys/:id'', ep_description = unicode [0x5220, 0x9664] @ '' API Key'', ep_auth = True, ep_body = None\<rparr>,
      \<lparr>ep_method = ''PATCH'', ep_path = ''/api/v1/keys/:id/allowed-models'', ep_description = unicode [0x8BBE, 0x7F6E] @ '' API Key '' @ unicode [0x5141, 0x8BB8, 0x6A21, 0x578B], ep_auth = True, ep_body = Some KEY_MODELS_BODY\<rparr>,
      \<lparr>ep_method = ''PATCH'', ep_path = ''/__console/api/models/:channelName/:modelId/metadata'', ep_description = unicode [0x8BBE, 0x7F6E, 0x6A21, 0x578B, 0x624B, 0x52A8, 0x4EF7, 0x683C, 0x548C, 0x4E0A, 0x4E0B, 0x6587], ep_auth = True, ep_body = Some MODEL_METADATA_BODY\<rparr>,
      \<lparr>ep_method = ''GET'', ep_path = ''/api/v1/aliases'', ep_description = unicode [0x83B7, 0x53D6, 0x6240, 0x6709, 0x6A21, 0x578B, 0x522B, 0x540D], ep_auth = True, ep_body = None\<rparr>,
      \<lparr>ep_method = ''POST'', ep_path = ''/api/v1/aliases'', ep_description = unicode [0x521B, 0x5EFA, 0x6A21, 0x578B, 0x522B, 0x540D], ep_auth = True, ep_body = Some ALIAS_BODY\<rparr>,
      \<lparr>ep_method = ''PATCH'', ep_path = ''/api/v1/aliases/:id'', ep_description = unicode [0x66F4, 0x65B0, 0x6A21, 0x578B, 0x522B, 0x540D], ep_auth = True, ep_body = Some ALIAS_BODY\<rparr>,
      \<lparr>ep_method = ''PATCH'', ep_path = ''/api/v1/aliases/:id/enabled'', ep_description = unicode [0x542F, 0x7528] @ ''/'' @ unicode [0x7981, 0x7528, 0x6A21, 0x578B, 0x522B, 0x540D], ep_auth = True, ep_body = Some ALIAS_ENABLED_BODY\<rparr>,
      \<lparr>ep_method = ''DELETE'', ep_path = ''/api/v1/aliases/:id'', ep_description = unicode [0x5220, 0x9664, 0x6A21, 0x578B, 0x522B, 0x540D], ep_auth = True, ep_body = None\<rparr>
     ]"

section \<open>The page\<close>

definition BASE_URL :: "(string \<times> string) option \<Rightarrow> string" where
  \<comment> \<open>protocol and host of the window, if there is one\<close>
  "BASE_URL location = (case location of Some (protocol, host) \<Rightarrow> protocol @ ''//'' @ host | None \<Rightarrow> [])"

text \<open>A copy button shows a tick for two seconds after a copy; nothing catches a refused one.\<close>

definition handleCopy :: "bool \<Rightarrow> string \<Rightarrow> bool \<times> Clipboard \<Rightarrow> bool \<times> Clipboard" where
  "handleCopy allowed content s =
     (case write_text allowed content (snd s) of (clip, True) \<Rightarrow> (True, clip) | (clip, False) \<Rightarrow> (fst s, clip))"

definition copy_expires :: "bool \<times> Clipboard \<Rightarrow> bool \<times> Clipboard" where
  "copy_expires s = (False, snd s)"

record EndpointView =
  ev_method :: string
  ev_path :: string
  ev_description :: string
  ev_badge :: "string option"
  ev_arrow :: "bool option" \<comment> \<open>whether the entry is open, if it has a body\<close>
  ev_body :: "(string \<times> string) option" \<comment> \<open>heading and text\<close>

definition body_text :: "BodyExample \<Rightarrow> string" where
  "body_text body = json_stringify2 (be_json body)"

definition click_endpoint :: "Endpoint \<Rightarrow> bool \<Rightarrow> bool" where
  "click_endpoint ep expanded = (if ep_body ep \<noteq> None then \<not> expanded else expanded)"

definition EndpointItem :: "bool \<Rightarrow> Endpoint \<Rightarrow> EndpointView" where
  "EndpointItem expanded ep =
     \<lparr>ev_method = ep_method ep, ev_path = ep_path ep, ev_description = ep_description ep,
      ev_badge = (if ep_auth ep then Some (unicode [0x9700, 0x8BA4, 0x8BC1]) else None),
      ev_arrow = map_option (\<lambda>_. expanded) (ep_body ep),
      ev_body = (if expanded then map_option (\<lambda>b. (be_description b @ '' - Request Body'', body_text b)) (ep_body ep)
        else None)\<rparr>"

definition filtered :: "string \<Rightarrow> Endpoint list" where
  "filtered pattern' =
     (let found = (\<lambda>s. contains_text (lower_ascii s) (lower_ascii pattern'))
      in filter (\<lambda>ep. found (ep_path ep) \<or> found (ep_description ep) \<or> found (ep_method ep)) ENDPOINTS)"

record ApiDocsView =
  adv_title :: "string \<times> string"
  adv_auth :: "string \<times> string" \<comment> \<open>shown and copied\<close>
  adv_baseUrl :: "string \<times> string"
  adv_search :: "string \<times> string"
  adv_list :: "string \<times> string"
  adv_endpoints :: "(string \<times> EndpointView) list"

definition ApiDocsPage :: "(string \<times> string) option \<Rightarrow> string \<Rightarrow> (string \<Rightarrow> bool) \<Rightarrow> ApiDocsView" where
  \<comment> \<open>\<open>expanded\<close> is the entries' own state, by their key\<close>
  "ApiDocsPage location pattern' expanded =
     \<lparr>adv_title = (''OpenAPI '' @ unicode [0x6587, 0x6863],
        unicode [0x4F7F, 0x7528] @ '' Bearer Token '' @ unicode [0x8BA4, 0x8BC1, 0xFF0C] @ ''Token '' @ unicode [0x4E0E] @ '' GATEWAY_API_KEY '' @ unicode [0x76F8, 0x540C]),
      adv_auth = (''Authorization: Bearer <GATEWAY_API_KEY>'', ''Authorization: Bearer <YOUR_GATEWAY_API_KEY>''),
      adv_baseUrl = (''Base URL'', BASE_URL location),
      adv_search = (unicode [0x641C, 0x7D22, 0x7AEF, 0x70B9] @ ''...'', pattern'),
      adv_list = (unicode [0x7AEF, 0x70B9, 0x5217, 0x8868], unicode [0x5171] @ '' '' @ nat_str (length (filtered pattern')) @ '' '' @ unicode [0x4E2A, 0x7AEF, 0x70B9]),
      adv_endpoints = map (\<lambda>ep. let key = ep_path ep @ ep_method ep in (key, EndpointItem (expanded key) ep)) (filtered pattern')\<rparr>"

section \<open>Lemmas\<close>

text \<open>The keys of the entries are distinct, and an empty search shows them all.\<close>

lemma endpoint_keys_distinct: "distinct (map (\<lambda>ep. ep_path ep @ ep_method ep) ENDPOINTS)"
  by (simp add: ENDPOINTS_def)

lemma empty_search: "filtered [] = ENDPOINTS"
  by (simp add: filtered_def contains_text_def lower_ascii_def)

section \<open>Properties\<close>

text \<open>A documented path with values for its parameters.\<close>

definition fill_path :: "(string \<Rightarrow> string) \<Rightarrow> string \<Rightarrow> string" where
  "fill_path f path = js_join ''/''
     (map (\<lambda>seg. if starts_with seg '':'' then encodeURIComponent (f (drop 1 seg)) else seg)
       (split_on (\<lambda>c. c = CHR ''/'') path))"

lemma dispatch_api:
  assumes "raw_path url = ''/api/v1/'' @ rest" and "percent_decode rest \<noteq> None"
  shows "server_dispatch configured authed method url = web_handler method (''/api/v1/'' @ the (percent_decode rest))"
  using assms
  by (auto simp: server_dispatch_def gateway_routes_def pattern_matches_def starts_with_def root_handler_def)

lemma dispatch_metadata:
  "server_dispatch True True ''PATCH''
     (''/__console/api/models/'' @ encodeURIComponent c @ ''/'' @ encodeURIComponent m @ ''/metadata'') =
     To_console (Refused 405 ''method not allowed'')"
  by (simp add: server_dispatch_def request_simps routes_simps handler_simps)

text \<open>
  None of the documented endpoints exists. Under \<open>/api/v1\<close> the server has nothing: a documented \<open>GET\<close> is answered with the
  dashboard's own page, any other method with 404. The one path of the console is documented with a method it refuses.
\<close>

theorem documented_endpoints_unserved:
  assumes "ep \<in> set ENDPOINTS"
  shows "server_dispatch True True (ep_method ep) (fill_path f (ep_path ep)) =
    (if starts_with (ep_path ep) ''/api/v1/'' then (if ep_method ep = ''GET'' then To_web else Not_found)
     else To_console (Refused 405 ''method not allowed''))"
  using assms
  by (auto simp: ENDPOINTS_def fill_path_def starts_with_def raw_path_def dispatch_api web_handler_def
      dispatch_metadata [unfolded append_Cons append_Nil])

theorem documented_endpoints_unserved_witness:
  "server_dispatch True True ''DELETE'' ''/api/v1/keys/k1'' = Not_found"
proof -
  have "ENDPOINTS ! 14 \<in> set ENDPOINTS" by (simp add: ENDPOINTS_def)
  from documented_endpoints_unserved [OF this, of "\<lambda>_. ''k1''"] show ?thesis
    by (simp add: ENDPOINTS_def fill_path_def starts_with_def encodeURIComponent_def uri_unreserved_def is_alnum_def)
qed

end
