(* ===== verification/Key_Service.thy ===== *)
theory Key_Service
  imports Keys Console_Mux JS_Decimal
begin

text \<open>
  The keys on the gateway's side: \<open>internal/repo/apikey.go\<close> and the key handlers of \<open>internal/consoleapi/api.go\<close>, and what
  the keys page gets to see of them. Database errors, the hash of a key and the random parts of a new one are left
  out; times and new keys are arguments. A stored list of models is the list itself.
\<close>

section \<open>The table of keys\<close>

record ConsoleAPIKey =
  cak_ID :: string
  cak_Name :: string
  cak_KeyValue :: string
  cak_Prefix :: string
  cak_CreatedAt :: int
  cak_LastUsedAt :: "int option"
  cak_Revoked :: bool
  cak_AllowedModels :: "string list"
  cak_CostQuotaMicrousd :: "int option"
  cak_CostUsedMicrousd :: int

definition live_key :: "string \<Rightarrow> ConsoleAPIKey \<Rightarrow> bool" where
  "live_key ident key \<longleftrightarrow> cak_ID key = ident \<and> \<not> cak_Revoked key"

definition repo_List :: "ConsoleAPIKey list \<Rightarrow> ConsoleAPIKey list" where
  \<comment> \<open>newest first\<close>
  "repo_List rows = js_sort (\<lambda>a b. cak_CreatedAt a < cak_CreatedAt b) (filter (\<lambda>key. \<not> cak_Revoked key) rows)"

definition repo_Get :: "string \<Rightarrow> ConsoleAPIKey list \<Rightarrow> ConsoleAPIKey option" where
  "repo_Get ident rows = (let i = trim ident in if i = [] then None else find (live_key i) rows)"

definition repo_Create ::
    "string \<times> string \<times> string \<times> int \<Rightarrow> string \<Rightarrow> int option \<Rightarrow> ConsoleAPIKey list \<Rightarrow> (ConsoleAPIKey list \<times> ConsoleAPIKey) result"
  where
  \<comment> \<open>id, key, prefix and time of the new row\<close>
  "repo_Create fresh name quota rows =
     (case fresh of (ident, rawKey, keyPrefix, now) \<Rightarrow>
        let n = trim name
        in if n = [] then throw (''Key '' @ unicode [0x540D, 0x79F0, 0x4E0D, 0x80FD, 0x4E3A, 0x7A7A])
           else
             (let key = \<lparr>cak_ID = ident, cak_Name = n, cak_KeyValue = rawKey, cak_Prefix = keyPrefix, cak_CreatedAt = now,
                cak_LastUsedAt = None, cak_Revoked = False, cak_AllowedModels = [], cak_CostQuotaMicrousd = quota,
                cak_CostUsedMicrousd = 0\<rparr>
              in return (rows @ [key], key)))"

text \<open>An update of the live row of an id, and the row afterwards; without one, nothing is found.\<close>

definition repo_update ::
    "string \<Rightarrow> (ConsoleAPIKey \<Rightarrow> ConsoleAPIKey) \<Rightarrow> ConsoleAPIKey list \<Rightarrow> (ConsoleAPIKey list \<times> ConsoleAPIKey) option" where
  "repo_update ident f rows =
     (let i = trim ident; rows' = map (\<lambda>key. if live_key i key then f key else key) rows
      in if i = [] \<or> list_all (\<lambda>key. \<not> live_key i key) rows then None
         else map_option (\<lambda>key. (rows', key)) (repo_Get i rows'))"

definition repo_Rename :: "string \<Rightarrow> string \<Rightarrow> ConsoleAPIKey list \<Rightarrow> (ConsoleAPIKey list \<times> ConsoleAPIKey) option" where
  "repo_Rename ident name rows =
     (if trim name = [] then None else repo_update ident (\<lambda>key. key\<lparr>cak_Name := trim name\<rparr>) rows)"

definition repo_Delete :: "string \<Rightarrow> ConsoleAPIKey list \<Rightarrow> ConsoleAPIKey list option" where
  "repo_Delete ident rows =
     (let i = trim ident; rest = filter (\<lambda>key. cak_ID key \<noteq> i) rows
      in if i = [] then Some rows else if length rest = length rows then None else Some rest)"

fun dedupeTrim_seen :: "string list \<Rightarrow> string list \<Rightarrow> string list" where
  "dedupeTrim_seen seen [] = []"
| "dedupeTrim_seen seen (m # ms) =
     (let t = trim m
      in if t = [] \<or> t \<in> set seen then dedupeTrim_seen seen ms else t # dedupeTrim_seen (t # seen) ms)"

definition dedupeTrim :: "string list \<Rightarrow> string list" where
  "dedupeTrim models = dedupeTrim_seen [] models"

definition repo_SetAllowedModels ::
    "string \<Rightarrow> string list \<Rightarrow> ConsoleAPIKey list \<Rightarrow> (ConsoleAPIKey list \<times> ConsoleAPIKey) option" where
  "repo_SetAllowedModels ident models = repo_update ident (\<lambda>key. key\<lparr>cak_AllowedModels := dedupeTrim models\<rparr>)"

definition repo_SetCostQuota ::
    "string \<Rightarrow> int option \<Rightarrow> ConsoleAPIKey list \<Rightarrow> (ConsoleAPIKey list \<times> ConsoleAPIKey) option" where
  "repo_SetCostQuota ident quota = repo_update ident (\<lambda>key. key\<lparr>cak_CostQuotaMicrousd := quota\<rparr>)"

section \<open>Quota and models of a request\<close>

definition usd_of_micro :: "int \<Rightarrow> jsnum" where
  "usd_of_micro n = num_div (js_int n) (Fin 1000000)"

record QuotaSnapshot =
  qs_CostQuota :: "jsnum option"
  qs_CostUsed :: jsnum
  qs_CostRemaining :: "jsnum option"
  qs_QuotaExhausted :: bool

definition BuildQuotaSnapshot :: "int option \<Rightarrow> int \<Rightarrow> QuotaSnapshot" where
  "BuildQuotaSnapshot quotaMicrousd usedMicrousd =
     (let used = usd_of_micro usedMicrousd; quota = map_option usd_of_micro quotaMicrousd
      in \<lparr>qs_CostQuota = quota, qs_CostUsed = used, qs_CostRemaining = map_option (\<lambda>q. num_sub q used) quota,
          qs_QuotaExhausted = (case quota of None \<Rightarrow> False | Some q \<Rightarrow> num_le q used)\<rparr>)"

definition IsModelAllowed :: "string \<Rightarrow> string list \<Rightarrow> bool" where
  "IsModelAllowed model patterns \<longleftrightarrow> patterns = [] \<or>
     list_ex (\<lambda>p. p = model \<or> (p \<noteq> [] \<and> last p = CHR ''*'' \<and> starts_with model (butlast p))) patterns"

section \<open>Handlers\<close>

definition buildKeyInfo :: "ConsoleAPIKey \<Rightarrow> jsval" where
  "buildKeyInfo key =
     (let snap = BuildQuotaSnapshot (cak_CostQuotaMicrousd key) (cak_CostUsedMicrousd key)
      in JObj
        [(''id'', JStr (cak_ID key)), (''name'', JStr (cak_Name key)), (''prefix'', JStr (cak_Prefix key)),
         (''created_at'', int_val (cak_CreatedAt key)), (''last_used_at'', or_null int_val (cak_LastUsedAt key)),
         (''allowed_models'', JArr (map JStr (dedupeTrim (cak_AllowedModels key)))),
         (''cost_quota'', or_null JNum (qs_CostQuota snap)), (''cost_used'', JNum (qs_CostUsed snap)),
         (''quota_exhausted'', JBool (qs_QuotaExhausted snap))])"

text \<open>
  What Go's decoder makes of a field: of a string field what is a string, and of a pointer to an integer nothing for an
  absent or null field, the integer for an integer literal in range, and else a new pointer, to zero. The error of
  the decoder is not looked at.
\<close>

definition go_string :: "jsval \<Rightarrow> string" where
  "go_string v = (case v of JStr s \<Rightarrow> s | _ \<Rightarrow> [])"

definition go_strings :: "jsval \<Rightarrow> string list" where
  "go_strings v = (case v of JArr vs \<Rightarrow> map go_string vs | _ \<Rightarrow> [])"

definition go_int64 :: "jsval \<Rightarrow> int option" where
  "go_int64 v =
     (if nullish v then None
      else
        (case v of
           JNum n \<Rightarrow>
             if \<not> is_finite n then None \<comment> \<open>written as null\<close>
             else (case atoi (number_to_string n) of Some i \<Rightarrow> Some i | None \<Rightarrow> Some 0)
         | _ \<Rightarrow> Some 0))"

type_synonym answer = "int \<times> jsval"

definition key_error_answer :: "int \<Rightarrow> string \<Rightarrow> answer" where
  "key_error_answer status reason = (status, JObj [(''error'', JStr reason)])"

definition id_and_name :: "ConsoleAPIKey \<Rightarrow> answer" where
  "id_and_name key = (200, JObj [(''id'', JStr (cak_ID key)), (''name'', JStr (cak_Name key))])"

definition updated_key :: "ConsoleAPIKey list \<Rightarrow> (ConsoleAPIKey list \<times> ConsoleAPIKey) option \<Rightarrow> ConsoleAPIKey list \<times> answer" where
  "updated_key rows r =
     (case r of None \<Rightarrow> (rows, key_error_answer 404 ''not found'') | Some (rows', key) \<Rightarrow> (rows', id_and_name key))"

definition create_key ::
    "string \<times> string \<times> string \<times> int \<Rightarrow> jsval \<Rightarrow> ConsoleAPIKey list \<Rightarrow> ConsoleAPIKey list \<times> answer" where
  "create_key fresh body rows =
     (case repo_Create fresh (go_string (js_get body ''name'')) (go_int64 (js_get body ''cost_quota'')) rows of
        Inl reason \<Rightarrow> (rows, key_error_answer 400 reason)
      | Inr (rows', key) \<Rightarrow>
          (rows', 201, JObj [(''key'', JStr (cak_KeyValue key)), (''record'', buildKeyInfo key)]))"

definition list_keys :: "ConsoleAPIKey list \<Rightarrow> answer" where
  "list_keys rows = (200, JObj [(''keys'', JArr (map buildKeyInfo (repo_List rows)))])"

text \<open>\<open>body\<close> is the value whose text the request carries.\<close>

fun key_op :: "KeyOp \<Rightarrow> string \<Rightarrow> jsval \<Rightarrow> ConsoleAPIKey list \<Rightarrow> ConsoleAPIKey list \<times> answer" where
  "key_op Set_models ident body rows = updated_key rows (repo_SetAllowedModels ident (go_strings (js_get body ''models'')) rows)"
| "key_op Set_quota ident body rows = updated_key rows (repo_SetCostQuota ident (go_int64 (js_get body ''cost_quota'')) rows)"
| "key_op Delete_key ident body rows =
     (case repo_Delete ident rows of
        None \<Rightarrow> (rows, key_error_answer 404 ''not found'')
      | Some rows' \<Rightarrow> (rows', 200, JObj [(''ok'', JBool True)]))"
| "key_op Rename_key ident body rows = updated_key rows (repo_Rename ident (go_string (js_get body ''name'')) rows)"
| "key_op Show_key ident body rows =
     (rows, case repo_Get ident rows of
        None \<Rightarrow> key_error_answer 404 ''not found''
      | Some key \<Rightarrow> (200, JObj [(''id'', JStr (cak_ID key)), (''name'', JStr (cak_Name key)), (''key'', JStr (cak_KeyValue key))]))"


text \<open>The bodies that the client writes, as values.\<close>

definition quota_body :: "jsnum option \<Rightarrow> jsval" where
  "quota_body q = JObj [(''cost_quota'', or_null JNum q)]"

definition models_body :: "string list \<Rightarrow> jsval" where
  "models_body models = JObj [(''models'', JArr (map JStr models))]"

text \<open>What the page makes of the answer \<open>id_and_name\<close>: \<open>{ ...item, ...updated }\<close>.\<close>

definition spread_answer :: "ConsoleAPIKey \<Rightarrow> ManagedApiKey \<Rightarrow> ManagedApiKey" where
  "spread_answer key item = item\<lparr>ak_id := cak_ID key, ak_name := cak_Name key\<rparr>"

section \<open>The table as a map\<close>

definition live_keys :: "ConsoleAPIKey list \<Rightarrow> string \<Rightarrow> ConsoleAPIKey option" where
  "live_keys rows ident = find (live_key ident) rows"

definition keeps_key :: "(ConsoleAPIKey \<Rightarrow> ConsoleAPIKey) \<Rightarrow> bool" where
  "keeps_key f \<longleftrightarrow> (\<forall>key. cak_ID (f key) = cak_ID key \<and> cak_Revoked (f key) = cak_Revoked key)"

lemma keeps_key_updates [simp]:
  "keeps_key (\<lambda>key. key\<lparr>cak_Name := n\<rparr>)" "keeps_key (\<lambda>key. key\<lparr>cak_AllowedModels := ms\<rparr>)"
  "keeps_key (\<lambda>key. key\<lparr>cak_CostQuotaMicrousd := q\<rparr>)"
  by (simp_all add: keeps_key_def)

lemma live_keys_update:
  assumes "keeps_key f"
  shows "live_keys (map (\<lambda>key. if live_key i key then f key else key) rows) =
    (live_keys rows)(i := map_option f (live_keys rows i))"
proof
  fix j
  show "live_keys (map (\<lambda>key. if live_key i key then f key else key) rows) j =
      ((live_keys rows)(i := map_option f (live_keys rows i))) j"
    using assms by (induction rows) (auto simp: live_keys_def live_key_def keeps_key_def)
qed

lemma live_keys_None: "list_all (\<lambda>key. \<not> live_key i key) rows \<longleftrightarrow> live_keys rows i = None"
  by (induction rows) (auto simp: live_keys_def)

lemma live_keys_Some: "live_keys rows i = Some key \<Longrightarrow> cak_ID key = i \<and> \<not> cak_Revoked key \<and> key \<in> set rows"
  by (auto simp: live_keys_def live_key_def find_Some_iff)

lemma repo_Get_live: "repo_Get ident rows = (if trim ident = [] then None else live_keys rows (trim ident))"
  by (simp add: repo_Get_def live_keys_def)

text \<open>An update finds the live row, changes it alone, and answers with it.\<close>

lemma repo_update_live:
  assumes "keeps_key f"
  shows "repo_update ident f rows = map_option
     (\<lambda>key. (map (\<lambda>k. if live_key (trim ident) k then f k else k) rows, f key)) (repo_Get ident rows)"
  using live_keys_update [OF assms]
  by (auto simp: repo_update_def Let_def repo_Get_live live_keys_None)

lemma live_keys_filter:
  "live_keys (filter (\<lambda>key. cak_ID key \<noteq> i) rows) = (live_keys rows)(i := None)"
proof
  fix j
  show "live_keys (filter (\<lambda>key. cak_ID key \<noteq> i) rows) j = ((live_keys rows)(i := None)) j"
    by (induction rows) (auto simp: live_keys_def live_key_def)
qed

lemma live_keys_append:
  "live_keys (rows @ [key]) i = (case live_keys rows i of None \<Rightarrow> if live_key i key then Some key else None | Some k \<Rightarrow> Some k)"
  by (induction rows) (auto simp: live_keys_def)

lemma filter_shorter: "length (filter P xs) = length xs \<longleftrightarrow> list_all P xs"
  by (metis filter_True length_filter_less less_irrefl list_all_iff)

lemma dedupeTrim_clean:
  assumes "clean_models ms"
  shows "dedupeTrim ms = ms"
proof -
  have "dedupeTrim_seen seen ms = ms" if "set seen \<inter> set ms = {}" for seen
    using assms that by (induction ms arbitrary: seen) (auto simp: clean_models_def Let_def)
  from this[of "[]"] show ?thesis by (simp add: dedupeTrim_def)
qed

lemma go_strings_JStr [simp]: "go_strings (JArr (map JStr ms)) = ms"
  by (simp add: go_strings_def go_string_def o_def)

text \<open>A text that \<open>Atoi\<close> reads is the text of a whole number, so a fraction is no \<open>int64\<close>.\<close>

lemma string_to_number_atoi:
  assumes "atoi s = Some i" and "is_digit (hd s)" and "s \<noteq> []"
  shows "string_to_number s = fl (of_int i)"
proof -
  obtain c cs where s: "s = c # cs" using assms(3) by (cases s) auto
  with assms(2) have "c \<noteq> CHR ''+''" "c \<noteq> CHR ''-''" by (auto simp: is_digit_def)
  then have "parse_exponent (c # cs) = (if all_digits (c # cs) then Some (int (nat_of_digits (c # cs))) else None)"
    by (cases "c # cs" rule: parse_exponent.cases) simp_all
  with assms(1) s have digits: "all_digits s" and i: "i = int (nat_of_digits s)"
    by (auto simp: atoi_def split: option.splits if_splits)
  then have ip: "takeWhile is_digit s = s" "dropWhile is_digit s = []"
    by (auto simp: all_digits_def list_all_iff takeWhile_eq_all_conv)
  have "parse_unsigned s = Some (of_int i)" using assms(3) by (simp add: parse_unsigned_def ip i)
  moreover have "list_all numeral_char s" using digits by (auto simp: all_digits_def list_all_iff numeral_char_def)
  ultimately show ?thesis using assms(2,3) by (simp add: string_to_number_plain parse_signed_digit)
qed

lemma fl_of_int_whole:
  assumes "fl (of_int i) = Fin r" and "0 < r" and "r < 10 ^ 12"
  shows "r \<in> \<int>"
proof -
  have r: "r = fl_rat (of_int i)" by (rule fl_Fin [OF assms(1)])
  have "0 < i"
    using fl_rat_mono [of "of_int i" 0] assms(2) r by (cases "0 < i") auto
  moreover have "i < 2 ^ 53 - 1"
    using fl_rat_mono [of "of_int (2 ^ 53 - 1)" "of_int i"] fl_rat_of_int [of "2 ^ 53 - 1"] assms(3) r
    by (cases "i < 2 ^ 53 - 1") auto
  ultimately show ?thesis using fl_rat_of_int [of i] r by simp
qed

definition sound_quota :: "rat \<Rightarrow> bool" where
  "sound_quota r \<longleftrightarrow> 0 \<le> r \<and> r < 10 ^ 12 \<and> representable r"

lemma quota_decoded:
  assumes "sound_quota r"
  shows "go_int64 (js_get (quota_body (Some (Fin r))) ''cost_quota'') = Some (if r \<in> \<int> then \<lfloor>r\<rfloor> else 0)"
proof (cases "r \<in> \<int>")
  case True
  then obtain n where n: "r = of_int n" by (auto elim: Ints_cases)
  with assms have "\<bar>n\<bar> < 2 ^ 53" by (simp add: sound_quota_def)
  with n True show ?thesis
    by (simp add: quota_body_def or_null_def go_int64_def nullish_def number_to_string_int atoi_int_str del: number_to_string.simps)
next
  case False
  with assms have pos: "0 < r" "representable r" by (auto simp: sound_quota_def le_less)
  have "atoi (number_to_string (Fin r)) = None"
  proof (cases "atoi (number_to_string (Fin r))")
    case (Some i)
    have "string_to_number (number_to_string (Fin r)) = fl (of_int i)"
      using pos_to_string_reads(2) [OF pos(2,1)] pos(1) Some by (intro string_to_number_atoi) auto
    then have "fl (of_int i) = Fin r" using string_to_number_to_string [OF pos(2)] by simp
    then have "r \<in> \<int>" using pos(1) assms by (intro fl_of_int_whole) (simp_all add: sound_quota_def)
    with False show ?thesis by simp
  qed
  with False show ?thesis
    by (simp add: quota_body_def or_null_def go_int64_def nullish_def del: number_to_string.simps)
qed

lemma usd_nonneg: "0 \<le> n \<Longrightarrow> n < 2 ^ 53 \<Longrightarrow> \<exists>u. 0 \<le> u \<and> usd_of_micro n = Fin u"
  using fl_between [of 0 "of_int n / 1000000" "2 ^ 53 - 1"]
  by (auto simp: usd_of_micro_def js_int_exact)

section \<open>Properties\<close>

text \<open>What an operation makes of the key it is for.\<close>

fun key_effect :: "KeyOp \<Rightarrow> jsval \<Rightarrow> ConsoleAPIKey \<Rightarrow> ConsoleAPIKey option" where
  "key_effect Set_models body key = Some (key\<lparr>cak_AllowedModels := dedupeTrim (go_strings (js_get body ''models''))\<rparr>)"
| "key_effect Set_quota body key = Some (key\<lparr>cak_CostQuotaMicrousd := go_int64 (js_get body ''cost_quota'')\<rparr>)"
| "key_effect Delete_key body key = None"
| "key_effect Rename_key body key =
     (let name = trim (go_string (js_get body ''name'')) in if name = [] then Some key else Some (key\<lparr>cak_Name := name\<rparr>))"
| "key_effect Show_key body key = Some key"

lemma updated_key_rows:
  assumes "keeps_key f"
  shows "live_keys (fst (updated_key rows (repo_update ident f rows))) =
    (if trim ident = [] then live_keys rows
     else (live_keys rows)(trim ident := map_option f (live_keys rows (trim ident))))"
  using live_keys_update [OF assms]
  by (auto simp: updated_key_def repo_update_live [OF assms] repo_Get_live split: option.splits)

lemma bind_key_effect:
  "Option.bind x (key_effect Set_models body) =
     map_option (\<lambda>key. key\<lparr>cak_AllowedModels := dedupeTrim (go_strings (js_get body ''models''))\<rparr>) x"
  "Option.bind x (key_effect Set_quota body) = map_option (\<lambda>key. key\<lparr>cak_CostQuotaMicrousd := go_int64 (js_get body ''cost_quota'')\<rparr>) x"
  "Option.bind x (key_effect Delete_key body) = None"
  "Option.bind x (key_effect Rename_key body) =
     (if trim (go_string (js_get body ''name'')) = [] then x
      else map_option (\<lambda>key. key\<lparr>cak_Name := trim (go_string (js_get body ''name''))\<rparr>) x)"
  "Option.bind x (key_effect Show_key body) = x"
  by (cases x; simp add: Let_def)+

text \<open>
  Property C14. The operations on keys act on the map from ids to keys that are not revoked: each changes the key it is for as it
  should, removes it, or leaves it alone, and touches no other key.
\<close>

theorem key_ops_refine_map:
  "live_keys (fst (key_op op' ident body rows)) =
    (if trim ident = [] then live_keys rows
     else (live_keys rows)(trim ident := Option.bind (live_keys rows (trim ident)) (key_effect op' body)))"
proof (cases op')
  case Delete_key
  have "live_keys rows i = None" if "length (filter (\<lambda>key. cak_ID key \<noteq> i) rows) = length rows" for i
    using that by (auto simp: filter_shorter list_all_iff live_keys_def live_key_def find_None_iff)
  then show ?thesis
    using Delete_key by (auto simp: repo_Delete_def Let_def live_keys_filter fun_upd_idem bind_key_effect)
next
  case Rename_key
  show ?thesis
  proof (cases "trim (go_string (js_get body ''name'')) = []")
    case True
    then show ?thesis by (simp add: Rename_key repo_Rename_def updated_key_def bind_key_effect fun_upd_idem)
  qed (simp add: Rename_key repo_Rename_def updated_key_rows bind_key_effect)
qed (simp_all add: repo_SetAllowedModels_def repo_SetCostQuota_def updated_key_rows bind_key_effect fun_upd_idem)

text \<open>
  Property C30. The page counts quotas in dollars, the gateway stores the number it gets as millionths of a dollar: a whole quota is
  stored, and listed, as its millionth part. A quota with cents is no integer for the gateway, which then stores zero:
  the key is exhausted at once. The page is told that both were saved.
\<close>

theorem saved_quota_in_micro_dollars:
  assumes "repo_Get ident rows = Some key" and "sound_quota r"
    and "0 \<le> cak_CostUsedMicrousd key" and "cak_CostUsedMicrousd key < 2 ^ 53"
  shows "\<exists>rows' key'. key_op Set_quota ident (quota_body (Some (Fin r))) rows = (rows', id_and_name key) \<and>
    repo_Get ident rows' = Some key' \<and>
    js_get (buildKeyInfo key') ''cost_quota'' = JNum (if r \<in> \<int> then num_div (Fin r) (Fin 1000000) else Fin 0) \<and>
    (r \<notin> \<int> \<longrightarrow> js_get (buildKeyInfo key') ''quota_exhausted'' = JBool True)"
proof -
  let ?q = "if r \<in> \<int> then \<lfloor>r\<rfloor> else 0"
  let ?f = "\<lambda>k. k\<lparr>cak_CostQuotaMicrousd := Some ?q\<rparr>"
  let ?rows = "map (\<lambda>k. if live_key (trim ident) k then ?f k else k) rows"
  have op': "key_op Set_quota ident (quota_body (Some (Fin r))) rows = (?rows, id_and_name key)"
    by (simp add: quota_decoded [OF assms(2)] repo_SetCostQuota_def repo_update_live assms(1) updated_key_def id_and_name_def)
  have found: "repo_Get ident ?rows = Some (?f key)"
    using assms(1) live_keys_update [of ?f "trim ident" rows] by (simp add: repo_Get_live split: if_splits)
  have "usd_of_micro ?q = (if r \<in> \<int> then num_div (Fin r) (Fin 1000000) else Fin 0)"
  proof (cases "r \<in> \<int>")
    case True
    then obtain n where n: "r = of_int n" by (auto elim: Ints_cases)
    with assms(2) have "\<bar>n\<bar> < 2 ^ 53" by (simp add: sound_quota_def)
    with n True show ?thesis by (simp add: usd_of_micro_def js_int_exact)
  qed (simp add: usd_of_micro_def js_int_exact fl_def)
  then have info: "js_get (buildKeyInfo (?f key)) ''cost_quota'' = JNum (if r \<in> \<int> then num_div (Fin r) (Fin 1000000) else Fin 0)"
    by (simp add: buildKeyInfo_def BuildQuotaSnapshot_def Let_def or_null_def)
  have "js_get (buildKeyInfo (?f key)) ''quota_exhausted'' = JBool True" if "r \<notin> \<int>"
    using usd_nonneg [OF assms(3,4)] usd_nonneg [of 0] that
    by (auto simp: buildKeyInfo_def BuildQuotaSnapshot_def Let_def usd_of_micro_def js_int_exact fl_def num_le_def num_eq_def le_less)
  with op' found info show ?thesis by blast
qed

lemma star_models:
  "(\<exists>p \<in> set ps. p \<noteq> [] \<and> last p = c \<and> Q (butlast p)) \<longleftrightarrow> (\<exists>p. p @ [c] \<in> set ps \<and> Q p)"
  by (metis append_butlast_last_id butlast_snoc last_snoc snoc_eq_iff_butlast)

text \<open>
  Property C31. The models allowed to a key are kept: what the page sends of a clean draft is what the gateway lists afterwards and
  what it lets the key use, by name or by a prefix before a star; no models means all.
\<close>

theorem allowed_models_enforced:
  assumes "repo_Get ident rows = Some key" and "clean_models models"
  shows "\<exists>rows' key'. key_op Set_models ident (models_body models) rows = (rows', id_and_name key) \<and>
    repo_Get ident rows' = Some key' \<and>
    js_get (buildKeyInfo key') ''allowed_models'' = JArr (map JStr models) \<and>
    (\<forall>model. IsModelAllowed model (cak_AllowedModels key') \<longleftrightarrow>
       models = [] \<or> model \<in> set models \<or> (\<exists>p. p @ ''*'' \<in> set models \<and> starts_with model p))"
proof -
  let ?f = "\<lambda>k. k\<lparr>cak_AllowedModels := models\<rparr>"
  let ?rows = "map (\<lambda>k. if live_key (trim ident) k then ?f k else k) rows"
  have "key_op Set_models ident (models_body models) rows = (?rows, id_and_name key)"
    by (simp add: models_body_def repo_SetAllowedModels_def repo_update_live assms(1) updated_key_def id_and_name_def
        dedupeTrim_clean [OF assms(2)])
  moreover have "repo_Get ident ?rows = Some (?f key)"
    using assms(1) live_keys_update [of ?f "trim ident" rows] by (simp add: repo_Get_live split: if_splits)
  moreover have "js_get (buildKeyInfo (?f key)) ''allowed_models'' = JArr (map JStr models)"
    by (simp add: buildKeyInfo_def Let_def dedupeTrim_clean [OF assms(2)])
  moreover have "IsModelAllowed model models \<longleftrightarrow>
       models = [] \<or> model \<in> set models \<or> (\<exists>p. p @ ''*'' \<in> set models \<and> starts_with model p)" for model
    by (simp add: IsModelAllowed_def list_ex_iff star_models bex_disj_distrib conj_assoc)
  ultimately show ?thesis by (intro exI conjI) auto
qed


section \<open>Witnesses\<close>

definition sample_row :: ConsoleAPIKey where
  "sample_row = \<lparr>cak_ID = ''k1'', cak_Name = ''dev'', cak_KeyValue = ''sk-1'', cak_Prefix = ''sk-'', cak_CreatedAt = 1,
     cak_LastUsedAt = None, cak_Revoked = False, cak_AllowedModels = [], cak_CostQuotaMicrousd = None,
     cak_CostUsedMicrousd = 7\<rparr>"

lemma sample_row_found: "repo_Get ''k1'' [sample_row] = Some sample_row"
  by (simp add: repo_Get_def sample_row_def live_key_def trim_def is_space_def)

lemma half_quota: "sound_quota (5 / 2)" "(5 / 2 :: rat) \<notin> \<int>"
proof -
  have "fl_rat (5 / 2) = 5 / 2" by (rule fl_rat_exact [of _ 5 "- 1"]) simp_all
  then have "fl (5 / 2) = Fin (5 / 2)" by (simp add: fl_def)
  then show "sound_quota (5 / 2)" by (simp add: sound_quota_def representable_def)
  show "(5 / 2 :: rat) \<notin> \<int>"
  proof
    assume "(5 / 2 :: rat) \<in> \<int>"
    then obtain n where "(5 / 2 :: rat) = of_int n" by (auto elim: Ints_cases)
    then have "of_int (2 * n) = (of_int 5 :: rat)" by simp
    then have "2 * n = 5" by (simp only: of_int_eq_iff)
    then show False by presburger
  qed
qed

theorem saved_quota_in_micro_dollars_witness:
  "\<exists>rows' (key' :: ConsoleAPIKey). key_op Set_quota ''k1'' (quota_body (Some (Fin (5 / 2)))) [sample_row] = (rows', id_and_name sample_row) \<and>
     js_get (buildKeyInfo key') ''quota_exhausted'' = JBool True"
  using saved_quota_in_micro_dollars [OF sample_row_found half_quota(1)] half_quota(2)
  by (auto simp: sample_row_def)

theorem allowed_models_enforced_witness:
  "\<exists>rows' (key' :: ConsoleAPIKey). key_op Set_models ''k1'' (models_body [''gpt-*'']) [sample_row] = (rows', id_and_name sample_row) \<and>
     IsModelAllowed ''gpt-5'' (cak_AllowedModels key') \<and> \<not> IsModelAllowed ''o3'' (cak_AllowedModels key')"
proof -
  have "clean_models [''gpt-*'']" by (simp add: clean_models_def trim_def is_space_def)
  from allowed_models_enforced [OF sample_row_found this] obtain rows' and key' :: ConsoleAPIKey where
    op': "key_op Set_models ''k1'' (models_body [''gpt-*'']) [sample_row] = (rows', id_and_name sample_row)"
    and allowed: "\<forall>model. IsModelAllowed model (cak_AllowedModels key') \<longleftrightarrow> [''gpt-*''] = [] \<or>
       model \<in> set [''gpt-*''] \<or> (\<exists>p. p @ ''*'' \<in> set [''gpt-*''] \<and> starts_with model p)"
    by blast
  have star: "p @ ''*'' = ''gpt-*'' \<longleftrightarrow> p = ''gpt-''" for p :: string
    using append_same_eq [of p "''*''" "''gpt-''"] by simp
  have "IsModelAllowed ''gpt-5'' (cak_AllowedModels key') \<and> \<not> IsModelAllowed ''o3'' (cak_AllowedModels key')"
    using allowed by (simp add: star starts_with_def)
  with op' show ?thesis by blast
qed


end
