(* ===== verification/Config_Service.thy ===== *)
theory Config_Service
  imports Providers Gateway_Routing Key_Service Models_Page Routes_Page
begin

text \<open>
  The configuration on the gateway's side: \<open>internal/repo/provider.go\<close>, the channel handlers of
  \<open>internal/consoleapi/api.go\<close> with the decoding of their requests, the switch of an alias, and the snapshot of the
  configuration that routing works on. Database errors other than a name that is taken, and the times of rows are left
  out; a fresh id is an argument. Stored JSON is kept as its value, the fields of an object in the order they came.
\<close>

section \<open>Decoding a channel\<close>

text \<open>\<open>json.Unmarshal\<close> into the fields of a struct: \<open>None\<close> is a value of another type.\<close>

definition dec_string :: "jsval \<Rightarrow> string option" where
  "dec_string v = (if nullish v then Some [] else case v of JStr s \<Rightarrow> Some s | _ \<Rightarrow> None)"

definition dec_opt_string :: "jsval \<Rightarrow> string option option" where
  "dec_opt_string v = (if nullish v then Some None else map_option Some (dec_string v))"

definition dec_int :: "jsval \<Rightarrow> int option" where
  "dec_int v =
     (if nullish v then Some 0
      else
        (case v of
           JNum n \<Rightarrow> if is_finite n then atoi (number_to_string n) else Some 0 \<comment> \<open>written as null\<close>
         | _ \<Rightarrow> None))"

definition dec_array :: "jsval \<Rightarrow> jsval list option" where
  "dec_array v = (if nullish v then Some [] else case v of JArr vs \<Rightarrow> Some vs | _ \<Rightarrow> None)"

definition dec_object :: "jsval \<Rightarrow> (string \<times> jsval) list option option" where
  "dec_object v = (if nullish v then Some None else case v of JObj fs \<Rightarrow> Some (Some fs) | _ \<Rightarrow> None)"

definition dec_auth :: "jsval \<Rightarrow> (string \<times> string) option option" where
  \<comment> \<open>header and value\<close>
  "dec_auth v =
     (case dec_object v of
        None \<Rightarrow> None
      | Some None \<Rightarrow> Some None
      | Some (Some fs) \<Rightarrow>
          (case (dec_string (js_get v ''header''), dec_string (js_get v ''value'')) of
             (Some h, Some a) \<Rightarrow> Some (Some (h, a))
           | _ \<Rightarrow> None))"

record providerMutation =
  dm_ChannelName :: string
  dm_Type :: string
  dm_TargetBaseURL :: string
  dm_SystemPrompt :: "string option"
  dm_Models :: "jsval list"
  dm_Priority :: int
  dm_RoutingVisibility :: "string option"
  dm_Auth :: "(string \<times> string) option"
  dm_ResponsesMode :: "string option"
  dm_ExtraFields :: "(string \<times> jsval) list option"

definition decode_mutation :: "jsval \<Rightarrow> providerMutation option" where
  "decode_mutation v =
     (case (dec_object v, dec_string (js_get v ''channelName''), dec_string (js_get v ''type''),
            dec_string (js_get v ''targetBaseUrl''), dec_opt_string (js_get v ''systemPrompt'')) of
        (Some _, Some channelName, Some typ, Some url, Some systemPrompt) \<Rightarrow>
          (case (dec_array (js_get v ''models''), dec_int (js_get v ''priority''),
                 dec_opt_string (js_get v ''routingVisibility''), dec_auth (js_get v ''auth''),
                 dec_opt_string (js_get v ''responsesMode''), dec_object (js_get v ''extraFields'')) of
             (Some models, Some priority, Some visibility, Some auth, Some mode, Some extraFields) \<Rightarrow> Some
               \<lparr>dm_ChannelName = channelName, dm_Type = typ, dm_TargetBaseURL = url, dm_SystemPrompt = systemPrompt,
                dm_Models = models, dm_Priority = priority, dm_RoutingVisibility = visibility, dm_Auth = auth,
                dm_ResponsesMode = mode, dm_ExtraFields = extraFields\<rparr>
           | _ \<Rightarrow> None)
      | _ \<Rightarrow> None)"

record ProviderInput =
  pi_Type :: string
  pi_TargetBaseURL :: string
  pi_SystemPrompt :: "string option"
  pi_Models :: "jsval list"
  pi_Priority :: int
  pi_Enabled :: bool
  pi_RoutingVisibility :: string
  pi_Auth :: "(string \<times> string) option" \<comment> \<open>\<open>AuthHeader\<close> and \<open>AuthValue\<close>, which are set together\<close>
  pi_ExtraFields :: "(string \<times> jsval) list"

definition normalizeProviderModels :: "jsval list \<Rightarrow> jsval list" where
  "normalizeProviderModels raw =
     List.map_filter (\<lambda>r. case r of JStr s \<Rightarrow> Some (JObj [(''model'', JStr s)]) | JNull \<Rightarrow> Some (JObj [(''model'', JStr [])])
       | JObj fs \<Rightarrow> Some (JObj fs) | _ \<Rightarrow> None) raw"

definition input_auth :: "string \<Rightarrow> (string \<times> string) option \<Rightarrow> (string \<times> string) option" where
  "input_auth typ auth =
     (case auth of
        None \<Rightarrow> None
      | Some (header, val) \<Rightarrow>
          if val = [] then None
          else Some (if header \<noteq> [] then header else if typ = ''anthropic'' then ''x-api-key'' else ''authorization'', val))"

definition buildProviderInput :: "providerMutation \<Rightarrow> bool \<Rightarrow> ProviderInput" where
  "buildProviderInput m isCreate =
     (let typ = (if dm_Type m = [] then ''openai'' else dm_Type m);
          extra = (case dm_ExtraFields m of None \<Rightarrow> [] | Some fs \<Rightarrow> fs)
      in \<lparr>pi_Type = typ, pi_TargetBaseURL = dm_TargetBaseURL m, pi_SystemPrompt = dm_SystemPrompt m,
          pi_Models = normalizeProviderModels (dm_Models m), pi_Priority = dm_Priority m, pi_Enabled = isCreate,
          pi_RoutingVisibility = (case dm_RoutingVisibility m of None \<Rightarrow> [] | Some v \<Rightarrow> v),
          pi_Auth = input_auth typ (dm_Auth m),
          pi_ExtraFields = (case dm_ResponsesMode m of
              None \<Rightarrow> extra | Some mode \<Rightarrow> if mode = [] then extra else map_set ''responsesMode'' (JStr mode) extra)\<rparr>)"

section \<open>The table of channels\<close>

record ConsoleProvider =
  cp_ChannelName :: string
  cp_ProviderUUID :: string
  cp_Type :: string
  cp_TargetBaseURL :: string
  cp_SystemPrompt :: "string option"
  cp_Models :: "jsval list"
  cp_Priority :: int
  cp_Auth :: "(string \<times> string) option"
  cp_ExtraFields :: "(string \<times> jsval) list"
  cp_RoutingVisibility :: string
  cp_Enabled :: bool

definition buildProviderRow :: "string \<Rightarrow> ProviderInput \<Rightarrow> string \<Rightarrow> ConsoleProvider" where
  "buildProviderRow channelName inp uuid =
     \<lparr>cp_ChannelName = channelName, cp_ProviderUUID = uuid,
      cp_Type = (if pi_Type inp = [] then ''openai'' else pi_Type inp), cp_TargetBaseURL = pi_TargetBaseURL inp,
      cp_SystemPrompt = pi_SystemPrompt inp, cp_Models = pi_Models inp, cp_Priority = pi_Priority inp,
      cp_Auth = pi_Auth inp, cp_ExtraFields = pi_ExtraFields inp,
      cp_RoutingVisibility = (if pi_RoutingVisibility inp = [] then ''direct'' else pi_RoutingVisibility inp),
      cp_Enabled = pi_Enabled inp\<rparr>"

definition GetByChannel :: "string \<Rightarrow> ConsoleProvider list \<Rightarrow> ConsoleProvider option" where
  "GetByChannel name rows = find (\<lambda>prow. cp_ChannelName prow = name) rows"

definition Upsert :: "string \<Rightarrow> string \<Rightarrow> ProviderInput \<Rightarrow> ConsoleProvider list \<Rightarrow> ConsoleProvider list" where
  "Upsert fresh name inp rows =
     (case GetByChannel name rows of
        None \<Rightarrow> rows @ [buildProviderRow name inp fresh]
      | Some old \<Rightarrow>
          (let uuid = (if cp_ProviderUUID old = [] then fresh else cp_ProviderUUID old)
           in map (\<lambda>prow. if cp_ChannelName prow = name then buildProviderRow name inp uuid else prow) rows))"

definition name_taken :: string where
  \<comment> \<open>the error of the database, whatever it says\<close>
  "name_taken = ''duplicate channel name''"

definition repo_UpdateProvider ::
    "string \<Rightarrow> string \<Rightarrow> string \<Rightarrow> ProviderInput \<Rightarrow> ConsoleProvider list \<Rightarrow> ConsoleProvider list result" where
  "repo_UpdateProvider fresh currentName nextName inp rows =
     (case GetByChannel currentName rows of
        None \<Rightarrow> throw (''Provider '' @ quote currentName @ '' not found'')
      | Some old \<Rightarrow>
          (let uuid = (if cp_ProviderUUID old = [] then fresh else cp_ProviderUUID old)
           in if nextName \<noteq> currentName \<and> GetByChannel nextName rows \<noteq> None then throw name_taken
              else return (map (\<lambda>prow. if cp_ChannelName prow = currentName then buildProviderRow nextName inp uuid else prow) rows)))"

definition repo_SetEnabled :: "string \<Rightarrow> bool \<Rightarrow> ConsoleProvider list \<Rightarrow> ConsoleProvider list result" where
  "repo_SetEnabled name on rows =
     (if GetByChannel name rows = None then throw (''Provider '' @ quote name @ '' not found'')
      else return (map (\<lambda>prow. if cp_ChannelName prow = name then prow\<lparr>cp_Enabled := on\<rparr> else prow) rows))"

definition repo_DeleteProvider :: "string \<Rightarrow> ConsoleProvider list \<Rightarrow> ConsoleProvider list result" where
  "repo_DeleteProvider name rows =
     (if GetByChannel name rows = None then throw (''Provider '' @ quote name @ '' not found'')
      else return (filter (\<lambda>prow. cp_ChannelName prow \<noteq> name) rows))"

section \<open>What the console lists\<close>

text \<open>\<open>buildProviderInfo\<close>, its answer read as \<open>types.ts\<close> declares it; there is no field \<open>configured\<close>.\<close>

definition model_info :: "jsval \<Rightarrow> ProviderModelInfo" where
  "model_info v =
     \<lparr>pm_model = go_string (js_get v ''model''),
      pm_context = (case js_get v ''context'' of JNum (Fin r) \<Rightarrow> Some \<lfloor>r\<rfloor> | _ \<Rightarrow> None),
      pm_rest = (case v of JObj fs \<Rightarrow> filter (\<lambda>(k, _). k \<noteq> ''model'' \<and> k \<noteq> ''context'') fs | _ \<Rightarrow> [])\<rparr>"

definition listed_mode :: "(string \<times> jsval) list \<Rightarrow> OpenAiResponsesMode" where
  "listed_mode extra =
     (if js_get (JObj extra) ''responsesMode'' = JStr ''chat_compat'' then Chat_compat
      else if js_get (JObj extra) ''responsesMode'' = JStr ''disabled'' then Responses_disabled else Native)"

definition buildProviderInfo :: "ConsoleProvider \<Rightarrow> ProviderInfo" where
  "buildProviderInfo prow =
     \<lparr>pv_channelName = cp_ChannelName prow, pv_type = (if cp_Type prow = ''anthropic'' then Anthropic else OpenAI),
      pv_targetBaseUrl = cp_TargetBaseURL prow,
      pv_systemPrompt = Some (case cp_SystemPrompt prow of None \<Rightarrow> [] | Some p \<Rightarrow> p),
      pv_priority = cp_Priority prow, pv_enabled = cp_Enabled prow,
      pv_routingVisibility = (if cp_RoutingVisibility prow = ''explicit_only'' then Explicit_only else Direct),
      pv_models = map model_info (cp_Models prow),
      pv_auth = map_option (\<lambda>(header, val).
          \<lparr>pa_header = (if header = ''x-api-key'' then X_api_key else Authorization), pa_configured = False, pa_value = Some val\<rparr>)
        (cp_Auth prow),
      pv_responsesMode = Some (listed_mode (cp_ExtraFields prow)), pv_extraFields = Some (cp_ExtraFields prow),
      pv_providerUuid = cp_ProviderUUID prow, pv_healthStatus = None\<rparr>"

section \<open>Handlers\<close>

text \<open>The tables and the snapshot that requests are routed by.\<close>

record Gateway =
  gw_channels :: "ConsoleProvider list"
  gw_aliases :: "ModelAlias list"
  gw_snapshot :: Snapshot

definition Refresh :: "Gateway \<Rightarrow> Gateway" where
  "Refresh g = g\<lparr>gw_snapshot := buildSnapshot (map buildProviderInfo (gw_channels g)) (gw_aliases g)\<rparr>"

type_synonym 'a handled = "(int \<times> string) + 'a"

definition handle_createProvider :: "string \<Rightarrow> jsval \<Rightarrow> Gateway \<Rightarrow> Gateway \<times> ProviderInfo handled" where
  "handle_createProvider fresh body g =
     (case decode_mutation body of
        None \<Rightarrow> (g, Inl (400, ''invalid json''))
      | Some m \<Rightarrow>
          if dm_ChannelName m = [] then (g, Inl (400, ''channelName is required''))
          else
            (let g' = Refresh (g\<lparr>gw_channels := Upsert fresh (dm_ChannelName m) (buildProviderInput m True) (gw_channels g)\<rparr>)
             in (g', case GetByChannel (dm_ChannelName m) (gw_channels g') of
                       None \<Rightarrow> Inl (500, ''failed to load created provider'')
                     | Some prow \<Rightarrow> Inr (buildProviderInfo prow))))"

text \<open>The input of an update: whether the channel is on is kept, and so are its credentials when none arrive.\<close>

definition updated_input :: "providerMutation \<Rightarrow> ConsoleProvider \<Rightarrow> ProviderInput" where
  "updated_input m existing =
     (let in0 = (buildProviderInput m False)\<lparr>pi_Enabled := cp_Enabled existing\<rparr>
      in if dm_Auth m = None \<and> cp_Auth existing \<noteq> None then in0\<lparr>pi_Auth := cp_Auth existing\<rparr> else in0)"

definition handle_updateProvider :: "string \<Rightarrow> string \<Rightarrow> jsval \<Rightarrow> Gateway \<Rightarrow> Gateway \<times> ProviderInfo handled" where
  "handle_updateProvider fresh channel body g =
     (case decode_mutation body of
        None \<Rightarrow> (g, Inl (400, ''invalid json''))
      | Some m \<Rightarrow>
          (case GetByChannel channel (gw_channels g) of
             None \<Rightarrow> (g, Inl (400, ''not found''))
           | Some existing \<Rightarrow>
               (let nextName = (if dm_ChannelName m = [] then channel else dm_ChannelName m)
                in case repo_UpdateProvider fresh channel nextName (updated_input m existing) (gw_channels g) of
                     Inl reason \<Rightarrow> (g, Inl (400, reason))
                   | Inr rows \<Rightarrow>
                       (let g' = Refresh (g\<lparr>gw_channels := rows\<rparr>)
                        in (g', case GetByChannel nextName rows of
                                  None \<Rightarrow> Inl (500, ''failed to load updated provider'')
                                | Some prow \<Rightarrow> Inr (buildProviderInfo prow))))))"

text \<open>A field \<open>enabled\<close> of type \<open>bool\<close>, which is false when it is absent.\<close>

definition dec_enabled :: "jsval \<Rightarrow> bool option" where
  "dec_enabled body =
     (if nullish body then Some False
      else
        (case (dec_object body, js_get body ''enabled'') of
           (None, _) \<Rightarrow> None
         | (_, JBool b) \<Rightarrow> Some b
         | (_, v) \<Rightarrow> if nullish v then Some False else None))"

definition handle_enableProvider :: "string \<Rightarrow> jsval \<Rightarrow> Gateway \<Rightarrow> Gateway \<times> unit handled" where
  "handle_enableProvider channel body g =
     (case dec_enabled body of
        None \<Rightarrow> (g, Inl (400, ''invalid body''))
      | Some on \<Rightarrow>
          (case repo_SetEnabled channel on (gw_channels g) of
             Inl reason \<Rightarrow> (g, Inl (400, reason))
           | Inr rows \<Rightarrow> (g\<lparr>gw_channels := rows\<rparr>, Inr ())))"

definition handle_deleteProvider :: "string \<Rightarrow> Gateway \<Rightarrow> Gateway \<times> unit handled" where
  "handle_deleteProvider channel g =
     (case repo_DeleteProvider channel (gw_channels g) of
        Inl reason \<Rightarrow> (g, Inl (400, reason))
      | Inr rows \<Rightarrow> (Refresh (g\<lparr>gw_channels := rows\<rparr>), Inr ()))"

definition handle_enableAlias :: "int \<Rightarrow> jsval \<Rightarrow> Gateway \<Rightarrow> Gateway \<times> jsval handled" where
  \<comment> \<open>the error of the decoder is not looked at\<close>
  "handle_enableAlias ident body g =
     (let on = (dec_enabled body = Some True)
      in if list_all (\<lambda>a. al_id a \<noteq> ident) (gw_aliases g) then (g, Inl (400, ''alias '' @ int_str ident @ '' not found''))
         else (Refresh (g\<lparr>gw_aliases := map (\<lambda>a. if al_id a = ident then a\<lparr>al_enabled := on\<rparr> else a) (gw_aliases g)\<rparr>),
           Inr (JObj [(''ok'', JBool True)])))"

text \<open>The changes of channels and aliases as steps of the gateway.\<close>

datatype ConfigStep =
    Create_channel string jsval
  | Update_channel string string jsval
  | Enable_channel string jsval
  | Delete_channel string
  | Enable_an_alias int jsval

fun config_step :: "ConfigStep \<Rightarrow> Gateway \<Rightarrow> Gateway" where
  "config_step (Create_channel fresh body) g = fst (handle_createProvider fresh body g)"
| "config_step (Update_channel fresh channel body) g = fst (handle_updateProvider fresh channel body g)"
| "config_step (Enable_channel channel body) g = fst (handle_enableProvider channel body g)"
| "config_step (Delete_channel channel) g = fst (handle_deleteProvider channel g)"
| "config_step (Enable_an_alias ident body) g = fst (handle_enableAlias ident body g)"

text \<open>What the client sends to switch a channel or an alias.\<close>

definition enabled_body :: "bool \<Rightarrow> jsval" where
  "enabled_body on = JObj [(''enabled'', JBool on)]"

section \<open>Lemmas\<close>

lemma dec_enabled_body [simp]: "dec_enabled (enabled_body on) = Some on"
  by (simp add: dec_enabled_def enabled_body_def dec_object_def nullish_def)

lemmas decoder_simps = dec_string_def dec_opt_string_def dec_array_def dec_object_def dec_auth_def nullish_def or_null_def

definition sent_auth :: "ProviderMutationPayload \<Rightarrow> (string \<times> string) option" where
  \<comment> \<open>the credentials that arrive: none for an absent and for a null field\<close>
  "sent_auth p = (case mp_auth p of
       Some (Some a) \<Rightarrow> Some (case ap_header a of None \<Rightarrow> [] | Some h \<Rightarrow> header_name h, case ap_value a of None \<Rightarrow> [] | Some v \<Rightarrow> v)
     | _ \<Rightarrow> None)"

lemma payload_fields:
  fixes p :: ProviderMutationPayload
  defines "v \<equiv> provider_payload_json p"
  shows "js_get v ''channelName'' = JStr (mp_channelName p)" "js_get v ''type'' = JStr (type_name (mp_type p))"
    "js_get v ''targetBaseUrl'' = JStr (mp_targetBaseUrl p)" "js_get v ''systemPrompt'' = or_null JStr (mp_systemPrompt p)"
    "js_get v ''models'' = JArr (map model_json (mp_models p))" "js_get v ''priority'' = JNum (mp_priority p)"
    "js_get v ''routingVisibility'' = JStr (visibility_name (mp_routingVisibility p))"
    "js_get v ''responsesMode'' = or_null (\<lambda>r. JStr (mode_name r)) (mp_responsesMode p)"
    "js_get v ''extraFields'' = or_null JObj (mp_extraFields p)"
    "js_get v ''auth'' = (case mp_auth p of None \<Rightarrow> JUndef | Some a \<Rightarrow> or_null auth_payload_json a)"
  by (simp_all add: v_def provider_payload_json_def opt_field_def split: option.split)

lemma dec_auth_payload:
  "dec_auth (case mp_auth p of None \<Rightarrow> JUndef | Some a \<Rightarrow> or_null auth_payload_json a) = Some (sent_auth p)"
  by (auto simp: sent_auth_def decoder_simps auth_payload_json_def opt_field_def split: option.splits)

lemma decoded [simp]:
  "dec_string (JStr s) = Some s" "dec_opt_string (JStr s) = Some (Some s)"
  "dec_opt_string (or_null JStr x) = Some x" "dec_opt_string (or_null (\<lambda>r. JStr (f r)) y) = Some (map_option f y)"
  "dec_array (JArr vs) = Some vs" "dec_object (JObj fs) = Some (Some fs)" "dec_object (or_null JObj z) = Some z"
  by (simp_all add: decoder_simps split: option.split)

lemma decode_payload:
  "decode_mutation (provider_payload_json p) = map_option (\<lambda>priority.
     \<lparr>dm_ChannelName = mp_channelName p, dm_Type = type_name (mp_type p), dm_TargetBaseURL = mp_targetBaseUrl p,
      dm_SystemPrompt = mp_systemPrompt p, dm_Models = map model_json (mp_models p), dm_Priority = priority,
      dm_RoutingVisibility = Some (visibility_name (mp_routingVisibility p)), dm_Auth = sent_auth p,
      dm_ResponsesMode = map_option mode_name (mp_responsesMode p), dm_ExtraFields = mp_extraFields p\<rparr>)
     (dec_int (JNum (mp_priority p)))"
proof -
  have "\<exists>fs. provider_payload_json p = JObj fs" by (simp add: provider_payload_json_def)
  then have "\<exists>fs. dec_object (provider_payload_json p) = Some (Some fs)" by auto
  then obtain fs where obj: "dec_object (provider_payload_json p) = Some (Some fs)" by blast
  show ?thesis
    unfolding decode_mutation_def payload_fields dec_auth_payload obj decoded
    by (cases "dec_int (JNum (mp_priority p))") (simp_all add: option.map_ident)
qed

lemma decoded_payload:
  assumes "dec_int (JNum (mp_priority p)) = Some n"
  obtains m where "decode_mutation (provider_payload_json p) = Some m" "dm_ChannelName m = mp_channelName p"
    "dm_Type m = type_name (mp_type p)" "dm_TargetBaseURL m = mp_targetBaseUrl p" "dm_SystemPrompt m = mp_systemPrompt p"
    "dm_Models m = map model_json (mp_models p)" "dm_Priority m = n" "dm_Auth m = sent_auth p"
    "dm_RoutingVisibility m = Some (visibility_name (mp_routingVisibility p))"
    "dm_ResponsesMode m = map_option mode_name (mp_responsesMode p)" "dm_ExtraFields m = mp_extraFields p"
  by (rule that [OF decode_payload [of p, unfolded assms option.map(2)]]) simp_all

lemma find_updated:
  assumes "GetByChannel c rows = Some old" and "cp_ChannelName new = name"
    and "name \<noteq> c \<Longrightarrow> GetByChannel name rows = None"
  shows "GetByChannel name (map (\<lambda>r. if cp_ChannelName r = c then new else r) rows) = Some new"
  using assms by (induction rows) (auto simp: GetByChannel_def split: if_splits)

lemma buildProviderRow_fields [simp]:
  "cp_ChannelName (buildProviderRow name inp uuid) = name" "cp_ProviderUUID (buildProviderRow name inp uuid) = uuid"
  "cp_Auth (buildProviderRow name inp uuid) = pi_Auth inp" "cp_Enabled (buildProviderRow name inp uuid) = pi_Enabled inp"
  "cp_TargetBaseURL (buildProviderRow name inp uuid) = pi_TargetBaseURL inp"
  by (simp_all add: buildProviderRow_def)

text \<open>A successful update, in full: the new row takes the place of the old one and is what is answered.\<close>

lemma updateProvider_done:
  fixes fresh c :: string and old :: ConsoleProvider and m :: providerMutation
  assumes "GetByChannel c (gw_channels g) = Some old" and "decode_mutation body = Some m"
  defines "name \<equiv> if dm_ChannelName m = [] then c else dm_ChannelName m"
  defines "new \<equiv> buildProviderRow name (updated_input m old) (if cp_ProviderUUID old = [] then fresh else cp_ProviderUUID old)"
  shows "handle_updateProvider fresh c body g =
    (if name \<noteq> c \<and> GetByChannel name (gw_channels g) \<noteq> None then (g, Inl (400, name_taken))
     else (Refresh (g\<lparr>gw_channels := map (\<lambda>r. if cp_ChannelName r = c then new else r) (gw_channels g)\<rparr>),
           Inr (buildProviderInfo new)))"
proof -
  have repo: "repo_UpdateProvider fresh c name (updated_input m old) (gw_channels g) =
      (if name \<noteq> c \<and> GetByChannel name (gw_channels g) \<noteq> None then throw name_taken
       else return (map (\<lambda>r. if cp_ChannelName r = c then new else r) (gw_channels g)))"
    unfolding repo_UpdateProvider_def assms(1) option.case Let_def new_def [symmetric] by simp
  have "GetByChannel name (map (\<lambda>r. if cp_ChannelName r = c then new else r) (gw_channels g)) = Some new"
    if "\<not> (name \<noteq> c \<and> GetByChannel name (gw_channels g) \<noteq> None)"
    using that by (intro find_updated [OF assms(1)]) (auto simp: new_def)
  then show ?thesis
    unfolding handle_updateProvider_def assms(1,2) option.case Let_def name_def [symmetric] repo
    by (auto simp: result_simps)
qed

lemma update_fresh: "k \<notin> fst ` set xs \<Longrightarrow> map_set k v xs = xs @ [(k, v)]"
  by (induction xs) auto

definition bare_model :: "ProviderModelInfo \<Rightarrow> ProviderModelInfo" where
  "bare_model m = \<lparr>pm_model = pm_model m, pm_context = None, pm_rest = []\<rparr>"

lemma bare_models:
  assumes "map pm_model ms = map pm_model ns" and "\<forall>m \<in> set ms. pm_context m = None \<and> pm_rest m = []"
  shows "map model_info (normalizeProviderModels (map model_json ms)) = map bare_model ns"
proof -
  have "model_info (model_json m) = bare_model m" if "m \<in> set ms" for m
    using assms(2) that by (simp add: model_info_def model_json_def bare_model_def opt_field_def go_string_def)
  moreover have "normalizeProviderModels (map model_json ms) = map model_json ms"
    by (induction ms) (simp_all add: normalizeProviderModels_def List.map_filter_def model_json_def)
  moreover have "map bare_model ms = map bare_model ns"
    using assms(1) by (simp add: bare_model_def map_eq_conv list_eq_iff_nth_eq)
  ultimately show ?thesis by (simp add: comp_def cong: map_cong)
qed

lemma dec_priority: "0 \<le> n \<Longrightarrow> n < 2 ^ 53 \<Longrightarrow> dec_int (JNum (js_int n)) = Some n"
  using number_to_string_int [of n] atoi_int_str [of n]
  by (simp add: dec_int_def nullish_def js_int_exact del: number_to_string.simps)

lemma listed_mode_sent:
  fixes extra :: "(string \<times> jsval) list option"
  defines "rest \<equiv> case stripResponsesModeFromExtraFields extra of None \<Rightarrow> [] | Some fs \<Rightarrow> fs"
  shows "listed_mode (map_set ''responsesMode'' (JStr (mode_name mode)) rest) = mode" "listed_mode rest = Native"
    "stripResponsesModeFromExtraFields (Some (map_set ''responsesMode'' v rest)) = stripResponsesModeFromExtraFields extra"
    "stripResponsesModeFromExtraFields (Some rest) = stripResponsesModeFromExtraFields extra"
proof -
  have rest: "''responsesMode'' \<notin> fst ` set rest" "rest \<noteq> [] \<Longrightarrow> stripResponsesModeFromExtraFields extra = Some rest"
    "rest = [] \<Longrightarrow> stripResponsesModeFromExtraFields extra = None"
    by (auto simp: rest_def stripResponsesModeFromExtraFields_def Let_def split: option.splits if_splits)
  then have filt: "filter (\<lambda>(k, _). k \<noteq> ''responsesMode'') rest = rest" using rest(1) by (auto simp: image_iff intro!: filter_True)
  show "listed_mode (map_set ''responsesMode'' (JStr (mode_name mode)) rest) = mode"
    by (cases mode) (simp_all add: listed_mode_def update_conv')
  show "listed_mode rest = Native"
    using rest(1) by (simp add: listed_mode_def flip: map_of_eq_None_iff)
  show "stripResponsesModeFromExtraFields (Some (map_set ''responsesMode'' v rest)) = stripResponsesModeFromExtraFields extra"
    using rest filt by (cases "rest = []") (simp_all add: update_fresh stripResponsesModeFromExtraFields_def Let_def)
  show "stripResponsesModeFromExtraFields (Some rest) = stripResponsesModeFromExtraFields extra"
    using rest filt by (cases "rest = []") (simp_all add: stripResponsesModeFromExtraFields_def Let_def)
qed

section \<open>Properties\<close>


text \<open>
  Property C13. Every change of the configuration is in force at once, and a refused one changes nothing, but for switching a channel
  on or off: routing goes on with the configuration from before, until the next other change.
\<close>

definition in_force :: "Gateway \<Rightarrow> bool" where
  "in_force g \<longleftrightarrow> gw_snapshot g = buildSnapshot (map buildProviderInfo (gw_channels g)) (gw_aliases g)"

fun switches_channel :: "ConfigStep \<Rightarrow> bool" where
  "switches_channel (Enable_channel _ _) = True"
| "switches_channel _ = False"

lemma in_force_Refresh [simp]: "in_force (Refresh g)"
  by (simp add: in_force_def Refresh_def)

lemma config_step_in_force: "in_force g \<Longrightarrow> \<not> switches_channel st \<Longrightarrow> in_force (config_step st g)"
  by (cases st) (auto simp: handle_createProvider_def handle_updateProvider_def handle_deleteProvider_def handle_enableAlias_def
      Let_def split: option.splits sum.splits)


theorem switched_channel_still_routed:
  fixes g :: Gateway and c :: string and on :: bool
  assumes "in_force g" and "GetByChannel c (gw_channels g) = Some old"
  defines "g' \<equiv> config_step (Enable_channel c (enabled_body on)) g"
  shows "(\<forall>p \<in> set (map buildProviderInfo (gw_channels g')). pv_channelName p = c \<longrightarrow> pv_enabled p = on) \<and>
    gateway_candidates (gw_snapshot g') path search m forced policy =
      gateway_candidates (buildSnapshot (map buildProviderInfo (gw_channels g)) (gw_aliases g)) path search m forced policy"
  using assms(1,2)
  by (auto simp: g'_def handle_enableProvider_def repo_SetEnabled_def result_simps in_force_def buildProviderInfo_def)

text \<open>
  Property C32. Creating a channel under a name that is taken is no error: the channel of that name is replaced, switched on, and its
  credentials are gone unless the form has new ones.
\<close>

theorem create_replaces_channel:
  assumes "GetByChannel (mp_channelName p) (gw_channels g) = Some old" and "mp_channelName p \<noteq> []"
    and "dec_int (JNum (mp_priority p)) \<noteq> None"
  shows "\<exists>g' new. handle_createProvider fresh (provider_payload_json p) g = (g', Inr (buildProviderInfo new)) \<and>
    GetByChannel (mp_channelName p) (gw_channels g') = Some new \<and> length (gw_channels g') = length (gw_channels g) \<and>
    cp_TargetBaseURL new = mp_targetBaseUrl p \<and> cp_Enabled new \<and> (mp_auth p = None \<longrightarrow> cp_Auth new = None) \<and>
    (cp_ProviderUUID old \<noteq> [] \<longrightarrow> cp_ProviderUUID new = cp_ProviderUUID old)"
proof -
  obtain m where m: "decode_mutation (provider_payload_json p) = Some m"
    and fields: "dm_ChannelName m = mp_channelName p" "dm_TargetBaseURL m = mp_targetBaseUrl p" "dm_Auth m = sent_auth p"
    using assms(3) by (auto simp: decode_payload)
  let ?new = "buildProviderRow (mp_channelName p) (buildProviderInput m True)
      (if cp_ProviderUUID old = [] then fresh else cp_ProviderUUID old)"
  let ?rows = "map (\<lambda>r. if cp_ChannelName r = mp_channelName p then ?new else r) (gw_channels g)"
  have found: "GetByChannel (mp_channelName p) ?rows = Some ?new"
    by (rule find_updated [OF assms(1)]) simp_all
  have "handle_createProvider fresh (provider_payload_json p) g =
      (Refresh (g\<lparr>gw_channels := ?rows\<rparr>), Inr (buildProviderInfo ?new))"
    using found by (simp add: handle_createProvider_def m fields assms(1,2) Upsert_def Let_def Refresh_def)
  moreover have "gw_channels (Refresh (g\<lparr>gw_channels := ?rows\<rparr>)) = ?rows" by (simp add: Refresh_def)
  moreover have "cp_TargetBaseURL ?new = mp_targetBaseUrl p" "cp_Enabled ?new" "mp_auth p = None \<longrightarrow> cp_Auth ?new = None"
    by (simp_all add: buildProviderInput_def Let_def fields sent_auth_def input_auth_def)
  ultimately show ?thesis using found by (intro exI [of _ "Refresh (g\<lparr>gw_channels := ?rows\<rparr>)"] exI [of _ ?new]) simp
qed

text \<open>
  \<open>handleToggle\<close> of the routes page with the answer as it comes: \<open>cur?.map((a) => (a.id === updated.id ? updated : a))\<close>.
  For an alias as the answer it is \<open>handleToggle_end\<close>.
\<close>

definition toggle_answered :: "(jsval \<Rightarrow> ModelAlias) \<Rightarrow> jsval \<Rightarrow> RoutesPage \<Rightarrow> RoutesPage" where
  "toggle_answered as_alias updated s =
     s\<lparr>rp_aliases := map_option (map (\<lambda>a. if js_get updated ''id'' = int_val (al_id a) then as_alias updated else a)) (rp_aliases s),
       rp_togglingId := None\<rparr>"

lemma switched_aliases:
  fixes as :: "ModelAlias list"
  shows "\<forall>a \<in> set (map (\<lambda>a. if al_id a = ident then a\<lparr>al_enabled := on\<rparr> else a) as). al_id a = ident \<longrightarrow> al_enabled a = on"
proof
  fix b
  assume "b \<in> set (map (\<lambda>a. if al_id a = ident then a\<lparr>al_enabled := on\<rparr> else a) as)"
  then obtain a where b: "b = (if al_id a = ident then a\<lparr>al_enabled := on\<rparr> else a)" by (auto simp only: set_map)
  show "al_id b = ident \<longrightarrow> al_enabled b = on" unfolding b by (cases "al_id a = ident") simp_all
qed

text \<open>
  The gateway switches an alias but answers only that it is done, so the page, which expects the alias, finds none with
  the id of the answer: its list stays as it was, and shows the setting from before.
\<close>

theorem alias_switch_unseen:
  assumes "\<exists>a \<in> set (gw_aliases g). al_id a = ident"
  shows "\<exists>g' answer. handle_enableAlias ident (enabled_body on) g = (g', Inr answer) \<and>
    (\<forall>a \<in> set (gw_aliases g'). al_id a = ident \<longrightarrow> al_enabled a = on) \<and> in_force g' \<and>
    rp_aliases (toggle_answered as_alias answer s) = rp_aliases s \<and> rp_error (toggle_answered as_alias answer s) = rp_error s"
proof -
  let ?done = "JObj [(''ok'', JBool True)]"
  let ?g = "Refresh (g\<lparr>gw_aliases := map (\<lambda>a. if al_id a = ident then a\<lparr>al_enabled := on\<rparr> else a) (gw_aliases g)\<rparr>)"
  have aliases: "gw_aliases ?g = map (\<lambda>a. if al_id a = ident then a\<lparr>al_enabled := on\<rparr> else a) (gw_aliases g)"
    by (simp add: Refresh_def)
  have "\<not> list_all (\<lambda>a. al_id a \<noteq> ident) (gw_aliases g)" using assms by (auto simp: list_all_iff)
  then have "handle_enableAlias ident (enabled_body on) g = (?g, Inr ?done)" by (simp add: handle_enableAlias_def)
  moreover have "rp_aliases (toggle_answered as_alias ?done s) = rp_aliases s" "rp_error (toggle_answered as_alias ?done s) = rp_error s"
    by (cases "rp_aliases s"; simp add: toggle_answered_def int_val_def)+
  moreover have "\<forall>a \<in> set (gw_aliases ?g). al_id a = ident \<longrightarrow> al_enabled a = on"
    unfolding aliases by (rule switched_aliases)
  moreover have "in_force ?g" by simp
  ultimately show ?thesis by (intro exI [of _ ?g] exI [of _ ?done] conjI)
qed

text \<open>
  Property C33. The metadata of a model cannot be saved: whatever the dialog holds, its request is refused by the gateway, the dialog
  stays open with the reason, and the lists are as before.
\<close>

theorem metadata_save_refused:
  assumes "handleSaveMetadata_start t s = (s1, Some rq)"
  shows "\<exists>resp. refusal (serve True True rq) = Some resp \<and> requestJson (Inr resp) = Inl ''method not allowed'' \<and>
    (let s2 = handleSaveMetadata_end (Inl ''method not allowed'') s1
     in mp_openaiModels s2 = mp_openaiModels s \<and> mp_anthropicModels s2 = mp_anthropicModels s \<and>
        mp_editDialogModel s2 = mp_editDialogModel s \<and> mp_editError s2 = ''method not allowed'' \<and> \<not> mp_savingMetadata s2)"
proof -
  obtain c m payload where "rq = updateModelMetadata c m payload" "s1 = s\<lparr>mp_savingMetadata := True\<rparr>"
    using assms by (auto simp: handleSaveMetadata_start_def split: option.splits sum.splits)
  then show ?thesis
    by (simp add: served_metadata refusal_def requestJson_def result_simps resp_ok_def contains_text_def error_of_payload_def
        coalesce_def nullish_def handleSaveMetadata_end_def edit_error_def)
qed

text \<open>
  Property C12. A channel that is opened and saved unchanged stays as it is listed: its name, address, prompt, priority, visibility,
  credentials and other fields, and whether it is on. Only what its models hold beside their names is lost, and the
  responses mode of an Anthropic channel.
\<close>

theorem unchanged_save_kept:
  fixes g :: Gateway and old :: ConsoleProvider and c fresh :: string
  defines "p \<equiv> buildProviderInfo old"
  assumes "GetByChannel c (gw_channels g) = Some old" and "c \<noteq> []" and "cp_ProviderUUID old \<noteq> []"
    and "trim c = c" and "trim (cp_TargetBaseURL old) = cp_TargetBaseURL old"
    and "\<forall>q. cp_SystemPrompt old = Some q \<longrightarrow> trim q = q"
    and "0 \<le> cp_Priority old" and "cp_Priority old < 2 ^ 53"
    and "\<forall>m \<in> set (pv_models p). trim (pm_model m) = pm_model m \<and> pm_model m \<noteq> []"
    and "\<forall>efs. stripResponsesModeFromExtraFields (pv_extraFields p) = Some efs \<longrightarrow> json_clean (JObj efs)"
  shows "\<exists>payload g' new. buildProviderPayload (createFormState uuids p) Edit_mode = Inr payload \<and>
    handle_updateProvider fresh c (provider_payload_json payload) g = (g', Inr (buildProviderInfo new)) \<and>
    GetByChannel c (gw_channels g') = Some new \<and> in_force g' \<and> cp_Auth new = cp_Auth old \<and>
    stripResponsesModeFromExtraFields (pv_extraFields (buildProviderInfo new)) = stripResponsesModeFromExtraFields (pv_extraFields p) \<and>
    buildProviderInfo new = p\<lparr>pv_models := map bare_model (pv_models p),
      pv_responsesMode := (if pv_type p = OpenAI then pv_responsesMode p else Some Native),
      pv_extraFields := pv_extraFields (buildProviderInfo new)\<rparr>"
proof -
  have stored: "cp_ChannelName old = c"
    using assms(2) by (auto simp: GetByChannel_def find_Some_iff)
  have p: "pv_channelName p = c" "pv_targetBaseUrl p = cp_TargetBaseURL old" "pv_priority p = cp_Priority old"
    "pv_systemPrompt p = Some (case cp_SystemPrompt old of None \<Rightarrow> [] | Some q \<Rightarrow> q)"
    "pv_responsesMode p = Some (listed_mode (cp_ExtraFields old))"
    using stored by (simp_all add: p_def buildProviderInfo_def)
  have "trim (pv_channelName p) = pv_channelName p" "trim (pv_targetBaseUrl p) = pv_targetBaseUrl p"
    "\<forall>q. pv_systemPrompt p = Some q \<longrightarrow> trim q = q" "0 \<le> pv_priority p \<and> pv_priority p < 2 ^ 53"
    using assms(5-9) by (simp_all add: p split: option.split)
  from unchanged_payload [OF this assms(10,11), of uuids] obtain payload where
      payload: "buildProviderPayload (createFormState uuids p) Edit_mode = Inr payload"
    and fields: "mp_channelName payload = c" "mp_type payload = pv_type p" "mp_targetBaseUrl payload = cp_TargetBaseURL old"
      "mp_systemPrompt payload = (if pv_systemPrompt p = Some [] then None else pv_systemPrompt p)"
      "mp_priority payload = js_int (cp_Priority old)" "mp_routingVisibility payload = pv_routingVisibility p"
      "map pm_model (mp_models payload) = map pm_model (pv_models p)" "mp_auth payload = None"
      "mp_responsesMode payload = (if pv_type p = OpenAI then Some (listed_mode (cp_ExtraFields old)) else None)"
      "mp_extraFields payload = stripResponsesModeFromExtraFields (pv_extraFields p)"
    by (elim exE conjE) (rule that; simp add: p)
  have bare: "\<forall>m \<in> set (mp_models payload). pm_context m = None \<and> pm_rest m = []"
    using payload by (auto simp: buildProviderPayload_def result_simps Let_def buildModels_def split: sum.splits)
  obtain m where m: "decode_mutation (provider_payload_json payload) = Some m" and sent: "dm_ChannelName m = c"
      "dm_Type m = type_name (pv_type p)" "dm_TargetBaseURL m = cp_TargetBaseURL old"
      "dm_SystemPrompt m = (if pv_systemPrompt p = Some [] then None else pv_systemPrompt p)"
      "dm_Models m = map model_json (mp_models payload)" "dm_Priority m = cp_Priority old" "dm_Auth m = None"
      "dm_RoutingVisibility m = Some (visibility_name (pv_routingVisibility p))"
      "dm_ResponsesMode m = (if pv_type p = OpenAI then Some (mode_name (listed_mode (cp_ExtraFields old))) else None)"
      "dm_ExtraFields m = stripResponsesModeFromExtraFields (pv_extraFields p)"
    by (rule decoded_payload [of payload "cp_Priority old"]) (simp_all add: fields dec_priority [OF assms(8,9)] sent_auth_def that)
  define new where "new = buildProviderRow c (updated_input m old) (cp_ProviderUUID old)"
  let ?g = "Refresh (g\<lparr>gw_channels := map (\<lambda>r. if cp_ChannelName r = c then new else r) (gw_channels g)\<rparr>)"
  have "handle_updateProvider fresh c (provider_payload_json payload) g = (?g, Inr (buildProviderInfo new))"
    using assms(4) unfolding updateProvider_done [OF assms(2) m] sent(1) new_def by simp
  moreover have "GetByChannel c (gw_channels ?g) = Some new"
    using find_updated [OF assms(2), of new c] by (simp add: new_def Refresh_def)
  moreover have auth: "cp_Auth new = cp_Auth old"
    by (cases "cp_Auth old") (simp_all add: new_def sent updated_input_def buildProviderInput_def input_auth_def Let_def)
  have mode: "mode_name k \<noteq> []" for k by (cases k) simp_all
  let ?rest = "case stripResponsesModeFromExtraFields (pv_extraFields p) of None \<Rightarrow> [] | Some fs \<Rightarrow> fs"
  have "cp_ExtraFields new = (if pv_type p = OpenAI
      then map_set ''responsesMode'' (JStr (mode_name (listed_mode (cp_ExtraFields old)))) ?rest else ?rest)"
    by (simp add: new_def buildProviderRow_def updated_input_def buildProviderInput_def Let_def sent mode)
  then have extra: "listed_mode (cp_ExtraFields new) = (if pv_type p = OpenAI then listed_mode (cp_ExtraFields old) else Native)"
    "stripResponsesModeFromExtraFields (Some (cp_ExtraFields new)) = stripResponsesModeFromExtraFields (pv_extraFields p)"
    by (simp_all add: listed_mode_sent)
  have models: "map model_info (cp_Models new) = map bare_model (pv_models p)"
    using bare_models [OF fields(7) bare]
    by (simp add: new_def buildProviderRow_def updated_input_def buildProviderInput_def Let_def sent)
  have rest: "cp_ChannelName new = c" "cp_ProviderUUID new = cp_ProviderUUID old" "cp_Enabled new = cp_Enabled old"
    "cp_TargetBaseURL new = cp_TargetBaseURL old" "cp_Priority new = cp_Priority old"
    "cp_Type new = type_name (pv_type p)" "cp_RoutingVisibility new = visibility_name (pv_routingVisibility p)"
    "cp_SystemPrompt new = (if pv_systemPrompt p = Some [] then None else pv_systemPrompt p)"
    by (cases "pv_type p"; cases "pv_routingVisibility p";
        simp add: new_def buildProviderRow_def updated_input_def buildProviderInput_def Let_def sent)+
  have "buildProviderInfo new = p\<lparr>pv_models := map bare_model (pv_models p),
      pv_responsesMode := (if pv_type p = OpenAI then pv_responsesMode p else Some Native),
      pv_extraFields := pv_extraFields (buildProviderInfo new)\<rparr>"
    using stored by (simp add: buildProviderInfo_def [of new] rest models auth extra(1))
      (simp add: p_def buildProviderInfo_def)
  moreover have "stripResponsesModeFromExtraFields (pv_extraFields (buildProviderInfo new)) =
      stripResponsesModeFromExtraFields (pv_extraFields p)"
    using extra(2) by (simp add: buildProviderInfo_def [of new])
  moreover have "in_force ?g" by simp
  ultimately show ?thesis using payload auth by (intro exI [of _ payload] exI [of _ ?g] exI [of _ new] conjI)
qed

section \<open>Witnesses\<close>

definition sample_stored :: ConsoleProvider where
  "sample_stored = \<lparr>cp_ChannelName = ''azure'', cp_ProviderUUID = ''u1'', cp_Type = ''openai'', cp_TargetBaseURL = ''https://x'',
     cp_SystemPrompt = None, cp_Models = [JObj [(''model'', JStr ''m'')]], cp_Priority = 1,
     cp_Auth = Some (''authorization'', ''sk''), cp_ExtraFields = [], cp_RoutingVisibility = ''direct'', cp_Enabled = True\<rparr>"

definition sample_gateway :: Gateway where
  "sample_gateway = Refresh \<lparr>gw_channels = [sample_stored], gw_aliases = [shadowing_alias], gw_snapshot = buildSnapshot [] []\<rparr>"

lemma sample_gateway_found: "GetByChannel ''azure'' (gw_channels sample_gateway) = Some sample_stored"
  by (simp add: sample_gateway_def Refresh_def GetByChannel_def sample_stored_def)

lemma sample_gateway_in_force: "in_force sample_gateway"
  by (simp add: sample_gateway_def)

lemma sample_texts [simp]: "trim ''azure'' = ''azure''" "trim ''https://x'' = ''https://x''" "trim ''m'' = ''m''"
  by (simp_all add: trim_def is_space_def)

lemma sample_listed:
  "pv_models (buildProviderInfo sample_stored) = [\<lparr>pm_model = ''m'', pm_context = None, pm_rest = []\<rparr>]"
  "stripResponsesModeFromExtraFields (pv_extraFields (buildProviderInfo sample_stored)) = None"
  by (simp_all add: buildProviderInfo_def sample_stored_def model_info_def go_string_def stripResponsesModeFromExtraFields_def)

lemma press_payload:
  "buildProviderPayload f Edit_mode = Inr p \<Longrightarrow>
     buildProviderPayload (press_clearAuth f) Edit_mode = Inr (p\<lparr>mp_auth := Some None\<rparr>)"
  by (auto simp: buildProviderPayload_def press_clearAuth_def result_simps Let_def auth_of_form_def split: sum.splits)

lemma sample_payload:
  obtains p where "buildProviderPayload (createFormState (\<lambda>_. ''u'') (buildProviderInfo sample_stored)) Edit_mode = Inr p"
    "mp_channelName p = ''azure''" "mp_priority p = js_int 1" "mp_auth p = None"
proof -
  let ?p = "buildProviderInfo sample_stored"
  have "pv_channelName ?p = ''azure''" "pv_targetBaseUrl ?p = ''https://x''" "pv_systemPrompt ?p = Some []" "pv_priority ?p = 1"
    by (simp_all add: buildProviderInfo_def sample_stored_def)
  then show ?thesis using unchanged_payload [of ?p "\<lambda>_. ''u''"] that by (auto simp: sample_listed)
qed


theorem unchanged_save_kept_witness:
  "\<exists>p g' new. handle_updateProvider ''u2'' ''azure'' (provider_payload_json p) sample_gateway = (g', Inr (buildProviderInfo new)) \<and>
     in_force g' \<and> cp_Auth new = Some (''authorization'', ''sk'')"
proof -
  have auth: "cp_Auth sample_stored = Some (''authorization'', ''sk'')" by (simp add: sample_stored_def)
  have "\<exists>p g' new. buildProviderPayload (createFormState (\<lambda>_. ''u'') (buildProviderInfo sample_stored)) Edit_mode = Inr p \<and>
      handle_updateProvider ''u2'' ''azure'' (provider_payload_json p) sample_gateway = (g', Inr (buildProviderInfo new)) \<and>
      in_force g' \<and> cp_Auth new = cp_Auth sample_stored"
    using unchanged_save_kept [OF sample_gateway_found, of "\<lambda>_. ''u''" "''u2''"] unfolding sample_listed
    by (fastforce simp: sample_stored_def)
  then show ?thesis unfolding auth by blast
qed


theorem switched_channel_still_routed_witness:
  "gateway_candidates (gw_snapshot (config_step (Enable_channel ''azure'' (enabled_body False)) sample_gateway)) ''/v1/responses'' [] ''m'' None
     (sample_policy Same_model 1) =
   gateway_candidates (buildSnapshot (map buildProviderInfo [sample_stored]) [shadowing_alias]) ''/v1/responses'' [] ''m'' None
     (sample_policy Same_model 1)"
  using switched_channel_still_routed [OF sample_gateway_in_force sample_gateway_found, of False]
  by (simp add: sample_gateway_def Refresh_def)

theorem create_replaces_channel_witness:
  "\<exists>p g' new. handle_createProvider ''u2'' (provider_payload_json p) sample_gateway = (g', Inr (buildProviderInfo new)) \<and>
     length (gw_channels g') = 1 \<and> cp_Auth new = None"
proof -
  obtain p :: ProviderMutationPayload where p: "mp_channelName p = ''azure''" "mp_priority p = js_int 1" "mp_auth p = None"
    by (rule sample_payload) (rule that)
  have "GetByChannel (mp_channelName p) (gw_channels sample_gateway) = Some sample_stored" using sample_gateway_found p(1) by simp
  from create_replaces_channel [OF this, of "''u2''"] p dec_priority [of 1]
  show ?thesis by (auto simp: sample_gateway_def Refresh_def)
qed

theorem alias_switch_unseen_witness:
  "\<exists>g' answer. handle_enableAlias 1 (enabled_body False) sample_gateway = (g', Inr answer) \<and>
     rp_aliases (toggle_answered (\<lambda>_. shadowing_alias) answer (routes_page_init\<lparr>rp_aliases := Some [shadowing_alias]\<rparr>)) =
       Some [shadowing_alias]"
proof -
  have "\<exists>a \<in> set (gw_aliases sample_gateway). al_id a = 1"
    by (simp add: sample_gateway_def Refresh_def shadowing_alias_def Gateway_Routing.sample_alias_def)
  from alias_switch_unseen [OF this, of False "\<lambda>_. shadowing_alias" "routes_page_init\<lparr>rp_aliases := Some [shadowing_alias]\<rparr>"]
  show ?thesis by auto
qed

theorem metadata_save_refused_witness:
  "\<exists>rq. snd (handleSaveMetadata_start (\<lambda>k _. k) (openEditDialog (Models_Page.sample_model ''a'') models_page_init)) = Some rq \<and>
     refusal (serve True True rq) \<noteq> None"
proof -
  let ?s = "openEditDialog (Models_Page.sample_model ''a'') models_page_init"
  obtain rq where rq: "handleSaveMetadata_start (\<lambda>k _. k) ?s = (fst (handleSaveMetadata_start (\<lambda>k _. k) ?s), Some rq)"
    by (simp add: handleSaveMetadata_start_def openEditDialog_def parseMetadataDraft_of_model [OF valid_sample_model])
  from metadata_save_refused [OF rq] have "refusal (serve True True rq) \<noteq> None" by blast
  with rq show ?thesis by (metis snd_conv)
qed

end
