(* ===== verification/Alias_Service.thy ===== *)
theory Alias_Service
  imports Config_Service
begin

text \<open>
  Editing and deleting an alias on the gateway: the decoding of the request, \<open>buildAliasInput\<close> and \<open>buildAliasInfo\<close> of
  \<open>internal/consoleapi/api.go\<close> and \<open>internal/repo/alias.go\<close>. An alias without targets is one whose column is empty. The
  error of the database for a name that is taken is an argument, and so is the time.
\<close>

section \<open>Decoding\<close>

record aliasMutation =
  am_Alias :: string
  am_Provider :: string
  am_Model :: string
  am_Targets :: "RouteTarget list"
  am_Description :: "string option"
  am_Visible :: "bool option"
  am_Enabled :: "bool option"

definition dec_opt_bool :: "jsval \<Rightarrow> bool option option" where
  "dec_opt_bool v = (if nullish v then Some None else case v of JBool b \<Rightarrow> Some (Some b) | _ \<Rightarrow> None)"

definition dec_target :: "jsval \<Rightarrow> RouteTarget option" where
  "dec_target v =
     (if nullish v then Some \<lparr>tg_provider = [], tg_model = []\<rparr>
      else
        (case (dec_object v, dec_string (js_get v ''provider''), dec_string (js_get v ''model'')) of
           (Some _, Some p, Some m) \<Rightarrow> Some \<lparr>tg_provider = p, tg_model = m\<rparr>
         | _ \<Rightarrow> None))"

definition all_some :: "'a option list \<Rightarrow> 'a list option" where
  "all_some xs = (if None \<in> set xs then None else Some (map the xs))"

definition decode_alias :: "jsval \<Rightarrow> aliasMutation option" where
  "decode_alias v =
     (case (dec_object v, dec_string (js_get v ''alias''), dec_string (js_get v ''provider''), dec_string (js_get v ''model'')) of
        (Some _, Some alias, Some provider, Some model) \<Rightarrow>
          (case (Option.bind (dec_array (js_get v ''targets'')) (\<lambda>vs. all_some (map dec_target vs)),
                 dec_opt_string (js_get v ''description''), dec_opt_bool (js_get v ''visible''), dec_opt_bool (js_get v ''enabled'')) of
             (Some targets, Some description, Some visible, Some enabled) \<Rightarrow> Some
               \<lparr>am_Alias = alias, am_Provider = provider, am_Model = model, am_Targets = targets,
                am_Description = description, am_Visible = visible, am_Enabled = enabled\<rparr>
           | _ \<Rightarrow> None)
      | _ \<Rightarrow> None)"

section \<open>The table\<close>

definition buildAliasInput :: "aliasMutation \<Rightarrow> aliasMutation" where
  "buildAliasInput m =
     (if am_Targets m = [] \<and> am_Provider m \<noteq> [] \<and> am_Model m \<noteq> []
      then m\<lparr>am_Targets := [\<lparr>tg_provider = am_Provider m, tg_model = am_Model m\<rparr>]\<rparr> else m)"

definition buildAliasRow :: "aliasMutation \<Rightarrow> int \<Rightarrow> int \<Rightarrow> ModelAlias" where
  "buildAliasRow inp ident now =
     \<lparr>al_id = ident, al_alias = am_Alias inp, al_provider = am_Provider inp, al_model = am_Model inp,
      al_targets = am_Targets inp, al_description = am_Description inp,
      al_visible = (am_Visible inp \<noteq> Some False), al_enabled = (am_Enabled inp \<noteq> Some False),
      al_createdAt = now, al_updatedAt = now\<rparr>"

definition alias_missing :: "int \<Rightarrow> string" where
  "alias_missing ident = ''alias '' @ int_str ident @ '' not found''"

text \<open>All columns but the id and the time of creation are written.\<close>

definition repo_UpdateAlias :: "string \<Rightarrow> int \<Rightarrow> int \<Rightarrow> aliasMutation \<Rightarrow> ModelAlias list \<Rightarrow> (ModelAlias list \<times> ModelAlias) result" where
  "repo_UpdateAlias taken now ident inp rows =
     (let written = buildAliasRow inp ident now
      in if list_ex (\<lambda>a. al_id a \<noteq> ident \<and> al_alias a = am_Alias inp) rows \<and> list_ex (\<lambda>a. al_id a = ident) rows then throw taken
         else
           (case find (\<lambda>a. al_id a = ident) rows of
              None \<Rightarrow> throw (alias_missing ident)
            | Some old \<Rightarrow>
                (let new = written\<lparr>al_createdAt := al_createdAt old\<rparr>
                 in return (map (\<lambda>a. if al_id a = ident then new else a) rows, new))))"

definition repo_DeleteAlias :: "int \<Rightarrow> ModelAlias list \<Rightarrow> ModelAlias list result" where
  "repo_DeleteAlias ident rows =
     (if list_ex (\<lambda>a. al_id a = ident) rows then return (filter (\<lambda>a. al_id a \<noteq> ident) rows) else throw (alias_missing ident))"

definition ParseTargets :: "ModelAlias \<Rightarrow> RouteTarget list" where
  "ParseTargets a =
     (if al_targets a \<noteq> [] then al_targets a else [\<lparr>tg_provider = al_provider a, tg_model = al_model a\<rparr>])"

definition buildAliasInfo :: "ModelAlias \<Rightarrow> ModelAlias" where
  "buildAliasInfo a =
     a\<lparr>al_targets := ParseTargets a, al_description := Some (case al_description a of None \<Rightarrow> [] | Some d \<Rightarrow> d)\<rparr>"

section \<open>Handlers\<close>

definition handle_updateAlias :: "string \<Rightarrow> int \<Rightarrow> int \<Rightarrow> jsval \<Rightarrow> Gateway \<Rightarrow> Gateway \<times> ModelAlias handled" where
  "handle_updateAlias taken now ident body g =
     (case decode_alias body of
        None \<Rightarrow> (g, Inl (400, ''invalid json''))
      | Some m \<Rightarrow>
          (case repo_UpdateAlias taken now ident (buildAliasInput m) (gw_aliases g) of
             Inl reason \<Rightarrow> (g, Inl (400, reason))
           | Inr (rows, new) \<Rightarrow> (Refresh (g\<lparr>gw_aliases := rows\<rparr>), Inr (buildAliasInfo new))))"

definition handle_deleteAlias :: "int \<Rightarrow> Gateway \<Rightarrow> Gateway \<times> unit handled" where
  "handle_deleteAlias ident g =
     (case repo_DeleteAlias ident (gw_aliases g) of
        Inl reason \<Rightarrow> (g, Inl (400, reason))
      | Inr rows \<Rightarrow> (Refresh (g\<lparr>gw_aliases := rows\<rparr>), Inr ()))"

section \<open>Lemmas\<close>

lemma decode_alias_payload:
  "decode_alias (alias_payload_json p) = Some
     \<lparr>am_Alias = alp_alias p, am_Provider = [], am_Model = [], am_Targets = alp_targets p,
      am_Description = alp_description p, am_Visible = Some (alp_visible p), am_Enabled = None\<rparr>"
proof -
  have "all_some (map dec_target (map target_json ts)) = Some ts" for ts
    by (induction ts) (simp_all add: all_some_def dec_target_def target_json_def nullish_def image_iff split: if_splits)
  moreover have "js_get (alias_payload_json p) ''provider'' = JUndef" "js_get (alias_payload_json p) ''model'' = JUndef"
    "js_get (alias_payload_json p) ''enabled'' = JUndef" "js_get (alias_payload_json p) ''alias'' = JStr (alp_alias p)"
    "js_get (alias_payload_json p) ''targets'' = JArr (map target_json (alp_targets p))"
    "js_get (alias_payload_json p) ''description'' = or_null JStr (alp_description p)"
    "js_get (alias_payload_json p) ''visible'' = JBool (alp_visible p)"
    by (simp_all add: alias_payload_json_def)
  moreover have "\<exists>fs. dec_object (alias_payload_json p) = Some (Some fs)" by (simp add: alias_payload_json_def)
  moreover have "dec_string JUndef = Some []" "dec_opt_bool JUndef = Some None" "dec_opt_bool (JBool b) = Some (Some b)" for b
    by (simp_all add: dec_string_def dec_opt_bool_def nullish_def)
  ultimately show ?thesis by (auto simp: decode_alias_def option.map_ident)
qed

lemma enabled_alias_routed:
  assumes "a \<in> set (gw_aliases g)" and "al_enabled a"
  shows "map_get (sn_aliases (gw_snapshot (Refresh g))) (al_alias a) \<noteq> None"
proof -
  have "al_alias a \<in> fst ` set (sn_aliases (gw_snapshot (Refresh g)))"
    using assms by (auto simp: Refresh_def buildSnapshot_def image_image)
  then show ?thesis by (auto simp: map_of_eq_None_iff)
qed

section \<open>Properties\<close>

text \<open>
  Property C17. An edit of an alias stores what was sent, and the alias as it is answered has the name, the targets and the visibility
  of the form. But the form does not send whether the alias is on, and the gateway then switches it on: editing an
  alias that was switched off puts it in force again.
\<close>

theorem edited_alias_switched_on:
  assumes "old \<in> set (gw_aliases g)" and "al_id old = ident" and "alp_targets p \<noteq> []"
    and "\<forall>a \<in> set (gw_aliases g). al_alias a = alp_alias p \<longrightarrow> al_id a = ident"
  shows "\<exists>g' info. handle_updateAlias taken now ident (alias_payload_json p) g = (g', Inr info) \<and>
    al_id info = ident \<and> al_alias info = alp_alias p \<and> al_targets info = alp_targets p \<and> al_visible info = alp_visible p \<and>
    al_enabled info \<and> in_force g' \<and> map_get (sn_aliases (gw_snapshot g')) (alp_alias p) \<noteq> None"
proof -
  obtain found where found: "find (\<lambda>a. al_id a = ident) (gw_aliases g) = Some found"
    using assms(1,2) by (cases "find (\<lambda>a. al_id a = ident) (gw_aliases g)") (auto simp: find_None_iff)
  let ?m = "\<lparr>am_Alias = alp_alias p, am_Provider = [], am_Model = [], am_Targets = alp_targets p,
      am_Description = alp_description p, am_Visible = Some (alp_visible p), am_Enabled = None\<rparr>"
  define new where "new = (buildAliasRow ?m ident now)\<lparr>al_createdAt := al_createdAt found\<rparr>"
  have new: "al_id new = ident" "al_alias new = alp_alias p" "al_targets new = alp_targets p" "al_enabled new"
    "al_visible new = alp_visible p"
    by (simp_all add: new_def buildAliasRow_def)
  let ?g = "g\<lparr>gw_aliases := map (\<lambda>a. if al_id a = ident then new else a) (gw_aliases g)\<rparr>"
  have free: "\<not> list_ex (\<lambda>a. al_id a \<noteq> ident \<and> al_alias a = alp_alias p) (gw_aliases g)"
    using assms(4) by (auto simp: list_ex_iff)
  then have "repo_UpdateAlias taken now ident ?m (gw_aliases g) = return (gw_aliases ?g, new)"
    by (simp add: repo_UpdateAlias_def Let_def found new_def cong del: if_weak_cong)
  then have "handle_updateAlias taken now ident (alias_payload_json p) g = (Refresh ?g, Inr (buildAliasInfo new))"
    by (simp add: handle_updateAlias_def decode_alias_payload buildAliasInput_def result_simps)
  moreover have "new \<in> set (gw_aliases ?g)" using assms(1,2) by (auto simp: image_iff)
  then have "map_get (sn_aliases (gw_snapshot (Refresh ?g))) (al_alias new) \<noteq> None"
    using new(4) by (rule enabled_alias_routed)
  moreover have "al_targets (buildAliasInfo new) = alp_targets p"
    using assms(3) new(3) by (simp add: buildAliasInfo_def ParseTargets_def)
  ultimately show ?thesis using new by (intro exI [of _ "Refresh ?g"] exI [of _ "buildAliasInfo new"]) (simp add: buildAliasInfo_def)
qed

text \<open>A deleted alias is no longer routed, and the others are as before.\<close>

theorem deleted_alias_gone:
  assumes "\<exists>a \<in> set (gw_aliases g). al_id a = ident"
  shows "\<exists>g'. handle_deleteAlias ident g = (g', Inr ()) \<and> gw_aliases g' = filter (\<lambda>a. al_id a \<noteq> ident) (gw_aliases g) \<and> in_force g'"
  using assms by (auto simp: handle_deleteAlias_def repo_DeleteAlias_def list_ex_iff result_simps Refresh_def in_force_def)

theorem edited_alias_switched_on_witness:
  "\<exists>g' info. handle_updateAlias ''taken'' 5 1 (alias_payload_json \<lparr>alp_alias = ''n'', alp_targets = [\<lparr>tg_provider = ''u1'', tg_model = ''m''\<rparr>],
       alp_description = None, alp_visible = True\<rparr>)
     (sample_gateway\<lparr>gw_aliases := [shadowing_alias\<lparr>al_enabled := False\<rparr>]\<rparr>) = (g', Inr info) \<and> al_enabled info"
  using edited_alias_switched_on [of "shadowing_alias\<lparr>al_enabled := False\<rparr>"
      "sample_gateway\<lparr>gw_aliases := [shadowing_alias\<lparr>al_enabled := False\<rparr>]\<rparr>" 1
      "\<lparr>alp_alias = ''n'', alp_targets = [\<lparr>tg_provider = ''u1'', tg_model = ''m''\<rparr>], alp_description = None, alp_visible = True\<rparr>"
      "''taken''" 5]
  by (auto simp: shadowing_alias_def Gateway_Routing.sample_alias_def)

end
