(* ===== verification/Settings_Service.thy ===== *)
theory Settings_Service
  imports Failover Settings_Page
begin

text \<open>
  The settings on the gateway's side: the view that \<open>internal/consoleapi/api.go\<close> answers, and how the proxy reads what is
  stored (\<open>internal/gateway/failover.go\<close> and \<open>internal/gateway/settings.go\<close>). The stored text is its JSON value; that a
  value once read is used for five seconds, and errors of the database, are left out.
\<close>

section \<open>The view\<close>

text \<open>Go maps as association lists; the second overrides the first.\<close>

definition mergePolicyWithDefaults :: "(string \<times> jsval) list \<Rightarrow> (string \<times> jsval) list \<Rightarrow> (string \<times> jsval) list" where
  "mergePolicyWithDefaults overrides defaults = fold (\<lambda>(k, v). map_set k v) overrides (new_Map defaults)"

definition codeDefaultTimeouts :: "(string \<times> jsval) list" where
  "codeDefaultTimeouts =
     [(''defaultFirstByteTimeoutMs'', int_val 300000), (''streamFirstByteTimeoutMs'', int_val 30000),
      (''imageFirstByteTimeoutMs'', int_val 300000), (''responseIdleTimeoutMs'', int_val 300000)]"

definition codeDefaultFailoverPolicy :: "(string \<times> jsval) list" where
  "codeDefaultFailoverPolicy =
     [(''enabled'', JBool True), (''retryAttempts'', int_val 1), (''modelFallbackMode'', JStr ''same_model''),
      (''maxFallbackAttempts'', int_val 2), (''customModelFallbacks'', JArr []), (''retryOnTimeout'', JBool True),
      (''retryOnNetworkError'', JBool True), (''retryOnStatusCodes'', JArr [int_val 408, int_val 429]),
      (''retryOnStatusRanges'', JArr [JStr ''5xx''])]"

definition min_max :: "int \<Rightarrow> int \<Rightarrow> jsval" where
  "min_max low high = JObj [(''min'', int_val low), (''max'', int_val high)]"

definition failover_limits :: jsval where
  "failover_limits = JObj
     [(''retryAttempts'', min_max 0 5), (''maxFallbackAttempts'', min_max 0 20),
      (''customModelFallbackRules'', min_max 0 100), (''customModelFallbacksPerRule'', min_max 1 50)]"

definition timeout_limits :: jsval where
  "timeout_limits = JObj
     [(''firstByte'', min_max 1000 900000),
      (''responseIdle'', JObj [(''min'', int_val 0), (''max'', int_val 3600000), (''allowZero'', JBool True)])]"

definition writeFailoverView :: "(string \<times> jsval) list \<Rightarrow> int \<Rightarrow> jsval" where
  "writeFailoverView policy now = JObj (mergePolicyWithDefaults
     [(''defaults'', JObj codeDefaultFailoverPolicy), (''limits'', failover_limits), (''updatedAt'', int_val now)]
     (mergePolicyWithDefaults policy codeDefaultFailoverPolicy))"

definition writeTimeoutView :: "(string \<times> jsval) list \<Rightarrow> int \<Rightarrow> jsval" where
  "writeTimeoutView policy now = JObj (mergePolicyWithDefaults
     [(''defaults'', JObj codeDefaultTimeouts), (''limits'', timeout_limits), (''updatedAt'', int_val now)]
     (mergePolicyWithDefaults policy codeDefaultTimeouts))"

section \<open>What the proxy reads\<close>

record CustomRule =
  cr_Model :: string
  cr_Fallbacks :: "string list"

record FailoverPolicy =
  gp_Enabled :: bool
  gp_RetryAttempts :: int
  gp_ModelFallbackMode :: string
  gp_MaxFallbackAttempts :: int
  gp_CustomModelFallbacks :: "CustomRule list"
  gp_RetryOnTimeout :: bool
  gp_RetryOnNetworkError :: bool
  gp_RetryOnStatusCodes :: "int list"
  gp_RetryOnStatusRanges :: "string list"

definition CodeDefaultFailoverPolicy :: FailoverPolicy where
  "CodeDefaultFailoverPolicy =
     \<lparr>gp_Enabled = True, gp_RetryAttempts = 1, gp_ModelFallbackMode = ''same_model'', gp_MaxFallbackAttempts = 2,
      gp_CustomModelFallbacks = [], gp_RetryOnTimeout = True, gp_RetryOnNetworkError = True,
      gp_RetryOnStatusCodes = [408, 429], gp_RetryOnStatusRanges = [''5xx'']\<rparr>"

definition int_of_number :: "jsval \<Rightarrow> int option" where
  \<comment> \<open>\<open>int(f)\<close> of a \<open>float64\<close> in range\<close>
  "int_of_number v = (case v of JNum (Fin r) \<Rightarrow> Some (trunc_rat r) | _ \<Rightarrow> None)"

text \<open>A field of another type is as good as absent: the default stays.\<close>

definition numField :: "jsval \<Rightarrow> string \<Rightarrow> int \<Rightarrow> int" where
  "numField m key default' = (case int_of_number (js_get m key) of Some n \<Rightarrow> n | None \<Rightarrow> default')"

definition bool_field :: "jsval \<Rightarrow> string \<Rightarrow> bool \<Rightarrow> bool" where
  "bool_field m key default' = (case js_get m key of JBool b \<Rightarrow> b | _ \<Rightarrow> default')"

definition string_field :: "jsval \<Rightarrow> string \<Rightarrow> string \<Rightarrow> string" where
  "string_field m key default' = (case js_get m key of JStr s \<Rightarrow> s | _ \<Rightarrow> default')"

definition strings_of :: "jsval list \<Rightarrow> string list" where
  "strings_of vs = List.map_filter (\<lambda>v. case v of JStr s \<Rightarrow> Some s | _ \<Rightarrow> None) vs"

definition array_field :: "(jsval list \<Rightarrow> 'a list) \<Rightarrow> jsval \<Rightarrow> string \<Rightarrow> 'a list \<Rightarrow> 'a list" where
  "array_field elements m key default' = (case js_get m key of JArr vs \<Rightarrow> elements vs | _ \<Rightarrow> default')"

definition parse_rule :: "jsval \<Rightarrow> CustomRule option" where
  "parse_rule r =
     (case r of
        JObj fs \<Rightarrow> Some \<lparr>cr_Model = string_field r ''model'' [], cr_Fallbacks = array_field strings_of r ''fallbacks'' []\<rparr>
      | _ \<Rightarrow> None)"

definition parseFailoverPolicy :: "jsval \<Rightarrow> FailoverPolicy \<Rightarrow> FailoverPolicy" where
  "parseFailoverPolicy raw d =
     \<lparr>gp_Enabled = bool_field raw ''enabled'' (gp_Enabled d),
      gp_RetryAttempts = numField raw ''retryAttempts'' (gp_RetryAttempts d),
      gp_ModelFallbackMode = string_field raw ''modelFallbackMode'' (gp_ModelFallbackMode d),
      gp_MaxFallbackAttempts = numField raw ''maxFallbackAttempts'' (gp_MaxFallbackAttempts d),
      gp_CustomModelFallbacks = array_field (List.map_filter parse_rule) raw ''customModelFallbacks'' (gp_CustomModelFallbacks d),
      gp_RetryOnTimeout = bool_field raw ''retryOnTimeout'' (gp_RetryOnTimeout d),
      gp_RetryOnNetworkError = bool_field raw ''retryOnNetworkError'' (gp_RetryOnNetworkError d),
      gp_RetryOnStatusCodes = array_field (List.map_filter int_of_number) raw ''retryOnStatusCodes'' (gp_RetryOnStatusCodes d),
      gp_RetryOnStatusRanges = array_field strings_of raw ''retryOnStatusRanges'' (gp_RetryOnStatusRanges d)\<rparr>"

datatype FailoverTrigger = TriggerTimeout | TriggerNetworkError | TriggerStatus int

definition ShouldTriggerFailover :: "FailoverPolicy \<Rightarrow> FailoverTrigger \<Rightarrow> bool" where
  "ShouldTriggerFailover p trigger \<longleftrightarrow> gp_Enabled p \<and>
     (case trigger of
        TriggerTimeout \<Rightarrow> gp_RetryOnTimeout p
      | TriggerNetworkError \<Rightarrow> gp_RetryOnNetworkError p
      | TriggerStatus status \<Rightarrow> status \<in> set (gp_RetryOnStatusCodes p) \<or>
          (''5xx'' \<in> set (gp_RetryOnStatusRanges p) \<and> 500 \<le> status \<and> status \<le> 599))"

record TimeoutSettings =
  ts_DefaultFirstByteMs :: int
  ts_StreamFirstByteMs :: int
  ts_ImageFirstByteMs :: int
  ts_ResponseIdleMs :: int

definition parseTimeouts :: "jsval \<Rightarrow> TimeoutSettings \<Rightarrow> TimeoutSettings" where
  "parseTimeouts raw d =
     \<lparr>ts_DefaultFirstByteMs = numField raw ''defaultFirstByteTimeoutMs'' (ts_DefaultFirstByteMs d),
      ts_StreamFirstByteMs = numField raw ''streamFirstByteTimeoutMs'' (ts_StreamFirstByteMs d),
      ts_ImageFirstByteMs = numField raw ''imageFirstByteTimeoutMs'' (ts_ImageFirstByteMs d),
      ts_ResponseIdleMs = numField raw ''responseIdleTimeoutMs'' (ts_ResponseIdleMs d)\<rparr>"

section \<open>Lemmas\<close>

lemma map_filter_all: "(\<And>x. x \<in> set xs \<Longrightarrow> f (g x) = Some (h x)) \<Longrightarrow> List.map_filter f (map g xs) = map h xs"
  by (induction xs) (simp_all add: List.map_filter_def)

lemma strings_of_JStr [simp]: "strings_of (map JStr ss) = ss"
  using map_filter_all[of ss "\<lambda>v. case v of JStr s \<Rightarrow> Some s | _ \<Rightarrow> None" JStr "\<lambda>s. s"] by (simp add: strings_of_def)

lemma int_of_int_val: "\<bar>n\<bar> < 2 ^ 53 \<Longrightarrow> int_of_number (int_val n) = Some n"
  by (simp add: int_of_number_def int_val_def js_int_exact trunc_rat_def)

definition gateway_policy :: "GatewayFailoverPolicy \<Rightarrow> FailoverPolicy" where
  "gateway_policy p =
     \<lparr>gp_Enabled = fp_enabled p, gp_RetryAttempts = fp_retryAttempts p,
      gp_ModelFallbackMode = fallback_mode_name (fp_modelFallbackMode p), gp_MaxFallbackAttempts = fp_maxFallbackAttempts p,
      gp_CustomModelFallbacks = map (\<lambda>r. \<lparr>cr_Model = cf_model r, cr_Fallbacks = cf_fallbacks r\<rparr>) (fp_customModelFallbacks p),
      gp_RetryOnTimeout = fp_retryOnTimeout p, gp_RetryOnNetworkError = fp_retryOnNetworkError p,
      gp_RetryOnStatusCodes = fp_retryOnStatusCodes p,
      gp_RetryOnStatusRanges = map (\<lambda>_. ''5xx'') (fp_retryOnStatusRanges p)\<rparr>"

lemma parse_policy_json:
  assumes "\<bar>fp_retryAttempts p\<bar> < 2 ^ 53" and "\<bar>fp_maxFallbackAttempts p\<bar> < 2 ^ 53"
    and "\<forall>c \<in> set (fp_retryOnStatusCodes p). \<bar>c\<bar> < 2 ^ 53"
  shows "parseFailoverPolicy (policy_json p) d = gateway_policy p"
proof -
  have codes: "List.map_filter int_of_number (map int_val (fp_retryOnStatusCodes p)) = fp_retryOnStatusCodes p"
    using map_filter_all[of "fp_retryOnStatusCodes p" int_of_number int_val "\<lambda>n. n"] assms(3) by (simp add: int_of_int_val)
  have ranges: "strings_of (map (\<lambda>_. JStr ''5xx'') rs) = map (\<lambda>_. ''5xx'') rs" for rs :: "status_range list"
    using strings_of_JStr[of "map (\<lambda>_. ''5xx'') rs"] by (simp add: comp_def)
  have rules: "List.map_filter parse_rule (map (\<lambda>r. JObj [(''model'', JStr (cf_model r)),
      (''fallbacks'', JArr (map JStr (cf_fallbacks r)))]) rs) = map (\<lambda>r. \<lparr>cr_Model = cf_model r, cr_Fallbacks = cf_fallbacks r\<rparr>) rs"
    for rs :: "CustomModelFallbackRule list"
    by (rule map_filter_all) (simp add: parse_rule_def string_field_def array_field_def)
  show ?thesis
    by (simp add: parseFailoverPolicy_def policy_json_def gateway_policy_def bool_field_def string_field_def numField_def
        array_field_def int_of_int_val [OF assms(1)] int_of_int_val [OF assms(2)] codes ranges rules)
qed

lemma map_of_rev:
  assumes "distinct (map fst xs)"
  shows "map_of (rev xs) k = map_of xs k"
proof -
  have "map_of (rev xs) k = Some v \<longleftrightarrow> map_of xs k = Some v" for v
    using assms by (simp add: map_of_eq_Some_iff rev_map [symmetric])
  then show ?thesis by (metis not_Some_eq)
qed

lemma merged:
  "map_of (mergePolicyWithDefaults overrides defaults) k =
     (case map_of (rev overrides) k of Some v \<Rightarrow> Some v | None \<Rightarrow> map_of (rev defaults) k)"
  by (simp add: mergePolicyWithDefaults_def new_Map_gen map_get_new_Map split: option.split)

text \<open>The fields of a policy as they are sent.\<close>

definition policy_fields :: "GatewayFailoverPolicy \<Rightarrow> (string \<times> jsval) list" where
  "policy_fields p = (case policy_json p of JObj fs \<Rightarrow> fs | _ \<Rightarrow> [])"

lemma policy_fields_distinct: "distinct (map fst (policy_fields p))"
  by (simp add: policy_fields_def policy_json_def)

lemma view_keeps_policy:
  assumes "(k, v) \<in> set (policy_fields p)"
  shows "js_get (writeFailoverView (policy_fields p) now) k = v"
proof -
  have "k \<notin> {''defaults'', ''limits'', ''updatedAt''}" using assms by (auto simp: policy_fields_def policy_json_def)
  moreover have "map_of (policy_fields p) k = Some v"
    using assms policy_fields_distinct by (rule map_of_is_SomeI [rotated])
  then have "map_of (mergePolicyWithDefaults (policy_fields p) codeDefaultFailoverPolicy) k = Some v"
    by (simp add: merged map_of_rev policy_fields_distinct)
  moreover have "distinct (map fst (mergePolicyWithDefaults (policy_fields p) codeDefaultFailoverPolicy))"
    by (simp add: mergePolicyWithDefaults_def distinct_fold_map_set)
  ultimately show ?thesis by (simp add: writeFailoverView_def merged map_of_rev)
qed

section \<open>Properties\<close>

definition gateway_limits :: FailoverLimits where
  \<comment> \<open>\<open>failover_limits\<close> as \<open>types.ts\<close> reads them\<close>
  "gateway_limits =
     \<lparr>fl_retryAttempts = \<lparr>lim_min = 0, lim_max = 5\<rparr>, fl_maxFallbackAttempts = \<lparr>lim_min = 0, lim_max = 20\<rparr>,
      fl_customModelFallbackRules = \<lparr>lim_min = 0, lim_max = 100\<rparr>, fl_customModelFallbacksPerRule = \<lparr>lim_min = 1, lim_max = 50\<rparr>\<rparr>"


text \<open>Timeouts are in force as they were sent, in whole milliseconds, negative ones too.\<close>

theorem saved_timeouts_in_force:
  assumes "gt_defaultFirstByteTimeoutMs s = Fin (of_int a)" and "gt_streamFirstByteTimeoutMs s = Fin (of_int b)"
    and "gt_imageFirstByteTimeoutMs s = Fin (of_int c)" and "gt_responseIdleTimeoutMs s = Fin (of_int e)"
  shows "parseTimeouts (timeouts_json s) d =
    \<lparr>ts_DefaultFirstByteMs = a, ts_StreamFirstByteMs = b, ts_ImageFirstByteMs = c, ts_ResponseIdleMs = e\<rparr>"
  using assms by (simp add: parseTimeouts_def timeouts_json_def numField_def int_of_number_def trunc_rat_def)

section \<open>Witnesses\<close>


theorem saved_timeouts_in_force_witness:
  "ts_StreamFirstByteMs (parseTimeouts (timeouts_json \<lparr>gt_defaultFirstByteTimeoutMs = Fin 300000, gt_streamFirstByteTimeoutMs = Fin (- 5000),
      gt_imageFirstByteTimeoutMs = Fin 300000, gt_responseIdleTimeoutMs = Fin 0\<rparr>) d) = - 5000"
  using saved_timeouts_in_force [of "\<lparr>gt_defaultFirstByteTimeoutMs = Fin 300000, gt_streamFirstByteTimeoutMs = Fin (- 5000),
      gt_imageFirstByteTimeoutMs = Fin 300000, gt_responseIdleTimeoutMs = Fin 0\<rparr>" 300000 "- 5000" 300000 0 d] by simp

end
