(* ===== verification/Form_Parts.thy ===== *)
theory Form_Parts
  imports JS_Value
begin

text \<open>
  Parts of forms with some logic of their own: \<open>FieldError\<close> and \<open>FieldSeparator\<close> of \<open>components/ui/field.tsx\<close>, the icon
  of \<open>components/ui/input-group.tsx\<close> that a click turns into a focus, and \<open>components/help-dialog-button.tsx\<close>. Children are
  markup; of them only whether there are any matters.
\<close>

section \<open>Errors of a field\<close>

text \<open>An error may be undefined, and so may its message.\<close>

type_synonym field_error = "string option option"

definition error_message :: "field_error \<Rightarrow> string option" where
  "error_message e = (case e of None \<Rightarrow> None | Some m \<Rightarrow> m)"

datatype 'm ErrorContent = Given 'm | Single string | Listing "string list"

definition shown_messages :: "field_error list \<Rightarrow> string list" where
  \<comment> \<open>\<open>error?.message && <li>...</li>\<close>\<close>
  "shown_messages es = List.map_filter (\<lambda>e. case error_message e of None \<Rightarrow> None | Some m \<Rightarrow> if m = [] then None else Some m) es"

definition FieldError :: "'m option \<Rightarrow> field_error list option \<Rightarrow> 'm ErrorContent option" where
  "FieldError children errors =
     (case children of
        Some c \<Rightarrow> Some (Given c)
      | None \<Rightarrow>
          (case errors of
             None \<Rightarrow> None
           | Some es \<Rightarrow>
               if es = [] then None
               else
                 (let uniqueErrors = map snd (new_Map (map (\<lambda>e. (error_message e, e)) es))
                  in if length uniqueErrors = 1
                     then (case error_message (hd uniqueErrors) of
                             None \<Rightarrow> None | Some m \<Rightarrow> if m = [] then None else Some (Single m))
                     else Some (Listing (shown_messages uniqueErrors)))))"

text \<open>The attribute \<open>data-content\<close> of a separator and whether it has a label.\<close>

definition FieldSeparator :: "'m option \<Rightarrow> bool \<times> 'm option" where
  "FieldSeparator children = (children \<noteq> None, children)"

section \<open>A click on an addon\<close>

text \<open>Unless the click was on a button within, the input of the group is focused, if it has one.\<close>

definition addon_click :: "bool \<Rightarrow> 'input option \<Rightarrow> 'input option \<Rightarrow> 'input option" where
  "addon_click on_button group_input focused =
     (if on_button then focused else case group_input of None \<Rightarrow> focused | Some i \<Rightarrow> Some i)"

section \<open>The help button\<close>

datatype 'm HelpView = HelpView string "(string \<times> string option \<times> 'm) option" \<comment> \<open>label, and title, description and body when open\<close>

definition HelpDialogButton :: "string \<Rightarrow> string option \<Rightarrow> string \<Rightarrow> 'm \<Rightarrow> bool \<Rightarrow> 'm HelpView" where
  "HelpDialogButton title description buttonLabel children is_open =
     HelpView buttonLabel
       (if is_open
        then Some (title, case description of None \<Rightarrow> None | Some d \<Rightarrow> if d = [] then None else Some d, children) else None)"

datatype HelpEvent = Press_help | Open_change bool

fun help_step :: "HelpEvent \<Rightarrow> bool \<Rightarrow> bool" where
  "help_step Press_help _ = True"
| "help_step (Open_change is_open) _ = is_open"

section \<open>Properties\<close>

fun shown_errors :: "'m ErrorContent option \<Rightarrow> string list" where
  "shown_errors (Some (Single m)) = [m]"
| "shown_errors (Some (Listing ms)) = ms"
| "shown_errors _ = []"

lemma map_set_keys_list: "map fst (map_set k v m) = set_add k (map fst m)"
  by (induction m) (auto simp: set_add_def)

lemma keys_new_Map_list: "map fst (new_Map ps) = new_Set (map fst ps)"
proof -
  have "map fst (fold (\<lambda>(k, v). map_set k v) ps m) = fold set_add (map fst ps) (map fst m)" for m
    by (induction ps arbitrary: m) (auto simp: map_set_keys_list)
  from this[of "[]"] show ?thesis by (simp add: new_Map_def new_Set_def)
qed

lemma new_Map_pairs: "p \<in> set (new_Map ps) \<Longrightarrow> p \<in> set ps"
proof -
  have "map_get (new_Map ps) k = Some v \<Longrightarrow> (k, v) \<in> set ps" for k v
    using map_of_SomeD[of "rev ps" k v] by (simp add: map_get_new_Map)
  then show "p \<in> set (new_Map ps) \<Longrightarrow> p \<in> set ps" by (cases p) simp
qed

lemma filter_new_Set: "filter P (new_Set xs) = new_Set (filter P xs)"
proof -
  have "filter P (fold set_add xs m) = fold set_add (filter P xs) (filter P m)" for m
    by (induction xs arbitrary: m) (auto simp: set_add_def)
  from this[of "[]"] show ?thesis by (simp add: new_Set_def)
qed

lemma map_new_Set: "inj_on f (set xs) \<Longrightarrow> map f (new_Set xs) = new_Set (map f xs)"
proof -
  have "inj_on f (set xs \<union> set m) \<Longrightarrow> map f (fold set_add xs m) = fold set_add (map f xs) (map f m)" for m
  proof (induction xs arbitrary: m)
    case (Cons x xs)
    have "f x \<in> f ` set m \<longleftrightarrow> x \<in> set m" using Cons.prems by (auto simp: inj_on_def)
    moreover have "inj_on f (set xs \<union> set (set_add x m))"
      using Cons.prems by (auto simp: set_add_def inj_on_def)
    ultimately show ?case using Cons.IH[of "set_add x m"] by (auto simp: set_add_def)
  qed simp
  from this[of "[]"] show "inj_on f (set xs) \<Longrightarrow> map f (new_Set xs) = new_Set (map f xs)" by (simp add: new_Set_def)
qed

lemma shown_messages_alt:
  "shown_messages es = map the (filter (\<lambda>m. m \<noteq> None \<and> m \<noteq> Some []) (map error_message es))"
  by (induction es) (auto simp: shown_messages_def List.map_filter_def split: option.splits)

text \<open>
  A field shows each message of its errors once, in the order in which they first came, and no error without a text.
\<close>

theorem field_errors_shown_once: "shown_errors (FieldError None (Some es)) = new_Set (shown_messages es)"
proof -
  let ?ps = "map (\<lambda>e. (error_message e, e)) es"
  let ?us = "map snd (new_Map ?ps)"
  let ?ok = "\<lambda>m. m \<noteq> None \<and> m \<noteq> Some []"
  have "map error_message ?us = map fst (new_Map ?ps)"
    by (fastforce dest: new_Map_pairs)
  then have keys: "map error_message ?us = new_Set (map error_message es)"
    by (simp add: keys_new_Map_list comp_def)
  have "inj_on the (set (filter ?ok (map error_message es)))" by (auto simp: inj_on_def)
  then have unique: "shown_messages ?us = new_Set (shown_messages es)"
    unfolding shown_messages_alt keys filter_new_Set by (rule map_new_Set)
  show ?thesis
  proof (cases "length ?us = 1")
    case True
    then obtain u where u: "?us = [u]" by (cases ?us) auto
    have "es = [] \<Longrightarrow> ?us = []" by (simp add: new_Map_def)
    with u have "es \<noteq> []" by auto
    then have "shown_errors (FieldError None (Some es)) = shown_messages [u]"
      using u by (auto simp: FieldError_def Let_def shown_messages_def List.map_filter_def split: option.splits)
    with u unique show ?thesis by simp
  next
    case False
    then show ?thesis
      using unique by (cases "es = []") (simp_all add: FieldError_def Let_def shown_messages_def new_Set_def List.map_filter_def)
  qed
qed

end
