(* ===== verification/Spec2Isabelle.thy ===== *)
theory Spec2Isabelle
  imports Sse Requests Loaders Pager Gateway_Routing Page_Texts Chart_Tooltips Api_Docs Alias_Service Settings_Service Form_Parts
begin

text \<open>
  A model of the console of llm-relay-go, the React dashboard under \<open>src/web/dashboard/src/\<close> (paths
  below are relative to it; \<open>features/dashboard/\<close> is left out). The gateway is a Go program that relays
  model requests to channels; the dashboard shows its request log and edits its channels, aliases, keys
  and policies over the gateway's console API. The browser is the program modelled here; the gateway is
  the other side of the requests, and its answers are arguments, but for the parts of it listed last.

  Parts and theories.
  \<^item> \<open>Prelude\<close>: results with a thrown message, JavaScript's Map, Set, stable sort and string methods, with
    the simplification sets \<open>result_simps\<close>, \<open>js_collections\<close>, \<open>js_strings\<close>.
  \<^item> \<open>JS_Number\<close>, \<open>JS_Text\<close>, \<open>JS_Value\<close>: numbers (NaN, infinities and rationals rounded to binary64), their
    texts and \<open>Number(s)\<close>, values of type \<open>unknown\<close>, \<open>JSON.parse\<close> and \<open>JSON.stringify\<close>; \<open>Json_Roundtrip\<close>: what is
    written is read back.
  \<^item> \<open>Types\<close>: the records of \<open>types.ts\<close>.
  \<^item> \<open>Format\<close>, \<open>Sse\<close>, \<open>Requests\<close>: \<open>utils.ts\<close> and \<open>utils/channel-health.ts\<close>: formatting and cost tables; recorded event
    streams; sorting and channel health.
  \<^item> \<open>Url\<close>, \<open>Hash_Route\<close>: URI encoding, \<open>URLSearchParams\<close> and the hash router \<open>hooks/use-hash-route.ts\<close>.
  \<^item> \<open>Api\<close>: \<open>api.ts\<close>; a request is a record of URL, method, headers and body, an answer an argument.
  \<^item> \<open>Loaders\<close>: the hooks \<open>use-dashboard-data\<close>, \<open>use-usage-stats\<close>, \<open>use-dashboard-stats\<close> and the loader of
    \<open>detail-page.tsx\<close>. Each guards its answers by a counter; the locale \<open>latest_wins\<close> states that contract and
    each hook is an interpretation of it.
  \<^item> \<open>App\<close>: the session of \<open>App.tsx\<close> and the login form; \<open>Shell\<close>: \<open>components/session-shell.tsx\<close> and
    \<open>components/nav-bar.tsx\<close>, the screens before the console and the bar with its menus.
  \<^item> \<open>Route_Map\<close>, \<open>Failover\<close>, \<open>Routes_Page\<close>: \<open>components/routes-page.tsx\<close>: the route map computed from aliases,
    channels and policy; the failover form; the page; \<open>Routes_View\<close>: what it shows. \<open>Gateway_Routing\<close>: the choice of routes of the gateway
    (\<open>internal/routing/\<close>, \<open>internal/gateway/handler.go\<close> under \<open>src/\<close>), the reference for that map.
  \<^item> \<open>Keyed_List\<close>: the lists the pages keep in step with the server, as the locale \<open>mirrored_store\<close>.
  \<^item> \<open>Providers\<close>, \<open>Providers_Page\<close>: \<open>components/providers-page.tsx\<close>: the channel form; the page;
    \<open>Providers_Import\<close>: the export of all channels and the import; \<open>Providers_View\<close>: what page and dialogs show.
  \<^item> \<open>Keys\<close> with \<open>Keys_View\<close>, \<open>Models_Page\<close>, \<open>Settings_Page\<close>: the pages of that name: keys with quotas and allowed
    models, the metadata dialog, the timeouts; \<open>Clipboard\<close>: the two copy functions; \<open>JS_Decimal\<close>: a number printed and read again is the number.
  \<^item> \<open>Monitor\<close> and \<open>Monitor_View\<close>, \<open>Usage_Page\<close>, \<open>Request_Log\<close> and \<open>Log_View\<close>, \<open>Detail_View\<close>: what \<open>dashboard-page.tsx\<close>, \<open>usage-page.tsx\<close>,
    \<open>logs-page.tsx\<close> and \<open>detail-view.tsx\<close> with their tables, cards and charts' data show of what the loaders
    hold; \<open>Grouping\<close>: grouping by a key in one pass over a Map; \<open>Pager\<close>, \<open>Combobox\<close>:
    \<open>components/ui/pagination.tsx\<close> and \<open>components/ui/combobox.tsx\<close>.
  \<^item> \<open>Chart\<close>, \<open>Chart_Tooltips\<close>: \<open>components/ui/chart.tsx\<close>, and what the charts of the pages hand to it; \<open>Api_Docs\<close>:
    \<open>components/api-docs-page.tsx\<close>.
  \<^item> \<open>Form_Parts\<close>: errors of a field and help button, \<open>components/ui/field.tsx\<close> and \<open>components/help-dialog-button.tsx\<close>.
  \<^item> \<open>Console_Mux\<close>, \<open>Key_Service\<close>, \<open>Config_Service\<close>, \<open>Alias_Service\<close>, \<open>Settings_Service\<close>: the console API of the gateway
    (\<open>internal/consoleapi/api.go\<close>, \<open>internal/repo/\<close>, \<open>internal/gateway/failover.go\<close> and \<open>settings.go\<close>, and the dispatch of
    \<open>cmd/server/main.go\<close>, under \<open>src/\<close>): which operation a request reaches, the operations on keys, channels, aliases and
    settings, and when a change reaches the snapshot of \<open>Gateway_Routing\<close>. With them the forms are followed to the stored
    row and to what the proxy makes of it.
  \<^item> \<open>Messages\<close>, \<open>Locale_En\<close>, \<open>Locale_Zh\<close>: the text tables \<open>i18n/locales/*.ts\<close>; \<open>Locale_Texts\<close>, \<open>Page_Texts\<close>: the
    texts the pages ask for are there; \<open>I18n\<close>: \<open>i18n/index.ts\<close>; \<open>Theme_Provider\<close>: \<open>components/theme-provider.tsx\<close>.

  Conventions. A component's \<open>useState\<close> and \<open>useRef\<close> cells are one record; a handler is a function on it. An
  asynchronous handler is cut at its \<open>await\<close>: the part before it returns the request, the part after it takes
  the outcome (\<open>Inl\<close> the message of the error, \<open>Inr\<close> the value), so that a run is a list of starts and
  answers in any order. Strings are lists of bytes in UTF-8. What a page shows is a function of its state
  and of the translator \<open>t\<close>, which takes a key and the values a text asks for. \<open>localeCompare\<close>, the calendar, random ids and the translator are arguments.
  \<open>JSON.parse\<close> runs on fuel twice the length of its text plus two, which every nesting of a text of that
  length fits in: \<open>Json_Roundtrip\<close> shows that whatever \<open>JSON.stringify\<close> writes is read.

  What the lemmas show. \<open>Requests\<close>, \<open>Sse\<close> and \<open>Format\<close>: the aggregates, orders and totals on screen are those
  of the data. \<open>Hash_Route\<close> and \<open>Api\<close>: what is put into a URL is read back. \<open>Loaders\<close>: late answers never
  replace newer ones, spinners end, filters stick, and a poll faster than the server starves the page. \<open>App\<close>:
  pages are shown exactly to a session with access. \<open>Route_Map\<close>: the table names each routable request once,
  the best primary route, and sound and complete fallbacks. \<open>Gateway_Routing\<close>: where the map agrees with the
  gateway, and the two kinds of routes it shows that are never taken. \<open>Failover\<close>, \<open>Providers\<close>, \<open>Routes_Page\<close>: forms and
  payloads are inverse to each other but for the losses stated. \<open>Providers_Import\<close>: an imported export creates the
  exported channels in their order; a refused one leaves a stale list. \<open>Providers_Page\<close>: tests settle, a submit has a
  target, dialogs are guarded; and two late answers that end up in the wrong dialog. \<open>Keys\<close>: list and secret follow
  the server, only sound quotas are sent. \<open>Settings_Page\<close> and \<open>Models_Page\<close>: an untouched form sends exactly
  what it shows, by the round trip of \<open>JS_Decimal\<close>; the limits the gateway really answers switch the range
  check off. \<open>Monitor\<close>: trend and sparklines equal a group-by-filter reference. \<open>Request_Log\<close>: paging shows every
  record once. \<open>Detail_View\<close>: every value of a payload can be reached in the tree. \<open>Page_Texts\<close>: the two languages
  have the same keys and values, and no page asks for anything else. \<open>Theme_Provider\<close>: the document shows the theme.
  \<open>Console_Mux\<close>: every call of the client but one reaches its operation. \<open>Key_Service\<close>: the operations on keys refine a
  map; allowed models are kept and enforced, quotas are not. \<open>Config_Service\<close>: an unchanged save keeps a channel as it is
  listed, and changes are in force at once; what the two sides do not agree on is stated as well: cleared credentials
  that stay, channels switched off but still routed, names that are taken, switched aliases, and metadata.
  \<open>Alias_Service\<close>: an edit switches an alias on. \<open>Settings_Service\<close>: a saved policy is the one in force.

  Not modelled: the rest of the Go gateway, the UI primitives (styled wrappers around third-party components), CSS and
  the drawing of charts, the calendar, and the lookup of a text by its key (i18next).
\<close>

end
